(* ===== verification/Prelude.thy ===== *)
theory Prelude
  imports Main "HOL-Library.Multiset"
begin

text \<open>
  Shared vocabulary of the development: the errors a Go call of this repository can return,
  the state-and-error actions in which the reconcilers are written, the fragment of the Go
  standard library the sources use on strings and slices (\<^verbatim>\<open>strings.Split\<close>,
  \<^verbatim>\<open>strings.Join\<close>, \<^verbatim>\<open>strings.HasPrefix\<close>, \<^verbatim>\<open>strconv.Itoa\<close>,
  \<^verbatim>\<open>sort.Strings\<close>), and the generic lemmas the components rest on.  A Go string is a sequence
  of bytes, so it is a \<^typ>\<open>string\<close> here (a character is one of 256 values).
\<close>

named_theorems act_simps \<open>unfolding rules for actions\<close>
named_theorems key_simps \<open>label and annotation keys are pairwise distinct\<close>
named_theorems client_simps \<open>what a quiescent API client answers\<close>

section \<open>Errors\<close>

text \<open>
  The errors the code tells apart.  The first five are answers of the API server
  (\<^verbatim>\<open>*apierrors.StatusError\<close>) by reason: \<^verbatim>\<open>StatusReasonNotFound\<close>, the
  repository's own reason \<^verbatim>\<open>util.CRNotFound\<close>, \<^verbatim>\<open>StatusReasonConflict\<close>,
  \<^verbatim>\<open>StatusReasonAlreadyExists\<close>, and code 422 with \<^verbatim>\<open>StatusReasonInvalid\<close>, which
  carries the messages of its causes.  \<open>GoErr\<close> is any other error value, \<open>Wrapped\<close> an error
  wrapped with a message, \<open>Panic\<close> a run-time panic (an index out of range, a nil pointer).
\<close>

datatype gerror =
    ApiNotFound
  | ApiCRNotFound
  | ApiConflict
  | ApiAlreadyExists
  | ApiInvalid "string list"
  | GoErr string
  | Wrapped string gerror
  | Panic

type_synonym 'a res = "gerror + 'a"

section \<open>Actions: state passing with errors\<close>

text \<open>
  An action reads and changes the state of the world (\<open>'s\<close>, chosen by whoever provides the API
  client) and returns a value or an error.  An error ends the action, as
  \<^verbatim>\<open>if err != nil { return err }\<close> does; what was written before stays written.
\<close>

type_synonym ('s, 'a) act = "'s \<Rightarrow> 'a res \<times> 's"

definition ret :: "'a \<Rightarrow> ('s, 'a) act" where
  "ret x = (\<lambda>s. (Inr x, s))"

definition failE :: "gerror \<Rightarrow> ('s, 'a) act" where
  "failE e = (\<lambda>s. (Inl e, s))"

definition liftE :: "'a res \<Rightarrow> ('s, 'a) act" where
  "liftE r = (\<lambda>s. (r, s))"

definition bindE :: "('s, 'a) act \<Rightarrow> ('a \<Rightarrow> ('s, 'b) act) \<Rightarrow> ('s, 'b) act" where
  "bindE m f = (\<lambda>s. case m s of (Inl e, s') \<Rightarrow> (Inl e, s') | (Inr x, s') \<Rightarrow> f x s')"

definition handleE :: "('s, 'a) act \<Rightarrow> ('a res \<Rightarrow> ('s, 'b) act) \<Rightarrow> ('s, 'b) act" where
  "handleE m f = (\<lambda>s. case m s of (r, s') \<Rightarrow> f r s')"

primrec forE :: "'a list \<Rightarrow> ('a \<Rightarrow> ('s, unit) act) \<Rightarrow> ('s, unit) act" where
  "forE [] f = ret ()"
| "forE (x # xs) f = bindE (f x) (\<lambda>_. forE xs f)"

primrec foldE :: "('b \<Rightarrow> 'a \<Rightarrow> ('s, 'b) act) \<Rightarrow> 'b \<Rightarrow> 'a list \<Rightarrow> ('s, 'b) act" where
  "foldE f b [] = ret b"
| "foldE f b (x # xs) = bindE (f b x) (\<lambda>b'. foldE f b' xs)"

definition bindR :: "'a res \<Rightarrow> ('a \<Rightarrow> 'b res) \<Rightarrow> 'b res" where
  "bindR r f = (case r of Inl e \<Rightarrow> Inl e | Inr x \<Rightarrow> f x)"

primrec foldR :: "('b \<Rightarrow> 'a \<Rightarrow> 'b res) \<Rightarrow> 'b \<Rightarrow> 'a list \<Rightarrow> 'b res" where
  "foldR f b [] = Inr b"
| "foldR f b (x # xs) = bindR (f b x) (\<lambda>b'. foldR f b' xs)"

lemma ret_app [simp, act_simps]: "ret x s = (Inr x, s)"
  by (simp add: ret_def)

lemma failE_app [simp, act_simps]: "failE e s = (Inl e, s)"
  by (simp add: failE_def)

lemma liftE_app [simp, act_simps]: "liftE r s = (r, s)"
  by (simp add: liftE_def)

lemma bindE_Inl [simp]: "m s = (Inl e, s') \<Longrightarrow> bindE m f s = (Inl e, s')"
  by (simp add: bindE_def)

lemma bindE_Inr [simp]: "m s = (Inr x, s') \<Longrightarrow> bindE m f s = f x s'"
  by (simp add: bindE_def)

lemma handleE_app [simp]: "m s = (r, s') \<Longrightarrow> handleE m f s = f r s'"
  by (simp add: handleE_def)

lemma bindE_app [act_simps]:
  "bindE m f s = (case m s of (Inl e, s') \<Rightarrow> (Inl e, s') | (Inr x, s') \<Rightarrow> f x s')"
  by (simp add: bindE_def)

lemma handleE_case [act_simps]: "handleE m f s = (case m s of (r, s') \<Rightarrow> f r s')"
  by (simp add: handleE_def)

text \<open>Inversion: a sequence that returned has run both parts.\<close>

lemma bindE_Inr_iff:
  "bindE m f s = (Inr y, t) \<longleftrightarrow> (\<exists>x u. m s = (Inr x, u) \<and> f x u = (Inr y, t))"
  by (auto simp: bindE_def split: prod.splits sum.splits)

lemma bindE_InrE:
  assumes "bindE m f s = (Inr y, t)"
  obtains x u where "m s = (Inr x, u)" and "f x u = (Inr y, t)"
  using assms by (auto simp: bindE_Inr_iff)

lemma handleE_iff: "handleE m f s = z \<longleftrightarrow> (\<exists>r u. m s = (r, u) \<and> f r u = z)"
  by (auto simp: handleE_def split: prod.splits)

lemma bindR_simps [simp]: "bindR (Inl e) f = Inl e" "bindR (Inr x) f = f x"
  by (simp_all add: bindR_def)

lemma bindR_Inr_iff: "bindR r f = Inr y \<longleftrightarrow> (\<exists>x. r = Inr x \<and> f x = Inr y)"
  by (cases r) simp_all

lemma bindE_cong [fundef_cong]:
  assumes "m = m'" and "\<And>x. f x = f' x"
  shows "bindE m f = bindE m' f'"
proof -
  have "f = f'" using assms(2) by (rule ext)
  with assms(1) show ?thesis by simp
qed

lemma bindE_ret [simp]: "bindE m ret = m"
  by (rule ext) (auto simp: bindE_def split: prod.splits sum.splits)

lemma ret_bindE [simp]: "bindE (ret x) f = f x"
  by (rule ext) (simp add: bindE_def)

lemma failE_bindE [simp]: "bindE (failE e) f = failE e"
  by (rule ext) (simp add: bindE_def)

lemma bindE_assoc: "bindE (bindE m f) g = bindE m (\<lambda>x. bindE (f x) g)"
  by (rule ext) (auto simp: bindE_def split: prod.splits sum.splits)

lemma foldR_total:
  "(\<And>b x. P b \<Longrightarrow> x \<in> set xs \<Longrightarrow> \<exists>b'. f b x = Inr b' \<and> P b') \<Longrightarrow> P b \<Longrightarrow> \<exists>b'. foldR f b xs = Inr b' \<and> P b'"
proof (induction xs arbitrary: b)
  case (Cons x xs)
  from Cons.prems obtain b1 where b1: "f b x = Inr b1" "P b1" by (metis list.set_intros(1))
  have "\<exists>b'. foldR f b1 xs = Inr b' \<and> P b'" by (rule Cons.IH) (use Cons.prems(1) b1 in auto)
  with b1 show ?case by simp
qed simp

lemma foldR_append: "foldR f b (xs @ ys) = bindR (foldR f b xs) (\<lambda>b'. foldR f b' ys)"
  by (induction xs arbitrary: b) (simp_all add: bindR_def split: sum.split)

lemma foldR_nested:
  "foldR (\<lambda>b x. foldR (g x) b (h x)) b xs = foldR (\<lambda>b (x, y). g x b y) b (concat (map (\<lambda>x. map (Pair x) (h x)) xs))"
proof (induction xs arbitrary: b)
  case (Cons x xs)
  have "foldR (g x) b ys = foldR (\<lambda>b (x, y). g x b y) b (map (Pair x) ys)" for b ys
    by (induction ys arbitrary: b) (simp_all add: bindR_def split: sum.split)
  with Cons show ?case by (simp add: foldR_append)
qed simp

text \<open>An invariant of a fold relates what was visited to what was collected.\<close>

lemma foldR_invariant:
  assumes "\<And>ys b x b'. I ys b \<Longrightarrow> f b x = Inr b' \<Longrightarrow> I (ys @ [x]) b'"
  shows "I ys b \<Longrightarrow> foldR f b xs = Inr b' \<Longrightarrow> I (ys @ xs) b'"
proof (induction xs arbitrary: ys b)
  case (Cons x xs)
  then obtain b1 where "f b x = Inr b1" "foldR f b1 xs = Inr b'" by (auto simp: bindR_def split: sum.splits)
  with Cons.IH [of "ys @ [x]" b1] assms [OF Cons.prems(1)] show ?case by simp
qed simp

section \<open>Actions that succeed\<close>

text \<open>The action returns a value without an error, and the value and the state satisfy \<open>Q\<close>.\<close>

definition reaches :: "('s, 'a) act \<Rightarrow> 's \<Rightarrow> ('a \<Rightarrow> 's \<Rightarrow> bool) \<Rightarrow> bool" where
  "reaches m s Q \<longleftrightarrow> (\<exists>v s'. m s = (Inr v, s') \<and> Q v s')"

lemma reachesI: "m s = (Inr v, s') \<Longrightarrow> Q v s' \<Longrightarrow> reaches m s Q"
  by (auto simp: reaches_def)

lemma reaches_bindE:
  assumes "reaches m s P" and "\<And>v s'. P v s' \<Longrightarrow> reaches (f v) s' Q"
  shows "reaches (bindE m f) s Q"
  using assms by (fastforce simp: reaches_def)

lemma reaches_conseq: "reaches m s P \<Longrightarrow> (\<And>v s'. P v s' \<Longrightarrow> Q v s') \<Longrightarrow> reaches m s Q"
  by (auto simp: reaches_def)

lemma reaches_forE:
  assumes "P 0 s" and "\<And>i s. P i s \<Longrightarrow> reaches (f a) s (\<lambda>_. P (Suc i))"
  shows "reaches (forE (replicate n a) f) s (\<lambda>_. P n)"
proof -
  have "reaches (forE (replicate n a) f) s (\<lambda>_. P (i + n))" if "P i s" for i
    using that
  proof (induction n arbitrary: i s)
    case 0
    then show ?case by (simp add: reaches_def ret_def)
  next
    case (Suc n)
    show ?case unfolding replicate_Suc forE.simps
      by (rule reaches_bindE [OF assms(2) [OF Suc.prems]]) (use Suc.IH [of "Suc i"] in simp)
  qed
  from this [OF assms(1)] show ?thesis by simp
qed

section \<open>The Go string library\<close>

text \<open>\<^verbatim>\<open>strings.Split(s, sep)\<close> for a one-byte separator.\<close>

fun splitOn :: "char \<Rightarrow> string \<Rightarrow> string list" where
  "splitOn c [] = [[]]"
| "splitOn c (x # xs) =
     (if x = c then [] # splitOn c xs
      else (case splitOn c xs of [] \<Rightarrow> [[x]] | w # ws \<Rightarrow> (x # w) # ws))"

text \<open>\<^verbatim>\<open>strings.Join(elems, sep)\<close>.\<close>

fun joinStr :: "string \<Rightarrow> string list \<Rightarrow> string" where
  "joinStr sep [] = []"
| "joinStr sep [x] = x"
| "joinStr sep (x # y # xs) = x @ sep @ joinStr sep (y # xs)"

definition hasPrefix :: "string \<Rightarrow> string \<Rightarrow> bool" where
  "hasPrefix s p \<longleftrightarrow> take (length p) s = p"

definition hasSuffix :: "string \<Rightarrow> string \<Rightarrow> bool" where
  "hasSuffix s p \<longleftrightarrow> length p \<le> length s \<and> drop (length s - length p) s = p"

definition trimPrefix :: "string \<Rightarrow> string \<Rightarrow> string" where
  "trimPrefix s p = (if hasPrefix s p then drop (length p) s else s)"

definition trimSuffix :: "string \<Rightarrow> string \<Rightarrow> string" where
  "trimSuffix s p = (if hasSuffix s p then take (length s - length p) s else s)"

text \<open>\<^verbatim>\<open>strings.Trim(s, cutset)\<close> for a one-byte cutset.\<close>

definition trimChar :: "char \<Rightarrow> string \<Rightarrow> string" where
  "trimChar c s = rev (dropWhile (\<lambda>x. x = c) (rev (dropWhile (\<lambda>x. x = c) s)))"

lemma splitOn_nonempty [simp]: "splitOn c s \<noteq> []"
  by (induction s) (auto split: list.splits)

lemma splitOn_no_sep: "c \<notin> set s \<Longrightarrow> splitOn c s = [s]"
  by (induction s) auto

lemma splitOn_append: "c \<notin> set a \<Longrightarrow> splitOn c (a @ c # b) = a # splitOn c b"
  by (induction a) auto

lemma splitOn_pair:
  "c \<notin> set a \<Longrightarrow> c \<notin> set b \<Longrightarrow> splitOn c (a @ c # b) = [a, b]"
  by (simp add: splitOn_append splitOn_no_sep)

lemma joinStr_Cons: "ws \<noteq> [] \<Longrightarrow> joinStr sep (w # ws) = w @ sep @ joinStr sep ws"
  by (cases ws) simp_all

lemma splitOn_joinStr:
  "ws \<noteq> [] \<Longrightarrow> \<forall>w \<in> set ws. c \<notin> set w \<Longrightarrow> splitOn c (joinStr [c] ws) = ws"
proof (induction ws)
  case (Cons w ws)
  then show ?case
    by (cases "ws = []") (simp_all add: splitOn_no_sep joinStr_Cons splitOn_append)
qed simp

lemma join_split: "joinStr [c] (splitOn c s) = s"
proof (induction s)
  case Nil
  show ?case by simp
next
  case (Cons x xs)
  obtain w ws where ws: "splitOn c xs = w # ws"
    by (cases "splitOn c xs") auto
  with Cons show ?case
    by (cases ws) (auto simp: joinStr_Cons)
qed

text \<open>\<^verbatim>\<open>strings.Contains\<close>.\<close>

fun containsSub :: "string \<Rightarrow> string \<Rightarrow> bool" where
  "containsSub [] p \<longleftrightarrow> p = []"
| "containsSub (c # s) p \<longleftrightarrow> hasPrefix (c # s) p \<or> containsSub s p"

lemma hasPrefix_append [simp]: "hasPrefix (p @ s) p"
  by (simp add: hasPrefix_def)

lemma hasPrefix_iff: "hasPrefix s p \<longleftrightarrow> (\<exists>t. s = p @ t)"
  by (metis append_take_drop_id hasPrefix_append hasPrefix_def)

lemma trimPrefix_append [simp]: "trimPrefix (p @ s) p = s"
  by (simp add: trimPrefix_def)

lemma hasSuffix_append [simp]: "hasSuffix (s @ p) p"
  by (simp add: hasSuffix_def)

lemma trimSuffix_append [simp]: "trimSuffix (s @ p) p = s"
  by (simp add: trimSuffix_def)

lemma containsSub_infix: "containsSub (a @ p @ b) p"
proof (induction a)
  case Nil
  have "hasPrefix (p @ b) p" by simp
  then show ?case by (cases "p @ b") (auto simp: hasPrefix_def)
next
  case (Cons x a)
  then show ?case by simp
qed

lemma containsSub_join: "w \<in> set ws \<Longrightarrow> containsSub (joinStr sep ws) w"
proof (induction ws)
  case (Cons v ws)
  have "containsSub (joinStr sep (v # ws)) v"
    using containsSub_infix [of "[]" v "drop (length v) (joinStr sep (v # ws))"]
    by (cases "ws = []") (simp_all add: joinStr_Cons)
  moreover have "containsSub (joinStr sep (v # ws)) w" if "w \<in> set ws"
  proof -
    have "containsSub s w \<Longrightarrow> containsSub (a @ s) w" for a s
      by (induction a) simp_all
    moreover have "ws \<noteq> []" using that by auto
    ultimately show ?thesis using Cons.IH [OF that] by (metis append.assoc joinStr_Cons)
  qed
  ultimately show ?case using Cons.prems by auto
qed simp

text \<open>\<^verbatim>\<open>strconv.Itoa\<close>, and the digits back to a number.\<close>

definition digitChar :: "nat \<Rightarrow> char" where
  "digitChar d = char_of (48 + d)"

fun itoaNat :: "nat \<Rightarrow> string" where
  "itoaNat n = (if n < 10 then [digitChar n] else itoaNat (n div 10) @ [digitChar (n mod 10)])"

declare itoaNat.simps [simp del]

definition itoa :: "int \<Rightarrow> string" where
  "itoa i = (if i < 0 then CHR ''-'' # itoaNat (nat (- i)) else itoaNat (nat i))"

definition charDigit :: "char \<Rightarrow> nat" where
  "charDigit c = of_char c - 48"

definition isDigit :: "char \<Rightarrow> bool" where
  "isDigit c \<longleftrightarrow> 48 \<le> (of_char c :: nat) \<and> (of_char c :: nat) \<le> 57"

definition digitsVal :: "string \<Rightarrow> nat" where
  "digitsVal s = foldl (\<lambda>a c. 10 * a + charDigit c) 0 s"

lemma of_char_digitChar: "d < 10 \<Longrightarrow> (of_char (digitChar d) :: nat) = 48 + d"
  by (simp add: digitChar_def)

lemma charDigit_digitChar [simp]: "d < 10 \<Longrightarrow> charDigit (digitChar d) = d"
  by (simp add: charDigit_def of_char_digitChar)

lemma isDigit_digitChar [simp]: "d < 10 \<Longrightarrow> isDigit (digitChar d)"
  by (simp add: isDigit_def of_char_digitChar)

lemma digitsVal_itoaNat: "digitsVal (itoaNat n) = n"
proof (induction n rule: itoaNat.induct)
  case (1 n)
  show ?case
  proof (cases "n < 10")
    case True
    then show ?thesis by (simp add: itoaNat.simps [of n] digitsVal_def)
  next
    case False
    with 1 have "digitsVal (itoaNat (n div 10)) = n div 10" by simp
    with False show ?thesis
      by (simp add: itoaNat.simps [of n] digitsVal_def)
  qed
qed

lemma inj_itoaNat: "inj itoaNat"
  by (metis digitsVal_itoaNat injI)

lemma itoaNat_digits: "\<forall>c \<in> set (itoaNat n). isDigit c"
proof (induction n rule: itoaNat.induct)
  case (1 n)
  then show ?case
    by (cases "n < 10") (simp_all add: itoaNat.simps [of n])
qed

lemma itoaNat_nonempty [simp]: "itoaNat n \<noteq> []"
  by (simp add: itoaNat.simps [of n])

lemma itoa_int [simp]: "itoa (int n) = itoaNat n"
  by (simp add: itoa_def)

lemma itoaNat_eq_iff [simp]: "itoaNat m = itoaNat n \<longleftrightarrow> m = n"
  using inj_itoaNat by (auto dest: injD)

lemma isDigit_not_dash: "isDigit c \<Longrightarrow> c \<noteq> CHR ''-''"
  by (auto simp: isDigit_def)

text \<open>\<^verbatim>\<open>strconv.ParseInt(s, 10, 64)\<close>: an optional sign and digits, within 64 bits.\<close>

definition parseInt64 :: "string \<Rightarrow> int option" where
  "parseInt64 s =
     (let (neg, ds) = (case s of [] \<Rightarrow> (False, []) | c # cs \<Rightarrow>
            if c = CHR ''-'' then (True, cs) else if c = CHR ''+'' then (False, cs) else (False, s));
          v = (if neg then - int (digitsVal ds) else int (digitsVal ds))
      in if ds \<noteq> [] \<and> list_all isDigit ds \<and> - (2 ^ 63) \<le> v \<and> v < 2 ^ 63 then Some v else None)"

lemma parseInt64_itoaNat:
  assumes "int n < 2 ^ 63"
  shows "parseInt64 (itoaNat n) = Some (int n)"
proof -
  obtain c cs where s: "itoaNat n = c # cs" by (cases "itoaNat n") auto
  have digits: "list_all isDigit (itoaNat n)" using itoaNat_digits by (simp add: list_all_iff)
  then have "isDigit c" by (simp add: s)
  then have "c \<noteq> CHR ''-''" "c \<noteq> CHR ''+''" by (auto simp: isDigit_def)
  with assms digits show ?thesis
    by (simp add: parseInt64_def s digitsVal_itoaNat [of n, unfolded s] Let_def)
qed

lemma parseInt64_itoa:
  assumes "- (2 ^ 63) \<le> i" and "i < 2 ^ 63"
  shows "parseInt64 (itoa i) = Some i"
proof (cases "i < 0")
  case True
  have "list_all isDigit (itoaNat (nat (- i)))" using itoaNat_digits by (simp add: list_all_iff)
  with True assms show ?thesis
    by (simp add: itoa_def parseInt64_def digitsVal_itoaNat Let_def)
next
  case False
  with assms parseInt64_itoaNat [of "nat i"] show ?thesis by (simp add: itoa_def)
qed

text \<open>Go's integer division truncates towards zero.\<close>

definition quotI :: "int \<Rightarrow> int \<Rightarrow> int" where
  "quotI a b = sgn a * sgn b * (\<bar>a\<bar> div \<bar>b\<bar>)"

lemma quotI_nonneg: "0 \<le> a \<Longrightarrow> 0 < b \<Longrightarrow> quotI a b = a div b"
  by (cases "a = 0") (simp_all add: quotI_def)

text \<open>\<^verbatim>\<open>sort.Strings\<close>: byte-wise lexicographic order.\<close>

fun strLe :: "string \<Rightarrow> string \<Rightarrow> bool" where
  "strLe [] t = True"
| "strLe (x # s) [] = False"
| "strLe (x # s) (y # t) =
     ((of_char x :: nat) < of_char y \<or> (x = y \<and> strLe s t))"

fun insertStr :: "string \<Rightarrow> string list \<Rightarrow> string list" where
  "insertStr x [] = [x]"
| "insertStr x (y # ys) = (if strLe x y then x # y # ys else y # insertStr x ys)"

definition sortStrings :: "string list \<Rightarrow> string list" where
  "sortStrings xs = foldr insertStr xs []"

lemma strLe_refl [simp]: "strLe s s"
  by (induction s) auto

lemma strLe_total: "strLe s t \<or> strLe t s"
proof (induction s t rule: strLe.induct)
  case (3 x s y t)
  have "(of_char x :: nat) < of_char y \<or> (of_char y :: nat) < of_char x \<or> x = y"
    by (metis linorder_neqE_nat of_char_eq_iff)
  with 3 show ?case by auto
qed auto

lemma strLe_trans: "strLe s t \<Longrightarrow> strLe t u \<Longrightarrow> strLe s u"
proof (induction s t arbitrary: u rule: strLe.induct)
  case (3 x s y t)
  then show ?case by (cases u) auto
qed auto

lemma strLe_antisym: "strLe s t \<Longrightarrow> strLe t s \<Longrightarrow> s = t"
proof (induction s t rule: strLe.induct)
  case (1 t)
  then show ?case by (cases t) auto
qed auto

lemma mset_insertStr [simp]: "mset (insertStr x xs) = add_mset x (mset xs)"
  by (induction xs) auto

lemma mset_sortStrings [simp]: "mset (sortStrings xs) = mset xs"
  by (induction xs) (auto simp: sortStrings_def)

lemma set_sortStrings [simp]: "set (sortStrings xs) = set xs"
  by (metis mset_sortStrings set_mset_mset)

lemma sorted_insertStr: "sorted_wrt strLe xs \<Longrightarrow> sorted_wrt strLe (insertStr x xs)"
proof (induction xs)
  case (Cons y ys)
  have set: "set (insertStr x ys) = insert x (set ys)"
    by (metis mset_insertStr set_mset_add_mset_insert set_mset_mset)
  from Cons show ?case
    by (auto simp: set intro: strLe_trans dest: strLe_total [THEN disjE])
      (meson strLe_total strLe_trans)+
qed simp

lemma sorted_sortStrings: "sorted_wrt strLe (sortStrings xs)"
  by (induction xs) (auto simp: sortStrings_def intro: sorted_insertStr)

text \<open>Sorting makes a list of strings independent of the order it came in.\<close>

lemma sorted_strLe_unique:
  "sorted_wrt strLe xs \<Longrightarrow> sorted_wrt strLe ys \<Longrightarrow> mset xs = mset ys \<Longrightarrow> xs = ys"
proof (induction xs arbitrary: ys)
  case Nil
  then show ?case by simp
next
  case (Cons x xs)
  then obtain y ys' where ys: "ys = y # ys'"
    by (cases ys) auto
  have mem: "x \<in> set ys" "y \<in> set (x # xs)"
    using Cons.prems(3) ys by (metis list.set_intros(1) set_mset_mset)+
  have "strLe x y" using Cons.prems(1) mem(2) by auto
  moreover have "strLe y x" using Cons.prems(2) mem(1) ys by auto
  ultimately have "x = y" by (rule strLe_antisym)
  with Cons ys show ?case by simp
qed

lemma sortStrings_perm: "mset xs = mset ys \<Longrightarrow> sortStrings xs = sortStrings ys"
  by (rule sorted_strLe_unique) (simp_all add: sorted_sortStrings)

section \<open>Slices\<close>

text \<open>
  \<^verbatim>\<open>tenant.containsString\<close> and \<^verbatim>\<open>util.Contains\<close> are the same loop; so is membership
  here.  The lemmas below are the only facts used about it.
\<close>

definition idx :: "'a list \<Rightarrow> nat \<Rightarrow> 'a res" where
  "idx xs i = (if i < length xs then Inr (xs ! i) else Inl Panic)"

lemma idx_simps [simp]: "idx (x # xs) 0 = Inr x" "idx (x # xs) (Suc i) = idx xs i" "idx [] i = Inl Panic"
  by (simp_all add: idx_def)

lemma idx_numeral [simp]: "idx (x # xs) (numeral k) = idx xs (pred_numeral k)"
  by (simp add: numeral_eq_Suc)

text \<open>Association lists stand for Go maps that are iterated over.\<close>

fun alistUpdate :: "'k \<Rightarrow> 'v \<Rightarrow> ('k \<times> 'v) list \<Rightarrow> ('k \<times> 'v) list" where
  "alistUpdate k v [] = [(k, v)]"
| "alistUpdate k v ((a, b) # xs) = (if a = k then (k, v) # xs else (a, b) # alistUpdate k v xs)"

definition alistDelete :: "'k \<Rightarrow> ('k \<times> 'v) list \<Rightarrow> ('k \<times> 'v) list" where
  "alistDelete k xs = filter (\<lambda>p. fst p \<noteq> k) xs"

lemma map_of_alistUpdate [simp]: "map_of (alistUpdate k v xs) = (map_of xs)(k \<mapsto> v)"
  by (induction xs) (auto simp: fun_eq_iff)

lemma keys_alistUpdate [simp]: "fst ` set (alistUpdate k v xs) = insert k (fst ` set xs)"
  by (induction k v xs rule: alistUpdate.induct) auto

lemma distinct_alistUpdate:
  "distinct (map fst xs) \<Longrightarrow> distinct (map fst (alistUpdate k v xs))"
proof (induction xs)
  case (Cons p xs)
  have "set (map fst (alistUpdate k v xs)) = insert k (fst ` set xs)"
    by simp
  with Cons show ?case by (cases p) auto
qed simp

lemma map_of_alistDelete [simp]: "map_of (alistDelete k xs) = (map_of xs)(k := None)"
  by (induction xs) (auto simp: alistDelete_def fun_eq_iff)

lemma distinct_alistDelete:
  "distinct (map fst xs) \<Longrightarrow> distinct (map fst (alistDelete k xs))"
  by (simp add: alistDelete_def distinct_map_filter)

text \<open>
  The order of a \<^verbatim>\<open>range\<close> over a Go map is unspecified: it is a parameter, a permutation of
  the entries.
\<close>

definition rangeOrder :: "('a list \<Rightarrow> 'a list) \<Rightarrow> bool" where
  "rangeOrder ord \<longleftrightarrow> (\<forall>xs. mset (ord xs) = mset xs)"

lemma rangeOrder_set: "rangeOrder ord \<Longrightarrow> set (ord xs) = set xs"
  by (metis rangeOrder_def set_mset_mset)

lemma rangeOrder_id: "rangeOrder (\<lambda>xs. xs)"
  by (simp add: rangeOrder_def)

text \<open>A pigeonhole: among more candidates than members of a list, one is missing from it.\<close>

lemma pigeonhole_fresh:
  assumes "inj f" and "length xs < n"
  shows "\<exists>i < n. f i \<notin> set xs"
proof (rule ccontr)
  assume "\<not> ?thesis"
  then have "f ` {..<n} \<subseteq> set xs" by auto
  then have "card (f ` {..<n}) \<le> card (set xs)" by (rule card_mono [rotated]) simp
  also have "\<dots> \<le> length xs" by (rule card_length)
  finally have "card (f ` {..<n}) \<le> length xs" .
  moreover have "card (f ` {..<n}) = n"
    using assms(1) by (simp add: card_image inj_on_subset)
  ultimately show False using assms(2) by simp
qed

end
