(* ===== verification/Kube_Types.thy ===== *)
theory Kube_Types
  imports Prelude
begin

text \<open>
  The Kubernetes API objects the controllers read and write (\<^verbatim>\<open>k8s.io/api\<close>,
  \<^verbatim>\<open>k8s.io/apimachinery\<close>), with the fields the sources touch.  They are data, not code:
  each record lists the fields that occur in the repository, and a field whose inside the code
  never looks at (an affinity, a toleration, the rest of a volume claim) is opaque, of type
  \<open>raw\<close>.  A Go pointer is an option, a Go map from strings to strings is a map
  \<open>labels_map\<close> (reading a nil map is reading an empty one), a struct embedded in another is a
  record extension, so that an operation on \<^verbatim>\<open>client.Object\<close> is a function on
  \<open>'a object_meta_scheme\<close>.
\<close>

type_synonym raw = string
type_synonym labels_map = "string \<rightharpoonup> string"

text \<open>\<^verbatim>\<open>m[k]\<close> on a Go string map: the zero value when the key is missing.\<close>

definition mget :: "labels_map \<Rightarrow> string \<Rightarrow> string" where
  "mget m k = (case m k of None \<Rightarrow> [] | Some v \<Rightarrow> v)"

lemma mget_upd [simp]: "mget (m(k \<mapsto> v)) k' = (if k' = k then v else mget m k')"
  by (simp add: mget_def)

lemma mget_empty [simp]: "mget Map.empty k = []"
  by (simp add: mget_def)

lemma mget_Some: "m k = Some v \<Longrightarrow> mget m k = v"
  by (simp add: mget_def)

text \<open>\<^verbatim>\<open>labels.Merge(m1, m2)\<close>: the second map wins.\<close>

definition mergeMaps :: "labels_map \<Rightarrow> labels_map \<Rightarrow> labels_map" where
  "mergeMaps m1 m2 = m1 ++ m2"

lemma mergeMaps_idem [simp]: "mergeMaps m m = m"
  by (auto simp: mergeMaps_def map_add_def fun_eq_iff split: option.splits)

lemma mergeMaps_empty [simp]: "mergeMaps m Map.empty = m" "mergeMaps Map.empty m = m"
  by (simp_all add: mergeMaps_def)

lemma mergeMaps_Some [simp]: "m2 k = Some v \<Longrightarrow> mergeMaps m1 m2 k = Some v"
  by (simp add: mergeMaps_def)

lemma mergeMaps_None [simp]: "m2 k = None \<Longrightarrow> mergeMaps m1 m2 k = m1 k"
  by (simp add: mergeMaps_def map_add_def)

section \<open>Names, metadata\<close>

record nsname =
  nn_Namespace :: string
  nn_Name :: string

record owner_reference =
  or_APIVersion :: string
  or_Kind :: string
  or_Name :: string
  or_UID :: string
  or_Controller :: "bool option"

record object_meta =
  om_APIVersion :: string
  om_Kind :: string
  om_Name :: string
  om_GenerateName :: string
  om_Namespace :: string
  om_UID :: string
  om_ResourceVersion :: string
  om_Labels :: labels_map
  om_Annotations :: labels_map
  om_Finalizers :: "string list"
  om_DeletionTimestamp :: "int option"
  om_OwnerReferences :: "owner_reference list"

text \<open>\<^verbatim>\<open>client.ObjectKeyFromObject\<close>.\<close>

definition objectKey :: "'a object_meta_scheme \<Rightarrow> nsname" where
  "objectKey ob = \<lparr>nn_Namespace = om_Namespace ob, nn_Name = om_Name ob\<rparr>"

text \<open>The zero value of \<^verbatim>\<open>metav1.ObjectMeta\<close>.\<close>

definition zeroMeta :: object_meta where
  "zeroMeta = \<lparr>om_APIVersion = [], om_Kind = [], om_Name = [], om_GenerateName = [],
     om_Namespace = [], om_UID = [], om_ResourceVersion = [], om_Labels = Map.empty,
     om_Annotations = Map.empty, om_Finalizers = [], om_DeletionTimestamp = None,
     om_OwnerReferences = []\<rparr>"

section \<open>Selectors and references\<close>

record label_selector_requirement =
  lsr_Key :: string
  lsr_Operator :: string
  lsr_Values :: "string list"

record label_selector =
  ls_MatchLabels :: labels_map
  ls_MatchExpressions :: "label_selector_requirement list"

record secret_key_selector =
  sks_Name :: string
  sks_Key :: string

section \<open>Pods\<close>

record resource_requirements =
  rr_Requests :: labels_map
  rr_Limits :: labels_map

datatype probe_handler =
    HTTPGet string string string
  | TCPSocket string

record probe =
  pb_InitialDelaySeconds :: int
  pb_TimeoutSeconds :: int
  pb_PeriodSeconds :: int
  pb_SuccessThreshold :: int
  pb_FailureThreshold :: int
  pb_Handler :: probe_handler

record container_port =
  cpt_Protocol :: string
  cpt_Name :: string
  cpt_ContainerPort :: int

datatype env_source = EnvFieldRef string | EnvSecretKeyRef secret_key_selector

record env_var =
  ev_Name :: string
  ev_Value :: string
  ev_ValueFrom :: "env_source option"

record volume_mount =
  vm_Name :: string
  vm_ReadOnly :: bool
  vm_MountPath :: string
  vm_SubPath :: string

datatype volume_source =
    VolEmptyDir raw
  | VolSecret string "(string \<times> string) list" "int option"
  | VolConfigMap string
  | VolProjectedSecrets "string list"

record volume =
  vol_Name :: string
  vol_Source :: volume_source

record persistent_volume_claim =
  pvc_Name :: string
  pvc_AccessModes :: "string list option"
  pvc_Rest :: raw

record pvc_retention_policy =
  rp_WhenDeleted :: string
  rp_WhenScaled :: string

record container =
  ct_Name :: string
  ct_Image :: string
  ct_ImagePullPolicy :: string
  ct_Command :: "string list"
  ct_Args :: "string list"
  ct_Resources :: resource_requirements
  ct_Ports :: "container_port list"
  ct_LivenessProbe :: "probe option"
  ct_ReadinessProbe :: "probe option"
  ct_Env :: "env_var list"
  ct_VolumeMounts :: "volume_mount list"

record pod_spec =
  ps_NodeSelector :: labels_map
  ps_Tolerations :: "raw list"
  ps_Affinity :: "raw option"
  ps_SecurityContext :: "raw option"
  ps_TerminationGracePeriodSeconds :: "int option"
  ps_ServiceAccountName :: string
  ps_ImagePullSecrets :: "string list"
  ps_Volumes :: "volume list"
  ps_Containers :: "container list"
  ps_InitContainers :: "container list"

record stateful_set_spec =
  ss_Replicas :: "int option"
  ss_Selector :: labels_map
  ss_ServiceName :: string
  ss_TemplateLabels :: labels_map
  ss_TemplateSpec :: pod_spec
  ss_VolumeClaimTemplates :: "persistent_volume_claim list"
  ss_PVCRetentionPolicy :: "pvc_retention_policy option"

record stateful_set = object_meta +
  sts_Spec :: stateful_set_spec

record deployment = object_meta +
  dep_Replicas :: "int option"
  dep_Selector :: labels_map
  dep_TemplateLabels :: labels_map
  dep_TemplateAnnotations :: labels_map
  dep_TemplateSpec :: pod_spec

record service_port =
  sp_Protocol :: string
  sp_Name :: string
  sp_Port :: int
  sp_TargetPort :: "int option"
  sp_NodePort :: int

record kube_service = object_meta +
  ks_Type :: string
  ks_ClusterIP :: string
  ks_ClusterIPs :: "string list"
  ks_IPFamilies :: "string list"
  ks_IPFamilyPolicy :: "string option"
  ks_Selector :: labels_map
  ks_Ports :: "service_port list"

record config_map = object_meta +
  cm_Data :: labels_map

record secret = object_meta +
  sec_Data :: labels_map
  sec_StringData :: labels_map

record service_account = object_meta +
  sa_Secrets :: "string list"

type_synonym kube_pvc = object_meta

section \<open>Zero values\<close>

definition zeroResources :: resource_requirements where
  "zeroResources = \<lparr>rr_Requests = Map.empty, rr_Limits = Map.empty\<rparr>"

definition zeroContainer :: container where
  "zeroContainer = \<lparr>ct_Name = [], ct_Image = [], ct_ImagePullPolicy = [], ct_Command = [],
     ct_Args = [], ct_Resources = zeroResources, ct_Ports = [], ct_LivenessProbe = None,
     ct_ReadinessProbe = None, ct_Env = [], ct_VolumeMounts = []\<rparr>"

definition zeroPodSpec :: pod_spec where
  "zeroPodSpec = \<lparr>ps_NodeSelector = Map.empty, ps_Tolerations = [], ps_Affinity = None,
     ps_SecurityContext = None, ps_TerminationGracePeriodSeconds = None, ps_ServiceAccountName = [],
     ps_ImagePullSecrets = [], ps_Volumes = [], ps_Containers = [], ps_InitContainers = []\<rparr>"

definition zeroStatefulSetSpec :: stateful_set_spec where
  "zeroStatefulSetSpec = \<lparr>ss_Replicas = None, ss_Selector = Map.empty, ss_ServiceName = [],
     ss_TemplateLabels = Map.empty, ss_TemplateSpec = zeroPodSpec,
     ss_VolumeClaimTemplates = [], ss_PVCRetentionPolicy = None\<rparr>"

end
