(* ===== verification/Api_Types.thy ===== *)
theory Api_Types
  imports Kube_Types
begin

text \<open>
  The custom resources of \<^verbatim>\<open>pkg/api/monitoring/v1alpha1\<close> and the constants of
  \<^verbatim>\<open>pkg/constants\<close> the controllers use.  An embedded Go struct is a record extension: an
  \<^verbatim>\<open>IngesterTemplateSpec\<close> is an \<^verbatim>\<open>IngesterSpec\<close>, which is a \<^verbatim>\<open>CommonSpec\<close>, with
  further fields.
\<close>

section \<open>Constants\<close>

definition DefaultTenantHeader :: string where
  "DefaultTenantHeader = ''WHIZARD-TENANT''"
definition DefaultTenantId :: string where
  "DefaultTenantId = ''default-tenant''"
definition DefaultTenantLabelName :: string where
  "DefaultTenantLabelName = ''tenant_id''"
definition ServiceLabelKey :: string where
  "ServiceLabelKey = ''monitoring.whizard.io/service''"
definition StorageLabelKey :: string where
  "StorageLabelKey = ''monitoring.whizard.io/storage''"
definition ExclusiveLabelKey :: string where
  "ExclusiveLabelKey = ''monitoring.whizard.io/exclusive''"
definition SoftTenantLabelKey :: string where
  "SoftTenantLabelKey = ''monitoring.whizard.io/soft-tenant''"
definition FinalizerIngester :: string where
  "FinalizerIngester = ''finalizers.monitoring.whizard.io/ingester''"
definition FinalizerCompactor :: string where
  "FinalizerCompactor = ''finalizers.monitoring.whizard.io/compactor''"
definition FinalizerDeletePVC :: string where
  "FinalizerDeletePVC = ''finalizers.monitoring.whizard.io/deletePVC''"
definition DefaultStorage :: string where
  "DefaultStorage = ''default''"
definition LocalStorage :: string where
  "LocalStorage = ''local''"
definition LabelNameIngesterState :: string where
  "LabelNameIngesterState = ''monitoring.whizard.io/ingester-state''"
definition LabelNameIngesterDeletingTime :: string where
  "LabelNameIngesterDeletingTime = ''monitoring.whizard.io/ingester-deleting-time''"
definition LabelNameStorageHash :: string where
  "LabelNameStorageHash = ''monitoring.whizard.io/storage-hash''"
definition LabelNameTenantHash :: string where
  "LabelNameTenantHash = ''monitoring.whizard.io/tenant-hash''"
definition IngesterStateDeleting :: string where
  "IngesterStateDeleting = ''deleting''"
definition IngesterStateRunning :: string where
  "IngesterStateRunning = ''running''"

lemma label_keys_distinct [simp, key_simps]:
  "ServiceLabelKey \<noteq> StorageLabelKey" "StorageLabelKey \<noteq> ServiceLabelKey"
  "ServiceLabelKey \<noteq> ExclusiveLabelKey" "ExclusiveLabelKey \<noteq> ServiceLabelKey"
  "StorageLabelKey \<noteq> ExclusiveLabelKey" "ExclusiveLabelKey \<noteq> StorageLabelKey"
  by (simp_all add: ServiceLabelKey_def StorageLabelKey_def ExclusiveLabelKey_def)

lemma annotation_keys_distinct [simp, key_simps]:
  "LabelNameIngesterState \<noteq> LabelNameIngesterDeletingTime"
  "LabelNameIngesterDeletingTime \<noteq> LabelNameIngesterState"
  "LabelNameStorageHash \<noteq> LabelNameTenantHash" "LabelNameTenantHash \<noteq> LabelNameStorageHash"
  "IngesterStateDeleting \<noteq> IngesterStateRunning" "IngesterStateRunning \<noteq> IngesterStateDeleting"
  by (simp_all add: LabelNameIngesterState_def LabelNameIngesterDeletingTime_def
      LabelNameStorageHash_def LabelNameTenantHash_def IngesterStateDeleting_def
      IngesterStateRunning_def)

lemma finalizers_distinct [simp, key_simps]:
  "FinalizerIngester \<noteq> FinalizerCompactor" "FinalizerCompactor \<noteq> FinalizerIngester"
  by (simp_all add: FinalizerIngester_def FinalizerCompactor_def)

lemma storages_distinct [simp, key_simps]:
  "LocalStorage \<noteq> DefaultStorage" "DefaultStorage \<noteq> LocalStorage"
  "LocalStorage \<noteq> []" "DefaultStorage \<noteq> []"
  by (simp_all add: LocalStorage_def DefaultStorage_def)

section \<open>types.go\<close>

type_synonym duration = string

record embedded_object_metadata =
  eom_Name :: string
  eom_Labels :: labels_map
  eom_Annotations :: labels_map

record common_spec =
  cs_Replicas :: "int option"
  cs_Image :: string
  cs_ImagePullPolicy :: string
  cs_Resources :: resource_requirements
  cs_LogLevel :: string
  cs_LogFormat :: string
  cs_Flags :: "string list"
  cs_PodMetadata :: "embedded_object_metadata option"
  cs_ConfigMaps :: "string list"
  cs_Secrets :: "string list"
  cs_Containers :: raw
  cs_EmbeddedContainers :: "container list"
  cs_ImagePullSecrets :: "string list"
  cs_SecurityContext :: "raw option"
  cs_Affinity :: "raw option"
  cs_NodeSelector :: labels_map
  cs_Tolerations :: "raw list"

record kubernetes_volume =
  kv_EmptyDir :: "raw option"
  kv_PersistentVolumeClaim :: "persistent_volume_claim option"
  kv_PersistentVolumeClaimRetentionPolicy :: "pvc_retention_policy option"

record sidecar_spec =
  sc_Image :: string
  sc_Resources :: resource_requirements

record object_reference =
  oref_Namespace :: string
  oref_Name :: string

record basic_auth =
  ba_Username :: secret_key_selector
  ba_Password :: secret_key_selector

record http_client_config =
  hcc_BasicAuth :: basic_auth
  hcc_BearerToken :: string

record http_server_tls_config =
  hst_KeySecret :: secret_key_selector
  hst_CertSecret :: secret_key_selector
  hst_ClientCASecret :: secret_key_selector

text \<open>\<^verbatim>\<open>HTTPServerConfig\<close> is an empty struct: only whether the pointer is set is kept.\<close>

record web_config =
  wc_HTTPServerTLSConfig :: "http_server_tls_config option"
  wc_HTTPServerConfig :: "unit option"
  wc_BasicAuthUsers :: "basic_auth list"

section \<open>components_types.go\<close>

record retention =
  rt_RetentionRaw :: duration
  rt_Retention5m :: duration
  rt_Retention1h :: duration

record compactor_spec = common_spec +
  cp_Tenants :: "string list"
  cp_DisableDownsampling :: "bool option"
  cp_Retention :: "retention option"
  cp_DataVolume :: "kubernetes_volume option"

record compactor = object_meta +
  cp_Spec :: compactor_spec

record gateway_spec = common_spec +
  gw_WebConfig :: "web_config option"
  gw_DebugMode :: bool
  gw_EnabledTenantsAdmission :: bool
  gw_NodePort :: int

record gateway = object_meta +
  gw_Spec :: gateway_spec

record ingester_spec = common_spec +
  ig_Tenants :: "string list"
  ig_OtlpEnableTargetInfo :: "bool option"
  ig_OtlpResourceAttributes :: "string list"
  ig_LocalTsdbRetention :: string
  ig_DataVolume :: "kubernetes_volume option"
  ig_IngesterTSDBCleanUp :: sidecar_spec

record ingester_tenant_status =
  its_Name :: string
  its_Obsolete :: bool

record ingester_status =
  igs_Tenants :: "ingester_tenant_status list"

record ingester = object_meta +
  ig_Spec :: ingester_spec
  ig_Status :: ingester_status

record query_stores =
  qs_Addresses :: "string list"
  qs_CASecret :: "secret_key_selector option"

record query_spec = common_spec +
  qu_PromqlEngine :: string
  qu_SelectorLabels :: labels_map
  qu_ReplicaLabelNames :: "string list"
  qu_WebConfig :: "web_config option"
  qu_Stores :: "query_stores list"
  qu_Envoy :: sidecar_spec

record query = object_meta +
  qu_Spec :: query_spec

text \<open>\<^verbatim>\<open>CacheProvider\<close> is a string type; its named values are INMEMORY, MEMCACHED, REDIS.\<close>

record in_memory_response_cache_config =
  imr_MaxSize :: string
  imr_MaxSizeItems :: int
  imr_Validity :: int

record response_cache_provider_config =
  rcp_Type :: string
  rcp_InMemoryResponseCacheConfig :: "in_memory_response_cache_config option"

record query_frontend_spec = common_spec +
  qf_CacheConfig :: "response_cache_provider_config option"
  qf_WebConfig :: "web_config option"

record query_frontend = object_meta +
  qf_Spec :: query_frontend_spec

record router_spec = common_spec +
  ro_ReplicationFactor :: "nat option"
  ro_ReplicationProtocol :: string
  ro_WebConfig :: "web_config option"

record router = object_meta +
  ro_Spec :: router_spec

record ruler_spec = common_spec +
  ru_RuleSelectors :: "label_selector list"
  ru_RuleNamespaceSelector :: "label_selector option"
  ru_Shards :: "int option"
  ru_Tenant :: string
  ru_QueryConfig :: "secret_key_selector option"
  ru_RemoteWriteConfig :: "secret_key_selector option"
  ru_Labels :: labels_map
  ru_AlertDropLabels :: "string list"
  ru_AlertmanagersURL :: "string list"
  ru_AlertmanagersConfig :: "secret_key_selector option"
  ru_EvaluationInterval :: duration
  ru_DataVolume :: "kubernetes_volume option"
  ru_RulerQueryProxy :: sidecar_spec
  ru_RulerWriteProxy :: sidecar_spec
  ru_PrometheusConfigReloader :: sidecar_spec

record ruler = object_meta +
  ru_Spec :: ruler_spec

record time_range =
  tr_MinTime :: string
  tr_MaxTime :: string

record in_memory_index_cache_config =
  imi_MaxSize :: string

record index_cache_config =
  icc_InMemoryIndexCacheConfig :: "in_memory_index_cache_config option"

record store_spec = common_spec +
  st_MinTime :: string
  st_MaxTime :: string
  st_TimeRanges :: "time_range list"
  st_IndexCacheConfig :: "index_cache_config option"
  st_DataVolume :: "kubernetes_volume option"

record store = object_meta +
  st_Spec :: store_spec

section \<open>tenant_types.go\<close>

record tenant_spec =
  ts_Tenant :: string

record tenant_status =
  tst_Ruler :: "object_reference option"
  tst_Compactor :: "object_reference option"
  tst_Ingester :: "object_reference option"

record tenant = object_meta +
  tn_Spec :: tenant_spec
  tn_Status :: tenant_status

section \<open>storage_types.go\<close>

record block_gc =
  gc_Enable :: "bool option"
  gc_Resources :: resource_requirements
  gc_Image :: string
  gc_ImagePullPolicy :: string
  gc_GCInterval :: "int option"
  gc_CleanupTimeout :: "int option"
  gc_DefaultTenantId :: string
  gc_TenantLabelName :: string

record block_manager = common_spec +
  bm_Enable :: "bool option"
  bm_ServiceAccountName :: string
  bm_NodePort :: int
  bm_BlockSyncInterval :: "int option"
  bm_GC :: "block_gc option"

record s3_sse_config =
  sse_Type :: string
  sse_KMSKeyID :: string
  sse_KMSEncryptionContext :: labels_map
  sse_EncryptionKey :: string

record s3_trace_config =
  s3t_Enable :: bool

record tls_config =
  tls_CA :: "secret_key_selector option"
  tls_Cert :: "secret_key_selector option"
  tls_Key :: "secret_key_selector option"
  tls_ServerName :: string
  tls_InsecureSkipVerify :: bool

record s3_http_config =
  s3h_IdleConnTimeout :: int
  s3h_ResponseHeaderTimeout :: int
  s3h_InsecureSkipVerify :: bool
  s3h_TLSHandshakeTimeout :: int
  s3h_ExpectContinueTimeout :: int
  s3h_MaxIdleConns :: int
  s3h_MaxIdleConnsPerHost :: int
  s3h_MaxConnsPerHost :: int
  s3h_TLSConfig :: tls_config
  s3h_DisableCompression :: bool

record s3 =
  s3_Bucket :: string
  s3_Endpoint :: string
  s3_Region :: string
  s3_DisableDualstack :: bool
  s3_AWSSDKAuth :: bool
  s3_AccessKey :: "secret_key_selector option"
  s3_Insecure :: bool
  s3_SignatureV2 :: bool
  s3_SecretKey :: "secret_key_selector option"
  s3_PutUserMetadata :: labels_map
  s3_HTTPConfig :: s3_http_config
  s3_TraceConfig :: s3_trace_config
  s3_ListObjectsVersion :: string
  s3_SendContentMd5 :: bool
  s3_DisableMultipart :: bool
  s3_PartSize :: nat
  s3_SSEConfig :: s3_sse_config
  s3_STSEndpoint :: string

record storage_spec =
  sg_BlockManager :: "block_manager option"
  sg_S3 :: "s3 option"

record storage = object_meta +
  sg_Spec :: storage_spec

section \<open>service_types.go\<close>

record compactor_template_spec = compactor_spec +
  cpt_DefaultTenantsPerCompactor :: int

record ingester_template_spec = ingester_spec +
  igt_DefaultTenantsPerIngester :: int
  igt_DefaultIngesterRetentionPeriod :: duration
  igt_DisableTSDBCleanup :: "bool option"

record ruler_template_spec = ruler_spec +
  rut_DisableAlertingRulesAutoSelection :: "bool option"

record remote_query_spec = http_client_config +
  rq_Name :: string
  rq_URL :: string

record remote_write_spec = http_client_config +
  rw_Name :: string
  rw_URL :: string
  rw_Headers :: labels_map
  rw_RemoteTimeout :: duration

record service_spec =
  sv_TenantHeader :: string
  sv_DefaultTenantId :: string
  sv_TenantLabelName :: string
  sv_Storage :: "object_reference option"
  sv_RemoteWrites :: "remote_write_spec list"
  sv_RemoteQuery :: "remote_query_spec option"
  sv_GatewayTemplateSpec :: gateway_spec
  sv_QueryFrontendTemplateSpec :: query_frontend_spec
  sv_QueryTemplateSpec :: query_spec
  sv_RulerTemplateSpec :: ruler_template_spec
  sv_RouterTemplateSpec :: router_spec
  sv_IngesterTemplateSpec :: ingester_template_spec
  sv_StoreTemplateSpec :: store_spec
  sv_CompactorTemplateSpec :: compactor_template_spec

record service = object_meta +
  sv_Spec :: service_spec

section \<open>Zero values\<close>

text \<open>What a Go composite literal leaves in the fields it does not name.\<close>

definition zeroSidecarSpec :: sidecar_spec where
  "zeroSidecarSpec = \<lparr>
     sc_Image = [], sc_Resources = zeroResources\<rparr>"

definition zeroIngesterSpec :: ingester_spec where
  "zeroIngesterSpec = \<lparr>
     cs_Replicas = None, cs_Image = [], cs_ImagePullPolicy = [], cs_Resources = zeroResources,
     cs_LogLevel = [], cs_LogFormat = [], cs_Flags = [], cs_PodMetadata = None,
     cs_ConfigMaps = [], cs_Secrets = [], cs_Containers = [], cs_EmbeddedContainers = [],
     cs_ImagePullSecrets = [], cs_SecurityContext = None, cs_Affinity = None,
     cs_NodeSelector = Map.empty, cs_Tolerations = [], ig_Tenants = [],
     ig_OtlpEnableTargetInfo = None, ig_OtlpResourceAttributes = [],
     ig_LocalTsdbRetention = [], ig_DataVolume = None,
     ig_IngesterTSDBCleanUp = zeroSidecarSpec\<rparr>"

definition zeroIngesterStatus :: ingester_status where
  "zeroIngesterStatus = \<lparr>
     igs_Tenants = []\<rparr>"

definition zeroIngester :: ingester where
  "zeroIngester = \<lparr>
     om_APIVersion = [], om_Kind = [], om_Name = [], om_GenerateName = [], om_Namespace = [],
     om_UID = [], om_ResourceVersion = [], om_Labels = Map.empty, om_Annotations = Map.empty,
     om_Finalizers = [], om_DeletionTimestamp = None, om_OwnerReferences = [],
     ig_Spec = zeroIngesterSpec, ig_Status = zeroIngesterStatus\<rparr>"

definition zeroCompactorSpec :: compactor_spec where
  "zeroCompactorSpec = \<lparr>
     cs_Replicas = None, cs_Image = [], cs_ImagePullPolicy = [], cs_Resources = zeroResources,
     cs_LogLevel = [], cs_LogFormat = [], cs_Flags = [], cs_PodMetadata = None,
     cs_ConfigMaps = [], cs_Secrets = [], cs_Containers = [], cs_EmbeddedContainers = [],
     cs_ImagePullSecrets = [], cs_SecurityContext = None, cs_Affinity = None,
     cs_NodeSelector = Map.empty, cs_Tolerations = [], cp_Tenants = [],
     cp_DisableDownsampling = None, cp_Retention = None, cp_DataVolume = None\<rparr>"

definition zeroCompactor :: compactor where
  "zeroCompactor = \<lparr>
     om_APIVersion = [], om_Kind = [], om_Name = [], om_GenerateName = [], om_Namespace = [],
     om_UID = [], om_ResourceVersion = [], om_Labels = Map.empty, om_Annotations = Map.empty,
     om_Finalizers = [], om_DeletionTimestamp = None, om_OwnerReferences = [],
     cp_Spec = zeroCompactorSpec\<rparr>"

definition zeroRulerSpec :: ruler_spec where
  "zeroRulerSpec = \<lparr>
     cs_Replicas = None, cs_Image = [], cs_ImagePullPolicy = [], cs_Resources = zeroResources,
     cs_LogLevel = [], cs_LogFormat = [], cs_Flags = [], cs_PodMetadata = None,
     cs_ConfigMaps = [], cs_Secrets = [], cs_Containers = [], cs_EmbeddedContainers = [],
     cs_ImagePullSecrets = [], cs_SecurityContext = None, cs_Affinity = None,
     cs_NodeSelector = Map.empty, cs_Tolerations = [], ru_RuleSelectors = [],
     ru_RuleNamespaceSelector = None, ru_Shards = None, ru_Tenant = [],
     ru_QueryConfig = None, ru_RemoteWriteConfig = None, ru_Labels = Map.empty,
     ru_AlertDropLabels = [], ru_AlertmanagersURL = [], ru_AlertmanagersConfig = None,
     ru_EvaluationInterval = [], ru_DataVolume = None, ru_RulerQueryProxy = zeroSidecarSpec,
     ru_RulerWriteProxy = zeroSidecarSpec, ru_PrometheusConfigReloader = zeroSidecarSpec\<rparr>"

definition zeroRuler :: ruler where
  "zeroRuler = \<lparr>
     om_APIVersion = [], om_Kind = [], om_Name = [], om_GenerateName = [], om_Namespace = [],
     om_UID = [], om_ResourceVersion = [], om_Labels = Map.empty, om_Annotations = Map.empty,
     om_Finalizers = [], om_DeletionTimestamp = None, om_OwnerReferences = [],
     ru_Spec = zeroRulerSpec\<rparr>"

definition zeroStoreSpec :: store_spec where
  "zeroStoreSpec = \<lparr>
     cs_Replicas = None, cs_Image = [], cs_ImagePullPolicy = [], cs_Resources = zeroResources,
     cs_LogLevel = [], cs_LogFormat = [], cs_Flags = [], cs_PodMetadata = None,
     cs_ConfigMaps = [], cs_Secrets = [], cs_Containers = [], cs_EmbeddedContainers = [],
     cs_ImagePullSecrets = [], cs_SecurityContext = None, cs_Affinity = None,
     cs_NodeSelector = Map.empty, cs_Tolerations = [], st_MinTime = [], st_MaxTime = [],
     st_TimeRanges = [], st_IndexCacheConfig = None, st_DataVolume = None\<rparr>"

definition zeroStore :: store where
  "zeroStore = \<lparr>
     om_APIVersion = [], om_Kind = [], om_Name = [], om_GenerateName = [], om_Namespace = [],
     om_UID = [], om_ResourceVersion = [], om_Labels = Map.empty, om_Annotations = Map.empty,
     om_Finalizers = [], om_DeletionTimestamp = None, om_OwnerReferences = [],
     st_Spec = zeroStoreSpec\<rparr>"

definition zeroTenantSpec :: tenant_spec where
  "zeroTenantSpec = \<lparr>
     ts_Tenant = []\<rparr>"

definition zeroTenantStatus :: tenant_status where
  "zeroTenantStatus = \<lparr>
     tst_Ruler = None, tst_Compactor = None, tst_Ingester = None\<rparr>"

definition zeroTenant :: tenant where
  "zeroTenant = \<lparr>
     om_APIVersion = [], om_Kind = [], om_Name = [], om_GenerateName = [], om_Namespace = [],
     om_UID = [], om_ResourceVersion = [], om_Labels = Map.empty, om_Annotations = Map.empty,
     om_Finalizers = [], om_DeletionTimestamp = None, om_OwnerReferences = [],
     tn_Spec = zeroTenantSpec, tn_Status = zeroTenantStatus\<rparr>"

definition zeroGatewaySpec :: gateway_spec where
  "zeroGatewaySpec = \<lparr>
     cs_Replicas = None, cs_Image = [], cs_ImagePullPolicy = [], cs_Resources = zeroResources,
     cs_LogLevel = [], cs_LogFormat = [], cs_Flags = [], cs_PodMetadata = None,
     cs_ConfigMaps = [], cs_Secrets = [], cs_Containers = [], cs_EmbeddedContainers = [],
     cs_ImagePullSecrets = [], cs_SecurityContext = None, cs_Affinity = None,
     cs_NodeSelector = Map.empty, cs_Tolerations = [], gw_WebConfig = None,
     gw_DebugMode = False, gw_EnabledTenantsAdmission = False, gw_NodePort = 0\<rparr>"

definition zeroQuerySpec :: query_spec where
  "zeroQuerySpec = \<lparr>
     cs_Replicas = None, cs_Image = [], cs_ImagePullPolicy = [], cs_Resources = zeroResources,
     cs_LogLevel = [], cs_LogFormat = [], cs_Flags = [], cs_PodMetadata = None,
     cs_ConfigMaps = [], cs_Secrets = [], cs_Containers = [], cs_EmbeddedContainers = [],
     cs_ImagePullSecrets = [], cs_SecurityContext = None, cs_Affinity = None,
     cs_NodeSelector = Map.empty, cs_Tolerations = [], qu_PromqlEngine = [],
     qu_SelectorLabels = Map.empty, qu_ReplicaLabelNames = [], qu_WebConfig = None,
     qu_Stores = [], qu_Envoy = zeroSidecarSpec\<rparr>"

definition zeroQueryFrontendSpec :: query_frontend_spec where
  "zeroQueryFrontendSpec = \<lparr>
     cs_Replicas = None, cs_Image = [], cs_ImagePullPolicy = [], cs_Resources = zeroResources,
     cs_LogLevel = [], cs_LogFormat = [], cs_Flags = [], cs_PodMetadata = None,
     cs_ConfigMaps = [], cs_Secrets = [], cs_Containers = [], cs_EmbeddedContainers = [],
     cs_ImagePullSecrets = [], cs_SecurityContext = None, cs_Affinity = None,
     cs_NodeSelector = Map.empty, cs_Tolerations = [], qf_CacheConfig = None,
     qf_WebConfig = None\<rparr>"

definition zeroRouterSpec :: router_spec where
  "zeroRouterSpec = \<lparr>
     cs_Replicas = None, cs_Image = [], cs_ImagePullPolicy = [], cs_Resources = zeroResources,
     cs_LogLevel = [], cs_LogFormat = [], cs_Flags = [], cs_PodMetadata = None,
     cs_ConfigMaps = [], cs_Secrets = [], cs_Containers = [], cs_EmbeddedContainers = [],
     cs_ImagePullSecrets = [], cs_SecurityContext = None, cs_Affinity = None,
     cs_NodeSelector = Map.empty, cs_Tolerations = [], ro_ReplicationFactor = None,
     ro_ReplicationProtocol = [], ro_WebConfig = None\<rparr>"

definition zeroCompactorTemplateSpec :: compactor_template_spec where
  "zeroCompactorTemplateSpec = \<lparr>
     cs_Replicas = None, cs_Image = [], cs_ImagePullPolicy = [], cs_Resources = zeroResources,
     cs_LogLevel = [], cs_LogFormat = [], cs_Flags = [], cs_PodMetadata = None,
     cs_ConfigMaps = [], cs_Secrets = [], cs_Containers = [], cs_EmbeddedContainers = [],
     cs_ImagePullSecrets = [], cs_SecurityContext = None, cs_Affinity = None,
     cs_NodeSelector = Map.empty, cs_Tolerations = [], cp_Tenants = [],
     cp_DisableDownsampling = None, cp_Retention = None, cp_DataVolume = None,
     cpt_DefaultTenantsPerCompactor = 0\<rparr>"

definition zeroIngesterTemplateSpec :: ingester_template_spec where
  "zeroIngesterTemplateSpec = \<lparr>
     cs_Replicas = None, cs_Image = [], cs_ImagePullPolicy = [], cs_Resources = zeroResources,
     cs_LogLevel = [], cs_LogFormat = [], cs_Flags = [], cs_PodMetadata = None,
     cs_ConfigMaps = [], cs_Secrets = [], cs_Containers = [], cs_EmbeddedContainers = [],
     cs_ImagePullSecrets = [], cs_SecurityContext = None, cs_Affinity = None,
     cs_NodeSelector = Map.empty, cs_Tolerations = [], ig_Tenants = [],
     ig_OtlpEnableTargetInfo = None, ig_OtlpResourceAttributes = [],
     ig_LocalTsdbRetention = [], ig_DataVolume = None,
     ig_IngesterTSDBCleanUp = zeroSidecarSpec, igt_DefaultTenantsPerIngester = 0,
     igt_DefaultIngesterRetentionPeriod = [], igt_DisableTSDBCleanup = None\<rparr>"

definition zeroRulerTemplateSpec :: ruler_template_spec where
  "zeroRulerTemplateSpec = \<lparr>
     cs_Replicas = None, cs_Image = [], cs_ImagePullPolicy = [], cs_Resources = zeroResources,
     cs_LogLevel = [], cs_LogFormat = [], cs_Flags = [], cs_PodMetadata = None,
     cs_ConfigMaps = [], cs_Secrets = [], cs_Containers = [], cs_EmbeddedContainers = [],
     cs_ImagePullSecrets = [], cs_SecurityContext = None, cs_Affinity = None,
     cs_NodeSelector = Map.empty, cs_Tolerations = [], ru_RuleSelectors = [],
     ru_RuleNamespaceSelector = None, ru_Shards = None, ru_Tenant = [],
     ru_QueryConfig = None, ru_RemoteWriteConfig = None, ru_Labels = Map.empty,
     ru_AlertDropLabels = [], ru_AlertmanagersURL = [], ru_AlertmanagersConfig = None,
     ru_EvaluationInterval = [], ru_DataVolume = None, ru_RulerQueryProxy = zeroSidecarSpec,
     ru_RulerWriteProxy = zeroSidecarSpec, ru_PrometheusConfigReloader = zeroSidecarSpec,
     rut_DisableAlertingRulesAutoSelection = None\<rparr>"

definition zeroServiceSpec :: service_spec where
  "zeroServiceSpec = \<lparr>
     sv_TenantHeader = [], sv_DefaultTenantId = [], sv_TenantLabelName = [],
     sv_Storage = None, sv_RemoteWrites = [], sv_RemoteQuery = None,
     sv_GatewayTemplateSpec = zeroGatewaySpec,
     sv_QueryFrontendTemplateSpec = zeroQueryFrontendSpec,
     sv_QueryTemplateSpec = zeroQuerySpec, sv_RulerTemplateSpec = zeroRulerTemplateSpec,
     sv_RouterTemplateSpec = zeroRouterSpec,
     sv_IngesterTemplateSpec = zeroIngesterTemplateSpec,
     sv_StoreTemplateSpec = zeroStoreSpec,
     sv_CompactorTemplateSpec = zeroCompactorTemplateSpec\<rparr>"

definition zeroService :: service where
  "zeroService = \<lparr>
     om_APIVersion = [], om_Kind = [], om_Name = [], om_GenerateName = [], om_Namespace = [],
     om_UID = [], om_ResourceVersion = [], om_Labels = Map.empty, om_Annotations = Map.empty,
     om_Finalizers = [], om_DeletionTimestamp = None, om_OwnerReferences = [],
     sv_Spec = zeroServiceSpec\<rparr>"

definition zeroStorageSpec :: storage_spec where
  "zeroStorageSpec = \<lparr>
     sg_BlockManager = None, sg_S3 = None\<rparr>"

definition zeroStorage :: storage where
  "zeroStorage = \<lparr>
     om_APIVersion = [], om_Kind = [], om_Name = [], om_GenerateName = [], om_Namespace = [],
     om_UID = [], om_ResourceVersion = [], om_Labels = Map.empty, om_Annotations = Map.empty,
     om_Finalizers = [], om_DeletionTimestamp = None, om_OwnerReferences = [],
     sg_Spec = zeroStorageSpec\<rparr>"

lemmas zero_defs =
  zeroMeta_def zeroResources_def zeroSidecarSpec_def zeroIngesterSpec_def
  zeroIngesterStatus_def zeroIngester_def zeroCompactorSpec_def zeroCompactor_def
  zeroRulerSpec_def zeroRuler_def zeroStoreSpec_def zeroStore_def zeroTenantSpec_def
  zeroTenantStatus_def zeroTenant_def zeroGatewaySpec_def zeroQuerySpec_def
  zeroQueryFrontendSpec_def zeroRouterSpec_def zeroCompactorTemplateSpec_def
  zeroIngesterTemplateSpec_def zeroRulerTemplateSpec_def zeroServiceSpec_def zeroService_def
  zeroStorageSpec_def zeroStorage_def

end
