(* ===== verification/Kube_Client.thy ===== *)
theory Kube_Client
  imports Api_Types
begin

text \<open>
  The API client of the controllers (\<^verbatim>\<open>sigs.k8s.io/controller-runtime/pkg/client\<close> and
  \<^verbatim>\<open>k8s.io/client-go/util/retry\<close>) is not part of the repository: it is a parameter of the
  model, a record with one \<open>kind_client\<close> per object kind.  Every call is an action on a state
  \<open>'s\<close> that the client chooses, so a client may fail, answer differently each time, or let
  other writers in between two calls; the definitions of the development make no assumption on
  it.

  Theorems that need the client to answer say so by the hypothesis \<open>clientOk cl V\<close>: read
  through \<open>V\<close>, the client behaves as the Kubernetes API documents it for a single writer
  (reads return what is stored, an update with the current resource version is stored, the
  status is written through the status subresource only, an object with finalizers outlives
  its deletion).  \<open>memClient\<close>, the concrete client at the end, satisfies it; the
  witnesses run on it.
\<close>

section \<open>The interface\<close>

record list_options =
  lo_Namespace :: string
  lo_Labels :: labels_map

record ('s, 'o) kind_client =
  kGet :: "nsname \<Rightarrow> ('s, 'o) act"
  kList :: "list_options \<Rightarrow> ('s, 'o list) act"
  kCreate :: "'o \<Rightarrow> ('s, 'o) act"
  kUpdate :: "'o \<Rightarrow> ('s, 'o) act"
  kStatusUpdate :: "'o \<Rightarrow> ('s, 'o) act"
  kDelete :: "'o \<Rightarrow> ('s, unit) act"
  kRetry :: "('o \<Rightarrow> 's \<Rightarrow> gerror option \<times> 'o \<times> 's) \<Rightarrow>
             'o \<Rightarrow> 's \<Rightarrow> gerror option \<times> 'o \<times> 's"

text \<open>Rules of the Prometheus operator: a rule group is its name and the rest of it.\<close>

record rule_group =
  rg_Name :: string
  rg_Body :: raw

record prom_rule = object_meta +
  pr_Groups :: "rule_group list"

record 's client =
  tenants :: "('s, tenant) kind_client"
  ingesters :: "('s, ingester) kind_client"
  compactors :: "('s, compactor) kind_client"
  rulers :: "('s, ruler) kind_client"
  stores :: "('s, store) kind_client"
  services :: "('s, service) kind_client"
  storages :: "('s, storage) kind_client"
  gateways :: "('s, gateway) kind_client"
  routers :: "('s, router) kind_client"
  queries :: "('s, query) kind_client"
  queryFrontends :: "('s, query_frontend) kind_client"
  statefulSets :: "('s, stateful_set) kind_client"
  deployments :: "('s, deployment) kind_client"
  kubeServices :: "('s, kube_service) kind_client"
  configMaps :: "('s, config_map) kind_client"
  secrets :: "('s, secret) kind_client"
  serviceAccounts :: "('s, service_account) kind_client"
  pvcs :: "('s, kube_pvc) kind_client"
  namespaces :: "('s, object_meta) kind_client"
  promRules :: "('s, prom_rule) kind_client"

section \<open>What is stored\<close>

text \<open>A cluster holds, per kind, the objects in the order they were created.\<close>

type_synonym 'o kstore = "(nsname \<times> 'o) list"

record cluster =
  c_tenants :: "tenant kstore"
  c_ingesters :: "ingester kstore"
  c_compactors :: "compactor kstore"
  c_rulers :: "ruler kstore"
  c_stores :: "store kstore"
  c_services :: "service kstore"
  c_storages :: "storage kstore"

definition matchesOpts :: "list_options \<Rightarrow> 'a object_meta_scheme \<Rightarrow> bool" where
  "matchesOpts lo ob \<longleftrightarrow>
     (lo_Namespace lo = [] \<or> om_Namespace ob = lo_Namespace lo) \<and> lo_Labels lo \<subseteq>\<^sub>m om_Labels ob"

text \<open>An object whose deletion was requested disappears with its last finalizer.\<close>

definition putObject :: "'a object_meta_scheme \<Rightarrow> 'a object_meta_scheme kstore \<Rightarrow>
    'a object_meta_scheme kstore" where
  "putObject ob xs =
     (if om_DeletionTimestamp ob \<noteq> None \<and> om_Finalizers ob = []
      then alistDelete (objectKey ob) xs else alistUpdate (objectKey ob) ob xs)"

text \<open>
  What the server stores for an update: the new object, with the version it assigns and with
  the identity and the deletion request of the stored one.
\<close>

definition asStored :: "'a object_meta_scheme \<Rightarrow> string \<Rightarrow> 'a object_meta_scheme \<Rightarrow>
    'a object_meta_scheme" where
  "asStored old rv ob = ob\<lparr>om_ResourceVersion := rv, om_UID := om_UID old,
     om_DeletionTimestamp := om_DeletionTimestamp old\<rparr>"

lemma asStored_simps [simp]:
  "objectKey (asStored old rv ob) = objectKey ob"
  "om_Name (asStored old rv ob) = om_Name ob"
  "om_Namespace (asStored old rv ob) = om_Namespace ob"
  "om_Labels (asStored old rv ob) = om_Labels ob"
  "om_Annotations (asStored old rv ob) = om_Annotations ob"
  "om_Finalizers (asStored old rv ob) = om_Finalizers ob"
  "om_DeletionTimestamp (asStored old rv ob) = om_DeletionTimestamp old"
  "object_meta.more (asStored old rv ob) = object_meta.more ob"
  by (simp_all add: asStored_def objectKey_def)

section \<open>A quiescent client\<close>

text \<open>
  \<open>keep old new\<close> is \<open>new\<close> with the status of \<open>old\<close>: the part of an object that
  \<^verbatim>\<open>Update\<close> does not write and \<^verbatim>\<open>Status().Update\<close> alone writes.
\<close>

definition getOk :: "('s, 'o) kind_client \<Rightarrow> ('s \<Rightarrow> cluster) \<Rightarrow> (cluster \<Rightarrow> 'o kstore) \<Rightarrow> bool" where
  "getOk k V sel \<longleftrightarrow> (\<forall>key s. kGet k key s =
     ((case map_of (sel (V s)) key of None \<Rightarrow> Inl ApiNotFound | Some ob \<Rightarrow> Inr ob), s))"

definition listOk :: "('s, 'a object_meta_scheme) kind_client \<Rightarrow> ('s \<Rightarrow> cluster) \<Rightarrow>
    (cluster \<Rightarrow> 'a object_meta_scheme kstore) \<Rightarrow> bool" where
  "listOk k V sel \<longleftrightarrow> (\<forall>opts s. kList k opts s =
     (Inr (filter (matchesOpts opts) (map snd (sel (V s)))), s))"

definition createOk :: "('s, 'a object_meta_scheme) kind_client \<Rightarrow> ('s \<Rightarrow> cluster) \<Rightarrow>
    (cluster \<Rightarrow> 'a object_meta_scheme kstore) \<Rightarrow>
    (('a object_meta_scheme kstore \<Rightarrow> 'a object_meta_scheme kstore) \<Rightarrow> cluster \<Rightarrow> cluster) \<Rightarrow> bool" where
  "createOk k V sel upd \<longleftrightarrow> (\<forall>ob s. om_Name ob \<noteq> [] \<longrightarrow>
     map_of (sel (V s)) (objectKey ob) = None \<longrightarrow>
     (\<exists>ob' s'. kCreate k ob s = (Inr ob', s') \<and>
        ob' = ob\<lparr>om_ResourceVersion := om_ResourceVersion ob', om_UID := om_UID ob'\<rparr> \<and>
        V s' = upd (alistUpdate (objectKey ob) ob') (V s)))"

text \<open>An object created with a name prefix only gets a name that is not in use.\<close>

definition generateOk :: "('s, 'a object_meta_scheme) kind_client \<Rightarrow> ('s \<Rightarrow> cluster) \<Rightarrow>
    (cluster \<Rightarrow> 'a object_meta_scheme kstore) \<Rightarrow>
    (('a object_meta_scheme kstore \<Rightarrow> 'a object_meta_scheme kstore) \<Rightarrow> cluster \<Rightarrow> cluster) \<Rightarrow> bool" where
  "generateOk k V sel upd \<longleftrightarrow> (\<forall>ob s. om_Name ob = [] \<longrightarrow> om_GenerateName ob \<noteq> [] \<longrightarrow>
     (\<exists>ob' s'. kCreate k ob s = (Inr ob', s') \<and> om_Name ob' \<noteq> [] \<and>
        ob' = ob\<lparr>om_Name := om_Name ob', om_ResourceVersion := om_ResourceVersion ob',
                 om_UID := om_UID ob'\<rparr> \<and>
        map_of (sel (V s)) (objectKey ob') = None \<and>
        V s' = upd (alistUpdate (objectKey ob') ob') (V s)))"

definition updateOk :: "('s, 'a object_meta_scheme) kind_client \<Rightarrow> ('s \<Rightarrow> cluster) \<Rightarrow>
    (cluster \<Rightarrow> 'a object_meta_scheme kstore) \<Rightarrow>
    (('a object_meta_scheme kstore \<Rightarrow> 'a object_meta_scheme kstore) \<Rightarrow> cluster \<Rightarrow> cluster) \<Rightarrow>
    ('a object_meta_scheme \<Rightarrow> 'a object_meta_scheme \<Rightarrow> 'a object_meta_scheme) \<Rightarrow> bool" where
  "updateOk k V sel upd keep \<longleftrightarrow> (\<forall>ob old s. map_of (sel (V s)) (objectKey ob) = Some old \<longrightarrow>
     om_ResourceVersion ob = om_ResourceVersion old \<longrightarrow>
     (\<exists>ob' s'. kUpdate k ob s = (Inr ob', s') \<and>
        ob' = asStored old (om_ResourceVersion ob') (keep old ob) \<and>
        V s' = upd (putObject ob') (V s)))"

definition statusOk :: "('s, 'a object_meta_scheme) kind_client \<Rightarrow> ('s \<Rightarrow> cluster) \<Rightarrow>
    (cluster \<Rightarrow> 'a object_meta_scheme kstore) \<Rightarrow>
    (('a object_meta_scheme kstore \<Rightarrow> 'a object_meta_scheme kstore) \<Rightarrow> cluster \<Rightarrow> cluster) \<Rightarrow>
    ('a object_meta_scheme \<Rightarrow> 'a object_meta_scheme \<Rightarrow> 'a object_meta_scheme) \<Rightarrow> bool" where
  "statusOk k V sel upd keep \<longleftrightarrow> (\<forall>ob old s. map_of (sel (V s)) (objectKey ob) = Some old \<longrightarrow>
     om_ResourceVersion ob = om_ResourceVersion old \<longrightarrow>
     (\<exists>ob' s'. kStatusUpdate k ob s = (Inr ob', s') \<and>
        ob' = (keep ob old)\<lparr>om_ResourceVersion := om_ResourceVersion ob'\<rparr> \<and>
        V s' = upd (alistUpdate (objectKey ob) ob') (V s)))"

definition deleteOk :: "('s, 'a object_meta_scheme) kind_client \<Rightarrow> ('s \<Rightarrow> cluster) \<Rightarrow>
    (cluster \<Rightarrow> 'a object_meta_scheme kstore) \<Rightarrow>
    (('a object_meta_scheme kstore \<Rightarrow> 'a object_meta_scheme kstore) \<Rightarrow> cluster \<Rightarrow> cluster) \<Rightarrow> bool" where
  "deleteOk k V sel upd \<longleftrightarrow> (\<forall>ob old s. map_of (sel (V s)) (objectKey ob) = Some old \<longrightarrow>
     om_Finalizers old = [] \<longrightarrow>
     (\<exists>s'. kDelete k ob s = (Inr (), s') \<and> V s' = upd (alistDelete (objectKey ob)) (V s)))"

definition retryOk :: "('s, 'o) kind_client \<Rightarrow> bool" where
  "retryOk k \<longleftrightarrow> (\<forall>f d s e d' s'. f d s = (e, d', s') \<longrightarrow> e \<noteq> Some ApiConflict \<longrightarrow>
     kRetry k f d s = (e, d', s'))"

definition kindOk :: "('s, 'a object_meta_scheme) kind_client \<Rightarrow> ('s \<Rightarrow> cluster) \<Rightarrow>
    (cluster \<Rightarrow> 'a object_meta_scheme kstore) \<Rightarrow>
    (('a object_meta_scheme kstore \<Rightarrow> 'a object_meta_scheme kstore) \<Rightarrow> cluster \<Rightarrow> cluster) \<Rightarrow>
    ('a object_meta_scheme \<Rightarrow> 'a object_meta_scheme \<Rightarrow> 'a object_meta_scheme) \<Rightarrow> bool" where
  "kindOk k V sel upd keep \<longleftrightarrow> getOk k V sel \<and> listOk k V sel \<and> createOk k V sel upd \<and>
     generateOk k V sel upd \<and>
     updateOk k V sel upd keep \<and> statusOk k V sel upd keep \<and> deleteOk k V sel upd \<and> retryOk k"

definition keepTenant :: "tenant \<Rightarrow> tenant \<Rightarrow> tenant" where
  "keepTenant old new = new\<lparr>tn_Status := tn_Status old\<rparr>"

definition keepIngester :: "ingester \<Rightarrow> ingester \<Rightarrow> ingester" where
  "keepIngester old new = new\<lparr>ig_Status := ig_Status old\<rparr>"

definition keepNone :: "'o \<Rightarrow> 'o \<Rightarrow> 'o" where
  "keepNone old new = new"

text \<open>
  The contract is stated for the kinds the tenant controller writes.  The kinds without a
  status of their own have nothing to keep.
\<close>

definition clientOk :: "'s client \<Rightarrow> ('s \<Rightarrow> cluster) \<Rightarrow> bool" where
  "clientOk cl V \<longleftrightarrow>
     kindOk (tenants cl) V c_tenants c_tenants_update keepTenant \<and>
     kindOk (ingesters cl) V c_ingesters c_ingesters_update keepIngester \<and>
     kindOk (compactors cl) V c_compactors c_compactors_update keepNone \<and>
     kindOk (rulers cl) V c_rulers c_rulers_update keepNone \<and>
     kindOk (stores cl) V c_stores c_stores_update keepNone \<and>
     kindOk (services cl) V c_services c_services_update keepNone \<and>
     kindOk (storages cl) V c_storages c_storages_update keepNone"

lemma clientOk_kinds:
  assumes "clientOk cl V"
  shows "kindOk (tenants cl) V c_tenants c_tenants_update keepTenant"
    and "kindOk (ingesters cl) V c_ingesters c_ingesters_update keepIngester"
    and "kindOk (compactors cl) V c_compactors c_compactors_update keepNone"
    and "kindOk (rulers cl) V c_rulers c_rulers_update keepNone"
    and "kindOk (stores cl) V c_stores c_stores_update keepNone"
    and "kindOk (services cl) V c_services c_services_update keepNone"
    and "kindOk (storages cl) V c_storages c_storages_update keepNone"
  using assms by (simp_all only: clientOk_def)

lemma kindOk_get:
  assumes "kindOk k V sel upd keep"
  shows "kGet k key s =
     ((case map_of (sel (V s)) key of None \<Rightarrow> Inl ApiNotFound | Some ob \<Rightarrow> Inr ob), s)"
  using assms by (simp only: kindOk_def getOk_def)

lemma kindOk_list:
  assumes "kindOk k V sel upd keep"
  shows "kList k opts s = (Inr (filter (matchesOpts opts) (map snd (sel (V s)))), s)"
  using assms by (simp only: kindOk_def listOk_def)

lemma kindOk_create:
  assumes "kindOk k V sel upd keep" and "om_Name ob \<noteq> []"
    and "map_of (sel (V s)) (objectKey ob) = None"
  obtains ob' s' where "kCreate k ob s = (Inr ob', s')"
    and "ob' = ob\<lparr>om_ResourceVersion := om_ResourceVersion ob', om_UID := om_UID ob'\<rparr>"
    and "V s' = upd (alistUpdate (objectKey ob) ob') (V s)"
proof -
  from assms(1) have "createOk k V sel upd" by (simp only: kindOk_def)
  with assms(2,3) that show thesis unfolding createOk_def by metis
qed

lemma kindOk_generate:
  assumes "kindOk k V sel upd keep" and "om_Name ob = []" and "om_GenerateName ob \<noteq> []"
  obtains ob' s' where "kCreate k ob s = (Inr ob', s')" and "om_Name ob' \<noteq> []"
    and "ob' = ob\<lparr>om_Name := om_Name ob', om_ResourceVersion := om_ResourceVersion ob',
                 om_UID := om_UID ob'\<rparr>"
    and "map_of (sel (V s)) (objectKey ob') = None"
    and "V s' = upd (alistUpdate (objectKey ob') ob') (V s)"
proof -
  from assms(1) have "generateOk k V sel upd" by (simp only: kindOk_def)
  with assms(2,3) that show thesis unfolding generateOk_def by metis
qed

lemma kindOk_update:
  assumes "kindOk k V sel upd keep" and "map_of (sel (V s)) (objectKey ob) = Some old"
    and "om_ResourceVersion ob = om_ResourceVersion old"
  obtains ob' s' where "kUpdate k ob s = (Inr ob', s')"
    and "ob' = asStored old (om_ResourceVersion ob') (keep old ob)"
    and "V s' = upd (putObject ob') (V s)"
proof -
  from assms(1) have "updateOk k V sel upd keep" by (simp only: kindOk_def)
  with assms(2,3) that show thesis unfolding updateOk_def by metis
qed

lemma kindOk_statusUpdate:
  assumes "kindOk k V sel upd keep" and "map_of (sel (V s)) (objectKey ob) = Some old"
    and "om_ResourceVersion ob = om_ResourceVersion old"
  obtains ob' s' where "kStatusUpdate k ob s = (Inr ob', s')"
    and "ob' = (keep ob old)\<lparr>om_ResourceVersion := om_ResourceVersion ob'\<rparr>"
    and "V s' = upd (alistUpdate (objectKey ob) ob') (V s)"
proof -
  from assms(1) have "statusOk k V sel upd keep" by (simp only: kindOk_def)
  with assms(2,3) that show thesis unfolding statusOk_def by metis
qed

lemma kindOk_delete:
  assumes "kindOk k V sel upd keep" and "map_of (sel (V s)) (objectKey ob) = Some old"
    and "om_Finalizers old = []"
  obtains s' where "kDelete k ob s = (Inr (), s')"
    and "V s' = upd (alistDelete (objectKey ob)) (V s)"
proof -
  from assms(1) have "deleteOk k V sel upd" by (simp only: kindOk_def)
  with assms(2,3) that show thesis unfolding deleteOk_def by metis
qed

lemma kindOk_retry:
  assumes "kindOk k V sel upd keep" and "f d s = (e, d', s')" and "e \<noteq> Some ApiConflict"
  shows "kRetry k f d s = (e, d', s')"
proof -
  from assms(1) have "retryOk k" by (simp only: kindOk_def)
  with assms(2,3) show ?thesis unfolding retryOk_def by metis
qed

section \<open>A concrete client\<close>

text \<open>
  An in-memory store: the state is the cluster itself, versions count up in unary, a retry
  that hits a conflict is not repeated (there is no other writer), deletion of an object with
  finalizers marks it.
\<close>

definition freshName :: "string \<Rightarrow> 'o kstore \<Rightarrow> string" where
  "freshName prefix xs =
     prefix @ replicate (Suc (sum_list (map (\<lambda>p. length (nn_Name (fst p))) xs))) CHR ''x''"

lemma freshName_fresh: "nn_Name k = freshName prefix xs \<Longrightarrow> map_of xs k = None"
proof (rule ccontr)
  assume k: "nn_Name k = freshName prefix xs" and "map_of xs k \<noteq> None"
  then obtain p where "p \<in> set xs" "fst p = k" by (auto dest: map_of_SomeD)
  then have "length (nn_Name k) \<le> sum_list (map (\<lambda>p. length (nn_Name (fst p))) xs)"
    by (auto intro!: member_le_sum_list)
  with k show False by (simp add: freshName_def)
qed

definition memKind :: "(cluster \<Rightarrow> 'a object_meta_scheme kstore) \<Rightarrow>
    (('a object_meta_scheme kstore \<Rightarrow> 'a object_meta_scheme kstore) \<Rightarrow> cluster \<Rightarrow> cluster) \<Rightarrow>
    ('a object_meta_scheme \<Rightarrow> 'a object_meta_scheme \<Rightarrow> 'a object_meta_scheme) \<Rightarrow>
    (cluster, 'a object_meta_scheme) kind_client" where
  "memKind sel upd keep = \<lparr>
     kGet = (\<lambda>key c. ((case map_of (sel c) key of None \<Rightarrow> Inl ApiNotFound | Some ob \<Rightarrow> Inr ob), c)),
     kList = (\<lambda>opts c. (Inr (filter (matchesOpts opts) (map snd (sel c))), c)),
     kCreate = (\<lambda>ob c.
       let named = (if om_Name ob = [] then ob\<lparr>om_Name := freshName (om_GenerateName ob) (sel c)\<rparr> else ob);
           ob' = named\<lparr>om_ResourceVersion := ''1'', om_UID := om_Name named\<rparr>
       in case map_of (sel c) (objectKey named) of
            Some _ \<Rightarrow> (Inl ApiAlreadyExists, c)
          | None \<Rightarrow> (Inr ob', upd (alistUpdate (objectKey named) ob') c)),
     kUpdate = (\<lambda>ob c. case map_of (sel c) (objectKey ob) of
            None \<Rightarrow> (Inl ApiNotFound, c)
          | Some old \<Rightarrow>
              if om_ResourceVersion ob \<noteq> om_ResourceVersion old then (Inl ApiConflict, c)
              else let ob' = asStored old (CHR ''1'' # om_ResourceVersion old) (keep old ob)
                   in (Inr ob', upd (putObject ob') c)),
     kStatusUpdate = (\<lambda>ob c. case map_of (sel c) (objectKey ob) of
            None \<Rightarrow> (Inl ApiNotFound, c)
          | Some old \<Rightarrow>
              if om_ResourceVersion ob \<noteq> om_ResourceVersion old then (Inl ApiConflict, c)
              else let ob' = (keep ob old)\<lparr>om_ResourceVersion := CHR ''1'' # om_ResourceVersion old\<rparr>
                   in (Inr ob', upd (alistUpdate (objectKey ob) ob') c)),
     kDelete = (\<lambda>ob c. case map_of (sel c) (objectKey ob) of
            None \<Rightarrow> (Inl ApiNotFound, c)
          | Some old \<Rightarrow>
              if om_Finalizers old = [] then (Inr (), upd (alistDelete (objectKey ob)) c)
              else (Inr (), upd (alistUpdate (objectKey ob) (old\<lparr>om_DeletionTimestamp := Some 0\<rparr>)) c)),
     kRetry = (\<lambda>f. f)\<rparr>"

lemma memKind_ok: "kindOk (memKind sel upd keep) (\<lambda>c. c) sel upd keep"
  unfolding kindOk_def
proof (intro conjI)
  show "getOk (memKind sel upd keep) (\<lambda>c. c) sel"
    by (simp add: getOk_def memKind_def)
  show "listOk (memKind sel upd keep) (\<lambda>c. c) sel"
    by (simp add: listOk_def memKind_def)
  show "createOk (memKind sel upd keep) (\<lambda>c. c) sel upd"
    by (simp add: createOk_def memKind_def Let_def)
  show "generateOk (memKind sel upd keep) (\<lambda>c. c) sel upd"
    by (auto simp: generateOk_def memKind_def Let_def objectKey_def freshName_fresh)
      (simp add: freshName_def)
  show "updateOk (memKind sel upd keep) (\<lambda>c. c) sel upd keep"
    by (simp add: updateOk_def memKind_def Let_def asStored_def)
  show "statusOk (memKind sel upd keep) (\<lambda>c. c) sel upd keep"
    by (simp add: statusOk_def memKind_def Let_def)
  show "deleteOk (memKind sel upd keep) (\<lambda>c. c) sel upd"
    by (simp add: deleteOk_def memKind_def)
  show "retryOk (memKind sel upd keep)"
    by (simp add: retryOk_def memKind_def)
qed

definition nullKind :: "('s, 'o) kind_client" where
  "nullKind = \<lparr>kGet = (\<lambda>_. failE ApiNotFound), kList = (\<lambda>_. ret []), kCreate = (\<lambda>ob. ret ob),
     kUpdate = (\<lambda>_. failE ApiNotFound), kStatusUpdate = (\<lambda>_. failE ApiNotFound),
     kDelete = (\<lambda>_. failE ApiNotFound), kRetry = (\<lambda>f. f)\<rparr>"

definition memClient :: "cluster client" where
  "memClient = \<lparr>
     tenants = memKind c_tenants c_tenants_update keepTenant,
     ingesters = memKind c_ingesters c_ingesters_update keepIngester,
     compactors = memKind c_compactors c_compactors_update keepNone,
     rulers = memKind c_rulers c_rulers_update keepNone,
     stores = memKind c_stores c_stores_update keepNone,
     services = memKind c_services c_services_update keepNone,
     storages = memKind c_storages c_storages_update keepNone,
     gateways = nullKind, routers = nullKind, queries = nullKind, queryFrontends = nullKind,
     statefulSets = nullKind, deployments = nullKind, kubeServices = nullKind,
     configMaps = nullKind, secrets = nullKind, serviceAccounts = nullKind, pvcs = nullKind,
     namespaces = nullKind, promRules = nullKind\<rparr>"

lemma memClient_ok: "clientOk memClient (\<lambda>c. c)"
  by (simp add: clientOk_def memClient_def memKind_ok)

end
