(* ===== verification/Util_Lib.thy ===== *)
theory Util_Lib
  imports Kube_Client
begin

text \<open>
  \<^verbatim>\<open>pkg/util\<close>: slices, label maps and namespaced names (\<^verbatim>\<open>utils.go\<close>), errors
  (\<^verbatim>\<open>errors.go\<close>), the relabel configuration (\<^verbatim>\<open>relabel_config.go\<close>) and the
  create-or-update family over the API client (\<^verbatim>\<open>k8s.go\<close>).
\<close>

section \<open>utils.go\<close>

text \<open>
  A nil first argument is replaced by a fresh map inside the function only: the caller's map
  stays nil.  \<open>None\<close> is the nil map here.
\<close>

definition AppendLabel :: "labels_map option \<Rightarrow> labels_map \<Rightarrow> labels_map option" where
  "AppendLabel m1 m2 = (case m1 of None \<Rightarrow> None | Some m \<Rightarrow> Some (m2 ++ m))"

fun Contains :: "string list \<Rightarrow> string \<Rightarrow> bool" where
  "Contains [] key = False"
| "Contains (k # ks) key = (if k = key then True else Contains ks key)"

definition Join :: "string \<Rightarrow> string list \<Rightarrow> string" where
  "Join sep elem = joinStr sep elem"

definition MegerMap :: "labels_map \<Rightarrow> labels_map \<Rightarrow> labels_map" where
  "MegerMap src dest = dest ++ src"

fun ReplaceInSlice :: "'a list \<Rightarrow> ('a \<Rightarrow> bool) \<Rightarrow> 'a \<Rightarrow> 'a list \<times> bool" where
  "ReplaceInSlice [] fn new = ([], False)"
| "ReplaceInSlice (v # vs) fn new =
     (if fn v then (new # vs, True)
      else (case ReplaceInSlice vs fn new of (vs', r) \<Rightarrow> (v # vs', r)))"

definition GetArgName :: "string \<Rightarrow> string" where
  "GetArgName s = hd (splitOn CHR ''='' s)"

definition ManagedLabelByService :: "'a object_meta_scheme \<Rightarrow> labels_map" where
  "ManagedLabelByService svc =
     [ServiceLabelKey \<mapsto> om_Namespace svc @ ''.'' @ om_Name svc]"

definition ManagedLabelBySameService :: "'a object_meta_scheme \<Rightarrow> labels_map" where
  "ManagedLabelBySameService ob = [ServiceLabelKey \<mapsto> mget (om_Labels ob) ServiceLabelKey]"

definition ManagedLabelByStorage :: "'a object_meta_scheme \<Rightarrow> labels_map" where
  "ManagedLabelByStorage sg =
     [StorageLabelKey \<mapsto> om_Namespace sg @ ''.'' @ om_Name sg]"

definition ServiceNamespacedName :: "'a object_meta_scheme \<Rightarrow> nsname option" where
  "ServiceNamespacedName ob =
     (let ls = om_Labels ob in
      if ls = Map.empty then None
      else (case splitOn CHR ''.'' (mget ls ServiceLabelKey) of
              [a, b] \<Rightarrow> Some \<lparr>nn_Namespace = a, nn_Name = b\<rparr>
            | _ \<Rightarrow> None))"

definition StorageNamespacedName :: "'a object_meta_scheme \<Rightarrow> nsname option" where
  "StorageNamespacedName ob =
     (let ls = om_Labels ob in
      if ls = Map.empty then None
      else (case splitOn CHR ''.'' (mget ls StorageLabelKey) of
              [a, b] \<Rightarrow> Some \<lparr>nn_Namespace = a, nn_Name = b\<rparr>
            | _ \<Rightarrow> None))"

section \<open>errors.go\<close>

fun IgnoreNotFound :: "gerror option \<Rightarrow> gerror option" where
  "IgnoreNotFound None = None"
| "IgnoreNotFound (Some e) =
     (if e = ApiCRNotFound \<or> e = ApiNotFound then None else Some e)"

fun IsNotFound :: "gerror option \<Rightarrow> bool" where
  "IsNotFound None = False"
| "IsNotFound (Some e) = (e = ApiNotFound)"

text \<open>\<^verbatim>\<open>return util.IgnoreNotFound(err)\<close> at the end of an action.\<close>

definition ignoringNotFound :: "('s, unit) act \<Rightarrow> ('s, unit) act" where
  "ignoringNotFound m = handleE m (\<lambda>r. case r of
      Inr _ \<Rightarrow> ret ()
    | Inl e \<Rightarrow> (case IgnoreNotFound (Some e) of None \<Rightarrow> ret () | Some e' \<Rightarrow> failE e'))"

section \<open>relabel_config.go\<close>

record relabel_config =
  rc_Action :: string
  rc_SourceLabels :: "string list"
  rc_Regex :: string

text \<open>The \<^verbatim>\<open>for\<close> loop over the tenants, and \<^verbatim>\<open>TrimPrefix\<close> of the leading bar.\<close>

fun tenantsRegexLoop :: "string \<Rightarrow> string list \<Rightarrow> string" where
  "tenantsRegexLoop regex [] = regex"
| "tenantsRegexLoop regex (t # ts) = tenantsRegexLoop (regex @ ''|^'' @ t @ ''$'') ts"

definition keepTenantsRelabel :: "string \<Rightarrow> string list \<Rightarrow> relabel_config" where
  "keepTenantsRelabel tenantLabelName ts =
     \<lparr>rc_Action = ''keep'', rc_SourceLabels = [tenantLabelName],
      rc_Regex = trimPrefix (tenantsRegexLoop [] ts) ''|''\<rparr>"

text \<open>\<^verbatim>\<open>yaml.Marshal\<close> is a parameter.\<close>

definition CreateKeepTenantsRelabelConfig ::
    "(relabel_config list \<Rightarrow> string res) \<Rightarrow> string \<Rightarrow> string list \<Rightarrow> string res" where
  "CreateKeepTenantsRelabelConfig yamlMarshal tenantLabelName ts =
     yamlMarshal [keepTenantsRelabel tenantLabelName ts]"

section \<open>k8s.go\<close>

definition mergeMetadata :: "'a object_meta_scheme \<Rightarrow> 'a object_meta_scheme \<Rightarrow> 'a object_meta_scheme" where
  "mergeMetadata new old = new\<lparr>
     om_ResourceVersion := om_ResourceVersion old,
     om_Labels := mergeMaps (om_Labels old) (om_Labels new),
     om_Annotations := mergeMaps (om_Annotations old) (om_Annotations new)\<rparr>"

text \<open>
  The body the create-or-update functions share, run once: read the current object; create the
  desired one if there is none; otherwise merge and update, unless nothing would change.  The
  closure keeps the desired object between retries, so it returns it.
\<close>

definition upsertOnce :: "('s, 'a object_meta_scheme) kind_client \<Rightarrow>
    ('a object_meta_scheme \<Rightarrow> 'a object_meta_scheme \<Rightarrow> 'a object_meta_scheme) \<Rightarrow>
    ('a object_meta_scheme \<Rightarrow> 'a object_meta_scheme \<Rightarrow> bool) \<Rightarrow>
    'a object_meta_scheme \<Rightarrow> 's \<Rightarrow> gerror option \<times> 'a object_meta_scheme \<times> 's" where
  "upsertOnce k merge skip desired s =
     (case kGet k (objectKey desired) s of
        (Inl e, s1) \<Rightarrow>
          if e \<noteq> ApiNotFound then (Some e, desired, s1)
          else (case kCreate k desired s1 of
                  (Inl e', s2) \<Rightarrow> (Some e', desired, s2)
                | (Inr ob, s2) \<Rightarrow> (None, ob, s2))
      | (Inr current, s1) \<Rightarrow>
          (let merged = merge desired current in
           if skip current merged then (None, merged, s1)
           else (case kUpdate k merged s1 of
                   (Inl e', s2) \<Rightarrow> (Some e', merged, s2)
                 | (Inr ob, s2) \<Rightarrow> (None, ob, s2))))"

definition upsert :: "('s, 'a object_meta_scheme) kind_client \<Rightarrow>
    ('a object_meta_scheme \<Rightarrow> 'a object_meta_scheme \<Rightarrow> 'a object_meta_scheme) \<Rightarrow>
    ('a object_meta_scheme \<Rightarrow> 'a object_meta_scheme \<Rightarrow> bool) \<Rightarrow>
    'a object_meta_scheme \<Rightarrow> ('s, unit) act" where
  "upsert k merge skip desired = (\<lambda>s.
     case kRetry k (upsertOnce k merge skip) desired s of
       (None, _, s') \<Rightarrow> (Inr (), s')
     | (Some e, _, s') \<Rightarrow> (Inl e, s'))"

definition neverSkip :: "'o \<Rightarrow> 'o \<Rightarrow> bool" where
  "neverSkip current desired = False"

definition skipEqual :: "'o \<Rightarrow> 'o \<Rightarrow> bool" where
  "skipEqual current desired = (current = desired)"

definition CreateOrUpdateStatefulSet :: "'s client \<Rightarrow> stateful_set \<Rightarrow> ('s, unit) act" where
  "CreateOrUpdateStatefulSet cl desired = upsert (statefulSets cl) mergeMetadata neverSkip desired"

definition CreateOrUpdateDeployment :: "'s client \<Rightarrow> deployment \<Rightarrow> ('s, unit) act" where
  "CreateOrUpdateDeployment cl desired = upsert (deployments cl) mergeMetadata neverSkip desired"

definition mergeKubeService :: "kube_service \<Rightarrow> kube_service \<Rightarrow> kube_service" where
  "mergeKubeService desired current = mergeMetadata
     (desired\<lparr>ks_IPFamilies := ks_IPFamilies current,
              ks_IPFamilyPolicy := ks_IPFamilyPolicy current,
              ks_ClusterIP := ks_ClusterIP current,
              ks_ClusterIPs := ks_ClusterIPs current\<rparr>) current"

definition CreateOrUpdateService :: "'s client \<Rightarrow> kube_service \<Rightarrow> ('s, unit) act" where
  "CreateOrUpdateService cl desired = upsert (kubeServices cl) mergeKubeService neverSkip desired"

text \<open>
  \<^verbatim>\<open>CreateOrUpdateConfigMap\<close> declares its \<^verbatim>\<open>current\<close> as a Deployment, so it reads the
  deployment of that name, merges its metadata, and compares a Deployment with a ConfigMap,
  which are never equal.
\<close>

definition configMapOnce :: "'s client \<Rightarrow> config_map \<Rightarrow> 's \<Rightarrow> gerror option \<times> config_map \<times> 's" where
  "configMapOnce cl desired s =
     (case kGet (deployments cl) (objectKey desired) s of
        (Inl e, s1) \<Rightarrow>
          if e \<noteq> ApiNotFound then (Some e, desired, s1)
          else (case kCreate (configMaps cl) desired s1 of
                  (Inl e', s2) \<Rightarrow> (Some e', desired, s2)
                | (Inr ob, s2) \<Rightarrow> (None, ob, s2))
      | (Inr current, s1) \<Rightarrow>
          (let merged = desired\<lparr>
                 om_ResourceVersion := om_ResourceVersion current,
                 om_Labels := mergeMaps (om_Labels current) (om_Labels desired),
                 om_Annotations := mergeMaps (om_Annotations current) (om_Annotations desired)\<rparr>
           in (case kUpdate (configMaps cl) merged s1 of
                   (Inl e', s2) \<Rightarrow> (Some e', merged, s2)
                 | (Inr ob, s2) \<Rightarrow> (None, ob, s2))))"

definition CreateOrUpdateConfigMap :: "'s client \<Rightarrow> config_map \<Rightarrow> ('s, unit) act" where
  "CreateOrUpdateConfigMap cl desired = (\<lambda>s.
     case kRetry (configMaps cl) (configMapOnce cl) desired s of
       (None, _, s') \<Rightarrow> (Inr (), s')
     | (Some e, _, s') \<Rightarrow> (Inl e, s'))"

definition serviceAccountOnce ::
    "'s client \<Rightarrow> service_account \<Rightarrow> 's \<Rightarrow> gerror option \<times> service_account \<times> 's" where
  "serviceAccountOnce cl desired s =
     (case kGet (serviceAccounts cl) (objectKey desired) s of
        (Inl e, s1) \<Rightarrow>
          if e \<noteq> ApiNotFound then (Some e, desired, s1)
          else (case kCreate (serviceAccounts cl) desired s1 of
                  (Inl e', s2) \<Rightarrow> (Some e', desired, s2)
                | (Inr ob, s2) \<Rightarrow> (None, ob, s2))
      | (Inr current, s1) \<Rightarrow>
          (let merged = mergeMetadata desired current in
           if current = merged then (None, merged, s1)
           else let merged' = merged\<lparr>sa_Secrets := sa_Secrets current\<rparr> in
                (case kUpdate (serviceAccounts cl) merged' s1 of
                   (Inl e', s2) \<Rightarrow> (Some e', merged', s2)
                 | (Inr ob, s2) \<Rightarrow> (None, ob, s2))))"

definition CreateOrUpdateServiceAccount :: "'s client \<Rightarrow> service_account \<Rightarrow> ('s, unit) act" where
  "CreateOrUpdateServiceAccount cl desired = (\<lambda>s.
     case kRetry (serviceAccounts cl) (serviceAccountOnce cl) desired s of
       (None, _, s') \<Rightarrow> (Inr (), s')
     | (Some e, _, s') \<Rightarrow> (Inl e, s'))"

text \<open>
  \<^verbatim>\<open>CreateOrUpdate\<close> takes any \<^verbatim>\<open>client.Object\<close>; it sets the version, merges annotations
  and labels, and skips the update when nothing changed.
\<close>

definition CreateOrUpdate ::
    "('s, 'a object_meta_scheme) kind_client \<Rightarrow> 'a object_meta_scheme \<Rightarrow> ('s, unit) act" where
  "CreateOrUpdate k desired = upsert k mergeMetadata skipEqual desired"

definition CreateIfNotExists ::
    "('s, 'a object_meta_scheme) kind_client \<Rightarrow> 'a object_meta_scheme \<Rightarrow> ('s, unit) act" where
  "CreateIfNotExists k desired = upsert k (\<lambda>desired current. desired) (\<lambda>_ _. True) desired"

text \<open>\<^verbatim>\<open>schema.ParseGroupVersion\<close> is a parameter that returns the group, or an error.\<close>

definition referSameObject ::
    "(string \<Rightarrow> string res) \<Rightarrow> owner_reference \<Rightarrow> owner_reference \<Rightarrow> bool" where
  "referSameObject parseGroup a b =
     (case parseGroup (or_APIVersion a) of
        Inl _ \<Rightarrow> False
      | Inr ga \<Rightarrow> (case parseGroup (or_APIVersion b) of
           Inl _ \<Rightarrow> False
         | Inr gb \<Rightarrow> ga = gb \<and> or_Kind a = or_Kind b \<and> or_Name a = or_Name b))"

fun indexOwnerRefFrom ::
    "(string \<Rightarrow> string res) \<Rightarrow> int \<Rightarrow> owner_reference list \<Rightarrow> owner_reference \<Rightarrow> int" where
  "indexOwnerRefFrom parseGroup i [] ref = - 1"
| "indexOwnerRefFrom parseGroup i (r # rs) ref =
     (if referSameObject parseGroup r ref then i else indexOwnerRefFrom parseGroup (i + 1) rs ref)"

definition IndexOwnerRef ::
    "(string \<Rightarrow> string res) \<Rightarrow> owner_reference list \<Rightarrow> owner_reference \<Rightarrow> int" where
  "IndexOwnerRef parseGroup refs ref = indexOwnerRefFrom parseGroup 0 refs ref"

text \<open>The names a StatefulSet gives the claims of its replicas.\<close>

definition pvcName :: "string \<Rightarrow> string \<Rightarrow> nat \<Rightarrow> string" where
  "pvcName template stsName index = template @ ''-'' @ stsName @ ''-'' @ itoaNat index"

definition deleteOnePVC :: "'s client \<Rightarrow> string \<Rightarrow> string \<Rightarrow> ('s, unit) act" where
  "deleteOnePVC cl ns name = handleE
     (kDelete (pvcs cl) (zeroMeta\<lparr>om_Name := name, om_Namespace := ns\<rparr>))
     (\<lambda>r. case r of Inr _ \<Rightarrow> ret ()
        | Inl e \<Rightarrow> (if IsNotFound (Some e) then ret () else failE e))"

definition DeletePVC :: "'s client \<Rightarrow> 'a object_meta_scheme \<Rightarrow> ('s, unit) act" where
  "DeletePVC cl ob =
     bindE (kGet (statefulSets cl) (objectKey ob)) (\<lambda>sts.
       let replicas = (case ss_Replicas (sts_Spec sts) of None \<Rightarrow> 1 | Some r \<Rightarrow> r) in
       forE (ss_VolumeClaimTemplates (sts_Spec sts)) (\<lambda>item.
         forE [0..<nat replicas] (\<lambda>index.
           deleteOnePVC cl (om_Namespace sts) (pvcName (pvc_Name item) (om_Name sts) index))))"

section \<open>Slices, names and labels\<close>

lemma Contains_iff [simp]: "Contains xs k \<longleftrightarrow> k \<in> set xs"
  by (induction xs) auto

lemma ReplaceInSlice_snd: "snd (ReplaceInSlice vs fn new) \<longleftrightarrow> (\<exists>v \<in> set vs. fn v)"
  by (induction vs) (auto split: prod.splits)

lemma ReplaceInSlice_none: "\<not> (\<exists>v \<in> set vs. fn v) \<Longrightarrow> ReplaceInSlice vs fn new = (vs, False)"
  by (induction vs) auto

lemma ReplaceInSlice_split:
  assumes "\<forall>v \<in> set pre. \<not> fn v" and "fn x"
  shows "ReplaceInSlice (pre @ x # post) fn new = (pre @ new # post, True)"
  using assms by (induction pre) auto

lemma ReplaceInSlice_cases:
  obtains (replaced) pre x post where "vs = pre @ x # post" "\<forall>v \<in> set pre. \<not> fn v" "fn x"
      "ReplaceInSlice vs fn new = (pre @ new # post, True)"
  | (absent) "\<forall>v \<in> set vs. \<not> fn v" "ReplaceInSlice vs fn new = (vs, False)"
proof (cases "\<exists>v \<in> set vs. fn v")
  case True
  then obtain pre x post where "vs = pre @ x # post" "fn x" "\<forall>v \<in> set pre. \<not> fn v"
    using split_list_first_prop [of vs fn] by blast
  then show thesis using replaced [of pre x post] by (simp add: ReplaceInSlice_split)
next
  case False
  then show thesis using absent by (simp add: ReplaceInSlice_none)
qed

lemma length_ReplaceInSlice [simp]: "length (fst (ReplaceInSlice vs fn new)) = length vs"
  by (induction vs) (auto split: prod.splits)

lemma GetArgName_def2: "GetArgName s = takeWhile (\<lambda>c. c \<noteq> CHR ''='') s"
proof (induction s)
  case Nil
  show ?case by (simp add: GetArgName_def)
next
  case (Cons x xs)
  then show ?case
    by (cases "splitOn CHR ''='' xs") (auto simp: GetArgName_def)
qed

lemma GetArgName_arg: "CHR ''='' \<notin> set n \<Longrightarrow> GetArgName (n @ CHR ''='' # v) = n"
  unfolding GetArgName_def2 by (induction n) auto

text \<open>The test for an empty label map is redundant: an empty map has no service either.\<close>

lemma ServiceNamespacedName_alt:
  "ServiceNamespacedName ob =
     (case splitOn CHR ''.'' (mget (om_Labels ob) ServiceLabelKey) of
        [a, b] \<Rightarrow> Some \<lparr>nn_Namespace = a, nn_Name = b\<rparr> | _ \<Rightarrow> None)"
  by (simp add: ServiceNamespacedName_def Let_def)

lemma StorageNamespacedName_alt:
  "StorageNamespacedName ob =
     (case splitOn CHR ''.'' (mget (om_Labels ob) StorageLabelKey) of
        [a, b] \<Rightarrow> Some \<lparr>nn_Namespace = a, nn_Name = b\<rparr> | _ \<Rightarrow> None)"
  by (simp add: StorageNamespacedName_def Let_def)

lemma tenantsRegexLoop_eq:
  "tenantsRegexLoop r ts = r @ concat (map (\<lambda>t. ''|^'' @ t @ ''$'') ts)"
  by (induction ts arbitrary: r) auto

lemma joinStr_bars:
  "joinStr ''|'' (x # xs) = x @ concat (map (\<lambda>t. ''|'' @ t) xs)"
  by (induction xs arbitrary: x) auto

lemma ignoringNotFound_Inr [simp]: "m s = (Inr x, s') \<Longrightarrow> ignoringNotFound m s = (Inr (), s')"
  by (simp add: ignoringNotFound_def)

section \<open>The create-or-update contract\<close>

text \<open>
  What every merge function of the family promises: the object it sends carries the version
  and the key of the stored one, the labels and annotations of both, the desired ones winning.
  The lemmas say what the server then holds; each create-or-update function is an instance.
\<close>

locale upsert_merge =
  fixes merge :: "'a object_meta_scheme \<Rightarrow> 'a object_meta_scheme \<Rightarrow> 'a object_meta_scheme"
  assumes merge_version: "om_ResourceVersion (merge d c) = om_ResourceVersion c"
    and merge_key: "objectKey (merge d c) = objectKey d"
    and merge_labels: "om_Labels (merge d c) = mergeMaps (om_Labels c) (om_Labels d)"
    and merge_annotations: "om_Annotations (merge d c) = mergeMaps (om_Annotations c) (om_Annotations d)"
begin

lemma desired_label_wins: "om_Labels d k = Some v \<Longrightarrow> om_Labels (merge d c) k = Some v"
  by (simp add: merge_labels)

lemma other_label_kept: "om_Labels d k = None \<Longrightarrow> om_Labels (merge d c) k = om_Labels c k"
  by (simp add: merge_labels)

lemma upsert_existing:
  assumes ok: "kindOk k V sel upd keep"
    and cur: "map_of (sel (V s)) (objectKey d) = Some c"
    and changed: "\<not> skip c (merge d c)"
  obtains rv s' where "upsert k merge skip d s = (Inr (), s')"
    and "V s' = upd (putObject (asStored c rv (keep c (merge d c)))) (V s)"
proof -
  have get: "kGet k (objectKey d) s = (Inr c, s)"
    using kindOk_get [OF ok] cur by simp
  obtain ob' s' where upd: "kUpdate k (merge d c) s = (Inr ob', s')"
    and ob': "ob' = asStored c (om_ResourceVersion ob') (keep c (merge d c))"
    and V: "V s' = upd (putObject ob') (V s)"
    using kindOk_update [OF ok, of s "merge d c" c] cur by (auto simp: merge_key merge_version)
  have "upsertOnce k merge skip d s = (None, ob', s')"
    using get upd changed by (simp add: upsertOnce_def Let_def)
  then have "kRetry k (upsertOnce k merge skip) d s = (None, ob', s')"
    by (rule kindOk_retry [OF ok]) simp
  then have "upsert k merge skip d s = (Inr (), s')"
    by (simp add: upsert_def)
  with V ob' show thesis by (metis that)
qed

lemma upsert_unchanged:
  assumes ok: "kindOk k V sel upd keep"
    and cur: "map_of (sel (V s)) (objectKey d) = Some c"
    and same: "skip c (merge d c)"
  shows "upsert k merge skip d s = (Inr (), s)"
proof -
  have "kGet k (objectKey d) s = (Inr c, s)"
    using kindOk_get [OF ok] cur by simp
  then have "upsertOnce k merge skip d s = (None, merge d c, s)"
    using same by (simp add: upsertOnce_def Let_def)
  then have "kRetry k (upsertOnce k merge skip) d s = (None, merge d c, s)"
    by (rule kindOk_retry [OF ok]) simp
  then show ?thesis by (simp add: upsert_def)
qed

lemma upsert_fresh:
  assumes ok: "kindOk k V sel upd keep"
    and new: "map_of (sel (V s)) (objectKey d) = None" and named: "om_Name d \<noteq> []"
  obtains ob' s' where "upsert k merge skip d s = (Inr (), s')"
    and "ob' = d\<lparr>om_ResourceVersion := om_ResourceVersion ob', om_UID := om_UID ob'\<rparr>"
    and "V s' = upd (alistUpdate (objectKey d) ob') (V s)"
proof -
  have get: "kGet k (objectKey d) s = (Inl ApiNotFound, s)"
    using kindOk_get [OF ok] new by simp
  obtain ob' s' where create: "kCreate k d s = (Inr ob', s')"
    and ob': "ob' = d\<lparr>om_ResourceVersion := om_ResourceVersion ob', om_UID := om_UID ob'\<rparr>"
    and V: "V s' = upd (alistUpdate (objectKey d) ob') (V s)"
    using kindOk_create [OF ok named new] by metis
  have "upsertOnce k merge skip d s = (None, ob', s')"
    using get create by (simp add: upsertOnce_def)
  then have "kRetry k (upsertOnce k merge skip) d s = (None, ob', s')"
    by (rule kindOk_retry [OF ok]) simp
  then have "upsert k merge skip d s = (Inr (), s')"
    by (simp add: upsert_def)
  then show thesis using ob' V by (rule that)
qed

lemma upsert_generated:
  assumes ok: "kindOk k V sel upd keep"
    and new: "map_of (sel (V s)) (objectKey d) = None"
    and unnamed: "om_Name d = []" and prefix: "om_GenerateName d \<noteq> []"
  obtains ob' s' where "upsert k merge skip d s = (Inr (), s')" and "om_Name ob' \<noteq> []"
    and "ob' = d\<lparr>om_Name := om_Name ob', om_ResourceVersion := om_ResourceVersion ob',
                om_UID := om_UID ob'\<rparr>"
    and "map_of (sel (V s)) (objectKey ob') = None"
    and "V s' = upd (alistUpdate (objectKey ob') ob') (V s)"
proof -
  have get: "kGet k (objectKey d) s = (Inl ApiNotFound, s)"
    using kindOk_get [OF ok] new by simp
  obtain ob' s' where create: "kCreate k d s = (Inr ob', s')" and name: "om_Name ob' \<noteq> []"
    and ob': "ob' = d\<lparr>om_Name := om_Name ob', om_ResourceVersion := om_ResourceVersion ob',
                om_UID := om_UID ob'\<rparr>"
    and fresh: "map_of (sel (V s)) (objectKey ob') = None"
    and V: "V s' = upd (alistUpdate (objectKey ob') ob') (V s)"
    by (rule kindOk_generate [OF ok unnamed prefix])
  have "upsertOnce k merge skip d s = (None, ob', s')"
    using get create by (simp add: upsertOnce_def)
  then have "kRetry k (upsertOnce k merge skip) d s = (None, ob', s')"
    by (rule kindOk_retry [OF ok]) simp
  then have "upsert k merge skip d s = (Inr (), s')"
    by (simp add: upsert_def)
  then show thesis using name ob' fresh V by (rule that)
qed

end

lemma mergeMetadata_simps [simp]:
  "om_ResourceVersion (mergeMetadata d c) = om_ResourceVersion c"
  "objectKey (mergeMetadata d c) = objectKey d"
  "om_Name (mergeMetadata d c) = om_Name d"
  "om_Namespace (mergeMetadata d c) = om_Namespace d"
  "om_Labels (mergeMetadata d c) = mergeMaps (om_Labels c) (om_Labels d)"
  "om_Annotations (mergeMetadata d c) = mergeMaps (om_Annotations c) (om_Annotations d)"
  "om_Finalizers (mergeMetadata d c) = om_Finalizers d"
  "om_DeletionTimestamp (mergeMetadata d c) = om_DeletionTimestamp d"
  "object_meta.more (mergeMetadata d c) = object_meta.more d"
  by (simp_all add: mergeMetadata_def objectKey_def)

interpretation mm: upsert_merge mergeMetadata
  by unfold_locales simp_all

interpretation ms: upsert_merge mergeKubeService
  by unfold_locales (simp_all add: mergeKubeService_def objectKey_def)

lemma mergeMetadata_idem: "mergeMetadata (mergeMetadata d c) c = mergeMetadata d c"
  by (simp add: mergeMetadata_def mergeMaps_def map_add_assoc)
    (metis map_add_assoc map_add_subsumed1 map_le_map_add mergeMaps_def mergeMaps_idem)

section \<open>Properties\<close>

text \<open>
  When an object of that key exists and the merged object differs from it,
  \<^verbatim>\<open>util.CreateOrUpdate\<close> succeeds and the server then holds an object with the desired
  content: every desired label and annotation is set, every other label and annotation is
  kept, and everything outside the metadata is what was desired (the status subresource aside).
\<close>

theorem CreateOrUpdate_existing:
  assumes ok: "kindOk k V sel upd keep"
    and cur: "map_of (sel (V s)) (objectKey d) = Some c"
    and changed: "mergeMetadata d c \<noteq> c"
    and alive: "om_DeletionTimestamp c = None"
    and more: "\<And>old new. keep old new = new"
  shows "\<exists>s' ob. CreateOrUpdate k d s = (Inr (), s') \<and>
     V s' = upd (alistUpdate (objectKey d) ob) (V s) \<and>
     object_meta.more ob = object_meta.more d \<and>
     om_Labels ob = om_Labels c ++ om_Labels d \<and>
     om_Annotations ob = om_Annotations c ++ om_Annotations d"
proof -
  have "\<not> skipEqual c (mergeMetadata d c)" using changed by (simp add: skipEqual_def)
  then obtain rv s' where "upsert k mergeMetadata skipEqual d s = (Inr (), s')"
    and "V s' = upd (putObject (asStored c rv (keep c (mergeMetadata d c)))) (V s)"
    using mm.upsert_existing [OF ok cur] by metis
  moreover have "putObject (asStored c rv (mergeMetadata d c)) =
      alistUpdate (objectKey d) (asStored c rv (mergeMetadata d c))"
    by (rule ext) (simp add: putObject_def alive)
  ultimately show ?thesis
    by (intro exI [of _ s'] exI [of _ "asStored c rv (mergeMetadata d c)"])
      (simp add: CreateOrUpdate_def more mergeMaps_def)
qed

theorem CreateOrUpdate_existing_witness:
  "let key = \<lparr>nn_Namespace = ''ns'', nn_Name = ''svc''\<rparr>;
       c = zeroService\<lparr>om_Namespace := ''ns'', om_Name := ''svc'', om_Labels := [''a'' \<mapsto> ''1'']\<rparr>;
       d = zeroService\<lparr>om_Namespace := ''ns'', om_Name := ''svc'', om_Labels := [''b'' \<mapsto> ''2'']\<rparr>;
       s = \<lparr>c_tenants = [], c_ingesters = [], c_compactors = [], c_rulers = [], c_stores = [],
            c_services = [(key, c)], c_storages = []\<rparr>
   in \<exists>s' ob. CreateOrUpdate (services memClient) d s = (Inr (), s') \<and>
        s' = c_services_update (alistUpdate (objectKey d) ob) s \<and>
        object_meta.more ob = object_meta.more d \<and>
        om_Labels ob = om_Labels c ++ om_Labels d \<and>
        om_Annotations ob = om_Annotations c ++ om_Annotations d"
  unfolding Let_def
  by (rule CreateOrUpdate_existing [OF clientOk_kinds(6) [OF memClient_ok]])
    (auto simp: objectKey_def zero_defs mergeMetadata_def mergeMaps_def keepNone_def
      dest: fun_cong [where x = "''b''"])

text \<open>
  The service reference survives the label: an object that carries the managed-by-service
  label of a service is resolved back to that service's namespace and name, when neither
  contains a dot.
\<close>

theorem ServiceNamespacedName_roundtrip:
  assumes "CHR ''.'' \<notin> set (om_Namespace svc)" and "CHR ''.'' \<notin> set (om_Name svc)"
    and "ManagedLabelByService svc \<subseteq>\<^sub>m om_Labels ob"
  shows "ServiceNamespacedName ob = Some (objectKey svc)"
proof -
  have "om_Labels ob ServiceLabelKey = Some (om_Namespace svc @ ''.'' @ om_Name svc)"
    using assms(3) by (auto simp: ManagedLabelByService_def map_le_def)
  then have "mget (om_Labels ob) ServiceLabelKey = om_Namespace svc @ CHR ''.'' # om_Name svc"
    by (simp add: mget_def)
  then show ?thesis
    using assms(1,2) by (simp add: ServiceNamespacedName_alt splitOn_pair objectKey_def)
qed

theorem ServiceNamespacedName_roundtrip_witness:
  "ServiceNamespacedName (zeroTenant\<lparr>om_Labels := [ServiceLabelKey \<mapsto> ''ns.svc'']\<rparr>) =
     Some \<lparr>nn_Namespace = ''ns'', nn_Name = ''svc''\<rparr>"
  using ServiceNamespacedName_roundtrip [of "zeroService\<lparr>om_Namespace := ''ns'', om_Name := ''svc''\<rparr>"
    "zeroTenant\<lparr>om_Labels := [ServiceLabelKey \<mapsto> ''ns.svc'']\<rparr>"]
  by (simp add: ManagedLabelByService_def objectKey_def)

text \<open>
  The relabel regex keeps exactly an alternation with one anchored alternative per tenant,
  in the order given, with no stray bar.
\<close>

theorem keepTenants_regex:
  "rc_Regex (keepTenantsRelabel label ts) = joinStr ''|'' (map (\<lambda>t. ''^'' @ t @ ''$'') ts)"
proof (cases ts)
  case Nil
  then show ?thesis by (simp add: keepTenantsRelabel_def trimPrefix_def hasPrefix_def)
next
  case (Cons t rest)
  have "tenantsRegexLoop [] ts =
      ''|'' @ ((''^'' @ t @ ''$'') @ concat (map (\<lambda>t. ''|^'' @ t @ ''$'') rest))"
    by (simp add: tenantsRegexLoop_eq Cons)
  then have "trimPrefix (tenantsRegexLoop [] ts) ''|'' =
      (''^'' @ t @ ''$'') @ concat (map (\<lambda>t. ''|^'' @ t @ ''$'') rest)"
    by (metis trimPrefix_append)
  also have "\<dots> = joinStr ''|'' (map (\<lambda>t. ''^'' @ t @ ''$'') ts)"
    by (simp only: Cons list.map joinStr_bars map_map comp_def) simp
  finally show ?thesis by (simp add: keepTenantsRelabel_def)
qed

end
