(* ===== verification/Base_Reconciler.thy ===== *)
theory Base_Reconciler
  imports Util_Lib
begin

text \<open>
  \<^verbatim>\<open>BaseReconciler\<close> of \<^verbatim>\<open>pkg/controllers/resources/base.go\<close>: what every component
  reconciler embeds.  Its \<^verbatim>\<open>Service\<close> field, nil until \<^verbatim>\<open>SetService\<close> has run, is the
  option \<open>svc\<close> that the operations take; its client is their first argument.  Functions of other
  packages that the reconcilers call (durations, the clock, hashing, name mangling, YAML) are
  the fields of \<open>ext\<close>.
\<close>

record ext =
  x_parseDuration :: "string \<Rightarrow> int \<times> gerror option"
  x_now :: int
  x_uniqueDNS1123Label :: "string \<Rightarrow> string \<times> gerror option"
  x_md5Hex :: "string \<Rightarrow> string"
  x_rangeIngesters :: "(string \<times> ingester) list \<Rightarrow> (string \<times> ingester) list"
  x_rangeKeys :: "string list \<Rightarrow> string list"

section \<open>The service of a component\<close>

definition withServiceDefaults :: "service \<Rightarrow> service" where
  "withServiceDefaults s = (let sp = sv_Spec s in s\<lparr>sv_Spec := sp\<lparr>
     sv_TenantHeader := (if sv_TenantHeader sp = [] then DefaultTenantHeader else sv_TenantHeader sp),
     sv_TenantLabelName := (if sv_TenantLabelName sp = [] then DefaultTenantLabelName else sv_TenantLabelName sp),
     sv_DefaultTenantId := (if sv_DefaultTenantId sp = [] then DefaultTenantId else sv_DefaultTenantId sp)\<rparr>\<rparr>)"

definition SetService :: "'s client \<Rightarrow> 'a object_meta_scheme \<Rightarrow> ('s, service) act" where
  "SetService cl ob =
     (let lables = om_Labels ob in
      if mget lables ServiceLabelKey = [] then failE (GoErr ''service missing'')
      else
        (let namespacedName = splitOn CHR ''.'' (mget lables ServiceLabelKey) in
         bindE (liftE (idx namespacedName 1)) (\<lambda>name.
         bindE (liftE (idx namespacedName 0)) (\<lambda>ns.
         bindE (kGet (services cl) \<lparr>nn_Namespace = ns, nn_Name = name\<rparr>) (\<lambda>s.
           ret (withServiceDefaults s))))))"

definition GetStorage :: "service option \<Rightarrow> string \<Rightarrow> string" where
  "GetStorage svc sg =
     (let sg1 = (if sg = [] then DefaultStorage else sg) in
      if sg1 = DefaultStorage then
        (case svc of
           Some s \<Rightarrow>
             (case sv_Storage (sv_Spec s) of
                Some ref \<Rightarrow> oref_Namespace ref @ ''.'' @ oref_Name ref
              | None \<Rightarrow> LocalStorage)
         | None \<Rightarrow> LocalStorage)
      else sg1)"

text \<open>Reading \<^verbatim>\<open>r.Service.Spec\<close> through a nil pointer panics.\<close>

definition serviceSpec :: "service option \<Rightarrow> service_spec res" where
  "serviceSpec svc = (case svc of None \<Rightarrow> Inl Panic | Some s \<Rightarrow> Inr (sv_Spec s))"

definition QualifiedName :: "string \<Rightarrow> string \<Rightarrow> string list \<Rightarrow> string" where
  "QualifiedName appName instanceName suffix =
     (let name = appName @ ''-'' @ instanceName in
      if suffix \<noteq> [] then name @ ''-'' @ joinStr ''-'' suffix else name)"

definition BaseLabels :: labels_map where
  "BaseLabels = Map.empty"

section \<open>Applying resources\<close>

text \<open>\<open>OperationNone\<close> is the empty string, with which a resource asks for nothing.\<close>

datatype operation = OperationCreateOrUpdate | OperationDelete | OperationNone

datatype kobject =
    ODeployment deployment
  | OService kube_service
  | OServiceAccount service_account
  | OStatefulSet stateful_set
  | OConfigMap config_map
  | OSecret secret
  | OStorage storage
  | ONil

text \<open>A \<^verbatim>\<open>Resource\<close>: a thunk that computes an object and what to do with it.\<close>

type_synonym 's resource = "('s, kobject \<times> operation) act"

definition deleteObject :: "'s client \<Rightarrow> kobject \<Rightarrow> ('s, unit) act" where
  "deleteObject cl ob = (case ob of
     ODeployment d \<Rightarrow> kDelete (deployments cl) d
   | OService d \<Rightarrow> kDelete (kubeServices cl) d
   | OServiceAccount d \<Rightarrow> kDelete (serviceAccounts cl) d
   | OStatefulSet d \<Rightarrow> kDelete (statefulSets cl) d
   | OConfigMap d \<Rightarrow> kDelete (configMaps cl) d
   | OSecret d \<Rightarrow> kDelete (secrets cl) d
   | OStorage d \<Rightarrow> kDelete (storages cl) d
   | ONil \<Rightarrow> failE Panic)"

definition applyStatefulSet :: "'s client \<Rightarrow> stateful_set \<Rightarrow> ('s, unit) act" where
  "applyStatefulSet cl desired =
     handleE (CreateOrUpdateStatefulSet cl desired) (\<lambda>r. case r of
         Inr _ \<Rightarrow> ret ()
       | Inl (ApiInvalid causes) \<Rightarrow>
           handleE (kDelete (statefulSets cl) desired) (\<lambda>d. case d of
               Inr _ \<Rightarrow> ret ()
             | Inl e \<Rightarrow> failE (Wrapped ''failed to delete StatefulSet to avoid forbidden action'' e))
       | Inl e \<Rightarrow> failE (Wrapped ''updating StatefulSet failed'' e))"

definition applyObject :: "'s client \<Rightarrow> kobject \<Rightarrow> ('s, unit) act" where
  "applyObject cl ob = (case ob of
     ODeployment d \<Rightarrow> CreateOrUpdateDeployment cl d
   | OService d \<Rightarrow> CreateOrUpdateService cl d
   | OServiceAccount d \<Rightarrow> CreateOrUpdateServiceAccount cl d
   | OStatefulSet d \<Rightarrow> applyStatefulSet cl d
   | OConfigMap d \<Rightarrow> CreateOrUpdate (configMaps cl) d
   | OSecret d \<Rightarrow> CreateOrUpdate (secrets cl) d
   | OStorage d \<Rightarrow> CreateOrUpdate (storages cl) d
   | ONil \<Rightarrow> failE Panic)"

definition reconcileOne :: "'s client \<Rightarrow> 's resource \<Rightarrow> ('s, unit) act" where
  "reconcileOne cl resource = bindE resource (\<lambda>(ob, operation). case operation of
       OperationDelete \<Rightarrow>
         handleE (deleteObject cl ob) (\<lambda>r. case r of
             Inr _ \<Rightarrow> ret ()
           | Inl e \<Rightarrow> (if e = ApiNotFound then ret () else failE e))
     | OperationCreateOrUpdate \<Rightarrow> applyObject cl ob
     | OperationNone \<Rightarrow> ret ())"

definition ReconcileResources :: "'s client \<Rightarrow> 's resource list \<Rightarrow> ('s, unit) act" where
  "ReconcileResources cl resources = forE resources (reconcileOne cl)"

section \<open>Hash of the tenants\<close>

text \<open>
  The names of the tenants that match the selector and are not being deleted, sorted, written
  one after the other into an MD5 hash.
\<close>

definition GetTenantHash :: "ext \<Rightarrow> 's client \<Rightarrow> labels_map \<Rightarrow> ('s, string) act" where
  "GetTenantHash x cl selector =
     bindE (kList (tenants cl) \<lparr>lo_Namespace = [], lo_Labels = selector\<rparr>) (\<lambda>items.
       let names = map om_Name (filter (\<lambda>item. om_DeletionTimestamp item = None) items)
       in ret (x_md5Hex x (concat (sortStrings names))))"

section \<open>Lemmas\<close>

lemma GetStorage_nonempty [simp]: "GetStorage svc sg \<noteq> []"
  by (auto simp: GetStorage_def Let_def split: option.splits)

lemma GetStorage_idem:
  assumes "GetStorage svc sg \<noteq> DefaultStorage"
  shows "GetStorage svc (GetStorage svc sg) = GetStorage svc sg"
  using assms by (simp add: GetStorage_def [of svc "GetStorage svc sg"])

lemma GetStorage_default: "GetStorage svc [] = GetStorage svc DefaultStorage"
  by (simp add: GetStorage_def)

lemma QualifiedName_inj:
  "QualifiedName app a suf = QualifiedName app b suf \<Longrightarrow> a = b"
  by (auto simp: QualifiedName_def Let_def split: if_splits)

lemma forE_Inr_iff:
  "forE (x # xs) f s = (Inr (), t) \<longleftrightarrow> (\<exists>u. f x s = (Inr (), u) \<and> forE xs f u = (Inr (), t))"
  by (auto simp: bindE_Inr_iff)

lemma forE_append: "forE (xs @ ys) f = bindE (forE xs f) (\<lambda>_. forE ys f)"
  by (induction xs) (simp_all add: bindE_assoc)

end
