(* ===== verification/Tenant_Binding.thy ===== *)
theory Tenant_Binding
  imports Base_Reconciler
begin

text \<open>
  What the ingester and the compactor half of the tenant controller
  (\<^verbatim>\<open>pkg/controllers/resources/tenant\<close>) share: a tenant's status refers to an object that
  lists the tenant, and the reference is reset when the object no longer fits.  The contract of
  the test for a reset is the locale \<open>tenant_binding\<close>.
\<close>

section \<open>Strings in slices\<close>

fun containsString :: "string list \<Rightarrow> string \<Rightarrow> bool" where
  "containsString [] s = False"
| "containsString (item # slice) s = (if item = s then True else containsString slice s)"

fun removeString :: "string list \<Rightarrow> string \<Rightarrow> string list" where
  "removeString [] s = []"
| "removeString (item # slice) s =
     (if item = s then removeString slice s else item # removeString slice s)"

lemma containsString_iff [simp]: "containsString xs s \<longleftrightarrow> s \<in> set xs"
  by (induction xs) auto

lemma removeString_filter: "removeString xs s = filter (\<lambda>y. y \<noteq> s) xs"
  by (induction xs) auto

lemma set_removeString [simp]: "set (removeString xs s) = set xs - {s}"
  by (auto simp: removeString_filter)

section \<open>Accessors\<close>

text \<open>\<open>t.tenant.Spec.Tenant\<close>, \<open>t.tenant.Status.Ingester = \<dots>\<close>, \<open>labels[k] == "true"\<close>.\<close>

abbreviation tenantId :: "tenant \<Rightarrow> string" where
  "tenantId t \<equiv> ts_Tenant (tn_Spec t)"

abbreviation statusIngester :: "tenant \<Rightarrow> object_reference option" where
  "statusIngester t \<equiv> tst_Ingester (tn_Status t)"

definition setStatusIngester :: "object_reference option \<Rightarrow> tenant \<Rightarrow> tenant" where
  "setStatusIngester r t = t\<lparr>tn_Status := (tn_Status t)\<lparr>tst_Ingester := r\<rparr>\<rparr>"

definition refTo :: "'a object_meta_scheme \<Rightarrow> object_reference" where
  "refTo ob = \<lparr>oref_Namespace = om_Namespace ob, oref_Name = om_Name ob\<rparr>"

definition refKey :: "object_reference \<Rightarrow> nsname" where
  "refKey r = \<lparr>nn_Namespace = oref_Namespace r, nn_Name = oref_Name r\<rparr>"

definition labelTrue :: "labels_map \<Rightarrow> string \<Rightarrow> bool" where
  "labelTrue ls k \<longleftrightarrow> ls k = Some ''true''"

abbreviation serviceLabel :: "'a object_meta_scheme \<Rightarrow> string" where
  "serviceLabel ob \<equiv> mget (om_Labels ob) ServiceLabelKey"

text \<open>\<^verbatim>\<open>t.GetStorage(t.tenant.Labels[constants.StorageLabelKey])\<close>.\<close>

abbreviation storageOf :: "service option \<Rightarrow> tenant \<Rightarrow> string" where
  "storageOf svc t \<equiv> GetStorage svc (mget (om_Labels t) StorageLabelKey)"

section \<open>Stores without surprises\<close>

text \<open>
  Every object is stored under its own key, at most once, and none is being deleted.
\<close>

definition storeWf :: "'a object_meta_scheme kstore \<Rightarrow> bool" where
  "storeWf xs \<longleftrightarrow> distinct (map fst xs) \<and>
     (\<forall>p \<in> set xs. objectKey (snd p) = fst p \<and> om_DeletionTimestamp (snd p) = None)"

lemma storeWf_get:
  assumes "storeWf xs" and "map_of xs k = Some ob"
  shows "objectKey ob = k" and "om_DeletionTimestamp ob = None"
proof -
  from assms(2) have "(k, ob) \<in> set xs" by (rule map_of_SomeD)
  with assms(1) show "objectKey ob = k" and "om_DeletionTimestamp ob = None"
    by (auto simp: storeWf_def)
qed

lemma set_alistUpdate: "set (alistUpdate k v xs) \<subseteq> insert (k, v) (set xs)"
  by (induction k v xs rule: alistUpdate.induct) auto

lemma storeWf_alistUpdate:
  assumes "storeWf xs" and "objectKey ob = k" and "om_DeletionTimestamp ob = None"
  shows "storeWf (alistUpdate k ob xs)"
  using assms set_alistUpdate [of k ob xs] by (auto simp: storeWf_def distinct_alistUpdate)

lemma storeWf_alistDelete: "storeWf xs \<Longrightarrow> storeWf (alistDelete k xs)"
  by (auto simp: storeWf_def distinct_alistDelete alistDelete_def distinct_map_filter)

lemma storeWf_listed:
  assumes "storeWf xs"
  shows "ob \<in> set (filter (matchesOpts opts) (map snd xs)) \<longleftrightarrow>
     map_of xs (objectKey ob) = Some ob \<and> matchesOpts opts ob"
  using assms by (force simp: storeWf_def dest: map_of_SomeD)

lemma storeWf_distinct_listed: "storeWf xs \<Longrightarrow> distinct (map objectKey (filter P (map snd xs)))"
proof (rule distinct_map_filter)
  assume "storeWf xs"
  then have "map objectKey (map snd xs) = map fst xs" and "distinct (map fst xs)"
    by (simp_all add: storeWf_def)
  then show "distinct (map objectKey (map snd xs))" by (simp only:)
qed

lemma putObject_alive:
  "om_DeletionTimestamp ob = None \<Longrightarrow> putObject ob = alistUpdate (objectKey ob) ob"
  by (rule ext) (simp add: putObject_def)

section \<open>What create-or-update leaves behind\<close>

lemma alistUpdate_same: "map_of xs k = Some v \<Longrightarrow> alistUpdate k v xs = xs"
  by (induction xs) auto

text \<open>
  \<open>savedAs keep cur d ob\<close>: the object \<open>ob\<close> that the server holds after
  \<open>CreateOrUpdate\<close> of \<open>d\<close> where it held \<open>cur\<close> before.
\<close>

definition savedAs :: "('a object_meta_scheme \<Rightarrow> 'a object_meta_scheme \<Rightarrow> 'a object_meta_scheme) \<Rightarrow>
    'a object_meta_scheme option \<Rightarrow> 'a object_meta_scheme \<Rightarrow> 'a object_meta_scheme \<Rightarrow> bool" where
  "savedAs keep cur d ob \<longleftrightarrow>
     (case cur of
        None \<Rightarrow> ob = d\<lparr>om_ResourceVersion := om_ResourceVersion ob, om_UID := om_UID ob\<rparr>
      | Some c \<Rightarrow> ob = c \<and> c = mergeMetadata d c \<or>
                  ob = asStored c (om_ResourceVersion ob) (keep c (mergeMetadata d c)))"

lemma CreateOrUpdate_saves:
  assumes ok: "kindOk k V sel upd keep" and wf: "storeWf (sel (V s))"
    and named: "om_Name d \<noteq> []"
    and keep: "\<And>old new. objectKey (keep old new) = objectKey new"
    and upd: "\<And>f c. f (sel c) = sel c \<Longrightarrow> upd f c = c"
  obtains ob s' where "CreateOrUpdate k d s = (Inr (), s')"
    and "savedAs keep (map_of (sel (V s)) (objectKey d)) d ob"
    and "V s' = upd (alistUpdate (objectKey d) ob) (V s)"
proof (cases "map_of (sel (V s)) (objectKey d)")
  case None
  then obtain ob s' where "upsert k mergeMetadata skipEqual d s = (Inr (), s')"
    and "ob = d\<lparr>om_ResourceVersion := om_ResourceVersion ob, om_UID := om_UID ob\<rparr>"
    and "V s' = upd (alistUpdate (objectKey d) ob) (V s)"
    using mm.upsert_fresh [OF ok _ named] by metis
  with None show thesis using that by (simp add: CreateOrUpdate_def savedAs_def)
next
  case (Some c)
  show thesis
  proof (cases "skipEqual c (mergeMetadata d c)")
    case True
    then have c: "c = mergeMetadata d c" by (simp add: skipEqual_def)
    have "CreateOrUpdate k d s = (Inr (), s)"
      using mm.upsert_unchanged [where skip = skipEqual, OF ok Some True] by (simp add: CreateOrUpdate_def)
    moreover have "savedAs keep (map_of (sel (V s)) (objectKey d)) d c"
      using Some c by (simp add: savedAs_def)
    moreover have "V s = upd (alistUpdate (objectKey d) c) (V s)"
      by (rule upd [symmetric], rule alistUpdate_same [OF Some])
    ultimately show thesis by (rule that)
  next
    case False
    obtain rv s' where run: "upsert k mergeMetadata skipEqual d s = (Inr (), s')"
      and V: "V s' = upd (putObject (asStored c rv (keep c (mergeMetadata d c)))) (V s)"
      using mm.upsert_existing [where skip = skipEqual, OF ok Some False] by metis
    let ?ob = "asStored c rv (keep c (mergeMetadata d c))"
    have "om_DeletionTimestamp ?ob = None"
      using storeWf_get(2) [OF wf Some] by simp
    with V have V': "V s' = upd (alistUpdate (objectKey d) ?ob) (V s)"
      by (simp add: putObject_alive keep)
    have "savedAs keep (map_of (sel (V s)) (objectKey d)) d ?ob"
      using Some by (simp add: savedAs_def) (simp add: asStored_def)
    with run V' show thesis using that by (simp add: CreateOrUpdate_def)
  qed
qed

text \<open>The labels and annotations an object has once it is saved over \<open>cur\<close>.\<close>

definition over :: "labels_map option \<Rightarrow> labels_map \<Rightarrow> labels_map" where
  "over cur new = (case cur of None \<Rightarrow> new | Some old \<Rightarrow> old ++ new)"

lemma map_add_self [simp]: "m ++ m = (m :: labels_map)"
  by (rule ext) (simp add: map_add_def split: option.split)

lemma over_Some [simp]: "new k = Some v \<Longrightarrow> over cur new k = Some v"
  by (simp add: over_def split: option.split)

text \<open>
  A kind whose objects have a specification: whatever the client keeps of the old object on an
  update, the metadata and the specification that are stored are the new ones.
\<close>

locale saved_kind =
  fixes spec :: "'a object_meta_scheme \<Rightarrow> 'b"
    and keep :: "'a object_meta_scheme \<Rightarrow> 'a object_meta_scheme \<Rightarrow> 'a object_meta_scheme"
    and sel :: "cluster \<Rightarrow> 'a object_meta_scheme kstore"
    and upd :: "('a object_meta_scheme kstore \<Rightarrow> 'a object_meta_scheme kstore) \<Rightarrow> cluster \<Rightarrow> cluster"
  assumes keep_meta: "objectKey (keep old new) = objectKey new" "om_Labels (keep old new) = om_Labels new"
      "om_Annotations (keep old new) = om_Annotations new"
    and keep_spec: "spec (keep old new) = spec new"
    and spec_stored: "spec (asStored old rv ob) = spec ob"
    and spec_merged: "spec (mergeMetadata ob old) = spec ob"
    and spec_version: "spec (ob\<lparr>om_ResourceVersion := rv, om_UID := u\<rparr>) = spec ob"
    and upd_same: "f (sel c) = sel c \<Longrightarrow> upd f c = c"
begin

lemma saved_fields:
  assumes "savedAs keep cur d ob" and "om_DeletionTimestamp d = None"
    and "\<And>c. cur = Some c \<Longrightarrow> objectKey c = objectKey d \<and> om_DeletionTimestamp c = None"
  shows "objectKey ob = objectKey d \<and> om_DeletionTimestamp ob = None \<and> spec ob = spec d \<and>
    om_Labels ob = over (map_option om_Labels cur) (om_Labels d) \<and>
    om_Annotations ob = over (map_option om_Annotations cur) (om_Annotations d)"
proof (cases cur)
  case None
  then have "ob = d\<lparr>om_ResourceVersion := om_ResourceVersion ob, om_UID := om_UID ob\<rparr>"
    using assms(1) by (simp add: savedAs_def)
  then obtain rv u where ob: "ob = d\<lparr>om_ResourceVersion := rv, om_UID := u\<rparr>" by blast
  show ?thesis by (simp add: ob None assms(2) over_def objectKey_def spec_version)
next
  case (Some c)
  then consider (same) "ob = c" "c = mergeMetadata d c"
    | (new) rv where "ob = asStored c rv (keep c (mergeMetadata d c))"
    using assms(1) by (auto simp: savedAs_def)
  then show ?thesis
  proof cases
    case same
    have "om_Labels c = mergeMaps (om_Labels c) (om_Labels d)"
      "om_Annotations c = mergeMaps (om_Annotations c) (om_Annotations d)" "spec c = spec d"
      by (subst same(2), simp add: spec_merged)+
    then show ?thesis using assms(3) [OF Some] by (simp add: same(1) Some over_def mergeMaps_def)
  next
    case new
    then show ?thesis
      using assms(3) [OF Some]
      by (simp add: Some over_def mergeMaps_def keep_meta keep_spec spec_stored spec_merged)
  qed
qed

lemma save:
  assumes ok: "kindOk k V sel upd keep" and wf: "storeWf (sel (V s))"
    and named: "om_Name d \<noteq> []" and alive: "om_DeletionTimestamp d = None"
  obtains ob s' where "CreateOrUpdate k d s = (Inr (), s')"
    and "V s' = upd (alistUpdate (objectKey d) ob) (V s)"
    and "objectKey ob = objectKey d" and "om_DeletionTimestamp ob = None" and "spec ob = spec d"
    and "om_Labels ob = over (map_option om_Labels (map_of (sel (V s)) (objectKey d))) (om_Labels d)"
    and "om_Annotations ob =
      over (map_option om_Annotations (map_of (sel (V s)) (objectKey d))) (om_Annotations d)"
proof -
  obtain ob s' where run: "CreateOrUpdate k d s = (Inr (), s')"
    and saved: "savedAs keep (map_of (sel (V s)) (objectKey d)) d ob"
    and V: "V s' = upd (alistUpdate (objectKey d) ob) (V s)"
    by (rule CreateOrUpdate_saves [OF ok wf named keep_meta(1) upd_same])
  from saved_fields [OF saved alive] storeWf_get [OF wf] have
    "objectKey ob = objectKey d \<and> om_DeletionTimestamp ob = None \<and> spec ob = spec d \<and>
     om_Labels ob = over (map_option om_Labels (map_of (sel (V s)) (objectKey d))) (om_Labels d) \<and>
     om_Annotations ob =
       over (map_option om_Annotations (map_of (sel (V s)) (objectKey d))) (om_Annotations d)"
    by blast
  then show thesis using that [OF run V] by blast
qed

end

section \<open>Writing the status of a tenant\<close>

lemma objectKey_version [simp]: "objectKey (ob\<lparr>om_ResourceVersion := rv\<rparr>) = objectKey ob"
  by (simp add: objectKey_def)

lemma writeStatus:
  assumes ok: "clientOk cl V" and cur: "map_of (c_tenants (V s)) (objectKey t) = Some t"
  obtains rv s' where "kStatusUpdate (tenants cl) (t\<lparr>tn_Status := st\<rparr>) s =
      (Inr (t\<lparr>tn_Status := st, om_ResourceVersion := rv\<rparr>), s')"
    and "V s' = c_tenants_update (alistUpdate (objectKey t)
      (t\<lparr>tn_Status := st, om_ResourceVersion := rv\<rparr>)) (V s)"
proof -
  let ?t = "t\<lparr>tn_Status := st\<rparr>"
  have key: "objectKey ?t = objectKey t" and rv: "om_ResourceVersion ?t = om_ResourceVersion t"
    and kept: "keepTenant ?t t = ?t"
    by (simp_all add: objectKey_def keepTenant_def)
  obtain t' s' where run: "kStatusUpdate (tenants cl) ?t s = (Inr t', s')"
    and t': "t' = (keepTenant ?t t)\<lparr>om_ResourceVersion := om_ResourceVersion t'\<rparr>"
    and V: "V s' = c_tenants_update (alistUpdate (objectKey ?t) t') (V s)"
    by (rule kindOk_statusUpdate [OF clientOk_kinds(1) [OF ok], of s ?t t])
      (simp_all add: key rv cur)
  show thesis by (rule that [of "om_ResourceVersion t'" s']) (use run t' V in \<open>simp_all add: kept key\<close>)
qed

lemma find_SomeD: "find P xs = Some x \<Longrightarrow> x \<in> set xs \<and> P x"
  by (induction xs) (auto split: if_splits)

section \<open>Fitting objects\<close>

text \<open>
  An object fits a tenant when it lists the tenant, carries the tenant's service and storage,
  and is the tenant's own object exactly if the tenant is exclusive.
\<close>

definition boundTo :: "('a object_meta_scheme \<Rightarrow> string list) \<Rightarrow> service option \<Rightarrow> tenant \<Rightarrow>
    'a object_meta_scheme \<Rightarrow> bool" where
  "boundTo members svc t ob \<longleftrightarrow>
     tenantId t \<in> set (members ob) \<and>
     om_Labels ob ServiceLabelKey = Some (serviceLabel t) \<and>
     om_Labels ob StorageLabelKey = Some (storageOf svc t) \<and>
     (labelTrue (om_Labels t) ExclusiveLabelKey \<longleftrightarrow>
        labelTrue (om_Labels ob) ExclusiveLabelKey \<and> om_Name ob = om_Name t)"

definition mustReset :: "('a object_meta_scheme \<Rightarrow> string list) \<Rightarrow> service option \<Rightarrow> tenant \<Rightarrow>
    object_reference option \<Rightarrow> 'a object_meta_scheme kstore \<Rightarrow> bool" where
  "mustReset members svc t ref xs =
     (case ref of
        None \<Rightarrow> False
      | Some r \<Rightarrow> (case map_of xs (refKey r) of None \<Rightarrow> True | Some ob \<Rightarrow> \<not> boundTo members svc t ob))"

lemma refKey_refTo [simp]: "refKey (refTo ob) = objectKey ob"
  by (simp add: refKey_def refTo_def objectKey_def)

lemma boundTo_more:
  "\<lbrakk>om_Labels t' = om_Labels t; om_Name t' = om_Name t; tn_Spec t' = tn_Spec t\<rbrakk> \<Longrightarrow>
     boundTo members svc t' ob = boundTo members svc t ob"
  by (simp add: boundTo_def)

text \<open>
  The contract of the test for a reset: it only reads, and it answers whether the object the
  status refers to is missing or does not fit.
\<close>

locale tenant_binding =
  fixes members :: "'a object_meta_scheme \<Rightarrow> string list"
    and needReset :: "'s client \<Rightarrow> service option \<Rightarrow> tenant \<Rightarrow> ('s, bool) act"
    and ref :: "tenant \<Rightarrow> object_reference option"
    and kind :: "'s client \<Rightarrow> ('s, 'a object_meta_scheme) kind_client"
    and sel :: "cluster \<Rightarrow> 'a object_meta_scheme kstore"
    and upd :: "('a object_meta_scheme kstore \<Rightarrow> 'a object_meta_scheme kstore) \<Rightarrow> cluster \<Rightarrow> cluster"
    and keep :: "'a object_meta_scheme \<Rightarrow> 'a object_meta_scheme \<Rightarrow> 'a object_meta_scheme"
  assumes needReset_law: "kindOk (kind cl) V sel upd keep \<Longrightarrow>
     needReset cl svc t s = (Inr (mustReset members svc t (ref t) (sel (V s))), s)"
begin

lemma needReset_unbound:
  assumes "kindOk (kind cl) V sel upd keep" and "ref t = None"
  shows "needReset cl svc t s = (Inr False, s)"
  using needReset_law [OF assms(1)] assms(2) by (simp add: mustReset_def)

lemma needReset_fits:
  assumes "kindOk (kind cl) V sel upd keep" and "ref t = Some r"
    and "map_of (sel (V s)) (refKey r) = Some ob" and "boundTo members svc t ob"
  shows "needReset cl svc t s = (Inr False, s)"
  using needReset_law [OF assms(1)] assms(2-4) by (simp add: mustReset_def)

lemma needReset_dangling:
  assumes "kindOk (kind cl) V sel upd keep" and "ref t = Some r"
    and "map_of (sel (V s)) (refKey r) = None"
  shows "needReset cl svc t s = (Inr True, s)"
  using needReset_law [OF assms(1)] assms(2-3) by (simp add: mustReset_def)

lemma needReset_foreign:
  assumes "kindOk (kind cl) V sel upd keep" and "ref t = Some r"
    and "map_of (sel (V s)) (refKey r) = Some ob" and "tenantId t \<notin> set (members ob)"
  shows "needReset cl svc t s = (Inr True, s)"
  using needReset_law [OF assms(1)] assms(2-4) by (simp add: mustReset_def boundTo_def)

end

section \<open>A small cluster\<close>

text \<open>Concrete objects on which the properties of the tenant controller are instantiated.\<close>

definition exService :: service where
  "exService = zeroService\<lparr>om_Namespace := ''ns'', om_Name := ''svc'',
     sv_Spec := zeroServiceSpec\<lparr>
       sv_Storage := Some \<lparr>oref_Namespace = ''ns'', oref_Name = ''s3''\<rparr>,
       sv_IngesterTemplateSpec := zeroIngesterTemplateSpec\<lparr>
         igt_DefaultTenantsPerIngester := 3, igt_DefaultIngesterRetentionPeriod := ''3h''\<rparr>,
       sv_CompactorTemplateSpec := zeroCompactorTemplateSpec\<lparr>
         cpt_DefaultTenantsPerCompactor := 10\<rparr>\<rparr>\<rparr>"

definition exTenant :: "string \<Rightarrow> labels_map \<Rightarrow> tenant" where
  "exTenant n ls = zeroTenant\<lparr>om_Name := n, om_Labels := ls(ServiceLabelKey \<mapsto> ''ns.svc''),
     om_Finalizers := [FinalizerIngester, FinalizerCompactor], tn_Spec := \<lparr>ts_Tenant = n\<rparr>\<rparr>"

definition exCluster :: "tenant list \<Rightarrow> ingester list \<Rightarrow> compactor list \<Rightarrow> cluster" where
  "exCluster ts igs cps = \<lparr>
     c_tenants = map (\<lambda>ob. (objectKey ob, ob)) ts, c_ingesters = map (\<lambda>ob. (objectKey ob, ob)) igs,
     c_compactors = map (\<lambda>ob. (objectKey ob, ob)) cps, c_rulers = [], c_stores = [],
     c_services = [(objectKey exService, exService)], c_storages = []\<rparr>"

definition exExt :: ext where
  "exExt = \<lparr>x_parseDuration = (\<lambda>d. (if d = ''3h'' then 10800 * 10 ^ 9 else 0, None)),
     x_now = 1700000000 * 10 ^ 9, x_uniqueDNS1123Label = (\<lambda>n. (n, None)), x_md5Hex = (\<lambda>s. s),
     x_rangeIngesters = (\<lambda>m. m), x_rangeKeys = (\<lambda>ks. ks)\<rparr>"

lemmas ex_defs = exService_def exTenant_def exCluster_def exExt_def

lemma exTenant_stored [simp]:
  "map_of (c_tenants (exCluster [t] igs cps)) (objectKey t) = Some t"
  by (simp add: exCluster_def)

end
