(* ===== verification/Tenant_Ingester.thy ===== *)
theory Tenant_Ingester
  imports Tenant_Binding
begin

text \<open>
  The ingester half of the tenant controller
  (\<^verbatim>\<open>pkg/controllers/resources/tenant/ingestor.go\<close>): a tenant is bound to one ingester of its
  service and storage; shared ingesters take up to a configured number of tenants, an exclusive
  tenant has its own; an ingester that loses its last tenant is marked for deletion.
\<close>

section \<open>Does the binding still fit?\<close>

definition needResetIngester :: "'s client \<Rightarrow> service option \<Rightarrow> tenant \<Rightarrow> ('s, bool) act" where
  "needResetIngester cl svc t =
     (case statusIngester t of
        None \<Rightarrow> ret False
      | Some ref \<Rightarrow>
          handleE (kGet (ingesters cl) (refKey ref)) (\<lambda>r. case r of
              Inl e \<Rightarrow> if e \<noteq> ApiNotFound then failE e else ret True
            | Inr ig \<Rightarrow>
                if \<not> containsString (ig_Tenants (ig_Spec ig)) (tenantId t) then ret True
                else if om_Labels ig ServiceLabelKey = None \<or>
                        mget (om_Labels ig) ServiceLabelKey \<noteq> serviceLabel t then ret True
                else if om_Labels ig StorageLabelKey = None \<or>
                        mget (om_Labels ig) StorageLabelKey \<noteq> storageOf svc t then ret True
                else if labelTrue (om_Labels t) ExclusiveLabelKey then
                  ret (\<not> labelTrue (om_Labels ig) ExclusiveLabelKey \<or> om_Name ig \<noteq> om_Name t)
                else
                  ret (labelTrue (om_Labels ig) ExclusiveLabelKey \<and> om_Name ig = om_Name t)))"

section \<open>Releasing a tenant\<close>

text \<open>
  The retention period of an ingester that has lost its last tenant.  With object storage it is
  the service's default; with local storage it is the ingester's own retention, and the default
  where that is unset, unparsable or not positive.  (Where the ingester's own retention is
  empty the source parses it again, which gives zero, and falls back to the default.)
\<close>

definition ingesterRetention :: "ext \<Rightarrow> service option \<Rightarrow> ingester \<Rightarrow> int res" where
  "ingesterRetention x svc ig =
     (let period = (\<lambda>d. fst (x_parseDuration x d));
          dflt = bindR (serviceSpec svc) (\<lambda>sp.
            Inr (igt_DefaultIngesterRetentionPeriod (sv_IngesterTemplateSpec sp)));
          own = ig_LocalTsdbRetention (ig_Spec ig)
      in if om_Labels ig StorageLabelKey \<noteq> None \<and>
            mget (om_Labels ig) StorageLabelKey \<noteq> LocalStorage
         then bindR dflt (\<lambda>d. Inr (period d))
         else
           bindR (if own \<noteq> [] then Inr (period own)
                  else bindR dflt (\<lambda>d. Inr (if d \<noteq> [] then period own else 0))) (\<lambda>p.
           if p \<le> 0 then bindR dflt (\<lambda>d. Inr (period d)) else Inr p))"

definition markDeleting :: "ext \<Rightarrow> service option \<Rightarrow> ingester \<Rightarrow> ingester res" where
  "markDeleting x svc ig =
     bindR (ingesterRetention x svc ig) (\<lambda>p.
       Inr (ig\<lparr>om_Annotations := (om_Annotations ig)(
         LabelNameIngesterState \<mapsto> IngesterStateDeleting,
         LabelNameIngesterDeletingTime \<mapsto> itoa ((x_now x + p) div 10 ^ 9))\<rparr>))"

definition removeTenantFromIngesterbyName ::
    "ext \<Rightarrow> 's client \<Rightarrow> service option \<Rightarrow> tenant \<Rightarrow> string \<Rightarrow> string \<Rightarrow> ('s, tenant) act" where
  "removeTenantFromIngesterbyName x cl svc t namespace name =
     (let t1 = setStatusIngester None t in
      handleE (kGet (ingesters cl) \<lparr>nn_Namespace = namespace, nn_Name = name\<rparr>) (\<lambda>r. case r of
          Inl e \<Rightarrow> if e = ApiNotFound then ret t1 else failE e
        | Inr ig \<Rightarrow>
            if containsString (ig_Tenants (ig_Spec ig)) (tenantId t) then
              (let ig1 = ig\<lparr>ig_Spec := (ig_Spec ig)\<lparr>
                     ig_Tenants := removeString (ig_Tenants (ig_Spec ig)) (tenantId t)\<rparr>\<rparr> in
               bindE (if ig_Tenants (ig_Spec ig1) = [] then liftE (markDeleting x svc ig1)
                      else ret ig1) (\<lambda>ig2.
               bindE (CreateOrUpdate (ingesters cl) ig2) (\<lambda>_. ret t1)))
            else ret t1))"

text \<open>
  On deletion of the tenant, its entry is also taken out of the status of every ingester of the
  service.  The entry is looked up by the name of the Tenant object.
\<close>

definition dropTenantStatus :: "'s client \<Rightarrow> tenant \<Rightarrow> ingester \<Rightarrow> ('s, unit) act" where
  "dropTenantStatus cl t ig =
     (let tenantsStatus = filter (\<lambda>st. its_Name st \<noteq> om_Name t) (igs_Tenants (ig_Status ig)) in
      if tenantsStatus \<noteq> igs_Tenants (ig_Status ig) then
        bindE (kStatusUpdate (ingesters cl) (ig\<lparr>ig_Status := \<lparr>igs_Tenants = tenantsStatus\<rparr>\<rparr>))
          (\<lambda>_. ret ())
      else ret ())"

definition ingesterRelease ::
    "ext \<Rightarrow> 's client \<Rightarrow> service option \<Rightarrow> tenant \<Rightarrow> ('s, tenant) act" where
  "ingesterRelease x cl svc t =
     bindE (case statusIngester t of
              None \<Rightarrow> ret t
            | Some ref \<Rightarrow>
                bindE (removeTenantFromIngesterbyName x cl svc t (oref_Namespace ref) (oref_Name ref))
                  (\<lambda>t'. ret (setStatusIngester None t'))) (\<lambda>t1.
     bindE (case svc of
              None \<Rightarrow> ret ()
            | Some sv \<Rightarrow>
                bindE (kList (ingesters cl)
                  \<lparr>lo_Namespace = om_Namespace sv, lo_Labels = ManagedLabelByService sv\<rparr>)
                  (\<lambda>items. forE items (dropTenantStatus cl t1))) (\<lambda>_.
     kUpdate (tenants cl) (t1\<lparr>om_Finalizers := removeString (om_Finalizers t1) FinalizerIngester\<rparr>)))"

section \<open>Choosing an ingester\<close>

definition createIngesterInstanceName :: "service option \<Rightarrow> tenant \<Rightarrow> string list \<Rightarrow> string res" where
  "createIngesterInstanceName svc t suffix =
     (let serviceNamespacedName = splitOn CHR ''.'' (serviceLabel t);
          storageNamespacedName = splitOn CHR ''.'' (storageOf svc t);
          storageName = (if length storageNamespacedName \<ge> 2 then storageNamespacedName ! 1
                         else LocalStorage)
      in bindR (idx serviceNamespacedName 1) (\<lambda>serviceName.
           let name = serviceName @ ''-'' @ storageName @ ''-auto''
           in Inr (if suffix \<noteq> [] then name @ ''-'' @ joinStr ''-'' suffix else name)))"

definition createIngesterInstance :: "service option \<Rightarrow> string \<Rightarrow> tenant \<Rightarrow> bool \<Rightarrow> ingester" where
  "createIngesterInstance svc name t isExclusive =
     (let label = [ServiceLabelKey \<mapsto> serviceLabel t, StorageLabelKey \<mapsto> storageOf svc t];
          label' = (if isExclusive then label(ExclusiveLabelKey \<mapsto> ''true'') else label)
      in zeroIngester\<lparr>om_Name := name, om_Namespace := hd (splitOn CHR ''.'' (serviceLabel t)),
           om_Labels := label', ig_Spec := zeroIngesterSpec\<lparr>ig_Tenants := [tenantId t]\<rparr>\<rparr>)"

definition addTenantToIngesterInstance :: "tenant \<Rightarrow> ingester \<Rightarrow> ingester" where
  "addTenantToIngesterInstance t ig =
     (let ig1 = ig\<lparr>ig_Spec := (ig_Spec ig)\<lparr>ig_Tenants := ig_Tenants (ig_Spec ig) @ [tenantId t]\<rparr>\<rparr>;
          annotation = om_Annotations ig
      in if annotation LabelNameIngesterState = Some IngesterStateDeleting
         then ig1\<lparr>om_Annotations := annotation(LabelNameIngesterState \<mapsto> IngesterStateRunning,
                                                LabelNameIngesterDeletingTime \<mapsto> [])\<rparr>
         else ig1)"

text \<open>The list of ingesters as a Go map from their names.\<close>

definition ingesterMapping :: "ingester list \<Rightarrow> (string \<times> ingester) list" where
  "ingesterMapping items = foldl (\<lambda>m ig. alistUpdate (om_Name ig) ig m) [] items"

text \<open>
  The loop \<^verbatim>\<open>for i := 0; i < len(ingesterMapping)+1; i++\<close>: \<open>i\<close> is the index, the last
  argument how many rounds are left.  If no round breaks out, the ingester stays the zero value.
\<close>

fun pickIngester :: "service option \<Rightarrow> tenant \<Rightarrow> (string \<times> ingester) list \<Rightarrow> nat \<Rightarrow> nat \<Rightarrow>
    ingester res" where
  "pickIngester svc t mapping i 0 = Inr zeroIngester"
| "pickIngester svc t mapping i (Suc n) =
     bindR (createIngesterInstanceName svc t [itoaNat i]) (\<lambda>name.
       case map_of mapping name of
         Some ig \<Rightarrow>
           bindR (serviceSpec svc) (\<lambda>sp.
             if int (length (ig_Tenants (ig_Spec ig)))
                < igt_DefaultTenantsPerIngester (sv_IngesterTemplateSpec sp)
             then Inr (addTenantToIngesterInstance t ig)
             else pickIngester svc t mapping (Suc i) n)
       | None \<Rightarrow> Inr (createIngesterInstance svc name t False))"

definition bindTenantTo :: "'s client \<Rightarrow> tenant \<Rightarrow> ingester \<Rightarrow> ('s, tenant) act" where
  "bindTenantTo cl t ig =
     (let t1 = setStatusIngester (Some (refTo ig)) t in
      bindE (CreateOrUpdate (ingesters cl) ig) (\<lambda>_. kStatusUpdate (tenants cl) t1))"

definition ingesterAllocate :: "ext \<Rightarrow> 's client \<Rightarrow> service option \<Rightarrow> tenant \<Rightarrow> ('s, tenant) act" where
  "ingesterAllocate x cl svc t =
     (let ls = [ServiceLabelKey \<mapsto> serviceLabel t, StorageLabelKey \<mapsto> storageOf svc t] in
      bindE (kList (ingesters cl)
        \<lparr>lo_Namespace = hd (splitOn CHR ''.'' (serviceLabel t)), lo_Labels = ls\<rparr>) (\<lambda>items.
      let mapping = ingesterMapping items in
      case find (\<lambda>p. containsString (ig_Tenants (ig_Spec (snd p))) (tenantId t))
             (x_rangeIngesters x mapping) of
        Some (_, ig) \<Rightarrow> kStatusUpdate (tenants cl) (setStatusIngester (Some (refTo ig)) t)
      | None \<Rightarrow>
          bindE (liftE (pickIngester svc t mapping 0 (length mapping + 1))) (\<lambda>ig.
            bindTenantTo cl t ig)))"

section \<open>The handler\<close>

definition ingesterBind :: "ext \<Rightarrow> 's client \<Rightarrow> service option \<Rightarrow> tenant \<Rightarrow> ('s, tenant) act" where
  "ingesterBind x cl svc t =
     bindE (needResetIngester cl svc t) (\<lambda>need.
       if need then
         (case statusIngester t of
            None \<Rightarrow> failE Panic
          | Some ref \<Rightarrow>
              bindE (removeTenantFromIngesterbyName x cl svc t (oref_Namespace ref) (oref_Name ref))
                (\<lambda>t1. kStatusUpdate (tenants cl) t1))
       else if om_Labels t ServiceLabelKey = None \<or> serviceLabel t = [] then
         (case statusIngester t of
            None \<Rightarrow> ret t
          | Some ref \<Rightarrow>
              bindE (removeTenantFromIngesterbyName x cl svc t (oref_Namespace ref) (oref_Name ref))
                (\<lambda>t1. kStatusUpdate (tenants cl) t1))
       else if labelTrue (om_Labels t) ExclusiveLabelKey then
         bindTenantTo cl t (createIngesterInstance svc (om_Name t) t True)
       else ingesterAllocate x cl svc t)"

definition Tenant_ingester :: "ext \<Rightarrow> 's client \<Rightarrow> service option \<Rightarrow> tenant \<Rightarrow> ('s, tenant) act" where
  "Tenant_ingester x cl svc t =
     (if om_DeletionTimestamp t = None then
        (if \<not> containsString (om_Finalizers t) FinalizerIngester
         then kUpdate (tenants cl) (t\<lparr>om_Finalizers := om_Finalizers t @ [FinalizerIngester]\<rparr>)
         else ingesterBind x cl svc t)
      else
        (if containsString (om_Finalizers t) FinalizerIngester
         then ingesterRelease x cl svc t
         else ingesterBind x cl svc t))"

section \<open>The test for a reset\<close>

interpretation ib: tenant_binding "\<lambda>ig. ig_Tenants (ig_Spec ig)" needResetIngester statusIngester
    ingesters c_ingesters c_ingesters_update keepIngester
proof
  fix cl :: "'s client" and V svc t s
  assume ok: "kindOk (ingesters cl) V c_ingesters c_ingesters_update keepIngester"
  show "needResetIngester cl svc t s =
      (Inr (mustReset (\<lambda>ig. ig_Tenants (ig_Spec ig)) svc t (statusIngester t) (c_ingesters (V s))), s)"
    by (auto simp: needResetIngester_def mustReset_def boundTo_def handleE_case kindOk_get [OF ok]
        mget_def labelTrue_def split: option.splits)
qed

section \<open>Names of shared ingesters\<close>

text \<open>The name that the \<open>i\<close>-th round of the loop tries, where the service label has two parts.\<close>

definition autoName :: "service option \<Rightarrow> tenant \<Rightarrow> nat \<Rightarrow> string" where
  "autoName svc t i =
     (let storageNamespacedName = splitOn CHR ''.'' (storageOf svc t);
          storageName = (if length storageNamespacedName \<ge> 2 then storageNamespacedName ! 1
                         else LocalStorage)
      in (splitOn CHR ''.'' (serviceLabel t) ! 1) @ ''-'' @ storageName @ ''-auto-'' @ itoaNat i)"

abbreviation serviceNs :: "tenant \<Rightarrow> string" where
  "serviceNs t \<equiv> hd (splitOn CHR ''.'' (serviceLabel t))"

definition serviceLabelOk :: "tenant \<Rightarrow> bool" where
  "serviceLabelOk t \<longleftrightarrow> 2 \<le> length (splitOn CHR ''.'' (serviceLabel t))"

lemma serviceLabelOk_nonempty: "serviceLabelOk t \<Longrightarrow> serviceLabel t \<noteq> []"
  by (auto simp: serviceLabelOk_def)

lemma inj_autoName: "inj (autoName svc t)"
  by (rule injI) (simp add: autoName_def Let_def)

lemma autoName_nonempty [simp]: "autoName svc t i \<noteq> []"
  by (simp add: autoName_def Let_def)

lemma createIngesterInstanceName_auto:
  "serviceLabelOk t \<Longrightarrow> createIngesterInstanceName svc t [itoaNat i] = Inr (autoName svc t i)"
  by (simp add: serviceLabelOk_def createIngesterInstanceName_def autoName_def Let_def idx_def)

lemma createIngesterInstance_simps [simp]:
  "om_Name (createIngesterInstance svc n t e) = n"
  "om_Namespace (createIngesterInstance svc n t e) = serviceNs t"
  "om_DeletionTimestamp (createIngesterInstance svc n t e) = None"
  "ig_Tenants (ig_Spec (createIngesterInstance svc n t e)) = [tenantId t]"
  "om_Labels (createIngesterInstance svc n t e) ServiceLabelKey = Some (serviceLabel t)"
  "om_Labels (createIngesterInstance svc n t e) StorageLabelKey = Some (storageOf svc t)"
  "om_Labels (createIngesterInstance svc n t e) ExclusiveLabelKey =
     (if e then Some ''true'' else None)"
  by (simp_all add: createIngesterInstance_def Let_def zero_defs)

lemma addTenantToIngesterInstance_simps [simp]:
  "om_Name (addTenantToIngesterInstance t ig) = om_Name ig"
  "om_Namespace (addTenantToIngesterInstance t ig) = om_Namespace ig"
  "objectKey (addTenantToIngesterInstance t ig) = objectKey ig"
  "om_Labels (addTenantToIngesterInstance t ig) = om_Labels ig"
  "om_DeletionTimestamp (addTenantToIngesterInstance t ig) = om_DeletionTimestamp ig"
  "ig_Tenants (ig_Spec (addTenantToIngesterInstance t ig)) =
     ig_Tenants (ig_Spec ig) @ [tenantId t]"
  by (simp_all add: addTenantToIngesterInstance_def Let_def objectKey_def)

section \<open>The search loop\<close>

abbreviation ingesterCapacity :: "service \<Rightarrow> int" where
  "ingesterCapacity sv \<equiv> igt_DefaultTenantsPerIngester (sv_IngesterTemplateSpec (sv_Spec sv))"

definition isFull :: "service \<Rightarrow> ingester \<Rightarrow> bool" where
  "isFull sv ig \<longleftrightarrow> ingesterCapacity sv \<le> int (length (ig_Tenants (ig_Spec ig)))"

text \<open>
  What a round that ends the loop has found: the ingesters before it are full, and its own is
  either missing or has room.
\<close>

definition firstFit :: "service \<Rightarrow> tenant \<Rightarrow> (string \<times> ingester) list \<Rightarrow> nat \<Rightarrow> nat \<Rightarrow> ingester \<Rightarrow> bool" where
  "firstFit sv t mapping i j ig \<longleftrightarrow>
     (\<forall>k. i \<le> k \<and> k < j \<longrightarrow>
        (\<exists>old. map_of mapping (autoName (Some sv) t k) = Some old \<and> isFull sv old)) \<and>
     (case map_of mapping (autoName (Some sv) t j) of
        None \<Rightarrow> ig = createIngesterInstance (Some sv) (autoName (Some sv) t j) t False
      | Some old \<Rightarrow> \<not> isFull sv old \<and> ig = addTenantToIngesterInstance t old)"

lemma pickIngester_firstFit:
  assumes "serviceLabelOk t"
    and "\<exists>j \<ge> i. j < i + n \<and> map_of mapping (autoName (Some sv) t j) = None"
  shows "\<exists>j ig. i \<le> j \<and> pickIngester (Some sv) t mapping i n = Inr ig \<and> firstFit sv t mapping i j ig"
  using assms(2)
proof (induction n arbitrary: i)
  case 0
  then show ?case by auto
next
  case (Suc n)
  let ?name = "autoName (Some sv) t i"
  note name = createIngesterInstanceName_auto [OF assms(1), of "Some sv" i]
  show ?case
  proof (cases "\<exists>old. map_of mapping ?name = Some old \<and> isFull sv old")
    case False
    then have "firstFit sv t mapping i i (case map_of mapping ?name of
        None \<Rightarrow> createIngesterInstance (Some sv) ?name t False
      | Some old \<Rightarrow> addTenantToIngesterInstance t old)"
      by (auto simp: firstFit_def split: option.splits)
    moreover have "pickIngester (Some sv) t mapping i (Suc n) = Inr (case map_of mapping ?name of
        None \<Rightarrow> createIngesterInstance (Some sv) ?name t False
      | Some old \<Rightarrow> addTenantToIngesterInstance t old)"
      using False by (auto simp: name serviceSpec_def isFull_def not_le split: option.split)
    ultimately show ?thesis by blast
  next
    case True
    then obtain old where old: "map_of mapping ?name = Some old" "isFull sv old" by blast
    from Suc.prems obtain j where j: "i \<le> j" "j < i + Suc n"
      "map_of mapping (autoName (Some sv) t j) = None" by blast
    with old have "Suc i \<le> j" using le_eq_less_or_eq by fastforce
    with j have "\<exists>j \<ge> Suc i. j < Suc i + n \<and> map_of mapping (autoName (Some sv) t j) = None" by auto
    from Suc.IH [OF this] obtain j ig where jg: "Suc i \<le> j"
      "pickIngester (Some sv) t mapping (Suc i) n = Inr ig" "firstFit sv t mapping (Suc i) j ig"
      by blast
    have "pickIngester (Some sv) t mapping i (Suc n) = Inr ig"
      using old jg(2) by (simp add: name serviceSpec_def isFull_def)
    moreover have "firstFit sv t mapping i j ig"
      using jg(3) old unfolding firstFit_def by (metis le_antisym not_less_eq_eq)
    ultimately show ?thesis using jg(1) by (meson Suc_leD)
  qed
qed

text \<open>One round more than there are ingesters is enough for the loop to find one.\<close>

lemma pickIngester_finds:
  assumes "serviceLabelOk t"
  obtains j ig where "pickIngester (Some sv) t mapping 0 (length mapping + 1) = Inr ig"
    and "firstFit sv t mapping 0 j ig"
proof -
  obtain j where "j < length mapping + 1" "autoName (Some sv) t j \<notin> set (map fst mapping)"
    using pigeonhole_fresh [OF inj_autoName [of "Some sv" t], of "map fst mapping" "length mapping + 1"] by auto
  then have "map_of mapping (autoName (Some sv) t j) = None"
    by (simp add: map_of_eq_None_iff)
  with \<open>j < length mapping + 1\<close> show thesis
    using pickIngester_firstFit [OF assms, of 0 "length mapping + 1" mapping sv] that by auto
qed

section \<open>The mapping of listed ingesters\<close>

lemma ingesterMapping_snoc:
  "ingesterMapping (xs @ [ig]) = alistUpdate (om_Name ig) ig (ingesterMapping xs)"
  by (simp add: ingesterMapping_def)

lemma ingesterMapping_dom: "map_of (ingesterMapping xs) n = None \<longleftrightarrow> n \<notin> om_Name ` set xs"
proof (induction xs rule: rev_induct)
  case Nil
  show ?case by (simp add: ingesterMapping_def)
qed (auto simp: ingesterMapping_snoc)

lemma ingesterMapping_Some: "map_of (ingesterMapping xs) n = Some ig \<Longrightarrow> ig \<in> set xs \<and> om_Name ig = n"
proof (induction xs rule: rev_induct)
  case Nil
  then show ?case by (simp add: ingesterMapping_def)
qed (auto simp: ingesterMapping_snoc split: if_splits)

lemma ingesterMapping_set: "(n, ig) \<in> set (ingesterMapping xs) \<Longrightarrow> ig \<in> set xs"
proof (induction xs rule: rev_induct)
  case Nil
  then show ?case by (simp add: ingesterMapping_def)
next
  case (snoc y ys)
  then show ?case
    using set_alistUpdate [of "om_Name y" y "ingesterMapping ys"] by (auto simp: ingesterMapping_snoc)
qed

section \<open>Writing ingesters and tenants\<close>

lemma keepIngester_simps [simp]:
  "objectKey (keepIngester old new) = objectKey new"
  "om_Name (keepIngester old new) = om_Name new"
  "om_Namespace (keepIngester old new) = om_Namespace new"
  "om_Labels (keepIngester old new) = om_Labels new"
  "om_Annotations (keepIngester old new) = om_Annotations new"
  "om_DeletionTimestamp (keepIngester old new) = om_DeletionTimestamp new"
  "ig_Spec (keepIngester old new) = ig_Spec new"
  by (simp_all add: keepIngester_def objectKey_def)

lemma ig_Spec_meta [simp]:
  "ig_Spec (asStored old rv ig) = ig_Spec ig" "ig_Spec (mergeMetadata ig c) = ig_Spec ig"
  by (simp_all add: asStored_def mergeMetadata_def)

interpretation ik: saved_kind ig_Spec keepIngester c_ingesters c_ingesters_update
proof
  fix f :: "ingester kstore \<Rightarrow> ingester kstore" and c
  show "f (c_ingesters c) = c_ingesters c \<Longrightarrow> c_ingesters_update f c = c" by (cases c) simp
qed simp_all

lemmas saveIngester = ik.save [OF clientOk_kinds(2)]

lemma writeStatusIngester:
  assumes ok: "clientOk cl V" and cur: "map_of (c_tenants (V s)) (objectKey t) = Some t"
  obtains rv s' where "kStatusUpdate (tenants cl) (setStatusIngester r t) s =
      (Inr ((setStatusIngester r t)\<lparr>om_ResourceVersion := rv\<rparr>), s')"
    and "V s' = c_tenants_update (alistUpdate (objectKey t)
      ((setStatusIngester r t)\<lparr>om_ResourceVersion := rv\<rparr>)) (V s)"
  using writeStatus [OF ok cur] that unfolding setStatusIngester_def by metis

section \<open>Binding\<close>

abbreviation ingesterTenants :: "ingester \<Rightarrow> string list" where
  "ingesterTenants ig \<equiv> ig_Tenants (ig_Spec ig)"

text \<open>
  A tenant, as it was just read, is bound in a cluster when its status names a stored ingester
  that fits it.
\<close>

definition ingesterBound :: "service option \<Rightarrow> tenant \<Rightarrow> cluster \<Rightarrow> bool" where
  "ingesterBound svc t c \<longleftrightarrow>
     map_of (c_tenants c) (objectKey t) = Some t \<and>
     (\<exists>ref ig. statusIngester t = Some ref \<and> map_of (c_ingesters c) (refKey ref) = Some ig \<and>
        boundTo ingesterTenants svc t ig)"

text \<open>
  The cluster is ready for a shared tenant: no ingester is being deleted, none is a left-over
  exclusive ingester of this tenant, and the generated names are not taken by ingesters of
  another service or storage.
\<close>

definition sharedReady :: "service option \<Rightarrow> tenant \<Rightarrow> cluster \<Rightarrow> bool" where
  "sharedReady svc t c \<longleftrightarrow> storeWf (c_ingesters c) \<and>
     (\<forall>ig \<in> snd ` set (c_ingesters c).
        \<not> (labelTrue (om_Labels ig) ExclusiveLabelKey \<and> om_Name ig = om_Name t)) \<and>
     (\<forall>i ig. map_of (c_ingesters c) \<lparr>nn_Namespace = serviceNs t, nn_Name = autoName svc t i\<rparr> = Some ig \<longrightarrow>
        om_Labels ig ServiceLabelKey = Some (serviceLabel t) \<and>
        om_Labels ig StorageLabelKey = Some (storageOf svc t))"

lemma setStatusIngester_simps [simp]:
  "objectKey (setStatusIngester r t) = objectKey t"
  "om_Labels (setStatusIngester r t) = om_Labels t"
  "om_Name (setStatusIngester r t) = om_Name t"
  "om_Namespace (setStatusIngester r t) = om_Namespace t"
  "om_Finalizers (setStatusIngester r t) = om_Finalizers t"
  "om_DeletionTimestamp (setStatusIngester r t) = om_DeletionTimestamp t"
  "tn_Spec (setStatusIngester r t) = tn_Spec t"
  "statusIngester (setStatusIngester r t) = r"
  by (simp_all add: setStatusIngester_def objectKey_def)

text \<open>
  What a run of the handler that does not touch finalizers may change: the tenant's reference to its
  ingester, and ingesters.
\<close>

definition ingesterStep :: "tenant \<Rightarrow> tenant \<Rightarrow> cluster \<Rightarrow> cluster \<Rightarrow> bool" where
  "ingesterStep t t' c c' \<longleftrightarrow> (\<exists>r rv igs. t' = (setStatusIngester r t)\<lparr>om_ResourceVersion := rv\<rparr> \<and>
     c' = c\<lparr>c_tenants := alistUpdate (objectKey t) t' (c_tenants c), c_ingesters := igs\<rparr>)"

lemma sharedReady_put:
  assumes ready: "sharedReady svc t c" and ig: "objectKey ig = k" "om_DeletionTimestamp ig = None"
    and own: "\<not> (labelTrue (om_Labels ig) ExclusiveLabelKey \<and> om_Name ig = om_Name t)"
    and labels: "\<And>i. k = \<lparr>nn_Namespace = serviceNs t, nn_Name = autoName svc t i\<rparr> \<Longrightarrow>
      om_Labels ig ServiceLabelKey = Some (serviceLabel t) \<and> om_Labels ig StorageLabelKey = Some (storageOf svc t)"
  shows "sharedReady svc t (c_ingesters_update (alistUpdate k ig) c)"
proof -
  have wf: "storeWf (c_ingesters c)" using ready by (simp add: sharedReady_def)
  have "\<forall>ig' \<in> snd ` set (alistUpdate k ig (c_ingesters c)).
      \<not> (labelTrue (om_Labels ig') ExclusiveLabelKey \<and> om_Name ig' = om_Name t)"
    using ready own set_alistUpdate [of k ig "c_ingesters c"] by (fastforce simp: sharedReady_def)
  moreover have "om_Labels ig' ServiceLabelKey = Some (serviceLabel t) \<and>
      om_Labels ig' StorageLabelKey = Some (storageOf svc t)"
    if "map_of (alistUpdate k ig (c_ingesters c))
          \<lparr>nn_Namespace = serviceNs t, nn_Name = autoName svc t i\<rparr> = Some ig'" for i ig'
    using that ready labels unfolding sharedReady_def
    by (cases "\<lparr>nn_Namespace = serviceNs t, nn_Name = autoName svc t i\<rparr> = k") auto
  ultimately show ?thesis
    using storeWf_alistUpdate [OF wf ig] by (simp add: sharedReady_def)
qed

lemma sharedReady_update:
  assumes "sharedReady svc t c" and "map_of (c_ingesters c) k = Some old"
    and "objectKey ig = k" and "om_DeletionTimestamp ig = None" and "om_Labels ig = om_Labels old"
  shows "sharedReady svc t (c_ingesters_update (alistUpdate k ig) c)"
proof (rule sharedReady_put [OF assms(1,3,4)])
  have wf: "storeWf (c_ingesters c)" using assms(1) by (simp add: sharedReady_def)
  have "om_Name ig = om_Name old"
    using storeWf_get(1) [OF wf assms(2)] assms(3) by (auto simp: objectKey_def)
  moreover have "old \<in> snd ` set (c_ingesters c)"
    using map_of_SomeD [OF assms(2)] by force
  ultimately show "\<not> (labelTrue (om_Labels ig) ExclusiveLabelKey \<and> om_Name ig = om_Name t)"
    using assms(1,5) by (auto simp: sharedReady_def)
qed (use assms in \<open>simp add: sharedReady_def\<close>)

lemma sharedReady_more:
  "\<lbrakk>om_Labels t' = om_Labels t; om_Name t' = om_Name t; c_ingesters c' = c_ingesters c\<rbrakk> \<Longrightarrow>
     sharedReady svc t' c' = sharedReady svc t c"
  by (simp add: sharedReady_def autoName_def)

lemma writeStatus_binds:
  assumes ok: "clientOk cl V" and cur: "map_of (c_tenants (V s)) (objectKey t) = Some t"
    and stored: "map_of (c_ingesters (V s)) (objectKey d) = Some ig"
    and fits: "boundTo ingesterTenants svc t ig"
  shows "\<exists>t' s'. kStatusUpdate (tenants cl) (setStatusIngester (Some (refTo d)) t) s = (Inr t', s') \<and>
     c_ingesters (V s') = c_ingesters (V s) \<and> statusIngester t' = Some (refTo d) \<and>
     ingesterBound svc t' (V s') \<and> ingesterStep t t' (V s) (V s')"
proof -
  let ?t = "setStatusIngester (Some (refTo d)) t"
  obtain rv s' where run: "kStatusUpdate (tenants cl) ?t s = (Inr (?t\<lparr>om_ResourceVersion := rv\<rparr>), s')"
    and V: "V s' = c_tenants_update (alistUpdate (objectKey t) (?t\<lparr>om_ResourceVersion := rv\<rparr>)) (V s)"
    by (rule writeStatusIngester [OF ok cur])
  have "boundTo ingesterTenants svc (?t\<lparr>om_ResourceVersion := rv\<rparr>) ig"
    using fits by (subst boundTo_more) simp_all
  then have "ingesterBound svc (?t\<lparr>om_ResourceVersion := rv\<rparr>) (V s')"
    using stored by (auto simp: ingesterBound_def V)
  moreover have "ingesterStep t (?t\<lparr>om_ResourceVersion := rv\<rparr>) (V s) (V s')"
    unfolding ingesterStep_def
    by (intro exI [of _ "Some (refTo d)"] exI [of _ rv] exI [of _ "c_ingesters (V s)"]) (simp add: V)
  ultimately show ?thesis using run V by auto
qed

lemma bindTenantTo_binds:
  assumes ok: "clientOk cl V" and cur: "map_of (c_tenants (V s)) (objectKey t) = Some t"
    and wf: "storeWf (c_ingesters (V s))" and named: "om_Name d \<noteq> []"
    and alive: "om_DeletionTimestamp d = None"
    and fits: "\<And>ig. \<lbrakk>objectKey ig = objectKey d; ig_Spec ig = ig_Spec d;
      om_Labels ig = over (map_option om_Labels (map_of (c_ingesters (V s)) (objectKey d))) (om_Labels d)\<rbrakk>
      \<Longrightarrow> boundTo ingesterTenants svc t ig"
  shows "\<exists>t' s' ig. bindTenantTo cl t d s = (Inr t', s') \<and> ingesterBound svc t' (V s') \<and>
     statusIngester t' = Some (refTo d) \<and>
     c_ingesters (V s') = alistUpdate (objectKey d) ig (c_ingesters (V s)) \<and> ig_Spec ig = ig_Spec d \<and>
     objectKey ig = objectKey d \<and> om_DeletionTimestamp ig = None \<and>
     om_Labels ig = over (map_option om_Labels (map_of (c_ingesters (V s)) (objectKey d))) (om_Labels d) \<and>
     ingesterStep t t' (V s) (V s')"
proof -
  obtain ig s1 where run: "CreateOrUpdate (ingesters cl) d s = (Inr (), s1)"
    and V: "V s1 = c_ingesters_update (alistUpdate (objectKey d) ig) (V s)"
    and key: "objectKey ig = objectKey d" and live: "om_DeletionTimestamp ig = None" and spec: "ig_Spec ig = ig_Spec d"
    and labels: "om_Labels ig = over (map_option om_Labels (map_of (c_ingesters (V s)) (objectKey d))) (om_Labels d)"
    using saveIngester [OF ok wf named alive] by metis
  have "map_of (c_tenants (V s1)) (objectKey t) = Some t" using cur by (simp add: V)
  moreover have "map_of (c_ingesters (V s1)) (objectKey d) = Some ig" by (simp add: V)
  ultimately have "\<exists>t' s'. kStatusUpdate (tenants cl) (setStatusIngester (Some (refTo d)) t) s1 = (Inr t', s') \<and>
     c_ingesters (V s') = c_ingesters (V s1) \<and> statusIngester t' = Some (refTo d) \<and> ingesterBound svc t' (V s') \<and>
     ingesterStep t t' (V s1) (V s')"
    using fits [OF key spec labels] by (rule writeStatus_binds [OF ok])
  moreover have "ingesterStep t t' (V s1) c' \<Longrightarrow> ingesterStep t t' (V s) c'" for t' c'
    by (auto simp: ingesterStep_def V)
  ultimately show ?thesis using run V key live spec labels by (fastforce simp: bindTenantTo_def Let_def)
qed

lemma fits_exclusive:
  assumes "labelTrue (om_Labels t) ExclusiveLabelKey"
    and "objectKey ig = objectKey (createIngesterInstance svc (om_Name t) t True)"
    and "ig_Spec ig = ig_Spec (createIngesterInstance svc (om_Name t) t True)"
    and "om_Labels ig = over cur (om_Labels (createIngesterInstance svc (om_Name t) t True))"
  shows "boundTo ingesterTenants svc t ig"
  using assms by (simp add: boundTo_def labelTrue_def objectKey_def)

text \<open>
  How the ingesters may change when a tenant is bound: not at all, or one ingester, new or with
  room, gets the tenant appended.
\<close>

definition appended :: "service \<Rightarrow> tenant \<Rightarrow> ingester kstore \<Rightarrow> ingester kstore \<Rightarrow> bool" where
  "appended sv t xs ys \<longleftrightarrow> ys = xs \<or> (\<exists>k ig. ys = alistUpdate k ig xs \<and>
     ingesterTenants ig =
       (case map_of xs k of None \<Rightarrow> [] | Some old \<Rightarrow> ingesterTenants old) @ [tenantId t] \<and>
     int (length (ingesterTenants ig)) \<le> max 1 (ingesterCapacity sv))"

lemma bind_fresh:
  assumes ok: "clientOk cl V" and cur: "map_of (c_tenants (V s)) (objectKey t) = Some t"
    and ready: "sharedReady (Some sv) t (V s)" and shared: "\<not> labelTrue (om_Labels t) ExclusiveLabelKey"
    and n: "n \<noteq> []" and new: "map_of (c_ingesters (V s)) \<lparr>nn_Namespace = serviceNs t, nn_Name = n\<rparr> = None"
  shows "\<exists>t' s'. bindTenantTo cl t (createIngesterInstance (Some sv) n t False) s = (Inr t', s') \<and>
     ingesterBound (Some sv) t' (V s') \<and> appended sv t (c_ingesters (V s)) (c_ingesters (V s')) \<and>
     sharedReady (Some sv) t (V s') \<and> ingesterStep t t' (V s) (V s')"
proof -
  have wf: "storeWf (c_ingesters (V s))" using ready by (simp add: sharedReady_def)
  let ?d = "createIngesterInstance (Some sv) n t False"
  have key: "objectKey ?d = \<lparr>nn_Namespace = serviceNs t, nn_Name = n\<rparr>" by (simp add: objectKey_def)
  obtain t' s' ig where run: "bindTenantTo cl t ?d s = (Inr t', s')" "ingesterBound (Some sv) t' (V s')"
    and igs: "c_ingesters (V s') = alistUpdate (objectKey ?d) ig (c_ingesters (V s))" "ig_Spec ig = ig_Spec ?d"
    and ig: "objectKey ig = objectKey ?d" "om_DeletionTimestamp ig = None"
      "om_Labels ig = over (map_option om_Labels (map_of (c_ingesters (V s)) (objectKey ?d))) (om_Labels ?d)"
    and step: "ingesterStep t t' (V s) (V s')"
    using bindTenantTo_binds [OF ok cur wf, of ?d "Some sv"] n new shared
    by (auto simp: key boundTo_def over_def labelTrue_def)
  have "sharedReady (Some sv) t (c_ingesters_update (alistUpdate (objectKey ?d) ig) (V s))"
    by (rule sharedReady_put [OF ready ig(1,2)]) (use new ig(3) key in \<open>simp_all add: over_def labelTrue_def\<close>)
  then have "sharedReady (Some sv) t (V s')"
    by (subst sharedReady_more [where t = t, OF refl refl]) (simp_all add: igs(1))
  moreover note run step igs
  moreover from igs have "appended sv t (c_ingesters (V s)) (c_ingesters (V s'))"
    unfolding appended_def using new by (intro disjI2 exI [of _ "objectKey ?d"] exI [of _ ig]) (simp add: key)
  ultimately show ?thesis by blast
qed

lemma bind_existing:
  assumes ok: "clientOk cl V" and cur: "map_of (c_tenants (V s)) (objectKey t) = Some t"
    and ready: "sharedReady (Some sv) t (V s)" and shared: "\<not> labelTrue (om_Labels t) ExclusiveLabelKey"
    and old: "map_of (c_ingesters (V s)) (objectKey old) = Some old" and named: "om_Name old \<noteq> []"
    and labels: "om_Labels old ServiceLabelKey = Some (serviceLabel t)"
      "om_Labels old StorageLabelKey = Some (storageOf (Some sv) t)"
    and own: "\<not> (labelTrue (om_Labels old) ExclusiveLabelKey \<and> om_Name old = om_Name t)"
    and room: "\<not> isFull sv old"
  shows "\<exists>t' s'. bindTenantTo cl t (addTenantToIngesterInstance t old) s = (Inr t', s') \<and>
     ingesterBound (Some sv) t' (V s') \<and> appended sv t (c_ingesters (V s)) (c_ingesters (V s')) \<and>
     sharedReady (Some sv) t (V s') \<and> ingesterStep t t' (V s) (V s')"
proof -
  have wf: "storeWf (c_ingesters (V s))" using ready by (simp add: sharedReady_def)
  let ?d = "addTenantToIngesterInstance t old"
  have "\<exists>t' s' ig. bindTenantTo cl t ?d s = (Inr t', s') \<and> ingesterBound (Some sv) t' (V s') \<and>
     statusIngester t' = Some (refTo ?d) \<and>
     c_ingesters (V s') = alistUpdate (objectKey ?d) ig (c_ingesters (V s)) \<and> ig_Spec ig = ig_Spec ?d \<and>
     objectKey ig = objectKey ?d \<and> om_DeletionTimestamp ig = None \<and>
     om_Labels ig = over (map_option om_Labels (map_of (c_ingesters (V s)) (objectKey ?d))) (om_Labels ?d) \<and>
     ingesterStep t t' (V s) (V s')"
    by (rule bindTenantTo_binds [OF ok cur wf])
      (use old named labels own shared storeWf_get(2) [OF wf old]
       in \<open>simp_all add: boundTo_def over_def labelTrue_def objectKey_def\<close>)
  then obtain t' s' ig where run: "bindTenantTo cl t ?d s = (Inr t', s')" "ingesterBound (Some sv) t' (V s')"
    and igs: "c_ingesters (V s') = alistUpdate (objectKey ?d) ig (c_ingesters (V s))" "ig_Spec ig = ig_Spec ?d"
    and ig: "objectKey ig = objectKey ?d" "om_DeletionTimestamp ig = None"
      "om_Labels ig = over (map_option om_Labels (map_of (c_ingesters (V s)) (objectKey ?d))) (om_Labels ?d)"
    and step: "ingesterStep t t' (V s) (V s')"
    by blast
  have "sharedReady (Some sv) t (c_ingesters_update (alistUpdate (objectKey ?d) ig) (V s))"
    by (rule sharedReady_update [OF ready _ ig(1,2), where old = old]) (use old ig(3) in \<open>simp_all add: over_def\<close>)
  then have "sharedReady (Some sv) t (V s')"
    by (subst sharedReady_more [where t = t, OF refl refl]) (simp_all add: igs(1))
  moreover note run step igs
  moreover from igs have "appended sv t (c_ingesters (V s)) (c_ingesters (V s'))"
    unfolding appended_def using old room
    by (intro disjI2 exI [of _ "objectKey ?d"] exI [of _ ig]) (simp add: isFull_def)
  ultimately show ?thesis by blast
qed

lemma ingesterAllocate_binds:
  assumes ok: "clientOk cl V" and range: "rangeOrder (x_rangeIngesters x)"
    and cur: "map_of (c_tenants (V s)) (objectKey t) = Some t"
    and label: "serviceLabelOk t" and shared: "\<not> labelTrue (om_Labels t) ExclusiveLabelKey"
    and ready: "sharedReady (Some sv) t (V s)"
  shows "\<exists>t' s'. ingesterAllocate x cl (Some sv) t s = (Inr t', s') \<and>
     ingesterBound (Some sv) t' (V s') \<and> appended sv t (c_ingesters (V s)) (c_ingesters (V s')) \<and>
     sharedReady (Some sv) t (V s') \<and> ingesterStep t t' (V s) (V s')"
proof -
  define opts where "opts = \<lparr>lo_Namespace = serviceNs t, lo_Labels =
    [ServiceLabelKey \<mapsto> serviceLabel t, StorageLabelKey \<mapsto> storageOf (Some sv) t]\<rparr>"
  define items where "items = filter (matchesOpts opts) (map snd (c_ingesters (V s)))"
  have wf: "storeWf (c_ingesters (V s))" using ready by (simp add: sharedReady_def)
  note list = kindOk_list [OF clientOk_kinds(2) [OF ok], of opts s, folded items_def]
  have listed: "map_of (c_ingesters (V s)) (objectKey ig) = Some ig"
      "om_Labels ig ServiceLabelKey = Some (serviceLabel t)"
      "om_Labels ig StorageLabelKey = Some (storageOf (Some sv) t)"
      "\<not> (labelTrue (om_Labels ig) ExclusiveLabelKey \<and> om_Name ig = om_Name t)" if "ig \<in> set items" for ig
  proof -
    from that have "map_of (c_ingesters (V s)) (objectKey ig) = Some ig" and m: "matchesOpts opts ig"
      by (simp_all only: items_def storeWf_listed [OF wf])
    then show "map_of (c_ingesters (V s)) (objectKey ig) = Some ig" by simp
    show "om_Labels ig ServiceLabelKey = Some (serviceLabel t)"
      "om_Labels ig StorageLabelKey = Some (storageOf (Some sv) t)"
      using m by (auto simp: matchesOpts_def opts_def map_le_def split: if_splits)
    show "\<not> (labelTrue (om_Labels ig) ExclusiveLabelKey \<and> om_Name ig = om_Name t)"
      using ready that unfolding sharedReady_def items_def by auto
  qed
  show ?thesis
  proof (cases "find (\<lambda>p. containsString (ig_Tenants (ig_Spec (snd p))) (tenantId t))
      (x_rangeIngesters x (ingesterMapping items))")
    case (Some p)
    obtain n ig where p: "p = (n, ig)" by (cases p)
    from find_SomeD [OF Some] have "(n, ig) \<in> set (ingesterMapping items)"
      and "tenantId t \<in> set (ingesterTenants ig)"
      by (simp_all add: p rangeOrder_set [OF range])
    moreover from this(1) have "ig \<in> set items" by (rule ingesterMapping_set)
    ultimately have "ig \<in> set items" "tenantId t \<in> set (ingesterTenants ig)" by simp_all
    then have "boundTo ingesterTenants (Some sv) t ig" using listed [of ig] shared by (simp add: boundTo_def)
    from writeStatus_binds [OF ok cur listed(1) this] \<open>ig \<in> set items\<close>
    obtain t' s' where "kStatusUpdate (tenants cl) (setStatusIngester (Some (refTo ig)) t) s = (Inr t', s')"
      "c_ingesters (V s') = c_ingesters (V s)" "ingesterBound (Some sv) t' (V s')" "ingesterStep t t' (V s) (V s')" by blast
    moreover from this(2) have "sharedReady (Some sv) t (V s')"
      using ready by (subst sharedReady_more [where t = t and c = "V s"]) simp_all
    ultimately show ?thesis
      using Some list by (simp add: ingesterAllocate_def Let_def opts_def p appended_def)
  next
    case None
    obtain j d where pick: "pickIngester (Some sv) t (ingesterMapping items) 0 (length (ingesterMapping items) + 1) = Inr d"
      and first: "firstFit sv t (ingesterMapping items) 0 j d"
      by (rule pickIngester_finds [OF label])
    have run: "ingesterAllocate x cl (Some sv) t s = bindTenantTo cl t d s"
      using None list pick by (simp add: ingesterAllocate_def Let_def opts_def)
    show ?thesis
    proof (cases "map_of (ingesterMapping items) (autoName (Some sv) t j)")
      case None
      let ?key = "\<lparr>nn_Namespace = serviceNs t, nn_Name = autoName (Some sv) t j\<rparr>"
      have "map_of (c_ingesters (V s)) ?key = None"
      proof (rule ccontr)
        assume "map_of (c_ingesters (V s)) ?key \<noteq> None"
        then obtain c where c: "map_of (c_ingesters (V s)) ?key = Some c" by blast
        then have "om_Labels c ServiceLabelKey = Some (serviceLabel t)"
          "om_Labels c StorageLabelKey = Some (storageOf (Some sv) t)" "objectKey c = ?key"
          using ready storeWf_get(1) [OF wf c] by (simp_all add: sharedReady_def)
        with c have "c \<in> set items" "om_Name c = autoName (Some sv) t j"
          unfolding items_def storeWf_listed [OF wf]
          by (auto simp: matchesOpts_def opts_def map_le_def objectKey_def)
        then show False using None unfolding ingesterMapping_dom by (metis imageI)
      qed
      then show ?thesis
        using bind_fresh [OF ok cur ready shared, of "autoName (Some sv) t j"] first None
        by (simp add: run firstFit_def)
    next
      case (Some old)
      then have "old \<in> set items" "om_Name old = autoName (Some sv) t j"
        by (simp_all add: ingesterMapping_Some)
      then show ?thesis
        using bind_existing [OF ok cur ready shared listed(1) _ listed(2-4)] first Some
        by (simp add: run firstFit_def)
    qed
  qed
qed

section \<open>Releasing\<close>

lemma ingesterRetention_Some:
  obtains p where "ingesterRetention x (Some sv) ig = Inr p"
  by (cases "ingesterRetention x (Some sv) ig")
    (auto simp: ingesterRetention_def serviceSpec_def Let_def split: if_splits)

text \<open>An ingester without its tenant: marked for deletion when it was the last one.\<close>

definition released :: "ext \<Rightarrow> service \<Rightarrow> string \<Rightarrow> ingester \<Rightarrow> ingester \<Rightarrow> bool" where
  "released x sv tid ig ig' \<longleftrightarrow>
     ingesterTenants ig' = removeString (ingesterTenants ig) tid \<and>
     om_Labels ig' = om_Labels ig \<and> objectKey ig' = objectKey ig \<and> om_DeletionTimestamp ig' = None \<and>
     (ingesterTenants ig' = [] \<longrightarrow>
        om_Annotations ig' LabelNameIngesterState = Some IngesterStateDeleting \<and>
        (\<exists>p. ingesterRetention x (Some sv) ig = Inr p \<and>
           om_Annotations ig' LabelNameIngesterDeletingTime = Some (itoa ((x_now x + p) div 10 ^ 9)))) \<and>
     (ingesterTenants ig' \<noteq> [] \<longrightarrow> om_Annotations ig' = om_Annotations ig)"

lemma ingesterRetention_tenants [simp]:
  "ingesterRetention x svc (ig\<lparr>ig_Spec := (ig_Spec ig)\<lparr>ig_Tenants := ts\<rparr>\<rparr>) = ingesterRetention x svc ig"
  by (simp add: ingesterRetention_def)

lemma removeTenant_releases:
  assumes ok: "clientOk cl V" and wf: "storeWf (c_ingesters (V s))"
    and ig: "map_of (c_ingesters (V s)) \<lparr>nn_Namespace = ns, nn_Name = n\<rparr> = Some ig" and n: "n \<noteq> []"
    and member: "tenantId t \<in> set (ingesterTenants ig)"
  shows "\<exists>s' ig'. removeTenantFromIngesterbyName x cl (Some sv) t ns n s = (Inr (setStatusIngester None t), s') \<and>
     V s' = c_ingesters_update (alistUpdate \<lparr>nn_Namespace = ns, nn_Name = n\<rparr> ig') (V s) \<and>
     released x sv (tenantId t) ig ig'"
proof -
  let ?key = "\<lparr>nn_Namespace = ns, nn_Name = n\<rparr>"
  let ?ts = "removeString (ingesterTenants ig) (tenantId t)"
  let ?ig1 = "ig\<lparr>ig_Spec := (ig_Spec ig)\<lparr>ig_Tenants := ?ts\<rparr>\<rparr>"
  note key = storeWf_get [OF wf ig]
  obtain p where p: "ingesterRetention x (Some sv) ig = Inr p" by (rule ingesterRetention_Some)
  define ig2 where "ig2 = (if ?ts = [] then ?ig1\<lparr>om_Annotations := (om_Annotations ig)(
      LabelNameIngesterState \<mapsto> IngesterStateDeleting,
      LabelNameIngesterDeletingTime \<mapsto> itoa ((x_now x + p) div 10 ^ 9))\<rparr> else ?ig1)"
  have ig2: "objectKey ig2 = ?key" "om_Name ig2 \<noteq> []" "om_DeletionTimestamp ig2 = None"
      "om_Labels ig2 = om_Labels ig" "ingesterTenants ig2 = ?ts"
    using key n by (auto simp: ig2_def objectKey_def)
  obtain ig' s' where save: "CreateOrUpdate (ingesters cl) ig2 s = (Inr (), s')"
    and V: "V s' = c_ingesters_update (alistUpdate (objectKey ig2) ig') (V s)"
    and ig': "objectKey ig' = objectKey ig2" "om_DeletionTimestamp ig' = None" "ig_Spec ig' = ig_Spec ig2"
      "om_Labels ig' = over (map_option om_Labels (map_of (c_ingesters (V s)) (objectKey ig2))) (om_Labels ig2)"
      "om_Annotations ig' =
         over (map_option om_Annotations (map_of (c_ingesters (V s)) (objectKey ig2))) (om_Annotations ig2)"
    by (rule saveIngester [OF ok wf ig2(2,3)])
  have "removeTenantFromIngesterbyName x cl (Some sv) t ns n s = (Inr (setStatusIngester None t), s')"
    using save member
    by (auto simp: removeTenantFromIngesterbyName_def Let_def handleE_case kindOk_get [OF clientOk_kinds(2) [OF ok]]
        ig bindE_app markDeleting_def p ig2_def split: if_splits)
  moreover have "released x sv (tenantId t) ig ig'"
    unfolding released_def
    using ig' ig2 ig key p by (auto simp: over_def ig2_def split: if_splits)
  ultimately show ?thesis using V ig2(1) by auto
qed

lemma removeTenant_absent:
  assumes ok: "clientOk cl V"
    and absent: "\<And>ig. map_of (c_ingesters (V s)) \<lparr>nn_Namespace = ns, nn_Name = n\<rparr> = Some ig \<Longrightarrow>
      tenantId t \<notin> set (ingesterTenants ig)"
  shows "removeTenantFromIngesterbyName x cl svc t ns n s = (Inr (setStatusIngester None t), s)"
  using absent
  by (auto simp: removeTenantFromIngesterbyName_def Let_def handleE_case
      kindOk_get [OF clientOk_kinds(2) [OF ok]] split: option.splits)

text \<open>A reset clears the status and leaves the cluster ready.\<close>

lemma reset_ready:
  assumes ok: "clientOk cl V" and cur: "map_of (c_tenants (V s)) (objectKey t) = Some t"
    and ready: "sharedReady (Some sv) t (V s)" and n: "n \<noteq> []"
  obtains t1 s1 where "bindE (removeTenantFromIngesterbyName x cl (Some sv) t ns n) (kStatusUpdate (tenants cl)) s =
      (Inr t1, s1)"
    and "map_of (c_tenants (V s1)) (objectKey t1) = Some t1" and "sharedReady (Some sv) t1 (V s1)"
    and "statusIngester t1 = None" and "om_Labels t1 = om_Labels t" and "om_Finalizers t1 = om_Finalizers t"
    and "om_DeletionTimestamp t1 = om_DeletionTimestamp t"
proof -
  have wf: "storeWf (c_ingesters (V s))" using ready by (simp add: sharedReady_def)
  obtain s' where rm: "removeTenantFromIngesterbyName x cl (Some sv) t ns n s = (Inr (setStatusIngester None t), s')"
    and tn: "c_tenants (V s') = c_tenants (V s)" and ready': "sharedReady (Some sv) t (V s')"
  proof (cases "\<exists>ig. map_of (c_ingesters (V s)) \<lparr>nn_Namespace = ns, nn_Name = n\<rparr> = Some ig \<and>
      tenantId t \<in> set (ingesterTenants ig)")
    case True
    then obtain ig where ig: "map_of (c_ingesters (V s)) \<lparr>nn_Namespace = ns, nn_Name = n\<rparr> = Some ig"
      "tenantId t \<in> set (ingesterTenants ig)" by blast
    from removeTenant_releases [OF ok wf ig(1) n ig(2)] obtain s' ig'
      where run: "removeTenantFromIngesterbyName x cl (Some sv) t ns n s = (Inr (setStatusIngester None t), s')"
        and V: "V s' = c_ingesters_update (alistUpdate \<lparr>nn_Namespace = ns, nn_Name = n\<rparr> ig') (V s)"
        and rel: "released x sv (tenantId t) ig ig'" by blast
    have "sharedReady (Some sv) t (V s')"
      unfolding V by (rule sharedReady_update [OF ready ig(1)])
        (use rel storeWf_get(1) [OF wf ig(1)] in \<open>simp_all add: released_def\<close>)
    with run V show thesis using that by simp
  next
    case False
    then show thesis using that [of s] removeTenant_absent [OF ok] ready by metis
  qed
  have cur': "map_of (c_tenants (V s')) (objectKey t) = Some t" using cur tn by simp
  obtain rv s1 where st: "kStatusUpdate (tenants cl) (setStatusIngester None t) s' =
      (Inr ((setStatusIngester None t)\<lparr>om_ResourceVersion := rv\<rparr>), s1)"
    and V1: "V s1 = c_tenants_update (alistUpdate (objectKey t)
      ((setStatusIngester None t)\<lparr>om_ResourceVersion := rv\<rparr>)) (V s')"
    by (rule writeStatusIngester [OF ok cur'])
  let ?t1 = "(setStatusIngester None t)\<lparr>om_ResourceVersion := rv\<rparr>"
  have "sharedReady (Some sv) ?t1 (V s1)"
    using ready' by (subst sharedReady_more [where t = t and c = "V s'"]) (simp_all add: V1)
  then show thesis
    using that [of ?t1 s1] rm st V1 by simp
qed

text \<open>The part of an ingester that the clean-up of status entries leaves alone.\<close>

definition core :: "ingester \<Rightarrow> string list \<times> labels_map \<times> labels_map" where
  "core ig = (ingesterTenants ig, om_Labels ig, om_Annotations ig)"

definition hasStatusOf :: "string \<Rightarrow> ingester \<Rightarrow> bool" where
  "hasStatusOf n ig \<longleftrightarrow> n \<in> its_Name ` set (igs_Tenants (ig_Status ig))"

definition onlyIngesters :: "cluster \<Rightarrow> cluster \<Rightarrow> bool" where
  "onlyIngesters c c' \<longleftrightarrow> (\<exists>igs. c' = c\<lparr>c_ingesters := igs\<rparr>)"

lemma onlyIngesters_simps [simp]: "onlyIngesters c c" "onlyIngesters c (c_ingesters_update f c)"
  unfolding onlyIngesters_def by (rule exI [of _ "c_ingesters c"], simp) (rule exI [of _ "f (c_ingesters c)"], simp)

lemma onlyIngesters_trans: "\<lbrakk>onlyIngesters a b; onlyIngesters b c\<rbrakk> \<Longrightarrow> onlyIngesters a c"
  by (auto simp: onlyIngesters_def)

lemma onlyIngesters_tenants: "onlyIngesters c c' \<Longrightarrow> c_tenants c' = c_tenants c"
  by (auto simp: onlyIngesters_def)

lemma dropTenantStatus_drops:
  assumes ok: "clientOk cl V" and cur: "map_of (c_ingesters (V s)) (objectKey ig) = Some ig"
  shows "\<exists>s' ig'. dropTenantStatus cl t ig s = (Inr (), s') \<and>
     map_of (c_ingesters (V s')) = (map_of (c_ingesters (V s)))(objectKey ig \<mapsto> ig') \<and>
     onlyIngesters (V s) (V s') \<and> core ig' = core ig \<and> objectKey ig' = objectKey ig \<and>
     om_DeletionTimestamp ig' = om_DeletionTimestamp ig \<and> \<not> hasStatusOf (om_Name t) ig'"
proof (cases "filter (\<lambda>st. its_Name st \<noteq> om_Name t) (igs_Tenants (ig_Status ig)) = igs_Tenants (ig_Status ig)")
  case True
  then have "\<not> hasStatusOf (om_Name t) ig" by (auto simp: hasStatusOf_def filter_id_conv)
  then show ?thesis
    using True cur by (intro exI [of _ s] exI [of _ ig]) (simp add: dropTenantStatus_def fun_upd_idem)
next
  case False
  let ?ig = "ig\<lparr>ig_Status := \<lparr>igs_Tenants =
    filter (\<lambda>st. its_Name st \<noteq> om_Name t) (igs_Tenants (ig_Status ig))\<rparr>\<rparr>"
  have key: "objectKey ?ig = objectKey ig" by (simp add: objectKey_def)
  obtain ob s' where run: "kStatusUpdate (ingesters cl) ?ig s = (Inr ob, s')"
    and ob: "ob = (keepIngester ?ig ig)\<lparr>om_ResourceVersion := om_ResourceVersion ob\<rparr>"
    and V: "V s' = c_ingesters_update (alistUpdate (objectKey ?ig) ob) (V s)"
    by (rule kindOk_statusUpdate [OF clientOk_kinds(2) [OF ok], of s ?ig ig]) (simp_all add: key cur)
  have "core ob = core ig" "objectKey ob = objectKey ig" "om_DeletionTimestamp ob = om_DeletionTimestamp ig"
    by (subst ob, simp add: core_def keepIngester_def objectKey_def)+
  moreover have "igs_Tenants (ig_Status ob) = igs_Tenants (ig_Status ?ig)"
    by (subst ob) (simp add: keepIngester_def)
  ultimately have "core ob = core ig" "objectKey ob = objectKey ig" "om_DeletionTimestamp ob = om_DeletionTimestamp ig"
      "\<not> hasStatusOf (om_Name t) ob"
    by (auto simp: hasStatusOf_def)
  then show ?thesis using False run V by (auto simp: dropTenantStatus_def Let_def key)
qed

lemma dropAllStatus:
  assumes ok: "clientOk cl V" and "distinct (map objectKey items)"
    and "\<forall>ig \<in> set items. map_of (c_ingesters (V s)) (objectKey ig) = Some ig"
  shows "\<exists>s'. forE items (dropTenantStatus cl t) s = (Inr (), s') \<and> onlyIngesters (V s) (V s') \<and>
     (\<forall>k. map_option core (map_of (c_ingesters (V s')) k) = map_option core (map_of (c_ingesters (V s)) k)) \<and>
     (\<forall>k ig. map_of (c_ingesters (V s')) k = Some ig \<longrightarrow>
        (k \<in> objectKey ` set items \<longrightarrow> \<not> hasStatusOf (om_Name t) ig) \<and>
        (k \<notin> objectKey ` set items \<longrightarrow> map_of (c_ingesters (V s)) k = Some ig))"
  using assms(2,3)
proof (induction items arbitrary: s)
  case Nil
  show ?case by simp
next
  case (Cons ig items)
  then have cur: "map_of (c_ingesters (V s)) (objectKey ig) = Some ig" by simp
  obtain s1 ig1 where s1: "dropTenantStatus cl t ig s = (Inr (), s1)"
      "map_of (c_ingesters (V s1)) = (map_of (c_ingesters (V s)))(objectKey ig \<mapsto> ig1)"
      "onlyIngesters (V s) (V s1)" "core ig1 = core ig" "\<not> hasStatusOf (om_Name t) ig1"
    using dropTenantStatus_drops [OF ok cur] by blast
  have "\<forall>ig \<in> set items. map_of (c_ingesters (V s1)) (objectKey ig) = Some ig"
    using Cons.prems s1(2) by (auto simp: image_iff)
  moreover have "distinct (map objectKey items)" using Cons.prems(1) by simp
  ultimately obtain s' where s': "forE items (dropTenantStatus cl t) s1 = (Inr (), s')"
      "onlyIngesters (V s1) (V s')"
      "\<And>k. map_option core (map_of (c_ingesters (V s')) k) = map_option core (map_of (c_ingesters (V s1)) k)"
      "\<And>k ig. map_of (c_ingesters (V s')) k = Some ig \<Longrightarrow>
        (k \<in> objectKey ` set items \<longrightarrow> \<not> hasStatusOf (om_Name t) ig) \<and>
        (k \<notin> objectKey ` set items \<longrightarrow> map_of (c_ingesters (V s1)) k = Some ig)"
    using Cons.IH [of s1] by blast
  have cores: "map_option core (map_of (c_ingesters (V s')) k) = map_option core (map_of (c_ingesters (V s)) k)" for k
    using s'(3) [of k] s1(2,4) cur by (cases "k = objectKey ig") auto
  have run: "forE (ig # items) (dropTenantStatus cl t) s = (Inr (), s')"
    using s1(1) s'(1) by simp
  have entries: "(k \<in> objectKey ` set (ig # items) \<longrightarrow> \<not> hasStatusOf (om_Name t) ig') \<and>
      (k \<notin> objectKey ` set (ig # items) \<longrightarrow> map_of (c_ingesters (V s)) k = Some ig')"
    if "map_of (c_ingesters (V s')) k = Some ig'" for k ig'
    using s'(4) [OF that] s1(2,5) Cons.prems(1) by (cases "k = objectKey ig") auto
  show ?case
    by (rule exI [of _ s'], intro conjI allI impI)
      (rule run, rule onlyIngesters_trans [OF s1(3) s'(2)], rule cores, use entries in blast, use entries in blast)
qed

lemma releaseBinding:
  assumes ok: "clientOk cl V" and wf: "storeWf (c_ingesters (V s))"
    and named: "\<And>ref. statusIngester t = Some ref \<Longrightarrow> oref_Name ref \<noteq> []"
  obtains s1 where "(case statusIngester t of
        None \<Rightarrow> ret t
      | Some ref \<Rightarrow>
          bindE (removeTenantFromIngesterbyName x cl (Some sv) t (oref_Namespace ref) (oref_Name ref))
            (\<lambda>t'. ret (setStatusIngester None t'))) s = (Inr (setStatusIngester None t), s1)"
    and "storeWf (c_ingesters (V s1))" and "onlyIngesters (V s) (V s1)"
    and "\<And>ref ig. \<lbrakk>statusIngester t = Some ref; map_of (c_ingesters (V s)) (refKey ref) = Some ig;
           tenantId t \<in> set (ingesterTenants ig)\<rbrakk> \<Longrightarrow>
         \<exists>ig'. map_of (c_ingesters (V s1)) (refKey ref) = Some ig' \<and> released x sv (tenantId t) ig ig'"
proof (cases "statusIngester t")
  case None
  then have "setStatusIngester None t = t" by (simp add: setStatusIngester_def)
  then show thesis using that [of s] None wf by simp
next
  case (Some ref)
  have idem: "setStatusIngester None (setStatusIngester None t) = setStatusIngester None t"
    by (simp add: setStatusIngester_def)
  show thesis
  proof (cases "\<exists>ig. map_of (c_ingesters (V s)) (refKey ref) = Some ig \<and> tenantId t \<in> set (ingesterTenants ig)")
    case True
    then obtain ig where ig: "map_of (c_ingesters (V s)) (refKey ref) = Some ig"
      "tenantId t \<in> set (ingesterTenants ig)" by blast
    from removeTenant_releases [OF ok wf ig(1) [unfolded refKey_def] named [OF Some] ig(2)]
    obtain s1 ig' where "removeTenantFromIngesterbyName x cl (Some sv) t (oref_Namespace ref) (oref_Name ref) s =
        (Inr (setStatusIngester None t), s1)"
      and V: "V s1 = c_ingesters_update (alistUpdate (refKey ref) ig') (V s)"
      and rel: "released x sv (tenantId t) ig ig'" unfolding refKey_def by blast
    moreover have "storeWf (c_ingesters (V s1))"
      using storeWf_alistUpdate [OF wf, of ig' "refKey ref"] rel storeWf_get(1) [OF wf ig(1)]
      by (simp add: V released_def)
    ultimately show thesis
      by (intro that [of s1]) (use Some ig V in \<open>auto simp: idem\<close>)
  next
    case False
    then have "removeTenantFromIngesterbyName x cl (Some sv) t (oref_Namespace ref) (oref_Name ref) s =
        (Inr (setStatusIngester None t), s)"
      using removeTenant_absent [OF ok] by (metis refKey_def)
    then show thesis using that [of s] Some False wf by (auto simp: idem)
  qed
qed

text \<open>What the handler does for a tenant that is being deleted.\<close>

lemma ingester_released:
  assumes ok: "clientOk cl V" and cur: "map_of (c_tenants (V s)) (objectKey t) = Some t"
    and wf: "storeWf (c_ingesters (V s))"
    and named: "\<And>ref. statusIngester t = Some ref \<Longrightarrow> oref_Name ref \<noteq> []"
    and deleted: "om_DeletionTimestamp t \<noteq> None" and fin: "FinalizerIngester \<in> set (om_Finalizers t)"
  shows "\<exists>t' s'. Tenant_ingester x cl (Some sv) t s = (Inr t', s') \<and>
     om_Finalizers t' = removeString (om_Finalizers t) FinalizerIngester \<and>
     (om_Finalizers t' = [] \<longrightarrow> map_of (c_tenants (V s')) (objectKey t) = None) \<and>
     (\<forall>ref ig. statusIngester t = Some ref \<longrightarrow> map_of (c_ingesters (V s)) (refKey ref) = Some ig \<longrightarrow>
        tenantId t \<in> set (ingesterTenants ig) \<longrightarrow>
        (\<exists>ig'. map_of (c_ingesters (V s')) (refKey ref) = Some ig' \<and>
           ingesterTenants ig' = removeString (ingesterTenants ig) (tenantId t) \<and>
           (ingesterTenants ig' = [] \<longrightarrow>
              om_Annotations ig' LabelNameIngesterState = Some IngesterStateDeleting))) \<and>
     (\<forall>k ig. map_of (c_ingesters (V s')) k = Some ig \<longrightarrow>
        matchesOpts \<lparr>lo_Namespace = om_Namespace sv, lo_Labels = ManagedLabelByService sv\<rparr> ig \<longrightarrow>
        \<not> hasStatusOf (om_Name t) ig) \<and>
     (\<exists>rv igs. t' = t\<lparr>om_Finalizers := removeString (om_Finalizers t) FinalizerIngester, om_ResourceVersion := rv\<rparr> \<and>
        V s' = c_tenants_update (putObject t') (c_ingesters_update (\<lambda>_. igs) (V s)))"
proof -
  define opts where "opts = \<lparr>lo_Namespace = om_Namespace sv, lo_Labels = ManagedLabelByService sv\<rparr>"
  let ?t1 = "setStatusIngester None t"
  obtain s1 where s1: "(case statusIngester t of
        None \<Rightarrow> ret t
      | Some ref \<Rightarrow>
          bindE (removeTenantFromIngesterbyName x cl (Some sv) t (oref_Namespace ref) (oref_Name ref))
            (\<lambda>t'. ret (setStatusIngester None t'))) s = (Inr ?t1, s1)"
      "storeWf (c_ingesters (V s1))" "onlyIngesters (V s) (V s1)"
    and rel: "\<And>ref ig. \<lbrakk>statusIngester t = Some ref; map_of (c_ingesters (V s)) (refKey ref) = Some ig;
           tenantId t \<in> set (ingesterTenants ig)\<rbrakk> \<Longrightarrow>
         \<exists>ig'. map_of (c_ingesters (V s1)) (refKey ref) = Some ig' \<and> released x sv (tenantId t) ig ig'"
    by (rule releaseBinding [OF ok wf, of t x sv]) (use named in blast)+
  define items where "items = filter (matchesOpts opts) (map snd (c_ingesters (V s1)))"
  have keys: "distinct (map objectKey items)"
    unfolding items_def by (rule storeWf_distinct_listed [OF s1(2)])
  have mem: "ig \<in> set items \<longleftrightarrow> map_of (c_ingesters (V s1)) (objectKey ig) = Some ig \<and> matchesOpts opts ig" for ig
    unfolding items_def by (rule storeWf_listed [OF s1(2)])
  then have "\<forall>ig \<in> set items. map_of (c_ingesters (V s1)) (objectKey ig) = Some ig" by blast
  from dropAllStatus [OF ok keys this, of ?t1] obtain s2 where
    s2: "forE items (dropTenantStatus cl ?t1) s1 = (Inr (), s2)" "onlyIngesters (V s1) (V s2)"
    and cores: "\<And>k. map_option core (map_of (c_ingesters (V s2)) k) = map_option core (map_of (c_ingesters (V s1)) k)"
    and entries: "\<And>k ig. map_of (c_ingesters (V s2)) k = Some ig \<Longrightarrow>
        (k \<in> objectKey ` set items \<longrightarrow> \<not> hasStatusOf (om_Name t) ig) \<and>
        (k \<notin> objectKey ` set items \<longrightarrow> map_of (c_ingesters (V s1)) k = Some ig)"
    by auto
  have frame: "onlyIngesters (V s) (V s2)" by (rule onlyIngesters_trans [OF s1(3) s2(2)])
  then have "map_of (c_tenants (V s2)) (objectKey t) = Some t" using cur by (simp add: onlyIngesters_tenants)
  then obtain t' s3 where
    up: "kUpdate (tenants cl) (?t1\<lparr>om_Finalizers := removeString (om_Finalizers t) FinalizerIngester\<rparr>) s2 = (Inr t', s3)"
    and t': "t' = asStored t (om_ResourceVersion t') (keepTenant t
      (?t1\<lparr>om_Finalizers := removeString (om_Finalizers t) FinalizerIngester\<rparr>))"
    and V3: "V s3 = c_tenants_update (putObject t') (V s2)"
    using kindOk_update [OF clientOk_kinds(1) [OF ok], of s2
      "?t1\<lparr>om_Finalizers := removeString (om_Finalizers t) FinalizerIngester\<rparr>" t]
    by (auto simp: objectKey_def setStatusIngester_def)
  have t'_fields: "om_Finalizers t' = removeString (om_Finalizers t) FinalizerIngester"
      "om_DeletionTimestamp t' = om_DeletionTimestamp t" "objectKey t' = objectKey t"
    by (subst t', simp add: keepTenant_def objectKey_def)+
  have "Tenant_ingester x cl (Some sv) t s = (Inr t', s3)"
    using s1(1) s2(1) up deleted fin kindOk_list [OF clientOk_kinds(2) [OF ok], of opts s1]
    by (auto simp: Tenant_ingester_def ingesterRelease_def opts_def [symmetric] items_def)
  moreover have "om_Finalizers t' = [] \<longrightarrow> map_of (c_tenants (V s3)) (objectKey t) = None"
    using deleted by (simp add: V3 putObject_def t'_fields)
  moreover have "\<not> hasStatusOf (om_Name t) ig"
    if "map_of (c_ingesters (V s3)) k = Some ig" and "matchesOpts opts ig" for k ig
  proof -
    have k: "map_of (c_ingesters (V s2)) k = Some ig" using that(1) by (simp add: V3)
    show ?thesis
    proof (cases "k \<in> objectKey ` set items")
      case False
      then have "map_of (c_ingesters (V s1)) k = Some ig" using entries [OF k] by blast
      then have "ig \<in> set items" "objectKey ig = k"
        using that(2) storeWf_get(1) [OF s1(2)] by (auto simp: mem)
      then show ?thesis using False by blast
    qed (use entries [OF k] in blast)
  qed
  moreover have "\<exists>ig'. map_of (c_ingesters (V s3)) (refKey ref) = Some ig' \<and>
      ingesterTenants ig' = removeString (ingesterTenants ig) (tenantId t) \<and>
      (ingesterTenants ig' = [] \<longrightarrow> om_Annotations ig' LabelNameIngesterState = Some IngesterStateDeleting)"
    if "statusIngester t = Some ref" "map_of (c_ingesters (V s)) (refKey ref) = Some ig"
      "tenantId t \<in> set (ingesterTenants ig)" for ref ig
    using rel [OF that] cores [of "refKey ref"] by (auto simp: V3 core_def released_def)
  moreover have "\<exists>rv igs. t' = t\<lparr>om_Finalizers := removeString (om_Finalizers t) FinalizerIngester, om_ResourceVersion := rv\<rparr> \<and>
      V s3 = c_tenants_update (putObject t') (c_ingesters_update (\<lambda>_. igs) (V s))"
  proof (intro exI conjI)
    show "t' = t\<lparr>om_Finalizers := removeString (om_Finalizers t) FinalizerIngester, om_ResourceVersion := om_ResourceVersion t'\<rparr>"
      by (rule trans [OF t']) (simp add: asStored_def keepTenant_def setStatusIngester_def)
    show "V s3 = c_tenants_update (putObject t') (c_ingesters_update (\<lambda>_. c_ingesters (V s2)) (V s))"
      using frame by (auto simp: V3 onlyIngesters_def)
  qed
  ultimately show ?thesis using t'_fields(1) unfolding opts_def by blast
qed

section \<open>Properties of the handler\<close>

text \<open>
  C10: a shared tenant is bound after one reconciliation, or after two when its old binding
  does not fit.  For a tenant as stored, with its finalizer, with a service label of two parts,
  in a ready cluster: the handler succeeds; then either its status names a stored ingester that
  lists it and carries its service and storage, and no reset is due, or the status has been
  cleared and the next run of the handler binds it.  The run that binds changes no other ingester: one
  ingester at most gets the tenant appended, and never beyond the configured number of tenants.  (The run that
  clears the status may take the tenant out of its old ingester.)
\<close>

theorem Tenant_ingester_binds_shared:
  assumes ok: "clientOk cl V" and range: "rangeOrder (x_rangeIngesters x)"
    and cur: "map_of (c_tenants (V s)) (objectKey t) = Some t"
    and alive: "om_DeletionTimestamp t = None" and fin: "FinalizerIngester \<in> set (om_Finalizers t)"
    and label: "serviceLabelOk t" and shared: "\<not> labelTrue (om_Labels t) ExclusiveLabelKey"
    and ready: "sharedReady (Some sv) t (V s)"
    and named: "\<And>ref. statusIngester t = Some ref \<Longrightarrow> oref_Name ref \<noteq> []"
  shows "\<exists>t1 s1. Tenant_ingester x cl (Some sv) t s = (Inr t1, s1) \<and>
     (ingesterBound (Some sv) t1 (V s1) \<and> appended sv t (c_ingesters (V s)) (c_ingesters (V s1)) \<and>
        needResetIngester cl (Some sv) t1 s1 = (Inr False, s1) \<or>
      (\<exists>t2 s2. statusIngester t1 = None \<and> Tenant_ingester x cl (Some sv) t1 s1 = (Inr t2, s2) \<and>
        ingesterBound (Some sv) t2 (V s2) \<and> appended sv t1 (c_ingesters (V s1)) (c_ingesters (V s2)) \<and>
        needResetIngester cl (Some sv) t2 s2 = (Inr False, s2)))"
proof -
  have no_reset: "needResetIngester cl (Some sv) t' s' = (Inr False, s')"
    if "ingesterBound (Some sv) t' (V s')" for t' s'
    using that ib.needReset_fits [OF clientOk_kinds(2) [OF ok]] unfolding ingesterBound_def by metis
  have bind: "\<exists>t2 s2. Tenant_ingester x cl (Some sv) t' s' = (Inr t2, s2) \<and>
      ingesterBound (Some sv) t2 (V s2) \<and> appended sv t' (c_ingesters (V s')) (c_ingesters (V s2)) \<and>
      needResetIngester cl (Some sv) t2 s2 = (Inr False, s2)"
    if "needResetIngester cl (Some sv) t' s' = (Inr False, s')"
      and "map_of (c_tenants (V s')) (objectKey t') = Some t'" and "sharedReady (Some sv) t' (V s')"
      and "om_Labels t' = om_Labels t" and "om_Finalizers t' = om_Finalizers t"
      and "om_DeletionTimestamp t' = om_DeletionTimestamp t" for t' s'
  proof -
    have lbl: "serviceLabelOk t'" "\<not> labelTrue (om_Labels t') ExclusiveLabelKey"
      using label shared that(4) by (simp_all add: serviceLabelOk_def)
    have "Tenant_ingester x cl (Some sv) t' s' = ingesterAllocate x cl (Some sv) t' s'"
      using that alive fin lbl serviceLabelOk_nonempty [OF lbl(1)]
      by (auto simp: Tenant_ingester_def ingesterBind_def mget_def)
    with ingesterAllocate_binds [OF ok range that(2) lbl that(3)] no_reset show ?thesis by metis
  qed
  show ?thesis
  proof (cases "mustReset ingesterTenants (Some sv) t (statusIngester t) (c_ingesters (V s))")
    case False
    then have "needResetIngester cl (Some sv) t s = (Inr False, s)"
      using ib.needReset_law [OF clientOk_kinds(2) [OF ok]] by simp
    from bind [OF this cur ready] show ?thesis by blast
  next
    case True
    then have need: "needResetIngester cl (Some sv) t s = (Inr True, s)"
      using ib.needReset_law [OF clientOk_kinds(2) [OF ok]] by simp
    from True obtain ref where ref: "statusIngester t = Some ref"
      by (auto simp: mustReset_def split: option.splits)
    obtain t1 s1 where run: "bindE (removeTenantFromIngesterbyName x cl (Some sv) t (oref_Namespace ref) (oref_Name ref))
        (kStatusUpdate (tenants cl)) s = (Inr t1, s1)"
      and t1: "map_of (c_tenants (V s1)) (objectKey t1) = Some t1" "sharedReady (Some sv) t1 (V s1)"
        "statusIngester t1 = None" "om_Labels t1 = om_Labels t" "om_Finalizers t1 = om_Finalizers t"
        "om_DeletionTimestamp t1 = om_DeletionTimestamp t"
      by (rule reset_ready [OF ok cur ready named [OF ref]])
    have "Tenant_ingester x cl (Some sv) t s = (Inr t1, s1)"
      using need ref run alive fin by (simp add: Tenant_ingester_def ingesterBind_def)
    with bind [OF ib.needReset_unbound [OF clientOk_kinds(2) [OF ok] t1(3)] t1(1,2,4,5,6)] t1(3)
    show ?thesis by blast
  qed
qed

theorem Tenant_ingester_binds_shared_witness:
  "let t = exTenant ''t1'' Map.empty; s = exCluster [t] [] [] in
   \<exists>t1 s1. Tenant_ingester exExt memClient (Some exService) t s = (Inr t1, s1) \<and>
     (ingesterBound (Some exService) t1 s1 \<and> appended exService t (c_ingesters s) (c_ingesters s1) \<and>
        needResetIngester memClient (Some exService) t1 s1 = (Inr False, s1) \<or>
      (\<exists>t2 s2. statusIngester t1 = None \<and>
        Tenant_ingester exExt memClient (Some exService) t1 s1 = (Inr t2, s2) \<and>
        ingesterBound (Some exService) t2 s2 \<and> appended exService t1 (c_ingesters s1) (c_ingesters s2) \<and>
        needResetIngester memClient (Some exService) t2 s2 = (Inr False, s2)))"
  unfolding Let_def
  by (rule Tenant_ingester_binds_shared [OF memClient_ok])
    (simp_all add: ex_defs zero_defs rangeOrder_id serviceLabelOk_def labelTrue_def
      sharedReady_def storeWf_def mget_def)

text \<open>
  An exclusive tenant whose binding fits, or that has none, gets the ingester of its own
  name, whatever the cluster held under that name: it exists, lists the tenant alone, carries
  the tenant's service, storage and the exclusive mark, and no reset is due.
\<close>

theorem Tenant_ingester_binds_exclusive:
  assumes ok: "clientOk cl V" and cur: "map_of (c_tenants (V s)) (objectKey t) = Some t"
    and wf: "storeWf (c_ingesters (V s))" and named: "om_Name t \<noteq> []"
    and alive: "om_DeletionTimestamp t = None" and fin: "FinalizerIngester \<in> set (om_Finalizers t)"
    and label: "serviceLabel t \<noteq> []" and exclusive: "labelTrue (om_Labels t) ExclusiveLabelKey"
    and fits: "\<not> mustReset ingesterTenants svc t (statusIngester t) (c_ingesters (V s))"
  shows "\<exists>t' s' ig. Tenant_ingester x cl svc t s = (Inr t', s') \<and> ingesterBound svc t' (V s') \<and>
     statusIngester t' = Some \<lparr>oref_Namespace = serviceNs t, oref_Name = om_Name t\<rparr> \<and>
     c_ingesters (V s') = alistUpdate \<lparr>nn_Namespace = serviceNs t, nn_Name = om_Name t\<rparr> ig (c_ingesters (V s)) \<and>
     ingesterTenants ig = [tenantId t] \<and> needResetIngester cl svc t' s' = (Inr False, s')"
proof -
  let ?d = "createIngesterInstance svc (om_Name t) t True"
  have "needResetIngester cl svc t s = (Inr False, s)"
    using ib.needReset_law [OF clientOk_kinds(2) [OF ok]] fits by simp
  then have run: "Tenant_ingester x cl svc t s = bindTenantTo cl t ?d s"
    using alive fin label exclusive by (auto simp: Tenant_ingester_def ingesterBind_def mget_def)
  obtain t' s' ig where b: "bindTenantTo cl t ?d s = (Inr t', s')" "ingesterBound svc t' (V s')"
      "statusIngester t' = Some (refTo ?d)" "ig_Spec ig = ig_Spec ?d"
      "c_ingesters (V s') = alistUpdate (objectKey ?d) ig (c_ingesters (V s))"
    using bindTenantTo_binds [OF ok cur wf, of ?d svc] named fits_exclusive [OF exclusive] by auto
  moreover have "needResetIngester cl svc t' s' = (Inr False, s')"
    using b(2) ib.needReset_fits [OF clientOk_kinds(2) [OF ok]] unfolding ingesterBound_def by metis
  ultimately show ?thesis
    by (intro exI [of _ t'] exI [of _ s'] exI [of _ ig]) (simp add: run refTo_def objectKey_def)
qed

theorem Tenant_ingester_binds_exclusive_witness:
  "let t = exTenant ''t1'' [ExclusiveLabelKey \<mapsto> ''true'']; s = exCluster [t] [] [] in
   \<exists>t' s' ig. Tenant_ingester exExt memClient (Some exService) t s = (Inr t', s') \<and>
     ingesterBound (Some exService) t' s' \<and>
     statusIngester t' = Some \<lparr>oref_Namespace = serviceNs t, oref_Name = om_Name t\<rparr> \<and>
     c_ingesters s' = alistUpdate \<lparr>nn_Namespace = serviceNs t, nn_Name = om_Name t\<rparr> ig (c_ingesters s) \<and>
     ingesterTenants ig = [tenantId t] \<and>
     needResetIngester memClient (Some exService) t' s' = (Inr False, s')"
  unfolding Let_def
  by (rule Tenant_ingester_binds_exclusive [OF memClient_ok])
    (simp_all add: ex_defs zero_defs labelTrue_def storeWf_def mget_def mustReset_def)

text \<open>
  Deleting a tenant detaches it.  The handler succeeds, takes its finalizer off (the tenant
  is gone when that was the last one), takes the tenant out of the ingester its status names,
  marks that ingester as deleting when no tenant is left, and no ingester of the service keeps
  a status entry under the tenant's name.
\<close>

theorem Tenant_ingester_releases:
  assumes ok: "clientOk cl V" and cur: "map_of (c_tenants (V s)) (objectKey t) = Some t"
    and wf: "storeWf (c_ingesters (V s))"
    and named: "\<And>ref. statusIngester t = Some ref \<Longrightarrow> oref_Name ref \<noteq> []"
    and deleted: "om_DeletionTimestamp t \<noteq> None" and fin: "FinalizerIngester \<in> set (om_Finalizers t)"
  shows "\<exists>t' s'. Tenant_ingester x cl (Some sv) t s = (Inr t', s') \<and>
     om_Finalizers t' = removeString (om_Finalizers t) FinalizerIngester \<and>
     (om_Finalizers t' = [] \<longrightarrow> map_of (c_tenants (V s')) (objectKey t) = None) \<and>
     (\<forall>ref ig. statusIngester t = Some ref \<longrightarrow> map_of (c_ingesters (V s)) (refKey ref) = Some ig \<longrightarrow>
        tenantId t \<in> set (ingesterTenants ig) \<longrightarrow>
        (\<exists>ig'. map_of (c_ingesters (V s')) (refKey ref) = Some ig' \<and>
           ingesterTenants ig' = removeString (ingesterTenants ig) (tenantId t) \<and>
           (ingesterTenants ig' = [] \<longrightarrow>
              om_Annotations ig' LabelNameIngesterState = Some IngesterStateDeleting))) \<and>
     (\<forall>k ig. map_of (c_ingesters (V s')) k = Some ig \<longrightarrow>
        matchesOpts \<lparr>lo_Namespace = om_Namespace sv, lo_Labels = ManagedLabelByService sv\<rparr> ig \<longrightarrow>
        \<not> hasStatusOf (om_Name t) ig)"
  using ingester_released [OF assms] by blast

theorem Tenant_ingester_releases_witness:
  "let ig = zeroIngester\<lparr>om_Namespace := ''ns'', om_Name := ''svc-s3-auto-0'',
         ig_Spec := zeroIngesterSpec\<lparr>ig_Tenants := [''t1'']\<rparr>\<rparr>;
       t = (exTenant ''t1'' Map.empty)\<lparr>om_DeletionTimestamp := Some 5, tn_Status :=
         \<lparr>tst_Ruler = None, tst_Compactor = None, tst_Ingester = Some (refTo ig)\<rparr>\<rparr>;
       s = exCluster [t] [ig] []
   in \<exists>t' s'. Tenant_ingester exExt memClient (Some exService) t s = (Inr t', s') \<and>
        (\<exists>ig'. map_of (c_ingesters s') (objectKey ig) = Some ig' \<and> ingesterTenants ig' = [] \<and>
           om_Annotations ig' LabelNameIngesterState = Some IngesterStateDeleting)"
proof -
  define ig where "ig = zeroIngester\<lparr>om_Namespace := ''ns'', om_Name := ''svc-s3-auto-0'',
    ig_Spec := zeroIngesterSpec\<lparr>ig_Tenants := [''t1'']\<rparr>\<rparr>"
  define t where "t = (exTenant ''t1'' Map.empty)\<lparr>om_DeletionTimestamp := Some 5, tn_Status :=
    \<lparr>tst_Ruler = None, tst_Compactor = None, tst_Ingester = Some (refTo ig)\<rparr>\<rparr>"
  define s where "s = exCluster [t] [ig] []"
  have st: "statusIngester t = Some (refTo ig)" by (simp add: t_def)
  have ig: "map_of (c_ingesters s) (refKey (refTo ig)) = Some ig" by (simp add: s_def exCluster_def)
  have m: "tenantId t \<in> set (ingesterTenants ig)" "removeString (ingesterTenants ig) (tenantId t) = []"
    by (simp_all add: t_def ig_def exTenant_def)
  obtain t' s' where run: "Tenant_ingester exExt memClient (Some exService) t s = (Inr t', s')"
    and rel: "\<forall>ref ig. statusIngester t = Some ref \<longrightarrow> map_of (c_ingesters s) (refKey ref) = Some ig \<longrightarrow>
        tenantId t \<in> set (ingesterTenants ig) \<longrightarrow>
        (\<exists>ig'. map_of (c_ingesters s') (refKey ref) = Some ig' \<and>
           ingesterTenants ig' = removeString (ingesterTenants ig) (tenantId t) \<and>
           (ingesterTenants ig' = [] \<longrightarrow>
              om_Annotations ig' LabelNameIngesterState = Some IngesterStateDeleting))"
    using Tenant_ingester_releases [OF memClient_ok, of s t exExt exService]
    by (auto simp: s_def storeWf_def exCluster_def ig_def t_def exTenant_def refTo_def zero_defs)
  from rel [rule_format, OF st ig m(1)] run show ?thesis
    unfolding Let_def ig_def [symmetric] t_def [symmetric] s_def [symmetric] by (auto simp: m(2))
qed

end
