(* ===== verification/Tenant_Compactor.thy ===== *)
theory Tenant_Compactor
  imports Tenant_Ingester
begin

text \<open>
  The compactor half of the tenant controller
  (\<^verbatim>\<open>pkg/controllers/resources/tenant/compactor.go\<close>): a tenant with object storage is
  bound to one compactor of its service and storage; a compactor that loses its last tenant is
  deleted.
\<close>

section \<open>Operations\<close>

abbreviation statusCompactor :: "tenant \<Rightarrow> object_reference option" where
  "statusCompactor t \<equiv> tst_Compactor (tn_Status t)"

abbreviation compactorTenants :: "compactor \<Rightarrow> string list" where
  "compactorTenants cp \<equiv> cp_Tenants (cp_Spec cp)"

definition setStatusCompactor :: "object_reference option \<Rightarrow> tenant \<Rightarrow> tenant" where
  "setStatusCompactor r t = t\<lparr>tn_Status := (tn_Status t)\<lparr>tst_Compactor := r\<rparr>\<rparr>"

definition needResetCompactor :: "'s client \<Rightarrow> service option \<Rightarrow> tenant \<Rightarrow> ('s, bool) act" where
  "needResetCompactor cl svc t =
     (case statusCompactor t of
        None \<Rightarrow> ret False
      | Some ref \<Rightarrow>
          handleE (kGet (compactors cl) (refKey ref)) (\<lambda>r. case r of
              Inl e \<Rightarrow> if e = ApiNotFound then ret True else failE e
            | Inr cp \<Rightarrow>
                if \<not> containsString (compactorTenants cp) (tenantId t) then ret True
                else if om_Labels cp ServiceLabelKey = None \<or>
                        mget (om_Labels cp) ServiceLabelKey \<noteq> serviceLabel t then ret True
                else if om_Labels cp StorageLabelKey = None \<or>
                        mget (om_Labels cp) StorageLabelKey \<noteq> storageOf svc t then ret True
                else if labelTrue (om_Labels t) ExclusiveLabelKey then
                  ret (\<not> labelTrue (om_Labels cp) ExclusiveLabelKey \<or> om_Name cp \<noteq> om_Name t)
                else
                  ret (labelTrue (om_Labels cp) ExclusiveLabelKey \<and> om_Name cp = om_Name t)))"

text \<open>The parts of both names are taken by index: a label without a dot panics.\<close>

definition createCompactorInstance :: "service option \<Rightarrow> tenant \<Rightarrow> compactor res" where
  "createCompactorInstance svc t =
     (let storage = storageOf svc t;
          label = [ServiceLabelKey \<mapsto> serviceLabel t, StorageLabelKey \<mapsto> storage];
          serviceNamespacedName = splitOn CHR ''.'' (serviceLabel t);
          storageNamespacedName = splitOn CHR ''.'' storage
      in bindR (idx serviceNamespacedName 1) (\<lambda>serviceName.
         bindR (idx storageNamespacedName 1) (\<lambda>storageName.
         Inr (zeroCompactor\<lparr>
           om_GenerateName := serviceName @ ''-'' @ storageName @ ''-'',
           om_Namespace := hd serviceNamespacedName, om_Labels := label,
           cp_Spec := zeroCompactorSpec\<lparr>cp_Tenants := [tenantId t]\<rparr>\<rparr>))))"

definition createExclusiveCompactorInstance :: "service option \<Rightarrow> tenant \<Rightarrow> compactor" where
  "createExclusiveCompactorInstance svc t =
     zeroCompactor\<lparr>om_Name := om_Name t, om_Namespace := hd (splitOn CHR ''.'' (serviceLabel t)),
       om_Labels := [ServiceLabelKey \<mapsto> serviceLabel t, StorageLabelKey \<mapsto> storageOf svc t,
         ExclusiveLabelKey \<mapsto> ''true''],
       cp_Spec := zeroCompactorSpec\<lparr>cp_Tenants := [tenantId t]\<rparr>\<rparr>"

definition removeTenantFromCompactorByName ::
    "'s client \<Rightarrow> tenant \<Rightarrow> string \<Rightarrow> string \<Rightarrow> ('s, tenant) act" where
  "removeTenantFromCompactorByName cl t namespace name =
     (let t1 = setStatusCompactor None t in
      handleE (kGet (compactors cl) \<lparr>nn_Namespace = namespace, nn_Name = name\<rparr>) (\<lambda>r. case r of
          Inl e \<Rightarrow> (case IgnoreNotFound (Some e) of None \<Rightarrow> ret t1 | Some e' \<Rightarrow> failE e')
        | Inr cp \<Rightarrow>
            (let cp1 = (if containsString (compactorTenants cp) (tenantId t)
                        then cp\<lparr>cp_Spec := (cp_Spec cp)\<lparr>
                          cp_Tenants := removeString (compactorTenants cp) (tenantId t)\<rparr>\<rparr>
                        else cp)
             in bindE (if compactorTenants cp1 = []
                       then ignoringNotFound (kDelete (compactors cl) cp1)
                       else CreateOrUpdate (compactors cl) cp1) (\<lambda>_. ret t1))))"

text \<open>
  The first compactor of the list with room.  The tenant is appended to it by the name of the
  Tenant object, where every other place uses \<^verbatim>\<open>Spec.Tenant\<close>.
\<close>

fun compactorWithRoom :: "service option \<Rightarrow> tenant \<Rightarrow> compactor list \<Rightarrow> compactor option res" where
  "compactorWithRoom svc t [] = Inr None"
| "compactorWithRoom svc t (item # items) =
     bindR (serviceSpec svc) (\<lambda>sp.
       if int (length (compactorTenants item))
          < cpt_DefaultTenantsPerCompactor (sv_CompactorTemplateSpec sp)
       then Inr (Some (item\<lparr>cp_Spec := (cp_Spec item)\<lparr>
              cp_Tenants := compactorTenants item @ [om_Name t]\<rparr>\<rparr>))
       else compactorWithRoom svc t items)"

text \<open>The status is set to the name the compactor has before it is created.\<close>

definition compactorAllocate :: "'s client \<Rightarrow> service option \<Rightarrow> tenant \<Rightarrow> ('s, tenant) act" where
  "compactorAllocate cl svc t =
     (let ls = [ServiceLabelKey \<mapsto> serviceLabel t, StorageLabelKey \<mapsto> storageOf svc t] in
      bindE (kList (compactors cl)
        \<lparr>lo_Namespace = hd (splitOn CHR ''.'' (serviceLabel t)), lo_Labels = ls\<rparr>) (\<lambda>items.
      case find (\<lambda>item. containsString (compactorTenants item) (tenantId t)) items of
        Some item \<Rightarrow> kStatusUpdate (tenants cl) (setStatusCompactor (Some (refTo item)) t)
      | None \<Rightarrow>
          bindE (liftE (compactorWithRoom svc t items)) (\<lambda>room.
          bindE (case room of Some cp \<Rightarrow> ret cp | None \<Rightarrow> liftE (createCompactorInstance svc t)) (\<lambda>cp.
          let t1 = setStatusCompactor (Some (refTo cp)) t in
          bindE (CreateOrUpdate (compactors cl) cp) (\<lambda>_. kStatusUpdate (tenants cl) t1)))))"

definition compactorBind :: "'s client \<Rightarrow> service option \<Rightarrow> tenant \<Rightarrow> ('s, tenant) act" where
  "compactorBind cl svc t =
     bindE (needResetCompactor cl svc t) (\<lambda>need.
       if need then
         (case statusCompactor t of
            None \<Rightarrow> failE Panic
          | Some ref \<Rightarrow>
              bindE (removeTenantFromCompactorByName cl t (oref_Namespace ref) (oref_Name ref))
                (\<lambda>t1. kStatusUpdate (tenants cl) t1))
       else if om_Labels t ServiceLabelKey = None \<or> serviceLabel t = [] then
         (case statusCompactor t of
            None \<Rightarrow> ret t
          | Some ref \<Rightarrow>
              bindE (removeTenantFromCompactorByName cl t (oref_Namespace ref) (oref_Name ref))
                (\<lambda>t1. kStatusUpdate (tenants cl) t1))
       else if storageOf svc t = LocalStorage then ret t
       else if labelTrue (om_Labels t) ExclusiveLabelKey then
         (let cp = createExclusiveCompactorInstance svc t in
          bindE (CreateOrUpdate (compactors cl) cp) (\<lambda>_.
            kStatusUpdate (tenants cl) (setStatusCompactor (Some (refTo cp)) t)))
       else compactorAllocate cl svc t)"

definition compactorRelease :: "'s client \<Rightarrow> tenant \<Rightarrow> ('s, tenant) act" where
  "compactorRelease cl t =
     bindE (case statusCompactor t of
              None \<Rightarrow> ret t
            | Some ref \<Rightarrow>
                bindE (removeTenantFromCompactorByName cl t (oref_Namespace ref) (oref_Name ref))
                  (\<lambda>t'. ret (setStatusCompactor None t'))) (\<lambda>t1.
     kUpdate (tenants cl) (t1\<lparr>om_Finalizers := removeString (om_Finalizers t1) FinalizerCompactor\<rparr>))"

definition Tenant_compactor :: "'s client \<Rightarrow> service option \<Rightarrow> tenant \<Rightarrow> ('s, tenant) act" where
  "Tenant_compactor cl svc t =
     (if om_DeletionTimestamp t = None then
        (if \<not> containsString (om_Finalizers t) FinalizerCompactor
         then kUpdate (tenants cl) (t\<lparr>om_Finalizers := om_Finalizers t @ [FinalizerCompactor]\<rparr>)
         else compactorBind cl svc t)
      else
        (if containsString (om_Finalizers t) FinalizerCompactor
         then compactorRelease cl t
         else compactorBind cl svc t))"

section \<open>The test for a reset\<close>

interpretation cb: tenant_binding compactorTenants needResetCompactor statusCompactor
    compactors c_compactors c_compactors_update keepNone
proof
  fix cl :: "'s client" and V svc t s
  assume ok: "kindOk (compactors cl) V c_compactors c_compactors_update keepNone"
  show "needResetCompactor cl svc t s =
      (Inr (mustReset compactorTenants svc t (statusCompactor t) (c_compactors (V s))), s)"
    by (auto simp: needResetCompactor_def mustReset_def boundTo_def handleE_case kindOk_get [OF ok]
        mget_def labelTrue_def split: option.splits)
qed

lemma cp_Spec_meta [simp]:
  "cp_Spec (asStored old rv cp) = cp_Spec cp" "cp_Spec (mergeMetadata cp c) = cp_Spec cp"
  by (simp_all add: asStored_def mergeMetadata_def)

interpretation ck: saved_kind cp_Spec keepNone c_compactors c_compactors_update
proof
  fix f :: "compactor kstore \<Rightarrow> compactor kstore" and c
  show "f (c_compactors c) = c_compactors c \<Longrightarrow> c_compactors_update f c = c" by (cases c) simp
qed (simp_all add: keepNone_def)

lemmas saveCompactor = ck.save [OF clientOk_kinds(3)]

lemma setStatusCompactor_simps [simp]:
  "objectKey (setStatusCompactor r t) = objectKey t"
  "om_Labels (setStatusCompactor r t) = om_Labels t"
  "om_Name (setStatusCompactor r t) = om_Name t"
  "om_Finalizers (setStatusCompactor r t) = om_Finalizers t"
  "om_DeletionTimestamp (setStatusCompactor r t) = om_DeletionTimestamp t"
  "tn_Spec (setStatusCompactor r t) = tn_Spec t"
  "statusCompactor (setStatusCompactor r t) = r"
  by (simp_all add: setStatusCompactor_def objectKey_def)

lemma writeStatusCompactor:
  assumes ok: "clientOk cl V" and cur: "map_of (c_tenants (V s)) (objectKey t) = Some t"
  obtains rv s' where "kStatusUpdate (tenants cl) (setStatusCompactor r t) s =
      (Inr ((setStatusCompactor r t)\<lparr>om_ResourceVersion := rv\<rparr>), s')"
    and "V s' = c_tenants_update (alistUpdate (objectKey t)
      ((setStatusCompactor r t)\<lparr>om_ResourceVersion := rv\<rparr>)) (V s)"
  using writeStatus [OF ok cur] that unfolding setStatusCompactor_def by metis

section \<open>Binding\<close>

definition compactorBound :: "service option \<Rightarrow> tenant \<Rightarrow> cluster \<Rightarrow> bool" where
  "compactorBound svc t c \<longleftrightarrow>
     map_of (c_tenants c) (objectKey t) = Some t \<and>
     (\<exists>ref cp. statusCompactor t = Some ref \<and> map_of (c_compactors c) (refKey ref) = Some cp \<and>
        boundTo compactorTenants svc t cp)"

text \<open>
  The cluster is ready for a shared tenant: every compactor has a name, none is being deleted,
  and none is a left-over exclusive compactor of this tenant.
\<close>

definition compactorsReady :: "tenant \<Rightarrow> cluster \<Rightarrow> bool" where
  "compactorsReady t c \<longleftrightarrow> storeWf (c_compactors c) \<and>
     (\<forall>cp \<in> snd ` set (c_compactors c). om_Name cp \<noteq> [] \<and>
        \<not> (labelTrue (om_Labels cp) ExclusiveLabelKey \<and> om_Name cp = om_Name t))"

lemma compactorsReady_wf: "compactorsReady t c \<Longrightarrow> storeWf (c_compactors c)"
  by (simp add: compactorsReady_def)

lemma compactorsReady_get:
  "\<lbrakk>compactorsReady t c; map_of (c_compactors c) k = Some cp\<rbrakk> \<Longrightarrow> om_Name cp \<noteq> [] \<and>
     \<not> (labelTrue (om_Labels cp) ExclusiveLabelKey \<and> om_Name cp = om_Name t)"
  by (fastforce simp: compactorsReady_def dest: map_of_SomeD)

definition sharedTenant :: "service option \<Rightarrow> tenant \<Rightarrow> bool" where
  "sharedTenant svc t \<longleftrightarrow> om_DeletionTimestamp t = None \<and> FinalizerCompactor \<in> set (om_Finalizers t) \<and>
     serviceLabelOk t \<and> storageOf svc t \<noteq> LocalStorage \<and> \<not> labelTrue (om_Labels t) ExclusiveLabelKey"

definition listOpts :: "service option \<Rightarrow> tenant \<Rightarrow> list_options" where
  "listOpts svc t = \<lparr>lo_Namespace = serviceNs t, lo_Labels =
     [ServiceLabelKey \<mapsto> serviceLabel t, StorageLabelKey \<mapsto> storageOf svc t]\<rparr>"

definition listedCompactors :: "service option \<Rightarrow> tenant \<Rightarrow> cluster \<Rightarrow> compactor list" where
  "listedCompactors svc t c = filter (matchesOpts (listOpts svc t)) (map snd (c_compactors c))"

lemma listedCompactors_iff:
  "compactorsReady t c \<Longrightarrow> cp \<in> set (listedCompactors svc t c) \<longleftrightarrow>
     map_of (c_compactors c) (objectKey cp) = Some cp \<and> matchesOpts (listOpts svc t) cp"
  unfolding listedCompactors_def by (rule storeWf_listed [OF compactorsReady_wf])

lemma matches_listOpts:
  "matchesOpts (listOpts svc t) cp \<Longrightarrow>
     om_Labels cp ServiceLabelKey = Some (serviceLabel t) \<and>
     om_Labels cp StorageLabelKey = Some (storageOf svc t)"
  by (auto simp: matchesOpts_def listOpts_def map_le_def split: if_splits)

lemma Tenant_compactor_allocates:
  assumes ok: "clientOk cl V" and t: "sharedTenant svc t"
    and fits: "\<not> mustReset compactorTenants svc t (statusCompactor t) (c_compactors (V s))"
  shows "Tenant_compactor cl svc t s = compactorAllocate cl svc t s"
proof -
  have "needResetCompactor cl svc t s = (Inr False, s)"
    using cb.needReset_law [OF clientOk_kinds(3) [OF ok]] fits by simp
  then show ?thesis
    using t serviceLabelOk_nonempty [of t]
    by (auto simp: sharedTenant_def Tenant_compactor_def compactorBind_def mget_def)
qed

text \<open>
  What a run of the handler that does not touch finalizers may change: the tenant's reference to its
  compactor, and compactors.
\<close>

definition compactorStep :: "tenant \<Rightarrow> tenant \<Rightarrow> cluster \<Rightarrow> cluster \<Rightarrow> bool" where
  "compactorStep t t' c c' \<longleftrightarrow> (\<exists>r rv cps. t' = (setStatusCompactor r t)\<lparr>om_ResourceVersion := rv\<rparr> \<and>
     c' = c\<lparr>c_tenants := alistUpdate (objectKey t) t' (c_tenants c), c_compactors := cps\<rparr>)"

lemma compactorStepI:
  "\<lbrakk>t' = (setStatusCompactor r t)\<lparr>om_ResourceVersion := rv\<rparr>; V = c_compactors_update f c;
    c' = c_tenants_update (alistUpdate (objectKey t) t') V\<rbrakk> \<Longrightarrow> compactorStep t t' c c'"
  unfolding compactorStep_def
  by (intro exI [of _ r] exI [of _ rv] exI [of _ "f (c_compactors c)"]) simp

lemma writeStatus_bindsCompactor:
  assumes ok: "clientOk cl V" and cur: "map_of (c_tenants (V s)) (objectKey t) = Some t"
    and stored: "map_of (c_compactors (V s)) (objectKey d) = Some cp"
    and fits: "boundTo compactorTenants svc t cp"
  shows "\<exists>t' s'. kStatusUpdate (tenants cl) (setStatusCompactor (Some (refTo d)) t) s = (Inr t', s') \<and>
     c_compactors (V s') = c_compactors (V s) \<and> compactorBound svc t' (V s') \<and>
     (\<forall>f c. V s = c_compactors_update f c \<longrightarrow> compactorStep t t' c (V s'))"
proof -
  let ?t = "setStatusCompactor (Some (refTo d)) t"
  obtain rv s' where run: "kStatusUpdate (tenants cl) ?t s = (Inr (?t\<lparr>om_ResourceVersion := rv\<rparr>), s')"
    and V: "V s' = c_tenants_update (alistUpdate (objectKey t) (?t\<lparr>om_ResourceVersion := rv\<rparr>)) (V s)"
    by (rule writeStatusCompactor [OF ok cur])
  have "boundTo compactorTenants svc (?t\<lparr>om_ResourceVersion := rv\<rparr>) cp"
    using fits by (subst boundTo_more) simp_all
  then have "compactorBound svc (?t\<lparr>om_ResourceVersion := rv\<rparr>) (V s')"
    using stored by (auto simp: compactorBound_def V)
  moreover have "compactorStep t (?t\<lparr>om_ResourceVersion := rv\<rparr>) c (V s')" if "V s = c_compactors_update f c" for f c
    by (rule compactorStepI [OF refl that]) (simp add: V)
  ultimately show ?thesis using run V by auto
qed

text \<open>The loop takes the first compactor of the list that has room.\<close>

abbreviation compactorCapacity :: "service \<Rightarrow> int" where
  "compactorCapacity sv \<equiv> cpt_DefaultTenantsPerCompactor (sv_CompactorTemplateSpec (sv_Spec sv))"

definition hasRoom :: "service \<Rightarrow> compactor \<Rightarrow> bool" where
  "hasRoom sv cp \<longleftrightarrow> int (length (compactorTenants cp)) < compactorCapacity sv"

definition withName :: "tenant \<Rightarrow> compactor \<Rightarrow> compactor" where
  "withName t cp = cp\<lparr>cp_Spec := (cp_Spec cp)\<lparr>cp_Tenants := compactorTenants cp @ [om_Name t]\<rparr>\<rparr>"

lemma withName_simps [simp]:
  "om_Name (withName t cp) = om_Name cp" "objectKey (withName t cp) = objectKey cp"
  "om_Labels (withName t cp) = om_Labels cp" "om_DeletionTimestamp (withName t cp) = om_DeletionTimestamp cp"
  "compactorTenants (withName t cp) = compactorTenants cp @ [om_Name t]"
  by (simp_all add: withName_def objectKey_def)

lemma compactorWithRoom_find:
  "compactorWithRoom (Some sv) t items = Inr (map_option (withName t) (find (hasRoom sv) items))"
  by (induction items) (simp_all add: serviceSpec_def hasRoom_def withName_def)

text \<open>An existing compactor with room gets the name of the tenant and the tenant refers to it.\<close>

lemma allocate_room:
  assumes ok: "clientOk cl V" and cur: "map_of (c_tenants (V s)) (objectKey t) = Some t"
    and ready: "compactorsReady t (V s)"
    and none: "\<forall>cp \<in> set (listedCompactors (Some sv) t (V s)). tenantId t \<notin> set (compactorTenants cp)"
    and room: "find (hasRoom sv) (listedCompactors (Some sv) t (V s)) = Some cp"
  obtains cp' s1 where "compactorAllocate cl (Some sv) t s =
      kStatusUpdate (tenants cl) (setStatusCompactor (Some (refTo cp)) t) s1"
    and "V s1 = c_compactors_update (alistUpdate (objectKey cp) cp') (V s)"
    and "objectKey cp' = objectKey cp" and "om_Labels cp' = om_Labels cp"
    and "compactorTenants cp' = compactorTenants cp @ [om_Name t]" and "om_DeletionTimestamp cp' = None"
proof -
  from find_SomeD [OF room] have cp: "map_of (c_compactors (V s)) (objectKey cp) = Some cp"
    by (simp add: listedCompactors_iff [OF ready])
  note wf = compactorsReady_wf [OF ready]
  have named: "om_Name (withName t cp) \<noteq> []" using compactorsReady_get [OF ready cp] by simp
  have alive: "om_DeletionTimestamp (withName t cp) = None" using storeWf_get(2) [OF wf cp] by simp
  obtain cp' s1 where save: "CreateOrUpdate (compactors cl) (withName t cp) s = (Inr (), s1)"
    and V: "V s1 = c_compactors_update (alistUpdate (objectKey (withName t cp)) cp') (V s)"
    and cp': "objectKey cp' = objectKey (withName t cp)" "om_DeletionTimestamp cp' = None" "cp_Spec cp' = cp_Spec (withName t cp)"
      "om_Labels cp' = over (map_option om_Labels
         (map_of (c_compactors (V s)) (objectKey (withName t cp)))) (om_Labels (withName t cp))"
    by (rule saveCompactor [OF ok wf named alive])
  have nofind: "find (\<lambda>item. containsString (compactorTenants item) (tenantId t))
      (listedCompactors (Some sv) t (V s)) = None"
    using none by (simp add: find_None_iff)
  have "compactorAllocate cl (Some sv) t s =
      kStatusUpdate (tenants cl) (setStatusCompactor (Some (refTo (withName t cp))) t) s1"
    using save kindOk_list [OF clientOk_kinds(3) [OF ok], of "listOpts (Some sv) t" s] nofind room
    by (simp add: compactorAllocate_def Let_def listOpts_def [symmetric] listedCompactors_def [symmetric]
        compactorWithRoom_find)
  moreover have "refTo (withName t cp) = refTo cp" by (simp add: refTo_def withName_def)
  ultimately show thesis
    using that [of s1 cp'] V cp' cp by (simp add: over_def)
qed

lemma allocate_listed:
  assumes ok: "clientOk cl V" and cur: "map_of (c_tenants (V s)) (objectKey t) = Some t"
    and ready: "compactorsReady t (V s)" and shared: "\<not> labelTrue (om_Labels t) ExclusiveLabelKey"
    and listed: "cp \<in> set (listedCompactors svc t (V s))" "tenantId t \<in> set (compactorTenants cp)"
  shows "\<exists>t' s'. compactorAllocate cl svc t s = (Inr t', s') \<and>
     c_compactors (V s') = c_compactors (V s) \<and> compactorBound svc t' (V s') \<and> compactorStep t t' (V s) (V s')"
proof -
  have id: "V s = c_compactors_update (\<lambda>cps. cps) (V s)" by simp
  obtain item where found: "find (\<lambda>item. containsString (compactorTenants item) (tenantId t))
      (listedCompactors svc t (V s)) = Some item"
    using listed by (cases "find (\<lambda>item. containsString (compactorTenants item) (tenantId t))
      (listedCompactors svc t (V s))") (auto simp: find_None_iff)
  from find_SomeD [OF found] have item: "map_of (c_compactors (V s)) (objectKey item) = Some item"
    and "matchesOpts (listOpts svc t) item" and "tenantId t \<in> set (compactorTenants item)"
    by (simp_all add: listedCompactors_iff [OF ready])
  then have "boundTo compactorTenants svc t item"
    using matches_listOpts [of svc t item] compactorsReady_get [OF ready item] shared
    by (simp add: boundTo_def)
  from writeStatus_bindsCompactor [OF ok cur item this] obtain t' s' where
      "kStatusUpdate (tenants cl) (setStatusCompactor (Some (refTo item)) t) s = (Inr t', s')"
      "c_compactors (V s') = c_compactors (V s)" "compactorBound svc t' (V s')" "compactorStep t t' (V s) (V s')"
    using id by blast
  then show ?thesis
    using kindOk_list [OF clientOk_kinds(3) [OF ok], of "listOpts svc t" s] found
    by (simp add: compactorAllocate_def Let_def listOpts_def [symmetric] listedCompactors_def [symmetric])
qed

lemma allocate_room_binds:
  assumes ok: "clientOk cl V" and cur: "map_of (c_tenants (V s)) (objectKey t) = Some t"
    and shared: "\<not> labelTrue (om_Labels t) ExclusiveLabelKey" and ready: "compactorsReady t (V s)"
    and same: "tenantId t = om_Name t"
    and none: "\<forall>cp \<in> set (listedCompactors (Some sv) t (V s)). tenantId t \<notin> set (compactorTenants cp)"
    and room: "find (hasRoom sv) (listedCompactors (Some sv) t (V s)) = Some cp"
  obtains t' s' cp' where "compactorAllocate cl (Some sv) t s = (Inr t', s')" and "compactorBound (Some sv) t' (V s')"
    and "compactorStep t t' (V s) (V s')" and "c_compactors (V s') = alistUpdate (objectKey cp) cp' (c_compactors (V s))"
    and "map_of (c_compactors (V s)) (objectKey cp) = Some cp" and "hasRoom sv cp"
    and "objectKey cp' = objectKey cp" and "om_Labels cp' = om_Labels cp" and "om_DeletionTimestamp cp' = None"
    and "compactorTenants cp' = compactorTenants cp @ [tenantId t]" and "matchesOpts (listOpts (Some sv) t) cp'"
proof -
  obtain cp' s1 where run: "compactorAllocate cl (Some sv) t s =
      kStatusUpdate (tenants cl) (setStatusCompactor (Some (refTo cp)) t) s1"
    and V: "V s1 = c_compactors_update (alistUpdate (objectKey cp) cp') (V s)"
    and cp': "objectKey cp' = objectKey cp" "om_Labels cp' = om_Labels cp"
      "compactorTenants cp' = compactorTenants cp @ [om_Name t]" "om_DeletionTimestamp cp' = None"
    by (rule allocate_room [OF ok cur ready none room])
  from find_SomeD [OF room] have cp: "map_of (c_compactors (V s)) (objectKey cp) = Some cp"
      "matchesOpts (listOpts (Some sv) t) cp" "hasRoom sv cp"
    by (simp_all add: listedCompactors_iff [OF ready])
  have names: "om_Name cp' = om_Name cp" "om_Namespace cp' = om_Namespace cp" using cp'(1) by (simp_all add: objectKey_def)
  then have "boundTo compactorTenants (Some sv) t cp'"
    using matches_listOpts [OF cp(2)] compactorsReady_get [OF ready cp(1)] shared same cp'(2,3)
    by (simp add: boundTo_def)
  then obtain t' s' where "kStatusUpdate (tenants cl) (setStatusCompactor (Some (refTo cp)) t) s1 = (Inr t', s')"
      "c_compactors (V s') = c_compactors (V s1)" "compactorBound (Some sv) t' (V s')" "compactorStep t t' (V s) (V s')"
    using writeStatus_bindsCompactor [OF ok, of s1 t cp cp' "Some sv"] cur V by auto
  then show thesis
    using run cp cp' V same names by (intro that [of t' s' cp']) (simp_all add: matchesOpts_def)
qed

lemma compactorBound_no_reset:
  "\<lbrakk>clientOk cl V; compactorBound svc t (V s)\<rbrakk> \<Longrightarrow> needResetCompactor cl svc t s = (Inr False, s)"
  using cb.needReset_fits [OF clientOk_kinds(3)] unfolding compactorBound_def by metis

text \<open>Without a listed compactor that takes the tenant, one is created under a generated name.\<close>

lemma allocate_creates:
  assumes ok: "clientOk cl V" and ready: "compactorsReady t (V s)" and label: "serviceLabelOk t"
    and storage: "2 \<le> length (splitOn CHR ''.'' (storageOf (Some sv) t))"
    and none: "\<forall>cp \<in> set (listedCompactors (Some sv) t (V s)).
      tenantId t \<notin> set (compactorTenants cp) \<and> \<not> hasRoom sv cp"
  obtains cp s1 where "compactorAllocate cl (Some sv) t s = kStatusUpdate (tenants cl)
      (setStatusCompactor (Some \<lparr>oref_Namespace = serviceNs t, oref_Name = []\<rparr>) t) s1"
    and "V s1 = c_compactors_update (alistUpdate (objectKey cp) cp) (V s)"
    and "map_of (c_compactors (V s)) (objectKey cp) = None"
    and "om_Name cp \<noteq> []" and "om_Namespace cp = serviceNs t" and "om_DeletionTimestamp cp = None"
    and "compactorTenants cp = [tenantId t]"
    and "om_Labels cp = [ServiceLabelKey \<mapsto> serviceLabel t, StorageLabelKey \<mapsto> storageOf (Some sv) t]"
proof -
  obtain d where d: "createCompactorInstance (Some sv) t = Inr d" "om_Name d = []" "om_GenerateName d \<noteq> []"
      "om_Namespace d = serviceNs t" "om_DeletionTimestamp d = None" "compactorTenants d = [tenantId t]"
      "om_Labels d = [ServiceLabelKey \<mapsto> serviceLabel t, StorageLabelKey \<mapsto> storageOf (Some sv) t]"
    using label storage
    by (simp add: createCompactorInstance_def Let_def idx_def serviceLabelOk_def zero_defs)
  have new: "map_of (c_compactors (V s)) (objectKey d) = None"
  proof (rule ccontr)
    assume "map_of (c_compactors (V s)) (objectKey d) \<noteq> None"
    then obtain c where c: "map_of (c_compactors (V s)) (objectKey d) = Some c" by blast
    then have "objectKey c = objectKey d" by (rule storeWf_get(1) [OF compactorsReady_wf [OF ready]])
    then show False using compactorsReady_get [OF ready c] d(2) by (simp add: objectKey_def)
  qed
  obtain cp s1 where save: "upsert (compactors cl) mergeMetadata skipEqual d s = (Inr (), s1)"
    and cp: "om_Name cp \<noteq> []" "cp = d\<lparr>om_Name := om_Name cp, om_ResourceVersion := om_ResourceVersion cp,
      om_UID := om_UID cp\<rparr>" "map_of (c_compactors (V s)) (objectKey cp) = None"
    and V: "V s1 = c_compactors_update (alistUpdate (objectKey cp) cp) (V s)"
    by (rule mm.upsert_generated [where skip = skipEqual, OF clientOk_kinds(3) [OF ok] new d(2,3)])
  have fields: "om_Namespace cp = serviceNs t" "om_DeletionTimestamp cp = None" "compactorTenants cp = [tenantId t]"
      "om_Labels cp = [ServiceLabelKey \<mapsto> serviceLabel t, StorageLabelKey \<mapsto> storageOf (Some sv) t]"
    by (subst cp(2), simp add: d)+
  have "find (\<lambda>item. containsString (compactorTenants item) (tenantId t)) (listedCompactors (Some sv) t (V s)) = None"
      "find (hasRoom sv) (listedCompactors (Some sv) t (V s)) = None"
    using none by (auto simp: find_None_iff)
  moreover have "refTo d = \<lparr>oref_Namespace = serviceNs t, oref_Name = []\<rparr>"
    by (simp add: refTo_def d)
  ultimately have "compactorAllocate cl (Some sv) t s = kStatusUpdate (tenants cl)
      (setStatusCompactor (Some \<lparr>oref_Namespace = serviceNs t, oref_Name = []\<rparr>) t) s1"
    using save kindOk_list [OF clientOk_kinds(3) [OF ok], of "listOpts (Some sv) t" s] d(1)
    by (simp add: compactorAllocate_def Let_def listOpts_def [symmetric] listedCompactors_def [symmetric]
        compactorWithRoom_find CreateOrUpdate_def)
  then show thesis using V cp(3,1) fields by (rule that)
qed

lemma reset_dangling:
  assumes ok: "clientOk cl V" and cur: "map_of (c_tenants (V s)) (objectKey t) = Some t"
    and t: "sharedTenant svc t" and ref: "statusCompactor t = Some ref"
    and dangling: "map_of (c_compactors (V s)) (refKey ref) = None"
  obtains rv s' where "Tenant_compactor cl svc t s =
      (Inr ((setStatusCompactor None t)\<lparr>om_ResourceVersion := rv\<rparr>), s')"
    and "V s' = c_tenants_update (alistUpdate (objectKey t)
      ((setStatusCompactor None t)\<lparr>om_ResourceVersion := rv\<rparr>)) (V s)"
proof -
  have need: "needResetCompactor cl svc t s = (Inr True, s)"
    by (rule cb.needReset_dangling [OF clientOk_kinds(3) [OF ok] ref dangling])
  have rm: "removeTenantFromCompactorByName cl t (oref_Namespace ref) (oref_Name ref) s =
      (Inr (setStatusCompactor None t), s)"
    using dangling by (simp add: removeTenantFromCompactorByName_def Let_def handleE_case
        kindOk_get [OF clientOk_kinds(3) [OF ok]] refKey_def)
  obtain rv s' where st: "kStatusUpdate (tenants cl) (setStatusCompactor None t) s =
      (Inr ((setStatusCompactor None t)\<lparr>om_ResourceVersion := rv\<rparr>), s')"
    and V: "V s' = c_tenants_update (alistUpdate (objectKey t)
      ((setStatusCompactor None t)\<lparr>om_ResourceVersion := rv\<rparr>)) (V s)"
    by (rule writeStatusCompactor [OF ok cur])
  have "Tenant_compactor cl svc t s = (Inr ((setStatusCompactor None t)\<lparr>om_ResourceVersion := rv\<rparr>), s')"
    using need rm st ref t by (simp add: Tenant_compactor_def compactorBind_def sharedTenant_def)
  then show thesis using V by (rule that)
qed

lemma sharedTenant_more:
  "\<lbrakk>om_Labels t' = om_Labels t; om_Finalizers t' = om_Finalizers t;
    om_DeletionTimestamp t' = om_DeletionTimestamp t\<rbrakk> \<Longrightarrow> sharedTenant svc t' = sharedTenant svc t"
  by (simp add: sharedTenant_def serviceLabelOk_def)

lemma creates_first_pass:
  assumes ok: "clientOk cl V" and cur: "map_of (c_tenants (V s)) (objectKey t) = Some t"
    and shared: "sharedTenant (Some sv) t" and ready: "compactorsReady t (V s)"
    and fits: "\<not> mustReset compactorTenants (Some sv) t (statusCompactor t) (c_compactors (V s))"
    and storage: "2 \<le> length (splitOn CHR ''.'' (storageOf (Some sv) t))"
    and none: "\<forall>cp \<in> set (listedCompactors (Some sv) t (V s)).
      tenantId t \<notin> set (compactorTenants cp) \<and> \<not> hasRoom sv cp"
  obtains t1 s1 cp where "Tenant_compactor cl (Some sv) t s = (Inr t1, s1)"
    and "statusCompactor t1 = Some \<lparr>oref_Namespace = serviceNs t, oref_Name = []\<rparr>"
    and "map_of (c_tenants (V s1)) (objectKey t1) = Some t1"
    and "om_Labels t1 = om_Labels t" and "om_Name t1 = om_Name t" and "tn_Spec t1 = tn_Spec t"
    and "sharedTenant (Some sv) t1" and "compactorsReady t1 (V s1)"
    and "map_of (c_compactors (V s1)) (refKey \<lparr>oref_Namespace = serviceNs t, oref_Name = []\<rparr>) = None"
    and "map_of (c_compactors (V s1)) (objectKey cp) = Some cp"
    and "compactorTenants cp = [tenantId t]" and "matchesOpts (listOpts (Some sv) t) cp"
    and "compactorStep t t1 (V s) (V s1)"
proof -
  have label: "serviceLabelOk t" "\<not> labelTrue (om_Labels t) ExclusiveLabelKey"
    using shared by (simp_all add: sharedTenant_def)
  let ?ref = "\<lparr>oref_Namespace = serviceNs t, oref_Name = []\<rparr>"
  obtain cp sa where run: "compactorAllocate cl (Some sv) t s =
      kStatusUpdate (tenants cl) (setStatusCompactor (Some ?ref) t) sa"
    and Va: "V sa = c_compactors_update (alistUpdate (objectKey cp) cp) (V s)"
    and cp: "map_of (c_compactors (V s)) (objectKey cp) = None" "om_Name cp \<noteq> []"
      "om_Namespace cp = serviceNs t" "om_DeletionTimestamp cp = None" "compactorTenants cp = [tenantId t]"
      "om_Labels cp = [ServiceLabelKey \<mapsto> serviceLabel t, StorageLabelKey \<mapsto> storageOf (Some sv) t]"
    by (rule allocate_creates [OF ok ready label(1) storage none])
  have "map_of (c_tenants (V sa)) (objectKey t) = Some t" using cur Va by simp
  then obtain rv s1 where st: "kStatusUpdate (tenants cl) (setStatusCompactor (Some ?ref) t) sa =
      (Inr ((setStatusCompactor (Some ?ref) t)\<lparr>om_ResourceVersion := rv\<rparr>), s1)"
    and V1: "V s1 = c_tenants_update (alistUpdate (objectKey t)
      ((setStatusCompactor (Some ?ref) t)\<lparr>om_ResourceVersion := rv\<rparr>)) (V sa)"
    by (rule writeStatusCompactor [OF ok])
  define t1 where "t1 = (setStatusCompactor (Some ?ref) t)\<lparr>om_ResourceVersion := rv\<rparr>"
  have pass1: "Tenant_compactor cl (Some sv) t s = (Inr t1, s1)"
    using Tenant_compactor_allocates [OF ok shared fits] run st by (simp add: t1_def)
  have t1: "statusCompactor t1 = Some ?ref" "objectKey t1 = objectKey t" "om_Labels t1 = om_Labels t"
      "om_Name t1 = om_Name t" "tn_Spec t1 = tn_Spec t" "sharedTenant (Some sv) t1"
    using shared by (simp_all add: t1_def sharedTenant_def serviceLabelOk_def)
  have cps: "c_compactors (V s1) = alistUpdate (objectKey cp) cp (c_compactors (V s))" by (simp add: V1 Va)
  have ready1: "compactorsReady t1 (V s1)"
    using ready cp label storeWf_alistUpdate [OF compactorsReady_wf [OF ready], of cp "objectKey cp"]
      set_alistUpdate [of "objectKey cp" cp "c_compactors (V s)"]
    by (fastforce simp: compactorsReady_def cps t1 labelTrue_def)
  have gone: "map_of (c_compactors (V s1)) (refKey ?ref) = None"
  proof (rule ccontr)
    assume "\<not> ?thesis"
    then obtain c where c: "map_of (c_compactors (V s1)) (refKey ?ref) = Some c" by blast
    then show False
      using compactorsReady_get [OF ready1 c] storeWf_get(1) [OF compactorsReady_wf [OF ready1] c]
      by (simp add: refKey_def objectKey_def)
  qed
  have step: "compactorStep t t1 (V s) (V s1)"
    by (rule compactorStepI [OF t1_def Va]) (simp add: V1 t1_def)
  show thesis
    by (rule that [of t1 s1 cp])
      (use pass1 t1 ready1 gone cp step in \<open>simp_all add: V1 t1_def cps matchesOpts_def listOpts_def Va\<close>)
qed

lemma removeFromCompactor:
  assumes ok: "clientOk cl V" and wf: "storeWf (c_compactors (V s))"
    and cp: "map_of (c_compactors (V s)) \<lparr>nn_Namespace = ns, nn_Name = n\<rparr> = Some cp" and n: "n \<noteq> []"
    and member: "tenantId t \<in> set (compactorTenants cp)" and free: "om_Finalizers cp = []"
  obtains s' where "removeTenantFromCompactorByName cl t ns n s = (Inr (setStatusCompactor None t), s')"
    and "\<exists>cps. V s' = (V s)\<lparr>c_compactors := cps\<rparr>"
    and "if removeString (compactorTenants cp) (tenantId t) = []
         then map_of (c_compactors (V s')) \<lparr>nn_Namespace = ns, nn_Name = n\<rparr> = None
         else \<exists>cp'. map_of (c_compactors (V s')) \<lparr>nn_Namespace = ns, nn_Name = n\<rparr> = Some cp' \<and>
           compactorTenants cp' = removeString (compactorTenants cp) (tenantId t)"
proof -
  let ?key = "\<lparr>nn_Namespace = ns, nn_Name = n\<rparr>"
  let ?cp = "cp\<lparr>cp_Spec := (cp_Spec cp)\<lparr>cp_Tenants := removeString (compactorTenants cp) (tenantId t)\<rparr>\<rparr>"
  note get = kindOk_get [OF clientOk_kinds(3) [OF ok]]
  have key: "objectKey ?cp = ?key" "om_Name ?cp \<noteq> []" "om_DeletionTimestamp ?cp = None"
    using storeWf_get [OF wf cp] n by (auto simp: objectKey_def)
  show thesis
  proof (cases "removeString (compactorTenants cp) (tenantId t) = []")
    case True
    obtain s' where del: "kDelete (compactors cl) ?cp s = (Inr (), s')"
      and V: "V s' = c_compactors_update (alistDelete (objectKey ?cp)) (V s)"
      by (rule kindOk_delete [OF clientOk_kinds(3) [OF ok], of s ?cp cp]) (simp_all only: key cp free)
    then have "removeTenantFromCompactorByName cl t ns n s = (Inr (setStatusCompactor None t), s')"
      using member True by (simp add: removeTenantFromCompactorByName_def Let_def handleE_case get cp)
    then show thesis
      using V True key(1) by (intro that [of s'] exI [of _ "alistDelete (objectKey ?cp) (c_compactors (V s))"]) simp_all
  next
    case False
    obtain cp' s' where save: "CreateOrUpdate (compactors cl) ?cp s = (Inr (), s')"
      and V: "V s' = c_compactors_update (alistUpdate (objectKey ?cp) cp') (V s)"
      and spec: "cp_Spec cp' = cp_Spec ?cp"
      by (rule saveCompactor [OF ok wf key(2,3)])
    then have "removeTenantFromCompactorByName cl t ns n s = (Inr (setStatusCompactor None t), s')"
      using member False by (simp add: removeTenantFromCompactorByName_def Let_def handleE_case get cp)
    then show thesis
      using V False key(1) spec by (intro that [of s'] exI [of _ "alistUpdate (objectKey ?cp) cp' (c_compactors (V s))"]) simp_all
  qed
qed

text \<open>Compactors of the small cluster, with room for ten tenants.\<close>

definition exCompactor :: "string list \<Rightarrow> compactor" where
  "exCompactor ts = zeroCompactor\<lparr>om_Namespace := ''ns'', om_Name := ''c'',
     om_Labels := [ServiceLabelKey \<mapsto> ''ns.svc'', StorageLabelKey \<mapsto> ''ns.s3''],
     cp_Spec := zeroCompactorSpec\<lparr>cp_Tenants := ts\<rparr>\<rparr>"

lemma exTenant_storage: "storageOf (Some exService) (exTenant n Map.empty) = ''ns.s3''"
  by (simp add: exTenant_def exService_def GetStorage_def mget_def)

lemma exTenant_shared: "sharedTenant (Some exService) ((exTenant n Map.empty)\<lparr>tn_Spec := sp\<rparr>)"
  using exTenant_storage [of n]
  by (simp add: sharedTenant_def serviceLabelOk_def exTenant_def labelTrue_def zero_defs mget_def
      LocalStorage_def)

lemma exListed: "set (listedCompactors (Some exService) ((exTenant n Map.empty)\<lparr>tn_Spec := sp\<rparr>)
    (exCluster ts igs (map exCompactor tss))) = exCompactor ` set tss"
  using exTenant_storage [of n]
  by (auto simp: listedCompactors_def listOpts_def matchesOpts_def exCluster_def exCompactor_def
      exTenant_def mget_def)

lemma exCompactors_ready: "compactorsReady t (exCluster ts igs [exCompactor tids])"
  "compactorsReady t (exCluster ts igs [])"
  by (simp_all add: compactorsReady_def exCluster_def storeWf_def exCompactor_def labelTrue_def zero_defs)

lemma exTenant_unbound: "\<not> mustReset compactorTenants svc
    ((exTenant n Map.empty)\<lparr>tn_Spec := sp\<rparr>) (statusCompactor ((exTenant n Map.empty)\<lparr>tn_Spec := sp\<rparr>)) xs"
  by (simp add: mustReset_def exTenant_def zero_defs)

lemma exCompactor_tenants [simp]: "compactorTenants (exCompactor ts) = ts"
  by (simp add: exCompactor_def)

text \<open>What the handler does for a tenant that is being deleted.\<close>

lemma compactor_released:
  assumes ok: "clientOk cl V" and cur: "map_of (c_tenants (V s)) (objectKey t) = Some t"
    and wf: "storeWf (c_compactors (V s))"
    and deleted: "om_DeletionTimestamp t \<noteq> None" and fin: "FinalizerCompactor \<in> set (om_Finalizers t)"
    and ref: "statusCompactor t = Some ref" "oref_Name ref \<noteq> []"
    and cp: "map_of (c_compactors (V s)) (refKey ref) = Some cp" "om_Finalizers cp = []"
      "tenantId t \<in> set (compactorTenants cp)"
  shows "\<exists>t' s'. Tenant_compactor cl svc t s = (Inr t', s') \<and>
     om_Finalizers t' = removeString (om_Finalizers t) FinalizerCompactor \<and>
     (if \<forall>u \<in> set (compactorTenants cp). u = tenantId t
      then map_of (c_compactors (V s')) (refKey ref) = None
      else \<exists>cp'. map_of (c_compactors (V s')) (refKey ref) = Some cp' \<and>
             compactorTenants cp' = filter (\<lambda>u. u \<noteq> tenantId t) (compactorTenants cp)) \<and>
     (\<exists>rv cps. t' = t\<lparr>om_Finalizers := removeString (om_Finalizers t) FinalizerCompactor, om_ResourceVersion := rv\<rparr> \<and>
        V s' = c_tenants_update (putObject t') ((V s)\<lparr>c_compactors := cps\<rparr>))"
proof -
  obtain s1 where rm: "removeTenantFromCompactorByName cl t (oref_Namespace ref) (oref_Name ref) s =
      (Inr (setStatusCompactor None t), s1)" and frame: "\<exists>cps. V s1 = (V s)\<lparr>c_compactors := cps\<rparr>"
    and post: "if removeString (compactorTenants cp) (tenantId t) = []
         then map_of (c_compactors (V s1)) (refKey ref) = None
         else \<exists>cp'. map_of (c_compactors (V s1)) (refKey ref) = Some cp' \<and>
           compactorTenants cp' = removeString (compactorTenants cp) (tenantId t)"
    using removeFromCompactor [OF ok wf cp(1) [unfolded refKey_def] ref(2) cp(3,2)]
    unfolding refKey_def by blast
  let ?t1 = "(setStatusCompactor None t)\<lparr>om_Finalizers := removeString (om_Finalizers t) FinalizerCompactor\<rparr>"
  have "map_of (c_tenants (V s1)) (objectKey ?t1) = Some t" using cur frame by (auto simp: objectKey_def setStatusCompactor_def)
  then obtain t' s' where up: "kUpdate (tenants cl) ?t1 s1 = (Inr t', s')"
    and t': "t' = asStored t (om_ResourceVersion t') (keepTenant t ?t1)"
    and V: "V s' = c_tenants_update (putObject t') (V s1)"
    by (rule kindOk_update [OF clientOk_kinds(1) [OF ok]]) (simp_all add: setStatusCompactor_def)
  have step: "\<exists>rv cps. t' = t\<lparr>om_Finalizers := removeString (om_Finalizers t) FinalizerCompactor, om_ResourceVersion := rv\<rparr> \<and>
      V s' = c_tenants_update (putObject t') ((V s)\<lparr>c_compactors := cps\<rparr>)"
  proof (intro exI conjI)
    show "t' = t\<lparr>om_Finalizers := removeString (om_Finalizers t) FinalizerCompactor, om_ResourceVersion := om_ResourceVersion t'\<rparr>"
      by (rule trans [OF t']) (simp add: asStored_def keepTenant_def setStatusCompactor_def)
    show "V s' = c_tenants_update (putObject t') ((V s)\<lparr>c_compactors := c_compactors (V s1)\<rparr>)"
      using frame by (auto simp: V)
  qed
  have "om_Finalizers t' = removeString (om_Finalizers t) FinalizerCompactor"
    by (subst t') (simp add: keepTenant_def)
  moreover have "setStatusCompactor None (setStatusCompactor None t) = setStatusCompactor None t"
    by (simp add: setStatusCompactor_def)
  then have "Tenant_compactor cl svc t s = (Inr t', s')"
    using deleted fin ref(1) rm up by (auto simp: Tenant_compactor_def compactorRelease_def)
  ultimately show ?thesis
    using step post V unfolding removeString_filter filter_empty_conv not_not
    by (intro exI [of _ t'] exI [of _ s']) simp
qed

section \<open>Properties\<close>

text \<open>
  C35: a tenant that has no binding to be reset is bound in one reconciliation when a compactor of its service and
  storage lists it already or has room.  The tenant is not being deleted, has its finalizer, shares the compactors of
  a service (it is not exclusive) and has object storage, its object is named like the tenant, and the
  compactor its status names, if any, fits.  Then the status names a stored compactor that fits, no reset is due,
  and at most one compactor changed, by the tenant's name being appended within the configured number of tenants.
  (A binding that has to be reset is only taken back in its reconciliation, and a new one is made in the next.)
\<close>

theorem Tenant_compactor_binds:
  assumes ok: "clientOk cl V" and cur: "map_of (c_tenants (V s)) (objectKey t) = Some t"
    and shared: "sharedTenant (Some sv) t" and ready: "compactorsReady t (V s)"
    and fits: "\<not> mustReset compactorTenants (Some sv) t (statusCompactor t) (c_compactors (V s))"
    and same: "tenantId t = om_Name t"
    and room: "\<exists>cp \<in> set (listedCompactors (Some sv) t (V s)).
      tenantId t \<in> set (compactorTenants cp) \<or> hasRoom sv cp"
  shows "\<exists>t' s'. Tenant_compactor cl (Some sv) t s = (Inr t', s') \<and> compactorBound (Some sv) t' (V s') \<and>
     needResetCompactor cl (Some sv) t' s' = (Inr False, s') \<and>
     (c_compactors (V s') = c_compactors (V s) \<or>
      (\<exists>k old cp. map_of (c_compactors (V s)) k = Some old \<and>
         c_compactors (V s') = alistUpdate k cp (c_compactors (V s)) \<and>
         compactorTenants cp = compactorTenants old @ [tenantId t] \<and>
         int (length (compactorTenants cp)) \<le> compactorCapacity sv))"
proof (cases "\<exists>cp \<in> set (listedCompactors (Some sv) t (V s)). tenantId t \<in> set (compactorTenants cp)")
  case True
  then show ?thesis
    using allocate_listed [OF ok cur ready] shared compactorBound_no_reset [OF ok]
      Tenant_compactor_allocates [OF ok shared fits] unfolding sharedTenant_def by metis
next
  case False
  then obtain cp where find: "find (hasRoom sv) (listedCompactors (Some sv) t (V s)) = Some cp"
    using room by (cases "find (hasRoom sv) (listedCompactors (Some sv) t (V s))") (auto simp: find_None_iff)
  have listed: "\<forall>cp \<in> set (listedCompactors (Some sv) t (V s)). tenantId t \<notin> set (compactorTenants cp)" using False by blast
  have own: "\<not> labelTrue (om_Labels t) ExclusiveLabelKey" using shared by (simp add: sharedTenant_def)
  obtain t' s' cp' where "compactorAllocate cl (Some sv) t s = (Inr t', s')" "compactorBound (Some sv) t' (V s')"
      "c_compactors (V s') = alistUpdate (objectKey cp) cp' (c_compactors (V s))"
      "map_of (c_compactors (V s)) (objectKey cp) = Some cp" "hasRoom sv cp"
      "compactorTenants cp' = compactorTenants cp @ [tenantId t]"
    by (rule allocate_room_binds [OF ok cur own ready same listed find])
  then show ?thesis
    using Tenant_compactor_allocates [OF ok shared fits] compactorBound_no_reset [OF ok]
    by (intro exI [of _ t'] exI [of _ s'] conjI disjI2 exI [of _ "objectKey cp"] exI [of _ cp] exI [of _ cp'])
      (simp_all add: hasRoom_def)
qed

theorem Tenant_compactor_binds_witness:
  "let t = (exTenant ''t1'' Map.empty)\<lparr>tn_Spec := \<lparr>ts_Tenant = ''t1''\<rparr>\<rparr>;
       s = exCluster [t] [] [exCompactor [''t0'']]
   in \<exists>t' s'. Tenant_compactor memClient (Some exService) t s = (Inr t', s') \<and>
        compactorBound (Some exService) t' s'"
proof -
  let ?t = "(exTenant ''t1'' Map.empty)\<lparr>tn_Spec := \<lparr>ts_Tenant = ''t1''\<rparr>\<rparr>"
  let ?s = "exCluster [?t] [] [exCompactor [''t0'']]"
  have same: "tenantId ?t = om_Name ?t" by (simp add: exTenant_def)
  have room: "\<exists>cp \<in> set (listedCompactors (Some exService) ?t ?s).
      tenantId ?t \<in> set (compactorTenants cp) \<or> hasRoom exService cp"
    using exListed [where n = "''t1''" and tss = "[[''t0'']]"] by (simp add: hasRoom_def exService_def)
  have cur: "map_of (c_tenants ?s) (objectKey ?t) = Some ?t" by (rule exTenant_stored)
  have ready: "compactorsReady ?t ?s" by (rule exCompactors_ready(1))
  have unbound: "\<not> mustReset compactorTenants (Some exService) ?t (statusCompactor ?t) (c_compactors ?s)"
    by (rule exTenant_unbound)
  note post = Tenant_compactor_binds [OF memClient_ok, where s = ?s and t = ?t and sv = exService]
  show ?thesis unfolding Let_def
    using post [OF cur exTenant_shared ready unbound same room] by blast
qed

text \<open>
  Where the Tenant object is not named like the tenant, a compactor with room never becomes
  a binding: the handler appends the object's name, so right after it has run a reset is due
  again.
\<close>

theorem Tenant_compactor_name_mismatch:
  assumes ok: "clientOk cl V" and cur: "map_of (c_tenants (V s)) (objectKey t) = Some t"
    and shared: "sharedTenant (Some sv) t" and ready: "compactorsReady t (V s)"
    and fits: "\<not> mustReset compactorTenants (Some sv) t (statusCompactor t) (c_compactors (V s))"
    and differ: "tenantId t \<noteq> om_Name t"
    and none: "\<forall>cp \<in> set (listedCompactors (Some sv) t (V s)). tenantId t \<notin> set (compactorTenants cp)"
    and room: "\<exists>cp \<in> set (listedCompactors (Some sv) t (V s)). hasRoom sv cp"
  shows "\<exists>t' s'. Tenant_compactor cl (Some sv) t s = (Inr t', s') \<and>
     needResetCompactor cl (Some sv) t' s' = (Inr True, s')"
proof -
  obtain cp where find: "find (hasRoom sv) (listedCompactors (Some sv) t (V s)) = Some cp"
    using room by (cases "find (hasRoom sv) (listedCompactors (Some sv) t (V s))") (auto simp: find_None_iff)
  obtain cp' s1 where run: "compactorAllocate cl (Some sv) t s =
      kStatusUpdate (tenants cl) (setStatusCompactor (Some (refTo cp)) t) s1"
    and V: "V s1 = c_compactors_update (alistUpdate (objectKey cp) cp') (V s)"
    and cp': "compactorTenants cp' = compactorTenants cp @ [om_Name t]"
    by (rule allocate_room [OF ok cur ready none find])
  have "tenantId t \<notin> set (compactorTenants cp')"
    using find_SomeD [OF find] none cp' differ by auto
  moreover have "map_of (c_tenants (V s1)) (objectKey t) = Some t" using cur V by simp
  then obtain rv s' where st: "kStatusUpdate (tenants cl) (setStatusCompactor (Some (refTo cp)) t) s1 =
      (Inr ((setStatusCompactor (Some (refTo cp)) t)\<lparr>om_ResourceVersion := rv\<rparr>), s')"
    and V': "V s' = c_tenants_update (alistUpdate (objectKey t)
      ((setStatusCompactor (Some (refTo cp)) t)\<lparr>om_ResourceVersion := rv\<rparr>)) (V s1)"
    by (rule writeStatusCompactor [OF ok])
  ultimately have "needResetCompactor cl (Some sv)
      ((setStatusCompactor (Some (refTo cp)) t)\<lparr>om_ResourceVersion := rv\<rparr>) s' = (Inr True, s')"
    using cb.needReset_foreign [OF clientOk_kinds(3) [OF ok], of _ "refTo cp" s' cp'] V
    by simp
  then show ?thesis
    using Tenant_compactor_allocates [OF ok shared fits] run st by simp
qed

theorem Tenant_compactor_name_mismatch_witness:
  "let t = (exTenant ''t1'' Map.empty)\<lparr>tn_Spec := \<lparr>ts_Tenant = ''acme''\<rparr>\<rparr>;
       s = exCluster [t] [] [exCompactor [''t0'']]
   in \<exists>t' s'. Tenant_compactor memClient (Some exService) t s = (Inr t', s') \<and>
        needResetCompactor memClient (Some exService) t' s' = (Inr True, s')"
proof -
  let ?t = "(exTenant ''t1'' Map.empty)\<lparr>tn_Spec := \<lparr>ts_Tenant = ''acme''\<rparr>\<rparr>"
  let ?s = "exCluster [?t] [] [exCompactor [''t0'']]"
  have differ: "tenantId ?t \<noteq> om_Name ?t" by (simp add: exTenant_def)
  have none: "\<forall>cp \<in> set (listedCompactors (Some exService) ?t ?s). tenantId ?t \<notin> set (compactorTenants cp)"
    and room: "\<exists>cp \<in> set (listedCompactors (Some exService) ?t ?s). hasRoom exService cp"
    using exListed [where n = "''t1''" and tss = "[[''t0'']]"] by (simp_all add: hasRoom_def exService_def)
  have cur: "map_of (c_tenants ?s) (objectKey ?t) = Some ?t" by (rule exTenant_stored)
  have ready: "compactorsReady ?t ?s" by (rule exCompactors_ready(1))
  have unbound: "\<not> mustReset compactorTenants (Some exService) ?t (statusCompactor ?t) (c_compactors ?s)"
    by (rule exTenant_unbound)
  note post = Tenant_compactor_name_mismatch [OF memClient_ok, where s = ?s and t = ?t and sv = exService]
  show ?thesis unfolding Let_def
    using post [OF cur exTenant_shared ready unbound differ none room] by blast
qed

text \<open>
  Where no compactor of the service and storage lists the tenant or has room, one is
  created, and three reconciliations bind the tenant to it: the first creates it under a
  generated name and records an empty name, the second finds that name dangling and clears the
  status, the third finds the compactor that lists the tenant.
\<close>

theorem Tenant_compactor_creates:
  assumes ok: "clientOk cl V" and cur: "map_of (c_tenants (V s)) (objectKey t) = Some t"
    and shared: "sharedTenant (Some sv) t" and ready: "compactorsReady t (V s)"
    and fits: "\<not> mustReset compactorTenants (Some sv) t (statusCompactor t) (c_compactors (V s))"
    and storage: "2 \<le> length (splitOn CHR ''.'' (storageOf (Some sv) t))"
    and none: "\<forall>cp \<in> set (listedCompactors (Some sv) t (V s)).
      tenantId t \<notin> set (compactorTenants cp) \<and> \<not> hasRoom sv cp"
  shows "\<exists>t1 s1 t2 s2 t3 s3.
     Tenant_compactor cl (Some sv) t s = (Inr t1, s1) \<and>
     statusCompactor t1 = Some \<lparr>oref_Namespace = serviceNs t, oref_Name = []\<rparr> \<and>
     Tenant_compactor cl (Some sv) t1 s1 = (Inr t2, s2) \<and> statusCompactor t2 = None \<and>
     Tenant_compactor cl (Some sv) t2 s2 = (Inr t3, s3) \<and> compactorBound (Some sv) t3 (V s3) \<and>
     needResetCompactor cl (Some sv) t3 s3 = (Inr False, s3)"
proof -
  let ?ref = "\<lparr>oref_Namespace = serviceNs t, oref_Name = []\<rparr>"
  obtain t1 s1 cp where pass1: "Tenant_compactor cl (Some sv) t s = (Inr t1, s1)"
    and t1: "statusCompactor t1 = Some ?ref" "map_of (c_tenants (V s1)) (objectKey t1) = Some t1"
      "om_Labels t1 = om_Labels t" "om_Name t1 = om_Name t" "tn_Spec t1 = tn_Spec t"
      "sharedTenant (Some sv) t1" "compactorsReady t1 (V s1)"
    and gone: "map_of (c_compactors (V s1)) (refKey ?ref) = None"
    and cp: "map_of (c_compactors (V s1)) (objectKey cp) = Some cp"
      "compactorTenants cp = [tenantId t]" "matchesOpts (listOpts (Some sv) t) cp"
    by (rule creates_first_pass [OF assms])
  obtain rv2 s2 where pass2: "Tenant_compactor cl (Some sv) t1 s1 =
      (Inr ((setStatusCompactor None t1)\<lparr>om_ResourceVersion := rv2\<rparr>), s2)"
    and V2: "V s2 = c_tenants_update (alistUpdate (objectKey t1)
      ((setStatusCompactor None t1)\<lparr>om_ResourceVersion := rv2\<rparr>)) (V s1)"
    by (rule reset_dangling [OF ok t1(2,6,1) gone])
  define t2 where "t2 = (setStatusCompactor None t1)\<lparr>om_ResourceVersion := rv2\<rparr>"
  have t2: "statusCompactor t2 = None" "om_Labels t2 = om_Labels t" "om_Name t2 = om_Name t"
      "tn_Spec t2 = tn_Spec t" "sharedTenant (Some sv) t2" "map_of (c_tenants (V s2)) (objectKey t2) = Some t2"
    using t1 by (simp_all add: t2_def V2 sharedTenant_def serviceLabelOk_def)
  have ready2: "compactorsReady t2 (V s2)" using t1(4,7) by (simp add: compactorsReady_def V2 t2)
  have "cp \<in> set (listedCompactors (Some sv) t2 (V s2))"
    unfolding listedCompactors_iff [OF ready2] using cp by (simp add: V2 listOpts_def t2)
  moreover have "tenantId t2 \<in> set (compactorTenants cp)" by (simp add: cp t2)
  moreover have "\<not> labelTrue (om_Labels t2) ExclusiveLabelKey" using t2(5) by (simp add: sharedTenant_def)
  ultimately obtain t3 s3 where "compactorAllocate cl (Some sv) t2 s2 = (Inr t3, s3)"
      "compactorBound (Some sv) t3 (V s3)"
    using allocate_listed [OF ok t2(6) ready2] by metis
  moreover have "Tenant_compactor cl (Some sv) t2 s2 = compactorAllocate cl (Some sv) t2 s2"
    by (rule Tenant_compactor_allocates [OF ok t2(5)]) (simp add: mustReset_def t2(1))
  ultimately show ?thesis
    using pass1 t1(1) pass2 t2(1) compactorBound_no_reset [OF ok] unfolding t2_def by metis
qed

theorem Tenant_compactor_creates_witness:
  "let t = (exTenant ''t1'' Map.empty)\<lparr>tn_Spec := \<lparr>ts_Tenant = ''acme''\<rparr>\<rparr>; s = exCluster [t] [] []
   in \<exists>t1 s1 t2 s2 t3 s3.
     Tenant_compactor memClient (Some exService) t s = (Inr t1, s1) \<and>
     Tenant_compactor memClient (Some exService) t1 s1 = (Inr t2, s2) \<and>
     Tenant_compactor memClient (Some exService) t2 s2 = (Inr t3, s3) \<and>
     compactorBound (Some exService) t3 s3"
proof -
  let ?t = "(exTenant ''t1'' Map.empty)\<lparr>tn_Spec := \<lparr>ts_Tenant = ''acme''\<rparr>\<rparr>"
  let ?s = "exCluster [?t] [] []"
  have storage: "2 \<le> length (splitOn CHR ''.'' (storageOf (Some exService) ?t))"
    using exTenant_storage [of "''t1''"] by simp
  have none: "\<forall>cp \<in> set (listedCompactors (Some exService) ?t ?s).
      tenantId ?t \<notin> set (compactorTenants cp) \<and> \<not> hasRoom exService cp"
    using exListed [where n = "''t1''" and tss = "[]"] by simp
  have cur: "map_of (c_tenants ?s) (objectKey ?t) = Some ?t" by (rule exTenant_stored)
  have ready: "compactorsReady ?t ?s" by (rule exCompactors_ready(2))
  have unbound: "\<not> mustReset compactorTenants (Some exService) ?t (statusCompactor ?t) (c_compactors ?s)"
    by (rule exTenant_unbound)
  note post = Tenant_compactor_creates [OF memClient_ok, where s = ?s and t = ?t and sv = exService]
  show ?thesis unfolding Let_def
    using post [OF cur exTenant_shared ready unbound storage none] by blast
qed

text \<open>
  Deleting a tenant takes it out of its compactor and takes the finalizer off.  A
  compactor that served no other tenant is deleted; otherwise it keeps exactly the others.
\<close>

theorem Tenant_compactor_releases:
  assumes ok: "clientOk cl V" and cur: "map_of (c_tenants (V s)) (objectKey t) = Some t"
    and wf: "storeWf (c_compactors (V s))"
    and deleted: "om_DeletionTimestamp t \<noteq> None" and fin: "FinalizerCompactor \<in> set (om_Finalizers t)"
    and ref: "statusCompactor t = Some ref" "oref_Name ref \<noteq> []"
    and cp: "map_of (c_compactors (V s)) (refKey ref) = Some cp" "om_Finalizers cp = []"
      "tenantId t \<in> set (compactorTenants cp)"
  shows "\<exists>t' s'. Tenant_compactor cl svc t s = (Inr t', s') \<and>
     om_Finalizers t' = removeString (om_Finalizers t) FinalizerCompactor \<and>
     (if \<forall>u \<in> set (compactorTenants cp). u = tenantId t
      then map_of (c_compactors (V s')) (refKey ref) = None
      else \<exists>cp'. map_of (c_compactors (V s')) (refKey ref) = Some cp' \<and>
             compactorTenants cp' = filter (\<lambda>u. u \<noteq> tenantId t) (compactorTenants cp))"
  using compactor_released [OF assms] by blast

theorem Tenant_compactor_releases_witness:
  "let cp = exCompactor [''t0'', ''t1'']; t = (exTenant ''t1'' Map.empty)\<lparr>om_DeletionTimestamp := Some 5,
         tn_Status := \<lparr>tst_Ruler = None, tst_Compactor = Some (refTo cp), tst_Ingester = None\<rparr>\<rparr>;
       s = exCluster [t] [] [cp]
   in \<exists>t' s'. Tenant_compactor memClient (Some exService) t s = (Inr t', s') \<and>
        (\<exists>cp'. map_of (c_compactors s') (objectKey cp) = Some cp' \<and> compactorTenants cp' = [''t0''])"
proof -
  let ?cp = "exCompactor [''t0'', ''t1'']"
  let ?t = "(exTenant ''t1'' Map.empty)\<lparr>om_DeletionTimestamp := Some 5,
    tn_Status := \<lparr>tst_Ruler = None, tst_Compactor = Some (refTo ?cp), tst_Ingester = None\<rparr>\<rparr>"
  let ?s = "exCluster [?t] [] [?cp]"
  have facts: "om_DeletionTimestamp ?t \<noteq> None" "FinalizerCompactor \<in> set (om_Finalizers ?t)"
      "statusCompactor ?t = Some (refTo ?cp)" "oref_Name (refTo ?cp) \<noteq> []"
      "map_of (c_compactors ?s) (refKey (refTo ?cp)) = Some ?cp" "om_Finalizers ?cp = []"
      "tenantId ?t \<in> set (compactorTenants ?cp)" and tid: "tenantId ?t = ''t1''"
    by (simp_all add: exTenant_def exCluster_def refTo_def) (simp_all add: exCompactor_def zero_defs refTo_def refKey_def objectKey_def)
  have cur: "map_of (c_tenants ?s) (objectKey ?t) = Some ?t" by (rule exTenant_stored)
  have wf: "storeWf (c_compactors ?s)" by (rule compactorsReady_wf [OF exCompactors_ready(1)])
  note post = Tenant_compactor_releases [OF memClient_ok, where s = ?s and t = ?t and svc = "Some exService"]
  show ?thesis unfolding Let_def
    using post [OF cur wf facts] by (simp add: exTenant_def) blast
qed

end
