(* ===== verification/Tenant_Ruler.thy ===== *)
theory Tenant_Ruler
  imports Tenant_Ingester
begin

text \<open>
  The ruler half of the tenant controller
  (\<^verbatim>\<open>pkg/controllers/resources/tenant/ruler.go\<close>): every tenant has a ruler of its own,
  created or updated on each reconciliation.
\<close>

section \<open>Operations\<close>

definition RuleLevelNamesapce :: string where
  "RuleLevelNamesapce = ''namespace''"
definition RuleLevelCluster :: string where
  "RuleLevelCluster = ''cluster''"
definition PrometheusRuleResourceLabelKeyOwnerCluster :: string where
  "PrometheusRuleResourceLabelKeyOwnerCluster = ''alerting.kubesphere.io/owner_cluster''"
definition PrometheusRuleResourceLabelKeyRuleLevel :: string where
  "PrometheusRuleResourceLabelKeyRuleLevel = ''alerting.kubesphere.io/rule_level''"

abbreviation statusRuler :: "tenant \<Rightarrow> object_reference option" where
  "statusRuler t \<equiv> tst_Ruler (tn_Status t)"

definition setStatusRuler :: "object_reference option \<Rightarrow> tenant \<Rightarrow> tenant" where
  "setStatusRuler r t = t\<lparr>tn_Status := (tn_Status t)\<lparr>tst_Ruler := r\<rparr>\<rparr>"

text \<open>
  A name of more than 30 bytes is cut to 30, its dashes at both ends are trimmed, and the last
  eight bytes of the mangled name follow; a mangled name of fewer bytes panics.
\<close>

definition rulerNameOf :: "ext \<Rightarrow> string \<Rightarrow> string res" where
  "rulerNameOf x n =
     (if length n > 30 then
        (let out = fst (x_uniqueDNS1123Label x n) in
         if length out < 8 then Inl Panic
         else (let hashSuffix = drop (length out - 8) out;
                   name = trimChar CHR ''-'' (take 30 n)
               in Inr (name @ ''-'' @ hashSuffix)))
      else Inr n)"

definition ruleSelectorsOf :: "service_spec \<Rightarrow> tenant \<Rightarrow> label_selector list" where
  "ruleSelectorsOf sp t =
     ru_RuleSelectors (sv_RulerTemplateSpec sp) @
     (if rut_DisableAlertingRulesAutoSelection (sv_RulerTemplateSpec sp) = None \<or>
         rut_DisableAlertingRulesAutoSelection (sv_RulerTemplateSpec sp) = Some False
      then [\<lparr>ls_MatchLabels = [PrometheusRuleResourceLabelKeyOwnerCluster \<mapsto> tenantId t],
             ls_MatchExpressions = [\<lparr>lsr_Key = PrometheusRuleResourceLabelKeyRuleLevel,
               lsr_Operator = ''In'', lsr_Values = [RuleLevelCluster, RuleLevelNamesapce]\<rparr>]\<rparr>]
      else [])"

definition createOrUpdateRulerinstance :: "ext \<Rightarrow> service option \<Rightarrow> tenant \<Rightarrow> ruler res" where
  "createOrUpdateRulerinstance x svc t =
     bindR (serviceSpec svc) (\<lambda>sp.
     bindR (rulerNameOf x (om_Name t)) (\<lambda>rulerName.
       Inr (zeroRuler\<lparr>om_Name := rulerName,
         om_Namespace := hd (splitOn CHR ''.'' (serviceLabel t)),
         om_Labels := [ServiceLabelKey \<mapsto> serviceLabel t],
         om_OwnerReferences := [\<lparr>or_APIVersion = om_APIVersion t, or_Kind = om_Kind t,
           or_Name = om_Name t, or_UID = om_UID t, or_Controller = Some True\<rparr>],
         ru_Spec := zeroRulerSpec\<lparr>ru_Tenant := tenantId t,
           ru_RuleSelectors := ruleSelectorsOf sp t\<rparr>\<rparr>)))"

definition Tenant_ruler :: "ext \<Rightarrow> 's client \<Rightarrow> service option \<Rightarrow> tenant \<Rightarrow> ('s, tenant) act" where
  "Tenant_ruler x cl svc t =
     bindE (case statusRuler t of
              None \<Rightarrow> ret zeroRuler
            | Some ref \<Rightarrow>
                handleE (kGet (rulers cl) (refKey ref)) (\<lambda>r. case r of
                    Inr ru \<Rightarrow> ret ru
                  | Inl e \<Rightarrow> if e = ApiNotFound then ret zeroRuler else failE e)) (\<lambda>old.
     if om_Labels t ServiceLabelKey = None \<or> serviceLabel t = [] then
       (if statusRuler t \<noteq> None then
          bindE (kDelete (rulers cl) old) (\<lambda>_.
            kStatusUpdate (tenants cl) (setStatusRuler None t))
        else ret t)
     else
       bindE (liftE (createOrUpdateRulerinstance x svc t)) (\<lambda>ru.
         let t1 = setStatusRuler (Some (refTo ru)) t in
         bindE (CreateOrUpdate (rulers cl) ru) (\<lambda>_. kStatusUpdate (tenants cl) t1)))"

section \<open>Names\<close>

lemma length_trimChar: "length (trimChar c s) \<le> length s"
  unfolding trimChar_def by (metis length_dropWhile_le length_rev order_trans)

lemma rulerNameOf_short: "length n \<le> 30 \<Longrightarrow> rulerNameOf x n = Inr n"
  by (simp add: rulerNameOf_def)

lemma rulerNameOf_total:
  assumes "8 \<le> length (fst (x_uniqueDNS1123Label x n))"
  obtains m where "rulerNameOf x n = Inr m"
  using assms by (cases "rulerNameOf x n") (auto simp: rulerNameOf_def Let_def split: if_splits)

section \<open>Writing rulers\<close>

lemma ru_Spec_meta [simp]:
  "ru_Spec (asStored old rv ru) = ru_Spec ru" "ru_Spec (mergeMetadata ru c) = ru_Spec ru"
  by (simp_all add: asStored_def mergeMetadata_def)

interpretation rk: saved_kind ru_Spec keepNone c_rulers c_rulers_update
proof
  fix f :: "ruler kstore \<Rightarrow> ruler kstore" and c
  show "f (c_rulers c) = c_rulers c \<Longrightarrow> c_rulers_update f c = c" by (cases c) simp
qed (simp_all add: keepNone_def)

text \<open>
  A tenant, as it was just read, has its ruler: the status names a stored ruler that evaluates this
  tenant's rules.
\<close>

definition rulerBound :: "service \<Rightarrow> tenant \<Rightarrow> cluster \<Rightarrow> bool" where
  "rulerBound sv t c \<longleftrightarrow> map_of (c_tenants c) (objectKey t) = Some t \<and>
     (\<exists>ref ru. statusRuler t = Some ref \<and> map_of (c_rulers c) (refKey ref) = Some ru \<and>
        ru_Tenant (ru_Spec ru) = tenantId t \<and> om_Labels ru ServiceLabelKey = Some (serviceLabel t) \<and>
        ru_RuleSelectors (ru_Spec ru) = ruleSelectorsOf (sv_Spec sv) t)"

text \<open>What the handler may change: the tenant's reference to its ruler, and rulers.\<close>

definition rulerStep :: "tenant \<Rightarrow> tenant \<Rightarrow> cluster \<Rightarrow> cluster \<Rightarrow> bool" where
  "rulerStep t t' c c' \<longleftrightarrow> (\<exists>r rv rus. t' = (setStatusRuler r t)\<lparr>om_ResourceVersion := rv\<rparr> \<and>
     c' = c\<lparr>c_tenants := alistUpdate (objectKey t) t' (c_tenants c), c_rulers := rus\<rparr>)"

lemma setStatusRuler_simps [simp]:
  "objectKey (setStatusRuler r t) = objectKey t"
  "om_Labels (setStatusRuler r t) = om_Labels t"
  "om_Name (setStatusRuler r t) = om_Name t"
  "om_Finalizers (setStatusRuler r t) = om_Finalizers t"
  "om_DeletionTimestamp (setStatusRuler r t) = om_DeletionTimestamp t"
  "tn_Spec (setStatusRuler r t) = tn_Spec t"
  "statusRuler (setStatusRuler r t) = r"
  "statusIngester (setStatusRuler r t) = statusIngester t"
  by (simp_all add: setStatusRuler_def objectKey_def)

lemma ruleSelectorsOf_more: "tn_Spec t' = tn_Spec t \<Longrightarrow> ruleSelectorsOf sp t' = ruleSelectorsOf sp t"
  by (simp add: ruleSelectorsOf_def)

lemma ruler_saved:
  assumes ok: "clientOk cl V" and cur: "map_of (c_tenants (V s)) (objectKey t) = Some t"
    and wf: "storeWf (c_rulers (V s))" and label: "serviceLabel t \<noteq> []" and named: "om_Name t \<noteq> []"
    and mangled: "8 \<le> length (fst (x_uniqueDNS1123Label x (om_Name t)))"
  obtains t' s' where "Tenant_ruler x cl (Some sv) t s = (Inr t', s')" and "rulerBound sv t' (V s')"
    and "rulerStep t t' (V s) (V s')" and "storeWf (c_rulers (V s'))"
proof -
  obtain n where n: "rulerNameOf x (om_Name t) = Inr n" by (rule rulerNameOf_total [OF mangled])
  obtain d where d: "createOrUpdateRulerinstance x (Some sv) t = Inr d" "om_Name d = n"
      "om_DeletionTimestamp d = None" "om_Labels d ServiceLabelKey = Some (serviceLabel t)"
      "ru_Tenant (ru_Spec d) = tenantId t" "ru_RuleSelectors (ru_Spec d) = ruleSelectorsOf (sv_Spec sv) t"
    using n by (simp add: createOrUpdateRulerinstance_def serviceSpec_def zero_defs)
  have "n \<noteq> []" using n named by (auto simp: rulerNameOf_def Let_def split: if_splits)
  then obtain ru s1 where save: "CreateOrUpdate (rulers cl) d s = (Inr (), s1)"
    and V: "V s1 = c_rulers_update (alistUpdate (objectKey d) ru) (V s)"
    and key: "objectKey ru = objectKey d" "om_DeletionTimestamp ru = None"
    and ru: "ru_Spec ru = ru_Spec d"
      "om_Labels ru = over (map_option om_Labels (map_of (c_rulers (V s)) (objectKey d))) (om_Labels d)"
    using rk.save [OF clientOk_kinds(4) [OF ok] wf, of d] d(2,3) by metis
  have "map_of (c_tenants (V s1)) (objectKey t) = Some t" using cur V by simp
  then obtain rv s' where st: "kStatusUpdate (tenants cl) (setStatusRuler (Some (refTo d)) t) s1 =
      (Inr ((setStatusRuler (Some (refTo d)) t)\<lparr>om_ResourceVersion := rv\<rparr>), s')"
    and V': "V s' = c_tenants_update (alistUpdate (objectKey t)
      ((setStatusRuler (Some (refTo d)) t)\<lparr>om_ResourceVersion := rv\<rparr>)) (V s1)"
    using writeStatus [OF ok] unfolding setStatusRuler_def by metis
  have old: "\<exists>old. (case statusRuler t of
              None \<Rightarrow> ret zeroRuler
            | Some ref \<Rightarrow>
                handleE (kGet (rulers cl) (refKey ref)) (\<lambda>r. case r of
                    Inr ru \<Rightarrow> ret ru
                  | Inl e \<Rightarrow> if e = ApiNotFound then ret zeroRuler else failE e)) s = (Inr old, s)"
    by (auto simp: handleE_case kindOk_get [OF clientOk_kinds(4) [OF ok]] split: option.split)
  then have run: "Tenant_ruler x cl (Some sv) t s =
      (Inr ((setStatusRuler (Some (refTo d)) t)\<lparr>om_ResourceVersion := rv\<rparr>), s')"
    using label d(1) save st by (auto simp: Tenant_ruler_def mget_def Let_def)
  let ?t = "(setStatusRuler (Some (refTo d)) t)\<lparr>om_ResourceVersion := rv\<rparr>"
  have "map_of (c_rulers (V s')) (refKey (refTo d)) = Some ru" by (simp add: V V')
  then have "rulerBound sv ?t (V s')"
    using d(4-6) ru ruleSelectorsOf_more [of ?t t] by (simp add: rulerBound_def V')
  moreover have "rulerStep t ?t (V s) (V s')"
    unfolding rulerStep_def by (intro exI [of _ "Some (refTo d)"] exI [of _ rv] exI [of _ "c_rulers (V s')"]) (simp add: V V')
  moreover have "storeWf (c_rulers (V s'))"
    using storeWf_alistUpdate [OF wf key] by (simp add: V V')
  ultimately show thesis using run that by blast
qed

section \<open>Properties\<close>

text \<open>
  The name of a tenant's ruler has at most 39 bytes; a tenant name of at most 30 bytes is
  kept, so two such tenants never share a ruler.
\<close>

theorem rulerNameOf_bounds:
  assumes "rulerNameOf x n = Inr m"
  shows "length m \<le> 39 \<and> (length n \<le> 30 \<longrightarrow> m = n)"
proof (cases "length n \<le> 30")
  case True
  then show ?thesis using assms by (simp add: rulerNameOf_short)
next
  case False
  then have "m = trimChar CHR ''-'' (take 30 n) @ ''-'' @
      drop (length (fst (x_uniqueDNS1123Label x n)) - 8) (fst (x_uniqueDNS1123Label x n))"
    using assms by (auto simp: rulerNameOf_def Let_def split: if_splits)
  moreover have "length (trimChar CHR ''-'' (take 30 n)) \<le> 30"
    using length_trimChar [of "CHR ''-''" "take 30 n"] by simp
  ultimately show ?thesis using False by (auto simp: min_def split: if_splits)
qed

theorem rulerNameOf_bounds_witness:
  "rulerNameOf exExt ''tenant-a'' = Inr ''tenant-a'' \<and> length ''tenant-a'' \<le> 39"
proof -
  have "rulerNameOf exExt ''tenant-a'' = Inr ''tenant-a''" by (simp add: rulerNameOf_def)
  with rulerNameOf_bounds [OF this] show ?thesis by blast
qed

text \<open>
  After the handler has run for a tenant of a service, the tenant's status names a stored
  ruler that evaluates this tenant's rules: its tenant is this tenant, it carries the service
  label, and its selectors are the service's, followed by the tenant's own alerting rules unless
  the service switched that off.
\<close>

theorem Tenant_ruler_binds:
  assumes ok: "clientOk cl V" and cur: "map_of (c_tenants (V s)) (objectKey t) = Some t"
    and wf: "storeWf (c_rulers (V s))" and label: "serviceLabel t \<noteq> []" and named: "om_Name t \<noteq> []"
    and mangled: "8 \<le> length (fst (x_uniqueDNS1123Label x (om_Name t)))"
  shows "\<exists>t' s' ref ru. Tenant_ruler x cl (Some sv) t s = (Inr t', s') \<and>
     statusRuler t' = Some ref \<and> map_of (c_rulers (V s')) (refKey ref) = Some ru \<and>
     ru_Tenant (ru_Spec ru) = tenantId t \<and> om_Labels ru ServiceLabelKey = Some (serviceLabel t) \<and>
     ru_RuleSelectors (ru_Spec ru) = ruleSelectorsOf (sv_Spec sv) t"
proof -
  obtain t' s' where run: "Tenant_ruler x cl (Some sv) t s = (Inr t', s')" and bound: "rulerBound sv t' (V s')"
    and step: "rulerStep t t' (V s) (V s')"
    by (rule ruler_saved [OF assms])
  then have "om_Labels t' = om_Labels t" "tn_Spec t' = tn_Spec t" by (auto simp: rulerStep_def)
  with run bound ruleSelectorsOf_more [of t' t] show ?thesis unfolding rulerBound_def by auto
qed

theorem Tenant_ruler_binds_witness:
  "let t = exTenant ''tenant-one'' Map.empty; s = exCluster [t] [] [] in
   \<exists>t' s' ref ru. Tenant_ruler exExt memClient (Some exService) t s = (Inr t', s') \<and>
     statusRuler t' = Some ref \<and> map_of (c_rulers s') (refKey ref) = Some ru \<and>
     ru_Tenant (ru_Spec ru) = tenantId t \<and> om_Labels ru ServiceLabelKey = Some (serviceLabel t) \<and>
     ru_RuleSelectors (ru_Spec ru) = ruleSelectorsOf (sv_Spec exService) t"
  unfolding Let_def
  by (rule Tenant_ruler_binds [OF memClient_ok exTenant_stored])
    (simp_all add: exTenant_def exCluster_def exExt_def storeWf_def mget_def)

end
