(* ===== verification/Storage_Config.thy ===== *)
theory Storage_Config
  imports Base_Reconciler
begin

text \<open>
  The storage part of \<^verbatim>\<open>pkg/controllers/resources/base.go\<close>: the object store
  configuration built from a \<^verbatim>\<open>Storage\<close> object and the secrets it refers to, its hash,
  the volumes for its certificates, the data volume of a stateful set, and the volumes of the
  Envoy sidecar.  YAML is a parameter (\<open>yaml_lib\<close>); the tree of nodes it works on is a
  datatype, since the code searches and edits it.
\<close>

section \<open>Constants\<close>

definition ConfigPath :: string where
  "ConfigPath = ''/etc/whizard/''"
definition StorageDir :: string where
  "StorageDir = ''/whizard''"
definition TSDBVolumeName :: string where
  "TSDBVolumeName = ''tsdb''"
definition StorageProviderS3 :: string where
  "StorageProviderS3 = ''S3''"
definition EnvoyConfigMountPath :: string where
  "EnvoyConfigMountPath = ''/etc/envoy/config/''"
definition EnvoyCertsMountPath :: string where
  "EnvoyCertsMountPath = ''/etc/envoy/certs/''"
definition EnvoyConfigMapMountPath :: string where
  "EnvoyConfigMapMountPath = ''/etc/envoy/configmap/''"
definition EnvoySecretMountPath :: string where
  "EnvoySecretMountPath = ''/etc/envoy/secret/''"

section \<open>YAML nodes\<close>

datatype yaml_node = YNode (yn_Value: string) (yn_Content: "yaml_node list")

record bucket_config =
  bc_Type :: string
  bc_Config :: s3

record yaml_lib =
  y_marshalBucket :: "bucket_config \<Rightarrow> string res"
  y_unmarshal :: "string \<Rightarrow> yaml_node res"
  y_marshalNode :: "yaml_node \<Rightarrow> string res"
  y_setString :: "string \<Rightarrow> yaml_node \<Rightarrow> yaml_node"

text \<open>
  \<^verbatim>\<open>findYamlNodeByKey\<close>: depth first; a node whose value is the key and that has a right
  neighbour ends the search with that neighbour.
\<close>

fun findYamlNodeByKey :: "yaml_node \<Rightarrow> string \<Rightarrow> yaml_node option"
  and findInContent :: "yaml_node list \<Rightarrow> string \<Rightarrow> yaml_node option" where
  "findYamlNodeByKey (YNode v content) key = findInContent content key"
| "findInContent [] key = None"
| "findInContent (c # cs) key =
     (if yn_Value c = key \<and> cs \<noteq> [] then Some (hd cs)
      else (case findYamlNodeByKey c key of
              Some n \<Rightarrow> Some n
            | None \<Rightarrow> findInContent cs key))"

text \<open>
  \<^verbatim>\<open>if n := findYamlNodeByKey(root, key); n != nil \{ n.SetString(s) \}\<close> changes the tree
  through the pointer it found.
\<close>

fun setYamlNodeByKey :: "(yaml_node \<Rightarrow> yaml_node) \<Rightarrow> yaml_node \<Rightarrow> string \<Rightarrow> yaml_node"
  and setInContent :: "(yaml_node \<Rightarrow> yaml_node) \<Rightarrow> yaml_node list \<Rightarrow> string \<Rightarrow> yaml_node list" where
  "setYamlNodeByKey f (YNode v content) key = YNode v (setInContent f content key)"
| "setInContent f [] key = []"
| "setInContent f (c # cs) key =
     (if yn_Value c = key \<and> cs \<noteq> [] then c # f (hd cs) # tl cs
      else (case findYamlNodeByKey c key of
              Some n \<Rightarrow> setYamlNodeByKey f c key # cs
            | None \<Rightarrow> c # setInContent f cs key))"

section \<open>The object store configuration\<close>

definition getValueFromSecret ::
    "'s client \<Rightarrow> secret_key_selector option \<Rightarrow> string \<Rightarrow> ('s, string) act" where
  "getValueFromSecret cl ref namespace =
     (case ref of
        None \<Rightarrow> ret []
      | Some r \<Rightarrow>
          bindE (kGet (secrets cl) \<lparr>nn_Namespace = namespace, nn_Name = sks_Name r\<rparr>) (\<lambda>secret.
            ret (mget (sec_Data secret) (sks_Key r))))"

text \<open>The exported copy of the same function.\<close>

definition GetValueFromSecret ::
    "'s client \<Rightarrow> secret_key_selector option \<Rightarrow> string \<Rightarrow> ('s, string) act" where
  "GetValueFromSecret cl ref namespace =
     (case ref of
        None \<Rightarrow> ret []
      | Some r \<Rightarrow>
          bindE (kGet (secrets cl) \<lparr>nn_Namespace = namespace, nn_Name = sks_Name r\<rparr>) (\<lambda>secret.
            ret (mget (sec_Data secret) (sks_Key r))))"

definition getStorageObject :: "'s client \<Rightarrow> string \<Rightarrow> ('s, storage) act" where
  "getStorageObject cl namespaceName =
     (let array = splitOn CHR ''.'' namespaceName in
      bindE (liftE (idx array 1)) (\<lambda>name.
        kGet (storages cl) \<lparr>nn_Namespace = hd array, nn_Name = name\<rparr>))"

definition tlsFile :: "secret_key_selector \<Rightarrow> string" where
  "tlsFile ref = ConfigPath @ sks_Name ref @ ''/'' @ sks_Key ref"

definition setRefPath :: "yaml_lib \<Rightarrow> secret_key_selector option \<Rightarrow> string \<Rightarrow> yaml_node \<Rightarrow> yaml_node" where
  "setRefPath y ref key root =
     (case ref of
        None \<Rightarrow> root
      | Some r \<Rightarrow> setYamlNodeByKey (y_setString y (tlsFile r)) root key)"

definition GetStorageConfig :: "yaml_lib \<Rightarrow> 's client \<Rightarrow> string \<Rightarrow> ('s, string) act" where
  "GetStorageConfig y cl namespaceName =
     (if namespaceName = LocalStorage then ret []
      else
        bindE (getStorageObject cl namespaceName) (\<lambda>storage.
        case sg_S3 (sg_Spec storage) of
          None \<Rightarrow> ret []
        | Some s \<Rightarrow>
            bindE (liftE (y_marshalBucket y \<lparr>bc_Type = StorageProviderS3, bc_Config = s\<rparr>)) (\<lambda>bs.
            bindE (liftE (y_unmarshal y bs)) (\<lambda>root.
            bindE (getValueFromSecret cl (s3_AccessKey s) (om_Namespace storage)) (\<lambda>ak.
            let root1 = setYamlNodeByKey (y_setString y ak) root ''access_key'' in
            bindE (getValueFromSecret cl (s3_SecretKey s) (om_Namespace storage)) (\<lambda>sk.
            let root2 = setYamlNodeByKey (y_setString y sk) root1 ''secret_key'';
                tls = s3h_TLSConfig (s3_HTTPConfig s);
                root3 = setRefPath y (tls_CA tls) ''ca_file'' root2;
                root4 = setRefPath y (tls_Cert tls) ''cert_file'' root3;
                root5 = setRefPath y (tls_Key tls) ''key_file'' root4
            in liftE (y_marshalNode y root5)))))))"

definition GetStorageHash :: "ext \<Rightarrow> yaml_lib \<Rightarrow> 's client \<Rightarrow> string \<Rightarrow> ('s, string) act" where
  "GetStorageHash x y cl namespaceName =
     bindE (getStorageObject cl namespaceName) (\<lambda>storage.
     bindE (GetStorageConfig y cl namespaceName) (\<lambda>storageConfig.
     case sg_S3 (sg_Spec storage) of
       None \<Rightarrow> ret (x_md5Hex x storageConfig)
     | Some s \<Rightarrow>
         let tls = s3h_TLSConfig (s3_HTTPConfig s) in
         bindE (getValueFromSecret cl (tls_CA tls) (om_Namespace storage)) (\<lambda>ca.
         bindE (getValueFromSecret cl (tls_Key tls) (om_Namespace storage)) (\<lambda>key.
         bindE (getValueFromSecret cl (tls_Cert tls) (om_Namespace storage)) (\<lambda>cert.
         ret (x_md5Hex x (storageConfig @ ca @ key @ cert)))))))"

section \<open>Volumes\<close>

text \<open>\<^verbatim>\<open>corev1.SecretVolumeSourceDefaultMode\<close> is 0644.\<close>

definition secretVolume :: "secret_key_selector \<Rightarrow> volume" where
  "secretVolume ref = \<lparr>vol_Name = sks_Name ref, vol_Source = VolSecret (sks_Name ref) [] (Some 420)\<rparr>"

definition secretMount :: "secret_key_selector \<Rightarrow> volume_mount" where
  "secretMount ref = \<lparr>vm_Name = sks_Name ref, vm_ReadOnly = True,
     vm_MountPath = ConfigPath @ sks_Name ref @ ''/'', vm_SubPath = []\<rparr>"

definition appendVolumesAndVolumeMounts :: "volume list \<Rightarrow> volume_mount list \<Rightarrow>
    secret_key_selector option \<Rightarrow> volume list \<times> volume_mount list" where
  "appendVolumesAndVolumeMounts volumes volumeMounts ref =
     (case ref of
        None \<Rightarrow> (volumes, volumeMounts)
      | Some r \<Rightarrow>
          (let volume = secretVolume r; volumeMount = secretMount r in
           (case ReplaceInSlice volumes (\<lambda>v. vol_Name v = vol_Name volume) volume of
              (vs, replaced) \<Rightarrow> if replaced then vs else vs @ [volume],
            case ReplaceInSlice volumeMounts (\<lambda>v. vm_Name v = vm_Name volumeMount) volumeMount of
              (vs, replaced) \<Rightarrow> if replaced then vs else vs @ [volumeMount])))"

definition tlsVolumes :: "tls_config \<Rightarrow> volume list \<times> volume_mount list" where
  "tlsVolumes tls =
     (case appendVolumesAndVolumeMounts [] [] (tls_CA tls) of (v1, m1) \<Rightarrow>
      case appendVolumesAndVolumeMounts v1 m1 (tls_Cert tls) of (v2, m2) \<Rightarrow>
      appendVolumesAndVolumeMounts v2 m2 (tls_Key tls))"

definition VolumesAndVolumeMountsForStorage ::
    "'s client \<Rightarrow> string \<Rightarrow> ('s, volume list \<times> volume_mount list) act" where
  "VolumesAndVolumeMountsForStorage cl namespaceName =
     bindE (getStorageObject cl namespaceName) (\<lambda>storage.
     case sg_S3 (sg_Spec storage) of
       None \<Rightarrow> ret ([], [])
     | Some s \<Rightarrow> ret (tlsVolumes (s3h_TLSConfig (s3_HTTPConfig s))))"

definition retainOrDelete :: "string \<Rightarrow> string" where
  "retainOrDelete p = (if p \<noteq> ''Retain'' \<and> p \<noteq> ''Delete'' then ''Retain'' else p)"

definition addVolume :: "volume \<Rightarrow> stateful_set \<Rightarrow> stateful_set" where
  "addVolume v sts = sts\<lparr>sts_Spec := (sts_Spec sts)\<lparr>ss_TemplateSpec :=
     (ss_TemplateSpec (sts_Spec sts))\<lparr>ps_Volumes := ps_Volumes (ss_TemplateSpec (sts_Spec sts)) @ [v]\<rparr>\<rparr>\<rparr>"

text \<open>\<^verbatim>\<open>AddTSDBVolume\<close> changes the stateful set and the container it is given.\<close>

definition claimFor :: "persistent_volume_claim \<Rightarrow> persistent_volume_claim" where
  "claimFor pvc = pvc\<lparr>pvc_Name := (if pvc_Name pvc = [] then TSDBVolumeName else pvc_Name pvc),
     pvc_AccessModes := (case pvc_AccessModes pvc of None \<Rightarrow> Some [''ReadWriteOnce''] | m \<Rightarrow> m)\<rparr>"

definition AddTSDBVolume :: "stateful_set \<Rightarrow> container \<Rightarrow> kubernetes_volume option \<Rightarrow>
    stateful_set \<times> container" where
  "AddTSDBVolume sts container dataVolume =
     (let mount = (\<lambda>volumeName. container\<lparr>ct_VolumeMounts := ct_VolumeMounts container @
        [\<lparr>vm_Name = volumeName, vm_ReadOnly = False, vm_MountPath = StorageDir, vm_SubPath = []\<rparr>]\<rparr>)
      in case dataVolume of
        None \<Rightarrow> (addVolume \<lparr>vol_Name = TSDBVolumeName, vol_Source = VolEmptyDir []\<rparr> sts, mount TSDBVolumeName)
      | Some dv \<Rightarrow>
          (case kv_PersistentVolumeClaim dv of
             Some pvc0 \<Rightarrow>
               (let pvc = claimFor pvc0;
                    spec1 = (sts_Spec sts)\<lparr>ss_VolumeClaimTemplates := [pvc]\<rparr>;
                    spec2 = (case kv_PersistentVolumeClaimRetentionPolicy dv of
                        None \<Rightarrow> spec1
                      | Some policy \<Rightarrow> spec1\<lparr>ss_PVCRetentionPolicy := Some
                          \<lparr>rp_WhenDeleted = retainOrDelete (rp_WhenDeleted policy),
                           rp_WhenScaled = retainOrDelete (rp_WhenScaled policy)\<rparr>\<rparr>)
                in (sts\<lparr>sts_Spec := spec2\<rparr>, mount (pvc_Name pvc)))
           | None \<Rightarrow>
               (case kv_EmptyDir dv of
                  None \<Rightarrow> (addVolume \<lparr>vol_Name = TSDBVolumeName, vol_Source = VolEmptyDir []\<rparr> sts,
                           mount TSDBVolumeName)
                | Some e \<Rightarrow> (addVolume \<lparr>vol_Name = TSDBVolumeName, vol_Source = VolEmptyDir e\<rparr> sts,
                           mount TSDBVolumeName))))"

section \<open>Envoy\<close>

definition BuildEnvoySidecarContainer :: "sidecar_spec \<Rightarrow> volume_mount list \<Rightarrow> container" where
  "BuildEnvoySidecarContainer spec volumeMounts = zeroContainer\<lparr>
     ct_Name := ''envoy-sidecar'', ct_Args := [''-c'', EnvoyConfigMountPath @ ''envoy.yaml''],
     ct_Image := sc_Image spec, ct_Resources := sc_Resources spec, ct_VolumeMounts := volumeMounts\<rparr>"

text \<open>
  The name mangling of the Prometheus operator
  (\<^verbatim>\<open>k8sutil.NewResourceNamerWithPrefix(prefix).DNS1123Label(name)\<close>) is the parameter
  \<open>dns\<close>.
\<close>

fun namedVolumes :: "(string \<Rightarrow> string res) \<Rightarrow> (string \<Rightarrow> volume_source) \<Rightarrow> string \<Rightarrow> string list \<Rightarrow>
    (volume list \<times> volume_mount list) res" where
  "namedVolumes dns src path [] = Inr ([], [])"
| "namedVolumes dns src path (s # ss) =
     bindR (dns s) (\<lambda>name.
     bindR (namedVolumes dns src path ss) (\<lambda>(vs, ms).
       Inr (\<lparr>vol_Name = name, vol_Source = src s\<rparr> # vs,
            \<lparr>vm_Name = name, vm_ReadOnly = True, vm_MountPath = path @ s, vm_SubPath = []\<rparr> # ms)))"

definition BuildCommonVolumes :: "(string \<Rightarrow> string \<Rightarrow> string res) \<Rightarrow> string list \<Rightarrow> string \<Rightarrow>
    string list \<Rightarrow> string list \<Rightarrow> (volume list \<times> volume_mount list) res" where
  "BuildCommonVolumes dns tlsAssetSecrets config configmaps secretNames =
     (let volumes = [\<lparr>vol_Name = ''envoy-config'', vol_Source = VolConfigMap config\<rparr>] @
            (if tlsAssetSecrets \<noteq> []
             then [\<lparr>vol_Name = ''tls-assets'', vol_Source = VolProjectedSecrets tlsAssetSecrets\<rparr>] else []);
          mounts = [\<lparr>vm_Name = ''envoy-config'', vm_ReadOnly = True, vm_MountPath = EnvoyConfigMountPath, vm_SubPath = []\<rparr>] @
            (if tlsAssetSecrets \<noteq> []
             then [\<lparr>vm_Name = ''tls-assets'', vm_ReadOnly = True, vm_MountPath = EnvoyCertsMountPath, vm_SubPath = []\<rparr>] else [])
      in bindR (namedVolumes (dns ''secret'') (\<lambda>s. VolSecret s [] None) EnvoySecretMountPath secretNames)
           (\<lambda>(vs, ms).
         bindR (namedVolumes (dns ''configmap'') VolConfigMap EnvoyConfigMapMountPath configmaps)
           (\<lambda>(vc, mc). Inr (volumes @ vs @ vc, mounts @ ms @ mc))))"

section \<open>Lemmas\<close>

lemma yn_Value_set [simp]: "yn_Value (setYamlNodeByKey f c key) = yn_Value c"
  by (cases c) simp

lemma setInContent_empty [simp]: "setInContent f cs key = [] \<longleftrightarrow> cs = []"
  by (cases cs) (simp_all split: option.split)

lemma find_after_set:
  "findYamlNodeByKey (setYamlNodeByKey f root key) key = map_option f (findYamlNodeByKey root key)"
  "findInContent (setInContent f cs key) key = map_option f (findInContent cs key)"
  by (induction root key and cs key rule: findYamlNodeByKey_findInContent.induct)
    (auto split: option.splits)

lemma set_absent:
  "findYamlNodeByKey root key = None \<Longrightarrow> setYamlNodeByKey f root key = root"
  "findInContent cs key = None \<Longrightarrow> setInContent f cs key = cs"
  by (induction root key and cs key rule: findYamlNodeByKey_findInContent.induct)
    (auto split: option.splits if_splits)

text \<open>Replacing by name keeps the list of names, and appending adds a new one.\<close>

definition upsertNamed :: "('a \<Rightarrow> string) \<Rightarrow> 'a \<Rightarrow> 'a list \<Rightarrow> 'a list" where
  "upsertNamed name v vs =
     (case ReplaceInSlice vs (\<lambda>w. name w = name v) v of (ws, replaced) \<Rightarrow> if replaced then ws else ws @ [v])"

lemma upsertNamed_names:
  "map name (upsertNamed name v vs) =
     (if name v \<in> name ` set vs then map name vs else map name vs @ [name v])"
proof (cases rule: ReplaceInSlice_cases [of vs "\<lambda>w. name w = name v" v])
  case (replaced pre x post)
  then show ?thesis by (auto simp: upsertNamed_def)
next
  case absent
  then show ?thesis by (auto simp: upsertNamed_def)
qed

lemma appendVolumes_None [simp]: "appendVolumesAndVolumeMounts vs ms None = (vs, ms)"
  by (simp add: appendVolumesAndVolumeMounts_def)

lemma appendVolumes_eq:
  "appendVolumesAndVolumeMounts vs ms (Some r) =
     (upsertNamed vol_Name (secretVolume r) vs, upsertNamed vm_Name (secretMount r) ms)"
  by (simp add: appendVolumesAndVolumeMounts_def upsertNamed_def Let_def)

definition volumesPaired :: "volume list \<times> volume_mount list \<Rightarrow> bool" where
  "volumesPaired p \<longleftrightarrow> map vm_Name (snd p) = map vol_Name (fst p) \<and> distinct (map vol_Name (fst p))"

lemma append_paired:
  assumes "volumesPaired (vs, ms)"
  shows "volumesPaired (appendVolumesAndVolumeMounts vs ms ref)"
    and "vol_Name ` set (fst (appendVolumesAndVolumeMounts vs ms ref)) =
      vol_Name ` set vs \<union> sks_Name ` set_option ref"
proof -
  have names: "vm_Name ` set ms = vol_Name ` set vs"
    using assms by (metis fst_conv list.set_map snd_conv volumesPaired_def)
  have sr: "vol_Name (secretVolume r) = sks_Name r" "vm_Name (secretMount r) = sks_Name r" for r
    by (simp_all add: secretVolume_def secretMount_def)
  show "volumesPaired (appendVolumesAndVolumeMounts vs ms ref)"
    using assms names
    by (cases ref) (auto simp: volumesPaired_def appendVolumes_eq upsertNamed_names sr)
  have "vol_Name ` set (upsertNamed vol_Name (secretVolume r) vs) = insert (sks_Name r) (vol_Name ` set vs)" for r
    using arg_cong [OF upsertNamed_names [of vol_Name "secretVolume r" vs], of set]
    by (auto simp: sr split: if_splits)
  then show "vol_Name ` set (fst (appendVolumesAndVolumeMounts vs ms ref)) =
      vol_Name ` set vs \<union> sks_Name ` set_option ref"
    by (cases ref) (auto simp: appendVolumes_eq)
qed

lemma namedVolumes_paired:
  "namedVolumes dns src path ss = Inr (vs, ms) \<Longrightarrow> map vm_Name ms = map vol_Name vs \<and> length vs = length ss"
proof (induction ss arbitrary: vs ms)
  case (Cons s ss)
  then obtain name vs' ms' where "namedVolumes dns src path ss = Inr (vs', ms')"
      "vs = \<lparr>vol_Name = name, vol_Source = src s\<rparr> # vs'"
      "ms = \<lparr>vm_Name = name, vm_ReadOnly = True, vm_MountPath = path @ s, vm_SubPath = []\<rparr> # ms'"
    by (auto simp: bindR_Inr_iff split: prod.splits)
  with Cons.IH show ?case by simp
qed simp

text \<open>A trivial YAML library, on which properties are instantiated.\<close>

definition exYaml :: yaml_lib where
  "exYaml = \<lparr>y_marshalBucket = (\<lambda>b. Inr (bc_Type b)), y_unmarshal = (\<lambda>s. Inr (YNode s [])),
     y_marshalNode = (\<lambda>n. Inr (yn_Value n)), y_setString = (\<lambda>s n. YNode s (yn_Content n))\<rparr>"

section \<open>Properties\<close>

text \<open>
  Writing a value under a key of the configuration tree changes exactly the node that the
  search for the key returns: afterwards the search returns the changed node, and a key that is
  not there leaves the tree as it was.
\<close>

theorem setYamlNodeByKey_correct:
  "findYamlNodeByKey (setYamlNodeByKey f root key) key = map_option f (findYamlNodeByKey root key) \<and>
   (findYamlNodeByKey root key = None \<longrightarrow> setYamlNodeByKey f root key = root)"
  by (simp add: find_after_set(1) set_absent(1))

theorem setYamlNodeByKey_correct_witness:
  "findYamlNodeByKey (setYamlNodeByKey (\<lambda>n. YNode ''s3cr3t'' [])
       (YNode [] [YNode [] [YNode ''bucket'' [], YNode ''b'' [], YNode ''access_key'' [], YNode ''x'' []]])
       ''access_key'') ''access_key'' = Some (YNode ''s3cr3t'' []) \<and>
   setYamlNodeByKey (\<lambda>n. YNode ''s3cr3t'' []) (YNode [] [YNode ''bucket'' []]) ''access_key'' =
     YNode [] [YNode ''bucket'' []]"
  using setYamlNodeByKey_correct [of "\<lambda>n. YNode ''s3cr3t'' []"
      "YNode [] [YNode [] [YNode ''bucket'' [], YNode ''b'' [], YNode ''access_key'' [], YNode ''x'' []]]"
      "''access_key''"]
    setYamlNodeByKey_correct [of "\<lambda>n. YNode ''s3cr3t'' []" "YNode [] [YNode ''bucket'' []]" "''access_key''"]
  by simp

text \<open>
  The volumes for the certificates of a storage are one per secret, however many of the
  three certificate files that secret holds, with one mount of the same name each.
\<close>

theorem tlsVolumes_paired:
  "map vm_Name (snd (tlsVolumes tls)) = map vol_Name (fst (tlsVolumes tls)) \<and>
   distinct (map vol_Name (fst (tlsVolumes tls))) \<and>
   set (map vol_Name (fst (tlsVolumes tls))) =
     sks_Name ` (set_option (tls_CA tls) \<union> set_option (tls_Cert tls) \<union> set_option (tls_Key tls))"
proof -
  obtain v1 m1 where 1: "appendVolumesAndVolumeMounts [] [] (tls_CA tls) = (v1, m1)" by fastforce
  obtain v2 m2 where 2: "appendVolumesAndVolumeMounts v1 m1 (tls_Cert tls) = (v2, m2)" by fastforce
  have all: "tlsVolumes tls = appendVolumesAndVolumeMounts v2 m2 (tls_Key tls)"
    by (simp add: tlsVolumes_def 1 2)
  have p0: "volumesPaired ([], [])" by (simp add: volumesPaired_def)
  have p1: "volumesPaired (v1, m1)" using append_paired(1) [OF p0, of "tls_CA tls"] 1 by simp
  have p2: "volumesPaired (v2, m2)" using append_paired(1) [OF p1, of "tls_Cert tls"] 2 by simp
  have "volumesPaired (tlsVolumes tls)" unfolding all by (rule append_paired(1) [OF p2])
  moreover have "vol_Name ` set (fst (tlsVolumes tls)) =
      sks_Name ` (set_option (tls_CA tls) \<union> set_option (tls_Cert tls) \<union> set_option (tls_Key tls))"
    using append_paired(2) [OF p0, of "tls_CA tls"] append_paired(2) [OF p1, of "tls_Cert tls"]
      append_paired(2) [OF p2, of "tls_Key tls"] by (simp add: all 1 2 image_Un Un_assoc)
  ultimately show ?thesis by (simp add: volumesPaired_def)
qed

text \<open>
  Whatever data volume is configured, the data directory of the container is mounted from
  a volume that the stateful set really has: its own claim template when a claim is configured,
  an empty directory otherwise.  A configured retention policy ends up as one of the two values
  the API accepts.
\<close>

theorem AddTSDBVolume_backed:
  "\<exists>n. ct_VolumeMounts (snd (AddTSDBVolume sts ct dv)) = ct_VolumeMounts ct @
       [\<lparr>vm_Name = n, vm_ReadOnly = False, vm_MountPath = StorageDir, vm_SubPath = []\<rparr>] \<and> n \<noteq> [] \<and>
     (let spec = sts_Spec (fst (AddTSDBVolume sts ct dv)) in
      n \<in> vol_Name ` set (ps_Volumes (ss_TemplateSpec spec)) \<or>
      (\<exists>c. ss_VolumeClaimTemplates spec = [c] \<and> pvc_Name c = n \<and> pvc_AccessModes c \<noteq> None) \<and>
      (ss_PVCRetentionPolicy spec = ss_PVCRetentionPolicy (sts_Spec sts) \<or>
       (\<exists>p. ss_PVCRetentionPolicy spec = Some p \<and>
          rp_WhenDeleted p \<in> {''Retain'', ''Delete''} \<and> rp_WhenScaled p \<in> {''Retain'', ''Delete''})))"
  by (auto simp: AddTSDBVolume_def addVolume_def claimFor_def retainOrDelete_def Let_def TSDBVolumeName_def
      split: option.splits)

end
