(* ===== verification/Tenant_Store.thy ===== *)
theory Tenant_Store
  imports Tenant_Compactor Tenant_Ruler Storage_Config
begin

text \<open>
  The store half of the tenant controller (\<^verbatim>\<open>pkg/controllers/resources/tenant/store.go\<close>):
  one store per pair of service and storage that a live tenant uses.  Duplicates and stores that
  no tenant needs are deleted, missing ones created, and the hashes of the tenants and of the
  storage are kept in the annotations.  Go maps are association lists; where the code ranges
  over one, the order is that of \<open>x_rangeKeys\<close>.
\<close>

section \<open>Operations\<close>

record elem =
  el_service :: string
  el_storage :: string
  el_store :: "store option"

definition pairKey :: "string \<Rightarrow> string \<Rightarrow> string" where
  "pairKey service storage = service @ ''|'' @ storage"

definition elemOf :: "store \<Rightarrow> elem" where
  "elemOf st = \<lparr>el_service = mget (om_Labels st) ServiceLabelKey,
     el_storage = mget (om_Labels st) StorageLabelKey, el_store = Some st\<rparr>"

definition elemKey :: "elem \<Rightarrow> string" where
  "elemKey e = pairKey (el_service e) (el_storage e)"

text \<open>The first loop: the first live store of each pair stays, the others are deleted.\<close>

fun collectStores :: "'s client \<Rightarrow> store list \<Rightarrow> (string \<times> elem) list \<Rightarrow>
    ('s, (string \<times> elem) list) act" where
  "collectStores cl [] current = ret current"
| "collectStores cl (item # items) current =
     (if om_DeletionTimestamp item \<noteq> None then collectStores cl items current
      else
        (let e = elemOf item; key = elemKey e in
         if map_of current key \<noteq> None then
           bindE (kDelete (stores cl) item) (\<lambda>_. collectStores cl items current)
         else collectStores cl items (alistUpdate key e current)))"

definition expectTenant :: "service option \<Rightarrow> tenant \<Rightarrow> (string \<times> elem) list \<Rightarrow> (string \<times> elem) list" where
  "expectTenant svc t m =
     (if om_DeletionTimestamp t \<noteq> None then m
      else
        (let serviceNamespacedName = serviceLabel t in
         if serviceNamespacedName = [] then m
         else
           (let storageNamespacedName = storageOf svc t in
            if storageNamespacedName = LocalStorage then m
            else alistUpdate (pairKey serviceNamespacedName storageNamespacedName)
              \<lparr>el_service = serviceNamespacedName, el_storage = storageNamespacedName,
               el_store = None\<rparr> m)))"

definition sortTenantsByStorageAndService ::
    "'s client \<Rightarrow> service option \<Rightarrow> ('s, (string \<times> elem) list) act" where
  "sortTenantsByStorageAndService cl svc =
     bindE (kList (tenants cl) \<lparr>lo_Namespace = [], lo_Labels = Map.empty\<rparr>) (\<lambda>items.
       ret (foldl (\<lambda>m t. expectTenant svc t m) [] items))"

definition hashLabels :: "string \<Rightarrow> string \<Rightarrow> labels_map" where
  "hashLabels service storage = [StorageLabelKey \<mapsto> storage, ServiceLabelKey \<mapsto> service]"

text \<open>A store that stays gets the current hashes, and is updated only when one of them changed.\<close>

definition refreshStore :: "ext \<Rightarrow> yaml_lib \<Rightarrow> 's client \<Rightarrow> elem \<Rightarrow> ('s, unit) act" where
  "refreshStore x y cl e =
     (case el_store e of
        None \<Rightarrow> failE Panic
      | Some st \<Rightarrow>
          bindE (GetTenantHash x cl (hashLabels (el_service e) (el_storage e))) (\<lambda>tenantHash.
          bindE (GetStorageHash x y cl (el_storage e)) (\<lambda>storageHash.
          let tenantChanged = mget (om_Annotations st) LabelNameTenantHash \<noteq> tenantHash;
              storageChanged = mget (om_Annotations st) LabelNameStorageHash \<noteq> storageHash;
              ann1 = (if tenantChanged then (om_Annotations st)(LabelNameTenantHash \<mapsto> tenantHash)
                      else om_Annotations st);
              ann2 = (if storageChanged then ann1(LabelNameStorageHash \<mapsto> storageHash) else ann1)
          in if tenantChanged \<or> storageChanged
             then bindE (kUpdate (stores cl) (st\<lparr>om_Annotations := ann2\<rparr>)) (\<lambda>_. ret ()) else ret ())))"

text \<open>
  The second loop ranges over the expected pairs and takes those that have a store out of both
  maps.
\<close>

fun matchStores :: "ext \<Rightarrow> yaml_lib \<Rightarrow> 's client \<Rightarrow> string list \<Rightarrow>
    (string \<times> elem) list \<times> (string \<times> elem) list \<Rightarrow>
    ('s, (string \<times> elem) list \<times> (string \<times> elem) list) act" where
  "matchStores x y cl [] (current, expect) = ret (current, expect)"
| "matchStores x y cl (k # ks) (current, expect) =
     (case map_of current k of
        None \<Rightarrow> matchStores x y cl ks (current, expect)
      | Some e \<Rightarrow>
          bindE (if el_service e \<noteq> [] \<and> el_storage e \<noteq> [] then refreshStore x y cl e else ret ()) (\<lambda>_.
            matchStores x y cl ks (alistDelete k current, alistDelete k expect)))"

definition deleteElem :: "'s client \<Rightarrow> elem \<Rightarrow> ('s, unit) act" where
  "deleteElem cl e = (case el_store e of None \<Rightarrow> failE Panic | Some st \<Rightarrow> kDelete (stores cl) st)"

definition createStore :: "ext \<Rightarrow> yaml_lib \<Rightarrow> 's client \<Rightarrow> elem \<Rightarrow> ('s, unit) act" where
  "createStore x y cl e =
     (let serviceNamespacedName = splitOn CHR ''.'' (el_service e);
          storageNamespacedName = splitOn CHR ''.'' (el_storage e)
      in bindE (liftE (idx serviceNamespacedName 1)) (\<lambda>serviceName.
         bindE (liftE (idx storageNamespacedName 1)) (\<lambda>storageName.
         let st = zeroStore\<lparr>om_GenerateName := serviceName @ ''-'' @ storageName @ ''-'',
               om_Namespace := hd serviceNamespacedName,
               om_Labels := hashLabels (el_service e) (el_storage e)\<rparr>
         in bindE (GetTenantHash x cl (om_Labels st)) (\<lambda>tenantHash.
            bindE (GetStorageHash x y cl (el_storage e)) (\<lambda>storageHash.
            bindE (kCreate (stores cl) (st\<lparr>om_Annotations := [LabelNameTenantHash \<mapsto> tenantHash,
              LabelNameStorageHash \<mapsto> storageHash]\<rparr>)) (\<lambda>_. ret ()))))))"

text \<open>The elements of a map in the order in which it is ranged over.\<close>

definition ranged :: "ext \<Rightarrow> (string \<times> elem) list \<Rightarrow> elem list" where
  "ranged x m = map (\<lambda>k. the (map_of m k)) (x_rangeKeys x (map fst m))"

definition Tenant_store :: "ext \<Rightarrow> yaml_lib \<Rightarrow> 's client \<Rightarrow> service option \<Rightarrow> ('s, unit) act" where
  "Tenant_store x y cl svc =
     bindE (kList (stores cl) \<lparr>lo_Namespace = [], lo_Labels = Map.empty\<rparr>) (\<lambda>items.
     bindE (collectStores cl items []) (\<lambda>currentStores.
     bindE (sortTenantsByStorageAndService cl svc) (\<lambda>expectStores.
     bindE (matchStores x y cl (x_rangeKeys x (map fst expectStores)) (currentStores, expectStores))
       (\<lambda>(current, expect).
     bindE (forE (ranged x current) (deleteElem cl)) (\<lambda>_.
       forE (ranged x expect) (createStore x y cl))))))"

section \<open>The pairs that have a store\<close>

definition storeKeyOf :: "store \<Rightarrow> string" where
  "storeKeyOf st = elemKey (elemOf st)"

text \<open>Every store is live: named, not being deleted, and without finalizers.\<close>

definition storesLive :: "cluster \<Rightarrow> bool" where
  "storesLive c \<longleftrightarrow> storeWf (c_stores c) \<and> (\<forall>st \<in> snd ` set (c_stores c). om_Finalizers st = [])"

text \<open>Which pair each stored object serves.\<close>

definition keyMap :: "cluster \<Rightarrow> nsname \<rightharpoonup> string" where
  "keyMap c k = map_option storeKeyOf (map_of (c_stores c) k)"

text \<open>The handler writes nothing but stores.\<close>

definition untouched :: "cluster \<Rightarrow> cluster \<Rightarrow> bool" where
  "untouched c c' \<longleftrightarrow> (\<exists>sts. c' = c\<lparr>c_stores := sts\<rparr>)"

lemma untouched_stores [simp]: "untouched c c" "untouched c (c_stores_update f c)"
  unfolding untouched_def by (rule exI [of _ "c_stores c"], simp) (rule exI [of _ "f (c_stores c)"], simp)

lemma untouched_trans: "\<lbrakk>untouched a b; untouched b c\<rbrakk> \<Longrightarrow> untouched a c"
  by (auto simp: untouched_def)

lemma untouched_fields:
  assumes "untouched c c'"
  shows "c_tenants c' = c_tenants c" and "c_storages c' = c_storages c"
  using assms by (auto simp: untouched_def)

definition stored :: "store \<Rightarrow> cluster \<Rightarrow> bool" where
  "stored st c \<longleftrightarrow> map_of (c_stores c) (objectKey st) = Some st"

lemma storesLive_get:
  assumes "storesLive c" and "map_of (c_stores c) k = Some st"
  shows "objectKey st = k" "om_DeletionTimestamp st = None" "om_Finalizers st = []"
proof -
  have wf: "storeWf (c_stores c)" using assms(1) by (simp add: storesLive_def)
  show "objectKey st = k" "om_DeletionTimestamp st = None" using storeWf_get [OF wf assms(2)] .
  show "om_Finalizers st = []"
    using assms(1) map_of_SomeD [OF assms(2)] by (force simp: storesLive_def)
qed

lemma storesLive_update:
  assumes "storesLive c" and "om_DeletionTimestamp st = None" and "om_Finalizers st = []"
  shows "storesLive (c_stores_update (alistUpdate (objectKey st) st) c)"
  using assms storeWf_alistUpdate [of "c_stores c" st "objectKey st"]
    set_alistUpdate [of "objectKey st" st "c_stores c"]
  by (fastforce simp: storesLive_def)

lemma storesLive_delete:
  "storesLive c \<Longrightarrow> storesLive (c_stores_update (alistDelete k) c)"
  by (auto simp: storesLive_def storeWf_alistDelete) (auto simp: alistDelete_def)

lemma keyMap_update: "keyMap (c_stores_update (alistUpdate k st) c) = (keyMap c)(k \<mapsto> storeKeyOf st)"
  by (rule ext) (simp add: keyMap_def)

lemma keyMap_delete: "keyMap (c_stores_update (alistDelete k) c) = (keyMap c)(k := None)"
  by (rule ext) (simp add: keyMap_def)

lemma stored_eq: "\<lbrakk>stored u c; stored st c; objectKey u = objectKey st\<rbrakk> \<Longrightarrow> u = st"
  by (simp add: stored_def)

lemma keyMap_stored: "stored st c \<Longrightarrow> keyMap c (objectKey st) = Some (storeKeyOf st)"
  by (simp add: keyMap_def stored_def)

section \<open>The loops\<close>

lemma deleteStore:
  assumes ok: "clientOk cl V" and live: "storesLive (V s)" and st: "stored st (V s)"
  obtains s' where "kDelete (stores cl) st s = (Inr (), s')"
    and "V s' = c_stores_update (alistDelete (objectKey st)) (V s)"
  using kindOk_delete [OF clientOk_kinds(5) [OF ok], of s st st] st storesLive_get(3) [OF live]
  by (metis stored_def)

text \<open>
  The first loop keeps one store per pair, deletes the others and records those it keeps.
\<close>

lemma collectStores_keeps:
  assumes ok: "clientOk cl V" and "storesLive (V s)" and "distinct (map objectKey items)"
    and "\<forall>st \<in> set items. stored st (V s)"
    and "\<forall>k e. map_of m k = Some e \<longrightarrow> (\<exists>st. e = elemOf st \<and> k = storeKeyOf st \<and> stored st (V s) \<and>
           objectKey st \<notin> objectKey ` set items)"
  shows "\<exists>m' s'. collectStores cl items m s = (Inr m', s') \<and> untouched (V s) (V s') \<and>
     storesLive (V s') \<and>
     (\<forall>k e. map_of m' k = Some e \<longrightarrow> (\<exists>st. e = elemOf st \<and> k = storeKeyOf st \<and> stored st (V s'))) \<and>
     (\<forall>st. stored st (V s') \<longrightarrow> stored st (V s) \<and>
        (objectKey st \<in> objectKey ` set items \<longrightarrow> map_of m' (storeKeyOf st) = Some (elemOf st))) \<and>
     (\<forall>k. map_of m k \<noteq> None \<longrightarrow> map_of m' k = map_of m k)"
  using assms(2-5)
proof (induction items arbitrary: m s)
  case Nil
  then show ?case by simp
next
  case (Cons st items)
  have st: "stored st (V s)" using Cons.prems(3) by simp
  have alive: "om_DeletionTimestamp st = None"
    using storesLive_get(2) [OF Cons.prems(1)] st by (simp add: stored_def)
  show ?case
  proof (cases "map_of m (storeKeyOf st) = None")
    case False
    obtain s1 where del: "kDelete (stores cl) st s = (Inr (), s1)"
      and V: "V s1 = c_stores_update (alistDelete (objectKey st)) (V s)"
      by (rule deleteStore [OF ok Cons.prems(1) st])
    have keep: "stored u (V s1) \<longleftrightarrow> stored u (V s) \<and> objectKey u \<noteq> objectKey st" for u
      by (auto simp: stored_def V)
    have live1: "storesLive (V s1)" unfolding V by (rule storesLive_delete [OF Cons.prems(1)])
    have d1: "distinct (map objectKey items)" using Cons.prems(2) by simp
    have i1: "\<forall>u \<in> set items. stored u (V s1)" using Cons.prems(2,3) keep by (auto simp: image_iff)
    have m1: "\<forall>k e. map_of m k = Some e \<longrightarrow> (\<exists>u. e = elemOf u \<and> k = storeKeyOf u \<and> stored u (V s1) \<and>
        objectKey u \<notin> objectKey ` set items)"
      using Cons.prems(4) keep by fastforce
    from Cons.IH [OF live1 d1 i1 m1] obtain m' s' where IH: "collectStores cl items m s1 = (Inr m', s')"
        "untouched (V s1) (V s')" "storesLive (V s')"
        "\<forall>k e. map_of m' k = Some e \<longrightarrow> (\<exists>st. e = elemOf st \<and> k = storeKeyOf st \<and> stored st (V s'))"
        "\<forall>u. stored u (V s') \<longrightarrow> stored u (V s1) \<and>
           (objectKey u \<in> objectKey ` set items \<longrightarrow> map_of m' (storeKeyOf u) = Some (elemOf u))"
        "\<forall>k. map_of m k \<noteq> None \<longrightarrow> map_of m' k = map_of m k" by blast
    have run: "collectStores cl (st # items) m s = (Inr m', s')"
      using alive False del IH(1) by (simp add: storeKeyOf_def Let_def)
    show ?thesis
      by (rule exI [of _ m'], rule exI [of _ s'], intro conjI)
        (use run IH V keep in \<open>auto simp: untouched_def\<close>)
  next
    case True
    let ?m = "alistUpdate (storeKeyOf st) (elemOf st) m"
    have d1: "distinct (map objectKey items)" using Cons.prems(2) by simp
    have i1: "\<forall>u \<in> set items. stored u (V s)" using Cons.prems(3) by simp
    have m1: "\<forall>k e. map_of ?m k = Some e \<longrightarrow> (\<exists>u. e = elemOf u \<and> k = storeKeyOf u \<and> stored u (V s) \<and>
        objectKey u \<notin> objectKey ` set items)"
    proof (intro allI impI)
      fix k e
      assume e: "map_of ?m k = Some e"
      show "\<exists>u. e = elemOf u \<and> k = storeKeyOf u \<and> stored u (V s) \<and> objectKey u \<notin> objectKey ` set items"
      proof (cases "k = storeKeyOf st")
        case True
        then show ?thesis using e Cons.prems(2) st by (intro exI [of _ st]) simp
      next
        case False
        then show ?thesis using e Cons.prems(4) by fastforce
      qed
    qed
    from Cons.IH [OF Cons.prems(1) d1 i1 m1] obtain m' s' where IH: "collectStores cl items ?m s = (Inr m', s')"
        "untouched (V s) (V s')" "storesLive (V s')"
        "\<forall>k e. map_of m' k = Some e \<longrightarrow> (\<exists>st. e = elemOf st \<and> k = storeKeyOf st \<and> stored st (V s'))"
        "\<forall>u. stored u (V s') \<longrightarrow> stored u (V s) \<and>
           (objectKey u \<in> objectKey ` set items \<longrightarrow> map_of m' (storeKeyOf u) = Some (elemOf u))"
        "\<forall>k. map_of ?m k \<noteq> None \<longrightarrow> map_of m' k = map_of ?m k" by blast
    have run: "collectStores cl (st # items) m s = (Inr m', s')"
      using alive True IH(1) by (simp add: storeKeyOf_def Let_def)
    have mine: "map_of m' (storeKeyOf st) = Some (elemOf st)" using IH(6) by simp
    have own: "u = st" if "stored u (V s')" "objectKey u = objectKey st" for u
    proof -
      have "stored u (V s)" using IH(5) that(1) by blast
      then show "u = st" using that(2) st by (simp add: stored_def)
    qed
    have old: "\<forall>k. map_of m k \<noteq> None \<longrightarrow> map_of m' k = map_of m k" using IH(6) True by auto
    show ?thesis
      by (rule exI [of _ m'], rule exI [of _ s'], intro conjI)
        (use run IH(2-5) mine own old in \<open>auto dest: own\<close>)
  qed
qed

text \<open>
  What the second loop and the two after it keep: \<open>m\<close> holds live stores under their pairs,
  and no two stores share a pair.
\<close>

definition holds :: "(string \<times> elem) list \<Rightarrow> cluster \<Rightarrow> bool" where
  "holds m c \<longleftrightarrow> (\<forall>k e. map_of m k = Some e \<longrightarrow> (\<exists>st. e = elemOf st \<and> k = storeKeyOf st \<and> stored st c))"

definition uniquePairs :: "cluster \<Rightarrow> bool" where
  "uniquePairs c \<longleftrightarrow> (\<forall>k k' v. keyMap c k = Some v \<longrightarrow> keyMap c k' = Some v \<longrightarrow> k = k')"

lemma collectStores_all:
  assumes ok: "clientOk cl V" and live: "storesLive (V s)"
  obtains m s' where "collectStores cl (map snd (c_stores (V s))) [] s = (Inr m, s')"
    and "untouched (V s) (V s')" and "storesLive (V s')"
    and "holds m (V s')" and "uniquePairs (V s')" and "ran (keyMap (V s')) = dom (map_of m)"
    and "\<forall>st. stored st (V s') \<longrightarrow> stored st (V s)"
proof -
  have wf: "storeWf (c_stores (V s))" using live by (simp add: storesLive_def)
  have mem: "st \<in> set (map snd (c_stores (V s))) \<longleftrightarrow> stored st (V s)" for st
    using storeWf_listed [OF wf, of st "\<lparr>lo_Namespace = [], lo_Labels = Map.empty\<rparr>"]
    by (auto simp: stored_def matchesOpts_def)
  have "\<forall>st \<in> set (map snd (c_stores (V s))). stored st (V s)" using mem by blast
  moreover have "distinct (map objectKey (map snd (c_stores (V s))))"
    using storeWf_distinct_listed [OF wf, of "\<lambda>_. True"] by simp
  ultimately obtain m s' where run: "collectStores cl (map snd (c_stores (V s))) [] s = (Inr m, s')"
      "untouched (V s) (V s')" "storesLive (V s')"
      "\<forall>k e. map_of m k = Some e \<longrightarrow> (\<exists>st. e = elemOf st \<and> k = storeKeyOf st \<and> stored st (V s'))"
    and kept: "\<forall>st. stored st (V s') \<longrightarrow> stored st (V s) \<and>
        (objectKey st \<in> objectKey ` set (map snd (c_stores (V s))) \<longrightarrow>
           map_of m (storeKeyOf st) = Some (elemOf st))"
    using collectStores_keeps [OF ok live, of "map snd (c_stores (V s))" "[]"] by auto
  have holds: "holds m (V s')" using run(4) by (simp add: holds_def)
  have stored: "stored st (V s)" "map_of m (storeKeyOf st) = Some (elemOf st)" if "stored st (V s')" for st
    using kept that mem by blast+
  have unique: "uniquePairs (V s')"
    unfolding uniquePairs_def
  proof (intro allI impI)
    fix k k' v
    assume "keyMap (V s') k = Some v" and "keyMap (V s') k' = Some v"
    then obtain st st' where st: "stored st (V s')" "stored st' (V s')" "storeKeyOf st = storeKeyOf st'"
        "objectKey st = k" "objectKey st' = k'"
      using run(3) by (force simp: keyMap_def stored_def dest: storesLive_get(1))
    then have "elemOf st = elemOf st'" using stored(2) by (metis option.inject)
    then show "k = k'" using st(4,5) by (simp add: elemOf_def)
  qed
  have pairs: "ran (keyMap (V s')) = dom (map_of m)"
  proof (intro equalityI subsetI)
    fix v
    assume "v \<in> ran (keyMap (V s'))"
    then obtain k st where "map_of (c_stores (V s')) k = Some st" "v = storeKeyOf st"
      by (auto simp: ran_def keyMap_def)
    then show "v \<in> dom (map_of m)"
      using stored(2) [of st] storesLive_get(1) [OF run(3)] by (auto simp: stored_def)
  next
    fix v
    assume "v \<in> dom (map_of m)"
    then show "v \<in> ran (keyMap (V s'))"
      using holds keyMap_stored by (fastforce simp: holds_def intro: ranI)
  qed
  have sub: "\<forall>st. stored st (V s') \<longrightarrow> stored st (V s)" using stored(1) by blast
  show thesis by (rule that [OF run(1-3) holds unique pairs sub])
qed

text \<open>The storage can be read and hashed as long as the storages are those of \<open>c\<close>.\<close>

definition hashable :: "ext \<Rightarrow> yaml_lib \<Rightarrow> 's client \<Rightarrow> ('s \<Rightarrow> cluster) \<Rightarrow> cluster \<Rightarrow> string \<Rightarrow> bool" where
  "hashable x y cl V c storage \<longleftrightarrow>
     (\<forall>s. c_storages (V s) = c_storages c \<longrightarrow> (\<exists>h. GetStorageHash x y cl storage s = (Inr h, s)))"

lemma hashable_untouched:
  "\<lbrakk>untouched c c'; hashable x y cl V c n\<rbrakk> \<Longrightarrow> hashable x y cl V c' n"
  by (simp add: hashable_def untouched_fields)

lemma GetTenantHash_ok: "clientOk cl V \<Longrightarrow> \<exists>h. GetTenantHash x cl ls s = (Inr h, s)"
  by (simp add: GetTenantHash_def Let_def bindE_app kindOk_list [OF clientOk_kinds(1)])

lemma storeKeyOf_annotations [simp]:
  "storeKeyOf (st\<lparr>om_Annotations := a\<rparr>) = storeKeyOf st"
  "storeKeyOf (asStored old rv st) = storeKeyOf st"
  by (simp_all add: storeKeyOf_def elemKey_def elemOf_def asStored_def)

text \<open>Refreshing the hashes of a store changes neither its pair nor any other store.\<close>

lemma refreshStore_ok:
  assumes ok: "clientOk cl V" and live: "storesLive (V s)" and st: "stored st (V s)"
    and h: "hashable x y cl V (V s) (el_storage (elemOf st))"
  shows "\<exists>s'. refreshStore x y cl (elemOf st) s = (Inr (), s') \<and> untouched (V s) (V s') \<and> storesLive (V s') \<and>
     keyMap (V s') = keyMap (V s) \<and>
     (\<forall>u. objectKey u \<noteq> objectKey st \<longrightarrow> stored u (V s') = stored u (V s))"
proof -
  obtain th where th: "GetTenantHash x cl (hashLabels (el_service (elemOf st)) (el_storage (elemOf st))) s = (Inr th, s)"
    using GetTenantHash_ok [OF ok] by blast
  obtain sh where sh: "GetStorageHash x y cl (el_storage (elemOf st)) s = (Inr sh, s)"
    using h by (auto simp: hashable_def)
  have el: "el_store (elemOf st) = Some st" by (simp add: elemOf_def)
  note st' = storesLive_get [OF live st [unfolded stored_def]]
  show ?thesis
  proof (cases "mget (om_Annotations st) LabelNameTenantHash \<noteq> th \<or> mget (om_Annotations st) LabelNameStorageHash \<noteq> sh")
    case False
    then have "refreshStore x y cl (elemOf st) s = (Inr (), s)"
      using th sh el by (simp add: refreshStore_def Let_def)
    then show ?thesis using live untouched_stores by blast
  next
    case True
    define a where "a = (let ann1 = (if mget (om_Annotations st) LabelNameTenantHash \<noteq> th
          then (om_Annotations st)(LabelNameTenantHash \<mapsto> th) else om_Annotations st)
        in if mget (om_Annotations st) LabelNameStorageHash \<noteq> sh then ann1(LabelNameStorageHash \<mapsto> sh) else ann1)"
    let ?st = "st\<lparr>om_Annotations := a\<rparr>"
    have key: "objectKey ?st = objectKey st" by (simp add: objectKey_def)
    obtain ob s' where up: "kUpdate (stores cl) ?st s = (Inr ob, s')"
      and ob: "ob = asStored st (om_ResourceVersion ob) (keepNone st ?st)"
      and V: "V s' = c_stores_update (putObject ob) (V s)"
      using kindOk_update [OF clientOk_kinds(5) [OF ok], of s ?st st] st
      by (auto simp: key stored_def)
    have obf: "objectKey ob = objectKey st" "om_DeletionTimestamp ob = None" "om_Finalizers ob = []"
        "storeKeyOf ob = storeKeyOf st"
      by (subst ob, use st' key in \<open>simp add: keepNone_def\<close>)+
    then have V': "V s' = c_stores_update (alistUpdate (objectKey ob) ob) (V s)"
      using V by (simp add: putObject_alive)
    have "refreshStore x y cl (elemOf st) s = (Inr (), s')"
      using th sh el up True by (simp add: refreshStore_def a_def Let_def)
    moreover have "untouched (V s) (V s')" by (simp add: V')
    moreover have "storesLive (V s')" unfolding V' by (rule storesLive_update [OF live obf(2,3)])
    moreover have "keyMap (V s') = keyMap (V s)"
      using keyMap_stored [OF st] by (simp add: V' keyMap_update obf fun_upd_idem)
    moreover have "stored u (V s') = stored u (V s)" if "objectKey u \<noteq> objectKey st" for u
      using that obf(1) by (simp add: V' stored_def)
    ultimately show ?thesis by blast
  qed
qed

lemma matchStores_ok:
  assumes ok: "clientOk cl V"
    and "storesLive (V s)" "uniquePairs (V s)" "holds current (V s)"
    and "\<forall>e \<in> ran (map_of current). hashable x y cl V (V s) (el_storage e)"
  shows "\<exists>current' expect' s'. matchStores x y cl ks (current, expect) s = (Inr (current', expect'), s') \<and>
     untouched (V s) (V s') \<and> storesLive (V s') \<and> keyMap (V s') = keyMap (V s) \<and> holds current' (V s') \<and>
     map_of current' = map_of current |` (- set ks) \<and>
     map_of expect' = map_of expect |` (- (set ks \<inter> dom (map_of current)))"
  using assms(2-5)
proof (induction ks arbitrary: current expect s)
  case Nil
  then show ?case by (simp add: restrict_map_def)
next
  case (Cons k ks)
  show ?case
  proof (cases "map_of current k")
    case None
    obtain c' e' s' where IH: "matchStores x y cl ks (current, expect) s = (Inr (c', e'), s')"
        "untouched (V s) (V s')" "storesLive (V s')" "keyMap (V s') = keyMap (V s)" "holds c' (V s')"
        "map_of c' = map_of current |` (- set ks)"
        "map_of e' = map_of expect |` (- (set ks \<inter> dom (map_of current)))"
      using Cons.IH [OF Cons.prems, of expect] by blast
    have "map_of current |` (- set ks) = map_of current |` (- set (k # ks))"
      using None by (auto simp: restrict_map_def fun_eq_iff)
    moreover have "set (k # ks) \<inter> dom (map_of current) = set ks \<inter> dom (map_of current)"
      using None by auto
    ultimately show ?thesis using IH None by auto
  next
    case (Some e)
    then obtain st where st: "e = elemOf st" "k = storeKeyOf st" "stored st (V s)"
      using Cons.prems(3) by (auto simp: holds_def)
    have h: "hashable x y cl V (V s) (el_storage (elemOf st))" using Cons.prems(4) Some st(1) by (auto intro: ranI)
    obtain s1 where s1: "(if el_service e \<noteq> [] \<and> el_storage e \<noteq> [] then refreshStore x y cl e else ret ()) s = (Inr (), s1)"
        "untouched (V s) (V s1)" "storesLive (V s1)" "keyMap (V s1) = keyMap (V s)"
        "\<forall>u. objectKey u \<noteq> objectKey st \<longrightarrow> stored u (V s1) = stored u (V s)"
    proof (cases "el_service e \<noteq> [] \<and> el_storage e \<noteq> []")
      case True
      with refreshStore_ok [OF ok Cons.prems(1) st(3) h] show thesis using that st(1) by auto
    next
      case False
      then show thesis using that [of s] Cons.prems(1) by auto
    qed
    have holds1: "holds (alistDelete k current) (V s1)"
      unfolding holds_def
    proof (intro allI impI)
      fix k' e'
      assume k': "map_of (alistDelete k current) k' = Some e'"
      then have "map_of current k' = Some e'" "k' \<noteq> k" by (auto split: if_splits)
      then obtain u where u: "e' = elemOf u" "k' = storeKeyOf u" "stored u (V s)"
        using Cons.prems(3) by (auto simp: holds_def)
      then have "objectKey u \<noteq> objectKey st"
        using \<open>k' \<noteq> k\<close> st(2,3) stored_eq by blast
      then show "\<exists>u. e' = elemOf u \<and> k' = storeKeyOf u \<and> stored u (V s1)" using u s1(5) by blast
    qed
    have u1: "uniquePairs (V s1)" using Cons.prems(2) s1(4) by (simp add: uniquePairs_def)
    have h1: "\<forall>e \<in> ran (map_of (alistDelete k current)). hashable x y cl V (V s1) (el_storage e)"
    proof
      fix e'
      assume "e' \<in> ran (map_of (alistDelete k current))"
      then have "e' \<in> ran (map_of current)" by (auto simp: ran_def split: if_splits)
      then show "hashable x y cl V (V s1) (el_storage e')"
        using Cons.prems(4) hashable_untouched [OF s1(2)] by blast
    qed
    from Cons.IH [OF s1(3) u1 holds1 h1, of "alistDelete k expect"]
    obtain c' e' s' where IH: "matchStores x y cl ks (alistDelete k current, alistDelete k expect) s1 = (Inr (c', e'), s')"
        "untouched (V s1) (V s')" "storesLive (V s')" "keyMap (V s') = keyMap (V s1)" "holds c' (V s')"
        "map_of c' = map_of (alistDelete k current) |` (- set ks)"
        "map_of e' = map_of (alistDelete k expect) |` (- (set ks \<inter> dom (map_of (alistDelete k current))))"
      by blast
    have "map_of (alistDelete k current) |` (- set ks) = map_of current |` (- set (k # ks))"
      by (auto simp: restrict_map_def fun_eq_iff)
    moreover have "map_of (alistDelete k expect) |` (- (set ks \<inter> dom (map_of (alistDelete k current)))) =
        map_of expect |` (- (set (k # ks) \<inter> dom (map_of current)))"
      using Some by (auto simp: restrict_map_def fun_eq_iff)
    ultimately show ?thesis using IH s1 Some untouched_trans [OF s1(2) IH(2)] by auto
  qed
qed

text \<open>The third loop deletes the stores whose pair is not expected.\<close>

lemma deleteElems_ok:
  assumes ok: "clientOk cl V" and "storesLive (V s)" and "distinct (map objectKey sts)"
    and "\<forall>st \<in> set sts. stored st (V s)"
  shows "\<exists>s'. forE (map elemOf sts) (deleteElem cl) s = (Inr (), s') \<and> untouched (V s) (V s') \<and> storesLive (V s') \<and>
     keyMap (V s') = keyMap (V s) |` (- objectKey ` set sts)"
  using assms(2-4)
proof (induction sts arbitrary: s)
  case Nil
  then show ?case by (simp add: restrict_map_def)
next
  case (Cons st sts)
  then have st: "stored st (V s)" by simp
  obtain s1 where del: "kDelete (stores cl) st s = (Inr (), s1)"
    and V: "V s1 = c_stores_update (alistDelete (objectKey st)) (V s)"
    by (rule deleteStore [OF ok Cons.prems(1) st])
  have "storesLive (V s1)" unfolding V by (rule storesLive_delete [OF Cons.prems(1)])
  moreover have "\<forall>u \<in> set sts. stored u (V s1)"
    using Cons.prems(2,3) by (auto simp: V stored_def image_iff)
  moreover have "distinct (map objectKey sts)" using Cons.prems(2) by simp
  ultimately obtain s' where IH: "forE (map elemOf sts) (deleteElem cl) s1 = (Inr (), s')"
      "untouched (V s1) (V s')" "storesLive (V s')"
      "keyMap (V s') = keyMap (V s1) |` (- objectKey ` set sts)"
    using Cons.IH [of s1] by blast
  have "deleteElem cl (elemOf st) s = (Inr (), s1)" using del by (simp add: deleteElem_def elemOf_def)
  moreover have "keyMap (V s1) |` (- objectKey ` set sts) = keyMap (V s) |` (- objectKey ` set (st # sts))"
    by (auto simp: V keyMap_delete restrict_map_def fun_eq_iff)
  moreover have "untouched (V s) (V s')" using IH(2) by (simp add: V untouched_def)
  ultimately show ?case using IH by auto
qed

text \<open>The last loop creates a store for each expected pair that has none.\<close>

lemma createStore_ok:
  assumes ok: "clientOk cl V" and live: "storesLive (V s)" and h: "hashable x y cl V (V s) (el_storage e)"
    and parts: "2 \<le> length (splitOn CHR ''.'' (el_service e))" "2 \<le> length (splitOn CHR ''.'' (el_storage e))"
  shows "\<exists>s' k. createStore x y cl e s = (Inr (), s') \<and> untouched (V s) (V s') \<and> storesLive (V s') \<and>
     keyMap (V s) k = None \<and> keyMap (V s') = (keyMap (V s))(k \<mapsto> elemKey e)"
proof -
  obtain th where th: "GetTenantHash x cl (hashLabels (el_service e) (el_storage e)) s = (Inr th, s)"
    using GetTenantHash_ok [OF ok] by blast
  obtain sh where sh: "GetStorageHash x y cl (el_storage e) s = (Inr sh, s)"
    using h by (auto simp: hashable_def)
  define d where "d = zeroStore\<lparr>
    om_GenerateName := (splitOn CHR ''.'' (el_service e) ! 1) @ ''-'' @ (splitOn CHR ''.'' (el_storage e) ! 1) @ ''-'',
    om_Namespace := hd (splitOn CHR ''.'' (el_service e)),
    om_Labels := hashLabels (el_service e) (el_storage e),
    om_Annotations := [LabelNameTenantHash \<mapsto> th, LabelNameStorageHash \<mapsto> sh]\<rparr>"
  have d: "om_Name d = []" "om_GenerateName d \<noteq> []" by (simp_all add: d_def zero_defs)
  obtain ob s' where create: "kCreate (stores cl) d s = (Inr ob, s')"
    and ob: "ob = d\<lparr>om_Name := om_Name ob, om_ResourceVersion := om_ResourceVersion ob, om_UID := om_UID ob\<rparr>"
    and fresh: "map_of (c_stores (V s)) (objectKey ob) = None"
    and V: "V s' = c_stores_update (alistUpdate (objectKey ob) ob) (V s)"
    by (rule kindOk_generate [OF clientOk_kinds(5) [OF ok] d])
  have obf: "om_DeletionTimestamp ob = None" "om_Finalizers ob = []" "storeKeyOf ob = elemKey e"
    by (subst ob, simp add: d_def zero_defs storeKeyOf_def elemKey_def elemOf_def hashLabels_def mget_def)+
  have "createStore x y cl e s = (Inr (), s')"
    using th sh create parts by (simp add: createStore_def Let_def d_def idx_def)
  moreover have "untouched (V s) (V s')" by (simp add: V)
  moreover have "storesLive (V s')" unfolding V by (rule storesLive_update [OF live obf(1,2)])
  moreover have "keyMap (V s) (objectKey ob) = None" using fresh by (simp add: keyMap_def)
  moreover have "keyMap (V s') = (keyMap (V s))(objectKey ob \<mapsto> elemKey e)" by (simp add: V keyMap_update obf)
  ultimately show ?thesis by blast
qed

lemma createStores_ok:
  assumes ok: "clientOk cl V" and "storesLive (V s)" and "uniquePairs (V s)"
    and "distinct (map elemKey es)" and "elemKey ` set es \<inter> ran (keyMap (V s)) = {}"
    and "\<forall>e \<in> set es. hashable x y cl V (V s) (el_storage e) \<and> 2 \<le> length (splitOn CHR ''.'' (el_service e)) \<and>
           2 \<le> length (splitOn CHR ''.'' (el_storage e))"
  shows "\<exists>s'. forE es (createStore x y cl) s = (Inr (), s') \<and> untouched (V s) (V s') \<and> storesLive (V s') \<and> uniquePairs (V s') \<and>
     ran (keyMap (V s')) = ran (keyMap (V s)) \<union> elemKey ` set es"
  using assms(2-6)
proof (induction es arbitrary: s)
  case Nil
  then show ?case by simp
next
  case (Cons e es)
  obtain s1 k where c: "createStore x y cl e s = (Inr (), s1)" "storesLive (V s1)" "keyMap (V s) k = None"
      "keyMap (V s1) = (keyMap (V s))(k \<mapsto> elemKey e)" "untouched (V s) (V s1)"
    using createStore_ok [OF ok Cons.prems(1), of x y e] Cons.prems(5) by auto
  have r1: "ran (keyMap (V s1)) = insert (elemKey e) (ran (keyMap (V s)))"
    using c(3) by (simp add: c(4) ran_map_upd)
  have "elemKey e \<notin> ran (keyMap (V s))" using Cons.prems(4) by auto
  then have "uniquePairs (V s1)"
    using Cons.prems(2) unfolding uniquePairs_def c(4) by (auto simp: ran_def split: if_splits)
  moreover have "elemKey ` set es \<inter> ran (keyMap (V s1)) = {}"
    using Cons.prems(3,4) by (auto simp: r1)
  moreover have "distinct (map elemKey es)" using Cons.prems(3) by simp
  moreover have "\<forall>e \<in> set es. hashable x y cl V (V s1) (el_storage e) \<and>
      2 \<le> length (splitOn CHR ''.'' (el_service e)) \<and> 2 \<le> length (splitOn CHR ''.'' (el_storage e))"
  proof
    fix e'
    assume "e' \<in> set es"
    then show "hashable x y cl V (V s1) (el_storage e') \<and> 2 \<le> length (splitOn CHR ''.'' (el_service e')) \<and>
        2 \<le> length (splitOn CHR ''.'' (el_storage e'))"
      using Cons.prems(5) by (auto intro: hashable_untouched [OF c(5)])
  qed
  ultimately obtain s' where "forE es (createStore x y cl) s1 = (Inr (), s')" "untouched (V s1) (V s')" "storesLive (V s')"
      "uniquePairs (V s')" "ran (keyMap (V s')) = ran (keyMap (V s1)) \<union> elemKey ` set es"
    using Cons.IH [OF c(2)] by blast
  then show ?case using c(1) r1 untouched_trans [OF c(5)] by auto
qed

section \<open>The expected pairs\<close>

definition wantsStore :: "service option \<Rightarrow> tenant \<Rightarrow> bool" where
  "wantsStore svc t \<longleftrightarrow>
     om_DeletionTimestamp t = None \<and> serviceLabel t \<noteq> [] \<and> storageOf svc t \<noteq> LocalStorage"

definition pairOf :: "service option \<Rightarrow> tenant \<Rightarrow> string" where
  "pairOf svc t = pairKey (serviceLabel t) (storageOf svc t)"

definition wantedElem :: "service option \<Rightarrow> tenant \<Rightarrow> elem" where
  "wantedElem svc t = \<lparr>el_service = serviceLabel t, el_storage = storageOf svc t, el_store = None\<rparr>"

lemma expectTenant_eq:
  "expectTenant svc t m = (if wantsStore svc t then alistUpdate (pairOf svc t) (wantedElem svc t) m else m)"
  by (simp add: expectTenant_def wantsStore_def pairOf_def wantedElem_def Let_def)

lemma elemKey_wanted [simp]: "elemKey (wantedElem svc t) = pairOf svc t"
  by (simp add: elemKey_def wantedElem_def pairOf_def)

definition expectedMap :: "service option \<Rightarrow> tenant list \<Rightarrow> (string \<times> elem) list" where
  "expectedMap svc items = foldl (\<lambda>m t. expectTenant svc t m) [] items"

lemma expectedMap_snoc: "expectedMap svc (ts @ [t]) = expectTenant svc t (expectedMap svc ts)"
  by (simp add: expectedMap_def)

lemma dom_alistUpdate: "dom (map_of (alistUpdate k v m)) = insert k (dom (map_of m))"
  unfolding map_of_alistUpdate by (auto simp: dom_def)

lemma expectedMap_dom: "dom (map_of (expectedMap svc ts)) = pairOf svc ` {t \<in> set ts. wantsStore svc t}"
proof (induction ts rule: rev_induct)
  case Nil
  show ?case by (simp add: expectedMap_def)
next
  case (snoc t ts)
  have "{u \<in> set (ts @ [t]). wantsStore svc u} =
      (if wantsStore svc t then insert t {u \<in> set ts. wantsStore svc u} else {u \<in> set ts. wantsStore svc u})"
    by auto
  then show ?case
    using snoc by (simp add: expectedMap_snoc expectTenant_eq dom_alistUpdate del: map_of_alistUpdate)
qed

lemma expectedMap_elem:
  "map_of (expectedMap svc ts) k = Some e \<Longrightarrow>
     \<exists>t \<in> set ts. wantsStore svc t \<and> e = wantedElem svc t \<and> k = pairOf svc t"
proof (induction ts rule: rev_induct)
  case Nil
  then show ?case by (simp add: expectedMap_def)
next
  case (snoc t ts)
  then show ?case by (auto simp: expectedMap_snoc expectTenant_eq split: if_splits)
qed

lemma distinct_expectedMap: "distinct (map fst (expectedMap svc ts))"
proof (induction ts rule: rev_induct)
  case Nil
  show ?case by (simp add: expectedMap_def)
next
  case (snoc t ts)
  then show ?case by (simp add: expectedMap_snoc expectTenant_eq distinct_alistUpdate)
qed

text \<open>Ranging over a map visits each of its elements once.\<close>

lemma ranged_set:
  assumes "rangeOrder (x_rangeKeys x)"
  shows "set (ranged x m) = ran (map_of m)"
proof -
  have "set (x_rangeKeys x (map fst m)) = dom (map_of m)"
    by (simp add: rangeOrder_set [OF assms] dom_map_of_conv_image_fst)
  then show ?thesis by (force simp: ranged_def ran_def)
qed

lemma ranged_distinct:
  assumes "rangeOrder (x_rangeKeys x)" and "distinct (map fst m)"
    and "\<And>k e. map_of m k = Some e \<Longrightarrow> f e = k"
  shows "distinct (map f (ranged x m))"
proof -
  have keys: "set (x_rangeKeys x (map fst m)) = dom (map_of m)"
    by (simp add: rangeOrder_set [OF assms(1)] dom_map_of_conv_image_fst)
  have "map f (ranged x m) = x_rangeKeys x (map fst m)"
    unfolding ranged_def map_map
  proof (rule map_idI)
    fix k
    assume "k \<in> set (x_rangeKeys x (map fst m))"
    then obtain e where "map_of m k = Some e" using keys by blast
    then show "(f \<circ> (\<lambda>k. the (map_of m k))) k = k" using assms(3) by simp
  qed
  moreover have "distinct (x_rangeKeys x (map fst m))"
    using assms(1,2) mset_eq_imp_distinct_iff unfolding rangeOrder_def by blast
  ultimately show ?thesis by simp
qed

text \<open>Two loops keep the keys of the association lists distinct.\<close>

lemma matchStores_distinct:
  "\<lbrakk>matchStores x y cl ks (c, e) s = (Inr (c', e'), s'); distinct (map fst c); distinct (map fst e)\<rbrakk> \<Longrightarrow>
     distinct (map fst c') \<and> distinct (map fst e')"
proof (induction ks arbitrary: c e s)
  case (Cons k ks)
  then show ?case
    by (cases "map_of c k") (auto simp: bindE_Inr_iff distinct_alistDelete)
qed simp

lemma collectStores_distinct:
  "\<lbrakk>collectStores cl items m s = (Inr m', s'); distinct (map fst m)\<rbrakk> \<Longrightarrow> distinct (map fst m')"
proof (induction items arbitrary: m s)
  case (Cons st items)
  then show ?case
    by (auto simp: Let_def bindE_Inr_iff distinct_alistUpdate split: if_splits)
qed simp

text \<open>The deletion loop, on a map that holds live stores.\<close>

lemma deletePhase:
  assumes ok: "clientOk cl V" and range: "rangeOrder (x_rangeKeys x)" and live: "storesLive (V s)"
    and unique: "uniquePairs (V s)" and m: "holds m (V s)" "distinct (map fst m)"
  obtains s' where "forE (ranged x m) (deleteElem cl) s = (Inr (), s')" and "untouched (V s) (V s')"
    and "storesLive (V s')" and "uniquePairs (V s')" and "ran (keyMap (V s')) = ran (keyMap (V s)) - dom (map_of m)"
proof -
  define sts where "sts = map (\<lambda>e. the (el_store e)) (ranged x m)"
  have el: "\<exists>st. e = elemOf st \<and> stored st (V s) \<and> map_of m (storeKeyOf st) = Some e" if "e \<in> set (ranged x m)" for e
    using that m(1) unfolding ranged_set [OF range] ran_def holds_def by blast
  have same: "elemOf (the (el_store e)) = e" if "e \<in> set (ranged x m)" for e
    using el [OF that] by (auto simp: elemOf_def)
  then have elems: "map elemOf sts = ranged x m" by (simp add: sts_def map_idI comp_def)
  have stored: "stored st (V s)" if "st \<in> set sts" for st
  proof -
    from that obtain e where e: "e \<in> set (ranged x m)" "st = the (el_store e)" by (auto simp: sts_def)
    then show ?thesis using el [OF e(1)] by (auto simp: elemOf_def)
  qed
  have "distinct (map elemKey (ranged x m))"
    by (rule ranged_distinct [OF range m(2)]) (use m(1) in \<open>auto simp: holds_def storeKeyOf_def\<close>)
  then have dk: "distinct (map storeKeyOf sts)"
    unfolding elems [symmetric] by (simp add: storeKeyOf_def [abs_def] comp_def)
  have d: "distinct (map objectKey sts)"
    unfolding distinct_map
  proof
    show "distinct sts" using dk by (simp add: distinct_map)
    show "inj_on objectKey (set sts)" using stored stored_eq by (blast intro: inj_onI)
  qed
  obtain s' where s': "forE (ranged x m) (deleteElem cl) s = (Inr (), s')" "storesLive (V s')"
      "keyMap (V s') = keyMap (V s) |` (- objectKey ` set sts)" "untouched (V s) (V s')"
    using deleteElems_ok [OF ok live d] stored elems by auto
  have dom: "storeKeyOf ` set sts = dom (map_of m)"
  proof -
    have "storeKeyOf ` set sts = elemKey ` set (ranged x m)"
      unfolding elems [symmetric] by (simp add: image_image storeKeyOf_def)
    also have "\<dots> = dom (map_of m)"
      unfolding ranged_set [OF range] using m(1)
      by (force simp: ran_def holds_def storeKeyOf_def)
    finally show ?thesis .
  qed
  have "ran (keyMap (V s')) = ran (keyMap (V s)) - storeKeyOf ` set sts"
  proof (intro equalityI subsetI)
    fix v
    assume "v \<in> ran (keyMap (V s'))"
    then obtain k where k: "keyMap (V s) k = Some v" "k \<notin> objectKey ` set sts"
      unfolding s'(3) by (auto simp: ran_def restrict_map_def split: if_splits)
    have "v \<noteq> storeKeyOf st" if "st \<in> set sts" for st
      using k unique keyMap_stored [OF stored [OF that]] that unfolding uniquePairs_def by blast
    then show "v \<in> ran (keyMap (V s)) - storeKeyOf ` set sts" using k(1) by (auto intro: ranI)
  next
    fix v
    assume v: "v \<in> ran (keyMap (V s)) - storeKeyOf ` set sts"
    then obtain k where k: "keyMap (V s) k = Some v" by (auto simp: ran_def)
    have "k \<noteq> objectKey st" if "st \<in> set sts" for st
      using k v that keyMap_stored [OF stored [OF that]] by auto
    then have "keyMap (V s') k = Some v" unfolding s'(3) using k by (auto simp: restrict_map_def)
    then show "v \<in> ran (keyMap (V s'))" by (rule ranI)
  qed
  moreover have "uniquePairs (V s')"
    using unique unfolding uniquePairs_def s'(3) by (auto simp: restrict_map_def split: if_splits)
  ultimately show thesis using that s'(1,2,4) dom by simp
qed

lemma createPhase:
  assumes ok: "clientOk cl V" and range: "rangeOrder (x_rangeKeys x)" and live: "storesLive (V s)"
    and unique: "uniquePairs (V s)" and d: "distinct (map fst m)"
    and m: "\<And>k e. map_of m k = Some e \<Longrightarrow> elemKey e = k \<and> hashable x y cl V (V s) (el_storage e) \<and>
      2 \<le> length (splitOn CHR ''.'' (el_service e)) \<and> 2 \<le> length (splitOn CHR ''.'' (el_storage e))"
    and new: "dom (map_of m) \<inter> ran (keyMap (V s)) = {}"
  obtains s' where "forE (ranged x m) (createStore x y cl) s = (Inr (), s')" and "untouched (V s) (V s')" and "storesLive (V s')"
    and "uniquePairs (V s')" and "ran (keyMap (V s')) = ran (keyMap (V s)) \<union> dom (map_of m)"
proof -
  have dk: "distinct (map elemKey (ranged x m))" by (rule ranged_distinct [OF range d]) (use m in blast)
  have keys: "elemKey ` set (ranged x m) = dom (map_of m)"
    unfolding ranged_set [OF range] using m by (force simp: ran_def)
  then have "elemKey ` set (ranged x m) \<inter> ran (keyMap (V s)) = {}" using new by simp
  from createStores_ok [OF ok live unique dk this] obtain s' where
    "forE (ranged x m) (createStore x y cl) s = (Inr (), s')" "untouched (V s) (V s')" "storesLive (V s')" "uniquePairs (V s')"
    "ran (keyMap (V s')) = ran (keyMap (V s)) \<union> elemKey ` set (ranged x m)"
    using m unfolding ranged_set [OF range] by (force simp: ran_def)
  then show thesis using that keys by simp
qed

lemma store_exact:
  assumes ok: "clientOk cl V" and range: "rangeOrder (x_rangeKeys x)" and live: "storesLive (V s)"
    and used: "\<And>t. \<lbrakk>t \<in> snd ` set (c_tenants (V s)); wantsStore svc t\<rbrakk> \<Longrightarrow>
      serviceLabelOk t \<and> 2 \<le> length (splitOn CHR ''.'' (storageOf svc t)) \<and> hashable x y cl V (V s) (storageOf svc t)"
    and present: "\<And>st. stored st (V s) \<Longrightarrow> hashable x y cl V (V s) (mget (om_Labels st) StorageLabelKey)"
  shows "\<exists>s'. Tenant_store x y cl svc s = (Inr (), s') \<and> untouched (V s) (V s') \<and> storesLive (V s') \<and> uniquePairs (V s') \<and>
     ran (keyMap (V s')) = pairOf svc ` {t \<in> snd ` set (c_tenants (V s)). wantsStore svc t}"
proof -
  define ts where "ts = map snd (c_tenants (V s))"
  define ex where "ex = expectedMap svc ts"
  have all: "filter (matchesOpts \<lparr>lo_Namespace = [], lo_Labels = Map.empty\<rparr>) xs = xs" for xs :: "'z object_meta_scheme list"
    by (simp add: matchesOpts_def filter_id_conv)
  note listS = kindOk_list [OF clientOk_kinds(5) [OF ok], of "\<lparr>lo_Namespace = [], lo_Labels = Map.empty\<rparr>", unfolded all]
  note listT = kindOk_list [OF clientOk_kinds(1) [OF ok], of "\<lparr>lo_Namespace = [], lo_Labels = Map.empty\<rparr>", unfolded all]
  obtain cur s1 where c1: "collectStores cl (map snd (c_stores (V s))) [] s = (Inr cur, s1)"
      "untouched (V s) (V s1)" "storesLive (V s1)"
    and cur: "holds cur (V s1)" "uniquePairs (V s1)" "ran (keyMap (V s1)) = dom (map_of cur)"
    and old: "\<forall>st. stored st (V s1) \<longrightarrow> stored st (V s)"
    by (rule collectStores_all [OF ok live])
  have sort: "sortTenantsByStorageAndService cl svc s1 = (Inr ex, s1)"
    using listT [of s1] c1(2) by (simp add: untouched_fields sortTenantsByStorageAndService_def ex_def expectedMap_def ts_def)
  have "\<forall>e \<in> ran (map_of cur). hashable x y cl V (V s1) (el_storage e)"
    using cur(1) old present hashable_untouched [OF c1(2)] by (fastforce simp: holds_def ran_def elemOf_def)
  then obtain c' e' s2 where match: "matchStores x y cl (x_rangeKeys x (map fst ex)) (cur, ex) s1 = (Inr (c', e'), s2)"
      "storesLive (V s2)" "keyMap (V s2) = keyMap (V s1)" "holds c' (V s2)"
      "map_of c' = map_of cur |` (- set (x_rangeKeys x (map fst ex)))"
      "map_of e' = map_of ex |` (- (set (x_rangeKeys x (map fst ex)) \<inter> dom (map_of cur)))"
      "untouched (V s1) (V s2)"
    using matchStores_ok [OF ok c1(3) cur(2,1)] by blast
  have keys: "set (x_rangeKeys x (map fst ex)) = dom (map_of ex)"
    by (simp add: rangeOrder_set [OF range] dom_map_of_conv_image_fst)
  have dist: "distinct (map fst c')" "distinct (map fst e')"
    using matchStores_distinct [OF match(1)] collectStores_distinct [OF c1(1)]
      distinct_expectedMap [of svc ts] by (simp_all add: ex_def)
  have u2: "uniquePairs (V s2)" using cur(2) match(3) by (simp add: uniquePairs_def)
  obtain s3 where del: "forE (ranged x c') (deleteElem cl) s2 = (Inr (), s3)" "untouched (V s2) (V s3)"
      "storesLive (V s3)" "uniquePairs (V s3)" "ran (keyMap (V s3)) = ran (keyMap (V s2)) - dom (map_of c')"
    by (rule deletePhase [OF ok range match(2) u2 match(4) dist(1)])
  have ran3: "ran (keyMap (V s3)) = dom (map_of cur) \<inter> dom (map_of ex)"
    unfolding del(5) match(3,5) cur(3) keys by auto
  have new: "dom (map_of e') \<inter> ran (keyMap (V s3)) = {}"
    unfolding match(6) keys ran3 by auto
  have fr: "untouched (V s) (V s3)"
    by (rule untouched_trans [OF untouched_trans [OF c1(2) match(7)] del(2)])
  have want: "elemKey e = k \<and> hashable x y cl V (V s3) (el_storage e) \<and>
      2 \<le> length (splitOn CHR ''.'' (el_service e)) \<and> 2 \<le> length (splitOn CHR ''.'' (el_storage e))"
    if "map_of e' k = Some e" for k e
  proof -
    have "map_of ex k = Some e" using that unfolding match(6) by (auto simp: restrict_map_def split: if_splits)
    then obtain t where "t \<in> set ts" "wantsStore svc t" "e = wantedElem svc t" "k = pairOf svc t"
      using expectedMap_elem unfolding ex_def by blast
    then show ?thesis using used [of t] hashable_untouched [OF fr] by (auto simp: ts_def wantedElem_def serviceLabelOk_def elemKey_def pairOf_def)
  qed
  obtain s4 where create: "forE (ranged x e') (createStore x y cl) s3 = (Inr (), s4)" "untouched (V s3) (V s4)" "storesLive (V s4)"
      "uniquePairs (V s4)" "ran (keyMap (V s4)) = ran (keyMap (V s3)) \<union> dom (map_of e')"
    by (rule createPhase [OF ok range del(3,4) dist(2) want new])
  have "Tenant_store x y cl svc s = (Inr (), s4)"
    using listS [of s] c1(1) sort match(1) del(1) create(1) by (simp add: Tenant_store_def)
  moreover have "ran (keyMap (V s4)) = dom (map_of ex)"
    unfolding create(5) ran3 match(6) keys by auto
  ultimately show ?thesis
    using create(3,4) untouched_trans [OF fr create(2)] by (simp add: ex_def expectedMap_dom ts_def)
qed

lemma ex_hashable:
  "hashable exExt exYaml memClient (\<lambda>c. c)
     (c\<lparr>c_storages := [(\<lparr>nn_Namespace = ''ns'', nn_Name = ''s3''\<rparr>, zeroStorage)]\<rparr>) ''ns.s3''"
proof -
  have get: "getStorageObject memClient ''ns.s3'' s = (Inr zeroStorage, s)"
    if "c_storages s = [(\<lparr>nn_Namespace = ''ns'', nn_Name = ''s3''\<rparr>, zeroStorage)]" for s
    using that by (simp add: getStorageObject_def memClient_def memKind_def bindE_app)
  show ?thesis
    unfolding hashable_def GetStorageHash_def GetStorageConfig_def
    by (auto simp: get bindE_app LocalStorage_def zero_defs)
qed

section \<open>The stores that tenants need\<close>

text \<open>
  What a tenant needs is told by the service it names: the storage of its label, or the storage of that service
  where it names none.
\<close>

definition serviceOf :: "cluster \<Rightarrow> tenant \<Rightarrow> service option" where
  "serviceOf c t = (case splitOn CHR ''.'' (serviceLabel t) of
       ns # n # _ \<Rightarrow> map_of (c_services c) \<lparr>nn_Namespace = ns, nn_Name = n\<rparr>
     | _ \<Rightarrow> None)"

definition needsStore :: "cluster \<Rightarrow> tenant \<Rightarrow> bool" where
  "needsStore c t \<longleftrightarrow> om_DeletionTimestamp t = None \<and> serviceLabel t \<noteq> [] \<and> storageOf (serviceOf c t) t \<noteq> LocalStorage"

definition neededPair :: "cluster \<Rightarrow> tenant \<Rightarrow> string" where
  "neededPair c t = pairKey (serviceLabel t) (storageOf (serviceOf c t) t)"

text \<open>
  The tenant names its storage, or its service has the same storage as \<open>sv\<close>, the service of the tenant that is
  reconciled, as it has when it is that service.
\<close>

definition storageNamed :: "service \<Rightarrow> cluster \<Rightarrow> tenant \<Rightarrow> bool" where
  "storageNamed sv c t \<longleftrightarrow> mget (om_Labels t) StorageLabelKey \<notin> {[], DefaultStorage} \<or>
     map_option (\<lambda>own. sv_Storage (sv_Spec own)) (serviceOf c t) = Some (sv_Storage (sv_Spec sv))"

definition ownStorages :: "service \<Rightarrow> cluster \<Rightarrow> bool" where
  "ownStorages sv c \<longleftrightarrow> (\<forall>t \<in> snd ` set (c_tenants c). om_DeletionTimestamp t = None \<longrightarrow> serviceLabel t \<noteq> [] \<longrightarrow> storageNamed sv c t)"

lemma storageNamed_storage: "storageNamed sv c t \<Longrightarrow> storageOf (Some sv) t = storageOf (serviceOf c t) t"
  by (auto simp: storageNamed_def GetStorage_def Let_def)

lemma ownStorages_needed:
  assumes "ownStorages sv c" and "t \<in> snd ` set (c_tenants c)"
  shows "wantsStore (Some sv) t \<longleftrightarrow> needsStore c t" and "needsStore c t \<Longrightarrow> storageOf (Some sv) t = storageOf (serviceOf c t) t"
    and "needsStore c t \<Longrightarrow> pairOf (Some sv) t = neededPair c t"
proof -
  have same: "storageOf (Some sv) t = storageOf (serviceOf c t) t" if "om_DeletionTimestamp t = None" "serviceLabel t \<noteq> []"
    by (rule storageNamed_storage) (use assms that in \<open>unfold ownStorages_def, blast\<close>)
  then show "wantsStore (Some sv) t \<longleftrightarrow> needsStore c t" by (auto simp: wantsStore_def needsStore_def)
  show "storageOf (Some sv) t = storageOf (serviceOf c t) t" "pairOf (Some sv) t = neededPair c t" if "needsStore c t"
    using same that by (simp_all add: needsStore_def pairOf_def neededPair_def)
qed

lemma ownStorages_pairs:
  assumes "ownStorages sv c"
  shows "pairOf (Some sv) ` {t \<in> snd ` set (c_tenants c). wantsStore (Some sv) t} =
    neededPair c ` {t \<in> snd ` set (c_tenants c). needsStore c t}"
  by (rule image_cong) (use ownStorages_needed [OF assms] in auto)

section \<open>Properties\<close>

text \<open>
  C14: after the stores have been reconciled there is exactly one store for every pair of service and object
  storage that a live tenant needs, by the service and the storage it names, and no other: duplicates and
  unneeded stores are gone, missing ones exist.  Tenants of other services have to name their storage, unless the
  storage of their service is the same: the code looks the default up in the service of the tenant that is
  reconciled (\<open>Tenant_store_foreign_default\<close> shows what happens otherwise).  Every storage in use can be
  read, and the labels have two parts.
\<close>

theorem Tenant_store_exact:
  assumes ok: "clientOk cl V" and range: "rangeOrder (x_rangeKeys x)" and live: "storesLive (V s)"
    and own: "ownStorages sv (V s)"
    and used: "\<And>t. \<lbrakk>t \<in> snd ` set (c_tenants (V s)); needsStore (V s) t\<rbrakk> \<Longrightarrow> serviceLabelOk t \<and>
      2 \<le> length (splitOn CHR ''.'' (storageOf (serviceOf (V s) t) t)) \<and> hashable x y cl V (V s) (storageOf (serviceOf (V s) t) t)"
    and present: "\<And>st. stored st (V s) \<Longrightarrow> hashable x y cl V (V s) (mget (om_Labels st) StorageLabelKey)"
  shows "\<exists>s'. Tenant_store x y cl (Some sv) s = (Inr (), s') \<and> storesLive (V s') \<and> uniquePairs (V s') \<and>
     ran (keyMap (V s')) = neededPair (V s) ` {t \<in> snd ` set (c_tenants (V s)). needsStore (V s) t}"
proof -
  have used': "serviceLabelOk t \<and> 2 \<le> length (splitOn CHR ''.'' (storageOf (Some sv) t)) \<and> hashable x y cl V (V s) (storageOf (Some sv) t)"
    if t: "t \<in> snd ` set (c_tenants (V s))" "wantsStore (Some sv) t" for t
  proof -
    have "needsStore (V s) t" using ownStorages_needed(1) [OF own t(1)] t(2) by blast
    then show ?thesis using used [OF t(1)] ownStorages_needed(2) [OF own t(1)] by simp
  qed
  show ?thesis
    using store_exact [where svc = "Some sv", OF ok range live used' present] unfolding ownStorages_pairs [OF own] by blast
qed

theorem Tenant_store_exact_witness:
  "let t = exTenant ''t1'' Map.empty;
       s = (exCluster [t] [] [])\<lparr>c_storages := [(\<lparr>nn_Namespace = ''ns'', nn_Name = ''s3''\<rparr>, zeroStorage)]\<rparr>
   in \<exists>s'. Tenant_store exExt exYaml memClient (Some exService) s = (Inr (), s') \<and>
        ran (keyMap s') = {''ns.svc|ns.s3''}"
proof -
  let ?t = "exTenant ''t1'' Map.empty"
  let ?s = "(exCluster [?t] [] [])\<lparr>c_storages := [(\<lparr>nn_Namespace = ''ns'', nn_Name = ''s3''\<rparr>, zeroStorage)]\<rparr>"
  have ten: "snd ` set (c_tenants ?s) = {?t}" by (simp add: exCluster_def)
  have label: "serviceLabel ?t = ''ns.svc''" "om_DeletionTimestamp ?t = None"
    by (simp_all add: exTenant_def mget_def zero_defs)
  have svc: "serviceOf ?s ?t = Some exService"
    by (simp add: serviceOf_def label exCluster_def exService_def objectKey_def)
  then have storage: "storageOf (serviceOf ?s ?t) ?t = ''ns.s3''" using exTenant_storage by metis
  have need: "needsStore ?s ?t" "ownStorages exService ?s"
    using storage svc label ten by (simp_all add: needsStore_def LocalStorage_def ownStorages_def storageNamed_def)
  have "storesLive ?s" "\<not> stored st ?s" for st
    by (simp_all add: storesLive_def storeWf_def exCluster_def stored_def)
  moreover have "rangeOrder (x_rangeKeys exExt)" by (simp add: exExt_def rangeOrder_id)
  ultimately obtain s' where "Tenant_store exExt exYaml memClient (Some exService) ?s = (Inr (), s')"
      "ran (keyMap s') = neededPair ?s ` {t \<in> snd ` set (c_tenants ?s). needsStore ?s t}"
    using Tenant_store_exact [OF memClient_ok, of exExt ?s exService exYaml] ex_hashable storage label ten need
    by (auto simp: serviceLabelOk_def)
  moreover have "{t \<in> snd ` set (c_tenants ?s). needsStore ?s t} = {?t}" using ten need by auto
  ultimately show ?thesis
    using storage label by (simp add: neededPair_def pairKey_def)
qed

text \<open>
  The default storage is resolved against the service of the tenant that happens to be
  reconciled, for the tenants of every service.  Where all tenants use the default storage, one
  reconciliation under service \<open>sv\<close> leaves every service with stores on the storage of
  \<open>sv\<close> only, whatever the storage of that other service is.
\<close>

theorem Tenant_store_foreign_default:
  assumes ok: "clientOk cl V" and range: "rangeOrder (x_rangeKeys x)" and live: "storesLive (V s)"
    and used: "\<And>t. \<lbrakk>t \<in> snd ` set (c_tenants (V s)); wantsStore (Some sv) t\<rbrakk> \<Longrightarrow>
      serviceLabelOk t \<and> 2 \<le> length (splitOn CHR ''.'' (storageOf (Some sv) t)) \<and>
      hashable x y cl V (V s) (storageOf (Some sv) t)"
    and present: "\<And>st. stored st (V s) \<Longrightarrow> hashable x y cl V (V s) (mget (om_Labels st) StorageLabelKey)"
    and default: "\<And>t. t \<in> snd ` set (c_tenants (V s)) \<Longrightarrow> mget (om_Labels t) StorageLabelKey = DefaultStorage"
    and ref: "sv_Storage (sv_Spec sv) = Some ref"
  shows "\<exists>s'. Tenant_store x y cl (Some sv) s = (Inr (), s') \<and>
     ran (keyMap (V s')) = (\<lambda>t. pairKey (serviceLabel t) (oref_Namespace ref @ ''.'' @ oref_Name ref)) `
       {t \<in> snd ` set (c_tenants (V s)). wantsStore (Some sv) t}"
proof -
  have "pairOf (Some sv) t = pairKey (serviceLabel t) (oref_Namespace ref @ ''.'' @ oref_Name ref)"
    if "t \<in> snd ` set (c_tenants (V s))" for t
    using default [OF that] ref by (simp add: pairOf_def GetStorage_def)
  then have "pairOf (Some sv) ` {t \<in> snd ` set (c_tenants (V s)). wantsStore (Some sv) t} =
      (\<lambda>t. pairKey (serviceLabel t) (oref_Namespace ref @ ''.'' @ oref_Name ref)) `
        {t \<in> snd ` set (c_tenants (V s)). wantsStore (Some sv) t}"
    by (auto intro!: image_cong)
  moreover obtain s' where "Tenant_store x y cl (Some sv) s = (Inr (), s')"
      "ran (keyMap (V s')) = pairOf (Some sv) ` {t \<in> snd ` set (c_tenants (V s)). wantsStore (Some sv) t}"
    using store_exact [OF ok range live used present] by blast
  ultimately show ?thesis by auto
qed

theorem Tenant_store_foreign_default_witness:
  "let t = (exTenant ''t2'' Map.empty)\<lparr>om_Labels :=
         [ServiceLabelKey \<mapsto> ''ns.other'', StorageLabelKey \<mapsto> DefaultStorage]\<rparr>;
       s = (exCluster [t] [] [])\<lparr>c_storages := [(\<lparr>nn_Namespace = ''ns'', nn_Name = ''s3''\<rparr>, zeroStorage)]\<rparr>
   in \<exists>s'. Tenant_store exExt exYaml memClient (Some exService) s = (Inr (), s') \<and>
        ran (keyMap s') = {''ns.other|ns.s3''}"
proof -
  let ?t = "(exTenant ''t2'' Map.empty)\<lparr>om_Labels :=
    [ServiceLabelKey \<mapsto> ''ns.other'', StorageLabelKey \<mapsto> DefaultStorage]\<rparr>"
  let ?s = "(exCluster [?t] [] [])\<lparr>c_storages := [(\<lparr>nn_Namespace = ''ns'', nn_Name = ''s3''\<rparr>, zeroStorage)]\<rparr>"
  let ?ref = "\<lparr>oref_Namespace = ''ns'', oref_Name = ''s3''\<rparr>"
  have label: "serviceLabel ?t = ''ns.other''" "om_DeletionTimestamp ?t = None"
      "mget (om_Labels ?t) StorageLabelKey = DefaultStorage"
    by (simp_all add: exTenant_def mget_def zero_defs)
  have ref: "sv_Storage (sv_Spec exService) = Some ?ref" by (simp add: exService_def)
  have storage: "storageOf (Some exService) ?t = ''ns.s3''" using label ref by (simp add: GetStorage_def)
  have ten: "snd ` set (c_tenants ?s) = {?t}" by (simp add: exCluster_def)
  have want: "wantsStore (Some exService) ?t"
    using storage label by (simp add: wantsStore_def LocalStorage_def)
  have live: "storesLive ?s" "\<not> stored st ?s" for st
    by (simp_all add: storesLive_def storeWf_def exCluster_def stored_def)
  have range: "rangeOrder (x_rangeKeys exExt)" by (simp add: exExt_def rangeOrder_id)
  obtain s' where "Tenant_store exExt exYaml memClient (Some exService) ?s = (Inr (), s')"
      "ran (keyMap s') = (\<lambda>t. pairKey (serviceLabel t) (oref_Namespace ?ref @ ''.'' @ oref_Name ?ref)) `
         {t \<in> snd ` set (c_tenants ?s). wantsStore (Some exService) t}"
    using Tenant_store_foreign_default [OF memClient_ok, where x = exExt and s = ?s and sv = exService and
      y = exYaml and ref = ?ref] range live ex_hashable storage label ten ref
    by (auto simp: serviceLabelOk_def)
  moreover have "{t \<in> snd ` set (c_tenants ?s). wantsStore (Some exService) t} = {?t}" using ten want by auto
  ultimately show ?thesis
    using label by (simp add: pairKey_def)
qed

end
