(* ===== verification/Workload_Common.thy ===== *)
theory Workload_Common
  imports Storage_Config
begin

text \<open>
  What the workloads of the components share: names of ports and applications, the probes of
  \<^verbatim>\<open>base.go\<close>, the loop that merges the user's command-line flags into the arguments of a
  container, and the patching of containers.  The loop is written out in every component; the
  locale \<open>flag_set\<close> says once what it does, for the lists of unsupported and of repeatable
  arguments each component declares.  Functions of other packages are the record \<open>wlib\<close>.
\<close>

section \<open>Parameters\<close>

record wlib =
  w_setOwner :: "object_meta \<Rightarrow> owner_reference list \<Rightarrow> owner_reference list res"
  w_decodeContainers :: "raw \<Rightarrow> container list res"
  w_mergePatchContainers :: "container list \<Rightarrow> container list \<Rightarrow> container list res"
  w_durationString :: "int \<Rightarrow> string"
  w_yamlRelabel :: "relabel_config list \<Rightarrow> string res"
  w_version :: string

text \<open>A small instance of the parameters, for the examples.\<close>

definition exWlib :: wlib where
  "exWlib = \<lparr>w_setOwner = (\<lambda>owner refs. Inr (refs @ [\<lparr>or_APIVersion = om_APIVersion owner, or_Kind = om_Kind owner,
       or_Name = om_Name owner, or_UID = om_UID owner, or_Controller = Some True\<rparr>])),
     w_decodeContainers = (\<lambda>_. Inr []), w_mergePatchContainers = (\<lambda>a _. Inr a),
     w_durationString = (\<lambda>d. itoa d @ ''ns''), w_yamlRelabel = (\<lambda>rs. Inr (concat (map rc_Regex rs))),
     w_version = ''v1''\<rparr>"

text \<open>\<^verbatim>\<open>ctrl.SetControllerReference(owner, object, scheme)\<close>.\<close>

definition ownedBy :: "wlib \<Rightarrow> 'a object_meta_scheme \<Rightarrow> 'b object_meta_scheme \<Rightarrow> 'b object_meta_scheme res" where
  "ownedBy w owner ob =
     bindR (w_setOwner w (object_meta.truncate owner) (om_OwnerReferences ob)) (\<lambda>refs.
       Inr (ob\<lparr>om_OwnerReferences := refs\<rparr>))"

section \<open>Empty objects\<close>

definition zeroStatefulSet :: stateful_set where
  "zeroStatefulSet = \<lparr>om_APIVersion = [], om_Kind = [], om_Name = [], om_GenerateName = [], om_Namespace = [],
     om_UID = [], om_ResourceVersion = [], om_Labels = Map.empty, om_Annotations = Map.empty,
     om_Finalizers = [], om_DeletionTimestamp = None, om_OwnerReferences = [], sts_Spec = zeroStatefulSetSpec\<rparr>"

definition zeroDeployment :: deployment where
  "zeroDeployment = \<lparr>om_APIVersion = [], om_Kind = [], om_Name = [], om_GenerateName = [], om_Namespace = [],
     om_UID = [], om_ResourceVersion = [], om_Labels = Map.empty, om_Annotations = Map.empty,
     om_Finalizers = [], om_DeletionTimestamp = None, om_OwnerReferences = [], dep_Replicas = None, dep_Selector = Map.empty,
     dep_TemplateLabels = Map.empty, dep_TemplateAnnotations = Map.empty, dep_TemplateSpec = zeroPodSpec\<rparr>"

definition zeroKubeService :: kube_service where
  "zeroKubeService = \<lparr>om_APIVersion = [], om_Kind = [], om_Name = [], om_GenerateName = [], om_Namespace = [],
     om_UID = [], om_ResourceVersion = [], om_Labels = Map.empty, om_Annotations = Map.empty,
     om_Finalizers = [], om_DeletionTimestamp = None, om_OwnerReferences = [], ks_Type = [], ks_ClusterIP = [],
     ks_ClusterIPs = [], ks_IPFamilies = [], ks_IPFamilyPolicy = None, ks_Selector = Map.empty, ks_Ports = []\<rparr>"

definition zeroConfigMap :: config_map where
  "zeroConfigMap = \<lparr>om_APIVersion = [], om_Kind = [], om_Name = [], om_GenerateName = [], om_Namespace = [],
     om_UID = [], om_ResourceVersion = [], om_Labels = Map.empty, om_Annotations = Map.empty,
     om_Finalizers = [], om_DeletionTimestamp = None, om_OwnerReferences = [], cm_Data = Map.empty\<rparr>"

definition zeroSecret :: secret where
  "zeroSecret = \<lparr>om_APIVersion = [], om_Kind = [], om_Name = [], om_GenerateName = [], om_Namespace = [],
     om_UID = [], om_ResourceVersion = [], om_Labels = Map.empty, om_Annotations = Map.empty,
     om_Finalizers = [], om_DeletionTimestamp = None, om_OwnerReferences = [], sec_Data = Map.empty, sec_StringData = Map.empty\<rparr>"

section \<open>Constants\<close>

definition ReceiveReplicaLabelName :: string where
  "ReceiveReplicaLabelName = ''receive_replica''"
definition RulerReplicaLabelName :: string where
  "RulerReplicaLabelName = ''ruler_replica''"
definition AppNameGateway :: string where
  "AppNameGateway = ''gateway''"
definition AppNameQuery :: string where
  "AppNameQuery = ''query''"
definition AppNameQueryFrontend :: string where
  "AppNameQueryFrontend = ''query-frontend''"
definition AppNameRouter :: string where
  "AppNameRouter = ''router''"
definition AppNameIngester :: string where
  "AppNameIngester = ''ingester''"
definition AppNameRuler :: string where
  "AppNameRuler = ''ruler''"
definition AppNameStore :: string where
  "AppNameStore = ''store''"
definition AppNameCompactor :: string where
  "AppNameCompactor = ''compactor''"
definition AppNameBlockManager :: string where
  "AppNameBlockManager = ''block-manager''"
definition ServiceNameSuffix :: string where
  "ServiceNameSuffix = ''operated''"
definition LabelNameAppName :: string where
  "LabelNameAppName = ''app.kubernetes.io/name''"
definition LabelNameAppManagedBy :: string where
  "LabelNameAppManagedBy = ''app.kubernetes.io/managed-by''"
definition LabelNameStorePartition :: string where
  "LabelNameStorePartition = ''monitoring.whizard.io/store-partition''"
definition LabelNameRulerShardSn :: string where
  "LabelNameRulerShardSn = ''monitoring.whizard.io/ruler-shard-sn''"
definition TenantHash :: string where
  "TenantHash = ''TENANT_HASH''"
definition StorageHash :: string where
  "StorageHash = ''STORAGE_HASH''"
definition GRPCPortName :: string where
  "GRPCPortName = ''grpc''"
definition GRPCPort :: int where
  "GRPCPort = 10901"
definition HTTPPortName :: string where
  "HTTPPortName = ''http''"
definition HTTPPort :: int where
  "HTTPPort = 10902"
definition RemoteWritePortName :: string where
  "RemoteWritePortName = ''remote-write''"
definition RemoteWritePort :: int where
  "RemoteWritePort = 19291"
definition CapNProtoPortName :: string where
  "CapNProtoPortName = ''capnproto''"
definition CapNProtoPort :: int where
  "CapNProtoPort = 19391"

definition tcpPort :: "string \<Rightarrow> int \<Rightarrow> container_port" where
  "tcpPort name n = \<lparr>cpt_Protocol = ''TCP'', cpt_Name = name, cpt_ContainerPort = n\<rparr>"

definition tcpServicePort :: "string \<Rightarrow> int \<Rightarrow> service_port" where
  "tcpServicePort name n = \<lparr>sp_Protocol = ''TCP'', sp_Name = name, sp_Port = n, sp_TargetPort = None, sp_NodePort = 0\<rparr>"

section \<open>Probes\<close>

definition httpProbe :: "int \<Rightarrow> int \<Rightarrow> string \<Rightarrow> string \<Rightarrow> probe" where
  "httpProbe failures period scheme path = \<lparr>pb_InitialDelaySeconds = 0, pb_TimeoutSeconds = 0,
     pb_PeriodSeconds = period, pb_SuccessThreshold = 0, pb_FailureThreshold = failures,
     pb_Handler = HTTPGet scheme path HTTPPortName\<rparr>"

definition DefaultLivenessProbe :: probe where
  "DefaultLivenessProbe = httpProbe 4 30 ''HTTP'' ''/-/healthy''"
definition DefaultReadinessProbe :: probe where
  "DefaultReadinessProbe = httpProbe 20 5 ''HTTP'' ''/-/ready''"
definition DefaultLivenessProbeWithTLS :: probe where
  "DefaultLivenessProbeWithTLS = httpProbe 4 30 ''HTTPS'' ''/-/healthy''"
definition DefaultReadinessProbeWithTLS :: probe where
  "DefaultReadinessProbeWithTLS = httpProbe 20 5 ''HTTPS'' ''/-/ready''"

section \<open>Arguments\<close>

text \<open>
  One turn of the loop over \<^verbatim>\<open>Spec.Flags\<close>: an unsupported flag is ignored, a repeatable one
  appended, any other one replaces the first argument of its name or is appended.
\<close>

definition applyFlag :: "string list \<Rightarrow> string list \<Rightarrow> string list \<Rightarrow> string \<Rightarrow> string list" where
  "applyFlag unsupported repeatable args flag =
     (let arg = GetArgName flag in
      if Contains unsupported arg then args
      else if Contains repeatable arg then args @ [flag]
      else (case ReplaceInSlice args (\<lambda>v. GetArgName v = GetArgName flag) flag of
              (args', replaced) \<Rightarrow> if replaced then args' else args' @ [flag]))"

definition mergeFlags :: "string list \<Rightarrow> string list \<Rightarrow> string list \<Rightarrow> string list \<Rightarrow> string list" where
  "mergeFlags unsupported repeatable args flags = foldl (applyFlag unsupported repeatable) args flags"

text \<open>\<^verbatim>\<open>sort.Strings(args[1:])\<close>: the subcommand stays in front.\<close>

definition sortArgs :: "string list \<Rightarrow> string list" where
  "sortArgs args = (case args of [] \<Rightarrow> [] | a # as \<Rightarrow> a # sortStrings as)"

definition optArg :: "string \<Rightarrow> string \<Rightarrow> string list" where
  "optArg prefix value = (if value \<noteq> [] then [prefix @ value] else [])"

section \<open>Containers\<close>

text \<open>
  The block at the end of every workload: where the spec holds raw containers they are decoded
  and merged into the generated ones.
\<close>

definition patchContainers :: "wlib \<Rightarrow> 'a common_spec_scheme \<Rightarrow> container list \<Rightarrow> container list res" where
  "patchContainers w spec containers =
     (if cs_Containers spec = [] then Inr containers
      else (case w_decodeContainers w (cs_Containers spec) of
              Inl e \<Rightarrow> Inl (Wrapped ''failed to decode containers'' e)
            | Inr embedded \<Rightarrow>
                (case w_mergePatchContainers w containers embedded of
                   Inl e \<Rightarrow> Inl (Wrapped ''failed to merge containers spec'' e)
                 | Inr cs \<Rightarrow> Inr cs)))"

definition updPodSpec :: "(pod_spec \<Rightarrow> pod_spec) \<Rightarrow> stateful_set \<Rightarrow> stateful_set" where
  "updPodSpec f sts = sts\<lparr>sts_Spec := (sts_Spec sts)\<lparr>ss_TemplateSpec := f (ss_TemplateSpec (sts_Spec sts))\<rparr>\<rparr>"

text \<open>
  The workloads that update an existing object: the object is read, with the generated metadata where
  it does not exist; the container of a name is the last one of that name, or a fresh one that is
  appended.
\<close>

definition getOr :: "('s, 'a object_meta_scheme) kind_client \<Rightarrow> 'a object_meta_scheme \<Rightarrow> ('s, 'a object_meta_scheme) act" where
  "getOr k ob = handleE (kGet k (objectKey ob)) (\<lambda>r. case r of
       Inr stored \<Rightarrow> ret stored
     | Inl e \<Rightarrow> if IsNotFound (Some e) then ret ob else failE e)"

definition containerIndex :: "string \<Rightarrow> container list \<Rightarrow> nat option" where
  "containerIndex name cs = find (\<lambda>i. ct_Name (cs ! i) = name) (rev [0..<length cs])"

definition mainContainer :: "string \<Rightarrow> container \<Rightarrow> stateful_set \<Rightarrow> container" where
  "mainContainer name fresh sts =
     (let cs = ps_Containers (ss_TemplateSpec (sts_Spec sts)) in
      case containerIndex name cs of None \<Rightarrow> fresh | Some i \<Rightarrow> cs ! i)"

definition putContainer :: "string \<Rightarrow> container \<Rightarrow> container list \<Rightarrow> container list" where
  "putContainer name ct cs = (case containerIndex name cs of None \<Rightarrow> cs @ [ct] | Some i \<Rightarrow> cs[i := ct])"

definition withDefaultProbes :: "container \<Rightarrow> container" where
  "withDefaultProbes ct = ct\<lparr>
     ct_LivenessProbe := (case ct_LivenessProbe ct of None \<Rightarrow> Some DefaultLivenessProbe | p \<Rightarrow> p),
     ct_ReadinessProbe := (case ct_ReadinessProbe ct of None \<Rightarrow> Some DefaultReadinessProbe | p \<Rightarrow> p)\<rparr>"

definition setEnv :: "string \<Rightarrow> string \<Rightarrow> env_var list \<Rightarrow> env_var list" where
  "setEnv name value envs =
     (let env = \<lparr>ev_Name = name, ev_Value = value, ev_ValueFrom = None\<rparr> in
      case ReplaceInSlice envs (\<lambda>v. ev_Name v = name) env of (envs', replaced) \<Rightarrow>
        if replaced then envs' else envs' @ [env])"

text \<open>\<^verbatim>\<open>OwnerReferences()\<close> of the components: a reference to the component as controller.\<close>

definition controllerRef :: "'a object_meta_scheme \<Rightarrow> owner_reference list" where
  "controllerRef ob = [\<lparr>or_APIVersion = om_APIVersion ob, or_Kind = om_Kind ob, or_Name = om_Name ob,
     or_UID = om_UID ob, or_Controller = Some True\<rparr>]"

text \<open>\<^verbatim>\<open>errResourcesFunc\<close>: a single resource that fails.\<close>

definition errResourcesFunc :: "gerror \<Rightarrow> 's resource list" where
  "errResourcesFunc err = [failE err]"

section \<open>What merging flags does\<close>

definition argsNamed :: "string \<Rightarrow> string list \<Rightarrow> string list" where
  "argsNamed n args = filter (\<lambda>a. GetArgName a = n) args"

lemma argsNamed_append [simp]: "argsNamed n (a @ b) = argsNamed n a @ argsNamed n b"
  by (simp add: argsNamed_def)

lemma argsNamed_Cons [simp]: "argsNamed n (a # as) = (if GetArgName a = n then a # argsNamed n as else argsNamed n as)"
  by (simp add: argsNamed_def)

lemma argsNamed_Nil [simp]: "argsNamed n [] = []"
  by (simp add: argsNamed_def)

lemma argsNamed_empty: "\<forall>a \<in> set args. GetArgName a \<noteq> n \<Longrightarrow> argsNamed n args = []"
  by (simp add: argsNamed_def)

lemma argsNamed_sortArgs: "mset (argsNamed n (sortArgs args)) = mset (argsNamed n args)"
  by (simp add: argsNamed_def sortArgs_def split: list.split)

lemma GetArgName_append:
  "GetArgName (p @ s) = (if CHR ''='' \<in> set p then GetArgName p else p @ GetArgName s)"
  by (induction p) (simp_all add: GetArgName_def2)

lemma mset_le_one: "mset xs = mset ys \<Longrightarrow> length ys \<le> 1 \<Longrightarrow> xs = ys"
  by (cases ys) auto

lemma sortArgs_single:
  "length (argsNamed n args) \<le> 1 \<Longrightarrow> argsNamed n (sortArgs args) = argsNamed n args"
  by (rule mset_le_one [OF argsNamed_sortArgs])

text \<open>
  The lists of a component.  A name in neither list has one argument at most; the last flag the
  user gave for it wins over the default.
\<close>

locale flag_set =
  fixes unsupported repeatable :: "string list"
  assumes apart: "set unsupported \<inter> set repeatable = {}"
begin

lemma applyFlag_unsupported:
  "n \<in> set unsupported \<Longrightarrow> argsNamed n (applyFlag unsupported repeatable args flag) = argsNamed n args"
proof (cases rule: ReplaceInSlice_cases [of args "\<lambda>v. GetArgName v = GetArgName flag" flag])
  case (replaced pre x post)
  assume "n \<in> set unsupported"
  with replaced show ?thesis by (auto simp: applyFlag_def Let_def)
next
  case absent
  assume "n \<in> set unsupported"
  with absent show ?thesis by (auto simp: applyFlag_def Let_def)
qed

lemma applyFlag_repeatable:
  assumes "n \<in> set repeatable"
  shows "argsNamed n (applyFlag unsupported repeatable args flag) = argsNamed n args @ argsNamed n [flag]"
proof (cases rule: ReplaceInSlice_cases [of args "\<lambda>v. GetArgName v = GetArgName flag" flag])
  case (replaced pre x post)
  with assms apart show ?thesis by (auto simp: applyFlag_def Let_def)
next
  case absent
  with assms apart show ?thesis by (auto simp: applyFlag_def Let_def)
qed

text \<open>Any other flag takes the place of the first argument of its name.\<close>

lemma applyFlag_first:
  assumes "n \<notin> set unsupported" and "n \<notin> set repeatable"
  shows "argsNamed n (applyFlag unsupported repeatable args flag) =
    (if GetArgName flag = n then flag # tl (argsNamed n args) else argsNamed n args)"
proof (cases rule: ReplaceInSlice_cases [of args "\<lambda>v. GetArgName v = GetArgName flag" flag])
  case (replaced pre x post)
  with assms show ?thesis
    by (auto simp: applyFlag_def Let_def argsNamed_empty)
next
  case absent
  with assms show ?thesis by (auto simp: applyFlag_def Let_def argsNamed_empty)
qed

lemma mergeFlags_unsupported:
  "n \<in> set unsupported \<Longrightarrow> argsNamed n (mergeFlags unsupported repeatable args flags) = argsNamed n args"
  by (induction flags arbitrary: args) (simp_all add: mergeFlags_def applyFlag_unsupported)

lemma mergeFlags_repeatable:
  "n \<in> set repeatable \<Longrightarrow>
   argsNamed n (mergeFlags unsupported repeatable args flags) = argsNamed n args @ argsNamed n flags"
  by (induction flags arbitrary: args) (simp_all add: mergeFlags_def applyFlag_repeatable)

lemma mergeFlags_first:
  "n \<notin> set unsupported \<Longrightarrow> n \<notin> set repeatable \<Longrightarrow>
   argsNamed n (mergeFlags unsupported repeatable args flags) =
   (if argsNamed n flags = [] then argsNamed n args else last (argsNamed n flags) # tl (argsNamed n args))"
proof (induction flags arbitrary: args)
  case (Cons f fs)
  let ?args = "applyFlag unsupported repeatable args f"
  have one: "argsNamed n ?args = (if GetArgName f = n then f # tl (argsNamed n args) else argsNamed n args)"
    using applyFlag_first Cons.prems by blast
  then have "argsNamed n (mergeFlags unsupported repeatable ?args fs) =
      (if argsNamed n fs = [] then argsNamed n ?args else last (argsNamed n fs) # tl (argsNamed n ?args))"
    using Cons by simp
  with one show ?case by (simp add: mergeFlags_def)
qed (simp add: mergeFlags_def)

text \<open>The same for the arguments as they end up in the container, sorted behind the subcommand.\<close>

lemma sorted_merge_all:
  "mset (argsNamed n (sortArgs (mergeFlags unsupported repeatable args flags))) =
    mset (if n \<in> set unsupported then argsNamed n args
          else if n \<in> set repeatable then argsNamed n args @ argsNamed n flags
          else if argsNamed n flags = [] then argsNamed n args
          else last (argsNamed n flags) # tl (argsNamed n args))"
  by (simp add: argsNamed_sortArgs mergeFlags_unsupported mergeFlags_repeatable mergeFlags_first)

lemma sorted_merge:
  assumes "length (argsNamed n args) \<le> 1"
  shows "mset (argsNamed n (sortArgs (mergeFlags unsupported repeatable args flags))) =
    mset (if n \<in> set unsupported then argsNamed n args
          else if n \<in> set repeatable then argsNamed n args @ argsNamed n flags
          else if argsNamed n flags = [] then argsNamed n args else [last (argsNamed n flags)])"
proof -
  have "tl (argsNamed n args) = []" using assms by (cases "argsNamed n args") simp_all
  then show ?thesis by (simp add: sorted_merge_all)
qed

lemma sorted_merge_single:
  assumes "n \<notin> set repeatable" and "length (argsNamed n args) \<le> 1"
  shows "argsNamed n (sortArgs (mergeFlags unsupported repeatable args flags)) =
    (if n \<in> set unsupported \<or> argsNamed n flags = [] then argsNamed n args else [last (argsNamed n flags)])"
  by (rule mset_le_one) (use sorted_merge [OF assms(2), of flags] assms in auto)

end

end
