(* ===== verification/Service_Defaults.thy ===== *)
theory Service_Defaults
  imports Workload_Common
begin

text \<open>
  \<^verbatim>\<open>pkg/controllers/resources/service.go\<close>: \<^verbatim>\<open>ApplyDefaults\<close> fills the gaps of the
  component templates of a service before a controller merges its template into an instance.
  A \<^verbatim>\<open>ResourceRequirements\<close> whose encoded size is zero has neither requests nor limits.
\<close>

section \<open>Default images and resources\<close>

definition DefaultWhizardBaseImage :: string where
  "DefaultWhizardBaseImage = ''docker.io/thanosio/thanos:v0.38.0''"
definition DefaultPrometheusConfigReloaderImage :: string where
  "DefaultPrometheusConfigReloaderImage = ''quay.io/prometheus-operator/prometheus-config-reloader:v0.81.0''"
definition DefaultEnvoyImage :: string where
  "DefaultEnvoyImage = ''docker.io/envoyproxy/envoy:v1.20.2''"
definition DefaultRulerWriteProxyImage :: string where
  "DefaultRulerWriteProxyImage = ''docker.io/kubesphere/cortex-tenant:v1.12.5''"
definition DefaultIngesterTSDBCleanupImage :: string where
  "DefaultIngesterTSDBCleanupImage = ''bash:5.1.16''"
definition DefaultWhizardMonitoringGatewayImage :: "wlib \<Rightarrow> string" where
  "DefaultWhizardMonitoringGatewayImage w = ''docker.io/kubesphere/whizard-monitoring-gateway:'' @ w_version w"
definition DefaultWhizardBlockManagerImage :: "wlib \<Rightarrow> string" where
  "DefaultWhizardBlockManagerImage w = ''docker.io/kubesphere/whizard-monitoring-block-manager:'' @ w_version w"

definition resourcesOf :: "string \<Rightarrow> string \<Rightarrow> string \<Rightarrow> string \<Rightarrow> resource_requirements" where
  "resourcesOf rcpu rmem lcpu lmem =
     \<lparr>rr_Requests = [''cpu'' \<mapsto> rcpu, ''memory'' \<mapsto> rmem], rr_Limits = [''cpu'' \<mapsto> lcpu, ''memory'' \<mapsto> lmem]\<rparr>"

definition ComponentResourcePresetMedium :: resource_requirements where
  "ComponentResourcePresetMedium = resourcesOf ''50m'' ''64Mi'' ''2'' ''4Gi''"
definition ComponentResourcePresetLarge :: resource_requirements where
  "ComponentResourcePresetLarge = resourcesOf ''50m'' ''64Mi'' ''4'' ''16Gi''"
definition reloaderResources :: resource_requirements where
  "reloaderResources = resourcesOf ''100m'' ''128Mi'' ''100m'' ''128Mi''"

section \<open>Filling the gaps\<close>

definition orImage :: "string \<Rightarrow> string \<Rightarrow> string" where
  "orImage dflt s = (if s = [] then dflt else s)"

definition orSome :: "'a \<Rightarrow> 'a option \<Rightarrow> 'a option" where
  "orSome dflt v = (case v of None \<Rightarrow> Some dflt | Some _ \<Rightarrow> v)"

definition orResources :: "resource_requirements \<Rightarrow> resource_requirements \<Rightarrow> resource_requirements" where
  "orResources dflt r = (if rr_Requests r = Map.empty \<and> rr_Limits r = Map.empty then dflt else r)"

text \<open>Image, replicas and resources of a template, which \<^verbatim>\<open>ApplyDefaults\<close> treats alike.\<close>

definition fillCommon :: "string \<Rightarrow> int \<Rightarrow> resource_requirements \<Rightarrow> 'a common_spec_scheme \<Rightarrow> 'a common_spec_scheme" where
  "fillCommon img replicas res t = t\<lparr>cs_Image := orImage img (cs_Image t),
     cs_Replicas := orSome replicas (cs_Replicas t), cs_Resources := orResources res (cs_Resources t)\<rparr>"

definition fillSidecar :: "string \<Rightarrow> resource_requirements \<Rightarrow> sidecar_spec \<Rightarrow> sidecar_spec" where
  "fillSidecar img res c = c\<lparr>sc_Image := orImage img (sc_Image c), sc_Resources := orResources res (sc_Resources c)\<rparr>"

definition fillIngester :: "ingester_template_spec \<Rightarrow> ingester_template_spec" where
  "fillIngester t0 =
     (let t = fillCommon DefaultWhizardBaseImage 2 ComponentResourcePresetLarge t0 in
      t\<lparr>ig_IngesterTSDBCleanUp := fillSidecar DefaultIngesterTSDBCleanupImage ComponentResourcePresetMedium (ig_IngesterTSDBCleanUp t),
        ig_LocalTsdbRetention := orImage ''7d'' (ig_LocalTsdbRetention t)\<rparr>)"

definition fillQuery :: "query_spec \<Rightarrow> query_spec" where
  "fillQuery t0 =
     (let t = fillCommon DefaultWhizardBaseImage 3 ComponentResourcePresetMedium t0 in
      t\<lparr>qu_Envoy := fillSidecar DefaultEnvoyImage ComponentResourcePresetMedium (qu_Envoy t)\<rparr>)"

definition fillRuler :: "wlib \<Rightarrow> ruler_template_spec \<Rightarrow> ruler_template_spec" where
  "fillRuler w t0 =
     (let t = fillCommon DefaultWhizardBaseImage 1 ComponentResourcePresetMedium t0 in
      t\<lparr>ru_PrometheusConfigReloader := fillSidecar DefaultPrometheusConfigReloaderImage reloaderResources (ru_PrometheusConfigReloader t),
        ru_RulerQueryProxy := fillSidecar (DefaultWhizardMonitoringGatewayImage w) ComponentResourcePresetMedium (ru_RulerQueryProxy t),
        ru_RulerWriteProxy := fillSidecar DefaultRulerWriteProxyImage ComponentResourcePresetMedium (ru_RulerWriteProxy t)\<rparr>)"

definition fillRouter :: "router_spec \<Rightarrow> router_spec" where
  "fillRouter t0 =
     (let t = fillCommon DefaultWhizardBaseImage 2 ComponentResourcePresetMedium t0 in
      t\<lparr>ro_ReplicationFactor := orSome 1 (ro_ReplicationFactor t)\<rparr>)"

definition ApplyDefaults :: "wlib \<Rightarrow> service \<Rightarrow> service" where
  "ApplyDefaults w service =
     (let sp = sv_Spec service in service\<lparr>sv_Spec := sp\<lparr>
        sv_CompactorTemplateSpec := fillCommon DefaultWhizardBaseImage 1 ComponentResourcePresetMedium (sv_CompactorTemplateSpec sp),
        sv_GatewayTemplateSpec := fillCommon (DefaultWhizardMonitoringGatewayImage w) 2 ComponentResourcePresetMedium (sv_GatewayTemplateSpec sp),
        sv_IngesterTemplateSpec := fillIngester (sv_IngesterTemplateSpec sp),
        sv_QueryFrontendTemplateSpec := fillCommon DefaultWhizardBaseImage 2 ComponentResourcePresetMedium (sv_QueryFrontendTemplateSpec sp),
        sv_QueryTemplateSpec := fillQuery (sv_QueryTemplateSpec sp),
        sv_RulerTemplateSpec := fillRuler w (sv_RulerTemplateSpec sp),
        sv_RouterTemplateSpec := fillRouter (sv_RouterTemplateSpec sp),
        sv_StoreTemplateSpec := fillCommon DefaultWhizardBaseImage 2 ComponentResourcePresetLarge (sv_StoreTemplateSpec sp)\<rparr>\<rparr>)"

section \<open>Templates are complete\<close>

definition resourcesSet :: "resource_requirements \<Rightarrow> bool" where
  "resourcesSet r \<longleftrightarrow> rr_Requests r \<noteq> Map.empty \<or> rr_Limits r \<noteq> Map.empty"

definition commonComplete :: "'a common_spec_scheme \<Rightarrow> bool" where
  "commonComplete t \<longleftrightarrow> cs_Image t \<noteq> [] \<and> cs_Replicas t \<noteq> None \<and> resourcesSet (cs_Resources t)"

definition sidecarComplete :: "sidecar_spec \<Rightarrow> bool" where
  "sidecarComplete c \<longleftrightarrow> sc_Image c \<noteq> [] \<and> resourcesSet (sc_Resources c)"

definition templatesComplete :: "service \<Rightarrow> bool" where
  "templatesComplete s \<longleftrightarrow>
     (let sp = sv_Spec s in
      commonComplete (sv_CompactorTemplateSpec sp) \<and> commonComplete (sv_GatewayTemplateSpec sp) \<and>
      commonComplete (sv_IngesterTemplateSpec sp) \<and> sidecarComplete (ig_IngesterTSDBCleanUp (sv_IngesterTemplateSpec sp)) \<and>
      ig_LocalTsdbRetention (sv_IngesterTemplateSpec sp) \<noteq> [] \<and>
      commonComplete (sv_QueryFrontendTemplateSpec sp) \<and>
      commonComplete (sv_QueryTemplateSpec sp) \<and> sidecarComplete (qu_Envoy (sv_QueryTemplateSpec sp)) \<and>
      commonComplete (sv_RulerTemplateSpec sp) \<and> sidecarComplete (ru_PrometheusConfigReloader (sv_RulerTemplateSpec sp)) \<and>
      sidecarComplete (ru_RulerQueryProxy (sv_RulerTemplateSpec sp)) \<and> sidecarComplete (ru_RulerWriteProxy (sv_RulerTemplateSpec sp)) \<and>
      commonComplete (sv_RouterTemplateSpec sp) \<and> ro_ReplicationFactor (sv_RouterTemplateSpec sp) \<noteq> None \<and>
      commonComplete (sv_StoreTemplateSpec sp))"

named_theorems default_simps \<open>what filling a template does\<close>

lemma or_simps [default_simps]:
  "orImage d s = [] \<longleftrightarrow> d = [] \<and> s = []" "s \<noteq> [] \<Longrightarrow> orImage d s = s"
  "orSome v x \<noteq> None" "x \<noteq> None \<Longrightarrow> orSome v x = x"
  by (auto simp: orImage_def orSome_def split: option.splits)

lemma orResources_simps [default_simps]:
  "resourcesSet d \<Longrightarrow> resourcesSet (orResources d r)" "resourcesSet r \<Longrightarrow> orResources d r = r"
  by (auto simp: orResources_def resourcesSet_def)

lemma presets_set [default_simps]:
  "resourcesSet ComponentResourcePresetMedium" "resourcesSet ComponentResourcePresetLarge" "resourcesSet reloaderResources"
  by (simp_all add: resourcesSet_def ComponentResourcePresetMedium_def ComponentResourcePresetLarge_def
      reloaderResources_def resourcesOf_def)

lemma images_set [default_simps]:
  "DefaultWhizardBaseImage \<noteq> []" "DefaultPrometheusConfigReloaderImage \<noteq> []" "DefaultEnvoyImage \<noteq> []"
  "DefaultRulerWriteProxyImage \<noteq> []" "DefaultIngesterTSDBCleanupImage \<noteq> []" "DefaultWhizardMonitoringGatewayImage w \<noteq> []"
  by (simp_all add: DefaultWhizardBaseImage_def DefaultPrometheusConfigReloaderImage_def DefaultEnvoyImage_def
      DefaultRulerWriteProxyImage_def DefaultIngesterTSDBCleanupImage_def DefaultWhizardMonitoringGatewayImage_def)

lemma fillCommon_complete [default_simps]:
  "img \<noteq> [] \<Longrightarrow> resourcesSet res \<Longrightarrow> commonComplete (fillCommon img n res t)"
  by (simp add: fillCommon_def commonComplete_def default_simps)

lemma fillCommon_id [default_simps]: "commonComplete t \<Longrightarrow> fillCommon img n res t = t"
  by (simp add: fillCommon_def commonComplete_def default_simps)

lemma fillSidecar_complete [default_simps]:
  "img \<noteq> [] \<Longrightarrow> resourcesSet res \<Longrightarrow> sidecarComplete (fillSidecar img res c)"
  by (simp add: fillSidecar_def sidecarComplete_def default_simps)

lemma fillSidecar_id [default_simps]: "sidecarComplete c \<Longrightarrow> fillSidecar img res c = c"
  by (simp add: fillSidecar_def sidecarComplete_def default_simps)

lemma commonComplete_updates [default_simps]:
  "commonComplete (t\<lparr>ig_IngesterTSDBCleanUp := c, ig_LocalTsdbRetention := l\<rparr>) = commonComplete (t :: ingester_template_spec)"
  "commonComplete (q\<lparr>qu_Envoy := c\<rparr>) = commonComplete (q :: query_spec)"
  "commonComplete (u\<lparr>ru_PrometheusConfigReloader := c, ru_RulerQueryProxy := c2, ru_RulerWriteProxy := c3\<rparr>) =
     commonComplete (u :: ruler_template_spec)"
  "commonComplete (o'\<lparr>ro_ReplicationFactor := f\<rparr>) = commonComplete (o' :: router_spec)"
  by (simp_all add: commonComplete_def)

lemma ApplyDefaults_complete: "templatesComplete (ApplyDefaults w s)"
  by (simp add: templatesComplete_def ApplyDefaults_def Let_def fillIngester_def fillQuery_def fillRuler_def fillRouter_def
      default_simps del: not_None_eq)

lemma ApplyDefaults_id: "templatesComplete s \<Longrightarrow> ApplyDefaults w s = s"
  by (simp add: templatesComplete_def ApplyDefaults_def Let_def fillIngester_def fillQuery_def fillRuler_def fillRouter_def
      default_simps del: not_None_eq)

text \<open>
  C33: the defaults complete every component template of a service (image, replicas and resources
  of the component and of each side car, the retention of the ingester, the replication factor of
  the router) and change nothing that is set: a complete service is left as it is, so applying
  the defaults twice is applying them once.
\<close>

theorem ApplyDefaults_completes:
  "templatesComplete (ApplyDefaults w s) \<and> (templatesComplete s \<longrightarrow> ApplyDefaults w s = s) \<and>
   ApplyDefaults w (ApplyDefaults w s) = ApplyDefaults w s"
  by (simp add: ApplyDefaults_complete ApplyDefaults_id)

theorem ApplyDefaults_completes_witness:
  "ApplyDefaults exWlib (ApplyDefaults exWlib zeroService) = ApplyDefaults exWlib zeroService \<and>
   ApplyDefaults exWlib zeroService \<noteq> zeroService"
proof -
  have "\<not> templatesComplete zeroService"
    by (simp add: templatesComplete_def commonComplete_def zeroService_def zeroServiceSpec_def zeroCompactorTemplateSpec_def)
  then show ?thesis using ApplyDefaults_completes [of exWlib zeroService] by metis
qed

end
