(* ===== verification/Controller_Common.thy ===== *)
theory Controller_Common
  imports Service_Defaults
begin

text \<open>
  The steps every controller of \<^verbatim>\<open>pkg/controllers\<close> starts with: fetch the object, leave an
  object without a service label alone, fetch its service, complete the service with the defaults
  and merge the template of the component into the object; and the handlers that map an event on
  another object to the objects to reconcile.  \<^verbatim>\<open>mergo.Merge\<close> is a function of another
  package: the record \<open>merge_lib\<close> holds it at each type it is used at.
\<close>

record merge_lib =
  mg_ingester :: "ingester_spec \<Rightarrow> ingester_spec \<Rightarrow> ingester_spec res"
  mg_compactor :: "compactor_spec \<Rightarrow> compactor_spec \<Rightarrow> compactor_spec res"
  mg_store :: "store_spec \<Rightarrow> store_spec \<Rightarrow> store_spec res"
  mg_router :: "router_spec \<Rightarrow> router_spec \<Rightarrow> router_spec res"
  mg_query :: "query_spec \<Rightarrow> query_spec \<Rightarrow> query_spec res"
  mg_queryFrontend :: "query_frontend_spec \<Rightarrow> query_frontend_spec \<Rightarrow> query_frontend_spec res"
  mg_gateway :: "gateway_spec \<Rightarrow> gateway_spec \<Rightarrow> gateway_spec res"
  mg_ruler :: "ruler_spec \<Rightarrow> ruler_spec \<Rightarrow> ruler_spec res"

text \<open>An instance for the examples, in which the object keeps its own spec.\<close>

definition exMerge :: merge_lib where
  "exMerge = \<lparr>mg_ingester = (\<lambda>a _. Inr a), mg_compactor = (\<lambda>a _. Inr a), mg_store = (\<lambda>a _. Inr a),
     mg_router = (\<lambda>a _. Inr a), mg_query = (\<lambda>a _. Inr a), mg_queryFrontend = (\<lambda>a _. Inr a),
     mg_gateway = (\<lambda>a _. Inr a), mg_ruler = (\<lambda>a _. Inr a)\<rparr>"

text \<open>\<^verbatim>\<open>ctrl.Result\<close>.\<close>

record ctrl_result =
  cr_Requeue :: bool
  cr_RequeueAfter :: int

definition noResult :: ctrl_result where
  "noResult = \<lparr>cr_Requeue = False, cr_RequeueAfter = 0\<rparr>"

definition fetchThen :: "('s, 'o) kind_client \<Rightarrow> nsname \<Rightarrow> ('o \<Rightarrow> ('s, ctrl_result) act) \<Rightarrow> ('s, ctrl_result) act" where
  "fetchThen k req f = handleE (kGet k req) (\<lambda>r. case r of
       Inl e \<Rightarrow> if e = ApiNotFound then ret noResult else failE e
     | Inr inst \<Rightarrow> f inst)"

text \<open>\<^verbatim>\<open>*util.ServiceNamespacedName(o)\<close> dereferences nil when the label is not \<open>ns.name\<close>.\<close>

definition fetchService :: "'s client \<Rightarrow> 'a object_meta_scheme \<Rightarrow> ('s, service) act" where
  "fetchService cl ob = (case ServiceNamespacedName ob of
       None \<Rightarrow> failE Panic
     | Some nn \<Rightarrow> kGet (services cl) nn)"

section \<open>Event handlers\<close>

text \<open>On a failing list the handlers log the error and return nothing.\<close>

definition listOrEmpty :: "('s, 'o list) act \<Rightarrow> ('s, 'o list) act" where
  "listOrEmpty m = handleE m (\<lambda>r. case r of Inl _ \<Rightarrow> ret [] | Inr xs \<Rightarrow> ret xs)"

definition mapFuncBySelectorFunc ::
  "('s, 'a object_meta_scheme) kind_client \<Rightarrow> ('b object_meta_scheme \<Rightarrow> labels_map) \<Rightarrow>
   'b object_meta_scheme \<Rightarrow> ('s, nsname list) act" where
  "mapFuncBySelectorFunc k fn ob =
     bindE (listOrEmpty (kList k \<lparr>lo_Namespace = [], lo_Labels = fn ob\<rparr>)) (\<lambda>items. ret (map objectKey items))"

section \<open>Lemmas\<close>

lemma fetchThen_found: "kGet k req s = (Inr inst, s') \<Longrightarrow> fetchThen k req f s = f inst s'"
  by (simp add: fetchThen_def)

lemma fetchThen_missing: "kGet k req s = (Inl ApiNotFound, s') \<Longrightarrow> fetchThen k req f s = (Inr noResult, s')"
  by (simp add: fetchThen_def)

text \<open>A handler never fails, and reconciles exactly the objects that carry the labels.\<close>

lemma mapFunc_requests:
  fixes k :: "('s, 'a object_meta_scheme) kind_client"
  assumes "kindOk k V sel upd keep"
  shows "mapFuncBySelectorFunc k fn ob s =
    (Inr (map objectKey (filter (\<lambda>i. fn ob \<subseteq>\<^sub>m om_Labels i) (map snd (sel (V s))))), s)"
proof -
  have "matchesOpts \<lparr>lo_Namespace = [], lo_Labels = fn ob\<rparr> = (\<lambda>i :: 'a object_meta_scheme. fn ob \<subseteq>\<^sub>m om_Labels i)"
    by (rule ext) (simp add: matchesOpts_def)
  then show ?thesis
    by (simp add: mapFuncBySelectorFunc_def bindE_app listOrEmpty_def handleE_case kindOk_list [OF assms])
qed

end
