(* ===== verification/Tenant_Controller.thy ===== *)
theory Tenant_Controller
  imports Tenant_Store Controller_Common
begin

text \<open>
  The tenant controller: \<^verbatim>\<open>pkg/controllers/resources/tenant/tenant.go\<close> runs the four halves
  one after the other on the same tenant, \<^verbatim>\<open>pkg/controllers/tenant_controller.go\<close> fetches
  and validates the tenant and maps events of other objects to the tenants to reconcile.
\<close>

section \<open>tenant.go\<close>

text \<open>\<^verbatim>\<open>New\<close> resolves the service; the rest of the structure is the tenant itself.\<close>

definition Tenant_New :: "'s client \<Rightarrow> tenant \<Rightarrow> ('s, service) act" where
  "Tenant_New cl t = SetService cl t"

definition Tenant_Reconcile ::
    "ext \<Rightarrow> yaml_lib \<Rightarrow> 's client \<Rightarrow> service option \<Rightarrow> tenant \<Rightarrow> ('s, unit) act" where
  "Tenant_Reconcile x y cl svc t =
     bindE (Tenant_ingester x cl svc t) (\<lambda>t1.
     bindE (Tenant_ruler x cl svc t1) (\<lambda>t2.
     bindE (Tenant_compactor cl svc t2) (\<lambda>t3.
     Tenant_store x y cl svc)))"

section \<open>tenant_controller.go\<close>

definition tenantValidator :: "tenant \<Rightarrow> tenant" where
  "tenantValidator t =
     (if tenantId t = [] then t\<lparr>tn_Spec := (tn_Spec t)\<lparr>ts_Tenant := om_Name t\<rparr>\<rparr> else t)"

definition TenantReconciler_Reconcile ::
    "ext \<Rightarrow> yaml_lib \<Rightarrow> 's client \<Rightarrow> nsname \<Rightarrow> ('s, unit) act" where
  "TenantReconciler_Reconcile x y cl req =
     handleE (kGet (tenants cl) req) (\<lambda>r. case r of
         Inl e \<Rightarrow> if e = ApiNotFound then ret () else failE e
       | Inr inst \<Rightarrow>
           (let t = tenantValidator inst in
            if om_Labels t ServiceLabelKey = None \<or> serviceLabel t = [] then ret ()
            else bindE (Tenant_New cl t) (\<lambda>sv. Tenant_Reconcile x y cl (Some sv) t)))"

definition tenantRequest :: "tenant \<Rightarrow> nsname" where
  "tenantRequest t = \<lparr>nn_Namespace = [], nn_Name = om_Name t\<rparr>"

datatype tenant_event = OnCompactor compactor | OnIngester ingester | OnRuler ruler

definition eventTenants :: "tenant_event \<Rightarrow> string list" where
  "eventTenants ev = (case ev of
     OnCompactor ob \<Rightarrow> cp_Tenants (cp_Spec ob)
   | OnIngester ob \<Rightarrow> ig_Tenants (ig_Spec ob)
   | OnRuler ob \<Rightarrow> [ru_Tenant (ru_Spec ob)])"

definition mapToTenantbyObjectSpecFunc :: "'s client \<Rightarrow> tenant_event \<Rightarrow> ('s, nsname list) act" where
  "mapToTenantbyObjectSpecFunc cl ev =
     (let ts = eventTenants ev in
      if ts = [] then ret []
      else bindE (listOrEmpty (kList (tenants cl) \<lparr>lo_Namespace = [], lo_Labels = Map.empty\<rparr>)) (\<lambda>items.
        ret (map tenantRequest (filter (\<lambda>item. Contains ts (tenantId item)) items))))"

definition mapToTenantByService :: "'s client \<Rightarrow> service \<Rightarrow> ('s, nsname list) act" where
  "mapToTenantByService cl ob =
     bindE (listOrEmpty (kList (tenants cl) \<lparr>lo_Namespace = [], lo_Labels = ManagedLabelByService ob\<rparr>)) (\<lambda>items.
       ret (map tenantRequest
         (filter (\<lambda>item. mget (om_Labels item) StorageLabelKey = DefaultStorage) items)))"

definition mapToTenantByStore :: "'s client \<Rightarrow> ('s, nsname list) act" where
  "mapToTenantByStore cl =
     bindE (listOrEmpty (kList (tenants cl) \<lparr>lo_Namespace = [], lo_Labels = Map.empty\<rparr>)) (\<lambda>items.
       ret (case items of [] \<Rightarrow> [] | t # _ \<Rightarrow> [tenantRequest t]))"

section \<open>Properties\<close>

text \<open>
  A tenant without a service label is never touched, whatever its finalizers, its status
  and its deletion request: the controller returns before the code that removes its bindings
  and its finalizers.
\<close>

theorem unlabelled_tenant_untouched:
  assumes ok: "clientOk cl V" and t: "map_of (c_tenants (V s)) req = Some t"
    and label: "serviceLabel t = []"
  shows "TenantReconciler_Reconcile x y cl req s = (Inr (), s)"
  using t label
  by (simp add: TenantReconciler_Reconcile_def handleE_case kindOk_get [OF clientOk_kinds(1) [OF ok]]
      tenantValidator_def)

theorem unlabelled_tenant_untouched_witness:
  "let t = zeroTenant\<lparr>om_Name := ''t1'', om_DeletionTimestamp := Some 5, om_Finalizers := [FinalizerIngester]\<rparr>;
       s = exCluster [t] [] []
   in TenantReconciler_Reconcile exExt exYaml memClient (objectKey t) s = (Inr (), s)"
  unfolding Let_def
  by (rule unlabelled_tenant_untouched [OF memClient_ok exTenant_stored])
    (simp add: zero_defs mget_def)

text \<open>
  An event on an ingester, compactor or ruler reconciles exactly the tenants the object
  lists, by their tenant identifier, and nothing when the object lists none.
\<close>

theorem event_requests:
  assumes ok: "clientOk cl V"
  shows "\<exists>reqs. mapToTenantbyObjectSpecFunc cl ev s = (Inr reqs, s) \<and>
     set reqs = tenantRequest ` {t \<in> snd ` set (c_tenants (V s)). tenantId t \<in> set (eventTenants ev)}"
proof -
  have all: "matchesOpts \<lparr>lo_Namespace = [], lo_Labels = Map.empty\<rparr> ob" for ob :: tenant
    by (simp add: matchesOpts_def)
  show ?thesis
    by (cases "eventTenants ev = []")
      (auto simp: mapToTenantbyObjectSpecFunc_def Let_def listOrEmpty_def bindE_app handleE_case
        kindOk_list [OF clientOk_kinds(1) [OF ok]] all)
qed

theorem event_requests_witness:
  "let t = exTenant ''t1'' Map.empty; s = exCluster [t] [] [];
       ev = OnIngester (zeroIngester\<lparr>ig_Spec := zeroIngesterSpec\<lparr>ig_Tenants := [''t1'']\<rparr>\<rparr>)
   in \<exists>reqs. mapToTenantbyObjectSpecFunc memClient ev s = (Inr reqs, s) \<and>
     set reqs = tenantRequest ` {t \<in> snd ` set (c_tenants s). tenantId t \<in> set (eventTenants ev)}"
  unfolding Let_def by (rule event_requests [OF memClient_ok])

end
