(* ===== verification/Tenant_Lifecycle.thy ===== *)
theory Tenant_Lifecycle
  imports Tenant_Controller
begin

text \<open>
  The life of a tenant under repeated reconciliation.  The four halves of the tenant controller are
  proved correct one by one in \<open>Tenant_Ingester\<close>, \<open>Tenant_Ruler\<close>, \<open>Tenant_Compactor\<close> and \<open>Tenant_Store\<close>;
  here they run one after the other, as \<^verbatim>\<open>Tenant.Reconcile\<close> does, and the controller is run again and
  again, as it is when nothing else happens in the cluster.
\<close>

section \<open>Tenants and clusters in good order\<close>

text \<open>A live tenant of a service with object storage that shares its components with others.\<close>

definition plainTenant :: "service \<Rightarrow> tenant \<Rightarrow> bool" where
  "plainTenant sv t \<longleftrightarrow> om_DeletionTimestamp t = None \<and> om_Name t \<noteq> [] \<and> serviceLabelOk t \<and>
     storageOf (Some sv) t \<noteq> LocalStorage \<and> 2 \<le> length (splitOn CHR ''.'' (storageOf (Some sv) t)) \<and>
     \<not> labelTrue (om_Labels t) ExclusiveLabelKey"

definition serviceKey :: "tenant \<Rightarrow> nsname" where
  "serviceKey t = \<lparr>nn_Namespace = serviceNs t, nn_Name = splitOn CHR ''.'' (serviceLabel t) ! 1\<rparr>"

text \<open>
  Tenants of other services name their storage (see \<open>storageNamed\<close>).  The labels of a tenant that wants a store
  have two parts and, like every label value, no bar; the storage can be read.
\<close>

definition usable :: "ext \<Rightarrow> yaml_lib \<Rightarrow> 's client \<Rightarrow> ('s \<Rightarrow> cluster) \<Rightarrow> cluster \<Rightarrow> service \<Rightarrow> tenant \<Rightarrow> bool" where
  "usable x y cl V c sv u \<longleftrightarrow> (om_DeletionTimestamp u = None \<longrightarrow> serviceLabel u \<noteq> [] \<longrightarrow> storageNamed sv c u) \<and>
     (wantsStore (Some sv) u \<longrightarrow> serviceLabelOk u \<and> 2 \<le> length (splitOn CHR ''.'' (storageOf (Some sv) u)) \<and>
     hashable x y cl V c (storageOf (Some sv) u) \<and>
     CHR ''|'' \<notin> set (serviceLabel u) \<and> CHR ''|'' \<notin> set (storageOf (Some sv) u))"

definition storesUsable :: "ext \<Rightarrow> yaml_lib \<Rightarrow> 's client \<Rightarrow> ('s \<Rightarrow> cluster) \<Rightarrow> service \<Rightarrow> cluster \<Rightarrow> bool" where
  "storesUsable x y cl V sv c \<longleftrightarrow> storesLive c \<and> (\<forall>u \<in> snd ` set (c_tenants c). usable x y cl V c sv u) \<and>
     (\<forall>st. stored st c \<longrightarrow> hashable x y cl V c (mget (om_Labels st) StorageLabelKey))"

text \<open>
  The cluster holds the tenant's service and is ready for the tenant: see \<open>sharedReady\<close> and
  \<open>compactorsReady\<close>.
\<close>

definition clusterReady :: "ext \<Rightarrow> yaml_lib \<Rightarrow> 's client \<Rightarrow> ('s \<Rightarrow> cluster) \<Rightarrow> service \<Rightarrow> tenant \<Rightarrow> cluster \<Rightarrow> bool" where
  "clusterReady x y cl V sv t c \<longleftrightarrow>
     map_option withServiceDefaults (map_of (c_services c) (serviceKey t)) = Some sv \<and>
     sharedReady (Some sv) t c \<and> compactorsReady t c \<and> storeWf (c_rulers c) \<and> storesUsable x y cl V sv c"

text \<open>The same tenant, with another status, other finalizers or another version.\<close>

definition sameTenant :: "tenant \<Rightarrow> tenant \<Rightarrow> bool" where
  "sameTenant t t' \<longleftrightarrow> objectKey t' = objectKey t \<and> om_Labels t' = om_Labels t \<and>
     om_DeletionTimestamp t' = om_DeletionTimestamp t \<and> tn_Spec t' = tn_Spec t"

lemma sameTenant_name: "sameTenant t t' \<Longrightarrow> om_Name t' = om_Name t"
  by (simp add: sameTenant_def objectKey_def)

lemma plainTenant_same: "sameTenant t t' \<Longrightarrow> plainTenant sv t' = plainTenant sv t"
  by (simp add: plainTenant_def serviceLabelOk_def sameTenant_def objectKey_def)

section \<open>Frames\<close>

lemma usable_same:
  assumes "om_Labels u' = om_Labels u" and "om_DeletionTimestamp u' = om_DeletionTimestamp u"
    and "c_storages c' = c_storages c" and "c_services c' = c_services c"
  shows "usable x y cl V c' sv u' = usable x y cl V c sv u"
proof -
  have "serviceOf c' u' = serviceOf c u" using assms by (simp only: serviceOf_def)
  then have "storageNamed sv c' u' = storageNamed sv c u" using assms by (simp only: storageNamed_def)
  then show ?thesis using assms by (simp add: usable_def wantsStore_def serviceLabelOk_def hashable_def)
qed

lemma storesUsable_step:
  assumes "storesUsable x y cl V sv c" and "c_stores c' = c_stores c" and "c_storages c' = c_storages c"
    and "c_tenants c' = alistUpdate (objectKey t) t' (c_tenants c)" and "map_of (c_tenants c) (objectKey t) = Some old"
    and "om_Labels t' = om_Labels old" and "om_DeletionTimestamp t' = om_DeletionTimestamp old"
    and "c_services c' = c_services c"
  shows "storesUsable x y cl V sv c'"
proof -
  have "usable x y cl V c' sv u" if u: "u \<in> snd ` set (c_tenants c')" for u
  proof (cases "u \<in> snd ` set (c_tenants c)")
    case True
    then have "usable x y cl V c sv u" using assms(1) unfolding storesUsable_def by blast
    then show ?thesis using usable_same [OF refl refl assms(3,8)] by blast
  next
    case False
    then have "u = t'" using u set_alistUpdate [of "objectKey t" t' "c_tenants c"] unfolding assms(4) by force
    moreover have "usable x y cl V c sv old"
      using assms(1) map_of_SomeD [OF assms(5)] unfolding storesUsable_def by force
    ultimately show ?thesis using usable_same [OF assms(6,7,3,8)] by blast
  qed
  then show ?thesis
    using assms(1,2,3) by (auto simp: storesUsable_def storesLive_def stored_def hashable_def)
qed

lemma clusterReady_step:
  assumes ready: "clusterReady x y cl V sv t c" and same: "sameTenant t t'"
    and c': "c_tenants c' = alistUpdate (objectKey t) t' (c_tenants c)" "c_services c' = c_services c"
      "c_storages c' = c_storages c" "c_stores c' = c_stores c"
    and cur: "map_of (c_tenants c) (objectKey t) = Some old" "om_Labels old = om_Labels t"
      "om_DeletionTimestamp old = om_DeletionTimestamp t"
    and kinds: "sharedReady (Some sv) t c'" "compactorsReady t c'" "storeWf (c_rulers c')"
  shows "clusterReady x y cl V sv t' c'"
proof -
  have "storesUsable x y cl V sv c'"
    by (rule storesUsable_step [where c = c and t = t and t' = t' and old = old]) (use ready c' cur same in \<open>simp_all add: clusterReady_def sameTenant_def\<close>)
  moreover have "sharedReady (Some sv) t' c'" "compactorsReady t' c'"
    using kinds(1) sharedReady_more [of t' t c' c' "Some sv"] same sameTenant_name [OF same] kinds(2)
    by (simp_all add: sameTenant_def compactorsReady_def)
  ultimately show ?thesis
    using ready same kinds(3) by (simp add: clusterReady_def c' serviceKey_def sameTenant_def)
qed

lemma ingesterBound_frame:
  assumes "ingesterBound svc t c" and "sameTenant t t'" and "statusIngester t' = statusIngester t"
    and "c_ingesters c' = c_ingesters c" and "map_of (c_tenants c') (objectKey t') = Some t'"
  shows "ingesterBound svc t' c'"
  using assms sameTenant_name [OF assms(2)] unfolding ingesterBound_def
  by (auto simp: sameTenant_def boundTo_def)

lemma rulerBound_frame:
  assumes "rulerBound sv t c" and "sameTenant t t'" and "statusRuler t' = statusRuler t"
    and "c_rulers c' = c_rulers c" and "map_of (c_tenants c') (objectKey t') = Some t'"
  shows "rulerBound sv t' c'"
  using assms ruleSelectorsOf_more [of t' t "sv_Spec sv"] by (auto simp: rulerBound_def sameTenant_def)

section \<open>One run of each half\<close>

text \<open>What every run needs: the tenant is as it was read, and the cluster is ready.\<close>

definition atHand :: "ext \<Rightarrow> yaml_lib \<Rightarrow> 's client \<Rightarrow> ('s \<Rightarrow> cluster) \<Rightarrow> service \<Rightarrow> tenant \<Rightarrow> cluster \<Rightarrow> bool" where
  "atHand x y cl V sv t c \<longleftrightarrow> map_of (c_tenants c) (objectKey t) = Some t \<and> plainTenant sv t \<and>
     clusterReady x y cl V sv t c"

lemma atHandD:
  assumes "atHand x y cl V sv t c"
  shows "map_of (c_tenants c) (objectKey t) = Some t" "plainTenant sv t" "clusterReady x y cl V sv t c"
    "sharedReady (Some sv) t c" "compactorsReady t c" "storeWf (c_rulers c)" "storesUsable x y cl V sv c"
    "om_DeletionTimestamp t = None" "serviceLabelOk t" "\<not> labelTrue (om_Labels t) ExclusiveLabelKey"
    "om_Name t \<noteq> []" "serviceLabel t \<noteq> []"
  using assms serviceLabelOk_nonempty [of t] by (auto simp: atHand_def clusterReady_def plainTenant_def)

lemma atHand_step:
  assumes hand: "atHand x y cl V sv t c" and same: "sameTenant t t'"
    and c': "c_tenants c' = alistUpdate (objectKey t) t' (c_tenants c)" "c_services c' = c_services c"
      "c_storages c' = c_storages c" "c_stores c' = c_stores c"
    and kinds: "sharedReady (Some sv) t c'" "compactorsReady t c'" "storeWf (c_rulers c')"
  shows "atHand x y cl V sv t' c'"
proof -
  have "map_of (c_tenants c') (objectKey t') = Some t'" using same by (simp add: c' sameTenant_def)
  moreover have "clusterReady x y cl V sv t' c'"
    by (rule clusterReady_step [OF atHandD(3) [OF hand] same c' atHandD(1) [OF hand] refl refl kinds])
  ultimately show ?thesis using atHandD(2) [OF hand] plainTenant_same [OF same] by (simp add: atHand_def)
qed

lemma ingester_pass:
  assumes ok: "clientOk cl V" and range: "rangeOrder (x_rangeIngesters x)" and hand: "atHand x y cl V sv t (V s)"
    and fin: "FinalizerIngester \<in> set (om_Finalizers t)"
    and status: "statusIngester t = None \<or> ingesterBound (Some sv) t (V s)"
  shows "reaches (Tenant_ingester x cl (Some sv) t) s (\<lambda>t' s'. ingesterStep t t' (V s) (V s') \<and>
     ingesterBound (Some sv) t' (V s') \<and> atHand x y cl V sv t' (V s'))"
proof -
  note h = atHandD [OF hand]
  have "needResetIngester cl (Some sv) t s = (Inr False, s)"
    using status ib.needReset_unbound [OF clientOk_kinds(2) [OF ok]] ib.needReset_fits [OF clientOk_kinds(2) [OF ok]]
    unfolding ingesterBound_def by metis
  then have run: "Tenant_ingester x cl (Some sv) t s = ingesterAllocate x cl (Some sv) t s"
    using h fin by (auto simp: Tenant_ingester_def ingesterBind_def mget_def)
  obtain t' s' where "ingesterAllocate x cl (Some sv) t s = (Inr t', s')"
    and bound: "ingesterBound (Some sv) t' (V s')"
    and ready: "sharedReady (Some sv) t (V s')" and step: "ingesterStep t t' (V s) (V s')"
    using ingesterAllocate_binds [OF ok range h(1,9,10,4)] by blast
  moreover have "atHand x y cl V sv t' (V s')"
    by (rule atHand_step [OF hand _ _ _ _ _ ready])
      (use step h(5,6) in \<open>auto simp: ingesterStep_def sameTenant_def compactorsReady_def\<close>)
  ultimately show ?thesis using run by (auto simp: reaches_def)
qed

lemma ruler_pass:
  assumes ok: "clientOk cl V" and hand: "atHand x y cl V sv t (V s)"
    and mangled: "8 \<le> length (fst (x_uniqueDNS1123Label x (om_Name t)))"
  shows "reaches (Tenant_ruler x cl (Some sv) t) s (\<lambda>t' s'. rulerStep t t' (V s) (V s') \<and>
     rulerBound sv t' (V s') \<and> atHand x y cl V sv t' (V s'))"
proof -
  note h = atHandD [OF hand]
  obtain t' s' where run: "Tenant_ruler x cl (Some sv) t s = (Inr t', s')" "rulerBound sv t' (V s')"
    and step: "rulerStep t t' (V s) (V s')" and wf: "storeWf (c_rulers (V s'))"
    by (rule ruler_saved [OF ok h(1,6,12,11) mangled])
  have ready: "sharedReady (Some sv) t (V s')"
    using step h(4) sharedReady_more [of t t "V s'" "V s"] by (auto simp: rulerStep_def)
  have "atHand x y cl V sv t' (V s')"
    by (rule atHand_step [OF hand _ _ _ _ _ ready _ wf])
      (use step h(5) in \<open>auto simp: rulerStep_def sameTenant_def compactorsReady_def\<close>)
  with run step show ?thesis by (auto simp: reaches_def)
qed

text \<open>
  The way of a tenant to its compactor.  With \<open>n = 0\<close> it is bound; a tenant without a reference is
  at most one run away from its compactor when one lists it already, and at most three otherwise: one may
  have to be created, whose generated name is not recorded, so that the reference dangles and is taken back.
\<close>

definition compactorListed :: "service \<Rightarrow> tenant \<Rightarrow> cluster \<Rightarrow> bool" where
  "compactorListed sv t c \<longleftrightarrow> (\<exists>cp \<in> set (listedCompactors (Some sv) t c). tenantId t \<in> set (compactorTenants cp))"

definition compactorWithin :: "service \<Rightarrow> nat \<Rightarrow> tenant \<Rightarrow> cluster \<Rightarrow> bool" where
  "compactorWithin sv n t c \<longleftrightarrow>
     compactorListed sv t c \<and> compactorBound (Some sv) t c \<or>
     1 \<le> n \<and> compactorListed sv t c \<and> statusCompactor t = None \<or>
     2 \<le> n \<and> compactorListed sv t c \<and>
       (\<exists>ref. statusCompactor t = Some ref \<and> map_of (c_compactors c) (refKey ref) = None) \<or>
     3 \<le> n \<and> statusCompactor t = None"

lemma compactorListed_frame:
  "\<lbrakk>sameTenant t t'; c_compactors c' = c_compactors c\<rbrakk> \<Longrightarrow> compactorListed sv t' c' = compactorListed sv t c"
  by (simp add: compactorListed_def listedCompactors_def listOpts_def sameTenant_def)

lemma compactorListed_put:
  assumes "objectKey cp = k" and "matchesOpts (listOpts (Some sv) t) cp" and "tenantId t \<in> set (compactorTenants cp)"
    and "c_compactors c' = alistUpdate k cp (c_compactors c)" and "compactorsReady t c'"
  shows "compactorListed sv t c'"
  unfolding compactorListed_def using assms by (intro bexI [of _ cp]) (simp_all add: listedCompactors_iff)

lemma compactorWithin_frame:
  assumes "compactorWithin sv n t c" and "sameTenant t t'" and "statusCompactor t' = statusCompactor t"
    and "c_compactors c' = c_compactors c" and "map_of (c_tenants c') (objectKey t') = Some t'"
  shows "compactorWithin sv n t' c'"
proof -
  have "compactorBound (Some sv) t' c'" if "compactorBound (Some sv) t c"
    using that assms(2-5) sameTenant_name [OF assms(2)] unfolding compactorBound_def by (auto simp: sameTenant_def boundTo_def)
  then show ?thesis
    using assms(1,3,4) compactorListed_frame [OF assms(2,4), of sv] by (auto simp: compactorWithin_def)
qed

lemma compactorsReady_put:
  assumes ready: "compactorsReady t c" and cp: "objectKey cp = k" "om_DeletionTimestamp cp = None" "om_Name cp \<noteq> []"
    and own: "\<not> (labelTrue (om_Labels cp) ExclusiveLabelKey \<and> om_Name cp = om_Name t)"
    and c': "c_compactors c' = alistUpdate k cp (c_compactors c)"
  shows "compactorsReady t c'"
  using ready own cp(3) storeWf_alistUpdate [OF compactorsReady_wf [OF ready] cp(1,2)] set_alistUpdate [of k cp "c_compactors c"]
  by (fastforce simp: compactorsReady_def c')

lemma compactor_step_hand:
  assumes hand: "atHand x y cl V sv t c" and step: "compactorStep t t' c c'" and ready: "compactorsReady t c'"
  shows "atHand x y cl V sv t' c'"
proof -
  have "sharedReady (Some sv) t c'"
    using step atHandD(4) [OF hand] sharedReady_more [of t t c' c] by (auto simp: compactorStep_def)
  then show ?thesis
    using step atHandD(6) [OF hand] by (intro atHand_step [OF hand _ _ _ _ _ _ ready]) (auto simp: compactorStep_def sameTenant_def)
qed

lemma compactor_listed_pass:
  assumes ok: "clientOk cl V" and hand: "atHand x y cl V sv t (V s)" and shared: "sharedTenant (Some sv) t"
    and fits: "\<not> mustReset compactorTenants (Some sv) t (statusCompactor t) (c_compactors (V s))"
    and listed: "compactorListed sv t (V s)"
  shows "reaches (Tenant_compactor cl (Some sv) t) s (\<lambda>t' s'. compactorStep t t' (V s) (V s') \<and>
     compactorWithin sv 0 t' (V s') \<and> atHand x y cl V sv t' (V s'))"
proof -
  note h = atHandD [OF hand]
  obtain t' s' where run: "compactorAllocate cl (Some sv) t s = (Inr t', s')"
      and cps: "c_compactors (V s') = c_compactors (V s)"
      and bound: "compactorBound (Some sv) t' (V s')" and step: "compactorStep t t' (V s) (V s')"
    using listed allocate_listed [OF ok h(1,5,10)] unfolding compactorListed_def by blast
  have "sameTenant t t'" using step by (auto simp: compactorStep_def sameTenant_def)
  then have "compactorWithin sv 0 t' (V s')"
    using bound listed compactorListed_frame [OF _ cps] by (auto simp: compactorWithin_def)
  moreover have "compactorsReady t (V s')" using h(5) by (simp add: compactorsReady_def cps)
  ultimately show ?thesis
    using run step compactor_step_hand [OF hand step] Tenant_compactor_allocates [OF ok shared fits]
    by (auto simp: reaches_def)
qed

lemma compactor_room_pass:
  assumes ok: "clientOk cl V" and hand: "atHand x y cl V sv t (V s)" and shared: "sharedTenant (Some sv) t"
    and same: "tenantId t = om_Name t" and none: "statusCompactor t = None" "\<not> compactorListed sv t (V s)"
    and room: "find (hasRoom sv) (listedCompactors (Some sv) t (V s)) = Some cp"
  shows "reaches (Tenant_compactor cl (Some sv) t) s (\<lambda>t' s'. compactorStep t t' (V s) (V s') \<and>
     compactorWithin sv 0 t' (V s') \<and> atHand x y cl V sv t' (V s'))"
proof -
  note h = atHandD [OF hand]
  have unlisted: "\<forall>cp \<in> set (listedCompactors (Some sv) t (V s)). tenantId t \<notin> set (compactorTenants cp)"
    using none(2) by (simp add: compactorListed_def)
  obtain t' s' cp' where run: "compactorAllocate cl (Some sv) t s = (Inr t', s')" and bound: "compactorBound (Some sv) t' (V s')"
    and step: "compactorStep t t' (V s) (V s')" and cps: "c_compactors (V s') = alistUpdate (objectKey cp) cp' (c_compactors (V s))"
    and cp: "map_of (c_compactors (V s)) (objectKey cp) = Some cp"
    and cp': "objectKey cp' = objectKey cp" "om_Labels cp' = om_Labels cp" "om_DeletionTimestamp cp' = None"
      "compactorTenants cp' = compactorTenants cp @ [tenantId t]" "matchesOpts (listOpts (Some sv) t) cp'"
    by (rule allocate_room_binds [OF ok h(1,10,5) same unlisted room])
  have "om_Name cp' = om_Name cp" using cp'(1) by (simp add: objectKey_def)
  then have ready: "compactorsReady t (V s')"
    using compactorsReady_get [OF h(5) cp] by (intro compactorsReady_put [OF h(5) cp'(1,3) _ _ cps]) (simp_all add: cp')
  have "sameTenant t t'" using step by (auto simp: compactorStep_def sameTenant_def)
  moreover have "compactorListed sv t (V s')" using cp' by (intro compactorListed_put [OF _ _ _ cps ready]) simp_all
  ultimately have "compactorWithin sv 0 t' (V s')"
    using bound compactorListed_frame [OF _ refl] by (auto simp: compactorWithin_def)
  moreover have "Tenant_compactor cl (Some sv) t s = compactorAllocate cl (Some sv) t s"
    using none(1) by (intro Tenant_compactor_allocates [OF ok shared]) (simp add: mustReset_def)
  ultimately show ?thesis using run step compactor_step_hand [OF hand step ready] by (auto simp: reaches_def)
qed

lemma compactor_create_pass:
  assumes ok: "clientOk cl V" and hand: "atHand x y cl V sv t (V s)" and shared: "sharedTenant (Some sv) t"
    and none: "statusCompactor t = None" "\<not> compactorListed sv t (V s)"
    and room: "find (hasRoom sv) (listedCompactors (Some sv) t (V s)) = None"
  shows "reaches (Tenant_compactor cl (Some sv) t) s (\<lambda>t' s'. compactorStep t t' (V s) (V s') \<and>
     compactorWithin sv 2 t' (V s') \<and> atHand x y cl V sv t' (V s'))"
proof -
  note h = atHandD [OF hand]
  let ?ref = "\<lparr>oref_Namespace = serviceNs t, oref_Name = []\<rparr>"
  have storage: "2 \<le> length (splitOn CHR ''.'' (storageOf (Some sv) t))" using h(2) by (simp add: plainTenant_def)
  have full: "\<forall>cp \<in> set (listedCompactors (Some sv) t (V s)). tenantId t \<notin> set (compactorTenants cp) \<and> \<not> hasRoom sv cp"
    using none(2) room by (auto simp: compactorListed_def find_None_iff)
  have fits: "\<not> mustReset compactorTenants (Some sv) t (statusCompactor t) (c_compactors (V s))"
    using none(1) by (simp add: mustReset_def)
  obtain t1 s1 cp where run: "Tenant_compactor cl (Some sv) t s = (Inr t1, s1)"
    and ref: "statusCompactor t1 = Some ?ref" "map_of (c_compactors (V s1)) (refKey ?ref) = None"
    and ready: "om_Name t1 = om_Name t" "compactorsReady t1 (V s1)"
    and cp: "map_of (c_compactors (V s1)) (objectKey cp) = Some cp" "compactorTenants cp = [tenantId t]"
      "matchesOpts (listOpts (Some sv) t) cp"
    and step: "compactorStep t t1 (V s) (V s1)"
    by (rule creates_first_pass [OF ok h(1) shared h(5) fits storage full])
  have ready': "compactorsReady t (V s1)" using ready by (simp add: compactorsReady_def)
  have "sameTenant t t1" using step by (auto simp: compactorStep_def sameTenant_def)
  moreover have "compactorListed sv t (V s1)"
    unfolding compactorListed_def using cp by (intro bexI [of _ cp]) (simp_all add: listedCompactors_iff [OF ready'])
  ultimately have "compactorWithin sv 2 t1 (V s1)"
    using ref compactorListed_frame [OF _ refl] by (auto simp: compactorWithin_def)
  then show ?thesis using run step compactor_step_hand [OF hand step ready'] by (auto simp: reaches_def)
qed

lemma compactor_reset_pass:
  assumes ok: "clientOk cl V" and hand: "atHand x y cl V sv t (V s)" and shared: "sharedTenant (Some sv) t"
    and ref: "statusCompactor t = Some ref" "map_of (c_compactors (V s)) (refKey ref) = None"
    and listed: "compactorListed sv t (V s)"
  shows "reaches (Tenant_compactor cl (Some sv) t) s (\<lambda>t' s'. compactorStep t t' (V s) (V s') \<and>
     compactorWithin sv 1 t' (V s') \<and> atHand x y cl V sv t' (V s'))"
proof -
  note h = atHandD [OF hand]
  obtain rv s' where run: "Tenant_compactor cl (Some sv) t s =
      (Inr ((setStatusCompactor None t)\<lparr>om_ResourceVersion := rv\<rparr>), s')"
    and V: "V s' = c_tenants_update (alistUpdate (objectKey t)
      ((setStatusCompactor None t)\<lparr>om_ResourceVersion := rv\<rparr>)) (V s)"
    by (rule reset_dangling [OF ok h(1) shared ref])
  let ?t = "(setStatusCompactor None t)\<lparr>om_ResourceVersion := rv\<rparr>"
  have step: "compactorStep t ?t (V s) (V s')"
    by (rule compactorStepI [where V = "V s" and f = "\<lambda>cps. cps", OF refl]) (simp_all add: V)
  have "sameTenant t ?t" by (simp add: sameTenant_def)
  then have "compactorWithin sv 1 ?t (V s')"
    using listed compactorListed_frame [of t ?t "V s'" "V s" sv] by (simp add: compactorWithin_def V)
  moreover have "compactorsReady t (V s')" using h(5) by (simp add: compactorsReady_def V)
  ultimately show ?thesis using run step compactor_step_hand [OF hand step] by (auto simp: reaches_def)
qed

lemma compactorWithin_mono: "compactorWithin sv m t c \<Longrightarrow> m \<le> n \<Longrightarrow> compactorWithin sv n t c"
  by (auto simp: compactorWithin_def)

lemma compactor_pass:
  assumes ok: "clientOk cl V" and hand: "atHand x y cl V sv t (V s)" and fin: "FinalizerCompactor \<in> set (om_Finalizers t)"
    and same: "tenantId t = om_Name t" and within: "compactorWithin sv n t (V s)"
  shows "reaches (Tenant_compactor cl (Some sv) t) s (\<lambda>t' s'. compactorStep t t' (V s) (V s') \<and>
     compactorWithin sv (n - 1) t' (V s') \<and> atHand x y cl V sv t' (V s'))" (is "reaches ?m s (?Q (n - 1))")
proof -
  have shared: "sharedTenant (Some sv) t" using atHandD(2) [OF hand] fin by (simp add: sharedTenant_def plainTenant_def)
  have weaken: "reaches ?m s (?Q (n - 1))" if "reaches ?m s (?Q k)" and "k \<le> n - 1" for k
    using that(1) by (rule reaches_conseq) (use compactorWithin_mono that(2) in blast)
  have unbound: "\<not> mustReset compactorTenants (Some sv) t (statusCompactor t) (c_compactors (V s))" if "statusCompactor t = None"
    using that by (simp add: mustReset_def)
  consider (listed) "compactorListed sv t (V s)" "compactorBound (Some sv) t (V s) \<or> statusCompactor t = None"
    | (dangling) ref where "2 \<le> n" "compactorListed sv t (V s)" "statusCompactor t = Some ref" "map_of (c_compactors (V s)) (refKey ref) = None"
    | (new) "3 \<le> n" "statusCompactor t = None" "\<not> compactorListed sv t (V s)"
    using within by (cases "compactorListed sv t (V s)") (auto simp: compactorWithin_def)
  then show ?thesis
  proof cases
    case listed
    then have "\<not> mustReset compactorTenants (Some sv) t (statusCompactor t) (c_compactors (V s))"
      using unbound by (auto simp: compactorBound_def mustReset_def)
    from compactor_listed_pass [OF ok hand shared this listed(1)] show ?thesis by (rule weaken) simp
  next
    case dangling
    from compactor_reset_pass [OF ok hand shared dangling(3,4,2)] show ?thesis by (rule weaken) (use dangling(1) in simp)
  next
    case new
    show ?thesis
    proof (cases "find (hasRoom sv) (listedCompactors (Some sv) t (V s))")
      case None
      from compactor_create_pass [OF ok hand shared new(2,3) None] show ?thesis by (rule weaken) (use new(1) in simp)
    next
      case (Some cp)
      from compactor_room_pass [OF ok hand shared same new(2,3) Some] show ?thesis by (rule weaken) simp
    qed
  qed
qed

text \<open>A pair of labels without bars can be read off its key.\<close>

lemma pairKey_plain:
  assumes "pairKey a b = pairKey c d" and "CHR ''|'' \<notin> set c" and "CHR ''|'' \<notin> set d"
  shows "a = c \<and> b = d"
  using assms unfolding pairKey_def
proof (induction a arbitrary: c)
  case Nil
  then show ?case by (cases c) auto
next
  case (Cons z a)
  then show ?case by (cases c) auto
qed

text \<open>
  There is exactly one store for every pair of service and storage that a live tenant needs, each by the
  service and the storage it names.
\<close>

definition storesExact :: "cluster \<Rightarrow> bool" where
  "storesExact c \<longleftrightarrow> uniquePairs c \<and>
     ran (keyMap c) = neededPair c ` {u \<in> snd ` set (c_tenants c). needsStore c u}"

lemma storesUsable_own: "storesUsable x y cl V sv c \<Longrightarrow> ownStorages sv c"
  by (simp add: storesUsable_def usable_def ownStorages_def)

lemma store_pass:
  assumes ok: "clientOk cl V" and range: "rangeOrder (x_rangeKeys x)" and stores: "storesUsable x y cl V sv (V s)"
  shows "reaches (Tenant_store x y cl (Some sv)) s
    (\<lambda>_ s'. untouched (V s) (V s') \<and> storesExact (V s') \<and> storesUsable x y cl V sv (V s'))"
proof -
  have live: "storesLive (V s)" and us: "\<And>u. u \<in> snd ` set (c_tenants (V s)) \<Longrightarrow> usable x y cl V (V s) sv u"
    and present: "\<And>st. stored st (V s) \<Longrightarrow> hashable x y cl V (V s) (mget (om_Labels st) StorageLabelKey)"
    using stores unfolding storesUsable_def by blast+
  have used: "serviceLabelOk u \<and> 2 \<le> length (splitOn CHR ''.'' (storageOf (Some sv) u)) \<and> hashable x y cl V (V s) (storageOf (Some sv) u)"
    if "u \<in> snd ` set (c_tenants (V s))" "wantsStore (Some sv) u" for u
    using us [OF that(1)] that(2) by (simp add: usable_def)
  obtain s' where run: "Tenant_store x y cl (Some sv) s = (Inr (), s')" and frame: "untouched (V s) (V s')"
    and live': "storesLive (V s')" and pairs: "uniquePairs (V s')"
      "ran (keyMap (V s')) = pairOf (Some sv) ` {u \<in> snd ` set (c_tenants (V s)). wantsStore (Some sv) u}"
    using store_exact [OF ok range live used present] by blast
  note same = untouched_fields [OF frame]
  have services: "c_services (V s') = c_services (V s)" using frame by (auto simp: untouched_def)
  have "hashable x y cl V (V s') (mget (om_Labels st) StorageLabelKey)" if "stored st (V s')" for st
  proof -
    have "storeKeyOf st \<in> ran (keyMap (V s'))" using keyMap_stored [OF that] by (auto intro: ranI)
    then obtain u where u: "u \<in> snd ` set (c_tenants (V s))" "wantsStore (Some sv) u" "storeKeyOf st = pairOf (Some sv) u"
      unfolding pairs(2) by auto
    have "mget (om_Labels st) StorageLabelKey = storageOf (Some sv) u"
      using pairKey_plain [of _ "mget (om_Labels st) StorageLabelKey" "serviceLabel u" "storageOf (Some sv) u"] u us [OF u(1)]
      by (auto simp: usable_def storeKeyOf_def elemKey_def elemOf_def pairOf_def)
    then show ?thesis using used [OF u(1,2)] by (simp add: hashable_untouched [OF frame])
  qed
  moreover have "usable x y cl V (V s') sv u" if "u \<in> snd ` set (c_tenants (V s'))" for u
    using us that usable_same [OF refl refl same(2) services] unfolding same(1) by blast
  ultimately have usable': "storesUsable x y cl V sv (V s')" using live' unfolding storesUsable_def by blast
  have "storesExact (V s')"
    using pairs ownStorages_pairs [OF storesUsable_own [OF usable']] unfolding storesExact_def same(1) by simp
  with usable' show ?thesis using run frame by (intro reachesI) auto
qed

section \<open>One reconciliation\<close>

text \<open>
  A tenant on its way: it has its finalizers, it refers to no ingester or to one that fits, and its
  compactor is \<open>n\<close> runs away.
\<close>

definition onTheWay :: "ext \<Rightarrow> yaml_lib \<Rightarrow> 's client \<Rightarrow> ('s \<Rightarrow> cluster) \<Rightarrow> service \<Rightarrow> nat \<Rightarrow> tenant \<Rightarrow> cluster \<Rightarrow> bool" where
  "onTheWay x y cl V sv n t c \<longleftrightarrow> atHand x y cl V sv t c \<and> tenantId t = om_Name t \<and>
     {FinalizerIngester, FinalizerCompactor} \<subseteq> set (om_Finalizers t) \<and>
     (statusIngester t = None \<or> ingesterBound (Some sv) t c) \<and> compactorWithin sv n t c"

text \<open>A tenant that has everything: an ingester, a ruler and a compactor of its own, and the stores are there.\<close>

definition settled :: "service \<Rightarrow> tenant \<Rightarrow> cluster \<Rightarrow> bool" where
  "settled sv t c \<longleftrightarrow> {FinalizerIngester, FinalizerCompactor} \<subseteq> set (om_Finalizers t) \<and>
     ingesterBound (Some sv) t c \<and> rulerBound sv t c \<and> compactorBound (Some sv) t c \<and> storesExact c"

lemma Tenant_New_ready:
  assumes ok: "clientOk cl V" and label: "serviceLabelOk t"
    and service: "map_option withServiceDefaults (map_of (c_services (V s)) (serviceKey t)) = Some sv"
  shows "Tenant_New cl t s = (Inr sv, s)"
proof -
  obtain raw where raw: "map_of (c_services (V s)) (serviceKey t) = Some raw" "withServiceDefaults raw = sv"
    using service by auto
  have "idx (splitOn CHR ''.'' (serviceLabel t)) 0 = Inr (serviceNs t)"
    "idx (splitOn CHR ''.'' (serviceLabel t)) 1 = Inr (splitOn CHR ''.'' (serviceLabel t) ! 1)"
    using label by (auto simp: serviceLabelOk_def idx_def hd_conv_nth)
  then show ?thesis
    using raw serviceLabelOk_nonempty [OF label]
    by (simp add: Tenant_New_def SetService_def Let_def kindOk_get [OF clientOk_kinds(6) [OF ok]] serviceKey_def bindE_app)
qed

lemma reconcile_unfold:
  assumes ok: "clientOk cl V" and stored: "map_of (c_tenants (V s)) req = Some inst"
    and t: "t = tenantValidator inst" and label: "serviceLabelOk t"
    and service: "map_option withServiceDefaults (map_of (c_services (V s)) (serviceKey t)) = Some sv"
  shows "TenantReconciler_Reconcile x y cl req s = Tenant_Reconcile x y cl (Some sv) t s"
  using stored serviceLabelOk_nonempty [OF label] Tenant_New_ready [OF ok label service]
  by (auto simp: TenantReconciler_Reconcile_def handleE_case kindOk_get [OF clientOk_kinds(1) [OF ok]] t mget_def Let_def)

text \<open>The last half of a reconciliation keeps what the others have done.\<close>

lemma store_tail:
  assumes ok: "clientOk cl V" and range: "rangeOrder (x_rangeKeys x)" and hand: "atHand x y cl V sv t (V s)"
  shows "reaches (Tenant_store x y cl (Some sv)) s (\<lambda>_ s'. untouched (V s) (V s') \<and> storesExact (V s') \<and>
    atHand x y cl V sv t (V s'))"
proof -
  have "atHand x y cl V sv t c'" if "untouched (V s) c'" "storesUsable x y cl V sv c'" for c'
    using that hand by (auto simp: atHand_def clusterReady_def untouched_def sharedReady_def compactorsReady_def)
  then show ?thesis
    by (intro reaches_conseq [OF store_pass [OF ok range atHandD(7) [OF hand]]]) auto
qed

lemma steps_same:
  "ingesterStep t t' c c' \<Longrightarrow> sameTenant t t'" "rulerStep t t' c c' \<Longrightarrow> sameTenant t t'"
  "compactorStep t t' c c' \<Longrightarrow> sameTenant t t'"
  by (auto simp: ingesterStep_def rulerStep_def compactorStep_def sameTenant_def)

lemma sameTenant_trans: "\<lbrakk>sameTenant t u; sameTenant u v\<rbrakk> \<Longrightarrow> sameTenant t v"
  by (simp add: sameTenant_def)

lemma compactor_tail:
  assumes ok: "clientOk cl V" and range: "rangeOrder (x_rangeKeys x)" and way: "onTheWay x y cl V sv n t (V s)"
    and bound: "ingesterBound (Some sv) t (V s)" "rulerBound sv t (V s)"
  shows "reaches (bindE (Tenant_compactor cl (Some sv) t) (\<lambda>_. Tenant_store x y cl (Some sv))) s
     (\<lambda>_ s'. \<exists>t'. sameTenant t t' \<and> onTheWay x y cl V sv (n - 1) t' (V s') \<and> (n \<le> 1 \<longrightarrow> settled sv t' (V s')))"
proof (rule reaches_bindE, rule compactor_pass [OF ok])
  show "atHand x y cl V sv t (V s)" "FinalizerCompactor \<in> set (om_Finalizers t)" "tenantId t = om_Name t"
    "compactorWithin sv n t (V s)" using way by (simp_all add: onTheWay_def)
next
  fix t1 s1
  assume p1: "compactorStep t t1 (V s) (V s1) \<and> compactorWithin sv (n - 1) t1 (V s1) \<and> atHand x y cl V sv t1 (V s1)"
  then have same: "sameTenant t t1" using steps_same(3) by blast
  have id: "sameTenant t1 t1" by (simp add: sameTenant_def)
  have cur1: "map_of (c_tenants (V s1)) (objectKey t1) = Some t1" using p1 by (simp add: atHand_def)
  have b1: "ingesterBound (Some sv) t1 (V s1)" "rulerBound sv t1 (V s1)"
    using ingesterBound_frame [OF bound(1) same _ _ cur1] rulerBound_frame [OF bound(2) same _ _ cur1] p1
    by (auto simp: compactorStep_def setStatusCompactor_def)
  show "reaches (Tenant_store x y cl (Some sv)) s1
     (\<lambda>_ s'. \<exists>t'. sameTenant t t' \<and> onTheWay x y cl V sv (n - 1) t' (V s') \<and> (n \<le> 1 \<longrightarrow> settled sv t' (V s')))"
  proof (rule reaches_conseq [OF store_tail [OF ok range]])
    show "atHand x y cl V sv t1 (V s1)" using p1 by blast
  next
    fix u s2
    assume p2: "untouched (V s1) (V s2) \<and> storesExact (V s2) \<and> atHand x y cl V sv t1 (V s2)"
    have cur2: "map_of (c_tenants (V s2)) (objectKey t1) = Some t1" using p2 by (simp add: atHand_def)
    have "ingesterBound (Some sv) t1 (V s2)" "rulerBound sv t1 (V s2)" "compactorWithin sv (n - 1) t1 (V s2)"
      using ingesterBound_frame [OF b1(1) id refl _ cur2] rulerBound_frame [OF b1(2) id refl _ cur2]
        compactorWithin_frame [OF _ id refl _ cur2, of sv "n - 1" "V s1"] p1 p2
      by (auto simp: untouched_def)
    moreover have "tenantId t1 = om_Name t1" "om_Finalizers t1 = om_Finalizers t"
      using way same sameTenant_name [OF same] p1 by (auto simp: onTheWay_def sameTenant_def compactorStep_def)
    ultimately show "\<exists>t'. sameTenant t t' \<and> onTheWay x y cl V sv (n - 1) t' (V s2) \<and> (n \<le> 1 \<longrightarrow> settled sv t' (V s2))"
      using same p2 way by (intro exI [of _ t1]) (auto simp: onTheWay_def settled_def compactorWithin_def)
  qed
qed

lemma reconcile_pass:
  assumes ok: "clientOk cl V" and ranges: "rangeOrder (x_rangeIngesters x)" "rangeOrder (x_rangeKeys x)"
    and mangled: "8 \<le> length (fst (x_uniqueDNS1123Label x (om_Name t)))"
    and way: "onTheWay x y cl V sv n t (V s)"
  shows "reaches (Tenant_Reconcile x y cl (Some sv) t) s (\<lambda>_ s'. \<exists>t'. sameTenant t t' \<and>
     onTheWay x y cl V sv (n - 1) t' (V s') \<and> (n \<le> 1 \<longrightarrow> settled sv t' (V s')))"
  unfolding Tenant_Reconcile_def
proof (rule reaches_bindE, rule ingester_pass [OF ok ranges(1)])
  show "atHand x y cl V sv t (V s)" "FinalizerIngester \<in> set (om_Finalizers t)"
    "statusIngester t = None \<or> ingesterBound (Some sv) t (V s)"
    using way by (simp_all add: onTheWay_def)
next
  fix t1 s1
  assume p1: "ingesterStep t t1 (V s) (V s1) \<and> ingesterBound (Some sv) t1 (V s1) \<and> atHand x y cl V sv t1 (V s1)"
  then have same1: "sameTenant t t1" using steps_same(1) by blast
  have w1: "compactorWithin sv n t1 (V s1)"
    using way by (intro compactorWithin_frame [OF _ same1, where c = "V s"])
      (use p1 in \<open>auto simp: onTheWay_def ingesterStep_def setStatusIngester_def atHand_def\<close>)
  have m1: "8 \<le> length (fst (x_uniqueDNS1123Label x (om_Name t1)))" using mangled sameTenant_name [OF same1] by simp
  show "reaches (bindE (Tenant_ruler x cl (Some sv) t1) (\<lambda>t2. bindE (Tenant_compactor cl (Some sv) t2) (\<lambda>t3. Tenant_store x y cl (Some sv)))) s1
     (\<lambda>_ s'. \<exists>t'. sameTenant t t' \<and> onTheWay x y cl V sv (n - 1) t' (V s') \<and> (n \<le> 1 \<longrightarrow> settled sv t' (V s')))"
  proof (rule reaches_bindE, rule ruler_pass [OF ok _ m1])
    show "atHand x y cl V sv t1 (V s1)" using p1 by blast
  next
    fix t2 s2
    assume p2: "rulerStep t1 t2 (V s1) (V s2) \<and> rulerBound sv t2 (V s2) \<and> atHand x y cl V sv t2 (V s2)"
    then have same2: "sameTenant t1 t2" using steps_same(2) by blast
    note same = sameTenant_trans [OF same1 same2]
    have bound: "ingesterBound (Some sv) t2 (V s2)"
      using p1 by (intro ingesterBound_frame [OF _ same2, where c = "V s1"]) (use p2 in \<open>auto simp: rulerStep_def atHand_def\<close>)
    have "compactorWithin sv n t2 (V s2)"
      by (rule compactorWithin_frame [OF w1 same2]) (use p2 in \<open>auto simp: rulerStep_def setStatusRuler_def atHand_def\<close>)
    moreover have "om_Finalizers t2 = om_Finalizers t" using p1 p2 by (auto simp: ingesterStep_def rulerStep_def)
    moreover have "tenantId t2 = om_Name t2" using way same sameTenant_name [OF same] by (simp add: onTheWay_def sameTenant_def)
    ultimately have "onTheWay x y cl V sv n t2 (V s2)" using way p2 bound by (simp add: onTheWay_def)
    from compactor_tail [OF ok ranges(2) this bound] p2
    show "reaches (bindE (Tenant_compactor cl (Some sv) t2) (\<lambda>t3. Tenant_store x y cl (Some sv))) s2
       (\<lambda>_ s'. \<exists>t'. sameTenant t t' \<and> onTheWay x y cl V sv (n - 1) t' (V s') \<and> (n \<le> 1 \<longrightarrow> settled sv t' (V s')))"
      by (auto elim!: reaches_conseq intro: sameTenant_trans [OF same])
  qed
qed

section \<open>The first reconciliation\<close>

lemma update_finalizers:
  assumes ok: "clientOk cl V" and stored: "map_of (c_tenants (V s)) (objectKey t) = Some old"
    and same: "om_ResourceVersion t = om_ResourceVersion old" "tn_Status t = tn_Status old"
      "om_DeletionTimestamp old = None" "om_DeletionTimestamp t = None"
  obtains t' s' where "kUpdate (tenants cl) (t\<lparr>om_Finalizers := fs\<rparr>) s = (Inr t', s')"
    and "V s' = c_tenants_update (alistUpdate (objectKey t) t') (V s)" and "sameTenant t t'"
    and "om_Finalizers t' = fs" and "tn_Status t' = tn_Status t"
proof -
  let ?d = "t\<lparr>om_Finalizers := fs\<rparr>"
  have key: "objectKey ?d = objectKey t" by (simp add: objectKey_def)
  obtain t' s' where run: "kUpdate (tenants cl) ?d s = (Inr t', s')"
    and t': "t' = asStored old (om_ResourceVersion t') (keepTenant old ?d)" and V: "V s' = c_tenants_update (putObject t') (V s)"
    by (rule kindOk_update [OF clientOk_kinds(1) [OF ok], of s ?d old]) (use stored same key in simp_all)
  have f: "sameTenant t t'" "om_Finalizers t' = fs" "tn_Status t' = tn_Status t" "om_DeletionTimestamp t' = None"
    by (subst t', use same key in \<open>simp add: sameTenant_def keepTenant_def asStored_def objectKey_def\<close>)+
  then have "V s' = c_tenants_update (alistUpdate (objectKey t) t') (V s)"
    by (simp add: V putObject_alive sameTenant_def)
  with run f show thesis using that by blast
qed

lemma finalizer_hand:
  assumes ready: "clusterReady x y cl V sv t c" and plain: "plainTenant sv t" and same: "sameTenant t t'"
    and c': "c' = c_tenants_update (alistUpdate (objectKey t) t') c"
    and old: "map_of (c_tenants c) (objectKey t) = Some old" "om_Labels old = om_Labels t"
      "om_DeletionTimestamp old = om_DeletionTimestamp t"
  shows "atHand x y cl V sv t' c'"
proof -
  have "clusterReady x y cl V sv t' c'"
    by (rule clusterReady_step [OF ready same _ _ _ _ old])
      (use ready in \<open>simp_all add: c' clusterReady_def sharedReady_def compactorsReady_def\<close>)
  then show ?thesis using plain plainTenant_same [OF same] same by (simp add: atHand_def c' sameTenant_def)
qed

lemma first_pass:
  assumes ok: "clientOk cl V" and range: "rangeOrder (x_rangeKeys x)"
    and mangled: "8 \<le> length (fst (x_uniqueDNS1123Label x (om_Name t)))"
    and stored: "map_of (c_tenants (V s)) (objectKey t) = Some old" "om_Labels old = om_Labels t"
      "om_DeletionTimestamp old = om_DeletionTimestamp t" "om_ResourceVersion t = om_ResourceVersion old" "tn_Status t = tn_Status old"
    and new: "{FinalizerIngester, FinalizerCompactor} \<inter> set (om_Finalizers t) = {}" "statusIngester t = None" "statusCompactor t = None"
    and t: "plainTenant sv t" "tenantId t = om_Name t" and ready: "clusterReady x y cl V sv t (V s)"
  shows "reaches (Tenant_Reconcile x y cl (Some sv) t) s (\<lambda>_ s'. \<exists>t'. sameTenant t t' \<and> onTheWay x y cl V sv 3 t' (V s'))"
  unfolding Tenant_Reconcile_def
proof -
  have alive: "om_DeletionTimestamp t = None" using t by (simp add: plainTenant_def)
  obtain t1 s1 where run1: "kUpdate (tenants cl) (t\<lparr>om_Finalizers := om_Finalizers t @ [FinalizerIngester]\<rparr>) s = (Inr t1, s1)"
    and V1: "V s1 = c_tenants_update (alistUpdate (objectKey t) t1) (V s)" and same1: "sameTenant t t1"
    and f1: "om_Finalizers t1 = om_Finalizers t @ [FinalizerIngester]" "tn_Status t1 = tn_Status t"
    by (rule update_finalizers [OF ok stored(1,4,5)]) (use alive stored(3) in simp_all)
  have ing: "Tenant_ingester x cl (Some sv) t s = (Inr t1, s1)" using run1 alive new(1) by (simp add: Tenant_ingester_def)
  have hand1: "atHand x y cl V sv t1 (V s1)" by (rule finalizer_hand [OF ready t(1) same1 V1 stored(1-3)])
  have m1: "8 \<le> length (fst (x_uniqueDNS1123Label x (om_Name t1)))" using mangled sameTenant_name [OF same1] by simp
  obtain t2 s2 where rul: "Tenant_ruler x cl (Some sv) t1 s1 = (Inr t2, s2)" and p2: "rulerStep t1 t2 (V s1) (V s2)"
    and hand2: "atHand x y cl V sv t2 (V s2)"
    using ruler_pass [OF ok hand1 m1] by (auto simp: reaches_def)
  note h2 = atHandD [OF hand2]
  have f2: "om_Finalizers t2 = om_Finalizers t1" "statusIngester t2 = None" "statusCompactor t2 = None"
    using p2 f1 new by (auto simp: rulerStep_def setStatusRuler_def)
  obtain t3 s3 where run3: "kUpdate (tenants cl) (t2\<lparr>om_Finalizers := om_Finalizers t2 @ [FinalizerCompactor]\<rparr>) s2 = (Inr t3, s3)"
    and V3: "V s3 = c_tenants_update (alistUpdate (objectKey t2) t3) (V s2)" and same3: "sameTenant t2 t3"
    and f3: "om_Finalizers t3 = om_Finalizers t2 @ [FinalizerCompactor]" "tn_Status t3 = tn_Status t2"
    by (rule update_finalizers [OF ok h2(1) refl refl h2(8,8)])
  have "FinalizerCompactor \<noteq> FinalizerIngester" by (simp add: FinalizerCompactor_def FinalizerIngester_def)
  then have comp: "Tenant_compactor cl (Some sv) t2 s2 = (Inr t3, s3)"
    using run3 h2(8) new(1) f1 f2 by (simp add: Tenant_compactor_def)
  have hand3: "atHand x y cl V sv t3 (V s3)" by (rule finalizer_hand [OF h2(3,2) same3 V3 h2(1) refl refl])
  have same: "sameTenant t t3" using same1 steps_same(2) [OF p2] same3 sameTenant_trans by blast
  have "reaches (Tenant_store x y cl (Some sv)) s3 (\<lambda>_ s'. \<exists>t'. sameTenant t t' \<and> onTheWay x y cl V sv 3 t' (V s'))"
  proof (rule reaches_conseq [OF store_tail [OF ok range hand3]])
    fix u s4
    assume p4: "untouched (V s3) (V s4) \<and> storesExact (V s4) \<and> atHand x y cl V sv t3 (V s4)"
    have "tenantId t3 = om_Name t3" using t(2) same sameTenant_name [OF same] by (simp add: sameTenant_def)
    then show "\<exists>t'. sameTenant t t' \<and> onTheWay x y cl V sv 3 t' (V s4)"
      using same p4 f1 f2 f3 by (intro exI [of _ t3]) (simp add: onTheWay_def compactorWithin_def)
  qed
  then show "reaches (bindE (Tenant_ingester x cl (Some sv) t) (\<lambda>t1. bindE (Tenant_ruler x cl (Some sv) t1) (\<lambda>t2.
      bindE (Tenant_compactor cl (Some sv) t2) (\<lambda>t3. Tenant_store x y cl (Some sv))))) s
      (\<lambda>_ s'. \<exists>t'. sameTenant t t' \<and> onTheWay x y cl V sv 3 t' (V s'))"
    using ing rul comp by (simp add: reaches_def)
qed

lemma tenantValidator_fields:
  "objectKey (tenantValidator t) = objectKey t" "om_Name (tenantValidator t) = om_Name t"
  "om_Labels (tenantValidator t) = om_Labels t" "om_DeletionTimestamp (tenantValidator t) = om_DeletionTimestamp t"
  "om_Finalizers (tenantValidator t) = om_Finalizers t" "om_ResourceVersion (tenantValidator t) = om_ResourceVersion t"
  "tn_Status (tenantValidator t) = tn_Status t"
  by (simp_all add: tenantValidator_def objectKey_def)

section \<open>The last reconciliation\<close>

lemma alistDelete_update: "alistDelete k (alistUpdate k v xs) = alistDelete k xs"
  by (induction xs) (auto simp: alistDelete_def)

lemma storesUsable_less:
  assumes "storesUsable x y cl V sv c" and "set (c_tenants c') \<subseteq> set (c_tenants c)"
    and "c_stores c' = c_stores c" and "c_storages c' = c_storages c" and "c_services c' = c_services c"
  shows "storesUsable x y cl V sv c'"
proof -
  have "usable x y cl V c' sv u" if "u \<in> snd ` set (c_tenants c')" for u
  proof -
    have "u \<in> snd ` set (c_tenants c)" using that assms(2) by blast
    then have "usable x y cl V c sv u" using assms(1) unfolding storesUsable_def by blast
    then show ?thesis using usable_same [OF refl refl assms(4,5)] by blast
  qed
  then show ?thesis using assms by (auto simp: storesUsable_def storesLive_def stored_def hashable_def)
qed

text \<open>
  The way of a deleted tenant through the first three halves: it leaves its ingester, its ruler is written once
  more, it leaves its compactor and, with its last finalizer, the cluster.
\<close>

lemma release_passes:
  assumes ok: "clientOk cl V" and mangled: "8 \<le> length (fst (x_uniqueDNS1123Label x (om_Name t)))"
    and stored: "map_of (c_tenants (V s)) (objectKey t) = Some t" and deleted: "om_DeletionTimestamp t \<noteq> None"
    and fins: "om_Finalizers t = [FinalizerIngester, FinalizerCompactor]"
    and t: "om_Name t \<noteq> []" "serviceLabel t \<noteq> []"
    and wf: "storeWf (c_ingesters (V s))" "storeWf (c_compactors (V s))" "storeWf (c_rulers (V s))"
    and ing: "statusIngester t = Some iref" "oref_Name iref \<noteq> []" "map_of (c_ingesters (V s)) (refKey iref) = Some ig"
      "tenantId t \<in> set (ingesterTenants ig)"
    and comp: "statusCompactor t = Some cref" "oref_Name cref \<noteq> []" "map_of (c_compactors (V s)) (refKey cref) = Some cp"
      "om_Finalizers cp = []" "tenantId t \<in> set (compactorTenants cp)"
  obtains t1 s1 t2 s2 t3 s3 ig' where "Tenant_ingester x cl (Some sv) t s = (Inr t1, s1)"
    and "Tenant_ruler x cl (Some sv) t1 s1 = (Inr t2, s2)" and "Tenant_compactor cl (Some sv) t2 s2 = (Inr t3, s3)"
    and "c_tenants (V s3) = alistDelete (objectKey t) (c_tenants (V s))"
    and "c_stores (V s3) = c_stores (V s)" and "c_storages (V s3) = c_storages (V s)" and "c_services (V s3) = c_services (V s)"
    and "map_of (c_ingesters (V s3)) (refKey iref) = Some ig'" and "ingesterTenants ig' = removeString (ingesterTenants ig) (tenantId t)"
    and "ingesterTenants ig' = [] \<longrightarrow> om_Annotations ig' LabelNameIngesterState = Some IngesterStateDeleting"
    and "if \<forall>u \<in> set (compactorTenants cp). u = tenantId t then map_of (c_compactors (V s3)) (refKey cref) = None
       else \<exists>cp'. map_of (c_compactors (V s3)) (refKey cref) = Some cp' \<and>
         compactorTenants cp' = filter (\<lambda>u. u \<noteq> tenantId t) (compactorTenants cp)"
proof -
  have ne: "FinalizerCompactor \<noteq> FinalizerIngester" by (simp add: FinalizerCompactor_def FinalizerIngester_def)
  have fin: "FinalizerIngester \<in> set (om_Finalizers t)" by (simp add: fins)
  have named: "oref_Name ref \<noteq> []" if "statusIngester t = Some ref" for ref using that ing(1,2) by simp
  obtain t1 s1 rv1 igs where run1: "Tenant_ingester x cl (Some sv) t s = (Inr t1, s1)"
    and t1: "t1 = t\<lparr>om_Finalizers := removeString (om_Finalizers t) FinalizerIngester, om_ResourceVersion := rv1\<rparr>"
    and V1: "V s1 = c_tenants_update (putObject t1) (c_ingesters_update (\<lambda>_. igs) (V s))"
    and leaves: "\<forall>ref ig. statusIngester t = Some ref \<longrightarrow> map_of (c_ingesters (V s)) (refKey ref) = Some ig \<longrightarrow>
        tenantId t \<in> set (ingesterTenants ig) \<longrightarrow>
        (\<exists>ig'. map_of (c_ingesters (V s1)) (refKey ref) = Some ig' \<and>
           ingesterTenants ig' = removeString (ingesterTenants ig) (tenantId t) \<and>
           (ingesterTenants ig' = [] \<longrightarrow> om_Annotations ig' LabelNameIngesterState = Some IngesterStateDeleting))"
    using ingester_released [OF ok stored wf(1) named deleted fin, of x sv] by blast
  obtain ig' where ig': "map_of (c_ingesters (V s1)) (refKey iref) = Some ig'" "ingesterTenants ig' = removeString (ingesterTenants ig) (tenantId t)"
      "ingesterTenants ig' = [] \<longrightarrow> om_Annotations ig' LabelNameIngesterState = Some IngesterStateDeleting"
    using leaves [rule_format, OF ing(1,3,4)] by blast
  have key1: "objectKey t1 = objectKey t" "om_Finalizers t1 = [FinalizerCompactor]" "om_DeletionTimestamp t1 = om_DeletionTimestamp t"
    "tn_Status t1 = tn_Status t" "tn_Spec t1 = tn_Spec t" "om_Name t1 = om_Name t" "om_Labels t1 = om_Labels t"
    using ne by (simp_all add: t1 fins objectKey_def)
  have tn1: "c_tenants (V s1) = alistUpdate (objectKey t) t1 (c_tenants (V s))"
    using key1 by (simp add: V1 putObject_def)
  have cur1: "map_of (c_tenants (V s1)) (objectKey t1) = Some t1" by (simp add: tn1 key1)
  have wf1: "storeWf (c_rulers (V s1))" using wf(3) by (simp add: V1)
  have pre1: "serviceLabel t1 \<noteq> []" "om_Name t1 \<noteq> []" "8 \<le> length (fst (x_uniqueDNS1123Label x (om_Name t1)))"
    using t mangled by (simp_all add: key1)
  obtain t2 s2 where run2: "Tenant_ruler x cl (Some sv) t1 s1 = (Inr t2, s2)" and step: "rulerStep t1 t2 (V s1) (V s2)"
    by (rule ruler_saved [OF ok cur1 wf1 pre1])
  then obtain r rv2 rus where t2: "t2 = (setStatusRuler r t1)\<lparr>om_ResourceVersion := rv2\<rparr>"
    and V2: "V s2 = (V s1)\<lparr>c_tenants := alistUpdate (objectKey t1) t2 (c_tenants (V s1)), c_rulers := rus\<rparr>"
    by (auto simp: rulerStep_def)
  have key2: "objectKey t2 = objectKey t" "om_Finalizers t2 = [FinalizerCompactor]" "om_DeletionTimestamp t2 = om_DeletionTimestamp t"
    "statusCompactor t2 = statusCompactor t" "tn_Spec t2 = tn_Spec t"
    using key1 by (simp_all add: t2 setStatusRuler_def objectKey_def)
  have cur2: "map_of (c_tenants (V s2)) (objectKey t2) = Some t2" by (simp add: V2 key2 key1)
  have pre2: "storeWf (c_compactors (V s2))" "om_DeletionTimestamp t2 \<noteq> None" "FinalizerCompactor \<in> set (om_Finalizers t2)"
    "statusCompactor t2 = Some cref" "map_of (c_compactors (V s2)) (refKey cref) = Some cp" "tenantId t2 \<in> set (compactorTenants cp)"
    using wf(2) deleted comp by (simp_all add: V2 V1 key2)
  from compactor_released [OF ok cur2 pre2(1-4) comp(2) pre2(5) comp(4) pre2(6), of "Some sv"]
  obtain t3 s3 rv3 cps where run3: "Tenant_compactor cl (Some sv) t2 s2 = (Inr t3, s3)"
    and t3: "t3 = t2\<lparr>om_Finalizers := removeString (om_Finalizers t2) FinalizerCompactor, om_ResourceVersion := rv3\<rparr>"
    and V3: "V s3 = c_tenants_update (putObject t3) ((V s2)\<lparr>c_compactors := cps\<rparr>)"
    and cp': "if \<forall>u \<in> set (compactorTenants cp). u = tenantId t2 then map_of (c_compactors (V s3)) (refKey cref) = None
       else \<exists>cp'. map_of (c_compactors (V s3)) (refKey cref) = Some cp' \<and>
         compactorTenants cp' = filter (\<lambda>u. u \<noteq> tenantId t2) (compactorTenants cp)"
    by blast
  have "objectKey t3 = objectKey t" "om_Finalizers t3 = []" "om_DeletionTimestamp t3 \<noteq> None"
    using key2 deleted by (simp_all add: t3 objectKey_def)
  then have gone: "c_tenants (V s3) = alistDelete (objectKey t) (c_tenants (V s))"
    by (simp add: V3 V2 tn1 key1 putObject_def alistDelete_update)
  have kept: "c_stores (V s3) = c_stores (V s)" "c_storages (V s3) = c_storages (V s)"
    "c_services (V s3) = c_services (V s)" "c_ingesters (V s3) = c_ingesters (V s1)"
    by (simp_all add: V3 V2 V1)
  show thesis
    by (rule that [OF run1 run2 run3 gone kept(1-3) _ ig'(2)]) (use ig'(1,3) cp' in \<open>simp_all only: kept(4) key2\<close>)
qed

section \<open>Properties\<close>


text \<open>A fresh tenant in a cluster that has a service with its storage and nothing else.\<close>

definition freshTenant :: tenant where
  "freshTenant = zeroTenant\<lparr>om_Name := ''tenant-one'', om_Labels := [ServiceLabelKey \<mapsto> ''ns.svc'']\<rparr>"

definition freshCluster :: cluster where
  "freshCluster = (exCluster [freshTenant] [] [])\<lparr>c_storages := [(\<lparr>nn_Namespace = ''ns'', nn_Name = ''s3''\<rparr>, zeroStorage)]\<rparr>"

lemma freshTenant_storage: "storageOf (Some (withServiceDefaults exService)) freshTenant = ''ns.s3''"
  by (simp add: freshTenant_def mget_def withServiceDefaults_def exService_def GetStorage_def DefaultStorage_def Let_def)

lemma freshTenant_fields:
  "serviceLabel freshTenant = ''ns.svc''" "om_DeletionTimestamp freshTenant = None" "om_Finalizers freshTenant = []"
  "om_Name freshTenant = ''tenant-one''" "tenantId freshTenant = []" "statusIngester freshTenant = None" "statusCompactor freshTenant = None"
  "om_Labels freshTenant ExclusiveLabelKey = None"
  by (simp_all add: freshTenant_def zero_defs mget_def ServiceLabelKey_def ExclusiveLabelKey_def)

lemma freshCluster_ready:
  "clusterReady exExt exYaml memClient (\<lambda>c. c) (withServiceDefaults exService) freshTenant freshCluster"
proof -
  have "hashable exExt exYaml memClient (\<lambda>c. c) freshCluster ''ns.s3''"
    unfolding freshCluster_def by (rule ex_hashable)
  moreover have "storageNamed (withServiceDefaults exService) freshCluster freshTenant"
    by (simp add: storageNamed_def serviceOf_def freshTenant_fields freshCluster_def exCluster_def exService_def objectKey_def
        withServiceDefaults_def Let_def)
  ultimately have "usable exExt exYaml memClient (\<lambda>c. c) freshCluster (withServiceDefaults exService) freshTenant"
    by (simp add: usable_def freshTenant_storage freshTenant_fields serviceLabelOk_def)
  then show ?thesis
    by (simp add: clusterReady_def storesUsable_def freshCluster_def exCluster_def storesLive_def storeWf_def stored_def
        sharedReady_def compactorsReady_def serviceKey_def freshTenant_fields exService_def objectKey_def)
qed


text \<open>
  C8: a deleted tenant leaves in one reconciliation.  Take a tenant that is being deleted, has the two finalizers of
  the controller and was bound to an ingester and a compactor that list it.  The controller succeeds, and then
  the tenant is gone; its ingester lists the other tenants only, and is marked as deleting when there are none;
  its compactor is gone when it served no other tenant and lists the others otherwise; there is exactly one store
  for every pair of service and storage that a remaining tenant needs, by the service and the storage it names
  (where, as above, the other tenants name their storage or have a service with the same one); and a further
  reconciliation does nothing.
\<close>

theorem deleted_tenant_leaves:
  assumes ok: "clientOk cl V" and range: "rangeOrder (x_rangeKeys x)"
    and mangled: "8 \<le> length (fst (x_uniqueDNS1123Label x (om_Name t)))"
    and stored: "map_of (c_tenants (V s)) (objectKey t) = Some t" and deleted: "om_DeletionTimestamp t \<noteq> None"
    and fins: "om_Finalizers t = [FinalizerIngester, FinalizerCompactor]"
    and t: "om_Name t \<noteq> []" "tenantId t \<noteq> []" "serviceLabelOk t"
    and service: "map_option withServiceDefaults (map_of (c_services (V s)) (serviceKey t)) = Some sv"
    and wf: "storeWf (c_ingesters (V s))" "storeWf (c_compactors (V s))" "storeWf (c_rulers (V s))"
    and stores: "storesUsable x y cl V sv (V s)"
    and ing: "statusIngester t = Some iref" "oref_Name iref \<noteq> []" "map_of (c_ingesters (V s)) (refKey iref) = Some ig"
      "tenantId t \<in> set (ingesterTenants ig)"
    and comp: "statusCompactor t = Some cref" "oref_Name cref \<noteq> []" "map_of (c_compactors (V s)) (refKey cref) = Some cp"
      "om_Finalizers cp = []" "tenantId t \<in> set (compactorTenants cp)"
  shows "\<exists>s' ig'. TenantReconciler_Reconcile x y cl (objectKey t) s = (Inr (), s') \<and>
     map_of (c_tenants (V s')) (objectKey t) = None \<and>
     map_of (c_ingesters (V s')) (refKey iref) = Some ig' \<and>
     ingesterTenants ig' = removeString (ingesterTenants ig) (tenantId t) \<and>
     (ingesterTenants ig' = [] \<longrightarrow> om_Annotations ig' LabelNameIngesterState = Some IngesterStateDeleting) \<and>
     (if \<forall>u \<in> set (compactorTenants cp). u = tenantId t then map_of (c_compactors (V s')) (refKey cref) = None
      else \<exists>cp'. map_of (c_compactors (V s')) (refKey cref) = Some cp' \<and>
        compactorTenants cp' = filter (\<lambda>u. u \<noteq> tenantId t) (compactorTenants cp)) \<and>
     storesExact (V s') \<and> TenantReconciler_Reconcile x y cl (objectKey t) s' = (Inr (), s')"
proof -
  obtain t1 s1 t2 s2 t3 s3 ig' where runs: "Tenant_ingester x cl (Some sv) t s = (Inr t1, s1)"
      "Tenant_ruler x cl (Some sv) t1 s1 = (Inr t2, s2)" "Tenant_compactor cl (Some sv) t2 s2 = (Inr t3, s3)"
    and c3: "c_tenants (V s3) = alistDelete (objectKey t) (c_tenants (V s))"
      "c_stores (V s3) = c_stores (V s)" "c_storages (V s3) = c_storages (V s)" "c_services (V s3) = c_services (V s)"
    and ig': "map_of (c_ingesters (V s3)) (refKey iref) = Some ig'" "ingesterTenants ig' = removeString (ingesterTenants ig) (tenantId t)"
      "ingesterTenants ig' = [] \<longrightarrow> om_Annotations ig' LabelNameIngesterState = Some IngesterStateDeleting"
    and cp': "if \<forall>u \<in> set (compactorTenants cp). u = tenantId t then map_of (c_compactors (V s3)) (refKey cref) = None
       else \<exists>cp'. map_of (c_compactors (V s3)) (refKey cref) = Some cp' \<and>
         compactorTenants cp' = filter (\<lambda>u. u \<noteq> tenantId t) (compactorTenants cp)"
    by (rule release_passes [where sv = sv, OF ok mangled stored deleted fins t(1) serviceLabelOk_nonempty [OF t(3)] wf ing comp])
  have "storesUsable x y cl V sv (V s3)"
    by (rule storesUsable_less [OF stores]) (auto simp: c3 alistDelete_def)
  from store_pass [OF ok range this] obtain s' where run: "Tenant_store x y cl (Some sv) s3 = (Inr (), s')"
    and frame: "untouched (V s3) (V s')" and exact: "storesExact (V s')"
    by (auto simp: reaches_def)
  have "TenantReconciler_Reconcile x y cl (objectKey t) s = Tenant_Reconcile x y cl (Some sv) t s"
    by (rule reconcile_unfold [OF ok stored _ t(3) service]) (use t(2) in \<open>simp add: tenantValidator_def\<close>)
  then have finished: "TenantReconciler_Reconcile x y cl (objectKey t) s = (Inr (), s')"
    using runs run by (simp add: Tenant_Reconcile_def)
  have gone: "map_of (c_tenants (V s')) (objectKey t) = None" using untouched_fields(1) [OF frame] by (simp add: c3)
  then have "TenantReconciler_Reconcile x y cl (objectKey t) s' = (Inr (), s')"
    by (simp add: TenantReconciler_Reconcile_def handleE_case kindOk_get [OF clientOk_kinds(1) [OF ok]])
  moreover have "c_ingesters (V s') = c_ingesters (V s3)" "c_compactors (V s') = c_compactors (V s3)"
    using frame by (auto simp: untouched_def)
  ultimately show ?thesis using finished gone exact ig' cp' by (intro exI [of _ s'] exI [of _ ig']) simp
qed

text \<open>A tenant that leaves an ingester it had for itself and a compactor it shared.\<close>

definition leftIngester :: ingester where
  "leftIngester = zeroIngester\<lparr>om_Namespace := ''ns'', om_Name := ''svc-s3-auto-0'',
     ig_Spec := zeroIngesterSpec\<lparr>ig_Tenants := [''tenant-one'']\<rparr>\<rparr>"

definition leavingTenant :: tenant where
  "leavingTenant = (exTenant ''tenant-one'' Map.empty)\<lparr>om_DeletionTimestamp := Some 5, tn_Status := \<lparr>tst_Ruler = None,
     tst_Compactor = Some (refTo (exCompactor [])), tst_Ingester = Some (refTo leftIngester)\<rparr>\<rparr>"

definition leavingCluster :: cluster where
  "leavingCluster = exCluster [leavingTenant] [leftIngester] [exCompactor [''t0'', ''tenant-one'']]"

lemma leavingTenant_fields:
  "om_Name leavingTenant = ''tenant-one''" "tenantId leavingTenant = ''tenant-one''" "serviceLabel leavingTenant = ''ns.svc''"
  "om_DeletionTimestamp leavingTenant = Some 5" "om_Finalizers leavingTenant = [FinalizerIngester, FinalizerCompactor]"
  "statusIngester leavingTenant = Some (refTo leftIngester)" "statusCompactor leavingTenant = Some (refTo (exCompactor []))"
  by (simp_all add: leavingTenant_def exTenant_def mget_def)

lemma leftIngester_fields:
  "ingesterTenants leftIngester = [''tenant-one'']" "om_Name leftIngester = ''svc-s3-auto-0''" "om_DeletionTimestamp leftIngester = None"
  by (simp_all add: leftIngester_def zero_defs)

lemma exCompactor_fields:
  "om_Finalizers (exCompactor ts) = []" "om_Name (exCompactor ts) = ''c''" "om_DeletionTimestamp (exCompactor ts) = None"
  "objectKey (exCompactor ts) = \<lparr>nn_Namespace = ''ns'', nn_Name = ''c''\<rparr>"
  by (simp_all add: exCompactor_def zero_defs objectKey_def)

theorem deleted_tenant_leaves_witness:
  "\<exists>s' ig'. TenantReconciler_Reconcile exExt exYaml memClient (objectKey leavingTenant) leavingCluster = (Inr (), s') \<and>
     map_of (c_tenants s') (objectKey leavingTenant) = None \<and>
     map_of (c_ingesters s') (objectKey leftIngester) = Some ig' \<and> ingesterTenants ig' = [] \<and>
     om_Annotations ig' LabelNameIngesterState = Some IngesterStateDeleting \<and>
     (\<exists>cp'. map_of (c_compactors s') \<lparr>nn_Namespace = ''ns'', nn_Name = ''c''\<rparr> = Some cp' \<and> compactorTenants cp' = [''t0''])"
proof -
  let ?sv = "withServiceDefaults exService" and ?cp = "exCompactor [''t0'', ''tenant-one'']"
  have c: "c_tenants leavingCluster = [(objectKey leavingTenant, leavingTenant)]"
    "c_ingesters leavingCluster = [(objectKey leftIngester, leftIngester)]" "c_compactors leavingCluster = [(objectKey ?cp, ?cp)]"
    "c_rulers leavingCluster = []" "c_stores leavingCluster = []" "c_services leavingCluster = [(objectKey exService, exService)]"
    by (simp_all add: leavingCluster_def exCluster_def)
  have usable: "storesUsable exExt exYaml memClient (\<lambda>c. c) ?sv leavingCluster"
    by (simp add: storesUsable_def storesLive_def storeWf_def stored_def c usable_def wantsStore_def leavingTenant_fields)
  have service: "map_option withServiceDefaults (map_of (c_services leavingCluster) (serviceKey leavingTenant)) = Some ?sv"
    by (simp add: c serviceKey_def leavingTenant_fields exService_def objectKey_def)
  have run: "\<exists>s' ig'. TenantReconciler_Reconcile exExt exYaml memClient (objectKey leavingTenant) leavingCluster = (Inr (), s') \<and>
     map_of (c_tenants s') (objectKey leavingTenant) = None \<and>
     map_of (c_ingesters s') (refKey (refTo leftIngester)) = Some ig' \<and>
     ingesterTenants ig' = removeString (ingesterTenants leftIngester) (tenantId leavingTenant) \<and>
     (ingesterTenants ig' = [] \<longrightarrow> om_Annotations ig' LabelNameIngesterState = Some IngesterStateDeleting) \<and>
     (if \<forall>u \<in> set (compactorTenants ?cp). u = tenantId leavingTenant then map_of (c_compactors s') (refKey (refTo (exCompactor []))) = None
      else \<exists>cp'. map_of (c_compactors s') (refKey (refTo (exCompactor []))) = Some cp' \<and>
        compactorTenants cp' = filter (\<lambda>u. u \<noteq> tenantId leavingTenant) (compactorTenants ?cp)) \<and>
     storesExact s' \<and> TenantReconciler_Reconcile exExt exYaml memClient (objectKey leavingTenant) s' = (Inr (), s')"
    by (rule deleted_tenant_leaves [OF memClient_ok _ _ _ _ _ _ _ _ service _ _ _ usable])
      (simp_all add: c leavingTenant_fields leftIngester_fields exCompactor_fields exExt_def rangeOrder_id serviceLabelOk_def
        storeWf_def, simp_all add: refTo_def leftIngester_fields exCompactor_fields)
  then show ?thesis by (auto simp: leavingTenant_fields leftIngester_fields exCompactor_fields)
qed

end
