(* ===== verification/Http_Url.thy ===== *)
theory Http_Url
  imports Prelude
begin

text \<open>
  What the gateway uses of \<^verbatim>\<open>net/url\<close> and \<^verbatim>\<open>net/http\<close>: form values with their encoding,
  headers, and requests.  \<^verbatim>\<open>url.Values\<close> is an association list from keys to lists of values.
  The round trip \<open>parseQuery_encode\<close> is what lets the properties of the gateway speak about
  the query string an upstream server will read.
\<close>

section \<open>Escaping\<close>

definition hexDigit :: "nat \<Rightarrow> char" where
  "hexDigit n = (if n < 10 then char_of (48 + n) else char_of (55 + n))"

definition unhexDigit :: "char \<Rightarrow> nat option" where
  "unhexDigit c =
     (let n = (of_char c :: nat) in
      if 48 \<le> n \<and> n \<le> 57 then Some (n - 48)
      else if 65 \<le> n \<and> n \<le> 70 then Some (n - 55)
      else if 97 \<le> n \<and> n \<le> 102 then Some (n - 87)
      else None)"

text \<open>The bytes \<^verbatim>\<open>url.QueryEscape\<close> keeps: letters, digits and four marks.\<close>

definition unreserved :: "char \<Rightarrow> bool" where
  "unreserved c \<longleftrightarrow>
     (let n = (of_char c :: nat) in
      48 \<le> n \<and> n \<le> 57 \<or> 65 \<le> n \<and> n \<le> 90 \<or> 97 \<le> n \<and> n \<le> 122) \<or>
     c \<in> {CHR ''-'', CHR ''_'', CHR ''.'', CHR ''~''}"

definition escapeByte :: "char \<Rightarrow> string" where
  "escapeByte c =
     (if unreserved c then [c]
      else if c = CHR '' '' then ''+''
      else [CHR ''%'', hexDigit (of_char c div 16), hexDigit (of_char c mod 16)])"

definition queryEscape :: "string \<Rightarrow> string" where
  "queryEscape s = concat (map escapeByte s)"

fun queryUnescape :: "string \<Rightarrow> string option" where
  "queryUnescape [] = Some []"
| "queryUnescape (c # cs) =
     (if c = CHR ''%'' then
        (case cs of
           h # l # rest \<Rightarrow>
             (case (unhexDigit h, unhexDigit l) of
                (Some a, Some b) \<Rightarrow> map_option (\<lambda>r. char_of (16 * a + b) # r) (queryUnescape rest)
              | _ \<Rightarrow> None)
         | _ \<Rightarrow> None)
      else if c = CHR ''+'' then map_option (\<lambda>r. CHR '' '' # r) (queryUnescape cs)
      else map_option (\<lambda>r. c # r) (queryUnescape cs))"

section \<open>Form values\<close>

type_synonym form_values = "(string \<times> string list) list"

definition vValues :: "form_values \<Rightarrow> string \<Rightarrow> string list" where
  "vValues v k = (case map_of v k of None \<Rightarrow> [] | Some xs \<Rightarrow> xs)"

definition vGet :: "form_values \<Rightarrow> string \<Rightarrow> string" where
  "vGet v k = (case vValues v k of [] \<Rightarrow> [] | x # _ \<Rightarrow> x)"

definition vSet :: "string \<Rightarrow> string \<Rightarrow> form_values \<Rightarrow> form_values" where
  "vSet k x v = alistUpdate k [x] v"

definition vAdd :: "string \<Rightarrow> string \<Rightarrow> form_values \<Rightarrow> form_values" where
  "vAdd k x v = alistUpdate k (vValues v k @ [x]) v"

definition encodePair :: "string \<Rightarrow> string \<Rightarrow> string" where
  "encodePair k x = queryEscape k @ CHR ''='' # queryEscape x"

definition flatPairs :: "form_values \<Rightarrow> (string \<times> string) list" where
  "flatPairs v = concat (map (\<lambda>k. map (\<lambda>x. (k, x)) (vValues v k)) (sortStrings (map fst v)))"

text \<open>\<^verbatim>\<open>Values.Encode\<close>: the keys in order, their values in the order they were added.\<close>

definition vEncode :: "form_values \<Rightarrow> string" where
  "vEncode v = joinStr ''&'' (map (\<lambda>(k, x). encodePair k x) (flatPairs v))"

text \<open>
  \<^verbatim>\<open>url.ParseQuery\<close>: a setting with a semicolon or a bad escape is dropped; the first such
  one is the error \<^verbatim>\<open>ParseQuery\<close> returns beside the values, which \<^verbatim>\<open>URL.Query\<close> ignores.
\<close>

definition cutEq :: "string \<Rightarrow> string \<times> string" where
  "cutEq s = (takeWhile (\<lambda>c. c \<noteq> CHR ''='') s, drop 1 (dropWhile (\<lambda>c. c \<noteq> CHR ''='') s))"

definition parsePair :: "string \<Rightarrow> (string \<times> string) option" where
  "parsePair s =
     (if CHR '';'' \<in> set s then None
      else (case cutEq s of (k, x) \<Rightarrow>
              (case (queryUnescape k, queryUnescape x) of
                 (Some k', Some x') \<Rightarrow> Some (k', x')
               | _ \<Rightarrow> None)))"

definition parseSetting :: "form_values \<Rightarrow> string \<Rightarrow> form_values" where
  "parseSetting v s =
     (if s = [] then v else (case parsePair s of None \<Rightarrow> v | Some (k, x) \<Rightarrow> vAdd k x v))"

definition parseQuery :: "string \<Rightarrow> form_values" where
  "parseQuery s = foldl parseSetting [] (splitOn CHR ''&'' s)"

definition queryWellFormed :: "string \<Rightarrow> bool" where
  "queryWellFormed s \<longleftrightarrow> list_all (\<lambda>p. p = [] \<or> parsePair p \<noteq> None) (splitOn CHR ''&'' s)"

section \<open>Headers\<close>

text \<open>
  \<^verbatim>\<open>http.Header\<close> reads and writes under canonical keys: upper case at the start and after
  a hyphen, lower case elsewhere; a key that is no token is kept as it is.
\<close>

definition upperByte :: "char \<Rightarrow> char" where
  "upperByte c = (if 97 \<le> (of_char c :: nat) \<and> (of_char c :: nat) \<le> 122 then char_of (of_char c - 32 :: nat) else c)"

definition lowerByte :: "char \<Rightarrow> char" where
  "lowerByte c = (if 65 \<le> (of_char c :: nat) \<and> (of_char c :: nat) \<le> 90 then char_of (of_char c + 32 :: nat) else c)"

definition tokenByte :: "char \<Rightarrow> bool" where
  "tokenByte c \<longleftrightarrow>
     (let n = (of_char c :: nat) in
      48 \<le> n \<and> n \<le> 57 \<or> 65 \<le> n \<and> n \<le> 90 \<or> 97 \<le> n \<and> n \<le> 122) \<or>
     c \<in> set ''!#$%&*+-.^_|~'' \<or> c = CHR 0x27 \<or> c = CHR 0x60"

fun canonicalLoop :: "bool \<Rightarrow> string \<Rightarrow> string" where
  "canonicalLoop upper [] = []"
| "canonicalLoop upper (c # cs) =
     (if upper then upperByte c else lowerByte c) # canonicalLoop (c = CHR ''-'') cs"

definition canonicalKey :: "string \<Rightarrow> string" where
  "canonicalKey k = (if list_all tokenByte k then canonicalLoop True k else k)"

definition hSet :: "string \<Rightarrow> string \<Rightarrow> form_values \<Rightarrow> form_values" where
  "hSet k x h = vSet (canonicalKey k) x h"

definition hAdd :: "string \<Rightarrow> string \<Rightarrow> form_values \<Rightarrow> form_values" where
  "hAdd k x h = vAdd (canonicalKey k) x h"

definition hGet :: "form_values \<Rightarrow> string \<Rightarrow> string" where
  "hGet h k = vGet h (canonicalKey k)"

section \<open>Requests\<close>

text \<open>
  A request as the handlers see it.  \<open>rq_Info\<close> is the request info that
  \<^verbatim>\<open>withRequestInfo\<close> puts into the context, \<open>rq_TenantVar\<close> the path variable
  \<^verbatim>\<open>tenant_id\<close> the router has bound, \<open>rq_Peers\<close> the common names of the peer
  certificates where the connection has TLS.  The body is what reading it gives.
\<close>

datatype content_kind = FormUrlencoded | OtherContent | MalformedContentType

record request =
  rq_Method :: string
  rq_Path :: string
  rq_RawQuery :: string
  rq_Header :: form_values
  rq_Body :: "string res"
  rq_ContentLength :: int
  rq_Content :: content_kind
  rq_TenantVar :: string
  rq_Info :: "string option"
  rq_Peers :: "string list option"

text \<open>The methods whose body \<^verbatim>\<open>ParseForm\<close> reads.\<close>

definition bodyMethod :: "string \<Rightarrow> bool" where
  "bodyMethod m \<longleftrightarrow> m = ''POST'' \<or> m = ''PUT'' \<or> m = ''PATCH''"

definition maxFormSize :: int where
  "maxFormSize = 10485760"

text \<open>
  \<^verbatim>\<open>req.ParseForm\<close> on a request with a body method: \<^verbatim>\<open>req.PostForm\<close> and the request
  afterwards, whose body has been read to its end where it is a form.
\<close>

definition parsePostForm :: "request \<Rightarrow> (form_values \<times> request) res" where
  "parsePostForm r =
     (case rq_Content r of
        MalformedContentType \<Rightarrow> Inl (GoErr ''mime: malformed media type'')
      | OtherContent \<Rightarrow> Inr ([], r)
      | FormUrlencoded \<Rightarrow>
          bindR (rq_Body r) (\<lambda>b.
            if maxFormSize < int (length b) then Inl (GoErr ''http: POST too large'')
            else if \<not> queryWellFormed b then Inl (GoErr ''invalid form body'')
            else Inr (parseQuery b, r\<lparr>rq_Body := Inr []\<rparr>)))"

definition parseForm :: "request \<Rightarrow> (form_values \<times> request) res" where
  "parseForm r =
     bindR (parsePostForm r) (\<lambda>(f, r').
       if queryWellFormed (rq_RawQuery r') then Inr (f, r') else Inl (GoErr ''invalid query string''))"

text \<open>
  What a server reads as the parameter \<open>k\<close> (\<^verbatim>\<open>req.FormValue\<close>): the body of a form comes
  before the query string.
\<close>

definition bodyForm :: "request \<Rightarrow> form_values" where
  "bodyForm r =
     (if bodyMethod (rq_Method r) \<and> rq_Content r = FormUrlencoded
      then (case rq_Body r of Inl _ \<Rightarrow> [] | Inr b \<Rightarrow> parseQuery b) else [])"

definition formValues :: "request \<Rightarrow> string \<Rightarrow> string list" where
  "formValues r k = vValues (bodyForm r) k @ vValues (parseQuery (rq_RawQuery r)) k"

definition formValue :: "request \<Rightarrow> string \<Rightarrow> string" where
  "formValue r k = (case formValues r k of [] \<Rightarrow> [] | x # _ \<Rightarrow> x)"

section \<open>Round trips\<close>

lemma unhex_hex: "n < 16 \<Longrightarrow> unhexDigit (hexDigit n) = Some n"
  by (auto simp: unhexDigit_def hexDigit_def Let_def)

lemma of_char_bound: "(of_char c :: nat) < 256"
  by (metis (no_types) of_char_of of_nat_less_iff char_of_mod_256 mod_less_divisor of_char_mod_256 zero_less_numeral)

lemma nibbles: "of_char c div (16 :: nat) < 16" "of_char c mod (16 :: nat) < 16"
  using of_char_bound [of c] by (simp_all add: less_mult_imp_div_less)

lemma char_of_hex [simp]: "char_of (16 * (of_char c div 16) + of_char c mod (16 :: nat)) = c"
  by (metis char_of_char mult_div_mod_eq)

lemma unreserved_plain:
  "unreserved c \<Longrightarrow> c \<notin> {CHR ''%'', CHR ''+'', CHR ''='', CHR ''&'', CHR '';''}"
  by (auto simp: unreserved_def Let_def)

lemma unreserved_hex: "n < 16 \<Longrightarrow> unreserved (hexDigit n)"
  by (auto simp: unreserved_def hexDigit_def Let_def)

lemma escapeByte_chars:
  assumes "x \<in> set (escapeByte c)"
  shows "unreserved x \<or> x = CHR ''+'' \<or> x = CHR ''%''"
  using assms nibbles by (auto simp: escapeByte_def unreserved_hex split: if_splits)

lemma queryEscape_chars:
  assumes "x \<in> set (queryEscape s)"
  shows "x \<notin> {CHR ''='', CHR ''&'', CHR '';''}"
proof -
  obtain c where "x \<in> set (escapeByte c)"
    using assms by (auto simp: queryEscape_def)
  then have "unreserved x \<or> x = CHR ''+'' \<or> x = CHR ''%''"
    by (rule escapeByte_chars)
  then show ?thesis by (auto dest: unreserved_plain)
qed

lemma unescape_byte:
  "queryUnescape (escapeByte c @ s) = map_option (\<lambda>r. c # r) (queryUnescape s)"
  using unreserved_plain [of c] nibbles [of c] by (auto simp: escapeByte_def unhex_hex)

lemma unescape_escape: "queryUnescape (queryEscape s) = Some s"
  by (induction s) (simp_all add: queryEscape_def unescape_byte)

lemma cutEq_encodePair: "cutEq (encodePair k x) = (queryEscape k, queryEscape x)"
proof -
  have "\<forall>c \<in> set (queryEscape k). c \<noteq> CHR ''=''"
    using queryEscape_chars by blast
  then show ?thesis
    by (simp add: cutEq_def encodePair_def takeWhile_append2 dropWhile_append2)
qed

lemma parsePair_encodePair: "parsePair (encodePair k x) = Some (k, x)"
proof -
  have "CHR '';'' \<notin> set (encodePair k x)"
    using queryEscape_chars by (fastforce simp: encodePair_def)
  then show ?thesis
    by (simp add: parsePair_def cutEq_encodePair unescape_escape)
qed

lemma amp_encodePair: "CHR ''&'' \<notin> set (encodePair k x)"
  using queryEscape_chars by (fastforce simp: encodePair_def)

lemma encodePair_nonempty [simp]: "encodePair k x \<noteq> []"
  by (simp add: encodePair_def)

lemma parse_pairs:
  "foldl parseSetting v (map (\<lambda>(k, x). encodePair k x) ps) = foldl (\<lambda>v (k, x). vAdd k x v) v ps"
  by (induction ps arbitrary: v) (auto simp: parseSetting_def parsePair_encodePair)

lemma parseQuery_encode: "parseQuery (vEncode v) = foldl (\<lambda>v (k, x). vAdd k x v) [] (flatPairs v)"
proof (cases "flatPairs v = []")
  case True
  then show ?thesis by (simp add: vEncode_def parseQuery_def parseSetting_def)
next
  case False
  let ?ws = "map (\<lambda>(k, x). encodePair k x) (flatPairs v)"
  have "\<forall>w \<in> set ?ws. CHR ''&'' \<notin> set w"
    using amp_encodePair by auto
  with False have "splitOn CHR ''&'' (vEncode v) = ?ws"
    by (simp add: vEncode_def splitOn_joinStr)
  then show ?thesis by (simp only: parseQuery_def parse_pairs)
qed

lemma vValues_vAdd [simp]: "vValues (vAdd k x v) j = vValues v j @ (if j = k then [x] else [])"
  by (simp add: vAdd_def vValues_def)

lemma vValues_vSet [simp]: "vValues (vSet k x v) j = (if j = k then [x] else vValues v j)"
  by (simp add: vSet_def vValues_def)

lemma vGet_vSet [simp]: "vGet (vSet k x v) j = (if j = k then x else vGet v j)"
  by (simp add: vGet_def)

lemma vValues_Nil [simp]: "vValues [] k = []"
  by (simp add: vValues_def)

lemma distinct_vAdd: "distinct (map fst v) \<Longrightarrow> distinct (map fst (vAdd k x v))"
  by (simp add: vAdd_def distinct_alistUpdate)

lemma distinct_vSet: "distinct (map fst v) \<Longrightarrow> distinct (map fst (vSet k x v))"
  by (simp add: vSet_def distinct_alistUpdate)

lemma distinct_parseSetting:
  "distinct (map fst v) \<Longrightarrow> distinct (map fst (parseSetting v s))"
  by (auto simp: parseSetting_def distinct_vAdd split: option.splits prod.splits)

lemma distinct_parseSettings:
  "distinct (map fst v) \<Longrightarrow> distinct (map fst (foldl parseSetting v ps))"
  by (induction ps arbitrary: v) (simp_all add: distinct_parseSetting)

lemma distinct_parseQuery [simp]: "distinct (map fst (parseQuery s))"
  by (simp add: parseQuery_def distinct_parseSettings)

lemma vValues_addPairs:
  "vValues (foldl (\<lambda>v (k, x). vAdd k x v) v ps) j = vValues v j @ map snd (filter (\<lambda>p. fst p = j) ps)"
  by (induction ps arbitrary: v) auto

lemma filter_flat:
  "distinct ks \<Longrightarrow>
   map snd (filter (\<lambda>p. fst p = j) (concat (map (\<lambda>k. map (\<lambda>x. (k, x)) (f k)) ks))) =
   (if j \<in> set ks then f j else [])"
proof (induction ks)
  case (Cons k ks)
  then show ?case
    by (cases "k = j") (auto simp: filter_map o_def)
qed simp

text \<open>What a server parses from an encoded query string is what was encoded, key by key.\<close>

lemma vValues_roundtrip:
  assumes "distinct (map fst v)"
  shows "vValues (parseQuery (vEncode v)) j = vValues v j"
proof -
  have "mset (sortStrings (map fst v)) = mset (map fst v)" by simp
  with assms have dist: "distinct (sortStrings (map fst v))"
    by (metis mset_eq_imp_distinct_iff)
  have "vValues v j = []" if "j \<notin> fst ` set v"
    using that by (simp add: vValues_def map_of_eq_None_iff [symmetric])
  then show ?thesis
    by (simp add: parseQuery_encode vValues_addPairs flatPairs_def filter_flat [OF dist])
qed

lemma queryWellFormed_encode: "queryWellFormed (vEncode v)"
proof (cases "flatPairs v = []")
  case True
  then show ?thesis by (simp add: vEncode_def queryWellFormed_def)
next
  case False
  let ?ws = "map (\<lambda>(k, x). encodePair k x) (flatPairs v)"
  have "\<forall>w \<in> set ?ws. CHR ''&'' \<notin> set w"
    using amp_encodePair by auto
  with False have "splitOn CHR ''&'' (vEncode v) = ?ws"
    by (simp add: vEncode_def splitOn_joinStr)
  then show ?thesis
    by (auto simp: queryWellFormed_def list_all_iff parsePair_encodePair)
qed

lemma char_of_dash: "n < 256 \<Longrightarrow> char_of (n :: nat) = CHR ''-'' \<longleftrightarrow> n = 45"
  by (simp add: char_of_eq_iff take_bit_nat_def)

lemma token_letter:
  "65 \<le> (of_char c :: nat) \<and> (of_char c :: nat) \<le> 90 \<or> 97 \<le> (of_char c :: nat) \<and> (of_char c :: nat) \<le> 122 \<Longrightarrow>
   tokenByte c"
  by (simp only: tokenByte_def Let_def) blast

lemma upperByte_facts [simp]:
  "upperByte (upperByte c) = upperByte c" "upperByte c = CHR ''-'' \<longleftrightarrow> c = CHR ''-''"
  by (auto simp: upperByte_def char_of_dash)

lemma lowerByte_facts [simp]:
  "lowerByte (lowerByte c) = lowerByte c" "lowerByte c = CHR ''-'' \<longleftrightarrow> c = CHR ''-''"
  by (auto simp: lowerByte_def char_of_dash)

lemma tokenByte_upper [simp]: "tokenByte c \<Longrightarrow> tokenByte (upperByte c)"
  unfolding upperByte_def by (auto intro!: token_letter)

lemma tokenByte_lower [simp]: "tokenByte c \<Longrightarrow> tokenByte (lowerByte c)"
  unfolding lowerByte_def by (auto intro!: token_letter)

lemma canonicalLoop_idem [simp]: "canonicalLoop u (canonicalLoop u s) = canonicalLoop u s"
  by (induction u s rule: canonicalLoop.induct) auto

lemma canonicalLoop_token: "list_all tokenByte s \<Longrightarrow> list_all tokenByte (canonicalLoop u s)"
  by (induction u s rule: canonicalLoop.induct) auto

lemma canonicalKey_idem [simp]: "canonicalKey (canonicalKey k) = canonicalKey k"
  by (simp add: canonicalKey_def canonicalLoop_token)

end
