(* ===== verification/Gateway_Remote.thy ===== *)
theory Gateway_Remote
  imports Http_Url
begin

text \<open>
  \<^verbatim>\<open>pkg/monitoring-gateway/remote.go\<close> and the configuration types it reads
  (\<^verbatim>\<open>config.go\<close>): the clients that forward remote-write requests to external targets.  The
  HTTP transport built by \<^verbatim>\<open>config_util.NewClientFromConfig\<close>, the YAML decoder and the file
  system are parameters.
\<close>

section \<open>Configuration\<close>

record rw_basic_auth =
  rwb_Username :: string
  rwb_Password :: string
  rwb_PasswordFile :: string

record 'tls ext_rw_config =
  rw_Name :: string
  rw_URL :: string
  rw_Headers :: "(string \<times> string) list"
  rw_RemoteTimeout :: int
  rw_BasicAuth :: "rw_basic_auth option"
  rw_BearerToken :: string
  rw_TLSConfig :: 'tls

record 'tls client_config =
  hc_TLSConfig :: 'tls
  hc_BearerToken :: string
  hc_BasicAuth :: "rw_basic_auth option"

record out_request =
  or_URL :: string
  or_Header :: form_values
  or_Body :: string

record http_response =
  hr_StatusCode :: int
  hr_Status :: string
  hr_Body :: string

text \<open>A transport sends a request within a timeout (in nanoseconds).\<close>

type_synonym transport = "int \<Rightarrow> out_request \<Rightarrow> http_response res"

record rw_client =
  rwc_Client :: transport
  rwc_url :: string
  rwc_timeout :: int

definition LoadExternalRemoteWriteConfig ::
  "(string \<Rightarrow> string res) \<Rightarrow> (string \<Rightarrow> 'tls ext_rw_config list res) \<Rightarrow> string \<Rightarrow> string \<Rightarrow>
   'tls ext_rw_config list res" where
  "LoadExternalRemoteWriteConfig readFile unmarshalStrict file content =
     bindR (if file \<noteq> [] then readFile file else Inr content) (\<lambda>buff.
       if buff = [] then Inr []
       else (case unmarshalStrict buff of Inl err \<Rightarrow> Inl (Wrapped [] err) | Inr rws \<Rightarrow> Inr rws))"

section \<open>Clients\<close>

definition injectHeadersRoundTripper :: "(string \<times> string) list \<Rightarrow> transport \<Rightarrow> transport" where
  "injectHeadersRoundTripper headers rt = (\<lambda>timeout req.
     rt timeout (req\<lparr>or_Header := foldl (\<lambda>h (key, value). hSet key value h) (or_Header req) headers\<rparr>))"

definition secondNs :: int where
  "secondNs = 1000000000"

definition newExternalRemoteWriteClient ::
  "('tls client_config \<Rightarrow> transport res) \<Rightarrow> 'tls ext_rw_config \<Rightarrow> rw_client res" where
  "newExternalRemoteWriteClient newClientFromConfig conf =
     (let cfg = \<lparr>hc_TLSConfig = rw_TLSConfig conf, hc_BearerToken = rw_BearerToken conf,
                 hc_BasicAuth = rw_BasicAuth conf\<rparr> in
      bindR (newClientFromConfig cfg) (\<lambda>t.
        Inr \<lparr>rwc_Client = (if rw_Headers conf \<noteq> [] then injectHeadersRoundTripper (rw_Headers conf) t else t),
             rwc_url = rw_URL conf,
             rwc_timeout = (if 0 < rw_RemoteTimeout conf then rw_RemoteTimeout conf else 30 * secondNs)\<rparr>))"

fun NewExternalRemoteWriteClients ::
  "('tls client_config \<Rightarrow> transport res) \<Rightarrow> 'tls ext_rw_config list \<Rightarrow> rw_client list res" where
  "NewExternalRemoteWriteClients newClientFromConfig [] = Inr []"
| "NewExternalRemoteWriteClients newClientFromConfig (rwCfg # rest) =
     bindR (newExternalRemoteWriteClient newClientFromConfig rwCfg) (\<lambda>writeClient.
     bindR (NewExternalRemoteWriteClients newClientFromConfig rest) (\<lambda>clients.
       Inr (writeClient # clients)))"

definition Endpoint :: "rw_client \<Rightarrow> string" where
  "Endpoint c = rwc_url c"

record send_result =
  sr_code :: int
  sr_err :: "gerror option"

text \<open>The first line of a response body, of which at most 1024 bytes are read.\<close>

definition firstLine :: "string \<Rightarrow> string" where
  "firstLine body =
     (let line = takeWhile (\<lambda>c. c \<noteq> CHR 0x0A) (take 1024 body) in trimSuffix line [CHR 0x0D])"

text \<open>
  The request \<^verbatim>\<open>Send\<close> builds: the caller's headers are added one by one, then the three
  headers of the remote-write protocol.
\<close>

definition sendHeader :: "form_values \<Rightarrow> form_values" where
  "sendHeader header =
     (let h0 = foldl (\<lambda>h (k, vs). foldl (\<lambda>h v. hAdd k v h) h vs) [] header;
          h1 = hAdd ''Content-Encoding'' ''snappy'' h0;
          h2 = hSet ''Content-Type'' ''application/x-protobuf'' h1
      in hSet ''X-Prometheus-Remote-Write-Version'' ''0.1.0'' h2)"

definition Send :: "(string \<Rightarrow> gerror option) \<Rightarrow> rw_client \<Rightarrow> string \<Rightarrow> form_values \<Rightarrow> send_result" where
  "Send badURL c body header =
     (case badURL (rwc_url c) of
        Some err \<Rightarrow> \<lparr>sr_code = 400, sr_err = Some err\<rparr>
      | None \<Rightarrow>
          (case rwc_Client c (rwc_timeout c)
                  \<lparr>or_URL = rwc_url c, or_Header = sendHeader header, or_Body = body\<rparr> of
             Inl err \<Rightarrow> \<lparr>sr_code = 502, sr_err = Some err\<rparr>
           | Inr resp \<Rightarrow>
               \<lparr>sr_code = hr_StatusCode resp,
                sr_err = (if hr_StatusCode resp div 100 \<noteq> 2
                          then Some (GoErr (''server returned HTTP status '' @ hr_Status resp @ '': '' @ firstLine (hr_Body resp)))
                          else None)\<rparr>))"

section \<open>Properties\<close>

lemma clients_of_configs:
  "NewExternalRemoteWriteClients mk cfgs = Inr cs \<longleftrightarrow>
   list_all2 (\<lambda>cfg c. newExternalRemoteWriteClient mk cfg = Inr c) cfgs cs"
proof (induction cfgs arbitrary: cs)
  case (Cons cfg cfgs)
  then show ?case
    by (cases cs) (auto simp: bindR_Inr_iff)
qed auto

lemma injected_header:
  assumes "map_of (rev headers) k = Some v" and "distinct (map (canonicalKey \<circ> fst) headers)"
  shows "hGet (foldl (\<lambda>h (key, value). hSet key value h) h headers) k = v"
  using assms
proof (induction headers rule: rev_induct)
  case (snoc p headers)
  obtain a b where p: "p = (a, b)" by (cases p)
  show ?case
  proof (cases "a = k")
    case True
    with snoc.prems p show ?thesis by (simp add: hGet_def hSet_def)
  next
    case False
    with snoc.prems p have "(k, v) \<in> set headers"
      by (auto dest: map_of_SomeD)
    with snoc.prems p have "canonicalKey a \<noteq> canonicalKey k" by force
    with snoc p False show ?thesis by (simp add: hGet_def hSet_def)
  qed
qed simp

lemma uninjected_header:
  assumes "k \<notin> (canonicalKey \<circ> fst) ` set headers"
  shows "vValues (foldl (\<lambda>h (key, value). hSet key value h) h headers) k = vValues h k"
  using assms by (induction headers arbitrary: h) (auto simp: hSet_def)

definition protocolHeaders :: "string list" where
  "protocolHeaders = [''Content-Encoding'', ''Content-Type'', ''X-Prometheus-Remote-Write-Version'']"

lemma sendHeader_tenant:
  assumes "canonicalKey th \<notin> canonicalKey ` set protocolHeaders"
  shows "vValues (sendHeader (hSet th tenant [])) (canonicalKey th) = [tenant]"
  using assms by (simp add: sendHeader_def hSet_def hAdd_def vSet_def [of _ _ "[]"] protocolHeaders_def)

text \<open>
  An external remote-write client built from a configuration sends the received body
  unchanged to the configured URL, with the tenant's header as its only value under that key
  (unless the configuration itself or the remote-write protocol sets that header), and reports
  success exactly when the target answers with a status of class 2xx.
\<close>

theorem Send_delivers:
  assumes "newExternalRemoteWriteClient mk conf = Inr c"
    and "mk \<lparr>hc_TLSConfig = rw_TLSConfig conf, hc_BearerToken = rw_BearerToken conf,
             hc_BasicAuth = rw_BasicAuth conf\<rparr> = Inr t"
    and "badURL (rw_URL conf) = None"
    and "canonicalKey th \<notin> canonicalKey ` (set protocolHeaders \<union> fst ` set (rw_Headers conf))"
  shows "\<exists>req timeout. 0 < timeout \<and> or_URL req = rw_URL conf \<and> or_Body req = body \<and>
    vValues (or_Header req) (canonicalKey th) = [tenant] \<and>
    (sr_err (Send badURL c body (hSet th tenant [])) = None \<longleftrightarrow>
     (\<exists>resp. t timeout req = Inr resp \<and> 200 \<le> hr_StatusCode resp \<and> hr_StatusCode resp < 300))"
proof -
  let ?to = "if 0 < rw_RemoteTimeout conf then rw_RemoteTimeout conf else 30 * secondNs"
  let ?sent = "\<lparr>or_URL = rw_URL conf, or_Header = sendHeader (hSet th tenant []), or_Body = body\<rparr>"
  let ?req = "?sent\<lparr>or_Header := foldl (\<lambda>h (key, value). hSet key value h) (or_Header ?sent) (rw_Headers conf)\<rparr>"
  have c: "rwc_url c = rw_URL conf" "rwc_timeout c = ?to" "rwc_Client c ?to ?sent = t ?to ?req"
    using assms(1,2) by (auto simp: newExternalRemoteWriteClient_def Let_def injectHeadersRoundTripper_def)
  have "canonicalKey th \<notin> (canonicalKey \<circ> fst) ` set (rw_Headers conf)"
    using assms(4) by (simp add: image_Un image_comp)
  then have "vValues (or_Header ?req) (canonicalKey th) = [tenant]"
    using assms(4) by (simp add: uninjected_header sendHeader_tenant image_Un)
  moreover have "n div 100 = 2 \<longleftrightarrow> 200 \<le> n \<and> n < 300" for n :: int
    by arith
  ultimately show ?thesis
    using c assms(3)
    by (intro exI [of _ ?req] exI [of _ ?to]) (auto simp: Send_def secondNs_def split: sum.splits)
qed

definition exRwConfig :: "unit ext_rw_config" where
  "exRwConfig = \<lparr>rw_Name = ''backup'', rw_URL = ''http://b/w'', rw_Headers = [(''x-a'', ''1'')],
     rw_RemoteTimeout = 0, rw_BasicAuth = None, rw_BearerToken = [], rw_TLSConfig = ()\<rparr>"

definition exTransport :: transport where
  "exTransport = (\<lambda>_ req. Inr \<lparr>hr_StatusCode = (if or_Body req = ''ok'' then 204 else 503),
     hr_Status = ''503 Service Unavailable'', hr_Body = ''busy''\<rparr>)"

theorem Send_delivers_witness:
  "\<exists>c. newExternalRemoteWriteClient (\<lambda>_. Inr exTransport) exRwConfig = Inr c \<and>
     sr_err (Send (\<lambda>_. None) c ''ok'' (hSet ''WHIZARD-TENANT'' ''t1'' [])) = None \<and>
     sr_err (Send (\<lambda>_. None) c ''no'' (hSet ''WHIZARD-TENANT'' ''t1'' [])) \<noteq> None"
proof -
  obtain c where c: "newExternalRemoteWriteClient (\<lambda>_. Inr exTransport) exRwConfig = Inr c"
    by (simp add: newExternalRemoteWriteClient_def Let_def)
  have key: "canonicalKey ''WHIZARD-TENANT'' \<notin>
      canonicalKey ` (set protocolHeaders \<union> fst ` set (rw_Headers exRwConfig))"
    by code_simp
  have "sr_err (Send (\<lambda>_. None) c body (hSet ''WHIZARD-TENANT'' ''t1'' [])) = None \<longleftrightarrow> body = ''ok''" for body
  proof -
    obtain req timeout where "or_Body req = body"
      and "sr_err (Send (\<lambda>_. None) c body (hSet ''WHIZARD-TENANT'' ''t1'' [])) = None \<longleftrightarrow>
        (\<exists>resp. exTransport timeout req = Inr resp \<and> 200 \<le> hr_StatusCode resp \<and> hr_StatusCode resp < 300)"
      using Send_delivers [OF c refl refl key, of body "''t1''"] by (elim exE conjE) (rule that)
    then show ?thesis
      by (cases "body = ''ok''") (simp_all add: exTransport_def)
  qed
  with c show ?thesis by (intro exI [of _ c]) simp
qed

end
