(* ===== verification/Gateway_Handler.thy ===== *)
theory Gateway_Handler
  imports Gateway_Remote
begin

text \<open>
  The HTTP front of the monitoring gateway: \<^verbatim>\<open>handler.go\<close>, \<^verbatim>\<open>inject.go\<close>,
  \<^verbatim>\<open>auth.go\<close> and \<^verbatim>\<open>requestinfo.go\<close> of \<^verbatim>\<open>pkg/monitoring-gateway\<close>.  A handler
  turns a request into the sequence of what it does: the errors it writes, the requests it hands
  to a reverse proxy, the bodies it sends to external targets, a panic.  The PromQL library
  (parser, label enforcer, matchers) is the parameter \<open>promql\<close>.
\<close>

section \<open>Parameters, options and state\<close>

record ('x, 'm) promql =
  pq_parseExpr :: "string \<Rightarrow> string + 'x"
  pq_enforceNode :: "string \<Rightarrow> string \<Rightarrow> 'x \<Rightarrow> (bool \<times> string) + 'x"
  pq_string :: "'x \<Rightarrow> string"
  pq_parseSelector :: "string \<Rightarrow> string + 'm list"
  pq_equal :: "string \<Rightarrow> string \<Rightarrow> 'm"
  pq_matcherString :: "'m \<Rightarrow> string"
  pq_quote :: "string \<Rightarrow> string"

text \<open>A reverse proxy is known by its target.\<close>

type_synonym reverse_proxy = string

record options =
  op_TenantHeader :: string
  op_TenantLabelName :: string
  op_QueryProxy :: "reverse_proxy option"
  op_RulesQueryProxy :: "reverse_proxy option"
  op_RemoteWriteProxy :: "reverse_proxy option"
  op_ExternalRWClients :: "rw_client list"
  op_CertAuthenticator :: bool
  op_EnabledTenantsAdmission :: bool
  op_EnabledQueryUI :: bool

text \<open>
  The \<^verbatim>\<open>sync.Map\<close> of admitted tenants holds \<open>AVTrue\<close> under a tenant and the last configured
  list under the key \<^verbatim>\<open>/-/\<close>.
\<close>

datatype admission_value = AVTrue | AVTenants "string list"

type_synonym admission_map = "string \<rightharpoonup> admission_value"

datatype event =
    HttpError nat string
  | NotFoundResp
  | Forward reverse_proxy request
  | SendExternal rw_client string form_values
  | ServeUI request
  | Panicked

type_synonym handler = "request \<Rightarrow> event list"

fun errorText :: "gerror \<Rightarrow> string" where
  "errorText (GoErr m) = m"
| "errorText (Wrapped m e) = m @ '': '' @ errorText e"
| "errorText _ = []"

section \<open>Request info, authorization, admission\<close>

fun indexByteLoop :: "string \<Rightarrow> char \<Rightarrow> nat \<Rightarrow> nat \<Rightarrow> nat \<Rightarrow> int" where
  "indexByteLoop [] b n num i = -1"
| "indexByteLoop (c # cs) b n num i =
     (if c = b then (if num + 1 = n then int i else indexByteLoop cs b n (num + 1) (i + 1))
      else indexByteLoop cs b n num (i + 1))"

definition indexByteNth :: "string \<Rightarrow> char \<Rightarrow> nat \<Rightarrow> int" where
  "indexByteNth s b n = indexByteLoop s b n 0 0"

definition withRequestInfo :: "handler \<Rightarrow> handler" where
  "withRequestInfo f = (\<lambda>req.
     let index = indexByteNth (rq_Path req) CHR ''/'' 2;
         req1 = (if 0 < index then req\<lparr>rq_Path := drop (nat index) (rq_Path req)\<rparr> else req)
     in f (req1\<lparr>rq_Info := Some (rq_TenantVar req)\<rparr>))"

definition AuthenticateRequest :: "request \<Rightarrow> (string \<times> bool) option" where
  "AuthenticateRequest req =
     (case rq_Peers req of
        None \<Rightarrow> None
      | Some [] \<Rightarrow> Some ([], False)
      | Some (cn # _) \<Rightarrow> Some (cn, True))"

definition errInvalidCert :: string where
  "errInvalidCert = ''invalid cert''"

definition withAuthorization :: "handler \<Rightarrow> handler" where
  "withAuthorization f = (\<lambda>req.
     case AuthenticateRequest req of
       None \<Rightarrow> [Panicked]
     | Some (tenantId, ok) \<Rightarrow>
         (if ok then [] else [HttpError 401 errInvalidCert]) @
         (case rq_Info req of
            None \<Rightarrow> [HttpError 401 errInvalidCert, Panicked]
          | Some info \<Rightarrow>
              (if tenantId \<noteq> info then [HttpError 401 errInvalidCert] else []) @ f req))"

definition withTenantsAdmission :: "handler \<Rightarrow> admission_map \<Rightarrow> bool \<Rightarrow> handler" where
  "withTenantsAdmission f tenantsAdmissionMap enable = (\<lambda>req.
     case rq_Info req of
       None \<Rightarrow> [NotFoundResp]
     | Some tenantId \<Rightarrow>
         if tenantId = [] then [NotFoundResp]
         else if enable \<and> tenantsAdmissionMap tenantId = None
           then [HttpError 403 (''tenant '' @ tenantId @ '' is not allowed to access'')]
         else f req)"

definition wrap :: "options \<Rightarrow> admission_map \<Rightarrow> handler \<Rightarrow> handler" where
  "wrap opts adm f =
     (let f1 = (if op_CertAuthenticator opts then withAuthorization f else f)
      in withRequestInfo (withTenantsAdmission f1 adm (op_EnabledTenantsAdmission opts)))"

section \<open>Label enforcement\<close>

definition queryParam :: string where
  "queryParam = ''query''"

definition matchersParam :: string where
  "matchersParam = ''match[]''"

datatype enforce_error =
    IllegalLabelMatcher string
  | QueryParseError string
  | EnforceLabelError string

definition enforceQueryValues ::
  "('x, 'm) promql \<Rightarrow> string \<Rightarrow> string \<Rightarrow> form_values \<Rightarrow> enforce_error + string \<times> bool" where
  "enforceQueryValues pq lname lvalue v =
     (if vGet v queryParam = [] then Inr (vEncode v, False)
      else (case pq_parseExpr pq (vGet v queryParam) of
              Inl err \<Rightarrow> Inl (QueryParseError (''error parsing query string '' @ pq_quote pq err))
            | Inr expr \<Rightarrow>
                (case pq_enforceNode pq lname lvalue expr of
                   Inl (illegal, err) \<Rightarrow>
                     Inl (if illegal then IllegalLabelMatcher err
                          else EnforceLabelError (''error enforcing label '' @ pq_quote pq err))
                 | Inr expr' \<Rightarrow> Inr (vEncode (vSet queryParam (pq_string pq expr') v), True))))"

fun enforceErrorEvent :: "enforce_error \<Rightarrow> event" where
  "enforceErrorEvent (IllegalLabelMatcher m) = HttpError 400 m"
| "enforceErrorEvent (QueryParseError m) = HttpError 400 m"
| "enforceErrorEvent (EnforceLabelError m) = HttpError 500 m"

definition matchersToString :: "('x, 'm) promql \<Rightarrow> 'm list \<Rightarrow> string" where
  "matchersToString pq ms = ''{'' @ joinStr '','' (map (pq_matcherString pq) ms) @ ''}''"

fun injectLoop :: "('x, 'm) promql \<Rightarrow> 'm \<Rightarrow> string list \<Rightarrow> string list res" where
  "injectLoop pq mt [] = Inr []"
| "injectLoop pq mt (m # rest) =
     (case pq_parseSelector pq m of
        Inl err \<Rightarrow> Inl (GoErr err)
      | Inr ms \<Rightarrow> bindR (injectLoop pq mt rest) (\<lambda>rest'. Inr (matchersToString pq (ms @ [mt]) # rest')))"

definition injectMatcher :: "('x, 'm) promql \<Rightarrow> form_values \<Rightarrow> 'm \<Rightarrow> string \<Rightarrow> form_values res" where
  "injectMatcher pq q mt param =
     (let matchers = vValues q param in
      if matchers = [] then Inr (vSet param (matchersToString pq [mt]) q)
      else bindR (injectLoop pq mt matchers) (\<lambda>matchers'. Inr (alistUpdate param matchers' q)))"

section \<open>The handlers\<close>

definition noQueryTarget :: event where
  "noQueryTarget = HttpError 406 ''The query target is not configured for the server''"

definition noWriteTarget :: event where
  "noWriteTarget = HttpError 406 ''There is no remote write targets configured for the server''"

text \<open>
  The second half of \<^verbatim>\<open>query\<close>: enforcing the form of a POST request.  Parsing the form has read
  the body; it is replaced only where the form has a query.
\<close>

definition enforcePost ::
  "('x, 'm) promql \<Rightarrow> string \<Rightarrow> string \<Rightarrow> form_values option \<Rightarrow> request \<Rightarrow> enforce_error + request" where
  "enforcePost pq lname tenant postForm req =
     (case postForm of
        None \<Rightarrow> Inr req
      | Some f \<Rightarrow>
          (case enforceQueryValues pq lname tenant f of
             Inl err \<Rightarrow> Inl err
           | Inr (q, found) \<Rightarrow>
               Inr (if found then req\<lparr>rq_Body := Inr q, rq_ContentLength := int (length q)\<rparr> else req)))"

definition queryEnforced ::
  "options \<Rightarrow> ('x, 'm) promql \<Rightarrow> reverse_proxy \<Rightarrow> form_values option \<Rightarrow> handler" where
  "queryEnforced opts pq proxy postForm = (\<lambda>req.
     let query = parseQuery (rq_RawQuery req) in
     if vGet query queryParam = [] \<and> vGet (case postForm of None \<Rightarrow> [] | Some f \<Rightarrow> f) queryParam = [] then []
     else (case rq_Info req of
             None \<Rightarrow> [Panicked]
           | Some tenant \<Rightarrow>
               (case enforceQueryValues pq (op_TenantLabelName opts) tenant query of
                  Inl err \<Rightarrow> [enforceErrorEvent err]
                | Inr (q, found) \<Rightarrow>
                    (case enforcePost pq (op_TenantLabelName opts) tenant postForm
                            (if found then req\<lparr>rq_RawQuery := q\<rparr> else req) of
                       Inl err \<Rightarrow> [enforceErrorEvent err]
                     | Inr req' \<Rightarrow> [Forward proxy req']))))"

definition Handler_query :: "options \<Rightarrow> ('x, 'm) promql \<Rightarrow> handler" where
  "Handler_query opts pq = (\<lambda>req.
     case op_QueryProxy opts of
       None \<Rightarrow> [noQueryTarget]
     | Some proxy \<Rightarrow>
         if rq_Method req = ''POST'' then
           (case parseForm req of
              Inl err \<Rightarrow> [HttpError 400 (errorText err)]
            | Inr (postForm, req1) \<Rightarrow> queryEnforced opts pq proxy (Some postForm) req1)
         else queryEnforced opts pq proxy None req)"

text \<open>
  \<^verbatim>\<open>matcher\<close>: the content length it sets is \<^verbatim>\<open>len(q)\<close>, the number of keys of the form.
\<close>

definition matcherPost :: "('x, 'm) promql \<Rightarrow> 'm \<Rightarrow> string \<Rightarrow> request \<Rightarrow> request res" where
  "matcherPost pq mt param req =
     (if rq_Method req = ''POST'' then
        bindR (parseForm req) (\<lambda>(f, req1).
        bindR (injectMatcher pq f mt param) (\<lambda>q.
          Inr (req1\<lparr>rq_Body := Inr (vEncode q), rq_ContentLength := int (length q)\<rparr>)))
      else Inr req)"

definition matcher :: "options \<Rightarrow> ('x, 'm) promql \<Rightarrow> string \<Rightarrow> handler" where
  "matcher opts pq param = (\<lambda>req.
     case op_QueryProxy opts of
       None \<Rightarrow> [noQueryTarget]
     | Some proxy \<Rightarrow>
         (case rq_Info req of
            None \<Rightarrow> [Panicked]
          | Some tenant \<Rightarrow>
              let mt = pq_equal pq (op_TenantLabelName opts) tenant in
              (case injectMatcher pq (parseQuery (rq_RawQuery req)) mt param of
                 Inl err \<Rightarrow> []
               | Inr q \<Rightarrow>
                   (case matcherPost pq mt param (req\<lparr>rq_RawQuery := vEncode q\<rparr>) of
                      Inl err \<Rightarrow> []
                    | Inr req' \<Rightarrow>
                        (if hasSuffix (rq_Path req') ''/rules'' \<or> hasSuffix (rq_Path req') ''/alerts'' then
                           (case op_RulesQueryProxy opts of
                              Some rulesProxy \<Rightarrow> [Forward rulesProxy req']
                            | None \<Rightarrow> [Forward proxy req'])
                         else [Forward proxy req'])))))"

definition setTenantHeader :: "options \<Rightarrow> request \<Rightarrow> request" where
  "setTenantHeader opts req =
     (case rq_Info req of
        Some tenant \<Rightarrow>
          if tenant \<noteq> [] then req\<lparr>rq_Header := hSet (op_TenantHeader opts) tenant (rq_Header req)\<rparr> else req
      | None \<Rightarrow> req)"

text \<open>
  The external clients run in parallel; their sends are listed in the order they are started.
\<close>

definition remoteWrite :: "options \<Rightarrow> handler" where
  "remoteWrite opts = (\<lambda>req.
     case op_RemoteWriteProxy opts of
       None \<Rightarrow> [noWriteTarget]
     | Some proxy \<Rightarrow>
         let req1 = setTenantHeader opts req in
         (case rq_Body req1 of
            Inl err \<Rightarrow> [HttpError 500 (errorText err)]
          | Inr body \<Rightarrow>
              let tenantId = hGet (rq_Header req1) (op_TenantHeader opts);
                  tenantHeader = (if tenantId \<noteq> [] then hSet (op_TenantHeader opts) tenantId [] else [])
              in Forward proxy (req1\<lparr>rq_Body := Inr body\<rparr>) #
                 map (\<lambda>writeClient. SendExternal writeClient body tenantHeader) (op_ExternalRWClients opts)))"

definition otlpReceive :: "options \<Rightarrow> handler" where
  "otlpReceive opts = (\<lambda>req.
     case op_RemoteWriteProxy opts of
       None \<Rightarrow> [noWriteTarget]
     | Some proxy \<Rightarrow> [Forward proxy (setTenantHeader opts req)])"

definition queryUIHander :: "string \<Rightarrow> reverse_proxy option \<Rightarrow> handler" where
  "queryUIHander prefix queryHanler = (\<lambda>req.
     let req1 = req\<lparr>rq_Path := trimPrefix (rq_Path req) prefix\<rparr> in
     if containsSub (rq_Path req1) ''/api/v1'' then
       (case queryHanler of None \<Rightarrow> [Panicked] | Some proxy \<Rightarrow> [Forward proxy req1])
     else [ServeUI req1])"

section \<open>The route table\<close>

definition apiTenantPrefix :: string where
  "apiTenantPrefix = ''/{tenant_id}/api/v1''"

definition apiGlobalPrefix :: string where
  "apiGlobalPrefix = ''/api/v1''"

definition epQueryUI :: string where
  "epQueryUI = ''/-/ui''"

text \<open>A route: exact path or path prefix, its template, the methods it accepts (none: all).\<close>

record route =
  rt_IsPrefix :: bool
  rt_Template :: string
  rt_Methods :: "string list"
  rt_Handler :: handler

definition pathRoute :: "string \<Rightarrow> string list \<Rightarrow> handler \<Rightarrow> route" where
  "pathRoute tpl ms f = \<lparr>rt_IsPrefix = False, rt_Template = tpl, rt_Methods = ms, rt_Handler = f\<rparr>"

definition addTenantQueryHandler :: "options \<Rightarrow> ('x, 'm) promql \<Rightarrow> admission_map \<Rightarrow> route list" where
  "addTenantQueryHandler opts pq adm =
     [pathRoute (apiTenantPrefix @ ''/query'') [''GET'', ''POST''] (wrap opts adm (Handler_query opts pq)),
      pathRoute (apiTenantPrefix @ ''/query_range'') [''GET'', ''POST''] (wrap opts adm (Handler_query opts pq)),
      pathRoute (apiTenantPrefix @ ''/series'') [''GET''] (wrap opts adm (matcher opts pq matchersParam)),
      pathRoute (apiTenantPrefix @ ''/labels'') [''GET''] (wrap opts adm (matcher opts pq matchersParam)),
      pathRoute (apiTenantPrefix @ ''/label/*path'') [''GET''] (wrap opts adm (matcher opts pq matchersParam)),
      pathRoute (apiTenantPrefix @ ''/rules'') [''GET''] (wrap opts adm (matcher opts pq matchersParam))]"

definition addTenantRemoteWriteHandler :: "options \<Rightarrow> admission_map \<Rightarrow> route list" where
  "addTenantRemoteWriteHandler opts adm =
     [pathRoute (apiTenantPrefix @ ''/receive'') [''POST''] (wrap opts adm (remoteWrite opts))]"

definition addTenantOTLPHandler :: "options \<Rightarrow> admission_map \<Rightarrow> route list" where
  "addTenantOTLPHandler opts adm =
     [pathRoute (apiTenantPrefix @ ''/otlp'') [''POST''] (wrap opts adm (otlpReceive opts))]"

definition addGlobalProxyHandler :: "options \<Rightarrow> route list" where
  "addGlobalProxyHandler opts =
     (case op_RemoteWriteProxy opts of
        None \<Rightarrow> []
      | Some proxy \<Rightarrow>
          [pathRoute (apiGlobalPrefix @ ''/receive'') [] (remoteWrite opts),
           pathRoute (apiGlobalPrefix @ ''/otlp'') [] (\<lambda>req. [Forward proxy req])]) @
     (case op_QueryProxy opts of
        None \<Rightarrow> []
      | Some proxy \<Rightarrow>
          [\<lparr>rt_IsPrefix = True, rt_Template = apiGlobalPrefix, rt_Methods = [],
            rt_Handler = (\<lambda>req. [Forward proxy req])\<rparr>])"

definition addQueryUIHandler :: "options \<Rightarrow> route list" where
  "addQueryUIHandler opts =
     [\<lparr>rt_IsPrefix = True, rt_Template = epQueryUI, rt_Methods = [],
       rt_Handler = queryUIHander epQueryUI (op_QueryProxy opts)\<rparr>]"

text \<open>The routes of \<^verbatim>\<open>NewHandler\<close>, in the order in which the router tries them.\<close>

definition NewHandler :: "options \<Rightarrow> ('x, 'm) promql \<Rightarrow> admission_map \<Rightarrow> route list" where
  "NewHandler opts pq adm =
     addGlobalProxyHandler opts @ addTenantQueryHandler opts pq adm @
     addTenantRemoteWriteHandler opts adm @ addTenantOTLPHandler opts adm @
     (if op_EnabledQueryUI opts then addQueryUIHandler opts else [])"

section \<open>Admission control\<close>

definition difference :: "string list \<Rightarrow> string list \<Rightarrow> string list" where
  "difference a b = foldl (\<lambda>set v. if v \<in> List.set b then set else set @ [v]) [] a"

definition configKey :: string where
  "configKey = ''/-/''"

text \<open>
  One call is a sequence of single writes to the \<^verbatim>\<open>sync.Map\<close>, between which requests may
  be served.
\<close>

datatype admission_op = StoreOp string admission_value | DeleteOp string

fun applyOp :: "admission_op \<Rightarrow> admission_map \<Rightarrow> admission_map" where
  "applyOp (StoreOp k v) m = m(k \<mapsto> v)"
| "applyOp (DeleteOp k) m = m(k := None)"

definition admissionOps :: "admission_map \<Rightarrow> string list \<Rightarrow> admission_op list res" where
  "admissionOps m tenants' =
     (case m configKey of
        None \<Rightarrow> Inr (StoreOp configKey (AVTenants tenants') # map (\<lambda>t. StoreOp t AVTrue) tenants')
      | Some AVTrue \<Rightarrow> Inl Panic
      | Some (AVTenants tenants) \<Rightarrow>
          Inr (map (\<lambda>t. StoreOp t AVTrue) (difference tenants' tenants) @
               map DeleteOp (difference tenants tenants') @
               [StoreOp configKey (AVTenants tenants')]))"

definition SetAdmissionControlHandler ::
  "options \<Rightarrow> string list \<Rightarrow> admission_map \<Rightarrow> admission_map res" where
  "SetAdmissionControlHandler opts tenants' m =
     (if op_EnabledTenantsAdmission opts
      then bindR (admissionOps m tenants') (\<lambda>ops. Inr (fold applyOp ops m))
      else Inr m)"

section \<open>What a forwarded request is confined to\<close>

text \<open>
  The three promises the gateway makes to a tenant about a forwarded request: the query the
  upstream server reads is an expression on which the tenant's label was enforced; every series
  selector it reads ends with the tenant's matcher, and there is one; the tenant header holds the
  tenant and nothing else.
\<close>

definition confinedQuery :: "options \<Rightarrow> ('x, 'm) promql \<Rightarrow> string \<Rightarrow> request \<Rightarrow> bool" where
  "confinedQuery opts pq tenant r \<longleftrightarrow>
     (\<exists>src e e'. pq_parseExpr pq src = Inr e \<and>
        pq_enforceNode pq (op_TenantLabelName opts) tenant e = Inr e' \<and>
        formValue r queryParam = pq_string pq e')"

definition confinedSeries :: "options \<Rightarrow> ('x, 'm) promql \<Rightarrow> string \<Rightarrow> request \<Rightarrow> bool" where
  "confinedSeries opts pq tenant r \<longleftrightarrow>
     formValues r matchersParam \<noteq> [] \<and>
     (\<forall>x \<in> set (formValues r matchersParam).
        \<exists>ms. x = matchersToString pq (ms @ [pq_equal pq (op_TenantLabelName opts) tenant]))"

definition confinedWrite :: "options \<Rightarrow> string \<Rightarrow> request \<Rightarrow> bool" where
  "confinedWrite opts tenant r \<longleftrightarrow> vValues (rq_Header r) (canonicalKey (op_TenantHeader opts)) = [tenant]"

text \<open>
  A handler that keeps such a promise for the tenant in the request info keeps it for the tenant
  of the path once it is wrapped, and serves admitted tenants only.
\<close>

definition infoRequest :: "request \<Rightarrow> request" where
  "infoRequest req =
     (let index = indexByteNth (rq_Path req) CHR ''/'' 2
      in (if 0 < index then req\<lparr>rq_Path := drop (nat index) (rq_Path req)\<rparr> else req)
           \<lparr>rq_Info := Some (rq_TenantVar req)\<rparr>)"

lemma withRequestInfo_app: "withRequestInfo f req = f (infoRequest req)"
  by (simp add: withRequestInfo_def infoRequest_def Let_def)

lemma infoRequest_simps [simp]:
  "rq_Info (infoRequest req) = Some (rq_TenantVar req)" "rq_Method (infoRequest req) = rq_Method req"
  "rq_Peers (infoRequest req) = rq_Peers req" "rq_Body (infoRequest req) = rq_Body req"
  by (simp_all add: infoRequest_def Let_def)

locale confined_handler =
  fixes f :: handler and methods :: "string set" and confined :: "string \<Rightarrow> request \<Rightarrow> bool"
  assumes confines:
    "rq_Info req = Some tenant \<Longrightarrow> tenant \<noteq> [] \<Longrightarrow> rq_Method req \<in> methods \<Longrightarrow>
     Forward px r \<in> set (f req) \<Longrightarrow> confined tenant r"
begin

lemma authorized_confines:
  assumes "rq_Info req = Some tenant" and "tenant \<noteq> []" and "rq_Method req \<in> methods"
    and "Forward px r \<in> set (withAuthorization f req)"
  shows "confined tenant r"
proof -
  have "Forward px r \<in> set (f req)"
    using assms(1,4) by (auto simp: withAuthorization_def split: option.splits if_splits)
  with assms(1-3) show ?thesis by (rule confines)
qed

lemma wrapped_confines:
  assumes "rq_Method req \<in> methods" and "Forward px r \<in> set (wrap opts adm f req)"
  shows "rq_TenantVar req \<noteq> [] \<and> (op_EnabledTenantsAdmission opts \<longrightarrow> adm (rq_TenantVar req) \<noteq> None) \<and>
    confined (rq_TenantVar req) r"
proof -
  let ?f = "if op_CertAuthenticator opts then withAuthorization f else f"
  have in_adm: "Forward px r \<in> set (withTenantsAdmission ?f adm (op_EnabledTenantsAdmission opts) (infoRequest req))"
    using assms(2) by (simp add: wrap_def withRequestInfo_app)
  have served: "rq_TenantVar req \<noteq> []" "op_EnabledTenantsAdmission opts \<longrightarrow> adm (rq_TenantVar req) \<noteq> None"
    and "Forward px r \<in> set (?f (infoRequest req))"
    using in_adm by (auto simp: withTenantsAdmission_def split: if_splits)
  then have "confined (rq_TenantVar req) r"
    using assms(1) authorized_confines [of "infoRequest req" "rq_TenantVar req"]
      confines [of "infoRequest req" "rq_TenantVar req"]
    by (cases "op_CertAuthenticator opts") auto
  with served show ?thesis by blast
qed

end

section \<open>The handlers keep their promises\<close>

lemma enforceQueryValues_found:
  assumes "enforceQueryValues pq lname tenant v = Inr (q, True)" and "distinct (map fst v)"
  shows "\<exists>e e'. pq_parseExpr pq (vGet v queryParam) = Inr e \<and> pq_enforceNode pq lname tenant e = Inr e' \<and>
    vValues (parseQuery q) queryParam = [pq_string pq e']"
  using assms
  by (auto simp: enforceQueryValues_def vValues_roundtrip distinct_vSet split: if_splits sum.splits prod.splits)

lemma enforceQueryValues_notfound:
  "enforceQueryValues pq lname tenant v = Inr (q, False) \<Longrightarrow> vGet v queryParam = []"
  by (auto simp: enforceQueryValues_def split: if_splits sum.splits prod.splits)

lemma enforceQueryValues_found_iff:
  "enforceQueryValues pq lname tenant v = Inr (q, found) \<Longrightarrow> found \<longleftrightarrow> vGet v queryParam \<noteq> []"
  by (auto simp: enforceQueryValues_def split: if_splits sum.splits prod.splits)

lemma parseForm_Inr:
  assumes "parseForm r = Inr (f, r')"
  shows "r' = r\<lparr>rq_Body := rq_Body r'\<rparr>" "distinct (map fst f)"
    "rq_Content r' = FormUrlencoded \<Longrightarrow> rq_Body r' = Inr []"
    "rq_Content r' \<noteq> FormUrlencoded \<Longrightarrow> f = []"
  using assms
  by (auto simp: parseForm_def parsePostForm_def bindR_Inr_iff split: content_kind.splits if_splits)

lemma formValue_body:
  "bodyMethod (rq_Method r) \<Longrightarrow> rq_Content r = FormUrlencoded \<Longrightarrow> rq_Body r = Inr q \<Longrightarrow>
   vValues (parseQuery q) k = [x] \<Longrightarrow> formValue r k = x"
  by (simp add: formValue_def formValues_def bodyForm_def)

lemma formValue_url:
  "vValues (bodyForm r) k = [] \<Longrightarrow> vValues (parseQuery (rq_RawQuery r)) k = [x] \<Longrightarrow> formValue r k = x"
  by (simp add: formValue_def formValues_def)

lemma parseQuery_Nil [simp]: "parseQuery [] = []"
  by (simp add: parseQuery_def parseSetting_def)

lemma enforceErrorEvent_neq [simp]: "enforceErrorEvent err \<noteq> Forward px r" "Forward px r \<noteq> enforceErrorEvent err"
  by (cases err; simp)+

lemma queryEnforced_forward:
  fixes req opts postForm
  defines "v \<equiv> parseQuery (rq_RawQuery req)" and "l \<equiv> op_TenantLabelName opts"
    and "f \<equiv> (case postForm of None \<Rightarrow> [] | Some f \<Rightarrow> f)"
  assumes fwd: "Forward px r \<in> set (queryEnforced opts pq proxy postForm req)"
    and info: "rq_Info req = Some tenant"
  obtains q found where "enforceQueryValues pq l tenant v = Inr (q, found)"
    and "enforcePost pq l tenant postForm (if found then req\<lparr>rq_RawQuery := q\<rparr> else req) = Inr r"
    and "vGet v queryParam \<noteq> [] \<or> vGet f queryParam \<noteq> []"
proof -
  have cond: "\<not> (vGet v queryParam = [] \<and> vGet f queryParam = [])"
  proof
    assume "vGet v queryParam = [] \<and> vGet f queryParam = []"
    then have "queryEnforced opts pq proxy postForm req = []"
      by (simp add: queryEnforced_def v_def f_def)
    with fwd show False by simp
  qed
  show ?thesis
  proof (cases "enforceQueryValues pq l tenant v")
    case (Inl err)
    then show ?thesis
      using fwd info cond by (simp add: queryEnforced_def Let_def v_def f_def l_def split: if_split_asm)
  next
    case (Inr qf)
    obtain q found where qf: "qf = (q, found)" by (cases qf)
    let ?req = "if found then req\<lparr>rq_RawQuery := q\<rparr> else req"
    have "Forward px r \<in> set (case enforcePost pq l tenant postForm ?req of
        Inl err \<Rightarrow> [enforceErrorEvent err] | Inr req' \<Rightarrow> [Forward proxy req'])"
      using fwd info cond Inr qf
      by (simp only: queryEnforced_def Let_def v_def f_def l_def if_not_P if_False option.case sum.case prod.case)
    then have "enforcePost pq l tenant postForm ?req = Inr r"
      by (cases "enforcePost pq l tenant postForm ?req") simp_all
    with that Inr qf cond show ?thesis by blast
  qed
qed

text \<open>
  The forwarded request, from the state in which \<^verbatim>\<open>query\<close> has it once a form has been parsed.
\<close>

lemma queryEnforced_confines:
  assumes "Forward px r \<in> set (queryEnforced opts pq proxy postForm req)"
    and "rq_Info req = Some tenant"
    and form: "case postForm of
        None \<Rightarrow> bodyForm req = []
      | Some f \<Rightarrow> distinct (map fst f) \<and> rq_Method req = ''POST'' \<and>
          (if rq_Content req = FormUrlencoded then rq_Body req = Inr [] else f = [])"
  shows "confinedQuery opts pq tenant r"
proof -
  let ?l = "op_TenantLabelName opts"
  let ?v = "parseQuery (rq_RawQuery req)"
  obtain q found where q: "enforceQueryValues pq ?l tenant ?v = Inr (q, found)"
    and post: "enforcePost pq ?l tenant postForm (if found then req\<lparr>rq_RawQuery := q\<rparr> else req) = Inr r"
    and some: "vGet ?v queryParam \<noteq> [] \<or> vGet (case postForm of None \<Rightarrow> [] | Some f \<Rightarrow> f) queryParam \<noteq> []"
    using queryEnforced_forward [OF assms(1,2)] by blast
  show ?thesis
  proof (cases "vGet (case postForm of None \<Rightarrow> [] | Some f \<Rightarrow> f) queryParam = []")
    case True
    with some q have "found" by (auto dest: enforceQueryValues_found_iff)
    with q obtain e e' where e: "pq_parseExpr pq (vGet ?v queryParam) = Inr e"
      "pq_enforceNode pq ?l tenant e = Inr e'" "vValues (parseQuery q) queryParam = [pq_string pq e']"
      using enforceQueryValues_found by fastforce
    have "r = req\<lparr>rq_RawQuery := q\<rparr>"
      using post \<open>found\<close> True
      by (auto simp: enforcePost_def enforceQueryValues_def split: option.splits sum.splits if_splits)
    moreover from this have "bodyForm r = []"
      using form by (auto simp: bodyForm_def split: option.splits if_splits sum.splits)
    ultimately have "formValue r queryParam = pq_string pq e'"
      using e(3) by (intro formValue_url) auto
    with e(1,2) show ?thesis by (auto simp: confinedQuery_def)
  next
    case False
    then obtain f where f: "postForm = Some f" "vGet f queryParam \<noteq> []"
      by (cases postForm) (auto simp: vGet_def)
    with form have kind: "rq_Content req = FormUrlencoded" "distinct (map fst f)" "rq_Method req = ''POST''"
      by (auto simp: vGet_def split: if_splits)
    obtain q' where q': "enforceQueryValues pq ?l tenant f = Inr (q', True)"
      and r: "r = (if found then req\<lparr>rq_RawQuery := q\<rparr> else req)\<lparr>rq_Body := Inr q', rq_ContentLength := int (length q')\<rparr>"
      using post f by (auto simp: enforcePost_def dest: enforceQueryValues_found_iff split: sum.splits if_splits)
    obtain e e' where e: "pq_parseExpr pq (vGet f queryParam) = Inr e"
      "pq_enforceNode pq ?l tenant e = Inr e'" "vValues (parseQuery q') queryParam = [pq_string pq e']"
      using enforceQueryValues_found [OF q' kind(2)] by blast
    have "formValue r queryParam = pq_string pq e'"
      using kind e(3) by (intro formValue_body) (auto simp: r bodyMethod_def)
    with e(1,2) show ?thesis by (auto simp: confinedQuery_def)
  qed
qed

interpretation qh: confined_handler "Handler_query opts pq" "{''GET'', ''POST''}" "confinedQuery opts pq" for opts pq
proof unfold_locales
  fix req tenant px r
  assume info: "rq_Info req = Some tenant" and m: "rq_Method req \<in> {''GET'', ''POST''}"
    and fwd: "Forward px r \<in> set (Handler_query opts pq req)"
  show "confinedQuery opts pq tenant r"
  proof (cases "rq_Method req = ''POST''")
    case True
    with fwd obtain proxy f req1 where req1: "parseForm req = Inr (f, req1)"
      and "Forward px r \<in> set (queryEnforced opts pq proxy (Some f) req1)"
      by (auto simp: Handler_query_def noQueryTarget_def split: option.splits sum.splits)
    moreover have "rq_Info req1 = Some tenant" "rq_Method req1 = ''POST''"
      using parseForm_Inr(1) [OF req1] info True by (metis request.select_convs request.surjective request.update_convs)+
    ultimately show ?thesis
      using parseForm_Inr(2-4) [OF req1] by (intro queryEnforced_confines) auto
  next
    case False
    with fwd obtain proxy where "Forward px r \<in> set (queryEnforced opts pq proxy None req)"
      by (auto simp: Handler_query_def noQueryTarget_def split: option.splits sum.splits)
    then show ?thesis
      using False m info by (intro queryEnforced_confines) (auto simp: bodyForm_def bodyMethod_def)
  qed
qed

lemma injectLoop_confines:
  "injectLoop pq mt ms = Inr ms' \<Longrightarrow> length ms' = length ms \<and> (\<forall>x \<in> set ms'. \<exists>l. x = matchersToString pq (l @ [mt]))"
  by (induction ms arbitrary: ms') (auto simp: bindR_Inr_iff split: sum.splits)

lemma injectMatcher_confines:
  assumes "injectMatcher pq q mt param = Inr q'" and "distinct (map fst q)"
  shows "distinct (map fst q') \<and> vValues q' param \<noteq> [] \<and>
    (\<forall>x \<in> set (vValues q' param). \<exists>l. x = matchersToString pq (l @ [mt]))"
proof (cases "vValues q param = []")
  case True
  with assms have "q' = vSet param (matchersToString pq ([] @ [mt])) q"
    by (simp add: injectMatcher_def)
  with assms(2) show ?thesis by (auto simp: distinct_vSet intro: exI [of _ "[]"])
next
  case False
  with assms(1) obtain ms' where ms': "injectLoop pq mt (vValues q param) = Inr ms'"
    and q': "q' = alistUpdate param ms' q"
    by (auto simp: injectMatcher_def bindR_Inr_iff)
  have "vValues q' param = ms'" by (simp add: q' vValues_def)
  with injectLoop_confines [OF ms'] False assms(2) show ?thesis
    by (auto simp: q' distinct_alistUpdate)
qed

lemma matcher_forward:
  assumes fwd: "Forward px r \<in> set (matcher opts pq param req)" and info: "rq_Info req = Some tenant"
  defines "mt \<equiv> pq_equal pq (op_TenantLabelName opts) tenant"
  obtains q where "injectMatcher pq (parseQuery (rq_RawQuery req)) mt param = Inr q"
    and "matcherPost pq mt param (req\<lparr>rq_RawQuery := vEncode q\<rparr>) = Inr r"
proof (cases "op_QueryProxy opts")
  case None
  with fwd show ?thesis by (simp add: matcher_def noQueryTarget_def)
next
  case proxy: (Some proxy)
  show ?thesis
  proof (cases "injectMatcher pq (parseQuery (rq_RawQuery req)) mt param")
    case (Inl err)
    with fwd info proxy show ?thesis by (simp add: matcher_def mt_def)
  next
    case q: (Inr q)
    show ?thesis
    proof (cases "matcherPost pq mt param (req\<lparr>rq_RawQuery := vEncode q\<rparr>)")
      case (Inl err)
      with fwd info proxy q show ?thesis by (simp add: matcher_def mt_def)
    next
      case (Inr r')
      with fwd info proxy q have "r' = r"
        by (cases "op_RulesQueryProxy opts") (simp_all add: matcher_def mt_def split: if_split_asm)
      with that q Inr show ?thesis by blast
    qed
  qed
qed

interpretation mh: confined_handler "matcher opts pq matchersParam" "{''GET'', ''POST''}" "confinedSeries opts pq"
  for opts pq
proof unfold_locales
  fix req tenant px r
  assume info: "rq_Info req = Some tenant" and m: "rq_Method req \<in> {''GET'', ''POST''}"
    and fwd: "Forward px r \<in> set (matcher opts pq matchersParam req)"
  let ?mt = "pq_equal pq (op_TenantLabelName opts) tenant"
  let ?ok = "\<lambda>x. \<exists>ms. x = matchersToString pq (ms @ [?mt])"
  obtain q where q: "injectMatcher pq (parseQuery (rq_RawQuery req)) ?mt matchersParam = Inr q"
    and post: "matcherPost pq ?mt matchersParam (req\<lparr>rq_RawQuery := vEncode q\<rparr>) = Inr r"
    using matcher_forward [OF fwd info] by blast
  note qs = injectMatcher_confines [OF q distinct_parseQuery]
  have url: "rq_RawQuery r = vEncode q" and
    body: "\<forall>x \<in> set (vValues (bodyForm r) matchersParam). ?ok x"
  proof (atomize (full), cases "rq_Method req = ''POST''")
    case True
    then obtain f req1 q1 where req1: "parseForm (req\<lparr>rq_RawQuery := vEncode q\<rparr>) = Inr (f, req1)"
      and q1: "injectMatcher pq f ?mt matchersParam = Inr q1"
      and r: "r = req1\<lparr>rq_Body := Inr (vEncode q1), rq_ContentLength := int (length q1)\<rparr>"
      using post by (auto simp: matcherPost_def bindR_Inr_iff)
    have "rq_RawQuery req1 = vEncode q"
      using parseForm_Inr(1) [OF req1] by (metis request.select_convs request.surjective request.update_convs)
    with injectMatcher_confines [OF q1 parseForm_Inr(2) [OF req1]]
    show "rq_RawQuery r = vEncode q \<and> (\<forall>x \<in> set (vValues (bodyForm r) matchersParam). ?ok x)"
      by (auto simp: r bodyForm_def vValues_roundtrip)
  next
    case False
    with post m show "rq_RawQuery r = vEncode q \<and> (\<forall>x \<in> set (vValues (bodyForm r) matchersParam). ?ok x)"
      by (auto simp: matcherPost_def bodyForm_def bodyMethod_def)
  qed
  have "vValues (parseQuery (rq_RawQuery r)) matchersParam = vValues q matchersParam"
    using qs url by (simp add: vValues_roundtrip)
  with qs body show "confinedSeries opts pq tenant r"
    by (auto simp: confinedSeries_def formValues_def)
qed

lemma setTenantHeader_confines:
  "rq_Info req = Some tenant \<Longrightarrow> tenant \<noteq> [] \<Longrightarrow> confinedWrite opts tenant (setTenantHeader opts req)"
  by (simp add: setTenantHeader_def confinedWrite_def hSet_def)

lemma setTenantHeader_body [simp]: "rq_Body (setTenantHeader opts req) = rq_Body req"
  by (simp add: setTenantHeader_def split: option.splits)

interpretation wh: confined_handler "remoteWrite opts" UNIV "confinedWrite opts" for opts
proof unfold_locales
  fix req tenant px r
  assume "rq_Info req = Some tenant" "tenant \<noteq> []" "Forward px r \<in> set (remoteWrite opts req)"
  then show "confinedWrite opts tenant r"
    using setTenantHeader_confines [of req tenant opts]
    by (auto simp: remoteWrite_def noWriteTarget_def Let_def confinedWrite_def split: option.splits sum.splits)
qed

interpretation oh: confined_handler "otlpReceive opts" UNIV "confinedWrite opts" for opts
proof unfold_locales
  fix req tenant px r
  assume "rq_Info req = Some tenant" "tenant \<noteq> []" "Forward px r \<in> set (otlpReceive opts req)"
  then show "confinedWrite opts tenant r"
    using setTenantHeader_confines [of req tenant opts]
    by (auto simp: otlpReceive_def noWriteTarget_def split: option.splits)
qed

section \<open>Tenant isolation at the gateway\<close>

lemma tenant_templates:
  assumes "rt \<in> set (NewHandler opts pq adm)" and "hasPrefix (rt_Template rt) apiTenantPrefix"
  shows "rt \<in> set (addTenantQueryHandler opts pq adm @ addTenantRemoteWriteHandler opts adm @ addTenantOTLPHandler opts adm)"
proof -
  have "\<not> hasPrefix t apiTenantPrefix"
    if "t \<in> {apiGlobalPrefix, apiGlobalPrefix @ ''/receive'', apiGlobalPrefix @ ''/otlp'', epQueryUI}" for t
    using that by (elim insertE emptyE) (hypsubst, code_simp)+
  moreover have "rt_Template r \<in> {apiGlobalPrefix, apiGlobalPrefix @ ''/receive'', apiGlobalPrefix @ ''/otlp'', epQueryUI}"
    if "r \<in> set (addGlobalProxyHandler opts @ addQueryUIHandler opts)" for r
    using that by (simp add: addGlobalProxyHandler_def addQueryUIHandler_def pathRoute_def split: option.splits)
      (elim disjE exE conjE; simp)
  ultimately have "rt \<notin> set (addGlobalProxyHandler opts @ addQueryUIHandler opts)"
    using assms(2) by blast
  with assms(1) show ?thesis
    by (simp add: NewHandler_def split: if_split_asm)
qed

definition confinedBy :: "string \<Rightarrow> options \<Rightarrow> ('x, 'm) promql \<Rightarrow> string \<Rightarrow> request \<Rightarrow> bool" where
  "confinedBy tpl opts pq tenant r \<longleftrightarrow>
     (if tpl \<in> {apiTenantPrefix @ ''/query'', apiTenantPrefix @ ''/query_range''} then confinedQuery opts pq tenant r
      else if tpl \<in> {apiTenantPrefix @ ''/receive'', apiTenantPrefix @ ''/otlp''} then confinedWrite opts tenant r
      else confinedSeries opts pq tenant r)"

text \<open>
  C6: Tenant isolation.  Whatever route under the tenant prefix the router picks for a request
  with a method of that route: every request the gateway forwards belongs to the tenant of the
  path, who is not empty and, where admission control is on, admitted; on a query route the
  expression the upstream server reads has the tenant's label enforced, on the series, labels and
  rules routes every selector it reads ends with the tenant's matcher, and on the write routes the
  tenant header is exactly the tenant, whatever the client sent.
\<close>

theorem tenant_routes_confined:
  assumes "rt \<in> set (NewHandler opts pq adm)" and "hasPrefix (rt_Template rt) apiTenantPrefix"
    and "rq_Method req \<in> set (rt_Methods rt)" and "Forward px r \<in> set (rt_Handler rt req)"
  shows "rq_TenantVar req \<noteq> [] \<and> (op_EnabledTenantsAdmission opts \<longrightarrow> adm (rq_TenantVar req) \<noteq> None) \<and>
    confinedBy (rt_Template rt) opts pq (rq_TenantVar req) r"
proof -
  have "rt \<in> set (addTenantQueryHandler opts pq adm) \<or> rt \<in> set (addTenantRemoteWriteHandler opts adm) \<or>
    rt \<in> set (addTenantOTLPHandler opts adm)"
    using tenant_templates [OF assms(1,2)] by simp
  then consider
      (query) "rt_Handler rt = wrap opts adm (Handler_query opts pq)"
        "rt_Template rt \<in> {apiTenantPrefix @ ''/query'', apiTenantPrefix @ ''/query_range''}"
        "rt_Methods rt = [''GET'', ''POST'']"
    | (series) "rt_Handler rt = wrap opts adm (matcher opts pq matchersParam)"
        "rt_Template rt \<in> {apiTenantPrefix @ p |p. p \<in> {''/series'', ''/labels'', ''/label/*path'', ''/rules''}}"
        "rt_Methods rt = [''GET'']"
    | (receive) "rt_Handler rt = wrap opts adm (remoteWrite opts)" "rt_Template rt = apiTenantPrefix @ ''/receive''"
    | (otlp) "rt_Handler rt = wrap opts adm (otlpReceive opts)" "rt_Template rt = apiTenantPrefix @ ''/otlp''"
    by (auto simp: addTenantQueryHandler_def addTenantRemoteWriteHandler_def addTenantOTLPHandler_def pathRoute_def)
  then show ?thesis
  proof cases
    case query
    with assms(3,4) show ?thesis
      using qh.wrapped_confines [of req px r opts adm opts pq] by (auto simp: confinedBy_def)
  next
    case series
    with assms(3,4) show ?thesis
      using mh.wrapped_confines [of req px r opts adm opts pq] by (auto simp: confinedBy_def)
  next
    case receive
    with assms(4) show ?thesis
      using wh.wrapped_confines [of req px r opts adm opts] by (auto simp: confinedBy_def)
  next
    case otlp
    with assms(4) show ?thesis
      using oh.wrapped_confines [of req px r opts adm opts] by (auto simp: confinedBy_def)
  qed
qed

text \<open>A small PromQL library for the examples: expressions and matchers are their texts.\<close>

definition exPromql :: "(string, string) promql" where
  "exPromql = \<lparr>pq_parseExpr = (\<lambda>s. if s = ''('' then Inl ''unexpected end of input'' else Inr s),
     pq_enforceNode = (\<lambda>n v e. Inr (e @ ''{'' @ n @ ''='' @ v @ ''}'')),
     pq_string = (\<lambda>e. e), pq_parseSelector = (\<lambda>m. Inr [m]), pq_equal = (\<lambda>n v. n @ ''='' @ v),
     pq_matcherString = (\<lambda>m. m), pq_quote = (\<lambda>m. m)\<rparr>"

definition exOptions :: options where
  "exOptions = \<lparr>op_TenantHeader = ''WHIZARD-TENANT'', op_TenantLabelName = ''tenant_id'',
     op_QueryProxy = Some ''q'', op_RulesQueryProxy = None, op_RemoteWriteProxy = Some ''w'',
     op_ExternalRWClients = [], op_CertAuthenticator = False, op_EnabledTenantsAdmission = True,
     op_EnabledQueryUI = False\<rparr>"

definition exRequest :: request where
  "exRequest = \<lparr>rq_Method = ''POST'', rq_Path = ''/t1/api/v1/query'', rq_RawQuery = ''time=5'',
     rq_Header = [], rq_Body = Inr ''query=up'', rq_ContentLength = 8, rq_Content = FormUrlencoded,
     rq_TenantVar = ''t1'', rq_Info = None, rq_Peers = None\<rparr>"

definition exAdmission :: admission_map where
  "exAdmission t = (if t = ''t1'' then Some AVTrue else None)"

definition exForwarded :: request where
  "exForwarded = \<lparr>rq_Method = ''POST'', rq_Path = ''/api/v1/query'', rq_RawQuery = ''time=5'',
     rq_Header = [], rq_Body = Inr ''query=up%7Btenant_id%3Dt1%7D'', rq_ContentLength = 28,
     rq_Content = FormUrlencoded, rq_TenantVar = ''t1'', rq_Info = Some ''t1'', rq_Peers = None\<rparr>"

definition exRoute :: route where
  "exRoute = pathRoute (apiTenantPrefix @ ''/query'') [''GET'', ''POST'']
     (wrap exOptions exAdmission (Handler_query exOptions exPromql))"

theorem tenant_routes_confined_witness:
  "exRoute \<in> set (NewHandler exOptions exPromql exAdmission) \<and>
   rt_Handler exRoute exRequest = [Forward ''q'' exForwarded] \<and>
   confinedBy (apiTenantPrefix @ ''/query'') exOptions exPromql ''t1'' exForwarded"
proof -
  have mem: "exRoute \<in> set (NewHandler exOptions exPromql exAdmission)"
    by (simp add: exRoute_def NewHandler_def addTenantQueryHandler_def)
  have run: "rt_Handler exRoute exRequest = [Forward ''q'' exForwarded]"
  proof -
    have "case rt_Handler exRoute exRequest of [Forward p r] \<Rightarrow> p = ''q'' \<and> r = exForwarded | _ \<Rightarrow> False"
      by code_simp
    then show ?thesis by (simp split: list.split_asm event.split_asm) (metis list.exhaust)
  qed
  have "confinedBy (rt_Template exRoute) exOptions exPromql (rq_TenantVar exRequest) exForwarded"
    using tenant_routes_confined [OF mem, of exRequest "''q''" exForwarded] run
    by (simp add: exRoute_def pathRoute_def exRequest_def)
  with mem run show ?thesis by (simp add: exRoute_def pathRoute_def exRequest_def)
qed

section \<open>The wrapper\<close>

lemma indexByteLoop_append:
  "b \<notin> set s \<Longrightarrow> indexByteLoop (s @ b # t) b n num i =
   (if num + 1 = n then int (i + length s) else indexByteLoop t b n (num + 1) (i + length s + 1))"
  by (induction s arbitrary: i) (auto simp: algebra_simps)

lemma indexByteNth_tenant:
  "CHR ''/'' \<notin> set t \<Longrightarrow> indexByteNth (''/'' @ t @ ''/'' @ rest) CHR ''/'' 2 = int (length t) + 1"
  using indexByteLoop_append [of "CHR ''/''" t rest 2 1 1] by (simp add: indexByteNth_def)

text \<open>
  The wrapper around every tenant handler: for a path \<open>/tenant/rest\<close> and no client
  certificates configured, a tenant that admission control does not admit gets status 403 and
  nothing else happens; an admitted one is served by the handler on the path \<open>/rest\<close>, with the
  tenant in the request info.
\<close>

theorem wrap_serves:
  assumes "CHR ''/'' \<notin> set tenant" and "tenant \<noteq> []" and "rq_TenantVar req = tenant"
    and "rq_Path req = ''/'' @ tenant @ ''/'' @ rest" and "\<not> op_CertAuthenticator opts"
  shows "wrap opts adm f req =
    (if op_EnabledTenantsAdmission opts \<and> adm tenant = None
     then [HttpError 403 (''tenant '' @ tenant @ '' is not allowed to access'')]
     else f (req\<lparr>rq_Path := ''/'' @ rest, rq_Info := Some tenant\<rparr>))"
proof -
  have "infoRequest req = req\<lparr>rq_Path := ''/'' @ rest, rq_Info := Some tenant\<rparr>"
    using indexByteNth_tenant [OF assms(1), of rest] assms(3,4)
    by (simp add: infoRequest_def nat_add_distrib)
  with assms show ?thesis
    by (simp add: wrap_def withRequestInfo_app withTenantsAdmission_def)
qed

theorem wrap_serves_witness:
  "wrap exOptions exAdmission (\<lambda>r. [ServeUI r]) exRequest =
     [ServeUI (exRequest\<lparr>rq_Path := ''/api/v1/query'', rq_Info := Some ''t1''\<rparr>)] \<and>
   wrap exOptions Map.empty (\<lambda>r. [ServeUI r]) exRequest =
     [HttpError 403 ''tenant t1 is not allowed to access'']"
proof -
  have h: "CHR ''/'' \<notin> set ''t1''" "''t1'' \<noteq> []" "rq_TenantVar exRequest = ''t1''"
    "rq_Path exRequest = ''/'' @ ''t1'' @ ''/'' @ ''api/v1/query''" "\<not> op_CertAuthenticator exOptions"
    by (simp_all add: exRequest_def exOptions_def)
  show ?thesis
    using wrap_serves [OF h, of exAdmission] wrap_serves [OF h, of Map.empty]
    by (simp add: exAdmission_def exOptions_def)
qed

text \<open>
  With client certificates required, a request whose certificate names another tenant (or that
  has no certificate at all) is answered with status 401 and is served all the same: the
  authorization wrapper does not return after writing the error, so the handler runs on the
  request of the foreign tenant.
\<close>

theorem unauthorized_still_served:
  assumes "op_CertAuthenticator opts" and "rq_Peers req = Some peers"
    and "peers = [] \<or> hd peers \<noteq> rq_TenantVar req" and "rq_TenantVar req \<noteq> []"
    and "op_EnabledTenantsAdmission opts \<longrightarrow> adm (rq_TenantVar req) \<noteq> None"
  shows "\<exists>n \<ge> 1. wrap opts adm f req =
    replicate n (HttpError 401 errInvalidCert) @ f (infoRequest req)"
proof (cases peers)
  case Nil
  with assms show ?thesis
    by (intro exI [of _ 2]) (auto simp: wrap_def withRequestInfo_app withTenantsAdmission_def
        withAuthorization_def AuthenticateRequest_def numeral_2_eq_2)
next
  case (Cons cn rest)
  with assms show ?thesis
    by (intro exI [of _ 1]) (auto simp: wrap_def withRequestInfo_app withTenantsAdmission_def
        withAuthorization_def AuthenticateRequest_def)
qed

theorem unauthorized_still_served_witness:
  "\<exists>n \<ge> 1. wrap (exOptions\<lparr>op_CertAuthenticator := True\<rparr>) exAdmission (\<lambda>r. [ServeUI r])
       (exRequest\<lparr>rq_Peers := Some [''t2'']\<rparr>) =
     replicate n (HttpError 401 errInvalidCert) @ [ServeUI (infoRequest (exRequest\<lparr>rq_Peers := Some [''t2'']\<rparr>))]"
  by (rule unauthorized_still_served [where peers = "[''t2'']"]) (simp_all add: exRequest_def exAdmission_def)

section \<open>Admission control follows the configuration\<close>

lemma difference_filter: "difference a b = filter (\<lambda>t. t \<notin> set b) a"
proof -
  have "foldl (\<lambda>s v. if v \<in> set b then s else s @ [v]) acc a = acc @ filter (\<lambda>t. t \<notin> set b) a" for acc
    by (induction a arbitrary: acc) auto
  then show ?thesis by (simp add: difference_def)
qed

lemma fold_stores:
  "fold applyOp (map (\<lambda>t. StoreOp t AVTrue) ts) m t = (if t \<in> set ts then Some AVTrue else m t)"
  by (induction ts arbitrary: m) auto

lemma fold_deletes: "fold applyOp (map DeleteOp ts) m t = (if t \<in> set ts then None else m t)"
  by (induction ts arbitrary: m) auto

text \<open>The map admits exactly the tenants of a configuration, and remembers the configuration.\<close>

definition admits :: "string list \<Rightarrow> admission_map \<Rightarrow> bool" where
  "admits tenants m \<longleftrightarrow>
     m configKey = Some (AVTenants tenants) \<and>
     (\<forall>t. t \<noteq> configKey \<longrightarrow> (m t \<noteq> None \<longleftrightarrow> t \<in> set tenants))"

lemma admissionOps_first:
  assumes "configKey \<notin> set tenants"
  shows "\<exists>ops. admissionOps Map.empty tenants = Inr ops \<and> admits tenants (fold applyOp ops Map.empty)"
  using assms by (auto simp: admissionOps_def admits_def fold_stores)

lemma admissionOps_next:
  assumes "admits tenants m" and "configKey \<notin> set tenants'" and "configKey \<notin> set tenants"
  shows "\<exists>ops. admissionOps m tenants' = Inr ops \<and> admits tenants' (fold applyOp ops m)"
  using assms
  by (auto simp: admissionOps_def admits_def fold_stores fold_deletes difference_filter)

fun setConfigs :: "options \<Rightarrow> string list list \<Rightarrow> admission_map \<Rightarrow> admission_map res" where
  "setConfigs opts [] m = Inr m"
| "setConfigs opts (c # cs) m = bindR (SetAdmissionControlHandler opts c m) (setConfigs opts cs)"

lemma setConfigs_admits:
  assumes "op_EnabledTenantsAdmission opts" and "admits tenants m" and "configKey \<notin> set tenants"
    and "\<forall>c \<in> set cs. configKey \<notin> set c"
  shows "\<exists>m'. setConfigs opts cs m = Inr m' \<and> admits (last (tenants # cs)) m'"
  using assms(2-)
proof (induction cs arbitrary: tenants m)
  case (Cons c cs)
  then obtain ops where ops: "admissionOps m c = Inr ops" "admits c (fold applyOp ops m)"
    using admissionOps_next [of tenants m c] by auto
  with Cons.IH [OF ops(2)] Cons.prems(3) assms(1) show ?case
    by (auto simp: SetAdmissionControlHandler_def)
qed simp

lemma admission_follows:
  assumes "op_EnabledTenantsAdmission opts" and "configs \<noteq> []"
    and "\<forall>c \<in> set configs. configKey \<notin> set c"
  shows "\<exists>m. setConfigs opts configs Map.empty = Inr m \<and>
    (\<forall>t. t \<noteq> configKey \<longrightarrow> (m t \<noteq> None \<longleftrightarrow> t \<in> set (last configs)))"
proof -
  obtain c cs where configs: "configs = c # cs" using assms(2) by (cases configs) auto
  then obtain ops where ops: "admissionOps Map.empty c = Inr ops" "admits c (fold applyOp ops Map.empty)"
    using admissionOps_first [of c] assms(3) by auto
  obtain m where "setConfigs opts cs (fold applyOp ops Map.empty) = Inr m" "admits (last (c # cs)) m"
    using setConfigs_admits [OF assms(1) ops(2)] assms(3) configs by auto
  then show ?thesis
    using ops(1) assms(1) configs by (auto simp: SetAdmissionControlHandler_def admits_def)
qed

text \<open>
  After any non-empty sequence of configurations (none of which lists the reserved name
  \<^verbatim>\<open>/-/\<close>), admission control has not failed and the tenants it admits are exactly those of the
  last configuration: tenants a configuration drops are out, tenants it adds are in.
\<close>

theorem admission_follows_config:
  assumes "op_EnabledTenantsAdmission opts" and "configs \<noteq> []"
    and "\<forall>c \<in> set configs. configKey \<notin> set c"
  shows "\<exists>m. setConfigs opts configs Map.empty = Inr m \<and>
    (\<forall>t. t \<noteq> configKey \<longrightarrow> (m t \<noteq> None \<longleftrightarrow> t \<in> set (last configs)))"
  using assms by (rule admission_follows)

theorem admission_follows_config_witness:
  "\<exists>m. setConfigs exOptions [[''a'', ''b''], [], [''b'', ''c'']] Map.empty = Inr m \<and>
     m ''a'' = None \<and> m ''b'' \<noteq> None \<and> m ''c'' \<noteq> None"
proof -
  have "\<exists>m. setConfigs exOptions [[''a'', ''b''], [], [''b'', ''c'']] Map.empty = Inr m \<and>
    (\<forall>t. t \<noteq> configKey \<longrightarrow> (m t \<noteq> None \<longleftrightarrow> t \<in> set (last [[''a'', ''b''], [], [''b'', ''c'']])))"
    by (rule admission_follows_config) (simp_all add: exOptions_def configKey_def)
  then show ?thesis by (force simp: configKey_def)
qed

lemma fold_ops_other:
  "\<forall>op \<in> set ops. (case op of StoreOp k _ \<Rightarrow> k | DeleteOp k \<Rightarrow> k) \<noteq> t \<Longrightarrow> fold applyOp ops m t = m t"
  by (induction ops arbitrary: m) (auto split: admission_op.splits)

text \<open>
  While a new configuration is being applied, at every intermediate point (requests are
  served between the single writes) a tenant that both the old and the new configuration list
  stays admitted, and a tenant that neither lists stays out: an update never interrupts a
  tenant that is kept.
\<close>

theorem admission_update_seamless:
  assumes "admits old m" and "configKey \<notin> set old \<union> set new" and "t \<noteq> configKey"
    and "admissionOps m new = Inr ops"
    and "t \<in> set old \<longleftrightarrow> t \<in> set new"
  shows "fold applyOp (take n ops) m t \<noteq> None \<longleftrightarrow> t \<in> set new"
proof -
  have ops: "ops = map (\<lambda>t. StoreOp t AVTrue) (difference new old) @
      map DeleteOp (difference old new) @ [StoreOp configKey (AVTenants new)]"
    using assms(1,4) by (simp add: admissionOps_def admits_def)
  have "\<forall>op \<in> set (take n ops). (case op of StoreOp k _ \<Rightarrow> k | DeleteOp k \<Rightarrow> k) \<noteq> t"
    using assms(2,3,5) by (auto simp: ops difference_filter dest!: in_set_takeD)
  then have "fold applyOp (take n ops) m t = m t" by (rule fold_ops_other)
  with assms(1,3,5) show ?thesis by (simp add: admits_def)
qed

theorem admission_update_seamless_witness:
  "\<exists>m ops. setConfigs exOptions [[''a'', ''b'']] Map.empty = Inr m \<and>
     admissionOps m [''b'', ''c''] = Inr ops \<and> length ops = 3 \<and>
     fold applyOp (take 2 ops) m ''b'' \<noteq> None \<and> fold applyOp (take 2 ops) m ''d'' = None"
proof -
  obtain m where m: "setConfigs exOptions [[''a'', ''b'']] Map.empty = Inr m" "admits [''a'', ''b''] m"
    using admissionOps_first [of "[''a'', ''b'']"]
    by (auto simp: configKey_def exOptions_def SetAdmissionControlHandler_def)
  then obtain ops where ops: "admissionOps m [''b'', ''c''] = Inr ops" "length ops = 3"
    by (auto simp: admits_def admissionOps_def difference_filter)
  have "configKey \<notin> set [''a'', ''b''] \<union> set [''b'', ''c'']" "''b'' \<noteq> configKey" "''d'' \<noteq> configKey"
    by (simp_all add: configKey_def)
  then show ?thesis
    using m(1) ops admission_update_seamless [OF m(2) _ _ ops(1), of "''b''" 2]
      admission_update_seamless [OF m(2) _ _ ops(1), of "''d''" 2]
    by (intro exI [of _ m] exI [of _ ops]) simp
qed

section \<open>Writing\<close>

text \<open>
  C36: Remote write fans out.  A write request of a tenant whose body can be read is forwarded to
  the write proxy once and sent to every external client once, all with the body that was
  received, and all of them under the tenant of the request info, whatever tenant header the
  client sent; where the body cannot be read, nothing is sent anywhere.
\<close>

theorem remoteWrite_fanout:
  assumes "op_RemoteWriteProxy opts = Some proxy" and "rq_Info req = Some tenant" and "tenant \<noteq> []"
  shows "case rq_Body req of
      Inl err \<Rightarrow> remoteWrite opts req = [HttpError 500 (errorText err)]
    | Inr body \<Rightarrow>
        \<exists>r h. remoteWrite opts req = Forward proxy r # map (\<lambda>c. SendExternal c body h) (op_ExternalRWClients opts) \<and>
          rq_Body r = Inr body \<and> confinedWrite opts tenant r \<and>
          vValues h (canonicalKey (op_TenantHeader opts)) = [tenant] \<and> h = hSet (op_TenantHeader opts) tenant []"
proof (cases "rq_Body req")
  case (Inl err)
  with assms show ?thesis by (simp add: remoteWrite_def Let_def)
next
  case (Inr body)
  have "confinedWrite opts tenant (setTenantHeader opts req)"
    using assms(2,3) by (rule setTenantHeader_confines)
  moreover from this have "hGet (rq_Header (setTenantHeader opts req)) (op_TenantHeader opts) = tenant"
    by (simp add: confinedWrite_def hGet_def vGet_def)
  ultimately show ?thesis
    using assms Inr by (simp add: remoteWrite_def Let_def confinedWrite_def hSet_def)
qed

theorem remoteWrite_fanout_witness:
  "\<exists>r h. remoteWrite exOptions (exRequest\<lparr>rq_Info := Some ''t1'', rq_Header := [(''Whizard-Tenant'', [''t2''])]\<rparr>) =
     Forward ''w'' r # map (\<lambda>c. SendExternal c ''query=up'' h) [] \<and>
     confinedWrite exOptions ''t1'' r"
  using remoteWrite_fanout [of exOptions "''w''" "exRequest\<lparr>rq_Info := Some ''t1'', rq_Header := [(''Whizard-Tenant'', [''t2''])]\<rparr>" "''t1''"]
  by (simp add: exOptions_def exRequest_def) blast

text \<open>
  A POST query whose parameter is in the URL while the form body holds other parameters only
  (a time, a step) is forwarded with the body already read to its end and the content length of
  the original one: the parameters of the body are lost, and the two no longer agree.
\<close>

theorem post_body_drained:
  assumes "op_QueryProxy opts = Some proxy" and "rq_Method req = ''POST''" and "rq_Content req = FormUrlencoded"
    and "rq_Body req = Inr body" and "vGet (parseQuery body) queryParam = []"
    and "Forward px r \<in> set (Handler_query opts pq req)" and "rq_Info req = Some tenant"
  shows "rq_Body r = Inr [] \<and> rq_ContentLength r = rq_ContentLength req"
proof -
  obtain f req1 where req1: "parseForm req = Inr (f, req1)"
    and fwd: "Forward px r \<in> set (queryEnforced opts pq proxy (Some f) req1)"
    using assms(1,2,6) by (auto simp: Handler_query_def split: sum.splits)
  have form: "f = parseQuery body" and r1: "req1 = req\<lparr>rq_Body := Inr []\<rparr>"
    using req1 assms(3,4) by (auto simp: parseForm_def parsePostForm_def bindR_Inr_iff split: if_splits)
  with assms(7) have "rq_Info req1 = Some tenant" by simp
  then obtain q found where "enforcePost pq (op_TenantLabelName opts) tenant (Some f)
      (if found then req1\<lparr>rq_RawQuery := q\<rparr> else req1) = Inr r"
    using queryEnforced_forward [OF fwd] by blast
  then show ?thesis
    using assms(5) by (auto simp: enforcePost_def enforceQueryValues_def form r1)
qed

definition exDrained :: request where
  "exDrained = exRequest\<lparr>rq_RawQuery := ''query=up'', rq_Body := Inr ''time=5'', rq_ContentLength := 6, rq_Info := Some ''t1''\<rparr>"

theorem post_body_drained_witness:
  "\<exists>r. Handler_query exOptions exPromql exDrained = [Forward ''q'' r] \<and> rq_Body r = Inr [] \<and> rq_ContentLength r = 6"
proof -
  have "case Handler_query exOptions exPromql exDrained of [Forward p r] \<Rightarrow> p = ''q'' | _ \<Rightarrow> False"
    by code_simp
  then obtain r where r: "Handler_query exOptions exPromql exDrained = [Forward ''q'' r]"
    by (auto split: list.split_asm event.split_asm)
  have "op_QueryProxy exOptions = Some ''q''" "rq_Method exDrained = ''POST''" "rq_Content exDrained = FormUrlencoded"
    "rq_Body exDrained = Inr ''time=5''" "vGet (parseQuery ''time=5'') queryParam = []" "rq_Info exDrained = Some ''t1''"
    by (simp_all add: exOptions_def exDrained_def exRequest_def) code_simp
  then have "rq_Body r = Inr [] \<and> rq_ContentLength r = rq_ContentLength exDrained"
    using post_body_drained [of exOptions "''q''" exDrained "''time=5''" "''q''" r exPromql "''t1''"] r by simp
  with r show ?thesis by (simp add: exDrained_def)
qed

end
