(* ===== verification/Gateway_Watcher.thy ===== *)
theory Gateway_Watcher
  imports Gateway_Handler "HOL-Library.Word"
begin

unbundle bit_operations_syntax

text \<open>
  \<^verbatim>\<open>config_watcher.go\<close> and the loop of \<^verbatim>\<open>runGateway\<close> that consumes its updates: how a
  change of the tenants file reaches admission control.  Three goroutines hand configurations on:
  the watcher (\<^verbatim>\<open>Run\<close>, blocked in \<^verbatim>\<open>refresh\<close> until its configuration is taken), the
  forwarder (\<^verbatim>\<open>ConfigFromWatcher\<close>) and the consumer, between the last two a channel of capacity
  one.  The model is a step relation over their joint state.  The file system, the JSON decoder,
  MD5 and the bits of \<^verbatim>\<open>fsnotify\<close> are parameters.
\<close>

record watch_env =
  we_parseConfig :: "string \<Rightarrow> string list res"
  we_md5 :: "string \<Rightarrow> nat list"
  we_Chmod :: "32 word"
  we_Remove :: "32 word"

section \<open>Loading\<close>

text \<open>
  \<^verbatim>\<open>binary.LittleEndian.Uint64\<close> of the first six bytes padded to eight; a float64 holds it
  exactly.
\<close>

fun littleEndian :: "nat list \<Rightarrow> nat" where
  "littleEndian [] = 0"
| "littleEndian (b # bs) = b + 256 * littleEndian bs"

definition hashAsMetricValue :: "watch_env \<Rightarrow> string \<Rightarrow> nat" where
  "hashAsMetricValue env data =
     (let smallSum = take 6 (we_md5 env data); bytes = smallSum @ replicate (8 - length smallSum) 0
      in littleEndian bytes)"

definition ParseConfig :: "watch_env \<Rightarrow> string \<Rightarrow> string list res" where
  "ParseConfig env content = we_parseConfig env content"

definition errEmptyConfigurationFile :: gerror where
  "errEmptyConfigurationFile = GoErr ''configuration file is empty''"

definition errParseConfigurationFile :: gerror where
  "errParseConfigurationFile = GoErr ''configuration file is not parsable''"

text \<open>\<open>file\<close> is what reading the watched path gives.\<close>

definition loadConfig :: "watch_env \<Rightarrow> string res \<Rightarrow> (string list \<times> nat) res" where
  "loadConfig env file =
     (case file of
        Inl err \<Rightarrow> Inl (Wrapped ''failed to read configuration file'' err)
      | Inr cfgContent \<Rightarrow>
          if cfgContent = [] then Inl (Wrapped ''configuration file is empty'' errEmptyConfigurationFile)
          else (case ParseConfig env cfgContent of
                  Inl err \<Rightarrow> Inl (Wrapped (''failed to parse configuration file: '' @ errorText err) errParseConfigurationFile)
                | Inr config \<Rightarrow> Inr (config, hashAsMetricValue env cfgContent)))"

section \<open>The watcher\<close>

record config_watcher =
  cw_successGauge :: int
  cw_lastSuccessTimeGauge :: int
  cw_changesCounter :: nat
  cw_errorCounter :: nat
  cw_refreshCounter :: nat
  cw_tenantsGauge :: int
  cw_lastLoadedConfigHash :: nat

definition initWatcher :: config_watcher where
  "initWatcher = \<lparr>cw_successGauge = 0, cw_lastSuccessTimeGauge = 0, cw_changesCounter = 0,
     cw_errorCounter = 0, cw_refreshCounter = 0, cw_tenantsGauge = 0, cw_lastLoadedConfigHash = 0\<rparr>"

text \<open>
  \<^verbatim>\<open>NewConfigWatcher\<close>, given how creating the file watcher and adding the path to it
  come out.
\<close>

definition NewConfigWatcher :: "string \<Rightarrow> unit res \<Rightarrow> unit res \<Rightarrow> config_watcher res" where
  "NewConfigWatcher path newWatcher addPath =
     (case newWatcher of
        Inl err \<Rightarrow> Inl (Wrapped ''creating file watcher'' err)
      | Inr _ \<Rightarrow>
          (case addPath of
             Inl err \<Rightarrow> Inl (Wrapped (''adding path '' @ path @ '' to file watcher'') err)
           | Inr _ \<Rightarrow> Inr initWatcher))"

definition ValidateConfig :: "watch_env \<Rightarrow> string res \<Rightarrow> unit res" where
  "ValidateConfig env file = bindR (loadConfig env file) (\<lambda>_. Inr ())"

text \<open>\<^verbatim>\<open>refresh\<close>: the watcher afterwards, and the configuration it then offers on its channel.\<close>

definition refresh :: "watch_env \<Rightarrow> int \<Rightarrow> string res \<Rightarrow> config_watcher \<Rightarrow> config_watcher \<times> string list option" where
  "refresh env now file cw =
     (let cw1 = cw\<lparr>cw_refreshCounter := cw_refreshCounter cw + 1\<rparr> in
      case loadConfig env file of
        Inl err \<Rightarrow> (cw1\<lparr>cw_errorCounter := cw_errorCounter cw1 + 1\<rparr>, None)
      | Inr (config, cfgHash) \<Rightarrow>
          if cw_lastLoadedConfigHash cw1 = cfgHash then (cw1, None)
          else (cw1\<lparr>cw_changesCounter := cw_changesCounter cw1 + 1, cw_lastLoadedConfigHash := cfgHash,
                    cw_successGauge := 1, cw_lastSuccessTimeGauge := now,
                    cw_tenantsGauge := int (length config)\<rparr>, Some config))"

datatype watch_event =
    FsEvent string "32 word"
  | Tick
  | WatchError "gerror option"

text \<open>One turn of the select loop of \<^verbatim>\<open>Run\<close>.\<close>

fun runBranch ::
  "watch_env \<Rightarrow> int \<Rightarrow> string res \<Rightarrow> watch_event \<Rightarrow> config_watcher \<Rightarrow> config_watcher \<times> string list option" where
  "runBranch env now file (FsEvent name op) cw =
     (if name = [] then (cw, None)
      else if op XOR (we_Chmod env OR we_Remove env) = 0 then (cw, None)
      else refresh env now file cw)"
| "runBranch env now file Tick cw = refresh env now file cw"
| "runBranch env now file (WatchError err) cw =
     (if err \<noteq> None then (cw\<lparr>cw_errorCounter := cw_errorCounter cw + 1\<rparr>, None) else (cw, None))"

section \<open>From the file to admission control\<close>

text \<open>
  The joint state: \<open>pl_Offer\<close> is the configuration the watcher is blocked on, \<open>pl_Held\<close> the one the
  forwarder has received, \<open>pl_Updates\<close> the buffer of the channel \<^verbatim>\<open>updates\<close>.  The two histories
  record what the watcher has loaded (with the content it came from) and what admission control
  has been given; no step reads them.
\<close>

record pipeline =
  pl_File :: "string res"
  pl_Watcher :: config_watcher
  pl_Offer :: "string list option"
  pl_Held :: "string list option"
  pl_Updates :: "string list option"
  pl_Admission :: "admission_map res"
  pl_Canceled :: bool
  pl_WatcherDone :: bool
  pl_ForwarderDone :: bool
  pl_Loaded :: "(string list \<times> nat) list"
  pl_Applied :: "string list list"

definition initPipeline :: "string res \<Rightarrow> pipeline" where
  "initPipeline file =
     \<lparr>pl_File = file, pl_Watcher = initWatcher, pl_Offer = None, pl_Held = None, pl_Updates = None,
      pl_Admission = Inr Map.empty, pl_Canceled = False, pl_WatcherDone = False,
      pl_ForwarderDone = False, pl_Loaded = [], pl_Applied = []\<rparr>"

text \<open>The effect of a turn of \<^verbatim>\<open>Run\<close> on the joint state.\<close>

definition watcherTurn :: "watch_env \<Rightarrow> config_watcher \<times> string list option \<Rightarrow> pipeline \<Rightarrow> pipeline" where
  "watcherTurn env turn s =
     (case turn of (cw, offer) \<Rightarrow>
        s\<lparr>pl_Watcher := cw, pl_Offer := offer,
          pl_Loaded := pl_Loaded s @ (case offer of None \<Rightarrow> [] | Some c \<Rightarrow> [(c, cw_lastLoadedConfigHash cw)])\<rparr>)"

inductive pstep :: "watch_env \<Rightarrow> options \<Rightarrow> pipeline \<Rightarrow> pipeline \<Rightarrow> bool" for env opts where
  file_changes: "pstep env opts s (s\<lparr>pl_File := f\<rparr>)"
| first_refresh:
    "cw_refreshCounter (pl_Watcher s) = 0 \<Longrightarrow>
     pstep env opts s (watcherTurn env (refresh env now (pl_File s) (pl_Watcher s)) s)"
| turn:
    "0 < cw_refreshCounter (pl_Watcher s) \<Longrightarrow> pl_Offer s = None \<Longrightarrow> \<not> pl_WatcherDone s \<Longrightarrow>
     pstep env opts s (watcherTurn env (runBranch env now (pl_File s) ev (pl_Watcher s)) s)"
| receive:
    "pl_Offer s = Some c \<Longrightarrow> pl_Held s = None \<Longrightarrow> \<not> pl_ForwarderDone s \<Longrightarrow>
     pstep env opts s (s\<lparr>pl_Offer := None, pl_Held := Some c\<rparr>)"
| forward:
    "pl_Held s = Some c \<Longrightarrow> pl_Updates s = None \<Longrightarrow>
     pstep env opts s (s\<lparr>pl_Held := None, pl_Updates := Some c\<rparr>)"
| consume:
    "pl_Updates s = Some c \<Longrightarrow> pl_Admission s = Inr m \<Longrightarrow>
     pstep env opts s (s\<lparr>pl_Updates := None, pl_Admission := SetAdmissionControlHandler opts c m,
       pl_Applied := pl_Applied s @ [c]\<rparr>)"
| cancel: "pstep env opts s (s\<lparr>pl_Canceled := True\<rparr>)"
| drop_offer: "pl_Canceled s \<Longrightarrow> pstep env opts s (s\<lparr>pl_Offer := None\<rparr>)"
| watcher_returns:
    "pl_Canceled s \<Longrightarrow> pl_Offer s = None \<Longrightarrow> pstep env opts s (s\<lparr>pl_WatcherDone := True\<rparr>)"
| forwarder_returns:
    "pl_Canceled s \<or> pl_WatcherDone s \<Longrightarrow> pl_Held s = None \<Longrightarrow>
     pstep env opts s (s\<lparr>pl_ForwarderDone := True\<rparr>)"

inductive preach :: "watch_env \<Rightarrow> options \<Rightarrow> string res \<Rightarrow> pipeline \<Rightarrow> bool" for env opts fl where
  start: "preach env opts fl (initPipeline fl)"
| step: "preach env opts fl s \<Longrightarrow> pstep env opts s t \<Longrightarrow> preach env opts fl t"

definition inFlight :: "pipeline \<Rightarrow> string list list" where
  "inFlight s =
     (case pl_Updates s of None \<Rightarrow> [] | Some c \<Rightarrow> [c]) @ (case pl_Held s of None \<Rightarrow> [] | Some c \<Rightarrow> [c]) @
     (case pl_Offer s of None \<Rightarrow> [] | Some c \<Rightarrow> [c])"

section \<open>The invariant of the pipeline\<close>

text \<open>
  Until it is cancelled, configurations are applied in the order in which they were loaded, none
  is skipped or applied twice; admission control is what applying them one after the other
  gives; the remembered hash is that of the last one loaded.
\<close>

definition pipelineInv :: "options \<Rightarrow> pipeline \<Rightarrow> bool" where
  "pipelineInv opts s \<longleftrightarrow>
     (\<not> pl_Canceled s \<longrightarrow> map fst (pl_Loaded s) = pl_Applied s @ inFlight s \<and> \<not> pl_WatcherDone s \<and> \<not> pl_ForwarderDone s) \<and>
     pl_Admission s = setConfigs opts (pl_Applied s) Map.empty \<and>
     cw_lastLoadedConfigHash (pl_Watcher s) = (if pl_Loaded s = [] then 0 else snd (last (pl_Loaded s))) \<and>
     (cw_refreshCounter (pl_Watcher s) = 0 \<longrightarrow> pl_Offer s = None)"

lemma setConfigs_snoc:
  "setConfigs opts (cs @ [c]) m = bindR (setConfigs opts cs m) (SetAdmissionControlHandler opts c)"
proof (induction cs arbitrary: m)
  case Nil
  show ?case by (cases "SetAdmissionControlHandler opts c m") simp_all
next
  case (Cons a cs)
  then show ?case by (cases "SetAdmissionControlHandler opts a m") simp_all
qed

lemma refresh_hash:
  assumes "refresh env now file cw = (cw', offer)"
  shows "cw_refreshCounter cw' = cw_refreshCounter cw + 1"
    and "offer = None \<Longrightarrow> cw_lastLoadedConfigHash cw' = cw_lastLoadedConfigHash cw"
  using assms by (auto simp: refresh_def Let_def split: sum.splits prod.splits if_splits)

lemma runBranch_hash:
  assumes "runBranch env now file ev cw = (cw', offer)"
  shows "cw_refreshCounter cw \<le> cw_refreshCounter cw'"
    and "offer = None \<Longrightarrow> cw_lastLoadedConfigHash cw' = cw_lastLoadedConfigHash cw"
    and "offer \<noteq> None \<Longrightarrow> 0 < cw_refreshCounter cw'"
  using assms by (cases ev; auto split: if_splits dest: refresh_hash)+

lemma watcherTurn_inv:
  assumes "pipelineInv opts s" and "pl_Offer s = None"
    and "offer = None \<Longrightarrow> cw_lastLoadedConfigHash cw = cw_lastLoadedConfigHash (pl_Watcher s)"
    and "offer \<noteq> None \<Longrightarrow> 0 < cw_refreshCounter cw"
  shows "pipelineInv opts (watcherTurn env (cw, offer) s)"
  using assms by (cases offer) (auto simp: pipelineInv_def watcherTurn_def inFlight_def)

lemma pstep_inv: "pstep env opts s t \<Longrightarrow> pipelineInv opts s \<Longrightarrow> pipelineInv opts t"
proof (induction rule: pstep.induct)
  case (first_refresh s now)
  obtain cw offer where r: "refresh env now (pl_File s) (pl_Watcher s) = (cw, offer)" by fastforce
  have "pl_Offer s = None" using first_refresh by (simp add: pipelineInv_def)
  then show ?case
    using first_refresh.prems r refresh_hash [OF r] by (auto intro!: watcherTurn_inv)
next
  case (turn s now ev)
  obtain cw offer where r: "runBranch env now (pl_File s) ev (pl_Watcher s) = (cw, offer)" by fastforce
  then show ?case
    using turn runBranch_hash [OF r] by (auto intro!: watcherTurn_inv)
next
  case (consume s c m)
  then have "setConfigs opts (pl_Applied s) Map.empty = Inr m"
    by (simp add: pipelineInv_def)
  then have "setConfigs opts (pl_Applied s @ [c]) Map.empty = SetAdmissionControlHandler opts c m"
    by (simp add: setConfigs_snoc)
  with consume show ?case by (auto simp: pipelineInv_def inFlight_def)
qed (auto simp: pipelineInv_def inFlight_def)

lemma preach_inv: "preach env opts fl s \<Longrightarrow> pipelineInv opts s"
proof (induction rule: preach.induct)
  case start
  show ?case by (simp add: pipelineInv_def initPipeline_def inFlight_def initWatcher_def)
next
  case (step s t)
  then show ?case by (blast intro: pstep_inv)
qed

text \<open>Every configuration that was loaded came from some content of the file.\<close>

definition loadedFrom :: "watch_env \<Rightarrow> (string list \<times> nat) list \<Rightarrow> bool" where
  "loadedFrom env loaded \<longleftrightarrow>
     (\<forall>(c, h) \<in> set loaded. \<exists>x. ParseConfig env x = Inr c \<and> h = hashAsMetricValue env x)"

lemma refresh_offer:
  assumes "refresh env now file cw = (cw', Some c)"
  shows "\<exists>x. ParseConfig env x = Inr c \<and> cw_lastLoadedConfigHash cw' = hashAsMetricValue env x"
  using assms
  by (auto simp: refresh_def Let_def loadConfig_def split: sum.splits prod.splits if_splits)

lemma runBranch_offer:
  "runBranch env now file ev cw = (cw', Some c) \<Longrightarrow>
   \<exists>x. ParseConfig env x = Inr c \<and> cw_lastLoadedConfigHash cw' = hashAsMetricValue env x"
  by (cases ev) (auto split: if_splits dest: refresh_offer)

lemma watcherTurn_loadedFrom:
  assumes "loadedFrom env (pl_Loaded s)"
    and "\<And>c. offer = Some c \<Longrightarrow> \<exists>x. ParseConfig env x = Inr c \<and> cw_lastLoadedConfigHash cw = hashAsMetricValue env x"
  shows "loadedFrom env (pl_Loaded (watcherTurn env (cw, offer) s))"
  using assms by (cases offer) (auto simp: watcherTurn_def loadedFrom_def)

lemma preach_loadedFrom: "preach env opts fl s \<Longrightarrow> loadedFrom env (pl_Loaded s)"
proof (induction rule: preach.induct)
  case start
  show ?case by (simp add: initPipeline_def loadedFrom_def)
next
  case (step s t)
  from step.hyps(2) step.IH show ?case
  proof (induction rule: pstep.induct)
    case (first_refresh s now)
    then show ?case
      by (cases "refresh env now (pl_File s) (pl_Watcher s)") (auto intro!: watcherTurn_loadedFrom dest: refresh_offer)
  next
    case (turn s now ev)
    then show ?case
      by (cases "runBranch env now (pl_File s) ev (pl_Watcher s)")
        (auto intro!: watcherTurn_loadedFrom dest: runBranch_offer)
  qed auto
qed

section \<open>Admission control follows the file\<close>

lemma quiescent_follows_file:
  assumes "preach env opts fl s" and "\<not> pl_Canceled s" and "inFlight s = []"
    and "op_EnabledTenantsAdmission opts"
    and "pl_File s = Inr x" and "loadConfig env (Inr x) = Inr (tenants, h)"
    and "cw_lastLoadedConfigHash (pl_Watcher s) = h" and "h \<noteq> 0"
    and "\<And>y. hashAsMetricValue env y = hashAsMetricValue env x \<Longrightarrow> ParseConfig env y = ParseConfig env x"
    and "\<forall>c \<in> set (pl_Applied s). configKey \<notin> set c"
  shows "\<exists>m. pl_Admission s = Inr m \<and> (\<forall>t. t \<noteq> configKey \<longrightarrow> (m t \<noteq> None \<longleftrightarrow> t \<in> set tenants))"
proof -
  have inv: "map fst (pl_Loaded s) = pl_Applied s" "pl_Admission s = setConfigs opts (pl_Applied s) Map.empty"
    "h = (if pl_Loaded s = [] then 0 else snd (last (pl_Loaded s)))"
    using preach_inv [OF assms(1)] assms(2,3,7) by (auto simp: pipelineInv_def)
  have ne: "pl_Loaded s \<noteq> []" using inv(3) assms(8) by (simp split: if_splits)
  then obtain c where c: "last (pl_Loaded s) = (c, h)" "(c, h) \<in> set (pl_Loaded s)"
    using inv(3) by (metis last_in_set surjective_pairing)
  then obtain y where y: "ParseConfig env y = Inr c" "h = hashAsMetricValue env y"
    using preach_loadedFrom [OF assms(1)] by (auto simp: loadedFrom_def)
  have x: "ParseConfig env x = Inr tenants" "h = hashAsMetricValue env x"
    using assms(6) by (auto simp: loadConfig_def split: if_splits sum.splits)
  have "c = tenants" using assms(9) [of y] x y by simp
  then have "last (pl_Applied s) = tenants" "pl_Applied s \<noteq> []"
    using inv(1) c(1) ne by (metis fst_conv last_map, metis Nil_is_map_conv)
  then show ?thesis
    using admission_follows [OF assms(4) _ assms(10)] inv(2) by simp
qed

text \<open>
  In every reachable state of the gateway that has not been cancelled, in which the watcher
  has seen the current content of the tenants file and no update is on its way, the tenants that
  admission control admits are exactly those the file lists, however often the file changed,
  whatever events and ticks came and however the three goroutines were interleaved before.
  (Contents with the same hash are taken to list the same tenants, and no configuration lists the
  reserved name.)
\<close>

theorem admission_follows_file:
  assumes "preach env opts fl s" and "\<not> pl_Canceled s" and "inFlight s = []"
    and "op_EnabledTenantsAdmission opts"
    and "pl_File s = Inr x" and "loadConfig env (Inr x) = Inr (tenants, h)"
    and "cw_lastLoadedConfigHash (pl_Watcher s) = h" and "h \<noteq> 0"
    and "\<And>y. hashAsMetricValue env y = hashAsMetricValue env x \<Longrightarrow> ParseConfig env y = ParseConfig env x"
    and "\<forall>c \<in> set (pl_Applied s). configKey \<notin> set c"
  shows "\<exists>m. pl_Admission s = Inr m \<and> (\<forall>t. t \<noteq> configKey \<longrightarrow> (m t \<noteq> None \<longleftrightarrow> t \<in> set tenants))"
  using quiescent_follows_file [OF assms] .

definition exEnv :: watch_env where
  "exEnv = \<lparr>we_parseConfig = (\<lambda>s. Inr [s]), we_md5 = (\<lambda>s. if s = ''t1'' then [1, 0, 0, 0, 0, 0, 7] else [2]),
     we_Chmod = 16, we_Remove = 4\<rparr>"

lemma exEnv_hash: "hashAsMetricValue exEnv y = (if y = ''t1'' then 1 else 2)"
  by (simp add: hashAsMetricValue_def exEnv_def numeral_eq_Suc)

lemma exEnv_load: "loadConfig exEnv (Inr ''t1'') = Inr ([''t1''], 1)"
proof -
  have "ParseConfig exEnv ''t1'' = Inr [''t1'']" by (simp add: ParseConfig_def exEnv_def)
  then show ?thesis by (simp add: loadConfig_def exEnv_hash)
qed

text \<open>One configuration on its way through the pipeline.\<close>

lemma preach_first:
  assumes "loadConfig env fl = Inr (c, h)" and "h \<noteq> 0"
  shows "\<exists>s. preach env opts fl s \<and> \<not> pl_Canceled s \<and> inFlight s = [] \<and> pl_File s = fl \<and>
    cw_lastLoadedConfigHash (pl_Watcher s) = h \<and> pl_Applied s = [c]"
proof -
  obtain cw where cw: "refresh env 0 fl initWatcher = (cw, Some c)" "cw_lastLoadedConfigHash cw = h"
    using assms by (simp add: refresh_def initWatcher_def)
  let ?a = "watcherTurn env (refresh env 0 fl initWatcher) (initPipeline fl)"
  have "pstep env opts (initPipeline fl) (watcherTurn env (refresh env 0 (pl_File (initPipeline fl))
      (pl_Watcher (initPipeline fl))) (initPipeline fl))"
    by (rule pstep.first_refresh) (simp add: initPipeline_def initWatcher_def)
  then have a: "preach env opts fl ?a"
    using preach.step [OF preach.start] by (simp add: initPipeline_def)
  let ?b = "?a\<lparr>pl_Offer := None, pl_Held := Some c\<rparr>"
  have b: "preach env opts fl ?b"
    by (rule preach.step [OF a], rule pstep.receive) (simp_all add: watcherTurn_def cw initPipeline_def)
  let ?c = "?b\<lparr>pl_Held := None, pl_Updates := Some c\<rparr>"
  have c: "preach env opts fl ?c"
    by (rule preach.step [OF b], rule pstep.forward) (simp_all add: watcherTurn_def cw initPipeline_def)
  let ?d = "?c\<lparr>pl_Updates := None, pl_Admission := SetAdmissionControlHandler opts c Map.empty,
    pl_Applied := pl_Applied ?c @ [c]\<rparr>"
  have "preach env opts fl ?d"
    by (rule preach.step [OF c], rule pstep.consume) (simp_all add: watcherTurn_def cw initPipeline_def)
  moreover have "\<not> pl_Canceled ?d \<and> inFlight ?d = [] \<and> pl_File ?d = fl \<and>
      cw_lastLoadedConfigHash (pl_Watcher ?d) = h \<and> pl_Applied ?d = [c]"
    by (simp add: watcherTurn_def cw initPipeline_def inFlight_def)
  ultimately show ?thesis by blast
qed

theorem admission_follows_file_witness:
  "\<exists>s m. preach exEnv exOptions (Inr ''t1'') s \<and> pl_Admission s = Inr m \<and> m ''t1'' \<noteq> None \<and> m ''t2'' = None"
proof -
  obtain s where s: "preach exEnv exOptions (Inr ''t1'') s" "\<not> pl_Canceled s" "inFlight s = []"
    "pl_File s = Inr ''t1''" "cw_lastLoadedConfigHash (pl_Watcher s) = 1" "pl_Applied s = [[''t1'']]"
    using preach_first [OF exEnv_load, of exOptions] by auto
  have "\<exists>m. pl_Admission s = Inr m \<and> (\<forall>t. t \<noteq> configKey \<longrightarrow> (m t \<noteq> None \<longleftrightarrow> t \<in> set [''t1'']))"
    by (rule admission_follows_file [OF s(1-3) _ s(4) exEnv_load s(5)])
      (simp_all add: exOptions_def exEnv_hash s(6) configKey_def split: if_splits)
  then obtain m where m: "pl_Admission s = Inr m" "\<forall>t. t \<noteq> configKey \<longrightarrow> (m t \<noteq> None \<longleftrightarrow> t \<in> set [''t1''])"
    by (elim exE conjE) (rule that)
  have "m ''t1'' \<noteq> None" "m ''t2'' = None"
    using m(2) [rule_format, of "''t1''"] m(2) [rule_format, of "''t2''"] by (simp_all add: configKey_def)
  with s(1) m(1) show ?thesis by blast
qed

section \<open>Updates get through\<close>

text \<open>Steps of the forwarder and the consumer only: the file and the watcher stay as they are.\<close>

definition drains :: "watch_env \<Rightarrow> options \<Rightarrow> pipeline \<Rightarrow> pipeline \<Rightarrow> bool" where
  "drains env opts s t \<longleftrightarrow>
     pstep env opts s t \<and> pl_File t = pl_File s \<and> pl_Watcher t = pl_Watcher s \<and> pl_Loaded t = pl_Loaded s \<and>
     pl_Canceled t = pl_Canceled s"

definition backlog :: "pipeline \<Rightarrow> nat" where
  "backlog s = (if pl_Offer s = None then 0 else 3) + (if pl_Held s = None then 0 else 2) +
     (if pl_Updates s = None then 0 else 1)"

lemma drain_step:
  assumes "inFlight s \<noteq> []" and "\<not> pl_ForwarderDone s" and "pl_Admission s = Inr m"
  shows "\<exists>t. drains env opts s t \<and> backlog t < backlog s"
proof -
  consider c where "pl_Updates s = Some c"
    | c where "pl_Updates s = None" "pl_Held s = Some c"
    | c where "pl_Updates s = None" "pl_Held s = None" "pl_Offer s = Some c"
    using assms(1) by (auto simp: inFlight_def split: option.splits)
  then show ?thesis
  proof cases
    case 1
    show ?thesis
      using pstep.consume [OF 1 assms(3), of env opts] 1 by (auto simp: drains_def backlog_def)
  next
    case 2
    show ?thesis
      using pstep.forward [OF 2(2,1), of env opts] 2 by (auto simp: drains_def backlog_def)
  next
    case 3
    show ?thesis
      using pstep.receive [OF 3(3,2) assms(2), of env opts] 3 by (auto simp: drains_def backlog_def)
  qed
qed

text \<open>
  C27: Updates get through.  With admission control on, from every reachable state that has not been cancelled
  and in which no configuration lists the reserved name, the forwarder and the consumer can always take steps of
  their own (no change of the file or of the watcher is needed) that apply everything that is on
  its way: until it is cancelled the hand-over does not get stuck, and admission control reaches the last
  configuration the watcher has loaded.  (\<^verbatim>\<open>Gateway_Shutdown\<close> is about what happens afterwards.)
\<close>

theorem updates_get_through:
  assumes "preach env opts fl s" and "\<not> pl_Canceled s" and "op_EnabledTenantsAdmission opts"
    and "\<forall>(c, h) \<in> set (pl_Loaded s). configKey \<notin> set c"
  shows "\<exists>t. (drains env opts)\<^sup>*\<^sup>* s t \<and> inFlight t = [] \<and> pl_Applied t = map fst (pl_Loaded s)"
  using assms(1,2,4)
proof (induction "backlog s" arbitrary: s rule: less_induct)
  case less
  note inv = preach_inv [OF less.prems(1), unfolded pipelineInv_def]
  show ?case
  proof (cases "inFlight s = []")
    case True
    with inv less.prems(2) show ?thesis by (intro exI [of _ s]) auto
  next
    case False
    have "set (pl_Applied s) \<subseteq> set (map fst (pl_Loaded s))"
      using inv less.prems(2) by simp
    then have keys: "\<forall>c \<in> set (pl_Applied s). configKey \<notin> set c"
      using less.prems(3) by fastforce
    obtain m where "pl_Admission s = Inr m"
      using inv admission_follows [OF assms(3) _ keys] by (cases "pl_Applied s = []") auto
    then obtain t where t: "drains env opts s t" "backlog t < backlog s"
      using drain_step [OF False] inv less.prems(2) by blast
    have st: "preach env opts fl t" "\<not> pl_Canceled t" "\<forall>(c, h) \<in> set (pl_Loaded t). configKey \<notin> set c"
      "pl_Loaded t = pl_Loaded s"
      using t(1) less.prems preach.step by (auto simp: drains_def)
    obtain u where "(drains env opts)\<^sup>*\<^sup>* t u" "inFlight u = []" "pl_Applied u = map fst (pl_Loaded s)"
      using less.hyps [OF t(2) st(1-3)] st(4) by auto
    with t(1) show ?thesis by (metis converse_rtranclp_into_rtranclp)
  qed
qed

theorem updates_get_through_witness:
  "\<exists>t. (drains exEnv exOptions)\<^sup>*\<^sup>* (watcherTurn exEnv (refresh exEnv 0 (Inr ''t1'') initWatcher) (initPipeline (Inr ''t1''))) t \<and>
     inFlight t = [] \<and> pl_Applied t = [[''t1'']]"
proof -
  let ?s = "watcherTurn exEnv (refresh exEnv 0 (Inr ''t1'') initWatcher) (initPipeline (Inr ''t1''))"
  have loaded: "pl_Loaded ?s = [([''t1''], 1)]" "\<not> pl_Canceled ?s"
    by (simp_all add: watcherTurn_def refresh_def exEnv_load initWatcher_def initPipeline_def)
  have "preach exEnv exOptions (Inr ''t1'') ?s"
    using preach.step [OF preach.start pstep.first_refresh [of "initPipeline (Inr ''t1'')" exEnv exOptions 0]]
    by (simp add: initPipeline_def initWatcher_def)
  then show ?thesis
    using updates_get_through [of exEnv exOptions "Inr ''t1''" ?s] loaded
    by (simp add: exOptions_def configKey_def)
qed

section \<open>Hashes, events and gauges\<close>

lemma littleEndian_bound: "\<forall>b \<in> set bs. b < 256 \<Longrightarrow> littleEndian bs < 256 ^ length bs"
proof (induction bs)
  case (Cons b bs)
  then have "littleEndian bs + 1 \<le> 256 ^ length bs" "b < 256" by simp_all
  then have "b + 256 * littleEndian bs < 256 * 256 ^ length bs" by linarith
  then show ?case by simp
qed simp

lemma littleEndian_zeros: "littleEndian (bs @ replicate n 0) = littleEndian bs"
proof -
  have "littleEndian (replicate n 0) = 0" by (induction n) simp_all
  then show ?thesis by (induction bs) simp_all
qed

lemma littleEndian_inj:
  "length as = length bs \<Longrightarrow> \<forall>b \<in> set as \<union> set bs. b < 256 \<Longrightarrow> littleEndian as = littleEndian bs \<Longrightarrow> as = bs"
proof (induction as bs rule: list_induct2)
  case (Cons a as b bs)
  then have "(a + 256 * littleEndian as) mod 256 = (b + 256 * littleEndian bs) mod 256" by simp
  with Cons.prems(1) have "a = b" by simp
  with Cons show ?case by simp
qed simp

text \<open>
  The configuration hash keeps six bytes of the MD5 sum and no more than a float64 can hold: it
  is below \<open>2 ^ 48\<close>, and two contents have the same hash exactly if the first six bytes of their
  sums agree.
\<close>

theorem hashAsMetricValue_exact:
  assumes "\<And>s. length (we_md5 env s) = 16 \<and> (\<forall>b \<in> set (we_md5 env s). b < 256)"
  shows "hashAsMetricValue env x < 2 ^ 48 \<and>
    (hashAsMetricValue env x = hashAsMetricValue env y \<longleftrightarrow> take 6 (we_md5 env x) = take 6 (we_md5 env y))"
proof -
  have small: "\<forall>b \<in> set (take 6 (we_md5 env s)). b < 256" "length (take 6 (we_md5 env s)) = 6" for s
    using assms [of s] by (auto dest: in_set_takeD)
  have hash: "hashAsMetricValue env s = littleEndian (take 6 (we_md5 env s))" for s
    by (simp only: hashAsMetricValue_def Let_def littleEndian_zeros)
  have "hashAsMetricValue env x < 2 ^ 48"
    using littleEndian_bound [OF small(1), of x] small(2) [of x] hash by simp
  moreover have "hashAsMetricValue env x = hashAsMetricValue env y \<longleftrightarrow> take 6 (we_md5 env x) = take 6 (we_md5 env y)"
    using littleEndian_inj [of "take 6 (we_md5 env x)" "take 6 (we_md5 env y)"] small hash by auto
  ultimately show ?thesis by blast
qed

theorem hashAsMetricValue_exact_witness:
  "hashAsMetricValue (exEnv\<lparr>we_md5 := \<lambda>s. replicate 16 (length s mod 256)\<rparr>) ''ab'' \<noteq>
   hashAsMetricValue (exEnv\<lparr>we_md5 := \<lambda>s. replicate 16 (length s mod 256)\<rparr>) ''abc''"
proof -
  let ?e = "exEnv\<lparr>we_md5 := \<lambda>s. replicate 16 (length s mod 256)\<rparr>"
  have "length (we_md5 ?e s) = 16 \<and> (\<forall>b \<in> set (we_md5 ?e s). b < 256)" for s by simp
  from hashAsMetricValue_exact [of ?e, OF this, of "''ab''" "''abc''"]
  show ?thesis by simp
qed

text \<open>
  The filter on file events skips nothing but the exact combination of a permission change and
  a removal: an event that is a permission change alone, or a removal alone, rereads the file.
\<close>

theorem single_events_refresh:
  assumes "name \<noteq> []" and "we_Chmod env OR we_Remove env \<noteq> op"
  shows "runBranch env now file (FsEvent name op) cw = refresh env now file cw"
proof -
  let ?skip = "we_Chmod env OR we_Remove env"
  have "op XOR ?skip \<noteq> 0"
  proof
    assume "op XOR ?skip = 0"
    then have "(op XOR ?skip) XOR ?skip = ?skip" by simp
    then have "op = ?skip" by (simp only: xor.assoc xor_self_eq xor.right_neutral)
    with assms(2) show False by simp
  qed
  with assms(1) show ?thesis by simp
qed

theorem single_events_refresh_witness:
  "runBranch exEnv 0 (Inr ''t1'') (FsEvent ''/etc/tenants.json'' 16) initWatcher =
     refresh exEnv 0 (Inr ''t1'') initWatcher \<and>
   runBranch exEnv 0 (Inr ''t1'') (FsEvent ''/etc/tenants.json'' 4) initWatcher =
     refresh exEnv 0 (Inr ''t1'') initWatcher"
  by (intro conjI; rule single_events_refresh) (simp_all add: exEnv_def)

text \<open>A run of the select loop: at each turn the time, what the file holds and the event.\<close>

definition runTurns ::
  "watch_env \<Rightarrow> (int \<times> string res \<times> watch_event) list \<Rightarrow> config_watcher \<Rightarrow> config_watcher" where
  "runTurns env turns cw = foldl (\<lambda>cw (now, file, ev). fst (runBranch env now file ev cw)) cw turns"

lemma refresh_gauge: "cw_successGauge cw = 1 \<Longrightarrow> cw_successGauge (fst (refresh env now file cw)) = 1"
  by (simp add: refresh_def Let_def split: sum.split prod.split)

lemma runBranch_gauge: "cw_successGauge cw = 1 \<Longrightarrow> cw_successGauge (fst (runBranch env now file ev cw)) = 1"
  by (cases ev) (simp_all add: refresh_gauge)

lemma refresh_fails:
  "loadConfig env file = Inl err \<Longrightarrow> refresh env now file cw =
    (cw\<lparr>cw_refreshCounter := cw_refreshCounter cw + 1, cw_errorCounter := cw_errorCounter cw + 1\<rparr>, None)"
  by (simp add: refresh_def)

lemma runTurns_fail:
  "\<forall>(now, file, ev) \<in> set turns. ev = Tick \<and> (\<exists>err. loadConfig env file = Inl err) \<Longrightarrow>
   cw_errorCounter (runTurns env turns cw) = cw_errorCounter cw + length turns \<and>
   cw_lastLoadedConfigHash (runTurns env turns cw) = cw_lastLoadedConfigHash cw"
proof (induction turns arbitrary: cw)
  case (Cons turn turns)
  obtain now f ev where turn: "turn = (now, f, ev)" by (cases turn)
  with Cons.prems obtain err where err: "ev = Tick" "loadConfig env f = Inl err" by auto
  then have "fst (runBranch env now f ev cw) =
      cw\<lparr>cw_refreshCounter := cw_refreshCounter cw + 1, cw_errorCounter := cw_errorCounter cw + 1\<rparr>"
    by (simp add: refresh_fails)
  then show ?case
    using Cons turn by (simp add: runTurns_def)
qed (simp add: runTurns_def)

text \<open>
  The gauge of the last reload's success never goes back: once a reload has succeeded it reads
  one after any further turns of the watcher, also when every one of them fails to load the file;
  then only the error counter grows, by one per tick, and the configuration in force stays.
\<close>

theorem success_gauge_sticky:
  assumes "cw_successGauge cw = 1"
  shows "cw_successGauge (runTurns env turns cw) = 1 \<and>
    ((\<forall>(now, file, ev) \<in> set turns. ev = Tick \<and> (\<exists>err. loadConfig env file = Inl err)) \<longrightarrow>
     cw_errorCounter (runTurns env turns cw) = cw_errorCounter cw + length turns \<and>
     cw_lastLoadedConfigHash (runTurns env turns cw) = cw_lastLoadedConfigHash cw)"
proof -
  have "cw_successGauge (runTurns env turns cw) = 1"
    using assms by (induction turns arbitrary: cw) (auto simp: runTurns_def runBranch_gauge)
  then show ?thesis using runTurns_fail by blast
qed

theorem success_gauge_sticky_witness:
  "cw_successGauge (runTurns exEnv [(5, Inr [], Tick), (6, Inl (GoErr ''gone''), Tick)]
     (fst (refresh exEnv 4 (Inr ''t1'') initWatcher))) = 1 \<and>
   cw_errorCounter (runTurns exEnv [(5, Inr [], Tick), (6, Inl (GoErr ''gone''), Tick)]
     (fst (refresh exEnv 4 (Inr ''t1'') initWatcher))) = 2"
proof -
  let ?cw = "fst (refresh exEnv 4 (Inr ''t1'') initWatcher)"
  have cw: "cw_successGauge ?cw = 1" "cw_errorCounter ?cw = 0"
    by (simp_all add: refresh_def exEnv_load initWatcher_def)
  show ?thesis
    using success_gauge_sticky [OF cw(1), of exEnv "[(5, Inr [], Tick), (6, Inl (GoErr ''gone''), Tick)]"] cw(2)
    by (simp add: loadConfig_def)
qed

end
