(* ===== verification/Cleanup_Script.thy ===== *)
theory Cleanup_Script
  imports Prelude
begin

text \<open>
  The script of the init container of an ingester (\<^verbatim>\<open>cleanupScript\<close> in \<^verbatim>\<open>ingester/statefulset.go\<close>) and
  what bash makes of it.  No expansion in the script is quoted but two, so a value is first split into words
  at blanks, tabs and line breaks, and every word is then replaced by the paths it matches.  Pathname
  expansion and the commands that the script calls are parameters, over a state of the file system.
\<close>

section \<open>The script\<close>

definition nl :: string where
  "nl = [CHR 0x0A]"

definition cleanupScript :: string where
  "cleanupScript = (let q = [CHR 0x22]; date = ''[$(date '' @ q @ ''+%Y-%m-%d %H:%M:%S'' @ q @ '')]'' in joinStr nl
     [[], ''#!/bin/bash'', [], ''echo '' @ date @ '' begin to cleanup block'', ''echo TSDB path: ${0}'',
      ''echo tenants: ${1}'', [], ''files=$(ls -d $0/*)'', ''tenants=(${1//,/ })'', [], ''for f in ${files[@]}'', ''do'',
      ''  if test -d $f; then'', ''    name=$(basename $f)'',
      ''    if [[ ! '' @ q @ ''${tenants[@]}'' @ q @ '' =~ '' @ q @ ''$name'' @ q @ '' ]]; then'',
      ''      echo '' @ date @ '' tenant $name does not exist, delete data directory $f'', ''      rm -rf $f'', ''    fi'',
      ''  fi'', ''done'', [], ''echo '' @ date @ '' cleanup block end'', []])"

section \<open>Expansions\<close>

text \<open>
  \<open>sh_glob\<close> is the pathname expansion of one word, in the working directory; the other fields are what
  \<^verbatim>\<open>ls -d\<close> and \<^verbatim>\<open>basename\<close> print, how \<^verbatim>\<open>test -d\<close> ends and what \<^verbatim>\<open>rm -rf\<close> leaves, for the given arguments.
\<close>

record 'fs shell =
  sh_glob :: "'fs \<Rightarrow> string \<Rightarrow> string list"
  sh_ls :: "'fs \<Rightarrow> string list \<Rightarrow> string"
  sh_testD :: "'fs \<Rightarrow> string list \<Rightarrow> bool"
  sh_basename :: "string list \<Rightarrow> string"
  sh_rm :: "string list \<Rightarrow> 'fs \<Rightarrow> 'fs"

definition isIfs :: "char \<Rightarrow> bool" where
  "isIfs c \<longleftrightarrow> c \<in> set [CHR 0x20, CHR 0x09, CHR 0x0A]"

fun splitIfs :: "string \<Rightarrow> string list" where
  "splitIfs [] = [[]]"
| "splitIfs (c # cs) =
     (if isIfs c then [] # splitIfs cs
      else (case splitIfs cs of [] \<Rightarrow> [[c]] | w # ws \<Rightarrow> (c # w) # ws))"

definition wordsOf :: "string \<Rightarrow> string list" where
  "wordsOf s = filter (\<lambda>w. w \<noteq> []) (splitIfs s)"

text \<open>An unquoted expansion with the value \<open>s\<close>.\<close>

definition unquoted :: "'fs shell \<Rightarrow> 'fs \<Rightarrow> string \<Rightarrow> string list" where
  "unquoted sh fs s = concat (map (sh_glob sh fs) (wordsOf s))"

text \<open>\<^verbatim>\<open>$(command)\<close>: the output without the line breaks at its end.\<close>

definition substituted :: "string \<Rightarrow> string" where
  "substituted out = rev (dropWhile (\<lambda>c. c = CHR 0x0A) (rev out))"

section \<open>Running the script\<close>

text \<open>\<^verbatim>\<open>tenants=(${1//,/ })\<close>\<close>

definition scriptTenants :: "'fs shell \<Rightarrow> 'fs \<Rightarrow> string \<Rightarrow> string list" where
  "scriptTenants sh fs arg = unquoted sh fs (map (\<lambda>c. if c = CHR '','' then CHR '' '' else c) arg)"

text \<open>
  One turn of the loop.  The state is the file system and the arguments of the calls of \<^verbatim>\<open>rm\<close> so far.  A quoted
  array is its elements with blanks between them, and a quoted right-hand side of \<^verbatim>\<open>=~\<close> is looked for
  literally, anywhere in the left-hand side.
\<close>

definition cleanupTurn :: "'fs shell \<Rightarrow> string list \<Rightarrow> 'fs \<times> string list list \<Rightarrow> string \<Rightarrow> 'fs \<times> string list list" where
  "cleanupTurn sh tenants st f = (case st of (fs, removed) \<Rightarrow>
     let args = unquoted sh fs f in
     if sh_testD sh fs args then
       (let name = substituted (sh_basename sh args) in
        if \<not> containsSub (joinStr '' '' tenants) name then (sh_rm sh args fs, removed @ [args]) else st)
     else st)"

definition runCleanup :: "'fs shell \<Rightarrow> 'fs \<Rightarrow> string \<Rightarrow> string \<Rightarrow> 'fs \<times> string list list" where
  "runCleanup sh fs dir arg =
     (let files = substituted (sh_ls sh fs (unquoted sh fs (dir @ ''/*'')));
          tenants = scriptTenants sh fs arg
      in foldl (cleanupTurn sh tenants) (fs, []) (unquoted sh fs files))"

section \<open>Words\<close>

definition isGlob :: "char \<Rightarrow> bool" where
  "isGlob c \<longleftrightarrow> c \<in> set [CHR ''*'', CHR ''?'', CHR 0x5B, CHR 0x5C]"

text \<open>A name that bash leaves as it is.\<close>

definition plainWord :: "string \<Rightarrow> bool" where
  "plainWord w \<longleftrightarrow> w \<noteq> [] \<and> list_all (\<lambda>c. \<not> isIfs c \<and> \<not> isGlob c) w"

lemma splitIfs_not_Nil [simp]: "splitIfs s \<noteq> []"
  by (induction s) (auto split: list.split)

lemma splitIfs_word: "list_all (\<lambda>c. \<not> isIfs c) w \<Longrightarrow> splitIfs w = [w]"
  by (induction w) auto

lemma splitIfs_sep: "isIfs c \<Longrightarrow> splitIfs (a @ c # b) = splitIfs a @ splitIfs b"
proof (induction a)
  case (Cons x a)
  then show ?case by (cases "splitIfs a") (auto split: list.split)
qed simp

lemma wordsOf_sep: "isIfs c \<Longrightarrow> wordsOf (a @ c # b) = wordsOf a @ wordsOf b"
  by (simp add: wordsOf_def splitIfs_sep)

lemma wordsOf_word: "plainWord w \<Longrightarrow> wordsOf w = [w]"
  by (simp add: wordsOf_def plainWord_def splitIfs_word list_all_iff)

lemma wordsOf_lines:
  "list_all plainWord ws \<Longrightarrow> wordsOf (concat (map (\<lambda>w. w @ nl) ws)) = ws"
proof (induction ws)
  case (Cons w ws)
  then show ?case using wordsOf_sep [of "CHR 0x0A" w] by (simp add: nl_def isIfs_def wordsOf_word)
qed (simp add: wordsOf_def)

lemma wordsOf_substituted: "wordsOf (substituted s) = wordsOf s"
proof (induction s rule: rev_induct)
  case (snoc c s)
  have "wordsOf (s @ [CHR 0x0A]) = wordsOf s" using wordsOf_sep [of "CHR 0x0A" s "[]"] by (simp add: isIfs_def wordsOf_def)
  with snoc show ?case by (cases "c = CHR 0x0A") (simp_all add: substituted_def)
qed (simp add: substituted_def)

text \<open>A plain name without a comma is a word of the list it is written into.\<close>

lemma joined_word:
  assumes "w \<in> set ws" and "plainWord w" and "CHR '','' \<notin> set w"
  shows "w \<in> set (wordsOf (map (\<lambda>c. if c = CHR '','' then CHR '' '' else c) (joinStr '','' ws)))"
  using assms(1)
proof (induction ws rule: induct_list012)
  case (3 x y zs)
  let ?f = "\<lambda>c. if c = CHR '','' then CHR '' '' else c"
  have "wordsOf (map ?f (joinStr '','' (x # y # zs))) = wordsOf (map ?f x) @ wordsOf (map ?f (joinStr '','' (y # zs)))"
    using wordsOf_sep [of "CHR '' ''" "map ?f x" "map ?f (joinStr '','' (y # zs))"] by (simp add: isIfs_def)
  moreover have "map ?f w = w" using assms(3) by (induction w) auto
  ultimately show ?case using 3 wordsOf_word [OF assms(2)] by auto
next
  case (2 x)
  moreover have "map (\<lambda>c. if c = CHR '','' then CHR '' '' else c) w = w" using assms(3) by (induction w) auto
  ultimately show ?case using wordsOf_word [OF assms(2)] by simp
qed simp

section \<open>What the script spares\<close>

text \<open>
  What bash and the commands promise: a word without special characters expands to itself, \<^verbatim>\<open>ls -d\<close> of
  everything in the directory prints its entries line by line, and \<^verbatim>\<open>basename\<close> the last component of a path.
\<close>

definition shellOk :: "'fs shell \<Rightarrow> 'fs \<Rightarrow> string \<Rightarrow> string list \<Rightarrow> bool" where
  "shellOk sh fs dir entries \<longleftrightarrow>
     (\<forall>fs w. plainWord w \<longrightarrow> sh_glob sh fs w = [w]) \<and>
     sh_ls sh fs (unquoted sh fs (dir @ ''/*'')) = concat (map (\<lambda>n. dir @ ''/'' @ n @ nl) entries) \<and>
     (\<forall>n. n \<noteq> [] \<longrightarrow> CHR ''/'' \<notin> set n \<longrightarrow> sh_basename sh [dir @ ''/'' @ n] = n @ nl)"

definition plainEntry :: "string \<Rightarrow> bool" where
  "plainEntry n \<longleftrightarrow> plainWord n \<and> CHR ''/'' \<notin> set n"

lemma unquoted_plain: "shellOk sh fs dir entries \<Longrightarrow> plainWord w \<Longrightarrow> unquoted sh u w = [w]"
  by (simp add: unquoted_def wordsOf_word shellOk_def)

lemma scriptTenants_keeps:
  assumes "shellOk sh fs dir entries" and "w \<in> set ws" and "plainWord w" and "CHR '','' \<notin> set w"
  shows "w \<in> set (scriptTenants sh fs (joinStr '','' ws))"
proof -
  have "sh_glob sh fs w = [w]" using assms(1,3) by (simp add: shellOk_def)
  then show ?thesis using joined_word [OF assms(2-4)] by (force simp: scriptTenants_def unquoted_def)
qed

text \<open>One directory of the loop: only itself is removed, and only when its name does not occur among the tenants.\<close>

lemma cleanupTurn_spares:
  assumes ok: "shellOk sh fs dir entries" and dir: "plainWord dir" and n: "plainEntry n" and name: "name \<in> set tenants"
  shows "snd (cleanupTurn sh tenants (u, removed) (dir @ ''/'' @ n)) = removed \<or>
    n \<noteq> name \<and> snd (cleanupTurn sh tenants (u, removed) (dir @ ''/'' @ n)) = removed @ [[dir @ ''/'' @ n]]"
proof -
  have "plainWord (dir @ ''/'' @ n)" using dir n by (auto simp: plainWord_def plainEntry_def isIfs_def isGlob_def)
  then have args: "unquoted sh u (dir @ ''/'' @ n) = [dir @ ''/'' @ n]" by (rule unquoted_plain [OF ok])
  have "last n \<noteq> CHR 0x0A" using n by (auto simp: plainEntry_def plainWord_def isIfs_def list_all_iff)
  then have base: "substituted (sh_basename sh [dir @ ''/'' @ n]) = n"
    using ok n by (cases n rule: rev_cases) (auto simp: shellOk_def plainEntry_def plainWord_def substituted_def nl_def)
  have "containsSub (joinStr '' '' tenants) name" by (rule containsSub_join [OF name])
  then show ?thesis using args base by (auto simp: cleanupTurn_def Let_def)
qed

lemma cleanup_spares:
  assumes ok: "shellOk sh fs dir entries" and dir: "plainWord dir" and entries: "list_all plainEntry entries"
    and name: "name \<in> set ws" "plainWord name" "CHR '','' \<notin> set name"
    and removed: "args \<in> set (snd (runCleanup sh fs dir (joinStr '','' ws)))"
  shows "\<exists>n \<in> set entries. n \<noteq> name \<and> args = [dir @ ''/'' @ n]"
proof -
  let ?ts = "scriptTenants sh fs (joinStr '','' ws)"
  let ?ps = "map (\<lambda>n. dir @ ''/'' @ n) entries"
  have plain: "list_all plainWord ?ps"
    using dir entries by (auto simp: list_all_iff plainWord_def plainEntry_def isIfs_def isGlob_def)
  have "wordsOf (substituted (sh_ls sh fs (unquoted sh fs (dir @ ''/*'')))) = ?ps"
    using wordsOf_lines [OF plain] ok by (simp add: wordsOf_substituted shellOk_def comp_def)
  moreover have "concat (map (sh_glob sh fs) ps) = ps" if "list_all plainWord ps" for ps
    using that ok by (induction ps) (simp_all add: shellOk_def)
  note this [OF plain]
  ultimately have files: "unquoted sh fs (substituted (sh_ls sh fs (unquoted sh fs (dir @ ''/*'')))) = ?ps"
    by (simp add: unquoted_def)
  have loop: "set (snd (foldl (cleanupTurn sh ?ts) (u, rs) (map (\<lambda>n. dir @ ''/'' @ n) ns))) \<subseteq>
      set rs \<union> {[dir @ ''/'' @ n] | n. n \<in> set ns \<and> n \<noteq> name}" if "list_all plainEntry ns" for ns u rs
    using that
  proof (induction ns arbitrary: u rs)
    case (Cons n ns)
    obtain u' rs' where st: "cleanupTurn sh ?ts (u, rs) (dir @ ''/'' @ n) = (u', rs')" by fastforce
    have "set rs' \<subseteq> set rs \<union> {[dir @ ''/'' @ m] | m. m \<in> set (n # ns) \<and> m \<noteq> name}"
      using cleanupTurn_spares [OF ok dir _ scriptTenants_keeps [OF ok name], of n u rs] Cons.prems st by auto
    moreover have "set (snd (foldl (cleanupTurn sh ?ts) (u', rs') (map (\<lambda>n. dir @ ''/'' @ n) ns))) \<subseteq>
        set rs' \<union> {[dir @ ''/'' @ m] | m. m \<in> set ns \<and> m \<noteq> name}"
      by (rule Cons.IH) (use Cons.prems in simp)
    ultimately show ?case using st by auto
  qed simp
  have "args \<in> set (snd (foldl (cleanupTurn sh ?ts) (fs, []) ?ps))"
    using removed files by (simp add: runCleanup_def Let_def)
  with loop [OF entries, of fs "[]"] show ?thesis by auto
qed

section \<open>A concrete shell\<close>

text \<open>A file system as the list of its directories, and patterns with a star.\<close>

fun starMatch :: "string \<Rightarrow> string \<Rightarrow> bool" where
  "starMatch [] s \<longleftrightarrow> s = []"
| "starMatch (p # ps) s \<longleftrightarrow>
     (if p = CHR ''*'' then starMatch ps s \<or> (case s of [] \<Rightarrow> False | c # cs \<Rightarrow> c \<noteq> CHR ''/'' \<and> starMatch (p # ps) cs)
      else (case s of [] \<Rightarrow> False | c # cs \<Rightarrow> c = p \<and> starMatch ps cs))"

definition exShell :: "string list shell" where
  "exShell = \<lparr>sh_glob = (\<lambda>fs w. if CHR ''*'' \<notin> set w then [w]
       else (case filter (starMatch w) fs of [] \<Rightarrow> [w] | ms \<Rightarrow> ms)),
     sh_ls = (\<lambda>fs args. concat (map (\<lambda>p. p @ nl) (filter (\<lambda>p. p \<in> set fs) args))),
     sh_testD = (\<lambda>fs args. case args of [p] \<Rightarrow> p \<in> set fs | _ \<Rightarrow> False),
     sh_basename = (\<lambda>args. case args of [p] \<Rightarrow> last (splitOn CHR ''/'' p) @ nl | _ \<Rightarrow> []),
     sh_rm = (\<lambda>args fs. filter (\<lambda>p. p \<notin> set args) fs)\<rparr>"

text \<open>
  The name of a tenant is not checked by anybody.  One that is a pattern is replaced by what it matches in
  the working directory, and the data of the tenant is removed although it is on the list.
\<close>

lemma pattern_tenant_removed:
  "runCleanup exShell [''bin'', ''etc'', ''/d/*in''] ''/d'' ''*in,default'' = ([''bin'', ''etc''], [[''/d/*in'']])"
  by code_simp

end
