(* ===== verification/Ingester_Workload.thy ===== *)
theory Ingester_Workload
  imports Service_Defaults Cleanup_Script
begin

text \<open>
  \<^verbatim>\<open>pkg/controllers/resources/ingester\<close>: the stateful set, the service and the addresses of
  an ingester, and its init container, which removes the data directories of tenants the ingester no
  longer knows (by the script of \<open>Cleanup_Script\<close>).
\<close>

section \<open>ingester.go\<close>

definition Ingester_labels :: "ingester \<Rightarrow> labels_map" where
  "Ingester_labels ig = BaseLabels(LabelNameAppName \<mapsto> AppNameIngester, LabelNameAppManagedBy \<mapsto> om_Name ig)"

definition Ingester_name :: "ingester \<Rightarrow> string list \<Rightarrow> string" where
  "Ingester_name ig nameSuffix = QualifiedName AppNameIngester (om_Name ig) nameSuffix"

text \<open>\<^verbatim>\<open>r.meta(name)\<close> as the metadata of an object.\<close>

definition Ingester_meta :: "ingester \<Rightarrow> string \<Rightarrow> 'b object_meta_scheme \<Rightarrow> 'b object_meta_scheme" where
  "Ingester_meta ig name ob = ob\<lparr>om_Name := name, om_Namespace := om_Namespace ig, om_Labels := Ingester_labels ig\<rparr>"

text \<open>\<^verbatim>\<open>make([]string, n)\<close> panics for a negative length.\<close>

definition ingesterReplicas :: "service \<Rightarrow> ingester \<Rightarrow> nat res" where
  "ingesterReplicas svc ig =
     (let n = (case cs_Replicas (ig_Spec ig) of
                 Some n \<Rightarrow> n
               | None \<Rightarrow> (case cs_Replicas (sv_IngesterTemplateSpec (sv_Spec svc)) of Some n \<Rightarrow> n | None \<Rightarrow> 2))
      in if n < 0 then Inl Panic else Inr (nat n))"

definition podAddr :: "ingester \<Rightarrow> nat \<Rightarrow> string" where
  "podAddr ig i = Ingester_name ig [] @ ''-'' @ itoaNat i @ ''.'' @ Ingester_name ig [ServiceNameSuffix] @ ''.'' @
     om_Namespace ig @ ''.svc''"

definition Ingester_GrpcAddrs :: "service \<Rightarrow> ingester \<Rightarrow> string list res" where
  "Ingester_GrpcAddrs svc ig = bindR (ingesterReplicas svc ig) (\<lambda>n.
     Inr (map (\<lambda>i. podAddr ig i @ '':'' @ itoa GRPCPort) [0..<n]))"

definition Ingester_Address :: "service \<Rightarrow> ingester \<Rightarrow> string list res" where
  "Ingester_Address svc ig = bindR (ingesterReplicas svc ig) (\<lambda>n. Inr (map (podAddr ig) [0..<n]))"

definition Ingester_Endpoints :: "ingester \<Rightarrow> string list" where
  "Ingester_Endpoints ig = [''dnssrv+_grpc._tcp.'' @ Ingester_name ig [ServiceNameSuffix] @ ''.'' @ om_Namespace ig @ ''.svc'']"

section \<open>statefulset.go\<close>

definition Ingester_repeatableArgs :: "string list" where
  "Ingester_repeatableArgs = [''--label'']"

definition Ingester_unsupportedArgs :: "string list" where
  "Ingester_unsupportedArgs = [''--receive.hashrings'', ''--receive.hashrings-file'', ''--http-address'', ''--grpc-address'']"

text \<open>
  Without object storage the largest block is a tenth of the retention, at most 31 days, so that
  local blocks get compacted.
\<close>

definition maxBlockDuration :: "ext \<Rightarrow> string \<Rightarrow> int res" where
  "maxBlockDuration x localTsdbRetention =
     (case x_parseDuration x ''31d'' of
        (_, Some err) \<Rightarrow> Inl err
      | (maxDuration, None) \<Rightarrow>
          (let retention = (if localTsdbRetention = [] then ''15d'' else localTsdbRetention) in
           case x_parseDuration x retention of
             (_, Some err) \<Rightarrow> Inl err
           | (retentionDuration, None) \<Rightarrow>
               Inr (if retentionDuration \<noteq> 0 \<and> quotI retentionDuration 10 < maxDuration
                    then quotI retentionDuration 10 else maxDuration)))"

definition ingesterHeadArgs :: "ingester \<Rightarrow> string list" where
  "ingesterHeadArgs ig =
     (let sp = ig_Spec ig in
      [''receive''] @ optArg ''--log.level='' (cs_LogLevel sp) @ optArg ''--log.format='' (cs_LogFormat sp) @
      (if ig_OtlpEnableTargetInfo sp = Some False then [''--no-receive.otlp-enable-target-info''] else []) @
      map (\<lambda>attr. ''--receive.otlp-promote-resource-attributes='' @ attr) (ig_OtlpResourceAttributes sp) @
      [''--label='' @ ReceiveReplicaLabelName @ ''='' @ [CHR 0x22] @ ''$(POD_NAME)'' @ [CHR 0x22],
       ''--tsdb.path='' @ StorageDir,
       ''--receive.local-endpoint=$(POD_NAME).'' @ Ingester_name ig [ServiceNameSuffix] @ '':'' @ itoa GRPCPort] @
      optArg ''--tsdb.retention='' (ig_LocalTsdbRetention sp))"

definition ingesterTailArgs :: "service \<Rightarrow> string list" where
  "ingesterTailArgs svc =
     optArg ''--receive.tenant-header='' (sv_TenantHeader (sv_Spec svc)) @
     optArg ''--receive.tenant-label-name='' (sv_TenantLabelName (sv_Spec svc)) @
     optArg ''--receive.default-tenant-id='' (sv_DefaultTenantId (sv_Spec svc))"

definition getTSDBVolumeMount :: "container \<Rightarrow> volume_mount option" where
  "getTSDBVolumeMount ct = find (\<lambda>item. vm_Name item = TSDBVolumeName) (ct_VolumeMounts ct)"

definition cleanupTenantsArg :: "service \<Rightarrow> ingester \<Rightarrow> string" where
  "cleanupTenantsArg svc ig =
     joinStr '','' (sortStrings (map its_Name (igs_Tenants (ig_Status ig))) @ [sv_DefaultTenantId (sv_Spec svc)])"

definition generateInitContainer :: "service \<Rightarrow> ingester \<Rightarrow> volume_mount option \<Rightarrow> container list" where
  "generateInitContainer svc ig tsdbVolumeMount =
     (if igt_DisableTSDBCleanup (sv_IngesterTemplateSpec (sv_Spec svc)) = Some True then []
      else (case tsdbVolumeMount of
              None \<Rightarrow> []
            | Some vm \<Rightarrow>
                if om_Labels ig SoftTenantLabelKey = Some ''true'' then []
                else [zeroContainer\<lparr>ct_Name := ''cleanup'', ct_Image := sc_Image (ig_IngesterTSDBCleanUp (ig_Spec ig)),
                        ct_Command := [''bash'', ''-c'', cleanupScript],
                        ct_Args := [StorageDir, cleanupTenantsArg svc ig],
                        ct_Resources := cs_Resources (ig_Spec ig), ct_VolumeMounts := [vm]\<rparr>]))"

definition ingesterContainer :: "ingester \<Rightarrow> container" where
  "ingesterContainer ig = zeroContainer\<lparr>ct_Name := ''receive'', ct_Image := cs_Image (ig_Spec ig),
     ct_Args := [''receive''], ct_Resources := cs_Resources (ig_Spec ig),
     ct_Ports := [tcpPort GRPCPortName GRPCPort, tcpPort HTTPPortName HTTPPort,
       tcpPort RemoteWritePortName RemoteWritePort, tcpPort CapNProtoPortName CapNProtoPort],
     ct_LivenessProbe := Some DefaultLivenessProbe, ct_ReadinessProbe := Some DefaultReadinessProbe,
     ct_Env := [\<lparr>ev_Name = ''POD_NAME'', ev_Value = [], ev_ValueFrom = Some (EnvFieldRef ''metadata.name'')\<rparr>]\<rparr>"

text \<open>\<^verbatim>\<open>int64(time.Hour)\<close> is a number of nanoseconds; the field counts seconds.\<close>

definition hourNs :: int where
  "hourNs = 3600000000000"

definition ingesterBaseSts :: "ingester \<Rightarrow> stateful_set" where
  "ingesterBaseSts ig = (Ingester_meta ig (Ingester_name ig []) zeroStatefulSet)\<lparr>sts_Spec := zeroStatefulSetSpec\<lparr>
     ss_Replicas := cs_Replicas (ig_Spec ig), ss_Selector := Ingester_labels ig,
     ss_ServiceName := Ingester_name ig [ServiceNameSuffix], ss_TemplateLabels := Ingester_labels ig,
     ss_TemplateSpec := zeroPodSpec\<lparr>ps_NodeSelector := cs_NodeSelector (ig_Spec ig),
       ps_Tolerations := cs_Tolerations (ig_Spec ig), ps_Affinity := cs_Affinity (ig_Spec ig),
       ps_SecurityContext := cs_SecurityContext (ig_Spec ig), ps_TerminationGracePeriodSeconds := Some hourNs,
       ps_ImagePullSecrets := cs_ImagePullSecrets (ig_Spec ig)\<rparr>\<rparr>\<rparr>"

text \<open>
  The arguments and volumes that depend on the storage: the object store configuration with the
  volumes of its certificates, or the block duration for local storage.
\<close>

definition ingesterStorageArgs ::
  "ext \<Rightarrow> yaml_lib \<Rightarrow> wlib \<Rightarrow> 's client \<Rightarrow> ingester \<Rightarrow> ('s, string list \<times> volume list \<times> volume_mount list) act" where
  "ingesterStorageArgs x y w cl ig =
     (let namespacedName = mget (om_Labels ig) StorageLabelKey in
      bindE (if namespacedName \<noteq> [] then GetStorageConfig y cl namespacedName else ret []) (\<lambda>storageConfig.
        if storageConfig \<noteq> [] then
          bindE (VolumesAndVolumeMountsForStorage cl namespacedName) (\<lambda>(vs, ms).
            ret ([''--objstore.config='' @ storageConfig], vs, ms))
        else
          bindE (liftE (maxBlockDuration x (ig_LocalTsdbRetention (ig_Spec ig)))) (\<lambda>d.
            ret ([''--tsdb.max-block-duration='' @ w_durationString w d], [], []))))"

definition ingesterArgs :: "service \<Rightarrow> ingester \<Rightarrow> string list \<Rightarrow> string list" where
  "ingesterArgs svc ig storageArgs =
     sortArgs (mergeFlags Ingester_unsupportedArgs Ingester_repeatableArgs
       (ingesterHeadArgs ig @ storageArgs @ ingesterTailArgs svc) (cs_Flags (ig_Spec ig)))"

definition Ingester_statefulSet ::
  "ext \<Rightarrow> yaml_lib \<Rightarrow> wlib \<Rightarrow> 's client \<Rightarrow> service \<Rightarrow> ingester \<Rightarrow> 's resource" where
  "Ingester_statefulSet x y w cl svc ig =
     (case AddTSDBVolume (ingesterBaseSts ig) (ingesterContainer ig) (ig_DataVolume (ig_Spec ig)) of
        (sts1, ct1) \<Rightarrow>
          bindE (ingesterStorageArgs x y w cl ig) (\<lambda>(storageArgs, vs, ms).
          let ct2 = ct1\<lparr>ct_VolumeMounts := ct_VolumeMounts ct1 @ ms, ct_Args := ingesterArgs svc ig storageArgs\<rparr>;
              sts2 = updPodSpec (\<lambda>p. p\<lparr>ps_Volumes := ps_Volumes p @ vs, ps_Containers := ps_Containers p @ [ct2],
                ps_InitContainers := generateInitContainer svc ig (getTSDBVolumeMount ct2)\<rparr>) sts1
          in bindE (liftE (patchContainers w (ig_Spec ig) (ps_Containers (ss_TemplateSpec (sts_Spec sts2))))) (\<lambda>cs.
             bindE (liftE (ownedBy w ig (updPodSpec (\<lambda>p. p\<lparr>ps_Containers := cs\<rparr>) sts2))) (\<lambda>sts3.
               ret (OStatefulSet sts3, OperationCreateOrUpdate)))))"

section \<open>service.go\<close>

definition Ingester_service :: "wlib \<Rightarrow> ingester \<Rightarrow> 's resource" where
  "Ingester_service w ig =
     (let s = (Ingester_meta ig (Ingester_name ig [ServiceNameSuffix]) zeroKubeService)\<lparr>
        ks_ClusterIP := ''None'', ks_Selector := Ingester_labels ig,
        ks_Ports := [tcpServicePort GRPCPortName GRPCPort, tcpServicePort HTTPPortName HTTPPort,
          tcpServicePort RemoteWritePortName RemoteWritePort, tcpServicePort CapNProtoPortName CapNProtoPort]\<rparr>
      in bindE (liftE (ownedBy w ig s)) (\<lambda>s'. ret (OService s', OperationCreateOrUpdate)))"

definition Ingester_Reconcile :: "ext \<Rightarrow> yaml_lib \<Rightarrow> wlib \<Rightarrow> 's client \<Rightarrow> service \<Rightarrow> ingester \<Rightarrow> ('s, unit) act" where
  "Ingester_Reconcile x y w cl svc ig =
     ReconcileResources cl [Ingester_statefulSet x y w cl svc ig, Ingester_service w ig]"

definition Ingester_New :: "'s client \<Rightarrow> ingester \<Rightarrow> ('s, service) act" where
  "Ingester_New cl ig = SetService cl ig"

section \<open>Lemmas\<close>

interpretation igf: flag_set Ingester_unsupportedArgs Ingester_repeatableArgs
  by unfold_locales (simp add: Ingester_unsupportedArgs_def Ingester_repeatableArgs_def)

text \<open>
  C32: the user's flags and the arguments of an ingester.  For every argument name: an unsupported flag of
  the user changes nothing, a repeatable one is added to the defaults, and of any other the last one
  the user gave takes the place of the first default of its name.  Where there is at most one default this means
  that the user's flag stands alone; the other defaults of a name that is given several times
  (\<^verbatim>\<open>--receive.otlp-promote-resource-attributes\<close>, once for every attribute) stay.
\<close>

theorem ingesterArgs_flags:
  "mset (argsNamed n (ingesterArgs svc ig storageArgs)) =
    (let dflt = argsNamed n (ingesterHeadArgs ig @ storageArgs @ ingesterTailArgs svc);
         given = argsNamed n (cs_Flags (ig_Spec ig))
     in mset (if n \<in> set Ingester_unsupportedArgs then dflt
          else if n \<in> set Ingester_repeatableArgs then dflt @ given
          else if given = [] then dflt else last given # tl dflt))"
  unfolding ingesterArgs_def Let_def by (rule igf.sorted_merge_all)

theorem ingesterArgs_flags_witness:
  "argsNamed ''--tsdb.retention'' (ingesterArgs zeroService
     (zeroIngester\<lparr>ig_Spec := zeroIngesterSpec\<lparr>ig_LocalTsdbRetention := ''7d'',
        cs_Flags := [''--tsdb.retention=1d'', ''--tsdb.retention=2d'', ''--grpc-address=x'']\<rparr>\<rparr>) []) = [''--tsdb.retention=2d'']"
proof -
  let ?ig = "zeroIngester\<lparr>ig_Spec := zeroIngesterSpec\<lparr>ig_LocalTsdbRetention := ''7d'',
        cs_Flags := [''--tsdb.retention=1d'', ''--tsdb.retention=2d'', ''--grpc-address=x'']\<rparr>\<rparr>"
  have head: "argsNamed ''--tsdb.retention'' (ingesterHeadArgs ?ig @ [] @ ingesterTailArgs zeroService) = [''--tsdb.retention=7d'']"
    by (simp add: ingesterHeadArgs_def ingesterTailArgs_def zero_defs optArg_def Let_def GetArgName_append GetArgName_def2
          ReceiveReplicaLabelName_def StorageDir_def)
  have "mset (argsNamed ''--tsdb.retention'' (ingesterArgs zeroService ?ig [])) = mset [''--tsdb.retention=2d'']"
    by (subst ingesterArgs_flags)
      (simp only: head Let_def, simp add: Ingester_unsupportedArgs_def Ingester_repeatableArgs_def GetArgName_def2)
  then show ?thesis by (rule mset_le_one) simp
qed

text \<open>What the init container of an ingester removes: bash gets the script, the directory and the list of tenants.\<close>

definition initRemoves :: "'fs shell \<Rightarrow> 'fs \<Rightarrow> container \<Rightarrow> string list list" where
  "initRemoves sh fs ct = (case ct_Args ct of
       [dir, arg] \<Rightarrow> if ct_Command ct = [''bash'', ''-c'', cleanupScript] then snd (runCleanup sh fs dir arg) else []
     | _ \<Rightarrow> [])"

lemma init_spares:
  assumes "shellOk sh fs StorageDir entries" and "list_all plainEntry entries" and "ct \<in> set (generateInitContainer svc ig vm)"
    and "name = sv_DefaultTenantId (sv_Spec svc) \<or> name \<in> its_Name ` set (igs_Tenants (ig_Status ig))"
    and "plainWord name" and "CHR '','' \<notin> set name" and "args \<in> set (initRemoves sh fs ct)"
  shows "\<exists>n \<in> set entries. n \<noteq> name \<and> args = [StorageDir @ ''/'' @ n]"
proof -
  have "plainWord StorageDir" by (simp add: StorageDir_def plainWord_def isIfs_def isGlob_def)
  moreover have "ct_Args ct = [StorageDir, cleanupTenantsArg svc ig]"
    using assms(3) by (auto simp: generateInitContainer_def split: if_splits option.splits)
  then have "args \<in> set (snd (runCleanup sh fs StorageDir (cleanupTenantsArg svc ig)))"
    using assms(7) by (simp add: initRemoves_def split: if_splits)
  moreover have "name \<in> set (sortStrings (map its_Name (igs_Tenants (ig_Status ig))) @ [sv_DefaultTenantId (sv_Spec svc)])"
    using assms(4) by auto
  ultimately show ?thesis
    using cleanup_spares [OF assms(1) _ assms(2) _ assms(5,6)] unfolding cleanupTenantsArg_def by blast
qed

end
