(* ===== verification/Ingester_Controller.thy ===== *)
theory Ingester_Controller
  imports Ingester_Workload Controller_Common Tenant_Ingester
begin

text \<open>
  \<^verbatim>\<open>pkg/controllers/ingestor_controller.go\<close>.  The controller keeps in the status of an
  ingester every tenant it was ever configured with, deletes an ingester that has had no tenant
  for the retention period, and otherwise reconciles its workload.
\<close>

definition applyConfigurationFromIngesterTemplateSpec ::
  "merge_lib \<Rightarrow> ingester \<Rightarrow> ingester_template_spec \<Rightarrow> ingester res" where
  "applyConfigurationFromIngesterTemplateSpec mg ig tmpl =
     bindR (mg_ingester mg (ig_Spec ig) (ingester_spec.truncate tmpl)) (\<lambda>sp. Inr (ig\<lparr>ig_Spec := sp\<rparr>))"

text \<open>
  The desired status: the known tenants, each obsolete when the spec does not name it, then the
  tenants of the spec that are not known yet.
\<close>

definition desiredTenants :: "string list \<Rightarrow> ingester_tenant_status list \<Rightarrow> ingester_tenant_status list" where
  "desiredTenants spec st =
     map (\<lambda>e. \<lparr>its_Name = its_Name e, its_Obsolete = its_Name e \<notin> set spec\<rparr>) st @
     map (\<lambda>t. \<lparr>its_Name = t, its_Obsolete = False\<rparr>) (filter (\<lambda>t. t \<notin> its_Name ` set st) spec)"

text \<open>
  \<^verbatim>\<open>time.Since(time.Unix(i, 0))\<close> in nanoseconds: \<^verbatim>\<open>time.Unix\<close> adds the seconds between
  the years 1 and 1970 in 64-bit arithmetic, and \<^verbatim>\<open>Time.Sub\<close> saturates.  Negating a duration
  wraps.
\<close>

definition wrap64 :: "int \<Rightarrow> int" where
  "wrap64 i = (i + 2 ^ 63) mod 2 ^ 64 - 2 ^ 63"

definition sat64 :: "int \<Rightarrow> int" where
  "sat64 i = max (- (2 ^ 63)) (min (2 ^ 63 - 1) i)"

definition sinceUnix :: "int \<Rightarrow> int \<Rightarrow> int" where
  "sinceUnix now i = sat64 (now - (wrap64 (i + 62135596800) - 62135596800) * 10 ^ 9)"

definition negDuration :: "int \<Rightarrow> int" where
  "negDuration d = wrap64 (- d)"

text \<open>What \<^verbatim>\<open>Reconcile\<close> does with an ingester whose template has been merged.\<close>

datatype ingester_decision = WriteStatus ingester_status | RequeueIn int | DeleteIngester | SyncWorkload

definition ingesterDecision :: "ext \<Rightarrow> ingester \<Rightarrow> ingester_decision" where
  "ingesterDecision x ig =
     (let desiredStatus = \<lparr>igs_Tenants = desiredTenants (ig_Tenants (ig_Spec ig)) (igs_Tenants (ig_Status ig))\<rparr> in
      if desiredStatus \<noteq> ig_Status ig then WriteStatus desiredStatus
      else if om_Annotations ig LabelNameIngesterState = Some IngesterStateDeleting \<and> ig_Tenants (ig_Spec ig) = [] then
        (case om_Annotations ig LabelNameIngesterDeletingTime of
           None \<Rightarrow> SyncWorkload
         | Some deletingTime \<Rightarrow>
             (case parseInt64 deletingTime of
                None \<Rightarrow> SyncWorkload
              | Some i \<Rightarrow>
                  (let d = sinceUnix (x_now x) i in if d < 0 then RequeueIn (negDuration d) else DeleteIngester)))
      else SyncWorkload)"

definition ingesterAct :: "ext \<Rightarrow> yaml_lib \<Rightarrow> wlib \<Rightarrow> 's client \<Rightarrow> ingester \<Rightarrow> ('s, ctrl_result) act" where
  "ingesterAct x y w cl ig = (case ingesterDecision x ig of
       WriteStatus st \<Rightarrow> bindE (kStatusUpdate (ingesters cl) (ig\<lparr>ig_Status := st\<rparr>)) (\<lambda>_. ret noResult)
     | RequeueIn d \<Rightarrow> ret \<lparr>cr_Requeue = True, cr_RequeueAfter = d\<rparr>
     | DeleteIngester \<Rightarrow> bindE (kDelete (ingesters cl) ig) (\<lambda>_. ret noResult)
     | SyncWorkload \<Rightarrow> bindE (Ingester_New cl ig) (\<lambda>svc.
         bindE (Ingester_Reconcile x y w cl svc ig) (\<lambda>_. ret noResult)))"

definition IngesterReconciler_Reconcile ::
  "ext \<Rightarrow> yaml_lib \<Rightarrow> wlib \<Rightarrow> merge_lib \<Rightarrow> 's client \<Rightarrow> nsname \<Rightarrow> ('s, ctrl_result) act" where
  "IngesterReconciler_Reconcile x y w mg cl req =
     fetchThen (ingesters cl) req (\<lambda>inst.
       if mget (om_Labels inst) ServiceLabelKey = [] then ret noResult
       else bindE (fetchService cl inst) (\<lambda>service.
         bindE (liftE (applyConfigurationFromIngesterTemplateSpec mg inst
                         (sv_IngesterTemplateSpec (sv_Spec (ApplyDefaults w service))))) (\<lambda>ig.
         ingesterAct x y w cl ig)))"

definition IngesterReconciler_mapFuncBySelectorFunc ::
  "'s client \<Rightarrow> ('b object_meta_scheme \<Rightarrow> labels_map) \<Rightarrow> 'b object_meta_scheme \<Rightarrow> ('s, nsname list) act" where
  "IngesterReconciler_mapFuncBySelectorFunc cl fn ob = mapFuncBySelectorFunc (ingesters cl) fn ob"

section \<open>The status\<close>

lemma desiredTenants_names:
  "its_Name ` set (desiredTenants spec st) = its_Name ` set st \<union> set spec"
  by (auto simp: desiredTenants_def image_Un image_image)

lemma desiredTenants_idem: "desiredTenants spec (desiredTenants spec st) = desiredTenants spec st"
proof -
  let ?mark = "\<lambda>e. \<lparr>its_Name = its_Name e, its_Obsolete = its_Name e \<notin> set spec\<rparr>"
  have "filter (\<lambda>t. t \<notin> its_Name ` set (desiredTenants spec st)) spec = []"
    by (simp add: desiredTenants_names filter_empty_conv)
  then have "desiredTenants spec (desiredTenants spec st) = map ?mark (desiredTenants spec st)"
    unfolding desiredTenants_def [of spec "desiredTenants spec st"] by simp
  also have "\<dots> = desiredTenants spec st" by (auto simp: desiredTenants_def)
  finally show ?thesis .
qed

lemma ingesterDecision_status:
  "case ingesterDecision x ig of
     WriteStatus st \<Rightarrow> st = \<lparr>igs_Tenants = desiredTenants (ig_Tenants (ig_Spec ig)) (igs_Tenants (ig_Status ig))\<rparr>
   | _ \<Rightarrow> desiredTenants (ig_Tenants (ig_Spec ig)) (igs_Tenants (ig_Status ig)) = igs_Tenants (ig_Status ig)"
proof (cases "\<lparr>igs_Tenants = desiredTenants (ig_Tenants (ig_Spec ig)) (igs_Tenants (ig_Status ig))\<rparr> = ig_Status ig")
  case True
  then have "desiredTenants (ig_Tenants (ig_Spec ig)) (igs_Tenants (ig_Status ig)) = igs_Tenants (ig_Status ig)"
    by (metis ingester_status.select_convs(1))
  with True show ?thesis
    by (auto simp: ingesterDecision_def Let_def split: if_splits option.split ingester_decision.split)
next
  case False
  then show ?thesis by (simp add: ingesterDecision_def Let_def)
qed

text \<open>
  C17: the status of an ingester only grows: it keeps every tenant it had, gains those of the spec,
  and marks as obsolete exactly the tenants the spec no longer names; and it settles, an ingester
  that holds the status the controller computed for it is not written again.
\<close>

theorem ingester_status_settles:
  assumes "ingesterDecision x ig = WriteStatus st"
  shows "its_Name ` set (igs_Tenants st) = its_Name ` set (igs_Tenants (ig_Status ig)) \<union> set (ig_Tenants (ig_Spec ig)) \<and>
    (\<forall>e \<in> set (igs_Tenants st). its_Obsolete e \<longleftrightarrow> its_Name e \<notin> set (ig_Tenants (ig_Spec ig))) \<and>
    ingesterDecision x' (ig\<lparr>ig_Status := st\<rparr>) \<noteq> WriteStatus st'"
proof (intro conjI)
  have st: "st = \<lparr>igs_Tenants = desiredTenants (ig_Tenants (ig_Spec ig)) (igs_Tenants (ig_Status ig))\<rparr>"
    using ingesterDecision_status [of ig x] assms by simp
  then show "its_Name ` set (igs_Tenants st) = its_Name ` set (igs_Tenants (ig_Status ig)) \<union> set (ig_Tenants (ig_Spec ig))"
    by (simp add: desiredTenants_names)
  show "\<forall>e \<in> set (igs_Tenants st). its_Obsolete e \<longleftrightarrow> its_Name e \<notin> set (ig_Tenants (ig_Spec ig))"
    by (auto simp: st desiredTenants_def)
  show "ingesterDecision x' (ig\<lparr>ig_Status := st\<rparr>) \<noteq> WriteStatus st'"
    by (simp add: ingesterDecision_def Let_def st desiredTenants_idem split: option.split)
qed

theorem ingester_status_settles_witness:
  "let ig = zeroIngester\<lparr>ig_Spec := zeroIngesterSpec\<lparr>ig_Tenants := [''a'']\<rparr>\<rparr>;
       st = \<lparr>igs_Tenants = [\<lparr>its_Name = ''a'', its_Obsolete = False\<rparr>]\<rparr>
   in ingesterDecision exExt ig = WriteStatus st \<and> ingesterDecision exExt (ig\<lparr>ig_Status := st\<rparr>) \<noteq> WriteStatus st"
proof -
  let ?ig = "zeroIngester\<lparr>ig_Spec := zeroIngesterSpec\<lparr>ig_Tenants := [''a'']\<rparr>\<rparr>"
  let ?st = "\<lparr>igs_Tenants = [\<lparr>its_Name = ''a'', its_Obsolete = False\<rparr>]\<rparr>"
  have "ingesterDecision exExt ?ig = WriteStatus ?st"
    by (simp add: ingesterDecision_def Let_def desiredTenants_def zero_defs)
  then show ?thesis using ingester_status_settles unfolding Let_def by blast
qed

section \<open>What the workload removes\<close>


text \<open>The shell of the example keeps the promises of bash.\<close>

lemma exShell_ok:
  "shellOk exShell (map (\<lambda>n. StorageDir @ ''/'' @ n) [''a'', ''b'']) StorageDir [''a'', ''b'']"
proof -
  have "sh_glob exShell fs w = [w]" if "plainWord w" for fs w
    using that by (auto simp: exShell_def plainWord_def list_all_iff isGlob_def)
  moreover have "sh_basename exShell [StorageDir @ ''/'' @ n] = n @ nl" if "CHR ''/'' \<notin> set n" for n
    using splitOn_no_sep [OF that] by (simp add: exShell_def StorageDir_def)
  moreover have "sh_ls exShell (map (\<lambda>n. StorageDir @ ''/'' @ n) [''a'', ''b''])
      (unquoted exShell (map (\<lambda>n. StorageDir @ ''/'' @ n) [''a'', ''b'']) (StorageDir @ ''/*'')) =
      concat (map (\<lambda>n. StorageDir @ ''/'' @ n @ nl) [''a'', ''b''])"
    by code_simp
  ultimately show ?thesis by (simp add: shellOk_def)
qed


section \<open>Recycling\<close>

text \<open>Times between the years 1678 and 2261, as nanoseconds since 1970, are exact.\<close>

lemma sinceUnix_exact:
  assumes "0 \<le> i" and "i < 2 ^ 33" and "0 \<le> now" and "now < 2 ^ 62"
  shows "sinceUnix now i = now - i * 10 ^ 9"
proof -
  have "wrap64 (i + 62135596800) = i + 62135596800" using assms by (simp add: wrap64_def)
  then show ?thesis using assms by (simp add: sinceUnix_def sat64_def)
qed

lemma negDuration_exact: "- (2 ^ 63) < d \<Longrightarrow> d < 2 ^ 63 \<Longrightarrow> negDuration d = - d"
  by (simp add: negDuration_def wrap64_def)

text \<open>
  C16: an ingester that loses its last tenant is recycled at the deadline.  The tenant controller
  writes the deadline, the end of the retention period in whole seconds, into the annotations; as
  long as the ingester stays without tenants the ingester controller asks to be called again
  exactly at the deadline before it, and deletes the ingester from the deadline on.  The deadline
  is at most one second short of the retention period.
\<close>

theorem recycled_at_deadline:
  assumes mark: "markDeleting x0 svc ig0 = Inr ig" and p: "ingesterRetention x0 svc ig0 = Inr p"
    and idle: "ig_Tenants (ig_Spec ig0) = []"
    and settled: "desiredTenants [] (igs_Tenants (ig_Status ig0)) = igs_Tenants (ig_Status ig0)"
    and range: "0 \<le> x_now x0 + p" "x_now x0 + p < 2 ^ 62" "0 \<le> x_now x" "x_now x < 2 ^ 62"
  defines "deadline \<equiv> (x_now x0 + p) div 10 ^ 9 * 10 ^ 9"
  shows "ingesterDecision x ig =
      (if x_now x < deadline then RequeueIn (deadline - x_now x) else DeleteIngester) \<and>
    deadline \<le> x_now x0 + p \<and> x_now x0 + p < deadline + 10 ^ 9"
proof (intro conjI)
  let ?i = "(x_now x0 + p) div 10 ^ 9"
  have i: "0 \<le> ?i" "?i < 2 ^ 33" using range(1,2) by auto
  have ig: "ig_Spec ig = ig_Spec ig0" "ig_Status ig = ig_Status ig0"
    "om_Annotations ig = (om_Annotations ig0)(LabelNameIngesterState \<mapsto> IngesterStateDeleting,
       LabelNameIngesterDeletingTime \<mapsto> itoa ?i)"
    using mark p by (auto simp: markDeleting_def)
  have time: "sinceUnix (x_now x) ?i = x_now x - deadline"
    using sinceUnix_exact [OF i range(3,4)] by (simp add: deadline_def)
  have near: "deadline < 2 ^ 62" "0 \<le> deadline" using i range(1,2) by (auto simp: deadline_def)
  have "parseInt64 (itoa ?i) = Some ?i" using i by (intro parseInt64_itoa) auto
  then show "ingesterDecision x ig = (if x_now x < deadline then RequeueIn (deadline - x_now x) else DeleteIngester)"
    using near range(3,4) settled
    by (simp add: ingesterDecision_def Let_def ig idle time [simplified] negDuration_exact key_simps)
  show "deadline \<le> x_now x0 + p" "x_now x0 + p < deadline + 10 ^ 9"
    by (auto simp: deadline_def)
qed

theorem recycled_at_deadline_witness:
  "\<exists>ig. markDeleting exExt (Some exService) zeroIngester = Inr ig \<and>
     ingesterDecision (exExt\<lparr>x_now := 1700001800 * 10 ^ 9\<rparr>) ig = RequeueIn (9000 * 10 ^ 9) \<and>
     ingesterDecision (exExt\<lparr>x_now := 1700010800 * 10 ^ 9\<rparr>) ig = DeleteIngester"
proof -
  have p: "ingesterRetention exExt (Some exService) zeroIngester = Inr (10800 * 10 ^ 9)"
    by (simp add: ingesterRetention_def serviceSpec_def ex_defs zero_defs Let_def)
  then obtain ig where ig: "markDeleting exExt (Some exService) zeroIngester = Inr ig"
    by (simp add: markDeleting_def)
  have now: "x_now exExt = 1700000000 * 10 ^ 9" by (simp add: exExt_def)
  have idle: "ig_Tenants (ig_Spec zeroIngester) = []"
    "desiredTenants [] (igs_Tenants (ig_Status zeroIngester)) = igs_Tenants (ig_Status zeroIngester)"
    by (simp_all add: zero_defs desiredTenants_def)
  show ?thesis
    using recycled_at_deadline [OF ig p idle, of "exExt\<lparr>x_now := 1700001800 * 10 ^ 9\<rparr>"]
      recycled_at_deadline [OF ig p idle, of "exExt\<lparr>x_now := 1700010800 * 10 ^ 9\<rparr>"] ig
    by (simp add: now)
qed

end
