(* ===== verification/Compactor_Workload.thy ===== *)
theory Compactor_Workload
  imports Controller_Common Tenant_Binding
begin

text \<open>
  \<^verbatim>\<open>pkg/controllers/resources/compactor\<close> and \<^verbatim>\<open>pkg/controllers/compactor_controller.go\<close>:
  the stateful set of a compactor, which updates the one that exists, its arguments, and the
  controller with its deletion branch.
\<close>

section \<open>compactor.go\<close>

definition Compactor_labels :: "compactor \<Rightarrow> labels_map" where
  "Compactor_labels cp = BaseLabels(LabelNameAppName \<mapsto> AppNameCompactor, LabelNameAppManagedBy \<mapsto> om_Name cp)"

definition Compactor_name :: "compactor \<Rightarrow> string list \<Rightarrow> string" where
  "Compactor_name cp nameSuffix = QualifiedName AppNameCompactor (om_Name cp) nameSuffix"

definition Compactor_meta :: "compactor \<Rightarrow> string \<Rightarrow> 'b object_meta_scheme \<Rightarrow> 'b object_meta_scheme" where
  "Compactor_meta cp name ob = ob\<lparr>om_Name := name, om_Namespace := om_Namespace cp, om_Labels := Compactor_labels cp,
     om_OwnerReferences := controllerRef cp\<rparr>"

section \<open>statefulset.go\<close>

definition compactInterval :: string where
  "compactInterval = ''1h''"

definition Compactor_repeatableArgs :: "string list" where
  "Compactor_repeatableArgs = [''--deduplication.replica-label'']"

definition Compactor_unsupportedArgs :: "string list" where
  "Compactor_unsupportedArgs = [''--http-address'', ''--retention.resolution-raw'', ''--retention.resolution-5m'',
     ''--retention.resolution-1h'']"

definition Compactor_createRelabelConfig :: "wlib \<Rightarrow> 's client \<Rightarrow> compactor \<Rightarrow> ('s, string) act" where
  "Compactor_createRelabelConfig w cl cp =
     (let namespacedName = splitOn CHR ''.'' (mget (om_Labels cp) ServiceLabelKey) in
      bindE (liftE (idx namespacedName 1)) (\<lambda>name.
      bindE (liftE (idx namespacedName 0)) (\<lambda>ns.
      bindE (kGet (services cl) \<lparr>nn_Namespace = ns, nn_Name = name\<rparr>) (\<lambda>svc.
        let label = (if sv_TenantLabelName (sv_Spec svc) = [] then DefaultTenantLabelName else sv_TenantLabelName (sv_Spec svc))
        in liftE (w_yamlRelabel w [keepTenantsRelabel label (cp_Tenants (cp_Spec cp))])))))"

definition compactorDefaultArgs :: "compactor \<Rightarrow> string \<Rightarrow> string \<Rightarrow> string list" where
  "compactorDefaultArgs cp storageConfig rc =
     (let sp = cp_Spec cp in
      [''compact'', ''--wait'', ''--data-dir='' @ StorageDir, ''--objstore.config='' @ storageConfig,
       ''--selector.relabel-config='' @ rc,
       ''--deduplication.replica-label='' @ ReceiveReplicaLabelName, ''--deduplication.replica-label='' @ RulerReplicaLabelName,
       ''--block-viewer.global.sync-block-interval='' @ compactInterval, ''--wait-interval='' @ compactInterval,
       ''--compact.cleanup-interval=0s'', ''--compact.progress-interval=0s''] @
      optArg ''--log.level='' (cs_LogLevel sp) @ optArg ''--log.format='' (cs_LogFormat sp) @
      (if cp_DisableDownsampling sp = Some True then [''--downsampling.disable''] else []) @
      (case cp_Retention sp of
         None \<Rightarrow> []
       | Some r \<Rightarrow> optArg ''--retention.resolution-raw='' (rt_RetentionRaw r) @
           optArg ''--retention.resolution-5m='' (rt_Retention5m r) @ optArg ''--retention.resolution-1h='' (rt_Retention1h r)))"

definition Compactor_megerArgs :: "yaml_lib \<Rightarrow> wlib \<Rightarrow> 's client \<Rightarrow> compactor \<Rightarrow> ('s, string list) act" where
  "Compactor_megerArgs y w cl cp =
     bindE (GetStorageConfig y cl (mget (om_Labels cp) StorageLabelKey)) (\<lambda>storageConfig.
     bindE (Compactor_createRelabelConfig w cl cp) (\<lambda>rc.
       ret (sortArgs (mergeFlags Compactor_unsupportedArgs Compactor_repeatableArgs
         (compactorDefaultArgs cp storageConfig rc) (cs_Flags (cp_Spec cp))))))"

definition compactorFreshContainer :: "compactor \<Rightarrow> container" where
  "compactorFreshContainer cp = zeroContainer\<lparr>ct_Name := ''compactor'', ct_Resources := cs_Resources (cp_Spec cp),
     ct_Ports := [tcpPort HTTPPortName HTTPPort]\<rparr>"

definition compactorSts :: "compactor \<Rightarrow> stateful_set \<Rightarrow> stateful_set" where
  "compactorSts cp sts = sts\<lparr>sts_Spec := (sts_Spec sts)\<lparr>ss_Selector := Compactor_labels cp, ss_Replicas := cs_Replicas (cp_Spec cp),
     ss_TemplateLabels := Compactor_labels cp, ss_VolumeClaimTemplates := [],
     ss_TemplateSpec := (ss_TemplateSpec (sts_Spec sts))\<lparr>ps_Affinity := cs_Affinity (cp_Spec cp),
       ps_NodeSelector := cs_NodeSelector (cp_Spec cp), ps_SecurityContext := cs_SecurityContext (cp_Spec cp), ps_Volumes := [],
       ps_ImagePullSecrets := (if cs_ImagePullSecrets (cp_Spec cp) \<noteq> [] then cs_ImagePullSecrets (cp_Spec cp)
          else ps_ImagePullSecrets (ss_TemplateSpec (sts_Spec sts)))\<rparr>\<rparr>\<rparr>"

definition Compactor_statefulSet :: "ext \<Rightarrow> yaml_lib \<Rightarrow> wlib \<Rightarrow> 's client \<Rightarrow> compactor \<Rightarrow> 's resource" where
  "Compactor_statefulSet x y w cl cp =
     bindE (getOr (statefulSets cl) (Compactor_meta cp (Compactor_name cp []) zeroStatefulSet)) (\<lambda>sts0.
     let sts1 = compactorSts cp sts0;
         storageLabel = mget (om_Labels cp) StorageLabelKey;
         ct0 = mainContainer ''compactor'' (compactorFreshContainer cp) sts1
     in case AddTSDBVolume sts1 (ct0\<lparr>ct_Image := cs_Image (cp_Spec cp), ct_ImagePullPolicy := cs_ImagePullPolicy (cp_Spec cp),
               ct_VolumeMounts := []\<rparr>) (cp_DataVolume (cp_Spec cp)) of (sts2, ct1) \<Rightarrow>
     bindE (VolumesAndVolumeMountsForStorage cl storageLabel) (\<lambda>(vs, ms).
     bindE (GetStorageHash x y cl storageLabel) (\<lambda>hashCode.
     bindE (Compactor_megerArgs y w cl cp) (\<lambda>args.
     let ct2 = (withDefaultProbes (ct1\<lparr>ct_VolumeMounts := ct_VolumeMounts ct1 @ ms\<rparr>))\<lparr>ct_Resources := cs_Resources (cp_Spec cp),
           ct_Env := setEnv StorageHash hashCode (ct_Env ct1), ct_Args := args\<rparr>;
         sts3 = updPodSpec (\<lambda>p. p\<lparr>ps_Volumes := ps_Volumes p @ vs, ps_Containers := putContainer ''compactor'' ct2 (ps_Containers p)\<rparr>) sts2
     in bindE (liftE (patchContainers w (cp_Spec cp) (ps_Containers (ss_TemplateSpec (sts_Spec sts3))))) (\<lambda>cs.
        bindE (liftE (ownedBy w cp (updPodSpec (\<lambda>p. p\<lparr>ps_Containers := cs\<rparr>) sts3))) (\<lambda>sts4.
          ret (OStatefulSet sts4, OperationCreateOrUpdate)))))))"

definition Compactor_New :: "'s client \<Rightarrow> compactor \<Rightarrow> ('s, service) act" where
  "Compactor_New cl cp = SetService cl cp"

definition Compactor_Reconcile :: "ext \<Rightarrow> yaml_lib \<Rightarrow> wlib \<Rightarrow> 's client \<Rightarrow> compactor \<Rightarrow> ('s, unit) act" where
  "Compactor_Reconcile x y w cl cp = ReconcileResources cl [Compactor_statefulSet x y w cl cp]"

section \<open>compactor_controller.go\<close>

definition applyConfigurationFromCompactorTemplateSpec ::
  "merge_lib \<Rightarrow> compactor \<Rightarrow> compactor_template_spec \<Rightarrow> compactor res" where
  "applyConfigurationFromCompactorTemplateSpec mg cp tmpl =
     bindR (mg_compactor mg (cp_Spec cp) (compactor_spec.truncate tmpl)) (\<lambda>sp. Inr (cp\<lparr>cp_Spec := sp\<rparr>))"

text \<open>The finalizer is added to the object in memory only; nothing after it writes the object.\<close>

definition CompactorReconciler_Reconcile ::
  "ext \<Rightarrow> yaml_lib \<Rightarrow> wlib \<Rightarrow> merge_lib \<Rightarrow> 's client \<Rightarrow> nsname \<Rightarrow> ('s, ctrl_result) act" where
  "CompactorReconciler_Reconcile x y w mg cl req =
     fetchThen (compactors cl) req (\<lambda>inst.
       if mget (om_Labels inst) ServiceLabelKey = [] \<or> mget (om_Labels inst) StorageLabelKey = [] then ret noResult
       else bindE (fetchService cl inst) (\<lambda>service.
         bindE (liftE (applyConfigurationFromCompactorTemplateSpec mg inst
                         (sv_CompactorTemplateSpec (sv_Spec (ApplyDefaults w service))))) (\<lambda>cp.
         if om_DeletionTimestamp cp \<noteq> None then
           bindE (DeletePVC cl cp) (\<lambda>_.
           bindE (kUpdate (compactors cl) (cp\<lparr>om_Finalizers := []\<rparr>)) (\<lambda>_. ret noResult))
         else
           (let cp1 = (if om_Finalizers cp = [] then cp\<lparr>om_Finalizers := [FinalizerDeletePVC]\<rparr> else cp) in
            if cp_Tenants (cp_Spec cp1) = [] then ret noResult
            else bindE (Compactor_New cl cp1) (\<lambda>_.
              bindE (Compactor_Reconcile x y w cl cp1) (\<lambda>_. ret noResult))))))"

definition CompactorReconciler_mapFuncBySelectorFunc ::
  "'s client \<Rightarrow> ('b object_meta_scheme \<Rightarrow> labels_map) \<Rightarrow> 'b object_meta_scheme \<Rightarrow> ('s, nsname list) act" where
  "CompactorReconciler_mapFuncBySelectorFunc cl fn ob = mapFuncBySelectorFunc (compactors cl) fn ob"

section \<open>Lemmas\<close>

interpretation cpf: flag_set Compactor_unsupportedArgs Compactor_repeatableArgs
  by unfold_locales (simp add: Compactor_unsupportedArgs_def Compactor_repeatableArgs_def)

lemma compactor_statefulSet_name: "Compactor_name cp [] \<noteq> om_Name cp"
proof
  assume "Compactor_name cp [] = om_Name cp"
  then have "length (Compactor_name cp []) = length (om_Name cp)" by simp
  then show False by (simp add: Compactor_name_def QualifiedName_def)
qed

text \<open>The retention of the spec cannot be overridden by flags.\<close>

lemma compactor_retention_fixed:
  assumes "n \<in> {''--retention.resolution-raw'', ''--retention.resolution-5m'', ''--retention.resolution-1h''}"
  shows "mset (argsNamed n (sortArgs (mergeFlags Compactor_unsupportedArgs Compactor_repeatableArgs args flags))) =
    mset (argsNamed n args)"
proof -
  have "n \<in> set Compactor_unsupportedArgs" using assms by (auto simp: Compactor_unsupportedArgs_def)
  then show ?thesis by (simp add: argsNamed_sortArgs cpf.mergeFlags_unsupported)
qed

text \<open>
  C34: the deletion of a compactor is stuck.  The claims of a compactor that is being deleted are looked up
  through the stateful set with the name of the compactor, while the stateful set the controller
  creates is called otherwise: where there is none with the compactor's own name the reconciliation
  fails with "not found" and leaves the finalizers on the object.
\<close>

theorem compactor_deletion_stuck:
  assumes get: "kGet (compactors cl) req s = (Inr inst, s1)"
    and labels: "mget (om_Labels inst) ServiceLabelKey \<noteq> []" "mget (om_Labels inst) StorageLabelKey \<noteq> []"
    and service: "fetchService cl inst s1 = (Inr service, s2)"
    and merge: "mg_compactor mg (cp_Spec inst) (compactor_spec.truncate (sv_CompactorTemplateSpec (sv_Spec (ApplyDefaults w service)))) = Inr sp"
    and deleted: "om_DeletionTimestamp inst \<noteq> None"
    and absent: "kGet (statefulSets cl) (objectKey inst) s2 = (Inl ApiNotFound, s3)"
  shows "CompactorReconciler_Reconcile x y w mg cl req s = (Inl ApiNotFound, s3) \<and>
    objectKey (Compactor_meta inst (Compactor_name inst []) zeroStatefulSet) \<noteq> objectKey inst"
proof
  have "objectKey (inst\<lparr>cp_Spec := sp\<rparr>) = objectKey inst" by (simp add: objectKey_def)
  then have "DeletePVC cl (inst\<lparr>cp_Spec := sp\<rparr>) s2 = (Inl ApiNotFound, s3)" using absent by (simp add: DeletePVC_def)
  then show "CompactorReconciler_Reconcile x y w mg cl req s = (Inl ApiNotFound, s3)"
    using labels deleted
    by (simp add: CompactorReconciler_Reconcile_def fetchThen_found [OF get] service
        applyConfigurationFromCompactorTemplateSpec_def merge)
  show "objectKey (Compactor_meta inst (Compactor_name inst []) zeroStatefulSet) \<noteq> objectKey inst"
    by (simp add: objectKey_def Compactor_meta_def compactor_statefulSet_name)
qed

theorem compactor_deletion_stuck_witness:
  "let cp = zeroCompactor\<lparr>om_Name := ''c'', om_Namespace := ''ns'', om_DeletionTimestamp := Some 7, om_Finalizers := [FinalizerDeletePVC],
              om_Labels := [ServiceLabelKey \<mapsto> ''ns.svc'', StorageLabelKey \<mapsto> ''ns.st'']\<rparr>;
       sv = zeroService\<lparr>om_Name := ''svc'', om_Namespace := ''ns''\<rparr>;
       c = \<lparr>c_tenants = [], c_ingesters = [], c_compactors = [(objectKey cp, cp)], c_rulers = [], c_stores = [],
            c_services = [(objectKey sv, sv)], c_storages = []\<rparr>
   in CompactorReconciler_Reconcile exExt exYaml exWlib exMerge memClient (objectKey cp) c = (Inl ApiNotFound, c)"
proof -
  let ?cp = "zeroCompactor\<lparr>om_Name := ''c'', om_Namespace := ''ns'', om_DeletionTimestamp := Some 7, om_Finalizers := [FinalizerDeletePVC],
              om_Labels := [ServiceLabelKey \<mapsto> ''ns.svc'', StorageLabelKey \<mapsto> ''ns.st'']\<rparr>"
  let ?sv = "zeroService\<lparr>om_Name := ''svc'', om_Namespace := ''ns''\<rparr>"
  let ?c = "\<lparr>c_tenants = [], c_ingesters = [], c_compactors = [(objectKey ?cp, ?cp)], c_rulers = [], c_stores = [],
            c_services = [(objectKey ?sv, ?sv)], c_storages = []\<rparr>"
  have get: "kGet (compactors memClient) (objectKey ?cp) ?c = (Inr ?cp, ?c)"
    by (simp add: memClient_def memKind_def)
  have labels: "mget (om_Labels ?cp) ServiceLabelKey \<noteq> []" "mget (om_Labels ?cp) StorageLabelKey \<noteq> []"
    by (simp_all add: mget_def key_simps)
  have "ServiceNamespacedName ?cp = Some (objectKey ?sv)"
    by (simp add: ServiceNamespacedName_alt mget_def key_simps objectKey_def zero_defs)
  then have service: "fetchService memClient ?cp ?c = (Inr ?sv, ?c)"
    by (simp add: fetchService_def memClient_def memKind_def)
  show ?thesis
    unfolding Let_def
    by (rule conjunct1 [OF compactor_deletion_stuck [OF get labels service]])
      (simp_all add: exMerge_def memClient_def nullKind_def)
qed

end
