(* ===== verification/Store_Workload.thy ===== *)
theory Store_Workload
  imports Controller_Common
begin

text \<open>
  \<^verbatim>\<open>pkg/controllers/resources/store\<close> and \<^verbatim>\<open>pkg/controllers/store_controller.go\<close>: a store is
  one stateful set and one service per time range (its partitions), which the queries reach under
  the endpoints of the store; partitions that are no longer wanted are deleted.
\<close>

section \<open>store.go\<close>

definition Store_labels :: "store \<Rightarrow> nat \<Rightarrow> labels_map" where
  "Store_labels st sn = BaseLabels(LabelNameAppName \<mapsto> AppNameStore, LabelNameAppManagedBy \<mapsto> om_Name st,
     LabelNameStorePartition \<mapsto> itoaNat sn)"

definition Store_name :: "store \<Rightarrow> string list \<Rightarrow> string" where
  "Store_name st nameSuffix = QualifiedName AppNameStore (om_Name st) nameSuffix"

definition partitionName :: "store \<Rightarrow> nat \<Rightarrow> string list \<Rightarrow> string" where
  "partitionName st sn nameSuffix =
     (if sn = 0 then Store_name st nameSuffix else Store_name st ((''partition-'' @ itoaNat sn) # nameSuffix))"

definition Store_meta :: "store \<Rightarrow> string \<Rightarrow> nat \<Rightarrow> 'b object_meta_scheme \<Rightarrow> 'b object_meta_scheme" where
  "Store_meta st name sn ob = ob\<lparr>om_Name := name, om_Namespace := om_Namespace st, om_Labels := Store_labels st sn,
     om_OwnerReferences := controllerRef st\<rparr>"

text \<open>The block at the head of \<^verbatim>\<open>statefulSets\<close>, \<^verbatim>\<open>services\<close> and \<^verbatim>\<open>Endpoints\<close>.\<close>

definition timeRangesOf :: "store \<Rightarrow> time_range list" where
  "timeRangesOf st = (if st_TimeRanges (st_Spec st) = []
     then [\<lparr>tr_MinTime = st_MinTime (st_Spec st), tr_MaxTime = st_MaxTime (st_Spec st)\<rparr>]
     else st_TimeRanges (st_Spec st))"

definition Store_Endpoints :: "store \<Rightarrow> string list" where
  "Store_Endpoints st = map (\<lambda>i.
     let name = (if i = 0 then Join ''-'' [AppNameStore, om_Name st, ServiceNameSuffix]
                 else Join ''-'' [AppNameStore, om_Name st, ''partition'', itoaNat i, ServiceNameSuffix])
     in ''dnssrv+_grpc._tcp.'' @ name @ ''.'' @ om_Namespace st @ ''.svc'') [0..<length (timeRangesOf st)]"

section \<open>statefulset.go\<close>

definition Store_unsupportedArgs :: "string list" where
  "Store_unsupportedArgs = [''--http-address'', ''--grpc-address'']"

definition liveTenantIds :: "'s client \<Rightarrow> store \<Rightarrow> string \<Rightarrow> ('s, string list) act" where
  "liveTenantIds cl st storage =
     bindE (kList (tenants cl) \<lparr>lo_Namespace = [], lo_Labels = [StorageLabelKey \<mapsto> storage,
         ServiceLabelKey \<mapsto> mget (om_Labels st) ServiceLabelKey]\<rparr>) (\<lambda>items.
       ret (map (\<lambda>t. ts_Tenant (tn_Spec t)) (filter (\<lambda>item. om_DeletionTimestamp item = None) items)))"

definition Store_createRelabelConfig :: "wlib \<Rightarrow> 's client \<Rightarrow> store \<Rightarrow> ('s, string) act" where
  "Store_createRelabelConfig w cl st =
     (let namespacedName = splitOn CHR ''.'' (mget (om_Labels st) ServiceLabelKey) in
      bindE (liftE (idx namespacedName 1)) (\<lambda>name.
      bindE (liftE (idx namespacedName 0)) (\<lambda>ns.
      bindE (kGet (services cl) \<lparr>nn_Namespace = ns, nn_Name = name\<rparr>) (\<lambda>svc.
      let label = (if sv_TenantLabelName (sv_Spec svc) = [] then DefaultTenantLabelName else sv_TenantLabelName (sv_Spec svc))
      in bindE (case sv_Storage (sv_Spec svc) of
             Some ref \<Rightarrow> (if om_Labels st StorageLabelKey = Some (oref_Namespace ref @ ''.'' @ oref_Name ref)
                          then liveTenantIds cl st DefaultStorage else ret [])
           | None \<Rightarrow> ret []) (\<lambda>defaulted.
         bindE (liveTenantIds cl st (mget (om_Labels st) StorageLabelKey)) (\<lambda>explicit.
           liftE (CreateKeepTenantsRelabelConfig (w_yamlRelabel w) label (sortStrings (defaulted @ explicit)))))))))"

definition storeDefaultArgs :: "store \<Rightarrow> time_range \<Rightarrow> string \<Rightarrow> string \<Rightarrow> string list" where
  "storeDefaultArgs st timeRange storageConfig relabelConfig =
     (let sp = st_Spec st in
      [''store'', ''--data-dir='' @ StorageDir, ''--objstore.config='' @ storageConfig,
       ''--selector.relabel-config='' @ relabelConfig] @
      (case st_IndexCacheConfig sp of
         None \<Rightarrow> []
       | Some c \<Rightarrow> (case icc_InMemoryIndexCacheConfig c of None \<Rightarrow> [] | Some m \<Rightarrow> optArg ''--index-cache-size='' (imi_MaxSize m))) @
      optArg ''--log.level='' (cs_LogLevel sp) @ optArg ''--log.format='' (cs_LogFormat sp) @
      optArg ''--min-time='' (tr_MinTime timeRange) @ optArg ''--max-time='' (tr_MaxTime timeRange))"

definition Store_megerArgs :: "yaml_lib \<Rightarrow> wlib \<Rightarrow> 's client \<Rightarrow> store \<Rightarrow> time_range \<Rightarrow> ('s, string list) act" where
  "Store_megerArgs y w cl st timeRange =
     bindE (GetStorageConfig y cl (mget (om_Labels st) StorageLabelKey)) (\<lambda>storageConfig.
     bindE (Store_createRelabelConfig w cl st) (\<lambda>relabelConfig.
       ret (sortArgs (mergeFlags Store_unsupportedArgs [] (storeDefaultArgs st timeRange storageConfig relabelConfig)
         (cs_Flags (st_Spec st))))))"

definition storeFreshContainer :: container where
  "storeFreshContainer = zeroContainer\<lparr>ct_Name := ''store'',
     ct_Ports := [tcpPort GRPCPortName GRPCPort, tcpPort HTTPPortName HTTPPort]\<rparr>"

text \<open>The number of replicas of a stateful set that has some is left alone.\<close>

definition storeSts :: "store \<Rightarrow> nat \<Rightarrow> stateful_set \<Rightarrow> stateful_set" where
  "storeSts st sn sts = sts\<lparr>sts_Spec := (sts_Spec sts)\<lparr>ss_Selector := Store_labels st sn,
     ss_Replicas := (if ss_Replicas (sts_Spec sts) = None \<or> ss_Replicas (sts_Spec sts) = Some 0
        then cs_Replicas (st_Spec st) else ss_Replicas (sts_Spec sts)),
     ss_TemplateLabels := Store_labels st sn, ss_VolumeClaimTemplates := [],
     ss_TemplateSpec := (ss_TemplateSpec (sts_Spec sts))\<lparr>ps_Affinity := cs_Affinity (st_Spec st),
       ps_NodeSelector := cs_NodeSelector (st_Spec st), ps_Tolerations := cs_Tolerations (st_Spec st),
       ps_SecurityContext := cs_SecurityContext (st_Spec st), ps_Volumes := [],
       ps_ImagePullSecrets := (if cs_ImagePullSecrets (st_Spec st) \<noteq> [] then cs_ImagePullSecrets (st_Spec st)
          else ps_ImagePullSecrets (ss_TemplateSpec (sts_Spec sts)))\<rparr>\<rparr>\<rparr>"

definition Store_statefulSet ::
  "ext \<Rightarrow> yaml_lib \<Rightarrow> wlib \<Rightarrow> 's client \<Rightarrow> store \<Rightarrow> string \<Rightarrow> nat \<Rightarrow> time_range \<Rightarrow> 's resource" where
  "Store_statefulSet x y w cl st name sn timeRange =
     bindE (getOr (statefulSets cl) (Store_meta st name sn zeroStatefulSet)) (\<lambda>sts0.
     let sts1 = storeSts st sn sts0;
         storageLabel = mget (om_Labels st) StorageLabelKey;
         ct0 = mainContainer ''store'' storeFreshContainer sts1
     in case AddTSDBVolume sts1 (ct0\<lparr>ct_Image := cs_Image (st_Spec st), ct_ImagePullPolicy := cs_ImagePullPolicy (st_Spec st),
               ct_VolumeMounts := []\<rparr>) (st_DataVolume (st_Spec st)) of (sts2, ct1) \<Rightarrow>
     bindE (VolumesAndVolumeMountsForStorage cl storageLabel) (\<lambda>(vs, ms).
     bindE (GetStorageHash x y cl storageLabel) (\<lambda>storageHash.
     bindE (GetTenantHash x cl [StorageLabelKey \<mapsto> storageLabel, ServiceLabelKey \<mapsto> mget (om_Labels st) ServiceLabelKey]) (\<lambda>tenantHash.
     bindE (Store_megerArgs y w cl st timeRange) (\<lambda>args.
     let ct2 = (withDefaultProbes (ct1\<lparr>ct_VolumeMounts := ct_VolumeMounts ct1 @ ms\<rparr>))\<lparr>ct_Resources := cs_Resources (st_Spec st),
           ct_Env := setEnv TenantHash tenantHash (setEnv StorageHash storageHash (ct_Env ct1)), ct_Args := args\<rparr>;
         sts3 = updPodSpec (\<lambda>p. p\<lparr>ps_Volumes := ps_Volumes p @ vs, ps_Containers := putContainer ''store'' ct2 (ps_Containers p)\<rparr>) sts2
     in bindE (liftE (patchContainers w (st_Spec st) (ps_Containers (ss_TemplateSpec (sts_Spec sts3))))) (\<lambda>cs.
        bindE (liftE (ownedBy w st (updPodSpec (\<lambda>p. p\<lparr>ps_Containers := cs\<rparr>) sts3))) (\<lambda>sts4.
          ret (OStatefulSet sts4, OperationCreateOrUpdate))))))))"

text \<open>The objects of the store: those with its labels, in its namespace.\<close>

definition Store_listOptions :: "store \<Rightarrow> list_options" where
  "Store_listOptions st = \<lparr>lo_Namespace = om_Namespace st,
     lo_Labels = BaseLabels(LabelNameAppName \<mapsto> AppNameStore, LabelNameAppManagedBy \<mapsto> om_Name st)\<rparr>"

definition Store_statefulSets :: "ext \<Rightarrow> yaml_lib \<Rightarrow> wlib \<Rightarrow> 's client \<Rightarrow> store \<Rightarrow> ('s, 's resource list) act" where
  "Store_statefulSets x y w cl st =
     (let expectNames = map (\<lambda>i. partitionName st i []) [0..<length (timeRangesOf st)] in
      handleE (kList (statefulSets cl) (Store_listOptions st)) (\<lambda>r. case r of
          Inl e \<Rightarrow> ret (errResourcesFunc e)
        | Inr items \<Rightarrow> ret (
            map (\<lambda>i. Store_statefulSet x y w cl st (partitionName st i []) i (timeRangesOf st ! i)) [0..<length (timeRangesOf st)] @
            map (\<lambda>sts. ret (OStatefulSet sts, OperationDelete)) (filter (\<lambda>sts. om_Name sts \<notin> set expectNames) items))))"

section \<open>service.go\<close>

definition targetedPort :: "string \<Rightarrow> int \<Rightarrow> service_port" where
  "targetedPort name n = \<lparr>sp_Protocol = ''TCP'', sp_Name = name, sp_Port = n, sp_TargetPort = Some n, sp_NodePort = 0\<rparr>"

definition Store_service :: "wlib \<Rightarrow> 's client \<Rightarrow> store \<Rightarrow> string \<Rightarrow> nat \<Rightarrow> 's resource" where
  "Store_service w cl st name sn =
     bindE (getOr (kubeServices cl) (Store_meta st name sn zeroKubeService)) (\<lambda>s.
     let s1 = s\<lparr>ks_Type := ''ClusterIP'', ks_Selector := Store_labels st sn,
           ks_Ports := foldl (\<lambda>ps p. upsertNamed sp_Name p ps) (ks_Ports s)
             [targetedPort GRPCPortName GRPCPort, targetedPort HTTPPortName HTTPPort]\<rparr>
     in bindE (liftE (ownedBy w st s1)) (\<lambda>s2. ret (OService s2, OperationCreateOrUpdate)))"

definition Store_services :: "wlib \<Rightarrow> 's client \<Rightarrow> store \<Rightarrow> ('s, 's resource list) act" where
  "Store_services w cl st =
     (let expectNames = map (\<lambda>i. partitionName st i [ServiceNameSuffix]) [0..<length (timeRangesOf st)] in
      handleE (kList (kubeServices cl) (Store_listOptions st)) (\<lambda>r. case r of
          Inl e \<Rightarrow> ret (errResourcesFunc e)
        | Inr items \<Rightarrow> ret (
            map (\<lambda>i. Store_service w cl st (partitionName st i [ServiceNameSuffix]) i) [0..<length (timeRangesOf st)] @
            map (\<lambda>svc. ret (OService svc, OperationDelete)) (filter (\<lambda>svc. om_Name svc \<notin> set expectNames) items))))"

definition Store_Reconcile :: "ext \<Rightarrow> yaml_lib \<Rightarrow> wlib \<Rightarrow> 's client \<Rightarrow> store \<Rightarrow> ('s, unit) act" where
  "Store_Reconcile x y w cl st =
     bindE (Store_statefulSets x y w cl st) (\<lambda>rs.
     bindE (Store_services w cl st) (\<lambda>rs'. ReconcileResources cl (rs @ rs')))"

section \<open>store_controller.go\<close>

definition applyConfigurationFromStoreTemplateSpec :: "merge_lib \<Rightarrow> store \<Rightarrow> store_spec \<Rightarrow> store res" where
  "applyConfigurationFromStoreTemplateSpec mg st tmpl =
     bindR (mg_store mg (st_Spec st) tmpl) (\<lambda>sp. Inr (st\<lparr>st_Spec := sp\<rparr>))"

definition StoreReconciler_Reconcile ::
  "ext \<Rightarrow> yaml_lib \<Rightarrow> wlib \<Rightarrow> merge_lib \<Rightarrow> 's client \<Rightarrow> nsname \<Rightarrow> ('s, ctrl_result) act" where
  "StoreReconciler_Reconcile x y w mg cl req =
     fetchThen (stores cl) req (\<lambda>inst.
       if mget (om_Labels inst) ServiceLabelKey = [] \<or> mget (om_Labels inst) StorageLabelKey = [] then ret noResult
       else bindE (fetchService cl inst) (\<lambda>service.
         bindE (liftE (applyConfigurationFromStoreTemplateSpec mg inst
                         (sv_StoreTemplateSpec (sv_Spec (ApplyDefaults w service))))) (\<lambda>st.
         bindE (Store_Reconcile x y w cl st) (\<lambda>_. ret noResult))))"

definition StoreReconciler_mapFuncBySelectorFunc ::
  "'s client \<Rightarrow> ('b object_meta_scheme \<Rightarrow> labels_map) \<Rightarrow> 'b object_meta_scheme \<Rightarrow> ('s, nsname list) act" where
  "StoreReconciler_mapFuncBySelectorFunc cl fn ob = mapFuncBySelectorFunc (stores cl) fn ob"

section \<open>Lemmas\<close>

interpretation stf: flag_set Store_unsupportedArgs "[]"
  by unfold_locales simp

lemma partitionName_service:
  "partitionName st i [ServiceNameSuffix] =
     (if i = 0 then Join ''-'' [AppNameStore, om_Name st, ServiceNameSuffix]
      else Join ''-'' [AppNameStore, om_Name st, ''partition'', itoaNat i, ServiceNameSuffix])"
  by (simp add: partitionName_def Store_name_def QualifiedName_def Join_def Let_def)

text \<open>
  The endpoints a store announces, which are put together on their own, are those of the
  services the store creates, partition by partition.
\<close>

theorem store_endpoints_are_services:
  "Store_Endpoints st =
     map (\<lambda>i. ''dnssrv+_grpc._tcp.'' @ partitionName st i [ServiceNameSuffix] @ ''.'' @ om_Namespace st @ ''.svc'')
       [0..<length (timeRangesOf st)]"
  unfolding Store_Endpoints_def Let_def partitionName_service by simp

text \<open>
  The partitions of one store never share a stateful set or a service, whatever the name of the
  store; but the partition \<open>i\<close> of a store has the same name as the first partition of another store of
  the namespace whose name ends in \<open>-partition-i\<close>.
\<close>

theorem partition_names:
  "(partitionName st i suf = partitionName st j suf \<longleftrightarrow> i = j) \<and>
   (0 < k \<longrightarrow> om_Name st' = om_Name st @ ''-partition-'' @ itoaNat k \<longrightarrow> partitionName st' 0 suf = partitionName st k suf)"
proof (intro conjI impI iffI)
  have tail: "partitionName st i suf = (AppNameStore @ ''-'' @ om_Name st) @
      (if i = 0 then [] else ''-partition-'' @ itoaNat i) @ (if suf = [] then [] else ''-'' @ joinStr ''-'' suf)" for i
    by (cases suf) (simp_all add: partitionName_def Store_name_def QualifiedName_def Let_def)
  show "i = j" if "partitionName st i suf = partitionName st j suf"
    using that unfolding tail by (auto split: if_splits)
  show "partitionName st' 0 suf = partitionName st k suf" if "0 < k" "om_Name st' = om_Name st @ ''-partition-'' @ itoaNat k"
    using that unfolding tail by (cases suf) (simp_all add: partitionName_def Store_name_def QualifiedName_def Let_def)
qed simp

theorem partition_names_witness:
  "let a = zeroStore\<lparr>om_Name := ''a''\<rparr>; b = zeroStore\<lparr>om_Name := ''a-partition-1''\<rparr>
   in partitionName b 0 [] = partitionName a 1 []"
proof -
  have "itoaNat 1 = ''1''" by code_simp
  then show ?thesis unfolding Let_def
    using partition_names [of "zeroStore\<lparr>om_Name := ''a''\<rparr>" 0 "[]" 0 1 "zeroStore\<lparr>om_Name := ''a-partition-1''\<rparr>"] by simp
qed

text \<open>
  A stateful set that exists with some replicas keeps them, whatever the spec of the store says.
\<close>

lemma store_replicas_kept:
  "ss_Replicas (sts_Spec sts) = Some n \<Longrightarrow> n \<noteq> 0 \<Longrightarrow> ss_Replicas (sts_Spec (storeSts st sn sts)) = Some n"
  by (simp add: storeSts_def)

end
