(* ===== verification/Web_Config.thy ===== *)
theory Web_Config
  imports Workload_Common
begin

text \<open>
  \<^verbatim>\<open>pkg/controllers/resources/web_config.go\<close>: the configuration file of the HTTP server of a
  component, the volumes it needs and the users it names.  \<^verbatim>\<open>yaml.Marshal\<close> is the parameter
  \<open>yamlWeb\<close>.
\<close>

definition WhizardWebConfigMountPath :: string where
  "WhizardWebConfigMountPath = ''/etc/whizard/web_config/''"
definition WhizardWebConfigFile :: string where
  "WhizardWebConfigFile = ''web-config.yaml''"
definition WhizardCertsMountPath :: string where
  "WhizardCertsMountPath = ''/etc/whizard/certs/''"
definition LabelNameConfigHash :: string where
  "LabelNameConfigHash = ''monitoring.whizard.io/config-hash''"

text \<open>The secrets of the server certificate, those that have a name.\<close>

definition tlsAssets :: "http_server_tls_config \<Rightarrow> string list" where
  "tlsAssets t = filter (\<lambda>n. n \<noteq> []) [sks_Name (hst_KeySecret t), sks_Name (hst_CertSecret t), sks_Name (hst_ClientCASecret t)]"

definition CreateWebConfigVolumeMount :: "string \<Rightarrow> web_config \<Rightarrow> volume list \<times> volume_mount list" where
  "CreateWebConfigVolumeMount secretName webConfig =
     (let assets = (case wc_HTTPServerTLSConfig webConfig of None \<Rightarrow> [] | Some t \<Rightarrow> tlsAssets t) in
      ([\<lparr>vol_Name = ''web-config'', vol_Source = VolSecret secretName [] None\<rparr>] @
         (if assets \<noteq> [] then [\<lparr>vol_Name = ''tls-assets'', vol_Source = VolProjectedSecrets assets\<rparr>] else []),
       [\<lparr>vm_Name = ''web-config'', vm_ReadOnly = True, vm_MountPath = WhizardWebConfigMountPath, vm_SubPath = []\<rparr>] @
         (if assets \<noteq> [] then [\<lparr>vm_Name = ''tls-assets'', vm_ReadOnly = True, vm_MountPath = WhizardCertsMountPath, vm_SubPath = []\<rparr>] else [])))"

text \<open>The fields of \<^verbatim>\<open>WebConfig\<close>, \<^verbatim>\<open>TLSConfig\<close> and \<^verbatim>\<open>HTTPConfig\<close>.\<close>

record web_file =
  wf_TLSCertPath :: string
  wf_TLSKeyPath :: string
  wf_ClientAuth :: string
  wf_ClientCAs :: string
  wf_CipherSuites :: "string list"
  wf_CurvePreferences :: "string list"
  wf_MinVersion :: string
  wf_MaxVersion :: string
  wf_PreferServerCipherSuites :: bool
  wf_HTTP2 :: bool
  wf_Header :: labels_map
  wf_Users :: labels_map

definition defaultWebFile :: web_file where
  "defaultWebFile = \<lparr>wf_TLSCertPath = [], wf_TLSKeyPath = [], wf_ClientAuth = [], wf_ClientCAs = [], wf_CipherSuites = [],
     wf_CurvePreferences = [], wf_MinVersion = ''TLS12'', wf_MaxVersion = ''TLS13'', wf_PreferServerCipherSuites = True,
     wf_HTTP2 = True, wf_Header = Map.empty, wf_Users = Map.empty\<rparr>"

definition createBasicAuthUsers :: "'s client \<Rightarrow> string \<Rightarrow> basic_auth list \<Rightarrow> ('s, labels_map) act" where
  "createBasicAuthUsers cl namespace basicAuths =
     foldE (\<lambda>users ba.
       bindE (kGet (secrets cl) \<lparr>nn_Namespace = namespace, nn_Name = sks_Name (ba_Username ba)\<rparr>) (\<lambda>userSecret.
       bindE (kGet (secrets cl) \<lparr>nn_Namespace = namespace, nn_Name = sks_Name (ba_Password ba)\<rparr>) (\<lambda>passSecret.
         ret (users(mget (sec_Data userSecret) (sks_Key (ba_Username ba)) \<mapsto>
                    mget (sec_Data passSecret) (sks_Key (ba_Password ba))))))) Map.empty basicAuths"

definition certPath :: "secret_key_selector \<Rightarrow> string" where
  "certPath s = (if sks_Name s \<noteq> [] then WhizardCertsMountPath @ sks_Key s else [])"

definition CreateWebConfig ::
  "(web_file \<Rightarrow> string res) \<Rightarrow> 's client \<Rightarrow> string \<Rightarrow> web_config \<Rightarrow> ('s, string) act" where
  "CreateWebConfig yamlWeb cl namespace webConfig =
     (let wf = (case wc_HTTPServerTLSConfig webConfig of
                  None \<Rightarrow> defaultWebFile
                | Some t \<Rightarrow> defaultWebFile\<lparr>wf_TLSKeyPath := certPath (hst_KeySecret t),
                    wf_TLSCertPath := certPath (hst_CertSecret t), wf_ClientCAs := certPath (hst_ClientCASecret t)\<rparr>)
      in bindE (createBasicAuthUsers cl namespace (wc_BasicAuthUsers webConfig)) (\<lambda>users.
         liftE (yamlWeb (wf\<lparr>wf_Users := users\<rparr>))))"

text \<open>
  \<^verbatim>\<open>webConfigSecret\<close>, the same in the packages router, query, queryfrontend and gateway: the
  secret is deleted where the component has no web configuration.  \<open>secret0\<close> has the metadata of the
  component.
\<close>

definition webConfigSecret ::
  "(web_file \<Rightarrow> string res) \<Rightarrow> wlib \<Rightarrow> 's client \<Rightarrow> 'a object_meta_scheme \<Rightarrow> web_config option \<Rightarrow> secret \<Rightarrow> 's resource" where
  "webConfigSecret yamlWeb w cl owner webConfig secret0 = (case webConfig of
       None \<Rightarrow> ret (OSecret secret0, OperationDelete)
     | Some wc \<Rightarrow> bindE (CreateWebConfig yamlWeb cl (om_Namespace owner) wc) (\<lambda>body.
         bindE (liftE (ownedBy w owner (secret0\<lparr>sec_Data := [WhizardWebConfigFile \<mapsto> body]\<rparr>))) (\<lambda>sec.
           ret (OSecret sec, OperationCreateOrUpdate))))"

text \<open>
  The block for the web configuration, the same in several components: the hash of the file as an
  annotation of the pods, its volumes, and probes over TLS.
\<close>

definition withWebConfig ::
  "ext \<Rightarrow> 's resource \<Rightarrow> string \<Rightarrow> web_config option \<Rightarrow> deployment \<Rightarrow> container \<Rightarrow> ('s, deployment \<times> container) act" where
  "withWebConfig x secretResource secretName webConfig d ct = (case webConfig of
       None \<Rightarrow> ret (d, ct)
     | Some wc \<Rightarrow> bindE secretResource (\<lambda>(ob, _). case ob of
         OSecret sec \<Rightarrow>
           (case CreateWebConfigVolumeMount secretName wc of (vs, ms) \<Rightarrow>
            ret (d\<lparr>dep_TemplateAnnotations := (dep_TemplateAnnotations d)(
                     LabelNameConfigHash \<mapsto> x_md5Hex x (mget (sec_Data sec) WhizardWebConfigFile)),
                   dep_TemplateSpec := (dep_TemplateSpec d)\<lparr>ps_Volumes := ps_Volumes (dep_TemplateSpec d) @ vs\<rparr>\<rparr>,
                 (if wc_HTTPServerTLSConfig wc = None then ct
                  else ct\<lparr>ct_LivenessProbe := Some DefaultLivenessProbeWithTLS, ct_ReadinessProbe := Some DefaultReadinessProbeWithTLS\<rparr>)\<lparr>
                   ct_VolumeMounts := ct_VolumeMounts ct @ ms\<rparr>))
       | _ \<Rightarrow> failE Panic))"

section \<open>Lemmas\<close>

lemma web_volumes_paired:
  "map vol_Name (fst (CreateWebConfigVolumeMount n wc)) = map vm_Name (snd (CreateWebConfigVolumeMount n wc))"
  by (simp add: CreateWebConfigVolumeMount_def Let_def)

text \<open>
  Every certificate path the file names lies in a directory that is mounted, from the secret that
  holds the key.
\<close>

lemma certPath_mounted:
  assumes "wc_HTTPServerTLSConfig wc = Some t" and "s \<in> {hst_KeySecret t, hst_CertSecret t, hst_ClientCASecret t}"
    and "certPath s \<noteq> []"
  shows "\<exists>assets. \<lparr>vol_Name = ''tls-assets'', vol_Source = VolProjectedSecrets assets\<rparr> \<in> set (fst (CreateWebConfigVolumeMount n wc)) \<and>
    sks_Name s \<in> set assets \<and> certPath s = WhizardCertsMountPath @ sks_Key s"
  using assms by (auto simp: CreateWebConfigVolumeMount_def Let_def tlsAssets_def certPath_def split: if_splits)

end
