(* ===== verification/Router_Workload.thy ===== *)
theory Router_Workload
  imports Ingester_Workload Controller_Common Web_Config Tenant_Binding
begin

text \<open>
  \<^verbatim>\<open>pkg/controllers/resources/router\<close> and \<^verbatim>\<open>pkg/controllers/router_controller.go\<close>: the router
  gets a hashring per ingester that has tenants, and the ring of the soft tenants behind them; the
  deployment, the service and the controller.  The JSON encoder of the hashrings and the YAML encoder
  of the web configuration are parameters.
\<close>

text \<open>\<^verbatim>\<open>receive.HashringConfig\<close> and \<^verbatim>\<open>receive.Endpoint\<close> of Thanos, the fields the code sets.\<close>

record endpoint =
  ep_Address :: string
  ep_CapNProtoAddress :: string

record hashring =
  hr_Hashring :: string
  hr_Tenants :: "string list"
  hr_Endpoints :: "endpoint list"

record router_lib =
  ro_jsonHashrings :: "hashring list \<Rightarrow> string res"
  ro_yamlWeb :: "web_file \<Rightarrow> string res"

section \<open>router.go\<close>

definition Router_configDir :: string where
  "Router_configDir = ''/etc/whizard''"
definition hashringsFile :: string where
  "hashringsFile = ''hashrings.json''"

definition Router_New :: "'s client \<Rightarrow> router \<Rightarrow> ('s, service) act" where
  "Router_New cl ro = SetService cl ro"

definition Router_labels :: "service \<Rightarrow> labels_map" where
  "Router_labels svc = BaseLabels(LabelNameAppName \<mapsto> AppNameRouter, LabelNameAppManagedBy \<mapsto> om_Name svc)"

definition Router_name :: "router \<Rightarrow> string list \<Rightarrow> string" where
  "Router_name ro nameSuffix = QualifiedName AppNameRouter (om_Name ro) nameSuffix"

definition Router_meta :: "service \<Rightarrow> string \<Rightarrow> 'b object_meta_scheme \<Rightarrow> 'b object_meta_scheme" where
  "Router_meta svc name ob = ob\<lparr>om_Name := name, om_Namespace := om_Namespace svc, om_Labels := Router_labels svc\<rparr>"

definition Router_addr :: "string \<Rightarrow> int \<Rightarrow> service \<Rightarrow> router \<Rightarrow> string" where
  "Router_addr scheme port svc ro =
     scheme @ ''://'' @ Router_name ro [ServiceNameSuffix] @ ''.'' @ om_Namespace svc @ ''.svc:'' @ itoa port"

definition Router_HttpAddr :: "service \<Rightarrow> router \<Rightarrow> string" where
  "Router_HttpAddr = Router_addr ''http'' HTTPPort"
definition RemoteWriteAddr :: "service \<Rightarrow> router \<Rightarrow> string" where
  "RemoteWriteAddr = Router_addr ''http'' RemoteWritePort"
definition RemoteWriteHTTPSAddr :: "service \<Rightarrow> router \<Rightarrow> string" where
  "RemoteWriteHTTPSAddr = Router_addr ''https'' RemoteWritePort"

section \<open>configmap.go\<close>

definition endpointOf :: "string \<Rightarrow> endpoint" where
  "endpointOf addr = \<lparr>ep_Address = addr @ '':'' @ itoa GRPCPort, ep_CapNProtoAddress = addr @ '':'' @ itoa CapNProtoPort\<rparr>"

text \<open>
  One turn of the loop over the ingesters: \<^verbatim>\<open>ingester.New\<close> fetches the service of the ingester,
  on which the number of its addresses depends.
\<close>

definition addIngester :: "'s client \<Rightarrow> hashring list \<times> endpoint list \<Rightarrow> ingester \<Rightarrow> ('s, hashring list \<times> endpoint list) act" where
  "addIngester cl acc item = (case acc of (hashrings, soft) \<Rightarrow>
     bindE (Ingester_New cl item) (\<lambda>svc.
       if ig_Tenants (ig_Spec item) = [] then
         (if om_Labels item SoftTenantLabelKey = Some ''true'' then
            bindE (liftE (Ingester_Address svc item)) (\<lambda>addrs. ret (hashrings, soft @ map endpointOf addrs))
          else ret (hashrings, soft))
       else bindE (liftE (Ingester_Address svc item)) (\<lambda>addrs.
         ret (hashrings @ [\<lparr>hr_Hashring = om_Namespace item @ ''/'' @ om_Name item, hr_Tenants = ig_Tenants (ig_Spec item),
                hr_Endpoints = map endpointOf addrs\<rparr>], soft))))"

definition hashringsOf :: "'s client \<Rightarrow> service \<Rightarrow> ('s, hashring list) act" where
  "hashringsOf cl svc =
     bindE (kList (ingesters cl) \<lparr>lo_Namespace = [], lo_Labels = ManagedLabelByService svc\<rparr>) (\<lambda>items.
     bindE (foldE (addIngester cl) ([], []) items) (\<lambda>(hashrings, soft).
       ret (hashrings @ [\<lparr>hr_Hashring = ''softs'', hr_Tenants = [], hr_Endpoints = soft\<rparr>])))"

definition hashringsConfigMap :: "router_lib \<Rightarrow> wlib \<Rightarrow> 's client \<Rightarrow> service \<Rightarrow> router \<Rightarrow> 's resource" where
  "hashringsConfigMap rl w cl svc ro =
     bindE (hashringsOf cl svc) (\<lambda>hashrings.
     bindE (liftE (ro_jsonHashrings rl hashrings)) (\<lambda>bytes.
     bindE (liftE (ownedBy w ro ((Router_meta svc (Router_name ro [''hashrings-config'']) zeroConfigMap)\<lparr>
       cm_Data := [hashringsFile \<mapsto> bytes]\<rparr>))) (\<lambda>cm. ret (OConfigMap cm, OperationCreateOrUpdate))))"

section \<open>secret.go\<close>

definition Router_webConfigSecret :: "router_lib \<Rightarrow> wlib \<Rightarrow> 's client \<Rightarrow> service \<Rightarrow> router \<Rightarrow> 's resource" where
  "Router_webConfigSecret rl w cl svc ro = webConfigSecret (ro_yamlWeb rl) w cl ro (ro_WebConfig (ro_Spec ro))
     (Router_meta svc (Router_name ro [''web-config'']) zeroSecret)"

section \<open>deployment.go\<close>

definition Router_repeatableArgs :: "string list" where
  "Router_repeatableArgs = [''--label'']"

definition Router_unsupportedArgs :: "string list" where
  "Router_unsupportedArgs = [''--receive.local-endpoint'', ''--http-address'', ''--grpc-address'']"

definition routerDefaultArgs :: "service \<Rightarrow> router \<Rightarrow> string list" where
  "routerDefaultArgs svc ro =
     (let sp = ro_Spec ro in
      [''receive''] @
      (if ro_WebConfig sp = None then [] else [''--http.config='' @ WhizardWebConfigMountPath @ WhizardWebConfigFile]) @
      optArg ''--log.level='' (cs_LogLevel sp) @ optArg ''--log.format='' (cs_LogFormat sp) @
      [''--label='' @ ReceiveReplicaLabelName @ ''='' @ [CHR 0x22] @ ''$(POD_NAME)'' @ [CHR 0x22],
       ''--receive.hashrings-file='' @ Router_configDir @ ''/'' @ hashringsFile] @
      (case ro_ReplicationFactor sp of None \<Rightarrow> [] | Some f \<Rightarrow> [''--receive.replication-factor='' @ itoaNat f]) @
      optArg ''--receive.replication-protocol='' (ro_ReplicationProtocol sp) @
      optArg ''--receive.tenant-header='' (sv_TenantHeader (sv_Spec svc)) @
      optArg ''--receive.tenant-label-name='' (sv_TenantLabelName (sv_Spec svc)) @
      optArg ''--receive.default-tenant-id='' (sv_DefaultTenantId (sv_Spec svc)))"

definition routerArgs :: "service \<Rightarrow> router \<Rightarrow> string list" where
  "routerArgs svc ro = sortArgs (mergeFlags Router_unsupportedArgs Router_repeatableArgs (routerDefaultArgs svc ro) (cs_Flags (ro_Spec ro)))"

definition routerContainer :: "router \<Rightarrow> container" where
  "routerContainer ro = zeroContainer\<lparr>ct_Name := ''receive'', ct_Image := cs_Image (ro_Spec ro),
     ct_Resources := cs_Resources (ro_Spec ro),
     ct_Ports := [tcpPort GRPCPortName GRPCPort, tcpPort HTTPPortName HTTPPort, tcpPort RemoteWritePortName RemoteWritePort],
     ct_LivenessProbe := Some DefaultLivenessProbe, ct_ReadinessProbe := Some DefaultReadinessProbe,
     ct_VolumeMounts := [\<lparr>vm_Name = ''hashrings-config'', vm_ReadOnly = True, vm_MountPath = Router_configDir, vm_SubPath = []\<rparr>],
     ct_Env := [\<lparr>ev_Name = ''POD_NAME'', ev_Value = [], ev_ValueFrom = Some (EnvFieldRef ''metadata.name'')\<rparr>]\<rparr>"

definition routerBaseDeployment :: "service \<Rightarrow> router \<Rightarrow> deployment" where
  "routerBaseDeployment svc ro = (Router_meta svc (Router_name ro []) zeroDeployment)\<lparr>
     dep_Replicas := cs_Replicas (ro_Spec ro), dep_Selector := Router_labels svc, dep_TemplateLabels := Router_labels svc,
     dep_TemplateSpec := zeroPodSpec\<lparr>ps_NodeSelector := cs_NodeSelector (ro_Spec ro), ps_Tolerations := cs_Tolerations (ro_Spec ro),
       ps_Affinity := cs_Affinity (ro_Spec ro), ps_SecurityContext := cs_SecurityContext (ro_Spec ro),
       ps_ImagePullSecrets := cs_ImagePullSecrets (ro_Spec ro),
       ps_Volumes := [\<lparr>vol_Name = ''hashrings-config'', vol_Source = VolConfigMap (Router_name ro [''hashrings-config''])\<rparr>]\<rparr>\<rparr>"

definition Router_deployment :: "ext \<Rightarrow> router_lib \<Rightarrow> wlib \<Rightarrow> 's client \<Rightarrow> service \<Rightarrow> router \<Rightarrow> 's resource" where
  "Router_deployment x rl w cl svc ro =
     bindE (withWebConfig x (Router_webConfigSecret rl w cl svc ro) (Router_name ro [''web-config'']) (ro_WebConfig (ro_Spec ro))
              (routerBaseDeployment svc ro) (routerContainer ro)) (\<lambda>(d, ct).
     bindE (liftE (patchContainers w (ro_Spec ro) [ct\<lparr>ct_Args := routerArgs svc ro\<rparr>])) (\<lambda>cs.
     bindE (liftE (ownedBy w ro (d\<lparr>dep_TemplateSpec := (dep_TemplateSpec d)\<lparr>ps_Containers := cs\<rparr>\<rparr>))) (\<lambda>d1.
       ret (ODeployment d1, OperationCreateOrUpdate))))"

section \<open>service.go\<close>

definition Router_service :: "wlib \<Rightarrow> service \<Rightarrow> router \<Rightarrow> 's resource" where
  "Router_service w svc ro =
     (let s = (Router_meta svc (Router_name ro [ServiceNameSuffix]) zeroKubeService)\<lparr>ks_Type := ''ClusterIP'',
        ks_Selector := Router_labels svc, ks_Ports := [tcpServicePort GRPCPortName GRPCPort, tcpServicePort HTTPPortName HTTPPort,
          tcpServicePort RemoteWritePortName RemoteWritePort]\<rparr>
      in bindE (liftE (ownedBy w ro s)) (\<lambda>s'. ret (OService s', OperationCreateOrUpdate)))"

definition Router_Reconcile :: "ext \<Rightarrow> router_lib \<Rightarrow> wlib \<Rightarrow> 's client \<Rightarrow> service \<Rightarrow> router \<Rightarrow> ('s, unit) act" where
  "Router_Reconcile x rl w cl svc ro = ReconcileResources cl [hashringsConfigMap rl w cl svc ro,
     Router_webConfigSecret rl w cl svc ro, Router_deployment x rl w cl svc ro, Router_service w svc ro]"

section \<open>router_controller.go\<close>

definition applyConfigurationFromRouterTemplateSpec :: "merge_lib \<Rightarrow> router \<Rightarrow> router_spec \<Rightarrow> router res" where
  "applyConfigurationFromRouterTemplateSpec mg ro tmpl =
     bindR (mg_router mg (ro_Spec ro) tmpl) (\<lambda>sp. Inr (ro\<lparr>ro_Spec := sp\<rparr>))"

definition RouterReconciler_Reconcile ::
  "ext \<Rightarrow> router_lib \<Rightarrow> wlib \<Rightarrow> merge_lib \<Rightarrow> 's client \<Rightarrow> nsname \<Rightarrow> ('s, ctrl_result) act" where
  "RouterReconciler_Reconcile x rl w mg cl req =
     fetchThen (routers cl) req (\<lambda>inst.
       if mget (om_Labels inst) ServiceLabelKey = [] then ret noResult
       else bindE (fetchService cl inst) (\<lambda>service.
         bindE (liftE (applyConfigurationFromRouterTemplateSpec mg inst
                         (sv_RouterTemplateSpec (sv_Spec (ApplyDefaults w service))))) (\<lambda>ro.
         bindE (Router_New cl ro) (\<lambda>svc.
         bindE (Router_Reconcile x rl w cl svc ro) (\<lambda>_. ret noResult)))))"

definition RouterReconciler_mapFuncBySelectorFunc ::
  "'s client \<Rightarrow> ('b object_meta_scheme \<Rightarrow> labels_map) \<Rightarrow> 'b object_meta_scheme \<Rightarrow> ('s, nsname list) act" where
  "RouterReconciler_mapFuncBySelectorFunc cl fn ob = mapFuncBySelectorFunc (routers cl) fn ob"

section \<open>Routing\<close>

interpretation rof: flag_set Router_unsupportedArgs Router_repeatableArgs
  by unfold_locales (simp add: Router_unsupportedArgs_def Router_repeatableArgs_def)

text \<open>
  How a receiver uses the file: the first hashring that lists the tenant or lists no tenants at all
  takes its series.
\<close>

definition hashringFor :: "hashring list \<Rightarrow> string \<Rightarrow> hashring option" where
  "hashringFor hs t = find (\<lambda>h. hr_Tenants h = [] \<or> t \<in> set (hr_Tenants h)) hs"

text \<open>What the loop has collected from some ingesters of one service.\<close>

definition collected :: "service \<Rightarrow> ingester list \<Rightarrow> hashring list \<times> endpoint list \<Rightarrow> bool" where
  "collected svc igs acc \<longleftrightarrow>
     list_all2 (\<lambda>ig h. hr_Hashring h = om_Namespace ig @ ''/'' @ om_Name ig \<and> hr_Tenants h = ig_Tenants (ig_Spec ig) \<and>
         (\<exists>addrs. Ingester_Address svc ig = Inr addrs \<and> hr_Endpoints h = map endpointOf addrs))
       (filter (\<lambda>ig. ig_Tenants (ig_Spec ig) \<noteq> []) igs) (fst acc)"

lemma addIngester_collected:
  assumes "collected svc igs acc" and "Ingester_New cl ig s = (Inr svc, s)" and "addIngester cl acc ig s = (Inr acc', s')"
  shows "collected svc (igs @ [ig]) acc' \<and> s' = s"
  using assms
  by (auto simp: collected_def addIngester_def bindE_app list_all2_appendI split: prod.splits sum.splits if_splits)

lemma addIngesters_collected:
  assumes "collected svc before acc" and "\<forall>ig \<in> set igs. Ingester_New cl ig s = (Inr svc, s)"
    and "foldE (addIngester cl) acc igs s = (Inr acc', s')"
  shows "collected svc (before @ igs) acc'"
  using assms
proof (induction igs arbitrary: before acc)
  case (Cons ig igs)
  then obtain acc1 s1 where one: "addIngester cl acc ig s = (Inr acc1, s1)"
    and rest: "foldE (addIngester cl) acc1 igs s1 = (Inr acc', s')"
    by (auto simp: bindE_Inr_iff)
  have "collected svc (before @ [ig]) acc1 \<and> s1 = s"
    using addIngester_collected [OF Cons.prems(1) _ one] Cons.prems(2) by simp
  with Cons.IH [of "before @ [ig]" acc1] rest Cons.prems(2) show ?case by simp
qed simp

lemma collected_ring:
  assumes "collected svc igs (rings, soft)" and "h \<in> set rings"
  shows "\<exists>ig \<in> set igs. hr_Tenants h = ig_Tenants (ig_Spec ig) \<and> hr_Tenants h \<noteq> [] \<and>
    hr_Hashring h = om_Namespace ig @ ''/'' @ om_Name ig \<and>
    (\<exists>addrs. Ingester_Address svc ig = Inr addrs \<and> hr_Endpoints h = map endpointOf addrs)"
proof -
  obtain j where j: "j < length rings" "h = rings ! j" using assms(2) by (metis in_set_conv_nth)
  let ?busy = "filter (\<lambda>ig. ig_Tenants (ig_Spec ig) \<noteq> []) igs"
  have "?busy ! j \<in> set ?busy"
    by (rule nth_mem) (use assms(1) j(1) in \<open>simp add: collected_def list_all2_conv_all_nth\<close>)
  then have "?busy ! j \<in> set igs" "ig_Tenants (ig_Spec (?busy ! j)) \<noteq> []" by simp_all
  with assms(1) j show ?thesis
    by (intro bexI [of _ "?busy ! j"]) (simp_all add: collected_def list_all2_conv_all_nth)
qed

lemma collected_ingester:
  assumes "collected svc igs (rings, soft)" and "ig \<in> set igs" and "t \<in> set (ig_Tenants (ig_Spec ig))"
  shows "\<exists>h \<in> set rings. t \<in> set (hr_Tenants h)"
proof -
  let ?busy = "filter (\<lambda>ig. ig_Tenants (ig_Spec ig) \<noteq> []) igs"
  have "ig \<in> set ?busy" using assms(2,3) by auto
  then obtain j where j: "j < length ?busy" "ig = ?busy ! j" by (metis in_set_conv_nth)
  then show ?thesis
    using assms(1,3) by (intro bexI [of _ "rings ! j"]) (auto simp: collected_def list_all2_conv_all_nth)
qed

lemma hashringFor_snoc_soft:
  assumes "\<forall>h \<in> set rings. hr_Tenants h \<noteq> []" and "hr_Tenants softs = []"
  shows "(\<exists>h \<in> set rings. t \<in> set (hr_Tenants h) \<and> hashringFor (rings @ [softs]) t = Some h) \<or>
    (\<forall>h \<in> set rings. t \<notin> set (hr_Tenants h)) \<and> hashringFor (rings @ [softs]) t = Some softs"
  using assms by (induction rings) (auto simp: hashringFor_def)

lemma SetService_of_selected:
  assumes ok: "clientOk cl V" and sv: "map_of (c_services (V s)) (objectKey sv) = Some sv"
    and plain: "CHR ''.'' \<notin> set (om_Namespace sv)" "CHR ''.'' \<notin> set (om_Name sv)"
    and sel: "ManagedLabelByService sv \<subseteq>\<^sub>m om_Labels ig"
  shows "SetService cl ig s = (Inr (withServiceDefaults sv), s)"
proof -
  have label: "mget (om_Labels ig) ServiceLabelKey = om_Namespace sv @ CHR ''.'' # om_Name sv"
  proof -
    have "om_Labels ig ServiceLabelKey = Some (om_Namespace sv @ ''.'' @ om_Name sv)"
      using sel by (simp add: ManagedLabelByService_def map_le_def eq_commute)
    then show ?thesis by (simp add: mget_def)
  qed
  have "splitOn CHR ''.'' (om_Namespace sv @ CHR ''.'' # om_Name sv) = [om_Namespace sv, om_Name sv]"
    using plain by (simp add: splitOn_append splitOn_no_sep)
  then show ?thesis
    using sv kindOk_get [OF clientOk_kinds(6) [OF ok], of "objectKey sv" s]
    by (simp add: SetService_def label idx_def bindE_app objectKey_def)
qed

text \<open>What a receiver makes of the hashrings, for one tenant.\<close>

lemma hashrings_route:
  assumes ok: "clientOk cl V" and sv: "map_of (c_services (V s)) (objectKey sv) = Some sv"
    and plain: "CHR ''.'' \<notin> set (om_Namespace sv)" "CHR ''.'' \<notin> set (om_Name sv)"
    and hs: "hashringsOf cl (withServiceDefaults sv) s = (Inr hs, s')"
  defines "igs \<equiv> filter (\<lambda>ig. ManagedLabelByService sv \<subseteq>\<^sub>m om_Labels ig) (map snd (c_ingesters (V s)))"
  shows "\<exists>h. hashringFor hs t = Some h \<and>
    (if \<exists>ig \<in> set igs. t \<in> set (ig_Tenants (ig_Spec ig))
     then \<exists>ig \<in> set igs. \<exists>addrs. t \<in> set (ig_Tenants (ig_Spec ig)) \<and> Ingester_Address (withServiceDefaults sv) ig = Inr addrs \<and>
       hr_Hashring h = om_Namespace ig @ ''/'' @ om_Name ig \<and> hr_Endpoints h = map endpointOf addrs
     else h = last hs \<and> hr_Hashring h = ''softs'')"
proof -
  let ?svc = "withServiceDefaults sv"
  have "ManagedLabelByService ?svc = ManagedLabelByService sv"
    by (simp add: ManagedLabelByService_def withServiceDefaults_def Let_def)
  then have "matchesOpts \<lparr>lo_Namespace = [], lo_Labels = ManagedLabelByService ?svc\<rparr> =
      (\<lambda>ig :: ingester. ManagedLabelByService sv \<subseteq>\<^sub>m om_Labels ig)"
    by (intro ext) (simp add: matchesOpts_def)
  then have list: "kList (ingesters cl) \<lparr>lo_Namespace = [], lo_Labels = ManagedLabelByService ?svc\<rparr> s = (Inr igs, s)"
    by (simp add: kindOk_list [OF clientOk_kinds(2) [OF ok]] igs_def)
  from hs obtain rings soft where fold: "foldE (addIngester cl) ([], []) igs s = (Inr (rings, soft), s')"
    and hs': "hs = rings @ [\<lparr>hr_Hashring = ''softs'', hr_Tenants = [], hr_Endpoints = soft\<rparr>]"
    by (auto simp: hashringsOf_def list bindE_app split: prod.splits sum.splits)
  have "\<forall>ig \<in> set igs. Ingester_New cl ig s = (Inr ?svc, s)"
    unfolding Ingester_New_def igs_def by (intro ballI SetService_of_selected [OF ok sv plain]) simp
  from addIngesters_collected [OF _ this fold, of "[]"] have col: "collected ?svc igs (rings, soft)"
    by (simp add: collected_def)
  have "\<forall>h \<in> set rings. hr_Tenants h \<noteq> []" using collected_ring [OF col] by blast
  from hashringFor_snoc_soft [OF this, of "\<lparr>hr_Hashring = ''softs'', hr_Tenants = [], hr_Endpoints = soft\<rparr>" t]
  consider (ring) h where "h \<in> set rings" "t \<in> set (hr_Tenants h)" "hashringFor hs t = Some h"
    | (soft) "\<forall>h \<in> set rings. t \<notin> set (hr_Tenants h)" "hashringFor hs t = Some (last hs)"
    unfolding hs' by auto
  then show ?thesis
  proof cases
    case ring
    then show ?thesis using collected_ring [OF col ring(1)] by auto
  next
    case soft
    then have "\<not> (\<exists>ig \<in> set igs. t \<in> set (ig_Tenants (ig_Spec ig)))" using collected_ingester [OF col] by blast
    with soft show ?thesis by (simp add: hs')
  qed
qed

text \<open>
  The router sends a tenant to an ingester that has it.  From the hashrings the router is given,
  the series of a tenant that some ingester of the service lists go to the pods of an ingester that
  lists it; those of any other tenant go to the ring of the soft tenants, which comes last.
\<close>

theorem router_routes:
  assumes ok: "clientOk cl V" and sv: "map_of (c_services (V s)) (objectKey sv) = Some sv"
    and plain: "CHR ''.'' \<notin> set (om_Namespace sv)" "CHR ''.'' \<notin> set (om_Name sv)"
    and hs: "hashringsOf cl (withServiceDefaults sv) s = (Inr hs, s')"
  defines "igs \<equiv> filter (\<lambda>ig. ManagedLabelByService sv \<subseteq>\<^sub>m om_Labels ig) (map snd (c_ingesters (V s)))"
  shows "\<exists>h. hashringFor hs t = Some h \<and>
    (if \<exists>ig \<in> set igs. t \<in> set (ig_Tenants (ig_Spec ig))
     then \<exists>ig \<in> set igs. \<exists>addrs. t \<in> set (ig_Tenants (ig_Spec ig)) \<and> Ingester_Address (withServiceDefaults sv) ig = Inr addrs \<and>
       hr_Hashring h = om_Namespace ig @ ''/'' @ om_Name ig \<and> hr_Endpoints h = map endpointOf addrs
     else h = last hs \<and> hr_Hashring h = ''softs'')"
  using hashrings_route [OF ok sv plain hs] unfolding igs_def .

text \<open>An ingester of the example service with one pod and one tenant.\<close>

definition exIngester :: ingester where
  "exIngester = zeroIngester\<lparr>om_Name := ''i'', om_Namespace := ''ns'', om_Labels := ManagedLabelByService exService,
     ig_Spec := zeroIngesterSpec\<lparr>ig_Tenants := [''a''], cs_Replicas := Some 1\<rparr>\<rparr>"

theorem router_routes_witness:
  "\<exists>hs h h'. hashringsOf memClient (withServiceDefaults exService) (exCluster [] [exIngester] []) =
       (Inr hs, exCluster [] [exIngester] []) \<and>
     hashringFor hs ''a'' = Some h \<and> hr_Hashring h = ''ns/i'' \<and> hashringFor hs ''b'' = Some h' \<and> hr_Hashring h' = ''softs''"
proof -
  let ?c = "exCluster [] [exIngester] []" and ?svc = "withServiceDefaults exService"
  have sv: "map_of (c_services ?c) (objectKey exService) = Some exService" by (simp add: exCluster_def)
  have plain: "CHR ''.'' \<notin> set (om_Namespace exService)" "CHR ''.'' \<notin> set (om_Name exService)"
    by (simp_all add: exService_def)
  have igs: "filter (\<lambda>ig. ManagedLabelByService exService \<subseteq>\<^sub>m om_Labels ig) (map snd (c_ingesters ?c)) = [exIngester]"
    by (simp add: exCluster_def exIngester_def)
  have New: "Ingester_New memClient exIngester ?c = (Inr ?svc, ?c)"
    unfolding Ingester_New_def
    by (rule SetService_of_selected [OF memClient_ok sv plain]) (simp add: exIngester_def)
  have tenants: "ig_Tenants (ig_Spec exIngester) = [''a'']" by (simp add: exIngester_def)
  have addr: "Ingester_Address ?svc exIngester = Inr [podAddr exIngester 0]"
    by (simp add: Ingester_Address_def ingesterReplicas_def exIngester_def)
  have list: "kList (ingesters memClient) \<lparr>lo_Namespace = [], lo_Labels = ManagedLabelByService ?svc\<rparr> ?c = (Inr [exIngester], ?c)"
    by (simp add: memClient_def memKind_def exCluster_def matchesOpts_def exIngester_def ManagedLabelByService_def
        withServiceDefaults_def Let_def)
  obtain hs where hs: "hashringsOf memClient ?svc ?c = (Inr hs, ?c)"
    by (simp add: hashringsOf_def list addIngester_def bindE_app New tenants addr)
  show ?thesis
    using router_routes [OF memClient_ok sv plain hs, unfolded igs, of "''a''"]
      router_routes [OF memClient_ok sv plain hs, unfolded igs, of "''b''"] hs
    by (auto simp: tenants) (auto simp: exIngester_def)
qed

end
