(* ===== verification/Block_Manager.thy ===== *)
theory Block_Manager
  imports Base_Reconciler Http_Url
begin

text \<open>
  \<^verbatim>\<open>pkg/block/block-manager.go\<close>: the side car of the compactor that marks the blocks of tenants
  that no longer exist for deletion and runs the clean-up of the bucket.  The HTTP server of the
  compactor, the JSON decoder and the \<^verbatim>\<open>thanos\<close> binary are parameters (\<open>block_env\<close>), actions
  on the same state as the API client.
\<close>

text \<open>
  \<open>be_post\<close> answers with the status code and the result of reading the body; \<open>be_exec\<close> starts a
  command and says whether it ended within the given time.
\<close>

record block_meta =
  bm_ULID :: string
  bm_Labels :: labels_map

record 's block_env =
  be_get :: "string \<Rightarrow> ('s, string) act"
  be_post :: "string \<Rightarrow> form_values \<Rightarrow> ('s, nat \<times> string res) act"
  be_exec :: "string \<Rightarrow> string list \<Rightarrow> int \<Rightarrow> ('s, bool) act"
  be_terminate :: "('s, unit) act"
  be_decodeList :: "string \<Rightarrow> block_meta list res"
  be_decodeError :: "string \<Rightarrow> string res"

record block_manager_conf =
  bc_tenantLabelName :: string
  bc_defaultTenantId :: string
  bc_storageConfig :: string
  bc_storageConfigFile :: string
  bc_gcCleanupTimeout :: int

definition binPath :: string where
  "binPath = ''/bin/thanos''"
definition host :: string where
  "host = ''http://0.0.0.0:10902''"
definition listURL :: string where
  "listURL = ''/api/v1/blocks''"
definition markURL :: string where
  "markURL = ''/api/v1/blocks/mark''"

definition listBlocks :: "'s block_env \<Rightarrow> ('s, block_meta list) act" where
  "listBlocks e = bindE (be_get e (host @ listURL)) (\<lambda>bs. liftE (be_decodeList e bs))"

definition markRequestURL :: "block_meta \<Rightarrow> string" where
  "markRequestURL m =
     host @ markURL @ ''?'' @ vEncode (vSet ''action'' ''DELETION'' (vSet ''id'' (bm_ULID m) []))"

definition markBlockForDeletion :: "'s block_env \<Rightarrow> block_meta \<Rightarrow> ('s, unit) act" where
  "markBlockForDeletion e m =
     bindE (be_post e (markRequestURL m) (hSet ''Content-Type'' ''application/json'' [])) (\<lambda>(code, body).
       if code \<noteq> 200 \<and> code \<noteq> 204 then
         bindE (liftE body) (\<lambda>bs. bindE (liftE (be_decodeError e bs)) (\<lambda>_. ret ()))
       else ret ())"

definition cleanupArgs :: "block_manager_conf \<Rightarrow> string list" where
  "cleanupArgs b = [''tools'', ''bucket'', ''cleanup'', ''--delete-delay=0''] @
     (if bc_storageConfig b \<noteq> [] then [''--objstore.config='' @ bc_storageConfig b]
      else [''--objstore.config-file='' @ bc_storageConfigFile b])"

text \<open>Failures of the command and of its termination are logged only.\<close>

definition cleanupBlocks :: "block_manager_conf \<Rightarrow> 's block_env \<Rightarrow> ('s, unit) act" where
  "cleanupBlocks b e =
     handleE (be_exec e binPath (cleanupArgs b) (bc_gcCleanupTimeout b)) (\<lambda>r. case r of
         Inr False \<Rightarrow> handleE (be_terminate e) (\<lambda>_. ret ())
       | _ \<Rightarrow> ret ())"

definition listTenants :: "block_manager_conf \<Rightarrow> 's client \<Rightarrow> ('s, string list) act" where
  "listTenants b cl =
     bindE (kList (tenants cl) \<lparr>lo_Namespace = [], lo_Labels = Map.empty\<rparr>) (\<lambda>items.
       ret (map om_Name (filter (\<lambda>item. om_DeletionTimestamp item = None) items) @ [bc_defaultTenantId b]))"

definition gcBlock :: "block_manager_conf \<Rightarrow> 's block_env \<Rightarrow> string list \<Rightarrow> block_meta \<Rightarrow> ('s, unit) act" where
  "gcBlock b e ts block =
     (let tenant = mget (bm_Labels block) (bc_tenantLabelName b) in
      if tenant = [] then ret ()
      else if \<not> Contains ts tenant then handleE (markBlockForDeletion e block) (\<lambda>_. ret ())
      else ret ())"

text \<open>One turn of the loop, after the timer fired.\<close>

definition gcRound :: "block_manager_conf \<Rightarrow> 's block_env \<Rightarrow> 's client \<Rightarrow> ('s, unit) act" where
  "gcRound b e cl =
     handleE (listBlocks e) (\<lambda>r. case r of
         Inl _ \<Rightarrow> ret ()
       | Inr blocks \<Rightarrow> handleE (listTenants b cl) (\<lambda>r. case r of
             Inl _ \<Rightarrow> ret ()
           | Inr ts \<Rightarrow> bindE (forE blocks (gcBlock b e ts)) (\<lambda>_. cleanupBlocks b e)))"

text \<open>The loop, for the number of times the timer fires before the context is done.\<close>

primrec gc :: "block_manager_conf \<Rightarrow> 's block_env \<Rightarrow> 's client \<Rightarrow> nat \<Rightarrow> ('s, unit) act" where
  "gc b e cl 0 = ret ()"
| "gc b e cl (Suc n) = bindE (gcRound b e cl) (\<lambda>_. gc b e cl n)"

section \<open>Lemmas\<close>

text \<open>Whatever fails, the loop goes on.\<close>

lemma gcBlock_returns: "\<exists>s'. gcBlock b e ts m s = (Inr (), s')"
  by (auto simp: gcBlock_def Let_def handleE_case split: prod.split)

lemma gcBlocks_return: "\<exists>s'. forE ms (gcBlock b e ts) s = (Inr (), s')"
proof (induction ms arbitrary: s)
  case (Cons m ms)
  obtain s1 where "gcBlock b e ts m s = (Inr (), s1)" using gcBlock_returns [of b e ts m s] by (elim exE)
  then show ?case using Cons.IH [of s1] by simp
qed simp

lemma cleanupBlocks_returns: "\<exists>s'. cleanupBlocks b e s = (Inr (), s')"
  by (auto simp: cleanupBlocks_def handleE_case split: prod.split sum.split bool.split)

lemma gcRound_returns: "\<exists>s'. gcRound b e cl s = (Inr (), s')"
proof -
  have "\<exists>s'. bindE (forE ms (gcBlock b e ts)) (\<lambda>_. cleanupBlocks b e) u = (Inr (), s')" for ms ts u
    using gcBlocks_return [of ms b e ts u] cleanupBlocks_returns [of b e] by (auto simp: bindE_Inr_iff)
  then show ?thesis
    by (auto simp: gcRound_def handleE_case split: prod.split sum.split)
qed

text \<open>
  The block manager never stops on an error: the loop returns only when its context is done,
  after any number of turns, whatever the server, the API client and the clean-up command answer.
\<close>

lemma gc_returns: "\<exists>s'. gc b e cl n s = (Inr (), s')"
proof (induction n arbitrary: s)
  case (Suc n)
  obtain s1 where "gcRound b e cl s = (Inr (), s1)" using gcRound_returns [of b e cl s] by (elim exE)
  then show ?case using Suc.IH [of s1] by simp
qed simp

text \<open>
  An environment whose requests can be observed: \<open>L\<close> is the log of the URLs posted to; nothing else
  posts.
\<close>

definition logsPosts :: "'s block_env \<Rightarrow> ('s \<Rightarrow> string list) \<Rightarrow> bool" where
  "logsPosts e L \<longleftrightarrow>
     (\<forall>u h s. L (snd (be_post e u h s)) = L s @ [u]) \<and> (\<forall>u s. L (snd (be_get e u s)) = L s) \<and>
     (\<forall>p as t s. L (snd (be_exec e p as t s)) = L s) \<and> (\<forall>s. L (snd (be_terminate e s)) = L s)"

definition orphaned :: "block_manager_conf \<Rightarrow> string list \<Rightarrow> block_meta \<Rightarrow> bool" where
  "orphaned b ts m \<longleftrightarrow> mget (bm_Labels m) (bc_tenantLabelName b) \<notin> insert [] (set ts)"

lemma mark_logs:
  assumes "logsPosts e L"
  shows "L (snd (markBlockForDeletion e m s)) = L s @ [markRequestURL m]"
proof -
  have "L (snd (be_post e (markRequestURL m) h s)) = L s @ [markRequestURL m]" for h
    using assms by (simp add: logsPosts_def)
  then show ?thesis
    by (auto simp: markBlockForDeletion_def bindE_app split: prod.split sum.split)
      (metis (no_types, lifting) snd_conv)+
qed

lemma gcBlock_logs:
  "logsPosts e L \<Longrightarrow> L (snd (gcBlock b e ts m s)) = L s @ (if orphaned b ts m then [markRequestURL m] else [])"
  using mark_logs [of e L m s]
  by (auto simp: gcBlock_def orphaned_def Let_def handleE_case split: prod.split)

lemma gcBlocks_log:
  assumes "logsPosts e L"
  shows "L (snd (forE ms (gcBlock b e ts) s)) = L s @ map markRequestURL (filter (orphaned b ts) ms)"
proof (induction ms arbitrary: s)
  case (Cons m ms)
  obtain s1 where s1: "gcBlock b e ts m s = (Inr (), s1)" using gcBlock_returns [of b e ts m s] by (elim exE)
  with gcBlock_logs [OF assms, of b ts m s] Cons.IH [of s1] show ?case by simp
qed simp

lemma cleanup_logs: "logsPosts e L \<Longrightarrow> L (snd (cleanupBlocks b e s)) = L s"
  unfolding logsPosts_def cleanupBlocks_def handleE_def
  by (auto split: prod.split sum.split bool.split) (metis snd_conv)+

definition knownTenants :: "block_manager_conf \<Rightarrow> cluster \<Rightarrow> string list" where
  "knownTenants b c =
     map om_Name (filter (\<lambda>t. om_DeletionTimestamp t = None) (map snd (c_tenants c))) @ [bc_defaultTenantId b]"

text \<open>
  C19: one turn posts a deletion mark for exactly the blocks that carry a tenant label whose value
  is neither the name of a tenant that is not being deleted nor the default tenant, in the order of
  the list, and for no other block.
\<close>

theorem gcRound_marks:
  assumes log: "logsPosts e L" and ok: "listOk (tenants cl) V c_tenants"
    and list: "be_get e (host @ listURL) s = (Inr body, s1)" "be_decodeList e body = Inr blocks"
  shows "L (snd (gcRound b e cl s)) = L s @ map markRequestURL (filter (orphaned b (knownTenants b (V s1))) blocks)"
proof -
  let ?ts = "knownTenants b (V s1)"
  have "matchesOpts \<lparr>lo_Namespace = [], lo_Labels = Map.empty\<rparr> t" for t :: tenant
    by (simp add: matchesOpts_def)
  then have "listTenants b cl s1 = (Inr ?ts, s1)"
    using ok by (simp add: listTenants_def bindE_app listOk_def knownTenants_def)
  moreover have "listBlocks e s = (Inr blocks, s1)" by (simp add: listBlocks_def bindE_app list)
  moreover obtain s2 where s2: "forE blocks (gcBlock b e ?ts) s1 = (Inr (), s2)"
    using gcBlocks_return [of blocks b e ?ts s1] by (elim exE)
  ultimately have "gcRound b e cl s = cleanupBlocks b e s2"
    by (simp only: gcRound_def handleE_app bindE_Inr prod.case sum.case)
  moreover have "L s1 = L s" 
  proof -
    have "L (snd (be_get e (host @ listURL) s)) = L s" using log by (simp only: logsPosts_def)
    then show ?thesis by (simp only: list(1) snd_conv)
  qed
  ultimately show ?thesis
    using cleanup_logs [OF log] gcBlocks_log [OF log, of blocks b ?ts s1] s2 by simp
qed

text \<open>An environment over a cluster and the log of its requests, for the examples.\<close>

definition exBlockEnv :: "block_meta list \<Rightarrow> (cluster \<times> string list) block_env" where
  "exBlockEnv ms = \<lparr>be_get = (\<lambda>_. ret []), be_post = (\<lambda>u _ (c, us). (Inr (200, Inr []), (c, us @ [u]))),
     be_exec = (\<lambda>_ _ _. ret True), be_terminate = ret (), be_decodeList = (\<lambda>_. Inr ms), be_decodeError = (\<lambda>_. Inr [])\<rparr>"

definition exBlockClient :: "(cluster \<times> string list) client" where
  "exBlockClient = \<lparr>
     tenants = nullKind\<lparr>kList := (\<lambda>opts s. (Inr (filter (matchesOpts opts) (map snd (c_tenants (fst s)))), s))\<rparr>,
     ingesters = nullKind, compactors = nullKind, rulers = nullKind, stores = nullKind, services = nullKind,
     storages = nullKind, gateways = nullKind, routers = nullKind, queries = nullKind, queryFrontends = nullKind,
     statefulSets = nullKind, deployments = nullKind, kubeServices = nullKind, configMaps = nullKind,
     secrets = nullKind, serviceAccounts = nullKind, pvcs = nullKind, namespaces = nullKind, promRules = nullKind\<rparr>"

definition exBlockConf :: block_manager_conf where
  "exBlockConf = \<lparr>bc_tenantLabelName = ''tenant_id'', bc_defaultTenantId = ''default'', bc_storageConfig = [],
     bc_storageConfigFile = ''f'', bc_gcCleanupTimeout = 1\<rparr>"

lemma exBlockEnv_logs: "logsPosts (exBlockEnv ms) snd"
  by (simp add: logsPosts_def exBlockEnv_def split: prod.split)

lemma exBlockClient_lists: "listOk (tenants exBlockClient) fst c_tenants"
  by (simp add: listOk_def exBlockClient_def)

text \<open>
  The tenant \<open>t1\<close> lives, under the identifier \<open>acme\<close>; its block carries the identifier, and is
  marked for deletion, as is that of a tenant that is gone.
\<close>

theorem gcRound_marks_witness:
  "let t = zeroTenant\<lparr>om_Name := ''t1'', tn_Spec := \<lparr>ts_Tenant = ''acme''\<rparr>\<rparr>;
       block = (\<lambda>u n. \<lparr>bm_ULID = u, bm_Labels = [''tenant_id'' \<mapsto> n]\<rparr>);
       c = \<lparr>c_tenants = [(objectKey t, t)], c_ingesters = [], c_compactors = [], c_rulers = [], c_stores = [],
             c_services = [], c_storages = []\<rparr>;
       e = exBlockEnv [block ''A'' ''acme'', block ''B'' ''t1'', block ''C'' ''gone'', block ''D'' ''default'']
   in snd (snd (gcRound exBlockConf e exBlockClient (c, []))) =
        [markRequestURL (block ''A'' ''acme''), markRequestURL (block ''C'' ''gone'')]"
proof -
  have b: "be_get (exBlockEnv ms) u s = (Inr [], s)" "be_decodeList (exBlockEnv ms) bs = Inr ms" for ms u s bs
    by (simp_all add: exBlockEnv_def)
  show ?thesis
    unfolding Let_def
    by (subst gcRound_marks [OF exBlockEnv_logs exBlockClient_lists b])
      (simp add: orphaned_def knownTenants_def exBlockConf_def mget_def zeroTenant_def)
qed

end
