(* ===== verification/Ruler_Rules.thy ===== *)
theory Ruler_Rules
  imports Controller_Common "HOL-Library.Word"
begin

text \<open>
  \<^verbatim>\<open>pkg/controllers/resources/ruler/configmap.go\<close>: the Prometheus rules a ruler selects are
  distributed over its shards by a hash of file and group, rendered as rule files and packed into
  config maps of bounded size; config maps that are no longer needed are deleted.  Also the names
  of a ruler (\<^verbatim>\<open>ruler.go\<close>) and its services (\<^verbatim>\<open>service.go\<close>).

  Selectors, the YAML encoder, the validation of rules and MD5 are parameters (\<open>rule_lib\<close>), as is
  the order in which Go iterates over a map.
\<close>

unbundle bit_operations_syntax

record 's rule_lib =
  rl_asSelector :: "label_selector option \<Rightarrow> (labels_map \<Rightarrow> bool) res"
  rl_listNamespaces :: "(labels_map \<Rightarrow> bool) \<Rightarrow> ('s, object_meta list) act"
  rl_listRules :: "(labels_map \<Rightarrow> bool) \<Rightarrow> string \<Rightarrow> ('s, prom_rule list) act"
  rl_yaml :: "rule_group list \<Rightarrow> string res"
  rl_validateRule :: "rule_group list \<Rightarrow> gerror list"
  rl_md5 :: "string \<Rightarrow> 8 word list"
  rl_range :: "string list \<Rightarrow> string list"

type_synonym rule_files = "(string \<times> string) list"

section \<open>ruler.go\<close>

definition Ruler_labels :: "ruler \<Rightarrow> labels_map" where
  "Ruler_labels ru = BaseLabels(LabelNameAppName \<mapsto> AppNameRuler, LabelNameAppManagedBy \<mapsto> om_Name ru)"

definition Ruler_name :: "ruler \<Rightarrow> string list \<Rightarrow> string" where
  "Ruler_name ru nameSuffix = QualifiedName AppNameRuler (om_Name ru) nameSuffix"

definition Ruler_meta :: "ruler \<Rightarrow> string \<Rightarrow> 'b object_meta_scheme \<Rightarrow> 'b object_meta_scheme" where
  "Ruler_meta ru name ob = ob\<lparr>om_Name := name, om_Namespace := om_Namespace ru, om_Labels := Ruler_labels ru,
     om_OwnerReferences := controllerRef ru\<rparr>"

text \<open>\<^verbatim>\<open>sequenceNumberRegexp\<close>: a number without leading zeros.\<close>

definition isSequenceNumber :: "string \<Rightarrow> bool" where
  "isSequenceNumber s \<longleftrightarrow> s = ''0'' \<or> s \<noteq> [] \<and> hd s \<noteq> CHR ''0'' \<and> list_all isDigit s"

text \<open>\<^verbatim>\<open>int(*r.ruler.Spec.Shards)\<close> as the bound of a loop; a nil pointer panics.\<close>

definition shardLoop :: "ruler \<Rightarrow> nat res" where
  "shardLoop ru = (case ru_Shards (ru_Spec ru) of None \<Rightarrow> Inl Panic | Some n \<Rightarrow> Inr (nat n))"

definition Ruler_Endpoints :: "ruler \<Rightarrow> string list res" where
  "Ruler_Endpoints ru = bindR (shardLoop ru) (\<lambda>n. Inr (map (\<lambda>sn.
     ''dnssrv+_grpc._tcp.'' @ Ruler_name ru [itoaNat sn, ServiceNameSuffix] @ ''.'' @ om_Namespace ru @ ''.svc'') [0..<n]))"

definition Ruler_HttpAddrs :: "ruler \<Rightarrow> string list res" where
  "Ruler_HttpAddrs ru = bindR (shardLoop ru) (\<lambda>n. Inr (map (\<lambda>sn.
     ''http://'' @ Ruler_name ru [itoaNat sn, ServiceNameSuffix] @ ''.'' @ om_Namespace ru @ ''.svc:'' @ itoa HTTPPort) [0..<n]))"

definition Ruler_GrpcAddrs :: "ruler \<Rightarrow> string list res" where
  "Ruler_GrpcAddrs ru = bindR (shardLoop ru) (\<lambda>n. Inr (map (\<lambda>sn.
     Ruler_name ru [itoaNat sn, ServiceNameSuffix] @ ''.'' @ om_Namespace ru @ ''.svc:'' @ itoa GRPCPort) [0..<n]))"

section \<open>Selecting rules\<close>

definition selectNamespaces :: "'s rule_lib \<Rightarrow> ruler \<Rightarrow> ('s, string list) act" where
  "selectNamespaces lib ru = (case ru_RuleNamespaceSelector (ru_Spec ru) of
       None \<Rightarrow> ret [om_Namespace ru]
     | Some nsSelector \<Rightarrow>
         (case rl_asSelector lib (Some nsSelector) of
            Inl e \<Rightarrow> failE (Wrapped ''convert rule namespace label selector to selector'' e)
          | Inr selector \<Rightarrow> bindE (rl_listNamespaces lib selector) (\<lambda>items. ret (map om_Name items))))"

definition ruleFile :: "prom_rule \<Rightarrow> string" where
  "ruleFile pr = om_Namespace pr @ ''-'' @ om_Name pr @ ''.yaml''"

definition addRule :: "(string \<times> rule_group list) list \<Rightarrow> prom_rule \<Rightarrow> (string \<times> rule_group list) list" where
  "addRule rules pr = (if map_of rules (ruleFile pr) = None then alistUpdate (ruleFile pr) (pr_Groups pr) rules else rules)"

definition selectPrometheusRules :: "'s rule_lib \<Rightarrow> ruler \<Rightarrow> ('s, (string \<times> rule_group list) list) act" where
  "selectPrometheusRules lib ru =
     bindE (selectNamespaces lib ru) (\<lambda>nss.
     bindE (liftE (foldR (\<lambda>acc s. bindR (rl_asSelector lib (Some s)) (\<lambda>sel. Inr (acc @ [sel]))) []
                    (ru_RuleSelectors (ru_Spec ru)))) (\<lambda>ruleSelectors.
     foldE (\<lambda>rules ns.
       bindE (foldE (\<lambda>acc s. bindE (rl_listRules lib s ns) (\<lambda>items. ret (acc @ items))) [] ruleSelectors) (\<lambda>prs.
       ret (foldl addRule rules prs))) [] nss))"

section \<open>Sharding\<close>

text \<open>Shifting a byte left by 64 bits or more gives zero, as in Go.\<close>

definition sum64 :: "8 word list \<Rightarrow> 64 word" where
  "sum64 hash = foldl (\<lambda>s (i, b). s OR push_bit ((16 - i - 1) * 8) (ucast b)) 0 (enumerate 0 hash)"

definition GenerateContent :: "'s rule_lib \<Rightarrow> rule_group list \<Rightarrow> string res" where
  "GenerateContent lib groups = (case rl_yaml lib groups of
       Inl e \<Rightarrow> Inl (Wrapped ''failed to marshal content'' e)
     | Inr content \<Rightarrow> if rl_validateRule lib groups \<noteq> [] then Inl (GoErr ''Invalid rule'') else Inr content)"

text \<open>\<^verbatim>\<open>make\<close> panics on the huge length that a negative number of shards converts to.\<close>

definition shardCount :: "ruler \<Rightarrow> nat res" where
  "shardCount ru = (case ru_Shards (ru_Spec ru) of
     None \<Rightarrow> Inr 1 | Some n \<Rightarrow> if n < 0 then Inl Panic else Inr (nat n))"

definition shardOf :: "'s rule_lib \<Rightarrow> nat \<Rightarrow> string \<Rightarrow> rule_group \<Rightarrow> nat" where
  "shardOf lib shards fname g = unat (sum64 (rl_md5 lib (fname @ ''/'' @ rg_Name g)) mod of_nat shards)"

definition shardSpecs :: "'s rule_lib \<Rightarrow> nat \<Rightarrow> string \<Rightarrow> rule_group list \<Rightarrow> rule_group list list" where
  "shardSpecs lib shards fname groups =
     foldl (\<lambda>specs g. let sn = shardOf lib shards fname g in specs[sn := specs ! sn @ [g]]) (replicate shards []) groups"

definition addContent :: "'s rule_lib \<Rightarrow> string \<Rightarrow> rule_files list \<Rightarrow> nat \<times> rule_group list \<Rightarrow> rule_files list res" where
  "addContent lib fname acc e = (case e of (sn, groups) \<Rightarrow>
     if groups = [] then Inr acc
     else bindR (GenerateContent lib groups) (\<lambda>content.
       if sn < length acc then Inr (acc[sn := alistUpdate fname content (acc ! sn)]) else Inl Panic))"

definition shardsRuleFiles ::
  "'s rule_lib \<Rightarrow> nat \<Rightarrow> (string \<times> rule_group list) list \<Rightarrow> rule_files list res" where
  "shardsRuleFiles lib shards rules =
     foldR (\<lambda>acc fname. let groups = (case map_of rules fname of None \<Rightarrow> [] | Some gs \<Rightarrow> gs) in
       if groups = [] then Inr acc
       else if shards > 1 then foldR (addContent lib fname) acc (enumerate 0 (shardSpecs lib shards fname groups))
       else addContent lib fname acc (0, groups))
     (replicate shards []) (rl_range lib (map fst rules))"

section \<open>Packing\<close>

definition maxConfigMapDataSize :: nat where
  "maxConfigMapDataSize = 524288"

definition bucketSize :: "rule_files \<Rightarrow> nat" where
  "bucketSize bucket = sum_list (map (length \<circ> snd) bucket)"

definition packFile :: "rule_files \<Rightarrow> rule_files list \<times> nat \<Rightarrow> string \<Rightarrow> rule_files list \<times> nat" where
  "packFile ruleFiles st filename = (case st of (buckets, cur) \<Rightarrow>
     let content = (case map_of ruleFiles filename of None \<Rightarrow> [] | Some c \<Rightarrow> c);
         (buckets', cur') =
           (if bucketSize (buckets ! cur) + length content > maxConfigMapDataSize
            then (buckets @ [[]], cur + 1) else (buckets, cur))
     in (buckets'[cur' := alistUpdate filename content (buckets' ! cur')], cur'))"

definition packFiles :: "rule_files \<Rightarrow> rule_files list" where
  "packFiles ruleFiles = fst (foldl (packFile ruleFiles) ([[]], 0) (sortStrings (map fst ruleFiles)))"

definition ruleConfigMapName :: "ruler \<Rightarrow> nat \<Rightarrow> nat \<Rightarrow> string" where
  "ruleConfigMapName ru shardSn i = Ruler_name ru [''rulefiles''] @ ''-'' @ itoaNat shardSn @ ''-'' @ itoaNat i"

definition makeRulesConfigMaps :: "'s rule_lib \<Rightarrow> ruler \<Rightarrow> rule_files \<Rightarrow> nat \<Rightarrow> config_map list res" where
  "makeRulesConfigMaps lib ru ruleFiles shardSn =
     (case find (\<lambda>n. length (the (map_of ruleFiles n)) > maxConfigMapDataSize) (rl_range lib (map fst ruleFiles)) of
        Some filename \<Rightarrow> Inl (GoErr (''rule file '' @ [CHR 0x27] @ filename @ [CHR 0x27] @
                                      '' is too large for a single Kubernetes ConfigMap''))
      | None \<Rightarrow> Inr (map (\<lambda>(i, bucket). (Ruler_meta ru (ruleConfigMapName ru shardSn i) zeroConfigMap)\<lparr>cm_Data := map_of bucket\<rparr>)
                      (enumerate 0 (packFiles ruleFiles))))"

section \<open>The resources\<close>

definition ownsRuleConfigMap :: "ruler \<Rightarrow> string \<Rightarrow> bool" where
  "ownsRuleConfigMap ru name =
     (let namePrefix = Ruler_name ru [''rulefiles''] @ ''-'' in
      hasPrefix name namePrefix \<and>
      (case splitOn CHR ''-'' (trimPrefix name namePrefix) of
         [shardSn, cmSn] \<Rightarrow> isSequenceNumber shardSn \<and> isSequenceNumber cmSn
       | _ \<Rightarrow> False))"

text \<open>
  \<^verbatim>\<open>reflect.DeepEqual\<close> tells an empty map from the nil map which an object without data has
  when it comes from the API server.
\<close>

definition sameData :: "labels_map \<Rightarrow> labels_map \<Rightarrow> bool" where
  "sameData target current \<longleftrightarrow> target = current \<and> target \<noteq> Map.empty"

definition shardConfigMaps :: "'s rule_lib \<Rightarrow> ruler \<Rightarrow> rule_files list \<Rightarrow> config_map list list res" where
  "shardConfigMaps lib ru shards =
     foldR (\<lambda>acc (sn, files). bindR (makeRulesConfigMaps lib ru files sn) (\<lambda>cms. Inr (acc @ [cms]))) [] (enumerate 0 shards)"

definition targetsOf :: "config_map list \<Rightarrow> (string \<times> config_map) list" where
  "targetsOf cms = foldl (\<lambda>m cm. alistUpdate (om_Name cm) cm m) [] cms"

definition ruleResources :: "'s rule_lib \<Rightarrow> ruler \<Rightarrow> (string \<times> config_map) list \<Rightarrow> config_map list \<Rightarrow> 's resource list" where
  "ruleResources lib ru targets items =
     (let currents = filter (\<lambda>cm. ownsRuleConfigMap ru (om_Name cm)) items in
      map (\<lambda>cm. ret (OConfigMap cm, OperationDelete)) (filter (\<lambda>cm. map_of targets (om_Name cm) = None) currents) @
      concat (map (\<lambda>name. case map_of targets name of
          None \<Rightarrow> []
        | Some target \<Rightarrow>
            (case map_of (targetsOf currents) name of
               Some current \<Rightarrow>
                 (if sameData (cm_Data target) (cm_Data current) then []
                  else [ret (OConfigMap target, OperationCreateOrUpdate)])
             | None \<Rightarrow> [ret (OConfigMap target, OperationCreateOrUpdate)]))
        (rl_range lib (map fst targets))))"

text \<open>
  The resources, and the names of the config maps of each shard, which the stateful sets mount
  (\<^verbatim>\<open>r.shardsRuleConfigMapNames\<close>).
\<close>

definition ruleConfigMaps ::
  "'s rule_lib \<Rightarrow> 's client \<Rightarrow> ruler \<Rightarrow> ('s, 's resource list \<times> string list list) act" where
  "ruleConfigMaps lib cl ru =
     handleE (selectPrometheusRules lib ru) (\<lambda>r. case r of
         Inl e \<Rightarrow> ret (errResourcesFunc e, [])
       | Inr rules \<Rightarrow> bindE (liftE (shardCount ru)) (\<lambda>shards.
           case bindR (shardsRuleFiles lib shards rules) (shardConfigMaps lib ru) of
             Inl Panic \<Rightarrow> failE Panic
           | Inl e \<Rightarrow> ret (errResourcesFunc e, [])
           | Inr cms \<Rightarrow>
               (let names = map (map om_Name) cms in
                handleE (kList (configMaps cl) \<lparr>lo_Namespace = om_Namespace ru, lo_Labels = Map.empty\<rparr>) (\<lambda>r. case r of
                    Inl e \<Rightarrow> ret (errResourcesFunc e, names)
                  | Inr items \<Rightarrow> ret (ruleResources lib ru (targetsOf (concat cms)) items, names)))))"

section \<open>service.go\<close>

definition Ruler_service :: "wlib \<Rightarrow> ruler \<Rightarrow> nat \<Rightarrow> 's resource" where
  "Ruler_service w ru shardSn =
     (let s = (Ruler_meta ru (Ruler_name ru [itoaNat shardSn, ServiceNameSuffix]) zeroKubeService)\<lparr>
        ks_Type := ''ClusterIP'', ks_Selector := (Ruler_labels ru)(LabelNameRulerShardSn \<mapsto> itoaNat shardSn),
        ks_Ports := [tcpServicePort GRPCPortName GRPCPort, tcpServicePort HTTPPortName HTTPPort]\<rparr>
      in bindE (liftE (ownedBy w ru s)) (\<lambda>s'. ret (OService s', OperationCreateOrUpdate)))"

definition ownsRulerService :: "ruler \<Rightarrow> string \<Rightarrow> bool" where
  "ownsRulerService ru name =
     (let namePrefix = Ruler_name ru [] @ ''-''; nameSuffix = ''-'' @ ServiceNameSuffix in
      hasPrefix name namePrefix \<and> hasSuffix name nameSuffix \<and>
      isSequenceNumber (trimSuffix (trimPrefix name namePrefix) nameSuffix))"

definition Ruler_services :: "wlib \<Rightarrow> 's client \<Rightarrow> ruler \<Rightarrow> ('s, 's resource list) act" where
  "Ruler_services w cl ru =
     bindE (liftE (shardLoop ru)) (\<lambda>n.
       let targetNames = map (\<lambda>sn. Ruler_name ru [itoaNat sn, ServiceNameSuffix]) [0..<n] in
       handleE (kList (kubeServices cl) \<lparr>lo_Namespace = om_Namespace ru, lo_Labels = Map.empty\<rparr>) (\<lambda>r. case r of
           Inl e \<Rightarrow> ret (errResourcesFunc e)
         | Inr items \<Rightarrow> ret (map (Ruler_service w ru) [0..<n] @
             map (\<lambda>svc. ret (OService svc, OperationDelete))
               (filter (\<lambda>svc. ownsRulerService ru (om_Name svc) \<and> om_Name svc \<notin> set targetNames) items))))"

section \<open>The hash\<close>

text \<open>The digest read as one big-endian number.\<close>

definition bigEndian :: "8 word list \<Rightarrow> nat" where
  "bigEndian bs = foldl (\<lambda>a b. a * 256 + unat b) 0 bs"

definition orBytes :: "nat \<Rightarrow> 64 word \<Rightarrow> (nat \<times> 8 word) list \<Rightarrow> 64 word" where
  "orBytes n s ibs = foldl (\<lambda>s (i, b). s OR push_bit ((n - i - 1) * 8) (ucast b)) s ibs"

lemma orBytes_Cons:
  "orBytes n s ((i, b) # ibs) = orBytes n (s OR push_bit ((n - i - 1) * 8) (ucast b)) ibs"
  by (simp add: orBytes_def)

lemma orBytes_Suc:
  "\<forall>(i, b) \<in> set ibs. i < n \<Longrightarrow> orBytes (Suc n) (push_bit 8 s) ibs = push_bit 8 (orBytes n s ibs)"
proof (induction ibs arbitrary: s)
  case (Cons ib ibs)
  obtain i b where ib: "ib = (i, b)" by (cases ib)
  have "(Suc n - i - 1) * 8 = 8 + (n - i - 1) * 8" using Cons.prems ib by auto
  then have "push_bit 8 s OR push_bit ((Suc n - i - 1) * 8) (ucast b) = push_bit 8 (s OR push_bit ((n - i - 1) * 8) (ucast b))"
    by (simp only: push_bit_or push_bit_push_bit)
  with Cons.IH [of "s OR push_bit ((n - i - 1) * 8) (ucast b)"] Cons.prems show ?case
    unfolding ib orBytes_Cons by simp
qed (simp add: orBytes_def)

lemma push_or_byte: "push_bit 8 w OR ucast (b :: 8 word) = (w :: 64 word) * 256 + ucast b"
proof -
  have "push_bit 8 w AND ucast b = 0"
    by (rule bit_word_eqI) (auto simp: bit_simps dest: bit_imp_le_length)
  then show ?thesis by (simp add: disjunctive_add_eq_or [symmetric] push_bit_eq_mult)
qed

lemma orBytes_bigEndian: "orBytes (length bs) 0 (enumerate 0 bs) = word_of_nat (bigEndian bs)"
proof (induction bs rule: rev_induct)
  case (snoc b bs)
  have "\<forall>(i, b) \<in> set (enumerate 0 bs). i < length bs" by (auto simp: in_set_enumerate_eq)
  from orBytes_Suc [OF this, of 0] snoc
  have "orBytes (Suc (length bs)) 0 (enumerate 0 bs) = push_bit 8 (word_of_nat (bigEndian bs))" by simp
  then have "orBytes (length (bs @ [b])) 0 (enumerate 0 (bs @ [b])) = push_bit 8 (word_of_nat (bigEndian bs)) OR ucast b"
    by (simp add: orBytes_def enumerate_append_eq)
  then show ?case by (simp add: push_or_byte bigEndian_def)
qed (simp add: orBytes_def bigEndian_def)

text \<open>
  C25: the shard hash is the MD5 digest read as a big-endian number, modulo \<open>2 ^ 64\<close>: the loop over
  the 16 bytes, with its shifts of up to 120 bits, keeps the last eight.
\<close>

theorem sum64_bigEndian:
  assumes "length hash = 16"
  shows "unat (sum64 hash) = bigEndian hash mod 2 ^ 64"
proof -
  have "sum64 hash = word_of_nat (bigEndian hash)"
    using orBytes_bigEndian [of hash] assms by (simp add: orBytes_def sum64_def)
  then show ?thesis by (simp add: unsigned_of_nat take_bit_eq_mod)
qed

theorem sum64_bigEndian_witness:
  "unat (sum64 [255, 255, 255, 255, 255, 255, 255, 255, 0, 0, 0, 0, 0, 0, 1, 2]) = 258"
  by (subst sum64_bigEndian) (simp_all add: bigEndian_def)

section \<open>Shards\<close>

lemma shardOf_less: "0 < n \<Longrightarrow> n < 2 ^ 64 \<Longrightarrow> shardOf lib n fname g < n"
  unfolding shardOf_def by (simp add: unat_mod_distrib unsigned_of_nat take_bit_eq_mod)

lemma shardSpecs_filter:
  assumes "0 < n" and "n < 2 ^ 64"
  shows "shardSpecs lib n fname gs = map (\<lambda>k. filter (\<lambda>g. shardOf lib n fname g = k) gs) [0..<n]"
proof (induction gs rule: rev_induct)
  case Nil
  show ?case by (simp add: shardSpecs_def map_replicate_const)
next
  case (snoc g gs)
  let ?sn = "shardOf lib n fname g" and ?specs = "\<lambda>gs. map (\<lambda>k. filter (\<lambda>g. shardOf lib n fname g = k) gs) [0..<n]"
  have "shardSpecs lib n fname (gs @ [g]) = (?specs gs)[?sn := ?specs gs ! ?sn @ [g]]"
    using snoc by (simp add: shardSpecs_def Let_def)
  also have "\<dots> = ?specs (gs @ [g])"
    using shardOf_less [OF assms] by (intro nth_equalityI) (simp_all add: nth_list_update)
  finally show ?case .
qed

text \<open>What one file adds to the files of the shards.\<close>

definition placed :: "'s rule_lib \<Rightarrow> string \<Rightarrow> rule_group list \<Rightarrow> rule_files \<Rightarrow> rule_files \<Rightarrow> bool" where
  "placed lib fname groups old new \<longleftrightarrow>
     (if groups = [] then new = old
      else \<exists>c. GenerateContent lib groups = Inr c \<and> new = alistUpdate fname c old)"

lemma addContent_Inr:
  assumes "addContent lib fname acc (sn, groups) = Inr acc'" and "sn < length acc"
  shows "length acc' = length acc \<and> placed lib fname groups (acc ! sn) (acc' ! sn) \<and> (\<forall>k. k \<noteq> sn \<longrightarrow> acc' ! k = acc ! k)"
  using assms by (auto simp: addContent_def placed_def bindR_Inr_iff split: if_splits)

lemma addContents_Inr:
  "foldR (addContent lib fname) acc (enumerate m specs) = Inr acc' \<Longrightarrow> m + length specs \<le> length acc \<Longrightarrow>
   length acc' = length acc \<and> (\<forall>k < length specs. placed lib fname (specs ! k) (acc ! (m + k)) (acc' ! (m + k))) \<and>
   (\<forall>k. k < m \<or> m + length specs \<le> k \<longrightarrow> acc' ! k = acc ! k)"
proof (induction specs arbitrary: m acc)
  case (Cons gs specs)
  then obtain acc1 where acc1: "addContent lib fname acc (m, gs) = Inr acc1"
    and rest: "foldR (addContent lib fname) acc1 (enumerate (Suc m) specs) = Inr acc'"
    by (auto simp: bindR_Inr_iff)
  note one = addContent_Inr [OF acc1]
  then have len: "length acc1 = length acc" using Cons.prems(2) by simp
  note IH = Cons.IH [OF rest]
  have "placed lib fname ((gs # specs) ! k) (acc ! (m + k)) (acc' ! (m + k))" if k: "k < length (gs # specs)" for k
  proof (cases k)
    case 0
    then show ?thesis using one IH Cons.prems(2) len by simp
  next
    case (Suc j)
    then show ?thesis using one IH Cons.prems(2) len k by simp
  qed
  moreover have "acc' ! k = acc ! k" if "k < m \<or> m + length (gs # specs) \<le> k" for k
    using one IH Cons.prems(2) len that by auto
  ultimately show ?case using IH Cons.prems(2) len by simp
qed simp

lemma filter_classes: "(\<And>g. h g < (n :: nat)) \<Longrightarrow> (\<Sum>k<n. {#g \<in># M. h g = k#}) = M"
proof (induction M)
  case (add g M)
  have "(\<Sum>k<n. {#x \<in># add_mset g M. h x = k#}) = (\<Sum>k<n. (if h g = k then {#g#} else {#}) + {#x \<in># M. h x = k#})"
    by (rule sum.cong) simp_all
  also have "\<dots> = {#g#} + M" using add by (simp add: sum.distrib)
  finally show ?case by simp
qed simp

definition groupsOf :: "(string \<times> rule_group list) list \<Rightarrow> string \<Rightarrow> rule_group list" where
  "groupsOf rules fname = (case map_of rules fname of None \<Rightarrow> [] | Some gs \<Rightarrow> gs)"

definition shardGroups :: "'s rule_lib \<Rightarrow> nat \<Rightarrow> string \<Rightarrow> rule_group list \<Rightarrow> nat \<Rightarrow> rule_group list" where
  "shardGroups lib n fname gs k = filter (\<lambda>g. n = 1 \<or> shardOf lib n fname g = k) gs"

definition fileOk :: "'s rule_lib \<Rightarrow> rule_group list \<Rightarrow> string option \<Rightarrow> bool" where
  "fileOk lib groups content \<longleftrightarrow> (case content of
     None \<Rightarrow> groups = [] | Some c \<Rightarrow> groups \<noteq> [] \<and> GenerateContent lib groups = Inr c)"

lemma placed_fileOk:
  "placed lib fname groups old new \<Longrightarrow> map_of old fname = None \<Longrightarrow> fileOk lib groups (map_of new fname)"
  by (auto simp: placed_def fileOk_def split: if_splits option.split)

lemma placed_other: "placed lib fname groups old new \<Longrightarrow> f \<noteq> fname \<Longrightarrow> map_of new f = map_of old f"
  by (auto simp: placed_def split: if_splits)

text \<open>The body of the loop over the files.\<close>

definition shardFile :: "'s rule_lib \<Rightarrow> nat \<Rightarrow> (string \<times> rule_group list) list \<Rightarrow> rule_files list \<Rightarrow> string \<Rightarrow> rule_files list res" where
  "shardFile lib shards rules acc fname = (let groups = groupsOf rules fname in
     if groups = [] then Inr acc
     else if shards > 1 then foldR (addContent lib fname) acc (enumerate 0 (shardSpecs lib shards fname groups))
     else addContent lib fname acc (0, groups))"

lemma shardFile_Inr:
  assumes "shardFile lib n rules acc fname = Inr acc'" and "length acc = n" and n: "0 < n" "n < 2 ^ 64"
  shows "length acc' = n \<and> (\<forall>k < n. placed lib fname (shardGroups lib n fname (groupsOf rules fname) k) (acc ! k) (acc' ! k))"
proof (cases "groupsOf rules fname = []")
  case True
  with assms show ?thesis by (simp add: shardFile_def shardGroups_def placed_def)
next
  case False
  show ?thesis
  proof (cases "n = 1")
    case True
    with False assms have "addContent lib fname acc (0, groupsOf rules fname) = Inr acc'"
      by (simp add: shardFile_def Let_def)
    from addContent_Inr [OF this] True assms(2) show ?thesis by (simp add: shardGroups_def)
  next
    case many: False
    with False assms have "foldR (addContent lib fname) acc (enumerate 0 (shardSpecs lib n fname (groupsOf rules fname))) = Inr acc'"
      by (simp add: shardFile_def Let_def)
    from addContents_Inr [OF this] many n assms(2) show ?thesis
      by (simp add: shardSpecs_filter shardGroups_def)
  qed
qed

lemma shardFiles_Inr:
  assumes "foldR (shardFile lib n rules) acc fs = Inr acc'" and "length acc = n" and "0 < n" and "n < 2 ^ 64"
    and "distinct fs" and "\<forall>k < n. \<forall>f \<in> set fs. map_of (acc ! k) f = None"
  shows "length acc' = n \<and> (\<forall>k < n. \<forall>f.
    if f \<in> set fs then fileOk lib (shardGroups lib n f (groupsOf rules f) k) (map_of (acc' ! k) f)
    else map_of (acc' ! k) f = map_of (acc ! k) f)"
  using assms
proof (induction fs arbitrary: acc)
  case (Cons f fs)
  then obtain acc1 where acc1: "shardFile lib n rules acc f = Inr acc1"
    and rest: "foldR (shardFile lib n rules) acc1 fs = Inr acc'"
    by (auto simp: bindR_Inr_iff)
  note one = shardFile_Inr [OF acc1 Cons.prems(2-4)]
  have other: "map_of (acc1 ! k) g = map_of (acc ! k) g" if "k < n" "g \<noteq> f" for k g
    using one that placed_other by blast
  have here: "fileOk lib (shardGroups lib n f (groupsOf rules f) k) (map_of (acc1 ! k) f)" if "k < n" for k
    using one that Cons.prems(6) placed_fileOk by fastforce
  have fresh: "\<forall>k < n. \<forall>g \<in> set fs. map_of (acc1 ! k) g = None"
    using other Cons.prems(5,6) by (metis distinct.simps(2) list.set_intros(2))
  note IH = Cons.IH [OF rest conjunct1 [OF one] Cons.prems(3,4) _ fresh]
  then show ?case using Cons.prems(5) other here by auto
qed simp

text \<open>The files can be generated when every non-empty set of groups can.\<close>

lemma addContent_total:
  assumes "\<And>gs. gs \<noteq> [] \<Longrightarrow> \<exists>c. GenerateContent lib gs = Inr c" and "length acc = n" and "fst e < n"
  shows "\<exists>acc'. addContent lib fname acc e = Inr acc' \<and> length acc' = n"
  using assms(1) [of "snd e"] assms(2,3) by (cases e) (auto simp: addContent_def)

lemma shardFile_total:
  assumes ok: "\<And>gs. gs \<noteq> [] \<Longrightarrow> \<exists>c. GenerateContent lib gs = Inr c" and n: "0 < n" "n < 2 ^ 64" and len: "length acc = n"
  shows "\<exists>acc'. shardFile lib n rules acc fname = Inr acc' \<and> length acc' = n"
proof -
  have "\<exists>acc'. foldR (addContent lib fname) acc (enumerate 0 (shardSpecs lib n fname gs)) = Inr acc' \<and> length acc' = n" for gs
    by (rule foldR_total [where P = "\<lambda>acc. length acc = n", OF addContent_total [OF ok] len])
      (use n in \<open>auto simp: shardSpecs_filter in_set_enumerate_eq\<close>)
  moreover have "\<exists>acc'. addContent lib fname acc (0, gs) = Inr acc' \<and> length acc' = n" for gs
    using addContent_total [OF ok len, where e = "(0, gs)"] n(1) by simp
  ultimately show ?thesis using len by (simp add: shardFile_def Let_def)
qed

lemma shardsRuleFiles_total:
  assumes ok: "\<And>gs. gs \<noteq> [] \<Longrightarrow> \<exists>c. GenerateContent lib gs = Inr c" and n: "0 < n" "n < 2 ^ 64"
  shows "\<exists>fs. shardsRuleFiles lib n rules = Inr fs"
proof -
  have "\<exists>fs. foldR (shardFile lib n rules) (replicate n []) (rl_range lib (map fst rules)) = Inr fs \<and> length fs = n"
    by (rule foldR_total [where P = "\<lambda>acc. length acc = n"]) (use shardFile_total [OF ok n] in auto)
  then show ?thesis unfolding shardsRuleFiles_def shardFile_def groupsOf_def Let_def by auto
qed

text \<open>
  C11: sharding of the rules.  Where the rule files can be generated there is one set of files per
  shard, every group of a file belongs to exactly one shard, and in each shard the file holds
  exactly the groups of that shard, in their order; a file without groups there is absent.
\<close>

theorem shardsRuleFiles_partition:
  assumes range: "\<And>ks. mset (rl_range lib ks) = mset ks" and "distinct (map fst rules)"
    and n: "0 < n" "n < 2 ^ 64" and fs: "shardsRuleFiles lib n rules = Inr fs"
  shows "length fs = n \<and>
    (\<forall>k < n. \<forall>f. fileOk lib (shardGroups lib n f (groupsOf rules f) k) (map_of (fs ! k) f)) \<and>
    (\<forall>f. (\<Sum>k<n. mset (shardGroups lib n f (groupsOf rules f) k)) = mset (groupsOf rules f))"
proof (intro conjI)
  let ?fs = "rl_range lib (map fst rules)"
  have set: "set ?fs = fst ` set rules" using range [of "map fst rules"] by (metis mset_eq_setD set_map)
  have "shardsRuleFiles lib n rules = foldR (shardFile lib n rules) (replicate n []) ?fs"
    unfolding shardsRuleFiles_def shardFile_def groupsOf_def Let_def by simp
  then have "foldR (shardFile lib n rules) (replicate n []) ?fs = Inr fs" using fs by simp
  moreover have "distinct ?fs" using assms(2) range [of "map fst rules"] mset_eq_imp_distinct_iff by blast
  ultimately have main: "length fs = n \<and> (\<forall>k < n. \<forall>f.
    if f \<in> set ?fs then fileOk lib (shardGroups lib n f (groupsOf rules f) k) (map_of (fs ! k) f)
    else map_of (fs ! k) f = None)"
    using shardFiles_Inr [of lib n rules "replicate n []" ?fs fs] n by simp
  then show "length fs = n" by simp
  have "groupsOf rules f = []" if "f \<notin> set ?fs" for f
  proof -
    have "map_of rules f = None" using that set by (simp add: map_of_eq_None_iff)
    then show ?thesis by (simp add: groupsOf_def)
  qed
  then show "\<forall>k < n. \<forall>f. fileOk lib (shardGroups lib n f (groupsOf rules f) k) (map_of (fs ! k) f)"
    using main by (metis (mono_tags, lifting) fileOk_def filter.simps(1) option.simps(4) shardGroups_def)
  show "\<forall>f. (\<Sum>k<n. mset (shardGroups lib n f (groupsOf rules f) k)) = mset (groupsOf rules f)"
  proof (intro allI)
    fix f
    show "(\<Sum>k<n. mset (shardGroups lib n f (groupsOf rules f) k)) = mset (groupsOf rules f)"
      using filter_classes [of "shardOf lib n f" n, OF shardOf_less [OF n]]
      by (cases "n = 1") (simp_all add: shardGroups_def)
  qed
qed

text \<open>Parameters for the examples: the digest is the last byte of the text behind 15 zeros.\<close>

definition exRuleLib :: "cluster rule_lib" where
  "exRuleLib = \<lparr>rl_asSelector = (\<lambda>_. Inr (\<lambda>_. True)), rl_listNamespaces = (\<lambda>_. ret []), rl_listRules = (\<lambda>_ _. ret []),
     rl_yaml = (\<lambda>gs. Inr (concat (map rg_Name gs))), rl_validateRule = (\<lambda>_. []),
     rl_md5 = (\<lambda>t. replicate 15 0 @ [word_of_nat (of_char (last t))]), rl_range = rev\<rparr>"

theorem shardsRuleFiles_partition_witness:
  "let g = (\<lambda>n. \<lparr>rg_Name = n, rg_Body = []\<rparr>)
   in \<exists>fs. shardsRuleFiles exRuleLib 2 [(''a.yaml'', [g ''g1'', g ''g2'', g ''g3'']), (''b.yaml'', [])] = Inr fs \<and> length fs = 2"
proof -
  let ?g = "\<lambda>n. \<lparr>rg_Name = n, rg_Body = []\<rparr>"
  let ?rules = "[(''a.yaml'', [?g ''g1'', ?g ''g2'', ?g ''g3'']), (''b.yaml'', [])]"
  have "\<exists>fs. shardsRuleFiles exRuleLib 2 ?rules = Inr fs"
    by (rule shardsRuleFiles_total) (simp_all add: exRuleLib_def GenerateContent_def)
  then obtain fs where fs: "shardsRuleFiles exRuleLib 2 ?rules = Inr fs" by blast
  have "mset (rl_range exRuleLib ks) = mset ks" for ks by (simp add: exRuleLib_def)
  from shardsRuleFiles_partition [OF this _ _ _ fs] fs show ?thesis unfolding Let_def by simp
qed

section \<open>Buckets\<close>

abbreviation fits :: "rule_files \<Rightarrow> bool" where
  "fits b \<equiv> bucketSize b \<le> maxConfigMapDataSize"

definition contentOf :: "rule_files \<Rightarrow> string \<Rightarrow> string" where
  "contentOf files n = (case map_of files n of None \<Rightarrow> [] | Some c \<Rightarrow> c)"

text \<open>
  The state of the loop after some names: they lie in the buckets in order, no bucket is too large,
  and no two neighbouring buckets would fit into one.
\<close>

definition packInv :: "rule_files \<Rightarrow> string list \<Rightarrow> rule_files list \<times> nat \<Rightarrow> bool" where
  "packInv files names st = (case st of (buckets, cur) \<Rightarrow>
     buckets \<noteq> [] \<and> cur = length buckets - 1 \<and> concat buckets = map (\<lambda>n. (n, contentOf files n)) names \<and>
     (\<forall>b \<in> set buckets. fits b) \<and> successively (\<lambda>a b. maxConfigMapDataSize < bucketSize a + bucketSize b) buckets)"

lemma bucketSize_append [simp]: "bucketSize (a @ b) = bucketSize a + bucketSize b"
  by (simp add: bucketSize_def)

lemma bucketSize_single [simp]: "bucketSize [(n, c)] = length c" "bucketSize [] = 0"
  by (simp_all add: bucketSize_def)

lemma alistUpdate_fresh: "k \<notin> fst ` set xs \<Longrightarrow> alistUpdate k v xs = xs @ [(k, v)]"
  by (induction k v xs rule: alistUpdate.induct) auto

lemma packFile_snoc:
  assumes "f \<notin> fst ` set b"
  shows "packFile files (init @ [b], length init) f =
    (if bucketSize b + length (contentOf files f) > maxConfigMapDataSize
     then (init @ [b, [(f, contentOf files f)]], Suc (length init))
     else (init @ [b @ [(f, contentOf files f)]], length init))"
  using assms by (simp add: packFile_def contentOf_def [symmetric] Let_def alistUpdate_fresh nth_append list_update_append)

lemma packInv_step:
  assumes inv: "packInv files names st" and new: "f \<notin> set names"
    and small: "length (contentOf files f) \<le> maxConfigMapDataSize"
  shows "packInv files (names @ [f]) (packFile files st f)"
proof -
  obtain init b where st: "st = (init @ [b], length init)"
    using inv by (cases st; cases "fst st" rule: rev_cases) (auto simp: packInv_def)
  have "fst ` set (concat (init @ [b])) = set names" using inv by (auto simp: st packInv_def image_image)
  then have fresh: "f \<notin> fst ` set b" using new by auto
  show ?thesis
    using inv small unfolding st packFile_snoc [OF fresh]
    by (auto simp: packInv_def successively_append_iff)
qed

lemma packInv_fold:
  assumes "packInv files ms st" and "distinct (ms @ names)"
    and "\<forall>n \<in> set names. length (contentOf files n) \<le> maxConfigMapDataSize"
  shows "packInv files (ms @ names) (foldl (packFile files) st names)"
  using assms
proof (induction names arbitrary: ms st)
  case (Cons n ns)
  from Cons.IH [OF packInv_step [OF Cons.prems(1)]] Cons.prems(2,3) show ?case by simp
qed simp

lemma packFiles_inv:
  assumes "distinct (map fst files)" and "\<forall>(n, c) \<in> set files. length c \<le> maxConfigMapDataSize"
  shows "\<exists>cur. packInv files (sortStrings (map fst files)) (packFiles files, cur)"
proof -
  let ?ns = "sortStrings (map fst files)"
  have "packInv files [] ([[]], 0)" by (simp add: packInv_def)
  moreover have "distinct ?ns" using assms(1) by (metis mset_eq_imp_distinct_iff mset_sortStrings)
  moreover have "\<forall>n \<in> set ?ns. length (contentOf files n) \<le> maxConfigMapDataSize"
    using assms by (auto simp: contentOf_def)
  ultimately have "packInv files ?ns (foldl (packFile files) ([[]], 0) ?ns)"
    using packInv_fold [of files "[]" "([[]], 0)" ?ns] by simp
  then show ?thesis by (metis packFiles_def prod.collapse)
qed

lemma map_enumerate_upt: "map f (enumerate 0 xs) = map (\<lambda>i. f (i, xs ! i)) [0..<length xs]"
  by (rule nth_equalityI) (simp_all add: nth_enumerate_eq)

lemma tooLarge_find:
  assumes "\<And>ks. mset (rl_range lib ks) = mset ks" and "distinct (map fst files)"
  shows "find (\<lambda>n. length (the (map_of files n)) > maxConfigMapDataSize) (rl_range lib (map fst files)) = None \<longleftrightarrow>
    (\<forall>(n, c) \<in> set files. length c \<le> maxConfigMapDataSize)"
proof -
  have "set (rl_range lib (map fst files)) = fst ` set files"
    using assms(1) [of "map fst files"] by (metis mset_eq_setD set_map)
  moreover have "the (map_of files n) = c" if "(n, c) \<in> set files" for n c
    using that assms(2) by (simp add: map_of_is_SomeI)
  ultimately show ?thesis by (auto simp: find_None_iff not_less)
qed

text \<open>
  C12: packing.  The rule files of a shard are refused when one of them is larger than half a
  megabyte.  Otherwise they go, in the order of their names, into config maps that are never larger
  than that; every file is in exactly one of them with its content, the config maps are numbered
  from zero, and no two neighbouring ones would fit into one (so that there are at most twice as
  many as needed).
\<close>

theorem makeRulesConfigMaps_packs:
  assumes range: "\<And>ks. mset (rl_range lib ks) = mset ks" and dist: "distinct (map fst files)"
  shows "(case makeRulesConfigMaps lib ru files sn of
      Inl e \<Rightarrow> (\<exists>(n, c) \<in> set files. maxConfigMapDataSize < length c)
    | Inr cms \<Rightarrow> (\<exists>buckets.
        map om_Name cms = map (ruleConfigMapName ru sn) [0..<length buckets] \<and> map cm_Data cms = map map_of buckets \<and>
        map fst (concat buckets) = sortStrings (map fst files) \<and> mset (concat buckets) = mset files \<and>
        (\<forall>b \<in> set buckets. fits b) \<and>
        successively (\<lambda>a b. maxConfigMapDataSize < bucketSize a + bucketSize b) buckets))"
proof (cases "\<forall>(n, c) \<in> set files. length c \<le> maxConfigMapDataSize")
  case False
  with tooLarge_find [OF range dist] obtain n
    where "find (\<lambda>n. length (the (map_of files n)) > maxConfigMapDataSize) (rl_range lib (map fst files)) = Some n" by auto
  moreover have "\<exists>(n, c) \<in> set files. maxConfigMapDataSize < length c" using False by (force simp: not_le)
  ultimately show ?thesis by (simp add: makeRulesConfigMaps_def)
next
  case True
  let ?bs = "packFiles files" and ?ns = "sortStrings (map fst files)"
  let ?cm = "\<lambda>(i, b). (Ruler_meta ru (ruleConfigMapName ru sn i) zeroConfigMap)\<lparr>cm_Data := map_of b\<rparr>"
  have cms: "makeRulesConfigMaps lib ru files sn = Inr (map ?cm (enumerate 0 ?bs))"
    using tooLarge_find [OF range dist] True by (simp add: makeRulesConfigMaps_def)
  have names: "map om_Name (map ?cm (enumerate 0 ?bs)) = map (ruleConfigMapName ru sn) [0..<length ?bs]"
    by (simp add: map_enumerate_upt Ruler_meta_def)
  have data: "map cm_Data (map ?cm (enumerate 0 ?bs)) = map map_of ?bs"
    by (rule nth_equalityI) (simp_all add: nth_enumerate_eq)
  obtain cur where inv: "packInv files ?ns (?bs, cur)" using packFiles_inv [OF dist True] by blast
  then have bs: "concat ?bs = map (\<lambda>n. (n, contentOf files n)) ?ns" by (simp add: packInv_def)
  have "(fst x, contentOf files (fst x)) = x" if "x \<in> set files" for x
    using map_of_is_SomeI [OF dist, of "fst x" "snd x"] that by (simp add: contentOf_def)
  then have "map (\<lambda>n. (n, contentOf files n)) (map fst files) = files" by (simp add: map_idI)
  then have "mset (concat ?bs) = mset files" unfolding bs by (metis mset_map mset_sortStrings)
  moreover have "map fst (concat ?bs) = ?ns" by (simp add: bs comp_def)
  ultimately show ?thesis
    unfolding cms using inv names data by (auto simp: packInv_def intro!: exI [of _ ?bs])
qed

theorem makeRulesConfigMaps_packs_witness:
  "map_of [(''b.yaml'', ''B''), (''a.yaml'', ''A'')] = map_of [(''a.yaml'', ''A''), (''b.yaml'', ''B'')] \<and>
   (case makeRulesConfigMaps exRuleLib zeroRuler [(''b.yaml'', ''B''), (''a.yaml'', ''A'')] 3 of
      Inl e \<Rightarrow> False
    | Inr cms \<Rightarrow> (\<exists>buckets. map cm_Data cms = map map_of buckets \<and> map fst (concat buckets) = [''a.yaml'', ''b.yaml'']))"
proof -
  have range: "mset (rl_range exRuleLib ks) = mset ks" for ks by (simp add: exRuleLib_def)
  have sorted: "sortStrings [''b.yaml'', ''a.yaml''] = [''a.yaml'', ''b.yaml'']" by code_simp
  show ?thesis
    using makeRulesConfigMaps_packs [OF range, of "[(''b.yaml'', ''B''), (''a.yaml'', ''A'')]" zeroRuler 3]
    by (auto simp: sorted maxConfigMapDataSize_def split: sum.splits)
qed

section \<open>Names\<close>

text \<open>Two rules of different namespaces can claim the same file; the one that comes second is dropped.\<close>

lemma ruleFile_clash:
  assumes "om_Namespace a = ns @ ''-'' @ m" and "om_Name a = n" and "om_Namespace b = ns" and "om_Name b = m @ ''-'' @ n"
  shows "ruleFile a = ruleFile b \<and> addRule (addRule [] a) b = [(ruleFile a, pr_Groups a)]"
  using assms by (simp add: ruleFile_def addRule_def)

lemma isSequenceNumber_itoaNat: "isSequenceNumber (itoaNat n)"
proof (induction n rule: itoaNat.induct)
  case (1 n)
  show ?case
  proof (cases "n < 10")
    case True
    have zero: "digitChar 0 = CHR ''0''" by code_simp
    then have "digitChar n = CHR ''0'' \<longleftrightarrow> n = 0"
      using charDigit_digitChar [OF True] charDigit_digitChar [of 0] by auto
    then show ?thesis using itoaNat_digits [of n] True zero
      by (auto simp: isSequenceNumber_def itoaNat.simps [of n] list_all_iff)
  next
    case False
    then have "isSequenceNumber (itoaNat (n div 10))" using 1 by simp
    moreover have "itoaNat (n div 10) \<noteq> ''0''"
    proof
      assume "itoaNat (n div 10) = ''0''"
      then have "digitsVal (itoaNat (n div 10)) = 0" by (simp add: digitsVal_def charDigit_def)
      then show False using False by (simp add: digitsVal_itoaNat div_eq_0_iff)
    qed
    ultimately show ?thesis using itoaNat_digits [of n] False
      by (auto simp: isSequenceNumber_def itoaNat.simps [of n] list_all_iff hd_append)
  qed
qed

lemma digitChar_charDigit: "isDigit c \<Longrightarrow> digitChar (charDigit c) = c"
  by (simp add: isDigit_def charDigit_def digitChar_def)

lemma charDigit_less: "isDigit c \<Longrightarrow> charDigit c < 10"
  unfolding isDigit_def charDigit_def by linarith

text \<open>The regular expression of the sequence numbers matches the decimal numerals and nothing else.\<close>

lemma itoaNat_digitsVal:
  "s \<noteq> [] \<Longrightarrow> hd s \<noteq> CHR ''0'' \<Longrightarrow> list_all isDigit s \<Longrightarrow> itoaNat (digitsVal s) = s \<and> 0 < digitsVal s"
proof (induction s rule: rev_induct)
  case (snoc c t)
  then have c: "isDigit c" "charDigit c < 10" "digitChar (charDigit c) = c"
    using digitChar_charDigit charDigit_less by auto
  have v: "digitsVal (t @ [c]) = 10 * digitsVal t + charDigit c" by (simp add: digitsVal_def)
  show ?case
  proof (cases "t = []")
    case True
    moreover have "digitChar 0 = CHR ''0''" by (simp add: digitChar_def char_of_def bit_0)
    ultimately have "charDigit c \<noteq> 0" using snoc.prems(2) c(3) by (metis append_Nil list.sel(1))
    with True v c show ?thesis by (simp add: itoaNat.simps digitsVal_def)
  next
    case False
    then have "itoaNat (digitsVal t) = t \<and> 0 < digitsVal t" using snoc by simp
    with c show ?thesis unfolding v by (simp add: itoaNat.simps [of "10 * digitsVal t + charDigit c"])
  qed
qed simp

lemma isSequenceNumber_iff: "isSequenceNumber s \<longleftrightarrow> (\<exists>n. s = itoaNat n)"
proof
  assume "isSequenceNumber s"
  then consider "s = ''0''" | "s \<noteq> []" "hd s \<noteq> CHR ''0''" "list_all isDigit s" by (auto simp: isSequenceNumber_def)
  then show "\<exists>n. s = itoaNat n"
  proof cases
    case 1
    then have "s = itoaNat 0" by (simp add: itoaNat.simps digitChar_def char_of_def bit_0)
    then show ?thesis ..
  next
    case 2
    then show ?thesis using itoaNat_digitsVal [of s] by metis
  qed
qed (use isSequenceNumber_itoaNat in blast)

lemma no_dash_sequence: "isSequenceNumber s \<Longrightarrow> CHR ''-'' \<notin> set s"
  by (auto simp: isSequenceNumber_def list_all_iff isDigit_def)

lemma no_dash_itoaNat: "CHR ''-'' \<notin> set (itoaNat n)"
  by (rule no_dash_sequence [OF isSequenceNumber_itoaNat])

lemma last_sep_unique:
  assumes "a @ c # y = a' @ c # y'" and "c \<notin> set y" and "c \<notin> set y'"
  shows "a = a' \<and> y = y'"
  using assms by (auto simp: append_eq_append_conv2 append_eq_Cons_conv Cons_eq_append_conv)

lemma ruleConfigMapName_inj:
  "ruleConfigMapName ru k i = ruleConfigMapName ru' k' i' \<longleftrightarrow> om_Name ru = om_Name ru' \<and> k = k' \<and> i = i'"
proof
  let ?P = "Ruler_name ru [''rulefiles'']" and ?P' = "Ruler_name ru' [''rulefiles'']"
  assume "ruleConfigMapName ru k i = ruleConfigMapName ru' k' i'"
  then have "(?P @ ''-'' @ itoaNat k) @ CHR ''-'' # itoaNat i = (?P' @ ''-'' @ itoaNat k') @ CHR ''-'' # itoaNat i'"
    by (simp add: ruleConfigMapName_def)
  from last_sep_unique [OF this no_dash_itoaNat no_dash_itoaNat]
  have i: "i = i'" and k: "?P @ CHR ''-'' # itoaNat k = ?P' @ CHR ''-'' # itoaNat k'" by simp_all
  from last_sep_unique [OF k no_dash_itoaNat no_dash_itoaNat] have "?P = ?P'" "k = k'" by simp_all
  then show "om_Name ru = om_Name ru' \<and> k = k' \<and> i = i'" using i unfolding Ruler_name_def by (metis QualifiedName_inj)
qed (simp add: ruleConfigMapName_def Ruler_name_def)

text \<open>The names that a ruler takes for its own are those it generates, for any shard and number.\<close>

lemma ownsRuleConfigMap_iff: "ownsRuleConfigMap ru name \<longleftrightarrow> (\<exists>k i. name = ruleConfigMapName ru k i)"
proof
  let ?P = "Ruler_name ru [''rulefiles''] @ ''-''"
  assume owns: "ownsRuleConfigMap ru name"
  then obtain t where t: "name = ?P @ t" by (auto simp: ownsRuleConfigMap_def Let_def hasPrefix_iff)
  have "case splitOn CHR ''-'' t of [x, y] \<Rightarrow> isSequenceNumber x \<and> isSequenceNumber y | _ \<Rightarrow> False"
    using owns unfolding ownsRuleConfigMap_def Let_def t trimPrefix_append by (rule conjunct2)
  then obtain x y where xy: "splitOn CHR ''-'' t = [x, y]" "isSequenceNumber x" "isSequenceNumber y"
    by (auto split: list.splits)
  then obtain k i where "x = itoaNat k" "y = itoaNat i" by (auto simp: isSequenceNumber_iff)
  moreover have "t = x @ ''-'' @ y" using join_split [of "CHR ''-''" t] xy(1) by simp
  ultimately have "name = ruleConfigMapName ru k i" using t by (simp add: ruleConfigMapName_def)
  then show "\<exists>k i. name = ruleConfigMapName ru k i" by blast
next
  assume "\<exists>k i. name = ruleConfigMapName ru k i"
  then obtain k i where "name = (Ruler_name ru [''rulefiles''] @ ''-'') @ itoaNat k @ CHR ''-'' # itoaNat i"
    by (auto simp: ruleConfigMapName_def)
  then show "ownsRuleConfigMap ru name"
    by (simp only: ownsRuleConfigMap_def Let_def trimPrefix_append hasPrefix_append)
      (simp add: splitOn_append splitOn_no_sep no_dash_itoaNat isSequenceNumber_itoaNat)
qed

section \<open>What is written and deleted\<close>

lemma alistUpdate_new: "k \<notin> fst ` set xs \<Longrightarrow> alistUpdate k v xs = xs @ [(k, v)]"
  by (induction k v xs rule: alistUpdate.induct) auto

lemma targetsOf_distinct: "distinct (map om_Name cms) \<Longrightarrow> targetsOf cms = map (\<lambda>cm. (om_Name cm, cm)) cms"
  by (induction cms rule: rev_induct) (auto simp: targetsOf_def alistUpdate_new image_image)

text \<open>The names of the config maps that are generated: each its own, and all of them of this ruler.\<close>

lemma makeRulesConfigMaps_names:
  "makeRulesConfigMaps lib ru files sn = Inr cms \<Longrightarrow> map om_Name cms = map (ruleConfigMapName ru sn) [0..<length cms]"
  by (auto simp: makeRulesConfigMaps_def map_enumerate_upt Ruler_meta_def split: option.splits)

lemma shardConfigMaps_names:
  assumes "foldR (\<lambda>acc (sn, files). bindR (makeRulesConfigMaps lib ru files sn) (\<lambda>cms. Inr (acc @ [cms]))) acc (enumerate n shards) = Inr res"
    and "distinct (map om_Name (concat acc))"
    and "\<And>cm. cm \<in> set (concat acc) \<Longrightarrow> \<exists>k i. k < n \<and> om_Name cm = ruleConfigMapName ru k i"
  shows "distinct (map om_Name (concat res)) \<and> (\<forall>cm \<in> set (concat res). \<exists>k i. om_Name cm = ruleConfigMapName ru k i)"
  using assms
proof (induction shards arbitrary: acc n)
  case (Cons files shards)
  then obtain cms where cms: "makeRulesConfigMaps lib ru files n = Inr cms"
    and rest: "foldR (\<lambda>acc (sn, files). bindR (makeRulesConfigMaps lib ru files sn) (\<lambda>cms. Inr (acc @ [cms]))) (acc @ [cms]) (enumerate (Suc n) shards) = Inr res"
    by (auto simp: bindR_Inr_iff)
  note names = makeRulesConfigMaps_names [OF cms]
  have new: "\<exists>i. om_Name cm = ruleConfigMapName ru n i" if "cm \<in> set cms" for cm
  proof -
    have "om_Name cm \<in> set (map (ruleConfigMapName ru n) [0..<length cms])" using that unfolding names [symmetric] by simp
    then show ?thesis by auto
  qed
  have "distinct (map om_Name cms)" unfolding names by (simp add: distinct_map inj_on_def ruleConfigMapName_inj)
  moreover have "om_Name a \<noteq> om_Name b" if "a \<in> set (concat acc)" "b \<in> set cms" for a b
    using Cons.prems(3) [OF that(1)] new [OF that(2)] by (auto simp: ruleConfigMapName_inj)
  ultimately have dist: "distinct (map om_Name (concat (acc @ [cms])))" using Cons.prems(2) by force
  have "\<exists>k i. k < Suc n \<and> om_Name cm = ruleConfigMapName ru k i" if "cm \<in> set (concat (acc @ [cms]))" for cm
    using that Cons.prems(3) [of cm] new [of cm] by (auto intro: less_SucI)
  then show ?case by (rule Cons.IH [OF rest dist])
next
  case Nil
  then have "res = acc" by simp
  then show ?case using Nil.prems(2,3) by blast
qed

definition unchangedIn :: "config_map list \<Rightarrow> config_map \<Rightarrow> bool" where
  "unchangedIn items cm \<longleftrightarrow> list_ex (\<lambda>current. om_Name current = om_Name cm \<and> sameData (cm_Data cm) (cm_Data current)) items"

lemma concat_choice: "concat (map (\<lambda>x. if P x then [] else [f x]) xs) = map f (filter (\<lambda>x. \<not> P x) xs)"
  by (induction xs) auto

lemma ruleResources_exact:
  assumes range: "\<And>ks. mset (rl_range lib ks) = mset ks"
    and dist: "distinct (map om_Name cms)" "distinct (map om_Name items)"
    and owns: "\<And>cm. cm \<in> set cms \<Longrightarrow> ownsRuleConfigMap ru (om_Name cm)"
  shows "\<exists>writes. ruleResources lib ru (targetsOf cms) items =
      map (\<lambda>cm. ret (OConfigMap cm, OperationDelete))
        (filter (\<lambda>cm. ownsRuleConfigMap ru (om_Name cm) \<and> om_Name cm \<notin> om_Name ` set cms) items) @
      map (\<lambda>cm. ret (OConfigMap cm, OperationCreateOrUpdate)) writes \<and>
    mset writes = mset (filter (\<lambda>cm. \<not> unchangedIn items cm) cms)"
proof -
  let ?ts = "map (\<lambda>cm. (om_Name cm, cm)) cms" and ?cur = "filter (\<lambda>cm. ownsRuleConfigMap ru (om_Name cm)) items"
  have keys: "map fst ?ts = map om_Name cms" by simp
  have target: "map_of ?ts (om_Name cm) = Some cm" if "cm \<in> set cms" for cm
    using that dist(1) by (intro map_of_is_SomeI) (auto simp: comp_def)
  have none: "map_of ?ts n = None \<longleftrightarrow> n \<notin> om_Name ` set cms" for n by (simp add: map_of_eq_None_iff image_image)
  have curd: "distinct (map om_Name ?cur)" using dist(2) by (rule distinct_map_filter)
  have current: "(case map_of (targetsOf ?cur) (om_Name cm) of Some current \<Rightarrow> sameData (cm_Data cm) (cm_Data current) | None \<Rightarrow> False) =
      unchangedIn items cm" if "cm \<in> set cms" for cm
  proof -
    have "map_of (targetsOf ?cur) (om_Name cm) = Some c \<longleftrightarrow> c \<in> set items \<and> om_Name c = om_Name cm" for c
      unfolding targetsOf_distinct [OF curd] using owns [OF that] curd
      by (subst map_of_eq_Some_iff) (auto simp: comp_def image_iff)
    then show ?thesis unfolding unchangedIn_def list_ex_iff
      by (cases "map_of (targetsOf ?cur) (om_Name cm)") (simp_all, metis)
  qed
  define names where "names = rl_range lib (map om_Name cms)"
  have names: "mset names = mset (map om_Name cms)" using range by (simp add: names_def)
  define tgt where "tgt n = the (map_of ?ts n)" for n
  have tgt: "n \<in> set names \<Longrightarrow> tgt n \<in> set cms \<and> map_of ?ts n = Some (tgt n) \<and> om_Name (tgt n) = n" for n
    using names target mset_eq_setD [OF names] by (auto simp: tgt_def)
  let ?writes = "map tgt (filter (\<lambda>n. \<not> unchangedIn items (tgt n)) names)"
  have step: "(case map_of ?ts name of None \<Rightarrow> []
        | Some target \<Rightarrow> (case map_of (targetsOf ?cur) name of
               Some current \<Rightarrow> (if sameData (cm_Data target) (cm_Data current) then [] else [ret (OConfigMap target, OperationCreateOrUpdate)])
             | None \<Rightarrow> [ret (OConfigMap target, OperationCreateOrUpdate)])) =
      (if unchangedIn items (tgt name) then [] else [ret (OConfigMap (tgt name), OperationCreateOrUpdate)])" if "name \<in> set names" for name
    using tgt [OF that] current [of "tgt name"] by (auto split: option.splits)
  have "map tgt (map om_Name cms) = cms" using target by (simp add: tgt_def map_idI)
  then have "image_mset tgt (mset names) = mset cms" unfolding names by (metis mset_map)
  then have "mset ?writes = mset (filter (\<lambda>cm. \<not> unchangedIn items cm) cms)"
    by (metis (no_types, lifting) filter_map comp_apply filter_cong mset_filter mset_map)
  moreover have "ruleResources lib ru ?ts items =
      map (\<lambda>cm. ret (OConfigMap cm, OperationDelete)) (filter (\<lambda>cm. ownsRuleConfigMap ru (om_Name cm) \<and> om_Name cm \<notin> om_Name ` set cms) items) @
      map (\<lambda>cm. ret (OConfigMap cm, OperationCreateOrUpdate)) ?writes"
    unfolding ruleResources_def Let_def keys names_def [symmetric]
    by (simp add: step none concat_choice conj_commute cong: map_cong)
  ultimately show ?thesis unfolding targetsOf_distinct [OF dist(1)] by blast
qed


text \<open>
  A ruler without rules, two config maps of which one is not needed any more, and a config map of a ruler whose
  name continues that of the first.
\<close>

definition noObjects :: cluster where
  "noObjects = \<lparr>c_tenants = [], c_ingesters = [], c_compactors = [], c_rulers = [], c_stores = [], c_services = [], c_storages = []\<rparr>"

definition exRulesRuler :: ruler where
  "exRulesRuler = zeroRuler\<lparr>om_Name := ''r''\<rparr>"

definition exRuleMaps :: "config_map list" where
  "exRuleMaps = map (\<lambda>n. zeroConfigMap\<lparr>om_Name := n\<rparr>)
     [''ruler-r-rulefiles-0-0'', ''ruler-r-rulefiles-0-1'', ''ruler-r-rulefiles-2-rulefiles-0-0'']"


end
