(* ===== verification/Net_Url.thy ===== *)
theory Net_Url
  imports Http_Url "HOL-Library.Word"
begin

text \<open>
  What the workloads use of \<^verbatim>\<open>path/filepath\<close>, \<^verbatim>\<open>net\<close>, \<^verbatim>\<open>strconv\<close> and \<^verbatim>\<open>net/url\<close>: joining and
  cleaning paths, \<^verbatim>\<open>net.SplitHostPort\<close>, \<^verbatim>\<open>strconv.ParseUint\<close> at 32 bits, and \<^verbatim>\<open>url.Parse\<close> with
  \<^verbatim>\<open>URL.String\<close>.  The lemmas at the end say what the parser makes of the addresses that the
  components generate for each other.
\<close>

section \<open>Paths\<close>

fun cleanSegs :: "bool \<Rightarrow> string list \<Rightarrow> string list \<Rightarrow> string list" where
  "cleanSegs rooted out [] = rev out"
| "cleanSegs rooted out (s # ss) =
     (if s = [] \<or> s = ''.'' then cleanSegs rooted out ss
      else if s = ''..'' then
        (case out of
           o1 # os \<Rightarrow> if o1 \<noteq> ''..'' then cleanSegs rooted os ss else cleanSegs rooted (s # out) ss
         | [] \<Rightarrow> if rooted then cleanSegs rooted out ss else cleanSegs rooted (s # out) ss)
      else cleanSegs rooted (s # out) ss)"

definition cleanPath :: "string \<Rightarrow> string" where
  "cleanPath p =
     (let rooted = hasPrefix p ''/''; body = joinStr ''/'' (cleanSegs rooted [] (splitOn CHR ''/'' p)) in
      if rooted then CHR ''/'' # body else if body = [] then ''.'' else body)"

text \<open>\<^verbatim>\<open>filepath.Join\<close>: empty elements in front are dropped, the rest is joined and cleaned.\<close>

definition joinPath :: "string list \<Rightarrow> string" where
  "joinPath elems = (case dropWhile (\<lambda>e. e = []) elems of [] \<Rightarrow> [] | es \<Rightarrow> cleanPath (joinStr ''/'' es))"

section \<open>Hosts and ports\<close>

primrec indexByte :: "char \<Rightarrow> string \<Rightarrow> nat option" where
  "indexByte c [] = None"
| "indexByte c (x # xs) = (if x = c then Some 0 else map_option Suc (indexByte c xs))"

definition lastIndexByte :: "char \<Rightarrow> string \<Rightarrow> nat option" where
  "lastIndexByte c s = map_option (\<lambda>n. length s - Suc n) (indexByte c (rev s))"

definition addrErr :: "string \<Rightarrow> string \<Rightarrow> 'a res" where
  "addrErr addr why = Inl (GoErr (''address '' @ addr @ '': '' @ why))"

definition noBrackets :: "string \<Rightarrow> nat \<Rightarrow> nat \<Rightarrow> string \<Rightarrow> nat \<Rightarrow> (string \<times> string) res" where
  "noBrackets hostport j k host i =
     (if CHR ''['' \<in> set (drop j hostport) then addrErr hostport ''unexpected [ in address''
      else if CHR '']'' \<in> set (drop k hostport) then addrErr hostport ''unexpected ] in address''
      else Inr (host, drop (i + 1) hostport))"

definition SplitHostPort :: "string \<Rightarrow> (string \<times> string) res" where
  "SplitHostPort hostport = (case lastIndexByte CHR '':'' hostport of
       None \<Rightarrow> addrErr hostport ''missing port in address''
     | Some i \<Rightarrow>
         if hasPrefix hostport ''['' then
           (case indexByte CHR '']'' hostport of
              None \<Rightarrow> addrErr hostport ''missing ] in address''
            | Some end1 \<Rightarrow>
                if end1 + 1 = length hostport then addrErr hostport ''missing port in address''
                else if end1 + 1 = i then noBrackets hostport 1 (end1 + 1) (drop 1 (take end1 hostport)) i
                else if hostport ! (end1 + 1) = CHR '':'' then addrErr hostport ''too many colons in address''
                else addrErr hostport ''missing port in address'')
         else if CHR '':'' \<in> set (take i hostport) then addrErr hostport ''too many colons in address''
         else noBrackets hostport 0 0 (take i hostport) i)"

text \<open>\<^verbatim>\<open>strconv.ParseUint(s, 10, 32)\<close>.\<close>

definition parseUint32 :: "string \<Rightarrow> 32 word res" where
  "parseUint32 s =
     (if s = [] \<or> \<not> list_all isDigit s then Inl (GoErr (''parsing '' @ s @ '': invalid syntax''))
      else if digitsVal s \<ge> 2 ^ 32 then Inl (GoErr (''parsing '' @ s @ '': value out of range''))
      else Inr (of_nat (digitsVal s)))"

section \<open>URLs\<close>

datatype encoding = EncodePath | EncodeUserPassword | EncodeHost | EncodeZone | EncodeFragment

definition isAlnum :: "char \<Rightarrow> bool" where
  "isAlnum c = (let n = (of_char c :: nat) in 48 \<le> n \<and> n \<le> 57 \<or> 65 \<le> n \<and> n \<le> 90 \<or> 97 \<le> n \<and> n \<le> 122)"

definition shouldEscape :: "encoding \<Rightarrow> char \<Rightarrow> bool" where
  "shouldEscape mode c =
     (if isAlnum c then False
      else if mode \<in> {EncodeHost, EncodeZone} \<and> c \<in> set (''!$&()*+,;=:[]<>'' @ [CHR 0x27, CHR 0x22]) then False
      else if c \<in> set ''-_.~'' then False
      else if c \<in> set ''$&+,/:;=?@'' \<and> mode = EncodePath then c = CHR ''?''
      else if c \<in> set ''$&+,/:;=?@'' \<and> mode = EncodeUserPassword then c \<in> set ''@/?:''
      else if c \<in> set ''$&+,/:;=?@'' \<and> mode = EncodeFragment then False
      else if mode = EncodeFragment \<and> c \<in> set ''!()*'' then False
      else True)"

definition escapeUrl :: "encoding \<Rightarrow> string \<Rightarrow> string" where
  "escapeUrl mode s = concat (map (\<lambda>c. if shouldEscape mode c
     then [CHR ''%'', hexDigit (of_char c div 16), hexDigit (of_char c mod 16)] else [c]) s)"

fun unescapeUrl :: "encoding \<Rightarrow> string \<Rightarrow> string option" where
  "unescapeUrl mode [] = Some []"
| "unescapeUrl mode (c # cs) =
     (if c = CHR ''%'' then
        (case cs of
           h # l # rest \<Rightarrow>
             (case (unhexDigit h, unhexDigit l) of
                (Some a, Some b) \<Rightarrow>
                  (let v = char_of (16 * a + b) in
                   if mode = EncodeHost \<and> a < 8 \<and> [h, l] \<noteq> ''25'' then None
                   else if mode = EncodeZone \<and> [h, l] \<noteq> ''25'' \<and> v \<noteq> CHR '' '' \<and> shouldEscape EncodeHost v then None
                   else map_option (\<lambda>r. v # r) (unescapeUrl mode rest))
              | _ \<Rightarrow> None)
         | _ \<Rightarrow> None)
      else if mode \<in> {EncodeHost, EncodeZone} \<and> (of_char c :: nat) < 128 \<and> shouldEscape mode c then None
      else map_option (\<lambda>r. c # r) (unescapeUrl mode cs))"

record url =
  u_Scheme :: string
  u_Opaque :: string
  u_User :: "(string \<times> string option) option"
  u_Host :: string
  u_Path :: string
  u_RawPath :: string
  u_ForceQuery :: bool
  u_RawQuery :: string
  u_Fragment :: string
  u_RawFragment :: string
  u_OmitHost :: bool

definition emptyUrl :: url where
  "emptyUrl = \<lparr>u_Scheme = [], u_Opaque = [], u_User = None, u_Host = [], u_Path = [], u_RawPath = [],
     u_ForceQuery = False, u_RawQuery = [], u_Fragment = [], u_RawFragment = [], u_OmitHost = False\<rparr>"

definition urlErr :: "'a res" where
  "urlErr = Inl (GoErr ''parse url'')"

definition optUrl :: "'a option \<Rightarrow> 'a res" where
  "optUrl x = (case x of None \<Rightarrow> urlErr | Some v \<Rightarrow> Inr v)"

text \<open>\<^verbatim>\<open>strings.Cut\<close> at a byte.\<close>

definition cutAt :: "char \<Rightarrow> string \<Rightarrow> string \<times> string" where
  "cutAt c s = (takeWhile (\<lambda>x. x \<noteq> c) s, drop 1 (dropWhile (\<lambda>x. x \<noteq> c) s))"

text \<open>
  \<^verbatim>\<open>getScheme\<close>: what stands before the first colon, if it starts with a letter and has letters,
  digits and the marks \<open>+-.\<close> only.
\<close>

definition getScheme :: "string \<Rightarrow> (string \<times> string) res" where
  "getScheme raw =
     (let isLetter = (\<lambda>c. isAlnum c \<and> \<not> isDigit c);
          pre = takeWhile (\<lambda>c. isAlnum c \<or> c \<in> set ''+-.'') raw in
      case raw of
        [] \<Rightarrow> Inr ([], raw)
      | c # _ \<Rightarrow>
          if c = CHR '':'' then urlErr
          else if \<not> isLetter c then Inr ([], raw)
          else if length pre < length raw \<and> raw ! length pre = CHR '':'' then Inr (pre, drop (length pre + 1) raw)
          else Inr ([], raw))"

definition validOptionalPort :: "string \<Rightarrow> bool" where
  "validOptionalPort p = (case p of [] \<Rightarrow> True | c # cs \<Rightarrow> c = CHR '':'' \<and> list_all isDigit cs)"

fun indexSub :: "string \<Rightarrow> string \<Rightarrow> nat option" where
  "indexSub sub [] = (if sub = [] then Some 0 else None)"
| "indexSub sub (c # cs) = (if hasPrefix (c # cs) sub then Some 0 else map_option Suc (indexSub sub cs))"

definition parseHost :: "string \<Rightarrow> string res" where
  "parseHost host =
     (if hasPrefix host ''['' then
        (case lastIndexByte CHR '']'' host of
           None \<Rightarrow> urlErr
         | Some i \<Rightarrow>
             if \<not> validOptionalPort (drop (i + 1) host) then urlErr
             else (case indexSub ''%25'' (take i host) of
                     None \<Rightarrow> optUrl (unescapeUrl EncodeHost host)
                   | Some z \<Rightarrow>
                       bindR (optUrl (unescapeUrl EncodeHost (take z host))) (\<lambda>h1.
                       bindR (optUrl (unescapeUrl EncodeZone (drop z (take i host)))) (\<lambda>h2.
                       bindR (optUrl (unescapeUrl EncodeHost (drop i host))) (\<lambda>h3. Inr (h1 @ h2 @ h3))))))
      else (case lastIndexByte CHR '':'' host of
              Some i \<Rightarrow> if \<not> validOptionalPort (drop i host) then urlErr else optUrl (unescapeUrl EncodeHost host)
            | None \<Rightarrow> optUrl (unescapeUrl EncodeHost host)))"

definition validUserinfo :: "string \<Rightarrow> bool" where
  "validUserinfo s = list_all (\<lambda>c. isAlnum c \<or> c \<in> set (''-._:~!$&()*+,;=%@'' @ [CHR 0x27])) s"

definition parseAuthority :: "string \<Rightarrow> ((string \<times> string option) option \<times> string) res" where
  "parseAuthority a = (case lastIndexByte CHR ''@'' a of
       None \<Rightarrow> bindR (parseHost a) (\<lambda>h. Inr (None, h))
     | Some i \<Rightarrow> bindR (parseHost (drop (i + 1) a)) (\<lambda>h.
         let userinfo = take i a in
         if \<not> validUserinfo userinfo then urlErr
         else if CHR '':'' \<notin> set userinfo then
           bindR (optUrl (unescapeUrl EncodeUserPassword userinfo)) (\<lambda>u. Inr (Some (u, None), h))
         else (case cutAt CHR '':'' userinfo of (un, pw) \<Rightarrow>
           bindR (optUrl (unescapeUrl EncodeUserPassword un)) (\<lambda>u.
           bindR (optUrl (unescapeUrl EncodeUserPassword pw)) (\<lambda>p. Inr (Some (u, Some p), h))))))"

definition setPath :: "string \<Rightarrow> url \<Rightarrow> url res" where
  "setPath p u = bindR (optUrl (unescapeUrl EncodePath p)) (\<lambda>path.
     Inr (u\<lparr>u_Path := path, u_RawPath := (if p = escapeUrl EncodePath path then [] else p)\<rparr>))"

definition splitQuery :: "string \<Rightarrow> url \<Rightarrow> string \<times> url" where
  "splitQuery rest u =
     (if hasSuffix rest ''?'' \<and> length (filter (\<lambda>c. c = CHR ''?'') rest) = 1
      then (butlast rest, u\<lparr>u_ForceQuery := True\<rparr>)
      else (case cutAt CHR ''?'' rest of (r, q) \<Rightarrow> (r, u\<lparr>u_RawQuery := q\<rparr>)))"

definition parseRest :: "string \<Rightarrow> url \<Rightarrow> url res" where
  "parseRest rest u =
     (if \<not> hasPrefix rest ''/'' \<and> u_Scheme u \<noteq> [] then Inr (u\<lparr>u_Opaque := rest\<rparr>)
      else if \<not> hasPrefix rest ''/'' \<and> CHR '':'' \<in> set (fst (cutAt CHR ''/'' rest)) then urlErr
      else if (u_Scheme u \<noteq> [] \<or> \<not> hasPrefix rest ''///'') \<and> hasPrefix rest ''//'' then
        (let a = drop 2 rest; authority = takeWhile (\<lambda>c. c \<noteq> CHR ''/'') a; path = dropWhile (\<lambda>c. c \<noteq> CHR ''/'') a in
         bindR (parseAuthority authority) (\<lambda>(user, host). setPath path (u\<lparr>u_User := user, u_Host := host\<rparr>)))
      else setPath rest (if u_Scheme u \<noteq> [] \<and> hasPrefix rest ''/'' then u\<lparr>u_OmitHost := True\<rparr> else u))"

definition urlParseNoFrag :: "string \<Rightarrow> url res" where
  "urlParseNoFrag raw =
     (if \<exists>c \<in> set raw. (of_char c :: nat) < 32 \<or> of_char c = (127 :: nat) then urlErr
      else if raw = ''*'' then Inr (emptyUrl\<lparr>u_Path := ''*''\<rparr>)
      else bindR (getScheme raw) (\<lambda>(scheme, rest).
        case splitQuery rest (emptyUrl\<lparr>u_Scheme := map lowerByte scheme\<rparr>) of (r, u) \<Rightarrow> parseRest r u))"

definition urlParse :: "string \<Rightarrow> url res" where
  "urlParse raw = (case cutAt CHR ''#'' raw of (u, frag) \<Rightarrow>
     bindR (urlParseNoFrag u) (\<lambda>p.
       if frag = [] then Inr p
       else bindR (optUrl (unescapeUrl EncodeFragment frag)) (\<lambda>f.
         Inr (p\<lparr>u_Fragment := f, u_RawFragment := (if frag = escapeUrl EncodeFragment f then [] else frag)\<rparr>))))"

text \<open>\<^verbatim>\<open>URL.String\<close>.\<close>

definition validEncoded :: "encoding \<Rightarrow> string \<Rightarrow> bool" where
  "validEncoded mode s = list_all (\<lambda>c. c \<in> set (''!$&()*+,;=:@[]%'' @ [CHR 0x27]) \<or> \<not> shouldEscape mode c) s"

definition escapedPart :: "encoding \<Rightarrow> string \<Rightarrow> string \<Rightarrow> string" where
  "escapedPart mode raw part =
     (if raw \<noteq> [] \<and> validEncoded mode raw \<and> unescapeUrl mode raw = Some part then raw else escapeUrl mode part)"

definition urlPathText :: "url \<Rightarrow> string" where
  "urlPathText u = (let path = (if u_Path u = ''*'' \<and> u_RawPath u = [] then ''*'' else escapedPart EncodePath (u_RawPath u) (u_Path u)) in
     if path \<noteq> [] \<and> hd path \<noteq> CHR ''/'' \<and> u_Host u \<noteq> [] then CHR ''/'' # path else path)"

definition urlAuthority :: "url \<Rightarrow> string" where
  "urlAuthority u =
     (if (u_Scheme u = [] \<and> u_Host u = [] \<and> u_User u = None) \<or> (u_OmitHost u \<and> u_Host u = [] \<and> u_User u = None) then []
      else (if u_Host u \<noteq> [] \<or> u_Path u \<noteq> [] \<or> u_User u \<noteq> None then ''//'' else []) @
        (case u_User u of
           None \<Rightarrow> []
         | Some (n, pw) \<Rightarrow> escapeUrl EncodeUserPassword n @
             (case pw of None \<Rightarrow> [] | Some p \<Rightarrow> CHR '':'' # escapeUrl EncodeUserPassword p) @ ''@'') @
        escapeUrl EncodeHost (u_Host u))"

definition urlString :: "url \<Rightarrow> string" where
  "urlString u =
     (let scheme = (if u_Scheme u \<noteq> [] then u_Scheme u @ '':'' else []);
          front = (if u_Opaque u \<noteq> [] then scheme @ u_Opaque u
                   else (let pre = scheme @ urlAuthority u; path = urlPathText u in
                         pre @ (if pre = [] \<and> CHR '':'' \<in> set (fst (cutAt CHR ''/'' path)) then ''./'' else []) @ path))
      in front @ (if u_ForceQuery u \<or> u_RawQuery u \<noteq> [] then CHR ''?'' # u_RawQuery u else []) @
         (if u_Fragment u \<noteq> [] then CHR ''#'' # escapedPart EncodeFragment (u_RawFragment u) (u_Fragment u) else []))"

section \<open>The addresses the components generate\<close>

text \<open>Names of Kubernetes objects: letters, digits, dashes and dots.\<close>

definition plainHost :: "string \<Rightarrow> bool" where
  "plainHost h = list_all (\<lambda>c. isAlnum c \<or> c = CHR ''-'' \<or> c = CHR ''.'') h"

lemma plainHost_append [simp]: "plainHost (a @ b) \<longleftrightarrow> plainHost a \<and> plainHost b"
  by (simp add: plainHost_def)

lemma isAlnum_cases: "isAlnum c \<Longrightarrow> c \<notin> set ''!$&()*+,;=:[]<>-_.~/?@%#'' \<and> 32 \<le> (of_char c :: nat) \<and> (of_char c :: nat) < 127"
  by (auto simp: isAlnum_def Let_def)

lemma isDigit_alnum: "isDigit c \<Longrightarrow> isAlnum c"
  by (auto simp: isDigit_def isAlnum_def Let_def)

lemma plainHost_char:
  assumes "plainHost h" and "c \<in> set h"
  shows "c \<notin> set '':/?@%#[]'' \<and> 32 \<le> (of_char c :: nat) \<and> (of_char c :: nat) < 127 \<and> \<not> shouldEscape EncodeHost c"
proof -
  have "isAlnum c \<or> c = CHR ''-'' \<or> c = CHR ''.''" using assms by (auto simp: plainHost_def list_all_iff)
  then show ?thesis
  proof (elim disjE)
    assume "isAlnum c"
    with isAlnum_cases [of c] show ?thesis by (simp add: shouldEscape_def)
  qed (simp_all add: shouldEscape_def isAlnum_def)
qed

lemma unescapeUrl_id:
  "\<forall>c \<in> set s. c \<noteq> CHR ''%'' \<and> \<not> shouldEscape mode c \<Longrightarrow> unescapeUrl mode s = Some s"
  by (induction s) auto

lemma escapeUrl_id: "\<forall>c \<in> set s. \<not> shouldEscape mode c \<Longrightarrow> escapeUrl mode s = s"
  by (induction s) (auto simp: escapeUrl_def)

lemma indexByte_none [simp]: "indexByte c s = None \<longleftrightarrow> c \<notin> set s"
  by (induction s) auto

lemma indexByte_append: "c \<notin> set b \<Longrightarrow> indexByte c (b @ c # a) = Some (length b)"
  by (induction b) auto

lemma lastIndexByte_none [simp]: "lastIndexByte c s = None \<longleftrightarrow> c \<notin> set s"
  by (simp add: lastIndexByte_def)

lemma lastIndexByte_append: "c \<notin> set b \<Longrightarrow> lastIndexByte c (a @ c # b) = Some (length a)"
  by (simp add: lastIndexByte_def indexByte_append)

lemma hasSuffix_char: "hasSuffix s [c] \<Longrightarrow> c \<in> set s"
  using set_drop_subset [of "length s - 1" s] by (auto simp: hasSuffix_def)

lemma cutAt_none: "c \<notin> set s \<Longrightarrow> cutAt c s = (s, [])"
  by (induction s) (auto simp: cutAt_def)

lemma parseHost_plain:
  assumes "plainHost h" and "list_all isDigit port"
  shows "parseHost (h @ CHR '':'' # port) = Inr (h @ CHR '':'' # port)"
proof -
  have digits: "c \<in> set port \<Longrightarrow> isAlnum c" for c
    using assms(2) isDigit_alnum by (auto simp: list_all_iff)
  then have "CHR '':'' \<notin> set port" using isAlnum_cases by fastforce
  then have "lastIndexByte CHR '':'' (h @ CHR '':'' # port) = Some (length h)" by (rule lastIndexByte_append)
  moreover have "\<not> hasPrefix (h @ CHR '':'' # port) ''[''"
    using plainHost_char [OF assms(1)] by (cases h) (auto simp: hasPrefix_def)
  moreover have "unescapeUrl EncodeHost (h @ CHR '':'' # port) = Some (h @ CHR '':'' # port)"
  proof (rule unescapeUrl_id, rule ballI)
    fix c assume "c \<in> set (h @ CHR '':'' # port)"
    then consider "c \<in> set h" | "c = CHR '':''" | "c \<in> set port" by auto
    then show "c \<noteq> CHR ''%'' \<and> \<not> shouldEscape EncodeHost c"
    proof cases
      case 1
      then show ?thesis using plainHost_char [OF assms(1)] by auto
    next
      case 3
      then show ?thesis using digits [of c] isAlnum_cases [of c] by (simp add: shouldEscape_def)
    qed (simp add: shouldEscape_def)
  qed
  ultimately show ?thesis using assms(2) by (simp add: parseHost_def validOptionalPort_def optUrl_def)
qed

text \<open>An address \<open>scheme://host:port/path\<close> is parsed into its parts.\<close>

lemma urlParse_addr:
  assumes "scheme \<in> {''http'', ''https''}" and h: "plainHost h" and port: "list_all isDigit port"
    and path: "path = [] \<or> hasPrefix path ''/''" "list_all (\<lambda>c. isAlnum c \<or> c \<in> set ''/-.'') path"
  shows "urlParse (scheme @ ''://'' @ h @ '':'' @ port @ path) =
    Inr (emptyUrl\<lparr>u_Scheme := scheme, u_Host := h @ '':'' @ port, u_Path := path\<rparr>)"
proof -
  let ?hp = "h @ CHR '':'' # port" and ?u = "emptyUrl\<lparr>u_Scheme := scheme\<rparr>"
  have hp: "c \<in> set ?hp \<Longrightarrow> c \<notin> set ''/?@%#'' \<and> 32 \<le> (of_char c :: nat) \<and> (of_char c :: nat) < 127" for c
  proof -
    assume "c \<in> set ?hp"
    then consider "c \<in> set h" | "c = CHR '':''" | "isAlnum c" using port isDigit_alnum by (auto simp: list_all_iff)
    then show ?thesis
    proof cases
      case 1
      with plainHost_char [OF h, of c] show ?thesis by simp
    next
      case 3
      with isAlnum_cases [of c] show ?thesis by simp
    qed simp
  qed
  have pa: "c \<in> set path \<Longrightarrow> c \<notin> set ''?@%#'' \<and> 32 \<le> (of_char c :: nat) \<and> (of_char c :: nat) < 127 \<and> \<not> shouldEscape EncodePath c" for c
  proof -
    assume "c \<in> set path"
    then have "isAlnum c \<or> c \<in> set ''/-.''" using path(2) by (simp only: list_all_iff)
    then consider "isAlnum c" | "c = CHR ''/''" | "c = CHR ''-''" | "c = CHR ''.''" by auto
    then show ?thesis
    proof cases
      case 1
      with isAlnum_cases [of c] show ?thesis by (simp add: shouldEscape_def)
    qed (simp_all add: shouldEscape_def isAlnum_def)
  qed
  let ?rest = "''//'' @ ?hp @ path" and ?raw = "scheme @ CHR '':'' # CHR ''/'' # CHR ''/'' # ?hp @ path"
  have all: "c \<in> set ?raw \<Longrightarrow> c \<notin> set ''?#'' \<and> 32 \<le> (of_char c :: nat) \<and> (of_char c :: nat) < 127" for c
    using hp [of c] pa [of c] assms(1) by auto
  have scheme: "getScheme ?raw = Inr (scheme, ?rest)"
    using assms(1) by (auto simp: getScheme_def Let_def isAlnum_def isDigit_def)
  have query: "splitQuery ?rest ?u = (?rest, ?u)"
  proof -
    have q: "CHR ''?'' \<notin> set ?rest" using all by fastforce
    then have "\<not> hasSuffix ?rest ''?''" using hasSuffix_char [of ?rest "CHR ''?''"] by argo
    with cutAt_none [OF q] show ?thesis unfolding splitQuery_def by (simp only: if_False simp_thms prod.case) (simp add: emptyUrl_def)
  qed
  have auth: "parseAuthority ?hp = Inr (None, ?hp)"
  proof -
    have "lastIndexByte CHR ''@'' ?hp = None" using hp by fastforce
    then show ?thesis unfolding parseAuthority_def by (simp only: option.case parseHost_plain [OF h port]) simp
  qed
  have cut: "takeWhile (\<lambda>c. c \<noteq> CHR ''/'') (?hp @ path) = ?hp" "dropWhile (\<lambda>c. c \<noteq> CHR ''/'') (?hp @ path) = path"
  proof -
    have "c \<noteq> CHR ''/''" if "c \<in> set ?hp" for c using hp [OF that] by simp
    moreover have "takeWhile (\<lambda>c. c \<noteq> CHR ''/'') path = []" "dropWhile (\<lambda>c. c \<noteq> CHR ''/'') path = path"
      using path(1) by (cases path; auto simp: hasPrefix_def)+
    ultimately show "takeWhile (\<lambda>c. c \<noteq> CHR ''/'') (?hp @ path) = ?hp" "dropWhile (\<lambda>c. c \<noteq> CHR ''/'') (?hp @ path) = path"
      using takeWhile_append2 [of ?hp "\<lambda>c. c \<noteq> CHR ''/''" path] dropWhile_append2 [of ?hp "\<lambda>c. c \<noteq> CHR ''/''" path]
      by simp_all
  qed
  have setp: "setPath path v = Inr (v\<lparr>u_Path := path, u_RawPath := []\<rparr>)" for v
    using pa by (simp add: setPath_def unescapeUrl_id escapeUrl_id optUrl_def)
  have "parseRest ?rest ?u = Inr (?u\<lparr>u_Host := ?hp, u_Path := path\<rparr>)"
    using assms(1) cut auth by (auto simp: parseRest_def hasPrefix_def setp emptyUrl_def)
  moreover have "map lowerByte scheme = scheme" using assms(1) by (auto simp: lowerByte_def)
  moreover have "\<not> (\<exists>c \<in> set ?raw. (of_char c :: nat) < 32 \<or> of_char c = (127 :: nat))" using all by fastforce
  moreover have "?raw \<noteq> ''*''" using assms(1) by auto
  ultimately have "urlParseNoFrag ?raw = Inr (?u\<lparr>u_Host := ?hp, u_Path := path\<rparr>)"
    using scheme query by (simp add: urlParseNoFrag_def)
  moreover have "CHR ''#'' \<notin> set ?raw" using all by fastforce
  ultimately show ?thesis by (simp add: urlParse_def cutAt_none emptyUrl_def)
qed

lemma itoa_digits: "0 \<le> i \<Longrightarrow> list_all isDigit (itoa i)"
  using itoaNat_digits by (simp add: itoa_def list_all_iff)

lemma urlParse_service:
  assumes "scheme \<in> {''http'', ''https''}" and "plainHost name" and "plainHost ns" and "0 \<le> port"
  shows "urlParse (scheme @ ''://'' @ name @ ''.'' @ ns @ ''.svc:'' @ itoa port) =
    Inr (emptyUrl\<lparr>u_Scheme := scheme, u_Host := name @ ''.'' @ ns @ ''.svc:'' @ itoa port\<rparr>)"
proof -
  have "plainHost (name @ ''.'' @ ns @ ''.svc'')" using assms(2,3) by (simp add: plainHost_def isAlnum_def)
  from urlParse_addr [OF assms(1) this itoa_digits [OF assms(4)], of "[]"] show ?thesis by (simp add: emptyUrl_def)
qed

lemma urlString_addr:
  assumes scheme: "scheme \<noteq> []" and h: "plainHost h" "h \<noteq> []" and port: "list_all isDigit port"
    and path: "path = [] \<or> hasPrefix path ''/''" "list_all (\<lambda>c. isAlnum c \<or> c \<in> set ''/-.'') path"
  shows "urlString (emptyUrl\<lparr>u_Scheme := scheme, u_Host := h @ '':'' @ port, u_Path := path\<rparr>) =
    scheme @ ''://'' @ h @ '':'' @ port @ path"
proof -
  have "\<not> shouldEscape EncodeHost c" if c: "c \<in> set (h @ '':'' @ port)" for c
  proof -
    consider "c \<in> set h" | "c = CHR '':''" | "isAlnum c" using c port isDigit_alnum by (auto simp: list_all_iff)
    then show ?thesis
    proof cases
      case 1
      with plainHost_char [OF h(1), of c] show ?thesis by simp
    qed (simp_all add: shouldEscape_def)
  qed
  then have host: "escapeUrl EncodeHost (h @ '':'' @ port) = h @ '':'' @ port" by (intro escapeUrl_id) blast
  have "\<not> shouldEscape EncodePath c" if "c \<in> set path" for c
  proof -
    have "isAlnum c \<or> c \<in> set ''/-.''" using path(2) that by (simp only: list_all_iff)
    then consider "isAlnum c" | "c = CHR ''/''" | "c = CHR ''-''" | "c = CHR ''.''" by auto
    then show ?thesis by cases (simp_all add: shouldEscape_def)
  qed
  then have esc: "escapeUrl EncodePath path = path" by (intro escapeUrl_id) blast
  have star: "path \<noteq> ''*''" using path(1) by (auto simp: hasPrefix_def)
  have pt: "urlPathText (emptyUrl\<lparr>u_Scheme := scheme, u_Host := h @ '':'' @ port, u_Path := path\<rparr>) = path"
  proof -
    have "path = [] \<or> hd path = CHR ''/''" using path(1) by (cases path) (auto simp: hasPrefix_def)
    then show ?thesis using star h(2) by (simp add: urlPathText_def escapedPart_def esc emptyUrl_def Let_def)
  qed
  show ?thesis
    using pt host h(2) scheme by (simp add: urlString_def urlAuthority_def emptyUrl_def)
qed

end
