(* ===== verification/Query_Workload.thy ===== *)
theory Query_Workload
  imports Router_Workload Store_Workload Ruler_Rules Net_Url
begin

text \<open>
  \<^verbatim>\<open>pkg/controllers/resources/query\<close> and \<^verbatim>\<open>pkg/controllers/query_controller.go\<close>: the query
  component asks every ingester, store and ruler of its service, and the external stores of its spec,
  those with a CA through an envoy proxy beside it.  The templates of the envoy configuration are
  functions to strings; the YAML encoders are parameters.
\<close>

record query_lib =
  ql_yamlTargets :: "string list \<Rightarrow> string res"
  ql_yamlWeb :: "web_file \<Rightarrow> string res"

section \<open>query.go\<close>

definition Query_configDir :: string where
  "Query_configDir = ''/etc/whizard''"
definition storesFile :: string where
  "storesFile = ''store-sd.yaml''"
definition envoyConfigDir :: string where
  "envoyConfigDir = ''/etc/envoy/config''"
definition envoyConfigFile :: string where
  "envoyConfigFile = ''envoy.yaml''"
definition envoyLdsFile :: string where
  "envoyLdsFile = ''lds.yaml''"
definition envoyCdsFile :: string where
  "envoyCdsFile = ''cds.yaml''"
definition envoySecretsDir :: string where
  "envoySecretsDir = ''/etc/envoy/secrets''"

definition Query_New :: "'s client \<Rightarrow> query \<Rightarrow> ('s, service) act" where
  "Query_New cl q = SetService cl q"

record proxy_store =
  px_ListenHost :: string
  px_ListenPort :: "32 word"
  px_TargetHost :: string
  px_TargetPort :: "32 word"
  px_TlsCaFile :: string

record stores_cfg =
  sf_DirectStores :: "string list"
  sf_ProxyStores :: "proxy_store list"

definition caFile :: "secret_key_selector \<Rightarrow> string" where
  "caFile ca = joinPath [envoySecretsDir, sks_Name ca, sks_Key ca]"

text \<open>The body of the two loops of \<^verbatim>\<open>stores()\<close>; the state is what was collected and the next port.\<close>

definition addStoreAddress :: "query_stores \<Rightarrow> stores_cfg \<times> 32 word \<Rightarrow> string \<Rightarrow> (stores_cfg \<times> 32 word) res" where
  "addStoreAddress st acc address = (case acc of (cfg, listenPort) \<Rightarrow>
     case qs_CASecret st of
       None \<Rightarrow> Inr (cfg\<lparr>sf_DirectStores := sf_DirectStores cfg @ [address]\<rparr>, listenPort)
     | Some ca \<Rightarrow>
         bindR (SplitHostPort address) (\<lambda>(host, portString).
         bindR (parseUint32 portString) (\<lambda>port.
           Inr (cfg\<lparr>sf_ProxyStores := sf_ProxyStores cfg @ [\<lparr>px_ListenHost = ''127.0.0.1'', px_ListenPort = listenPort,
                  px_TargetHost = host, px_TargetPort = port, px_TlsCaFile = caFile ca\<rparr>]\<rparr>, listenPort + 1))))"

definition Query_stores :: "query \<Rightarrow> stores_cfg res" where
  "Query_stores q =
     bindR (foldR (\<lambda>acc st. foldR (addStoreAddress st) acc (qs_Addresses st))
              (\<lparr>sf_DirectStores = [], sf_ProxyStores = []\<rparr>, 11000) (qu_Stores (qu_Spec q))) (\<lambda>(cfg, _). Inr cfg)"

definition Query_labels :: "service \<Rightarrow> labels_map" where
  "Query_labels svc = BaseLabels(LabelNameAppName \<mapsto> AppNameQuery, LabelNameAppManagedBy \<mapsto> om_Name svc)"

definition Query_name :: "query \<Rightarrow> string list \<Rightarrow> string" where
  "Query_name q nameSuffix = QualifiedName AppNameQuery (om_Name q) nameSuffix"

definition Query_meta :: "service \<Rightarrow> string \<Rightarrow> 'b object_meta_scheme \<Rightarrow> 'b object_meta_scheme" where
  "Query_meta svc name ob = ob\<lparr>om_Name := name, om_Namespace := om_Namespace svc, om_Labels := Query_labels svc\<rparr>"

definition Query_HttpAddr :: "service \<Rightarrow> query \<Rightarrow> string" where
  "Query_HttpAddr svc q =
     ''http://'' @ Query_name q [ServiceNameSuffix] @ ''.'' @ om_Namespace svc @ ''.svc:'' @ itoa HTTPPort"

definition Query_HttpsAddr :: "service \<Rightarrow> query \<Rightarrow> string" where
  "Query_HttpsAddr svc q =
     ''https://'' @ Query_name q [ServiceNameSuffix] @ ''.'' @ om_Namespace svc @ ''.svc:'' @ itoa HTTPPort"

section \<open>envoy\_config.go\<close>

definition nl :: string where
  "nl = [CHR 0x0A]"

definition textLines :: "string list \<Rightarrow> string" where
  "textLines ls = concat (map (\<lambda>l. l @ nl) ls)"

definition portText :: "32 word \<Rightarrow> string" where
  "portText p = itoaNat (unat p)"

definition hostPort :: "string \<Rightarrow> 32 word \<Rightarrow> string" where
  "hostPort h p = h @ '':'' @ portText p"

definition envoyConfigTemplate :: "string \<Rightarrow> string" where
  "envoyConfigTemplate nodeId = nl @ textLines
     [''node:'',
      ''  cluster: query-stores-proxy'',
      ''  id: '' @ nodeId,
      [],
      ''dynamic_resources:'',
      ''  cds_config:'',
      ''    path: '' @ joinPath [envoyConfigDir, envoyCdsFile],
      ''  lds_config:'',
      ''    path: '' @ joinPath [envoyConfigDir, envoyLdsFile]]"

definition ldsLines :: "proxy_store \<Rightarrow> string list" where
  \<open>ldsLines p =
     [''- "@type": type.googleapis.com/envoy.config.listener.v3.Listener'',
      ''  name: '' @ hostPort (px_ListenHost p) (px_ListenPort p),
      ''  address:'',
      ''    socket_address:'',
      ''      address: '' @ px_ListenHost p,
      ''      port_value: '' @ portText (px_ListenPort p),
      ''  filter_chains:'',
      ''  - filters:'',
      ''    - name: envoy.http_connection_manager'',
      ''      typed_config:'',
      ''        "@type": type.googleapis.com/envoy.extensions.filters.network.http_connection_manager.v3.HttpConnectionManager'',
      ''        stat_prefix: store_apis'',
      ''        http_filters:'',
      ''        - name: envoy.filters.http.router'',
      ''        route_config:'',
      ''          name: local_route'',
      ''          virtual_hosts:'',
      ''          - name: local_service'',
      ''            domains:'',
      ''            - "*"'',
      ''            routes:'',
      ''            - match:'',
      ''                prefix: "/"'',
      ''              route:'',
      ''                host_rewrite_literal: '' @ px_TargetHost p,
      ''                cluster: '' @ hostPort (px_TargetHost p) (px_TargetPort p)]\<close>

definition cdsLines :: "proxy_store \<Rightarrow> string list" where
  \<open>cdsLines p =
     [''- "@type": type.googleapis.com/envoy.config.cluster.v3.Cluster'',
      ''  name: '' @ hostPort (px_TargetHost p) (px_TargetPort p),
      ''  type: STRICT_DNS'',
      ''  typed_extension_protocol_options:'',
      ''    envoy.extensions.upstreams.http.v3.HttpProtocolOptions:'',
      ''      "@type": type.googleapis.com/envoy.extensions.upstreams.http.v3.HttpProtocolOptions'',
      ''      explicit_http_config:'',
      ''        http2_protocol_options: {}'',
      ''  load_assignment:'',
      ''    cluster_name: '' @ hostPort (px_TargetHost p) (px_TargetPort p),
      ''    endpoints:'',
      ''    - lb_endpoints:'',
      ''      - endpoint:'',
      ''          address:'',
      ''            socket_address:'',
      ''              address: '' @ px_TargetHost p,
      ''              port_value: '' @ portText (px_TargetPort p),
      ''  transport_socket:'',
      ''    name: envoy.transport_sockets.tls'',
      ''    typed_config:'',
      ''      "@type": type.googleapis.com/envoy.extensions.transport_sockets.tls.v3.UpstreamTlsContext'',
      ''      common_tls_context: '',
      ''        validation_context:'',
      ''          trusted_ca:'',
      ''            filename: '' @ px_TlsCaFile p,
      ''        alpn_protocols:'',
      ''        - h2'',
      ''        - http/1.1'',
      ''      sni: '' @ px_TargetHost p]\<close>

text \<open>The range over the proxied stores: the mark \<^verbatim>\<open>{{-\<close> takes the line break in front of it away.\<close>

definition resourcesTemplate :: "(proxy_store \<Rightarrow> string list) \<Rightarrow> proxy_store list \<Rightarrow> string" where
  "resourcesTemplate body ps = nl @ ''resources:'' @ concat (map (\<lambda>p. nl @ textLines (body p)) ps) @ nl"

definition envoyConfigFiles :: "string \<Rightarrow> stores_cfg \<Rightarrow> labels_map" where
  "envoyConfigFiles identifier cfg =
     [envoyConfigFile \<mapsto> envoyConfigTemplate identifier,
      envoyLdsFile \<mapsto> resourcesTemplate ldsLines (sf_ProxyStores cfg),
      envoyCdsFile \<mapsto> resourcesTemplate cdsLines (sf_ProxyStores cfg)]"

section \<open>configmap.go\<close>

definition proxyConfigMap :: "wlib \<Rightarrow> service \<Rightarrow> query \<Rightarrow> 's resource" where
  "proxyConfigMap w svc q =
     bindE (liftE (Query_stores q)) (\<lambda>cfg.
     bindE (liftE (ownedBy w q ((Query_meta svc (Query_name q [''proxy-config'']) zeroConfigMap)\<lparr>
       cm_Data := envoyConfigFiles (om_Namespace svc @ ''/'' @ om_Name svc) cfg\<rparr>))) (\<lambda>cm.
         ret (OConfigMap cm, OperationCreateOrUpdate)))"

definition storesTargets :: "stores_cfg \<Rightarrow> string list" where
  "storesTargets cfg = sf_DirectStores cfg @
     map (\<lambda>p. hostPort (px_ListenHost p) (px_ListenPort p)) (sf_ProxyStores cfg)"

definition storesConfigMap :: "query_lib \<Rightarrow> wlib \<Rightarrow> service \<Rightarrow> query \<Rightarrow> 's resource" where
  "storesConfigMap ql w svc q =
     bindE (liftE (Query_stores q)) (\<lambda>cfg.
     bindE (liftE (ql_yamlTargets ql (storesTargets cfg))) (\<lambda>out.
     bindE (liftE (ownedBy w q ((Query_meta svc (Query_name q [''stores-config'']) zeroConfigMap)\<lparr>
       cm_Data := [storesFile \<mapsto> out]\<rparr>))) (\<lambda>cm. ret (OConfigMap cm, OperationCreateOrUpdate))))"

definition Query_webConfigSecret :: "query_lib \<Rightarrow> wlib \<Rightarrow> 's client \<Rightarrow> service \<Rightarrow> query \<Rightarrow> 's resource" where
  "Query_webConfigSecret ql w cl svc q = webConfigSecret (ql_yamlWeb ql) w cl q (qu_WebConfig (qu_Spec q))
     (Query_meta svc (Query_name q [''web-config'']) zeroSecret)"

section \<open>deployment.go\<close>

definition Query_repeatableArgs :: "string list" where
  "Query_repeatableArgs = [''--query.replica-label'', ''--selector-label'', ''--endpoint'', ''--endpoint-strict'',
     ''--store.sd-files'', ''--enable-feature'']"

definition Query_unsupportedArgs :: "string list" where
  "Query_unsupportedArgs = [''--log.request.decision'', ''--metadata'', ''--rule'', ''--store'', ''--exemplar'', ''--target'',
     ''--store-strict'', ''--grpc-address'', ''--http-address'']"

definition queryBaseDeployment :: "service \<Rightarrow> query \<Rightarrow> deployment" where
  "queryBaseDeployment svc q = (Query_meta svc (Query_name q []) zeroDeployment)\<lparr>
     dep_Replicas := cs_Replicas (qu_Spec q), dep_Selector := Query_labels svc, dep_TemplateLabels := Query_labels svc,
     dep_TemplateSpec := zeroPodSpec\<lparr>ps_NodeSelector := cs_NodeSelector (qu_Spec q), ps_Tolerations := cs_Tolerations (qu_Spec q),
       ps_Affinity := cs_Affinity (qu_Spec q), ps_SecurityContext := cs_SecurityContext (qu_Spec q),
       ps_ImagePullSecrets := cs_ImagePullSecrets (qu_Spec q),
       ps_Volumes := [\<lparr>vol_Name = ''proxy-config'', vol_Source = VolConfigMap (Query_name q [''proxy-config''])\<rparr>,
         \<lparr>vol_Name = ''stores-config'', vol_Source = VolConfigMap (Query_name q [''stores-config''])\<rparr>]\<rparr>\<rparr>"

definition queryContainer :: "query \<Rightarrow> container" where
  "queryContainer q = zeroContainer\<lparr>ct_Name := ''query'', ct_Image := cs_Image (qu_Spec q), ct_Args := [''query''],
     ct_Resources := cs_Resources (qu_Spec q), ct_Ports := [tcpPort GRPCPortName GRPCPort, tcpPort HTTPPortName HTTPPort],
     ct_LivenessProbe := Some DefaultLivenessProbe, ct_ReadinessProbe := Some DefaultReadinessProbe,
     ct_VolumeMounts := [\<lparr>vm_Name = ''stores-config'', vm_ReadOnly = True, vm_MountPath = Query_configDir, vm_SubPath = []\<rparr>]\<rparr>"

definition queryHeadArgs :: "query \<Rightarrow> string list" where
  "queryHeadArgs q =
     (let sp = qu_Spec q in
      [''query''] @
      (if qu_WebConfig sp = None then [] else [''--http.config='' @ WhizardWebConfigMountPath @ WhizardWebConfigFile]) @
      optArg ''--query.promql-engine='' (qu_PromqlEngine sp) @
      optArg ''--log.level='' (cs_LogLevel sp) @ optArg ''--log.format='' (cs_LogFormat sp) @
      [''--store.sd-files='' @ joinPath [Query_configDir, storesFile]] @
      map (\<lambda>l. ''--query.replica-label='' @ l) (qu_ReplicaLabelNames sp))"

text \<open>The endpoints of a store and of a ruler, assembled here and not by their packages.\<close>

definition queryStoreEndpoints :: "store \<Rightarrow> string list" where
  "queryStoreEndpoints item =
     (let timeRanges = (if st_TimeRanges (st_Spec item) = []
            then [\<lparr>tr_MinTime = st_MinTime (st_Spec item), tr_MaxTime = st_MaxTime (st_Spec item)\<rparr>] else st_TimeRanges (st_Spec item))
      in map (\<lambda>i. let partitionName = (if i = 0 then Join ''-'' [AppNameStore, om_Name item, ServiceNameSuffix]
                else Join ''-'' [AppNameStore, om_Name item, ''partition'', itoaNat i, ServiceNameSuffix])
           in ''dnssrv+_grpc._tcp.'' @ partitionName @ ''.'' @ om_Namespace item @ ''.svc'') [0..<length timeRanges])"

definition queryRulerEndpoints :: "ruler \<Rightarrow> string list" where
  "queryRulerEndpoints item =
     (let shards = (case ru_Shards (ru_Spec item) of Some n \<Rightarrow> if n > 1 then n else 1 | None \<Rightarrow> 1) in
      map (\<lambda>sn. ''dnssrv+_grpc._tcp.'' @ QualifiedName AppNameRuler (om_Name item) [itoaNat sn, ServiceNameSuffix] @
             ''.'' @ om_Namespace item @ ''.svc'') [0..<nat shards])"

definition endpointArg :: "string \<Rightarrow> string" where
  "endpointArg e = ''--endpoint='' @ e"

definition queryEndpoints :: "'s client \<Rightarrow> service \<Rightarrow> ('s, string list) act" where
  "queryEndpoints cl svc =
     (let opts = \<lparr>lo_Namespace = [], lo_Labels = ManagedLabelByService svc\<rparr> in
      bindE (kList (ingesters cl) opts) (\<lambda>igs.
      bindE (foldE (\<lambda>args item. bindE (Ingester_New cl item) (\<lambda>_.
               ret (args @ map endpointArg (Ingester_Endpoints item)))) [] igs) (\<lambda>args1.
      bindE (kList (stores cl) opts) (\<lambda>sts.
      bindE (kList (rulers cl) opts) (\<lambda>rus.
        ret (args1 @ map endpointArg (concat (map queryStoreEndpoints sts)) @
             map endpointArg (concat (map queryRulerEndpoints rus))))))))"

definition queryArgs :: "query \<Rightarrow> string list \<Rightarrow> string list" where
  "queryArgs q endpoints = sortArgs (mergeFlags Query_unsupportedArgs Query_repeatableArgs
     (queryHeadArgs q @ endpoints) (cs_Flags (qu_Spec q)))"

definition caVolume :: "secret_key_selector \<Rightarrow> volume" where
  "caVolume ca = \<lparr>vol_Name = ''secret-'' @ sks_Name ca, vol_Source = VolSecret (sks_Name ca) [] None\<rparr>"

definition caMount :: "secret_key_selector \<Rightarrow> volume_mount" where
  "caMount ca = \<lparr>vm_Name = ''secret-'' @ sks_Name ca, vm_ReadOnly = True, vm_MountPath = caFile ca, vm_SubPath = sks_Key ca\<rparr>"

definition caSecrets :: "query \<Rightarrow> secret_key_selector list" where
  "caSecrets q = List.map_filter qs_CASecret (qu_Stores (qu_Spec q))"

definition envoyContainer :: "query \<Rightarrow> container" where
  "envoyContainer q = zeroContainer\<lparr>ct_Name := ''proxy'', ct_Image := sc_Image (qu_Envoy (qu_Spec q)),
     ct_Args := [''-c'', joinPath [envoyConfigDir, envoyConfigFile], ''--base-id'', ''1''],
     ct_Resources := sc_Resources (qu_Envoy (qu_Spec q)),
     ct_VolumeMounts := \<lparr>vm_Name = ''proxy-config'', vm_ReadOnly = True, vm_MountPath = envoyConfigDir, vm_SubPath = []\<rparr> #
       map caMount (caSecrets q)\<rparr>"

definition Query_deployment :: "ext \<Rightarrow> query_lib \<Rightarrow> wlib \<Rightarrow> 's client \<Rightarrow> service \<Rightarrow> query \<Rightarrow> 's resource" where
  "Query_deployment x ql w cl svc q =
     bindE (withWebConfig x (Query_webConfigSecret ql w cl svc q) (Query_name q [''web-config'']) (qu_WebConfig (qu_Spec q))
              (queryBaseDeployment svc q) (queryContainer q)) (\<lambda>(d, ct).
     bindE (queryEndpoints cl svc) (\<lambda>endpoints.
     bindE (liftE (patchContainers w (qu_Spec q) [ct\<lparr>ct_Args := queryArgs q endpoints\<rparr>, envoyContainer q])) (\<lambda>cs.
     bindE (liftE (ownedBy w q (d\<lparr>dep_TemplateSpec := (dep_TemplateSpec d)\<lparr>ps_Containers := cs,
         ps_Volumes := ps_Volumes (dep_TemplateSpec d) @ map caVolume (caSecrets q)\<rparr>\<rparr>))) (\<lambda>d1.
       ret (ODeployment d1, OperationCreateOrUpdate)))))"

section \<open>service.go, query\_controller.go\<close>

definition Query_service :: "wlib \<Rightarrow> service \<Rightarrow> query \<Rightarrow> 's resource" where
  "Query_service w svc q =
     (let s = (Query_meta svc (Query_name q [ServiceNameSuffix]) zeroKubeService)\<lparr>ks_Type := ''ClusterIP'',
        ks_Selector := Query_labels svc, ks_Ports := [tcpServicePort GRPCPortName GRPCPort, tcpServicePort HTTPPortName HTTPPort]\<rparr>
      in bindE (liftE (ownedBy w q s)) (\<lambda>s'. ret (OService s', OperationCreateOrUpdate)))"

definition Query_Reconcile :: "ext \<Rightarrow> query_lib \<Rightarrow> wlib \<Rightarrow> 's client \<Rightarrow> service \<Rightarrow> query \<Rightarrow> ('s, unit) act" where
  "Query_Reconcile x ql w cl svc q = ReconcileResources cl [proxyConfigMap w svc q, storesConfigMap ql w svc q,
     Query_webConfigSecret ql w cl svc q, Query_deployment x ql w cl svc q, Query_service w svc q]"

definition applyConfigurationFromQueryTemplateSpec :: "merge_lib \<Rightarrow> query \<Rightarrow> query_spec \<Rightarrow> query res" where
  "applyConfigurationFromQueryTemplateSpec mg q tmpl =
     bindR (mg_query mg (qu_Spec q) tmpl) (\<lambda>sp. Inr (q\<lparr>qu_Spec := sp\<rparr>))"

definition QueryReconciler_Reconcile ::
  "ext \<Rightarrow> query_lib \<Rightarrow> wlib \<Rightarrow> merge_lib \<Rightarrow> 's client \<Rightarrow> nsname \<Rightarrow> ('s, ctrl_result) act" where
  "QueryReconciler_Reconcile x ql w mg cl req =
     fetchThen (queries cl) req (\<lambda>inst.
       if mget (om_Labels inst) ServiceLabelKey = [] then ret noResult
       else bindE (fetchService cl inst) (\<lambda>service.
         bindE (liftE (applyConfigurationFromQueryTemplateSpec mg inst
                         (sv_QueryTemplateSpec (sv_Spec (ApplyDefaults w service))))) (\<lambda>q.
         bindE (Query_New cl q) (\<lambda>svc.
         bindE (Query_Reconcile x ql w cl svc q) (\<lambda>_. ret noResult)))))"

definition QueryReconciler_mapFuncBySelectorFunc ::
  "'s client \<Rightarrow> ('b object_meta_scheme \<Rightarrow> labels_map) \<Rightarrow> 'b object_meta_scheme \<Rightarrow> ('s, nsname list) act" where
  "QueryReconciler_mapFuncBySelectorFunc cl fn ob = mapFuncBySelectorFunc (queries cl) fn ob"

section \<open>Endpoints\<close>

interpretation quf: flag_set Query_unsupportedArgs Query_repeatableArgs
  by unfold_locales (simp add: Query_unsupportedArgs_def Query_repeatableArgs_def)

lemma queryStoreEndpoints_eq: "queryStoreEndpoints st = Store_Endpoints st"
  by (simp add: queryStoreEndpoints_def Store_Endpoints_def timeRangesOf_def Let_def)

lemma queryRulerEndpoints_eq:
  assumes "ru_Shards (ru_Spec ru) = Some n" and "1 \<le> n"
  shows "Ruler_Endpoints ru = Inr (queryRulerEndpoints ru)"
proof -
  have "(if n > 1 then n else 1) = n" using assms(2) by simp
  then show ?thesis using assms by (simp add: Ruler_Endpoints_def shardLoop_def queryRulerEndpoints_def Ruler_name_def Let_def)
qed

lemma argsNamed_endpoints [simp]: "argsNamed ''--endpoint'' (map endpointArg es) = map endpointArg es"
  by (induction es) (simp_all add: endpointArg_def GetArgName_append GetArgName_def2)

lemma argsNamed_head [simp]: "argsNamed ''--endpoint'' (queryHeadArgs q) = []"
  by (rule argsNamed_empty) (auto simp: queryHeadArgs_def Let_def optArg_def GetArgName_append GetArgName_def2)

lemma query_endpoint_args:
  "mset (argsNamed ''--endpoint'' (queryArgs q (map endpointArg es))) =
   mset (map endpointArg es @ argsNamed ''--endpoint'' (cs_Flags (qu_Spec q)))"
proof -
  have "''--endpoint'' \<in> set Query_repeatableArgs" by (simp add: Query_repeatableArgs_def)
  from quf.mergeFlags_repeatable [OF this] show ?thesis
    by (simp add: queryArgs_def argsNamed_sortArgs)
qed

lemma foldE_ingester_endpoints:
  assumes "\<forall>ig \<in> set igs. Ingester_New cl ig s = (Inr svc, s)"
  shows "foldE (\<lambda>args item. bindE (Ingester_New cl item) (\<lambda>_. ret (args @ map endpointArg (Ingester_Endpoints item)))) args igs s =
    (Inr (args @ map endpointArg (concat (map Ingester_Endpoints igs))), s)"
  using assms by (induction igs arbitrary: args) (simp_all add: bindE_app)

lemma queryEndpoints_listed:
  assumes ok: "clientOk cl V" and sv: "map_of (c_services (V s)) (objectKey sv) = Some sv"
    and plain: "CHR ''.'' \<notin> set (om_Namespace sv)" "CHR ''.'' \<notin> set (om_Name sv)"
  defines "igs \<equiv> filter (\<lambda>ob. ManagedLabelByService sv \<subseteq>\<^sub>m om_Labels ob) (map snd (c_ingesters (V s)))"
    and "sts \<equiv> filter (\<lambda>ob. ManagedLabelByService sv \<subseteq>\<^sub>m om_Labels ob) (map snd (c_stores (V s)))"
    and "rus \<equiv> filter (\<lambda>ob. ManagedLabelByService sv \<subseteq>\<^sub>m om_Labels ob) (map snd (c_rulers (V s)))"
  shows "queryEndpoints cl (withServiceDefaults sv) s = (Inr (map endpointArg
    (concat (map Ingester_Endpoints igs) @ concat (map Store_Endpoints sts) @ concat (map queryRulerEndpoints rus))), s)"
proof -
  let ?svc = "withServiceDefaults sv" and ?opts = "\<lparr>lo_Namespace = [], lo_Labels = ManagedLabelByService (withServiceDefaults sv)\<rparr>"
  have same: "ManagedLabelByService ?svc = ManagedLabelByService sv"
    by (simp add: ManagedLabelByService_def withServiceDefaults_def Let_def)
  have m: "matchesOpts ?opts = (\<lambda>ob. ManagedLabelByService sv \<subseteq>\<^sub>m om_Labels ob)"
    by (intro ext) (simp add: matchesOpts_def same)
  have lists: "kList (ingesters cl) ?opts s = (Inr igs, s)" "kList (stores cl) ?opts s = (Inr sts, s)"
    "kList (rulers cl) ?opts s = (Inr rus, s)"
    unfolding igs_def sts_def rus_def kindOk_list [OF clientOk_kinds(2) [OF ok]] kindOk_list [OF clientOk_kinds(5) [OF ok]]
      kindOk_list [OF clientOk_kinds(4) [OF ok]] m by simp_all
  have "\<forall>ig \<in> set igs. Ingester_New cl ig s = (Inr ?svc, s)"
    unfolding Ingester_New_def igs_def by (intro ballI SetService_of_selected [OF ok sv plain]) simp
  from foldE_ingester_endpoints [OF this, of "[]"] show ?thesis
    by (simp add: queryEndpoints_def Let_def lists bindE_app queryStoreEndpoints_eq [abs_def])
qed

text \<open>
  C15: the query component asks every component of its service.  The endpoints in its arguments are those of
  all ingesters, stores and rulers with the label of the service, and the endpoints the user adds by
  flags; the addresses it assembles for the stores are those the stores have, and for a ruler whose
  spec has a positive number of shards those of the ruler.
\<close>

theorem query_asks_components:
  assumes ok: "clientOk cl V" and sv: "map_of (c_services (V s)) (objectKey sv) = Some sv"
    and plain: "CHR ''.'' \<notin> set (om_Namespace sv)" "CHR ''.'' \<notin> set (om_Name sv)"
  defines "igs \<equiv> filter (\<lambda>ob. ManagedLabelByService sv \<subseteq>\<^sub>m om_Labels ob) (map snd (c_ingesters (V s)))"
    and "sts \<equiv> filter (\<lambda>ob. ManagedLabelByService sv \<subseteq>\<^sub>m om_Labels ob) (map snd (c_stores (V s)))"
    and "rus \<equiv> filter (\<lambda>ob. ManagedLabelByService sv \<subseteq>\<^sub>m om_Labels ob) (map snd (c_rulers (V s)))"
  shows "\<exists>eps. queryEndpoints cl (withServiceDefaults sv) s = (Inr (map endpointArg eps), s) \<and>
    eps = concat (map Ingester_Endpoints igs) @ concat (map Store_Endpoints sts) @ concat (map queryRulerEndpoints rus) \<and>
    mset (argsNamed ''--endpoint'' (queryArgs q (map endpointArg eps))) =
      mset (map endpointArg eps @ argsNamed ''--endpoint'' (cs_Flags (qu_Spec q))) \<and>
    (\<forall>ru \<in> set rus. \<forall>n. ru_Shards (ru_Spec ru) = Some n \<longrightarrow> 1 \<le> n \<longrightarrow> Ruler_Endpoints ru = Inr (queryRulerEndpoints ru))"
  using queryEndpoints_listed [OF ok sv plain] query_endpoint_args [of q] queryRulerEndpoints_eq
  unfolding igs_def sts_def rus_def by blast

text \<open>A ruler of the example service that has three shards.\<close>

definition exShardedRuler :: ruler where
  "exShardedRuler = zeroRuler\<lparr>om_Name := ''r'', om_Namespace := ''ns'', om_Labels := ManagedLabelByService exService,
     ru_Spec := zeroRulerSpec\<lparr>ru_Shards := Some 3\<rparr>\<rparr>"

theorem query_asks_components_witness:
  "let c = (exCluster [] [exIngester] [])\<lparr>c_rulers := [(objectKey exShardedRuler, exShardedRuler)]\<rparr> in
   \<exists>eps. queryEndpoints memClient (withServiceDefaults exService) c = (Inr (map endpointArg eps), c) \<and>
     eps = Ingester_Endpoints exIngester @ queryRulerEndpoints exShardedRuler \<and>
     Ruler_Endpoints exShardedRuler = Inr (queryRulerEndpoints exShardedRuler)"
proof -
  let ?c = "(exCluster [] [exIngester] [])\<lparr>c_rulers := [(objectKey exShardedRuler, exShardedRuler)]\<rparr>"
  have sv: "map_of (c_services ?c) (objectKey exService) = Some exService" by (simp add: exCluster_def)
  have plain: "CHR ''.'' \<notin> set (om_Namespace exService)" "CHR ''.'' \<notin> set (om_Name exService)"
    by (simp_all add: exService_def)
  have sel: "filter (\<lambda>ob. ManagedLabelByService exService \<subseteq>\<^sub>m om_Labels ob) (map snd (c_ingesters ?c)) = [exIngester]"
    "filter (\<lambda>ob. ManagedLabelByService exService \<subseteq>\<^sub>m om_Labels ob) (map snd (c_stores ?c)) = []"
    "filter (\<lambda>ob. ManagedLabelByService exService \<subseteq>\<^sub>m om_Labels ob) (map snd (c_rulers ?c)) = [exShardedRuler]"
    by (simp_all add: exCluster_def exIngester_def exShardedRuler_def)
  have three: "ru_Shards (ru_Spec exShardedRuler) = Some 3" by (simp add: exShardedRuler_def)
  show ?thesis
    using query_asks_components [OF memClient_ok sv plain, unfolded sel] three unfolding Let_def by auto
qed

text \<open>
  Shards of a template are not asked.  Where a ruler takes its number of shards from the template of
  the service, the controller of the ruler runs the merged number while the query component, which
  reads the stored object, asks the first shard only.
\<close>

theorem query_misses_template_shards:
  assumes "ru_Shards (ru_Spec ru) = None" and "ru_Shards sp = Some n" and "1 < n"
  shows "\<exists>eps. Ruler_Endpoints (ru\<lparr>ru_Spec := sp\<rparr>) = Inr eps \<and> length eps = nat n \<and> queryRulerEndpoints ru = [hd eps]"
  using assms
  by (auto simp: Ruler_Endpoints_def shardLoop_def queryRulerEndpoints_def Ruler_name_def Let_def upt_conv_Cons)

theorem query_misses_template_shards_witness:
  "\<exists>eps. Ruler_Endpoints (zeroRuler\<lparr>om_Name := ''r'', ru_Spec := zeroRulerSpec\<lparr>ru_Shards := Some 3\<rparr>\<rparr>) = Inr eps \<and>
     length eps = 3 \<and> queryRulerEndpoints (zeroRuler\<lparr>om_Name := ''r''\<rparr>) = [hd eps]"
  using query_misses_template_shards [of "zeroRuler\<lparr>om_Name := ''r''\<rparr>" "zeroRulerSpec\<lparr>ru_Shards := Some 3\<rparr>" 3]
  by (simp add: zero_defs)

section \<open>External stores\<close>

definition storeAddresses :: "query \<Rightarrow> (query_stores \<times> string) list" where
  "storeAddresses q = concat (map (\<lambda>st. map (Pair st) (qs_Addresses st)) (qu_Stores (qu_Spec q)))"

definition proxied :: "query_stores \<times> string \<Rightarrow> proxy_store \<Rightarrow> bool" where
  "proxied e p = (case e of (st, address) \<Rightarrow> \<exists>ca portString. qs_CASecret st = Some ca \<and>
     SplitHostPort address = Inr (px_TargetHost p, portString) \<and> parseUint32 portString = Inr (px_TargetPort p) \<and>
     px_TlsCaFile p = caFile ca \<and> px_ListenHost p = ''127.0.0.1'')"

definition storesInv :: "(query_stores \<times> string) list \<Rightarrow> stores_cfg \<times> 32 word \<Rightarrow> bool" where
  "storesInv es acc = (case acc of (cfg, port) \<Rightarrow>
     sf_DirectStores cfg = map snd (filter (\<lambda>e. qs_CASecret (fst e) = None) es) \<and>
     list_all2 proxied (filter (\<lambda>e. qs_CASecret (fst e) \<noteq> None) es) (sf_ProxyStores cfg) \<and>
     map px_ListenPort (sf_ProxyStores cfg) = map (\<lambda>i. 11000 + of_nat i) [0..<length (sf_ProxyStores cfg)] \<and>
     port = 11000 + of_nat (length (sf_ProxyStores cfg)))"

lemma storesInv_step:
  assumes "storesInv es acc" and "(case e of (st, a) \<Rightarrow> addStoreAddress st acc a) = Inr acc'"
  shows "storesInv (es @ [e]) acc'"
  using assms
  by (auto simp: storesInv_def addStoreAddress_def proxied_def list_all2_appendI bindR_def
      split: prod.splits option.splits sum.splits)

lemma Query_stores_inv:
  assumes "Query_stores q = Inr cfg"
  shows "\<exists>port. storesInv (storeAddresses q) (cfg, port)"
proof -
  let ?f = "\<lambda>acc (st, a). addStoreAddress st acc a"
  obtain acc where "foldR ?f (\<lparr>sf_DirectStores = [], sf_ProxyStores = []\<rparr>, 11000) (storeAddresses q) = Inr acc" "cfg = fst acc"
    using assms unfolding Query_stores_def foldR_nested storeAddresses_def by (auto simp: bindR_def split: sum.splits prod.splits)
  with foldR_invariant [of storesInv ?f "[]" "(\<lparr>sf_DirectStores = [], sf_ProxyStores = []\<rparr>, 11000)" "storeAddresses q" acc]
  have "storesInv (storeAddresses q) (cfg, snd acc)" using storesInv_step by (simp add: storesInv_def)
  then show ?thesis by blast
qed

lemma listen_ports_distinct:
  assumes "n \<le> 2 ^ 32"
  shows "distinct (map (\<lambda>i. 11000 + of_nat i :: 32 word) [0..<n])"
proof -
  have "inj_on (\<lambda>i. 11000 + of_nat i :: 32 word) {0..<n}"
  proof (rule inj_onI)
    fix i j assume ij: "i \<in> {0..<n}" "j \<in> {0..<n}" and "(11000 + of_nat i :: 32 word) = 11000 + of_nat j"
    then have "unat (of_nat i :: 32 word) = unat (of_nat j :: 32 word)" by simp
    with ij assms show "i = j" by (simp add: unat_of_nat take_bit_nat_eq_self)
  qed
  then show ?thesis by (simp add: distinct_map)
qed

text \<open>
  C29: the stores of the spec reach the query component.  Every address without a CA is a target as it
  stands; every address with one is the target of a proxy listener of its own, which the query
  component is given in its place, and no two listeners share an address as long as the 32-bit port
  numbers do not run out.
\<close>

theorem query_stores_reachable:
  assumes "Query_stores q = Inr cfg" and "length (sf_ProxyStores cfg) \<le> 2 ^ 32"
  shows "storesTargets cfg = map snd (filter (\<lambda>e. qs_CASecret (fst e) = None) (storeAddresses q)) @
      map (\<lambda>p. hostPort (px_ListenHost p) (px_ListenPort p)) (sf_ProxyStores cfg) \<and>
    list_all2 proxied (filter (\<lambda>e. qs_CASecret (fst e) \<noteq> None) (storeAddresses q)) (sf_ProxyStores cfg) \<and>
    distinct (map (\<lambda>p. hostPort (px_ListenHost p) (px_ListenPort p)) (sf_ProxyStores cfg))"
proof -
  obtain port where inv: "storesInv (storeAddresses q) (cfg, port)" using Query_stores_inv [OF assms(1)] ..
  then have "distinct (map px_ListenPort (sf_ProxyStores cfg))"
    using listen_ports_distinct [OF assms(2)] by (simp add: storesInv_def)
  moreover have "hostPort h p = hostPort h' p' \<longleftrightarrow> p = p'" if "h = ''127.0.0.1''" "h' = ''127.0.0.1''" for h h' p p'
    using that inj_itoaNat by (auto simp: hostPort_def portText_def word_unat_eq_iff dest: injD)
  moreover have "\<forall>p \<in> set (sf_ProxyStores cfg). px_ListenHost p = ''127.0.0.1''"
  proof
    fix p assume "p \<in> set (sf_ProxyStores cfg)"
    then have "\<exists>e. proxied e p"
      using inv unfolding storesInv_def prod.case in_set_conv_nth list_all2_conv_all_nth by metis
    then obtain e where "proxied e p" ..
    then show "px_ListenHost p = ''127.0.0.1''" by (auto simp: proxied_def split: prod.splits)
  qed
  ultimately have "distinct (map (\<lambda>p. hostPort (px_ListenHost p) (px_ListenPort p)) (sf_ProxyStores cfg))"
    by (simp add: distinct_map inj_on_def)
  with inv show ?thesis by (simp add: storesInv_def storesTargets_def)
qed

theorem query_stores_reachable_witness:
  "let q = (\<lparr>om_APIVersion = [], om_Kind = [], om_Name = ''q'', om_GenerateName = [], om_Namespace = [], om_UID = [],
       om_ResourceVersion = [], om_Labels = Map.empty, om_Annotations = Map.empty, om_Finalizers = [], om_DeletionTimestamp = None,
       om_OwnerReferences = [], qu_Spec = zeroQuerySpec\<lparr>qu_Stores := [\<lparr>qs_Addresses = [''h:1'', ''h:2''],
         qs_CASecret = Some \<lparr>sks_Name = ''s'', sks_Key = ''k''\<rparr>\<rparr>]\<rparr>\<rparr>)
   in \<exists>cfg. Query_stores q = Inr cfg \<and> distinct (map (\<lambda>p. hostPort (px_ListenHost p) (px_ListenPort p)) (sf_ProxyStores cfg)) \<and>
        length (sf_ProxyStores cfg) = 2"
proof -
  let ?q = "(\<lparr>om_APIVersion = [], om_Kind = [], om_Name = ''q'', om_GenerateName = [], om_Namespace = [], om_UID = [],
       om_ResourceVersion = [], om_Labels = Map.empty, om_Annotations = Map.empty, om_Finalizers = [], om_DeletionTimestamp = None,
       om_OwnerReferences = [], qu_Spec = zeroQuerySpec\<lparr>qu_Stores := [\<lparr>qs_Addresses = [''h:1'', ''h:2''],
         qs_CASecret = Some \<lparr>sks_Name = ''s'', sks_Key = ''k''\<rparr>\<rparr>]\<rparr>\<rparr>) :: query"
  have split: "SplitHostPort ''h:1'' = Inr (''h'', ''1'')" "SplitHostPort ''h:2'' = Inr (''h'', ''2'')"
    by (simp_all add: SplitHostPort_def lastIndexByte_def hasPrefix_def noBrackets_def)
  have port: "parseUint32 ''1'' = Inr 1" "parseUint32 ''2'' = Inr 2"
    by (simp_all add: parseUint32_def isDigit_def digitsVal_def charDigit_def)
  obtain cfg where "Query_stores ?q = Inr cfg" "length (sf_ProxyStores cfg) = 2"
    by (simp add: Query_stores_def addStoreAddress_def split port)
  with query_stores_reachable [of ?q cfg] show ?thesis unfolding Let_def by auto
qed

end
