(* ===== verification/Frontend_Workload.thy ===== *)
theory Frontend_Workload
  imports Query_Workload
begin

text \<open>
  \<^verbatim>\<open>pkg/controllers/resources/queryfrontend\<close> and \<^verbatim>\<open>pkg/controllers/query_frontend_controller.go\<close>:
  the query frontend sits in front of the one query component of its service; its cache
  configuration, web configuration, deployment, service and the controller.
\<close>

record frontend_lib =
  fl_yamlCache :: "string \<Rightarrow> in_memory_response_cache_config \<Rightarrow> string res"
  fl_yamlTripper :: "bool \<Rightarrow> string res"
  fl_yamlWeb :: "web_file \<Rightarrow> string res"

section \<open>query\_frontend.go\<close>

definition cacheConfigFile :: string where
  "cacheConfigFile = ''cache-config.yaml''"
definition Frontend_configDir :: string where
  "Frontend_configDir = ''/etc/whizard''"

definition Frontend_New :: "'s client \<Rightarrow> query_frontend \<Rightarrow> ('s, service) act" where
  "Frontend_New cl qf = SetService cl qf"

definition Frontend_labels :: "service \<Rightarrow> labels_map" where
  "Frontend_labels svc = BaseLabels(LabelNameAppName \<mapsto> AppNameQueryFrontend, LabelNameAppManagedBy \<mapsto> om_Name svc)"

definition Frontend_name :: "query_frontend \<Rightarrow> string list \<Rightarrow> string" where
  "Frontend_name qf nameSuffix = QualifiedName AppNameQueryFrontend (om_Name qf) nameSuffix"

definition Frontend_meta :: "service \<Rightarrow> string \<Rightarrow> 'b object_meta_scheme \<Rightarrow> 'b object_meta_scheme" where
  "Frontend_meta svc name ob = ob\<lparr>om_Name := name, om_Namespace := om_Namespace svc, om_Labels := Frontend_labels svc\<rparr>"

definition Frontend_HttpAddr :: "service \<Rightarrow> query_frontend \<Rightarrow> string" where
  "Frontend_HttpAddr svc qf =
     ''http://'' @ Frontend_name qf [ServiceNameSuffix] @ ''.'' @ om_Namespace svc @ ''.svc:'' @ itoa HTTPPort"

definition Frontend_HttpsAddr :: "service \<Rightarrow> query_frontend \<Rightarrow> string" where
  "Frontend_HttpsAddr svc qf =
     ''https://'' @ Frontend_name qf [ServiceNameSuffix] @ ''.'' @ om_Namespace svc @ ''.svc:'' @ itoa HTTPPort"

section \<open>configmap.go\<close>

definition INMEMORY :: string where
  "INMEMORY = ''IN-MEMORY''"

definition cacheConfig :: "response_cache_provider_config option \<Rightarrow> in_memory_response_cache_config" where
  "cacheConfig cc =
     (let default = \<lparr>imr_MaxSize = [], imr_MaxSizeItems = 0, imr_Validity = 0\<rparr> in
      case cc of
        None \<Rightarrow> default
      | Some c \<Rightarrow> if rcp_Type c = INMEMORY
          then (case rcp_InMemoryResponseCacheConfig c of None \<Rightarrow> default | Some m \<Rightarrow> m) else default)"

definition cacheConfigConfigMap :: "frontend_lib \<Rightarrow> wlib \<Rightarrow> service \<Rightarrow> query_frontend \<Rightarrow> 's resource" where
  "cacheConfigConfigMap fl w svc qf =
     bindE (liftE (fl_yamlCache fl INMEMORY (cacheConfig (qf_CacheConfig (qf_Spec qf))))) (\<lambda>bytes.
     bindE (liftE (ownedBy w qf ((Frontend_meta svc (Frontend_name qf [''cache-config'']) zeroConfigMap)\<lparr>
       cm_Data := [cacheConfigFile \<mapsto> bytes]\<rparr>))) (\<lambda>cm. ret (OConfigMap cm, OperationCreateOrUpdate)))"

definition Frontend_webConfigSecret :: "frontend_lib \<Rightarrow> wlib \<Rightarrow> 's client \<Rightarrow> service \<Rightarrow> query_frontend \<Rightarrow> 's resource" where
  "Frontend_webConfigSecret fl w cl svc qf = webConfigSecret (fl_yamlWeb fl) w cl qf (qf_WebConfig (qf_Spec qf))
     (Frontend_meta svc (Frontend_name qf [''web-config'']) zeroSecret)"

section \<open>deployment.go\<close>

definition Frontend_repeatableArgs :: "string list" where
  "Frontend_repeatableArgs = [''--query-frontend.forward-header'', ''--query-frontend.org-id-header'']"

definition Frontend_unsupportedArgs :: "string list" where
  "Frontend_unsupportedArgs = [''--log.request.decision'', ''--http-address'']"

definition servesTLS :: "web_config option \<Rightarrow> bool" where
  "servesTLS wc = (case wc of None \<Rightarrow> False | Some c \<Rightarrow> wc_HTTPServerTLSConfig c \<noteq> None)"

definition Query_addr :: "service \<Rightarrow> query \<Rightarrow> string" where
  "Query_addr svc q = (if servesTLS (qu_WebConfig (qu_Spec q)) then Query_HttpsAddr svc q else Query_HttpAddr svc q)"

definition ofService :: "string \<Rightarrow> service \<Rightarrow> string" where
  "ofService what svc = what @ '' for service '' @ om_Name svc @ ''/'' @ om_Namespace svc"

text \<open>The address is computed with the service of the query component, which \<^verbatim>\<open>query.New\<close> fetches.\<close>

definition Frontend_queryAddress :: "'s client \<Rightarrow> service \<Rightarrow> query_frontend \<Rightarrow> ('s, string) act" where
  "Frontend_queryAddress cl svc qf =
     bindE (kList (queries cl) \<lparr>lo_Namespace = [], lo_Labels = ManagedLabelBySameService qf\<rparr>) (\<lambda>items. case items of
         [] \<Rightarrow> failE (GoErr (ofService ''no query frontend or query exist'' svc))
       | [o1] \<Rightarrow> bindE (Query_New cl o1) (\<lambda>svc'. ret (Query_addr svc' o1))
       | _ \<Rightarrow> failE (GoErr (ofService ''more than one query defined'' svc)))"

definition frontendBaseDeployment :: "service \<Rightarrow> query_frontend \<Rightarrow> deployment" where
  "frontendBaseDeployment svc qf = (Frontend_meta svc (Frontend_name qf []) zeroDeployment)\<lparr>
     dep_Replicas := cs_Replicas (qf_Spec qf), dep_Selector := Frontend_labels svc, dep_TemplateLabels := Frontend_labels svc,
     dep_TemplateSpec := zeroPodSpec\<lparr>ps_NodeSelector := cs_NodeSelector (qf_Spec qf), ps_Tolerations := cs_Tolerations (qf_Spec qf),
       ps_Affinity := cs_Affinity (qf_Spec qf), ps_SecurityContext := cs_SecurityContext (qf_Spec qf),
       ps_ImagePullSecrets := cs_ImagePullSecrets (qf_Spec qf)\<rparr>\<rparr>"

definition frontendContainer :: "query_frontend \<Rightarrow> string \<Rightarrow> container" where
  "frontendContainer qf hashCode = zeroContainer\<lparr>ct_Name := ''query-frontend'', ct_Image := cs_Image (qf_Spec qf),
     ct_Resources := cs_Resources (qf_Spec qf), ct_Ports := [tcpPort HTTPPortName HTTPPort],
     ct_LivenessProbe := Some DefaultLivenessProbe, ct_ReadinessProbe := Some DefaultReadinessProbe,
     ct_VolumeMounts := [\<lparr>vm_Name = ''cache-config'', vm_ReadOnly = True, vm_MountPath = Frontend_configDir, vm_SubPath = []\<rparr>],
     ct_Env := [\<lparr>ev_Name = TenantHash, ev_Value = hashCode, ev_ValueFrom = None\<rparr>]\<rparr>"

text \<open>The argument that lets the frontend accept the certificate of a query component behind TLS.\<close>

definition tripperArgs :: "frontend_lib \<Rightarrow> string \<Rightarrow> string list res" where
  "tripperArgs fl addr = (case urlParse addr of
       Inl e \<Rightarrow> Inl e
     | Inr u \<Rightarrow> if u_Scheme u = ''https''
         then bindR (fl_yamlTripper fl True) (\<lambda>body. Inr [''--query-frontend.downstream-tripper-config='' @ body]) else Inr [])"

definition frontendArgs :: "query_frontend \<Rightarrow> string list \<Rightarrow> string \<Rightarrow> string list" where
  "frontendArgs qf tripper addr =
     (let sp = qf_Spec qf in
      sortArgs (mergeFlags Frontend_unsupportedArgs Frontend_repeatableArgs
       ([''query-frontend''] @ tripper @
        (if qf_WebConfig sp = None then [] else [''--http.config='' @ WhizardWebConfigMountPath @ WhizardWebConfigFile]) @
        [''--query-frontend.downstream-url='' @ addr,
         ''--labels.response-cache-config-file='' @ joinPath [Frontend_configDir, cacheConfigFile],
         ''--query-range.response-cache-config-file='' @ joinPath [Frontend_configDir, cacheConfigFile]] @
        optArg ''--log.level='' (cs_LogLevel sp) @ optArg ''--log.format='' (cs_LogFormat sp))
       (cs_Flags sp)))"

definition Frontend_deployment ::
  "ext \<Rightarrow> frontend_lib \<Rightarrow> wlib \<Rightarrow> 's client \<Rightarrow> service \<Rightarrow> query_frontend \<Rightarrow> 's resource" where
  "Frontend_deployment x fl w cl svc qf =
     bindE (GetTenantHash x cl [ServiceLabelKey \<mapsto> mget (om_Labels qf) ServiceLabelKey]) (\<lambda>hashCode.
     bindE (Frontend_queryAddress cl svc qf) (\<lambda>addr.
     bindE (liftE (tripperArgs fl addr)) (\<lambda>tripper.
     bindE (withWebConfig x (Frontend_webConfigSecret fl w cl svc qf) (Frontend_name qf [''web-config'']) (qf_WebConfig (qf_Spec qf))
              (frontendBaseDeployment svc qf) (frontendContainer qf hashCode)) (\<lambda>(d, ct).
     bindE (liftE (patchContainers w (qf_Spec qf) [ct\<lparr>ct_Args := frontendArgs qf tripper addr\<rparr>])) (\<lambda>cs.
     bindE (liftE (ownedBy w qf (d\<lparr>dep_TemplateSpec := (dep_TemplateSpec d)\<lparr>ps_Containers := cs,
         ps_Volumes := ps_Volumes (dep_TemplateSpec d) @
           [\<lparr>vol_Name = ''cache-config'', vol_Source = VolConfigMap (Frontend_name qf [''cache-config''])\<rparr>]\<rparr>\<rparr>))) (\<lambda>d1.
       ret (ODeployment d1, OperationCreateOrUpdate)))))))"

section \<open>service.go, query\_frontend\_controller.go\<close>

definition Frontend_service :: "wlib \<Rightarrow> service \<Rightarrow> query_frontend \<Rightarrow> 's resource" where
  "Frontend_service w svc qf =
     (let s = (Frontend_meta svc (Frontend_name qf [ServiceNameSuffix]) zeroKubeService)\<lparr>ks_Type := ''ClusterIP'',
        ks_Selector := Frontend_labels svc, ks_Ports := [tcpServicePort HTTPPortName HTTPPort]\<rparr>
      in bindE (liftE (ownedBy w qf s)) (\<lambda>s'. ret (OService s', OperationCreateOrUpdate)))"

definition Frontend_Reconcile ::
  "ext \<Rightarrow> frontend_lib \<Rightarrow> wlib \<Rightarrow> 's client \<Rightarrow> service \<Rightarrow> query_frontend \<Rightarrow> ('s, unit) act" where
  "Frontend_Reconcile x fl w cl svc qf = ReconcileResources cl [cacheConfigConfigMap fl w svc qf,
     Frontend_webConfigSecret fl w cl svc qf, Frontend_deployment x fl w cl svc qf, Frontend_service w svc qf]"

definition applyConfigurationFromQueryFrontendTemplateSpec ::
  "merge_lib \<Rightarrow> query_frontend \<Rightarrow> query_frontend_spec \<Rightarrow> query_frontend res" where
  "applyConfigurationFromQueryFrontendTemplateSpec mg qf tmpl =
     bindR (mg_queryFrontend mg (qf_Spec qf) tmpl) (\<lambda>sp. Inr (qf\<lparr>qf_Spec := sp\<rparr>))"

definition QueryFrontendReconciler_Reconcile ::
  "ext \<Rightarrow> frontend_lib \<Rightarrow> wlib \<Rightarrow> merge_lib \<Rightarrow> 's client \<Rightarrow> nsname \<Rightarrow> ('s, ctrl_result) act" where
  "QueryFrontendReconciler_Reconcile x fl w mg cl req =
     fetchThen (queryFrontends cl) req (\<lambda>inst.
       if mget (om_Labels inst) ServiceLabelKey = [] then ret noResult
       else bindE (fetchService cl inst) (\<lambda>service.
         bindE (liftE (applyConfigurationFromQueryFrontendTemplateSpec mg inst
                         (sv_QueryFrontendTemplateSpec (sv_Spec (ApplyDefaults w service))))) (\<lambda>qf.
         bindE (Frontend_New cl qf) (\<lambda>svc.
         bindE (Frontend_Reconcile x fl w cl svc qf) (\<lambda>_. ret noResult)))))"

definition QueryFrontendReconciler_mapFuncBySelectorFunc ::
  "'s client \<Rightarrow> ('b object_meta_scheme \<Rightarrow> labels_map) \<Rightarrow> 'b object_meta_scheme \<Rightarrow> ('s, nsname list) act" where
  "QueryFrontendReconciler_mapFuncBySelectorFunc cl fn ob = mapFuncBySelectorFunc (queryFrontends cl) fn ob"

section \<open>The address of the query component\<close>

interpretation qff: flag_set Frontend_unsupportedArgs Frontend_repeatableArgs
  by unfold_locales (simp add: Frontend_unsupportedArgs_def Frontend_repeatableArgs_def)

lemma plainHost_QualifiedName:
  "plainHost app \<Longrightarrow> plainHost n \<Longrightarrow> plainHost (QualifiedName app n [ServiceNameSuffix])"
  by (simp add: QualifiedName_def ServiceNameSuffix_def plainHost_def isAlnum_def)

lemma Query_addr_parsed:
  assumes "plainHost (om_Name q)" and "plainHost (om_Namespace svc)"
  shows "\<exists>u. urlParse (Query_addr svc q) = Inr u \<and>
    u_Scheme u = (if servesTLS (qu_WebConfig (qu_Spec q)) then ''https'' else ''http'')"
proof -
  have "plainHost AppNameQuery" by (simp add: AppNameQuery_def plainHost_def isAlnum_def)
  then have "plainHost (Query_name q [ServiceNameSuffix])"
    using plainHost_QualifiedName assms(1) unfolding Query_name_def by blast
  from urlParse_service [OF _ this assms(2), of "''http''" HTTPPort] urlParse_service [OF _ this assms(2), of "''https''" HTTPPort]
  show ?thesis by (simp add: Query_addr_def Query_HttpAddr_def Query_HttpsAddr_def HTTPPort_def)
qed

text \<open>
  The frontend of a service with one query component asks that component, and carries the
  argument that accepts any certificate exactly where the component serves TLS.
\<close>

lemma frontend_downstream:
  assumes list: "kList (queries cl) \<lparr>lo_Namespace = [], lo_Labels = ManagedLabelBySameService qf\<rparr> s = (Inr [q], s1)"
    and new: "Query_New cl q s1 = (Inr svc', s2)"
    and plain: "plainHost (om_Name q)" "plainHost (om_Namespace svc')"
    and yaml: "fl_yamlTripper fl True = Inr body"
  shows "Frontend_queryAddress cl svc qf s = (Inr (Query_addr svc' q), s2) \<and>
    tripperArgs fl (Query_addr svc' q) = Inr (if servesTLS (qu_WebConfig (qu_Spec q))
      then [''--query-frontend.downstream-tripper-config='' @ body] else [])"
  using Query_addr_parsed [OF plain] by (auto simp: Frontend_queryAddress_def list new tripperArgs_def yaml)

end
