(* ===== verification/Storage_Workload.thy ===== *)
theory Storage_Workload
  imports Controller_Common Tenant_Binding
begin

text \<open>
  \<^verbatim>\<open>pkg/controllers/resources/storage\<close> and \<^verbatim>\<open>pkg/controllers/storage_controller.go\<close>: the hash of
  the configuration of a storage as an annotation of it, and the block manager, a deployment of a web
  container and, where it is enabled, the garbage collector of \<open>Block_Manager\<close>.
\<close>

section \<open>storage.go\<close>

definition AppNameStorage :: string where
  "AppNameStorage = ''storage''"

definition Storage_labels :: "storage \<Rightarrow> labels_map" where
  "Storage_labels sg = BaseLabels(LabelNameAppName \<mapsto> AppNameStorage, LabelNameAppManagedBy \<mapsto> om_Name sg)"

definition Storage_name :: "storage \<Rightarrow> string list \<Rightarrow> string" where
  "Storage_name sg nameSuffix = QualifiedName AppNameBlockManager (om_Name sg) nameSuffix"

definition Storage_meta :: "storage \<Rightarrow> string \<Rightarrow> 'b object_meta_scheme \<Rightarrow> 'b object_meta_scheme" where
  "Storage_meta sg name ob = ob\<lparr>om_Name := name, om_Namespace := om_Namespace sg, om_Labels := Storage_labels sg\<rparr>"

definition storageKey :: "storage \<Rightarrow> string" where
  "storageKey sg = Join ''.'' [om_Namespace sg, om_Name sg]"

definition updateHashAnnotation :: "ext \<Rightarrow> yaml_lib \<Rightarrow> 's client \<Rightarrow> storage \<Rightarrow> 's resource" where
  "updateHashAnnotation x y cl sg =
     bindE (GetStorageHash x y cl (storageKey sg)) (\<lambda>hashStr.
       if om_Annotations sg LabelNameStorageHash \<noteq> Some hashStr
       then ret (OStorage (sg\<lparr>om_Annotations := (om_Annotations sg)(LabelNameStorageHash \<mapsto> hashStr)\<rparr>), OperationCreateOrUpdate)
       else ret (ONil, OperationNone))"

section \<open>deployment.go\<close>

definition webContainerName :: string where
  "webContainerName = ''web''"
definition gcContainerName :: string where
  "gcContainerName = ''gc''"

definition blockManager :: "storage \<Rightarrow> block_manager option" where
  "blockManager sg = (case sg_BlockManager (sg_Spec sg) of
       None \<Rightarrow> None
     | Some bm \<Rightarrow> if bm_Enable bm = Some True then Some bm else None)"

definition enabledGC :: "block_manager \<Rightarrow> block_gc option" where
  "enabledGC bm = (case bm_GC bm of None \<Rightarrow> None | Some gc \<Rightarrow> if gc_Enable gc = Some True then Some gc else None)"

definition storageBaseDeployment :: "storage \<Rightarrow> block_manager \<Rightarrow> volume list \<Rightarrow> deployment \<Rightarrow> deployment" where
  "storageBaseDeployment sg bm volumes d = d\<lparr>dep_Selector := Storage_labels sg,
     dep_Replicas := (if dep_Replicas d = None \<or> dep_Replicas d = Some 0 then cs_Replicas bm else dep_Replicas d),
     dep_TemplateLabels := Storage_labels sg,
     dep_TemplateSpec := (dep_TemplateSpec d)\<lparr>ps_Affinity := cs_Affinity bm, ps_NodeSelector := cs_NodeSelector bm,
       ps_Tolerations := cs_Tolerations bm, ps_ServiceAccountName := bm_ServiceAccountName bm,
       ps_SecurityContext := cs_SecurityContext bm,
       ps_ImagePullSecrets := (if cs_ImagePullSecrets bm \<noteq> [] then cs_ImagePullSecrets bm else ps_ImagePullSecrets (dep_TemplateSpec d)),
       ps_Volumes := volumes\<rparr>\<rparr>"

definition webArgs :: "wlib \<Rightarrow> block_manager \<Rightarrow> string \<Rightarrow> string list" where
  "webArgs w bm storageConfig = [''tools'', ''bucket'', ''web'', ''--objstore.config='' @ storageConfig] @
     optArg ''--log.level='' (cs_LogLevel bm) @ optArg ''--log.format='' (cs_LogFormat bm) @
     (case bm_BlockSyncInterval bm of None \<Rightarrow> [] | Some d \<Rightarrow> [''--refresh='' @ w_durationString w d])"

definition webContainer :: "wlib \<Rightarrow> block_manager \<Rightarrow> volume_mount list \<Rightarrow> string \<Rightarrow> container list \<Rightarrow> container" where
  "webContainer w bm mounts storageConfig cs =
     (let ct = (case containerIndex webContainerName cs of
                  None \<Rightarrow> zeroContainer\<lparr>ct_Name := webContainerName, ct_Ports := [tcpPort HTTPPortName HTTPPort]\<rparr>
                | Some i \<Rightarrow> cs ! i)
      in (withDefaultProbes (ct\<lparr>ct_VolumeMounts := mounts, ct_Image := cs_Image bm, ct_ImagePullPolicy := cs_ImagePullPolicy bm\<rparr>))\<lparr>
           ct_Resources := cs_Resources bm, ct_Args := webArgs w bm storageConfig\<rparr>)"

text \<open>The container of the garbage collector is the first one of its name.\<close>

definition gcIndex :: "container list \<Rightarrow> nat option" where
  "gcIndex cs = find (\<lambda>i. ct_Name (cs ! i) = gcContainerName) [0..<length cs]"

definition durationArg :: "wlib \<Rightarrow> string \<Rightarrow> int option \<Rightarrow> string list" where
  "durationArg w prefix d = (case d of None \<Rightarrow> [] | Some n \<Rightarrow> if n \<noteq> 0 then [prefix @ w_durationString w n] else [])"

definition gcArgs :: "wlib \<Rightarrow> block_gc \<Rightarrow> string \<Rightarrow> string list" where
  "gcArgs w gc storageConfig = [''--objstore.config='' @ storageConfig] @
     durationArg w ''--gc.interval='' (gc_GCInterval gc) @ durationArg w ''--gc.cleanup-timeout='' (gc_CleanupTimeout gc) @
     optArg ''--tenant.default-id='' (gc_DefaultTenantId gc) @ optArg ''--tenant.label-name='' (gc_TenantLabelName gc)"

definition putGC :: "wlib \<Rightarrow> block_manager \<Rightarrow> volume_mount list \<Rightarrow> string \<Rightarrow> container list \<Rightarrow> container list" where
  "putGC w bm mounts storageConfig cs = (case enabledGC bm of
       None \<Rightarrow> (case gcIndex cs of None \<Rightarrow> cs | Some i \<Rightarrow> take i cs @ drop (i + 1) cs)
     | Some gc \<Rightarrow>
         (let fill = (\<lambda>ct. ct\<lparr>ct_VolumeMounts := mounts, ct_Resources := gc_Resources gc, ct_Args := gcArgs w gc storageConfig\<rparr>) in
          case gcIndex cs of
            None \<Rightarrow> cs @ [fill (zeroContainer\<lparr>ct_Name := gcContainerName, ct_Image := gc_Image gc, ct_ImagePullPolicy := gc_ImagePullPolicy gc\<rparr>)]
          | Some i \<Rightarrow> cs[i := fill (cs ! i)]))"

definition Storage_deployment :: "yaml_lib \<Rightarrow> wlib \<Rightarrow> 's client \<Rightarrow> storage \<Rightarrow> 's resource" where
  "Storage_deployment y w cl sg =
     (let d0 = Storage_meta sg (Storage_name sg []) zeroDeployment in
      case blockManager sg of
        None \<Rightarrow> ret (ODeployment d0, OperationDelete)
      | Some bm \<Rightarrow>
          bindE (getOr (deployments cl) d0) (\<lambda>d1.
          bindE (VolumesAndVolumeMountsForStorage cl (om_Namespace sg @ ''.'' @ om_Name sg)) (\<lambda>(volumes, mounts).
          bindE (GetStorageConfig y cl (storageKey sg)) (\<lambda>storageConfig.
          let d2 = storageBaseDeployment sg bm volumes d1; cs0 = ps_Containers (dep_TemplateSpec d2);
              cs1 = putContainer webContainerName (webContainer w bm mounts storageConfig cs0) cs0;
              cs2 = putGC w bm mounts storageConfig cs1
          in bindE (liftE (patchContainers w bm cs2)) (\<lambda>cs.
             bindE (liftE (ownedBy w sg (d2\<lparr>dep_TemplateSpec := (dep_TemplateSpec d2)\<lparr>ps_Containers := cs\<rparr>\<rparr>))) (\<lambda>d3.
               ret (ODeployment d3, OperationCreateOrUpdate)))))))"

section \<open>service.go, storage\_controller.go\<close>

definition nodePortService :: "int \<Rightarrow> int \<Rightarrow> kube_service \<Rightarrow> kube_service" where
  "nodePortService portNumber nodePort s =
     (let port = \<lparr>sp_Protocol = ''TCP'', sp_Name = HTTPPortName, sp_Port = portNumber, sp_TargetPort = Some portNumber, sp_NodePort = nodePort\<rparr> in
      s\<lparr>ks_Type := (if nodePort \<noteq> 0 then ''NodePort'' else ''ClusterIP''),
        ks_Ports := (case ReplaceInSlice (ks_Ports s) (\<lambda>p. sp_Name p = HTTPPortName) port of
           (ps, replaced) \<Rightarrow> if replaced then ps else ps @ [port])\<rparr>)"

definition Storage_service :: "wlib \<Rightarrow> 's client \<Rightarrow> storage \<Rightarrow> 's resource" where
  "Storage_service w cl sg =
     (let s0 = Storage_meta sg (Storage_name sg [ServiceNameSuffix]) zeroKubeService in
      case blockManager sg of
        None \<Rightarrow> ret (OService s0, OperationDelete)
      | Some bm \<Rightarrow>
          bindE (getOr (kubeServices cl) s0) (\<lambda>s1.
          bindE (liftE (ownedBy w sg (nodePortService HTTPPort (bm_NodePort bm) (s1\<lparr>ks_Selector := Storage_labels sg\<rparr>)))) (\<lambda>s2.
            ret (OService s2, OperationCreateOrUpdate))))"

definition Storage_Reconcile :: "ext \<Rightarrow> yaml_lib \<Rightarrow> wlib \<Rightarrow> 's client \<Rightarrow> storage \<Rightarrow> ('s, unit) act" where
  "Storage_Reconcile x y w cl sg = ReconcileResources cl [updateHashAnnotation x y cl sg, Storage_deployment y w cl sg, Storage_service w cl sg]"

definition StorageReconciler_Reconcile :: "ext \<Rightarrow> yaml_lib \<Rightarrow> wlib \<Rightarrow> 's client \<Rightarrow> nsname \<Rightarrow> ('s, ctrl_result) act" where
  "StorageReconciler_Reconcile x y w cl req =
     fetchThen (storages cl) req (\<lambda>inst. bindE (Storage_Reconcile x y w cl inst) (\<lambda>_. ret noResult))"

text \<open>Whether a storage refers to a secret.  Reading the name through a nil key panics.\<close>

definition refersTo :: "string \<Rightarrow> s3 \<Rightarrow> bool res" where
  "refersTo name s =
     (let tls = s3h_TLSConfig (s3_HTTPConfig s); named = (\<lambda>r. case r of None \<Rightarrow> False | Some k \<Rightarrow> sks_Name k = name) in
      case s3_AccessKey s of
        None \<Rightarrow> Inl Panic
      | Some ak \<Rightarrow> if sks_Name ak = name then Inr True
          else (case s3_SecretKey s of
                  None \<Rightarrow> Inl Panic
                | Some sk \<Rightarrow> Inr (sks_Name sk = name \<or> named (tls_CA tls) \<or> named (tls_Key tls) \<or> named (tls_Cert tls))))"

definition mapToStoragebySecretRefFunc :: "'s client \<Rightarrow> 'b object_meta_scheme \<Rightarrow> ('s, nsname list) act" where
  "mapToStoragebySecretRefFunc cl ob =
     bindE (listOrEmpty (kList (storages cl) \<lparr>lo_Namespace = om_Namespace ob, lo_Labels = Map.empty\<rparr>)) (\<lambda>items.
       foldE (\<lambda>reqs s. case sg_S3 (sg_Spec s) of
           None \<Rightarrow> ret reqs
         | Some s3 \<Rightarrow> bindE (liftE (refersTo (om_Name ob) s3)) (\<lambda>r. ret (if r then reqs @ [objectKey s] else reqs))) [] items)"

section \<open>The containers of the block manager\<close>

lemma filter_update_same:
  "i < length xs \<Longrightarrow> \<not> P (xs ! i) \<Longrightarrow> \<not> P y \<Longrightarrow> filter P (xs[i := y]) = filter P xs"
proof (induction xs arbitrary: i)
  case (Cons x xs)
  then show ?case by (cases i) auto
qed simp

lemma find_nth_SomeD: "find (\<lambda>i. P (xs ! i)) is = Some i \<Longrightarrow> set is \<subseteq> {..<length xs} \<Longrightarrow> i < length xs \<and> P (xs ! i)"
  by (auto simp: find_Some_iff dest: nth_mem)

lemma no_name_at: "n \<notin> ct_Name ` set cs \<longleftrightarrow> (\<forall>i < length cs. ct_Name (cs ! i) \<noteq> n)"
  by (auto simp: set_conv_nth)

lemma containerIndex_Some: "containerIndex n cs = Some i \<Longrightarrow> i < length cs \<and> ct_Name (cs ! i) = n"
  unfolding containerIndex_def by (rule find_nth_SomeD) auto

lemma containerIndex_None: "containerIndex n cs = None \<longleftrightarrow> n \<notin> ct_Name ` set cs"
  unfolding no_name_at containerIndex_def by (auto simp: find_None_iff)

lemma gcIndex_Some: "gcIndex cs = Some i \<Longrightarrow> i < length cs \<and> ct_Name (cs ! i) = gcContainerName"
  unfolding gcIndex_def by (rule find_nth_SomeD) auto

lemma gcIndex_None: "gcIndex cs = None \<longleftrightarrow> gcContainerName \<notin> ct_Name ` set cs"
  unfolding no_name_at gcIndex_def by (auto simp: find_None_iff)

lemma names_update: "i < length cs \<Longrightarrow> ct_Name ct = ct_Name (cs ! i) \<Longrightarrow> map ct_Name (cs[i := ct]) = map ct_Name cs"
  by (simp add: map_update list_update_same_conv)

lemma putContainer_names:
  assumes "ct_Name ct = n"
  shows "map ct_Name (putContainer n ct cs) = (if n \<in> ct_Name ` set cs then map ct_Name cs else map ct_Name cs @ [n])"
proof (cases "containerIndex n cs")
  case None
  then have "n \<notin> ct_Name ` set cs" using containerIndex_None by blast
  with None assms show ?thesis by (simp add: putContainer_def)
next
  case (Some i)
  then have "n \<in> ct_Name ` set cs" using containerIndex_None [of n cs] by auto
  then show ?thesis using containerIndex_Some [OF Some] assms by (simp add: putContainer_def Some names_update)
qed

lemma putContainer_others:
  assumes "\<not> P ct" and "\<And>c. ct_Name c = n \<Longrightarrow> \<not> P c"
  shows "filter P (putContainer n ct cs) = filter P cs"
proof (cases "containerIndex n cs")
  case (Some i)
  then show ?thesis using containerIndex_Some [OF Some] assms by (simp add: putContainer_def filter_update_same)
qed (use assms in \<open>simp add: putContainer_def\<close>)

lemma webContainer_name: "ct_Name (webContainer w bm ms sc cs) = webContainerName"
  by (auto simp: webContainer_def withDefaultProbes_def Let_def dest: containerIndex_Some split: option.split)

lemma putGC_names:
  assumes "distinct (map ct_Name cs)"
  shows "distinct (map ct_Name (putGC w bm ms sc cs)) \<and>
    ct_Name ` set (putGC w bm ms sc cs) = (if enabledGC bm = None then ct_Name ` set cs - {gcContainerName} else insert gcContainerName (ct_Name ` set cs))"
proof (cases "gcIndex cs")
  case None
  then have "gcContainerName \<notin> ct_Name ` set cs" by (simp add: gcIndex_None)
  with assms None show ?thesis by (auto simp: putGC_def Let_def split: option.split)
next
  case (Some i)
  then have i: "i < length cs" "ct_Name (cs ! i) = gcContainerName" using gcIndex_Some by blast+
  show ?thesis
  proof (cases "enabledGC bm")
    case None
    have cs: "cs = take i cs @ cs ! i # drop (i + 1) cs" using i(1) by (simp add: id_take_nth_drop)
    have "distinct (map ct_Name (take i cs @ cs ! i # drop (i + 1) cs))" using assms cs by simp
    moreover have "ct_Name ` set cs = ct_Name ` set (take i cs @ cs ! i # drop (i + 1) cs)" using cs by simp
    ultimately show ?thesis using None i(2) by (simp add: putGC_def Some image_Un)
  next
    case (Some gc)
    let ?ct = "(cs ! i)\<lparr>ct_VolumeMounts := ms, ct_Resources := gc_Resources gc, ct_Args := gcArgs w gc sc\<rparr>"
    have put: "putGC w bm ms sc cs = cs[i := ?ct]" using Some \<open>gcIndex cs = Some i\<close> by (simp add: putGC_def)
    have names: "map ct_Name (cs[i := ?ct]) = map ct_Name cs" by (rule names_update [OF i(1)]) simp
    have "ct_Name ` set (cs[i := ?ct]) = ct_Name ` set cs" using arg_cong [OF names, of set] by simp
    moreover have "gcContainerName \<in> ct_Name ` set cs" using i by (metis image_eqI nth_mem)
    ultimately show ?thesis using assms names Some unfolding put by (simp add: insert_absorb)
  qed
qed

lemma putGC_others:
  assumes "\<And>c. ct_Name c = gcContainerName \<Longrightarrow> \<not> P c"
  shows "filter P (putGC w bm ms sc cs) = filter P cs"
proof (cases "gcIndex cs")
  case None
  then show ?thesis using assms by (auto simp: putGC_def Let_def split: option.split)
next
  case (Some i)
  then have i: "i < length cs" "ct_Name (cs ! i) = gcContainerName" using gcIndex_Some by blast+
  have "filter P cs = filter P (take i cs @ cs ! i # drop (i + 1) cs)"
    by (rule arg_cong [of _ _ "filter P"]) (use i(1) in \<open>simp add: id_take_nth_drop\<close>)
  then have "filter P (take i cs @ drop (i + 1) cs) = filter P cs" using assms [OF i(2)] by simp
  then show ?thesis using i assms by (auto simp: putGC_def Let_def Some filter_update_same split: option.split)
qed

lemma putContainer_mem: "ct \<in> set (putContainer n ct cs)"
proof (cases "containerIndex n cs")
  case (Some i)
  then show ?thesis using containerIndex_Some [OF Some] by (simp add: putContainer_def set_update_memI)
qed (simp add: putContainer_def)

lemma webContainer_fields:
  "ct_VolumeMounts (webContainer w bm ms sc cs) = ms" "ct_Image (webContainer w bm ms sc cs) = cs_Image bm"
  "ct_Args (webContainer w bm ms sc cs) = webArgs w bm sc"
  by (simp_all add: webContainer_def withDefaultProbes_def Let_def)

lemma putGC_mem:
  assumes "enabledGC bm = Some gcf"
  shows "\<exists>c \<in> set (putGC w bm ms sc cs). ct_Name c = gcContainerName \<and> ct_VolumeMounts c = ms \<and> ct_Args c = gcArgs w gcf sc"
proof (cases "gcIndex cs")
  case (Some i)
  then have i: "i < length cs" "ct_Name (cs ! i) = gcContainerName" using gcIndex_Some by blast+
  let ?ct = "(cs ! i)\<lparr>ct_VolumeMounts := ms, ct_Resources := gc_Resources gcf, ct_Args := gcArgs w gcf sc\<rparr>"
  have "?ct \<in> set (cs[i := ?ct])" using i(1) by (rule set_update_memI)
  then show ?thesis using i(2) unfolding putGC_def assms Let_def Some option.case by (intro bexI [of _ ?ct]) simp_all
qed (simp add: putGC_def assms)

text \<open>What is generated for a deployment with containers \<open>cs0\<close>.\<close>

definition blockContainers :: "wlib \<Rightarrow> block_manager \<Rightarrow> volume_mount list \<Rightarrow> string \<Rightarrow> container list \<Rightarrow> container list \<Rightarrow> bool" where
  "blockContainers w bm mounts storageConfig cs0 cs \<longleftrightarrow> distinct (map ct_Name cs) \<and>
     (\<exists>c \<in> set cs. ct_Name c = ''web'' \<and> ct_Image c = cs_Image bm \<and> ct_VolumeMounts c = mounts \<and>
        take 4 (ct_Args c) = [''tools'', ''bucket'', ''web'', ''--objstore.config='' @ storageConfig]) \<and>
     (if \<exists>gcf. bm_GC bm = Some gcf \<and> gc_Enable gcf = Some True
      then \<exists>c \<in> set cs. ct_Name c = ''gc'' \<and> ct_VolumeMounts c = mounts \<and> ct_Args c = gcArgs w (the (bm_GC bm)) storageConfig
      else ''gc'' \<notin> ct_Name ` set cs) \<and>
     filter (\<lambda>c. ct_Name c \<notin> {''web'', ''gc''}) cs = filter (\<lambda>c. ct_Name c \<notin> {''web'', ''gc''}) cs0"

lemma enabledGC_iff: "enabledGC bm = Some gcf \<longleftrightarrow> bm_GC bm = Some gcf \<and> gc_Enable gcf = Some True"
  by (auto simp: enabledGC_def split: option.splits)

lemma generated_containers:
  assumes "distinct (map ct_Name cs0)"
  shows "blockContainers w bm ms sc cs0 (putGC w bm ms sc (putContainer webContainerName (webContainer w bm ms sc cs0) cs0))"
proof -
  let ?web = "webContainer w bm ms sc cs0"
  let ?put = "putContainer webContainerName ?web cs0"
  let ?cs = "putGC w bm ms sc ?put"
  have names: "map ct_Name ?put = (if webContainerName \<in> ct_Name ` set cs0 then map ct_Name cs0 else map ct_Name cs0 @ [webContainerName])"
    by (rule putContainer_names [OF webContainer_name])
  then have dist: "distinct (map ct_Name ?put)" using assms by simp
  note literal = webContainerName_def gcContainerName_def
  have "filter (\<lambda>c. c = ?web) ?cs = filter (\<lambda>c. c = ?web) ?put"
    by (rule putGC_others) (use webContainer_name [of w bm ms sc cs0] in \<open>auto simp: literal\<close>)
  from arg_cong [OF this, of set] have "?web \<in> set ?cs" using putContainer_mem [of ?web webContainerName cs0] by auto
  then have web: "\<exists>c \<in> set ?cs. ct_Name c = ''web'' \<and> ct_Image c = cs_Image bm \<and> ct_VolumeMounts c = ms \<and>
      take 4 (ct_Args c) = [''tools'', ''bucket'', ''web'', ''--objstore.config='' @ sc]"
    by (rule rev_bexI) (simp add: webContainer_fields webContainer_name webContainerName_def webArgs_def)
  have others: "filter (\<lambda>c. ct_Name c \<notin> {''web'', ''gc''}) ?cs = filter (\<lambda>c. ct_Name c \<notin> {''web'', ''gc''}) cs0"
    by (simp add: putGC_others putContainer_others webContainer_name literal)
  have "if \<exists>gcf. bm_GC bm = Some gcf \<and> gc_Enable gcf = Some True
      then \<exists>c \<in> set ?cs. ct_Name c = ''gc'' \<and> ct_VolumeMounts c = ms \<and> ct_Args c = gcArgs w (the (bm_GC bm)) sc
      else ''gc'' \<notin> ct_Name ` set ?cs"
  proof (cases "enabledGC bm")
    case None
    then have "\<not> (\<exists>gcf. bm_GC bm = Some gcf \<and> gc_Enable gcf = Some True)" by (simp flip: enabledGC_iff)
    moreover have "''gc'' \<notin> ct_Name ` set ?cs" using putGC_names [OF dist, of w bm ms sc] None by (simp add: gcContainerName_def)
    ultimately show ?thesis by (simp only: if_False simp_thms)
  next
    case (Some gcf)
    then show ?thesis using putGC_mem [OF Some, of w ms sc ?put] by (simp add: gcContainerName_def enabledGC_iff)
  qed
  then show ?thesis using putGC_names [OF dist, of w bm ms sc] web others unfolding blockContainers_def by (intro conjI) simp_all
qed

text \<open>
  C31: the containers of the block manager.  Take a storage whose block manager is enabled, whatever containers the
  stored deployment has, as long as no two share a name; the storage can be read and the deployment is not
  controlled by another object.  The containers that are generated have distinct names again: a web
  container with the image of the spec and the configuration of the storage, a garbage collector with the
  arguments of the spec exactly where it is enabled, and all the others as they were stored.  The deployment is
  written with these, after the containers that the user gives have been merged into them: where there
  are none, with exactly these, and when they cannot be merged, not at all.
\<close>

theorem storage_containers:
  assumes bm: "sg_BlockManager (sg_Spec sg) = Some bm" "bm_Enable bm = Some True"
    and stored: "getOr (deployments cl) (Storage_meta sg (Storage_name sg []) zeroDeployment) s = (Inr d0, s1)"
      "distinct (map ct_Name (ps_Containers (dep_TemplateSpec d0)))"
    and vols: "VolumesAndVolumeMountsForStorage cl (om_Namespace sg @ ''.'' @ om_Name sg) s1 = (Inr (volumes, mounts), s2)"
    and conf: "GetStorageConfig y cl (storageKey sg) s2 = (Inr storageConfig, s3)"
    and owner: "w_setOwner w (object_meta.truncate sg) (om_OwnerReferences d0) = Inr refs"
  shows "\<exists>cs. blockContainers w bm mounts storageConfig (ps_Containers (dep_TemplateSpec d0)) cs \<and>
    (case patchContainers w bm cs of
       Inl e \<Rightarrow> Storage_deployment y w cl sg s = (Inl e, s3)
     | Inr cs' \<Rightarrow> (cs_Containers bm = [] \<longrightarrow> cs' = cs) \<and>
         (\<exists>d. Storage_deployment y w cl sg s = (Inr (ODeployment d, OperationCreateOrUpdate), s3) \<and>
            ps_Containers (dep_TemplateSpec d) = cs' \<and> ps_Volumes (dep_TemplateSpec d) = volumes \<and> om_OwnerReferences d = refs))"
proof -
  let ?old = "ps_Containers (dep_TemplateSpec d0)"
  let ?cs = "putGC w bm mounts storageConfig (putContainer webContainerName (webContainer w bm mounts storageConfig ?old) ?old)"
  define key where "key = om_Namespace sg @ ''.'' @ om_Name sg"
  have on: "blockManager sg = Some bm" using bm by (simp add: blockManager_def)
  have base: "ps_Containers (dep_TemplateSpec (storageBaseDeployment sg bm volumes d0)) = ?old"
    "ps_Volumes (dep_TemplateSpec (storageBaseDeployment sg bm volumes d0)) = volumes"
    "om_OwnerReferences (storageBaseDeployment sg bm volumes d0) = om_OwnerReferences d0"
    by (simp_all add: storageBaseDeployment_def)
  have "case patchContainers w bm ?cs of
       Inl e \<Rightarrow> Storage_deployment y w cl sg s = (Inl e, s3)
     | Inr cs' \<Rightarrow> (\<exists>d. Storage_deployment y w cl sg s = (Inr (ODeployment d, OperationCreateOrUpdate), s3) \<and>
            ps_Containers (dep_TemplateSpec d) = cs' \<and> ps_Volumes (dep_TemplateSpec d) = volumes \<and> om_OwnerReferences d = refs)"
    unfolding Storage_deployment_def Let_def on option.case key_def [symmetric]
    by (cases "patchContainers w bm ?cs") (simp_all add: bindE_app liftE_app stored(1) vols [folded key_def] conf base ownedBy_def owner)
  moreover have "cs_Containers bm = [] \<Longrightarrow> patchContainers w bm ?cs = Inr ?cs" by (simp add: patchContainers_def)
  ultimately show ?thesis
    using generated_containers [OF stored(2), of w bm mounts storageConfig] by (intro exI [of _ ?cs]) (auto split: sum.splits)
qed

text \<open>A stored deployment with a garbage collector that is disabled now, and a container of the user.\<close>

definition exBlockManager :: block_manager where
  "exBlockManager = \<lparr>cs_Replicas = None, cs_Image = ''img'', cs_ImagePullPolicy = [], cs_Resources = zeroResources,
     cs_LogLevel = [], cs_LogFormat = [], cs_Flags = [], cs_PodMetadata = None, cs_ConfigMaps = [], cs_Secrets = [],
     cs_Containers = [], cs_EmbeddedContainers = [], cs_ImagePullSecrets = [], cs_SecurityContext = None, cs_Affinity = None,
     cs_NodeSelector = Map.empty, cs_Tolerations = [], bm_Enable = Some True, bm_ServiceAccountName = [], bm_NodePort = 0,
     bm_BlockSyncInterval = None, bm_GC = None\<rparr>"

definition exBlockStorage :: storage where
  "exBlockStorage = zeroStorage\<lparr>om_Namespace := ''ns'', om_Name := ''s3'', sg_Spec := (sg_Spec zeroStorage)\<lparr>sg_BlockManager := Some exBlockManager\<rparr>\<rparr>"

definition exBlockDeployment :: deployment where
  "exBlockDeployment = zeroDeployment\<lparr>dep_TemplateSpec := (dep_TemplateSpec zeroDeployment)\<lparr>ps_Containers :=
     [zeroContainer\<lparr>ct_Name := ''gc''\<rparr>, zeroContainer\<lparr>ct_Name := ''sidecar''\<rparr>]\<rparr>\<rparr>"

definition exBlockClient :: "cluster client" where
  "exBlockClient = memClient\<lparr>deployments := nullKind\<lparr>kGet := \<lambda>_. ret exBlockDeployment\<rparr>, storages := nullKind\<lparr>kGet := \<lambda>_. ret exBlockStorage\<rparr>\<rparr>"

theorem storage_containers_witness:
  "\<exists>d. Storage_deployment exYaml exWlib exBlockClient exBlockStorage (exCluster [] [] []) =
       (Inr (ODeployment d, OperationCreateOrUpdate), exCluster [] [] []) \<and>
     ''web'' \<in> ct_Name ` set (ps_Containers (dep_TemplateSpec d)) \<and> ''gc'' \<notin> ct_Name ` set (ps_Containers (dep_TemplateSpec d))"
proof -
  let ?c = "exCluster [] [] []"
  have bm: "sg_BlockManager (sg_Spec exBlockStorage) = Some exBlockManager" "bm_Enable exBlockManager = Some True"
    by (simp_all add: exBlockStorage_def exBlockManager_def)
  have get: "getStorageObject exBlockClient ''ns.s3'' ?c = (Inr exBlockStorage, ?c)"
    by (simp add: getStorageObject_def exBlockClient_def nullKind_def bindE_app)
  have key: "om_Namespace exBlockStorage @ ''.'' @ om_Name exBlockStorage = ''ns.s3''" "storageKey exBlockStorage = ''ns.s3''"
    "sg_S3 (sg_Spec exBlockStorage) = None"
    by (simp_all add: exBlockStorage_def storageKey_def Join_def zeroStorage_def zero_defs)
  have stored: "getOr (deployments exBlockClient) ob ?c = (Inr exBlockDeployment, ?c)" for ob
    by (simp add: getOr_def exBlockClient_def nullKind_def handleE_case)
  have dist: "distinct (map ct_Name (ps_Containers (dep_TemplateSpec exBlockDeployment)))" by (simp add: exBlockDeployment_def)
  have vols: "VolumesAndVolumeMountsForStorage exBlockClient (om_Namespace exBlockStorage @ ''.'' @ om_Name exBlockStorage) ?c = (Inr ([], []), ?c)"
    unfolding key by (simp add: VolumesAndVolumeMountsForStorage_def bindE_app get key)
  obtain sc where conf: "GetStorageConfig exYaml exBlockClient (storageKey exBlockStorage) ?c = (Inr sc, ?c)"
    unfolding key by (simp add: GetStorageConfig_def bindE_app get key LocalStorage_def)
  have owner: "\<exists>refs. w_setOwner exWlib m rs = Inr refs" for m rs by (simp add: exWlib_def)
  then obtain refs where refs: "w_setOwner exWlib (object_meta.truncate exBlockStorage) (om_OwnerReferences exBlockDeployment) = Inr refs" by blast
  obtain cs where cs: "blockContainers exWlib exBlockManager [] sc (ps_Containers (dep_TemplateSpec exBlockDeployment)) cs"
    and run: "case patchContainers exWlib exBlockManager cs of
       Inl e \<Rightarrow> Storage_deployment exYaml exWlib exBlockClient exBlockStorage ?c = (Inl e, ?c)
     | Inr cs' \<Rightarrow> (cs_Containers exBlockManager = [] \<longrightarrow> cs' = cs) \<and>
         (\<exists>d. Storage_deployment exYaml exWlib exBlockClient exBlockStorage ?c = (Inr (ODeployment d, OperationCreateOrUpdate), ?c) \<and>
            ps_Containers (dep_TemplateSpec d) = cs' \<and> ps_Volumes (dep_TemplateSpec d) = [] \<and> om_OwnerReferences d = refs)"
    using storage_containers [OF bm stored dist vols conf refs] by blast
  have none: "cs_Containers exBlockManager = []" "bm_GC exBlockManager = None" by (simp_all add: exBlockManager_def)
  have "\<exists>c \<in> set cs. ct_Name c = ''web''" "''gc'' \<notin> ct_Name ` set cs" using cs none(2) by (auto simp: blockContainers_def)
  then have "''web'' \<in> ct_Name ` set cs" "''gc'' \<notin> ct_Name ` set cs" by (metis image_eqI)+
  with run none(1) show ?thesis by (auto simp: patchContainers_def)
qed

text \<open>
  A stored container of the garbage collector keeps the image it was created with: a new image in the
  spec reaches it only after the collector was disabled once.
\<close>

lemma gc_image_kept:
  "gcIndex cs = Some i \<Longrightarrow> enabledGC bm = Some gc \<Longrightarrow>
   ct_Image (putGC w bm ms sc cs ! i) = ct_Image (cs ! i) \<and> ct_ImagePullPolicy (putGC w bm ms sc cs ! i) = ct_ImagePullPolicy (cs ! i)"
  using gcIndex_Some [of cs i] by (simp add: putGC_def Let_def)

text \<open>The annotation settles: a storage that carries the hash of its configuration is not written.\<close>

lemma hash_annotation_settles:
  assumes "GetStorageHash x y cl (storageKey sg) s = (Inr h, s')"
  shows "reconcileOne cl (updateHashAnnotation x y cl (sg\<lparr>om_Annotations := (om_Annotations sg)(LabelNameStorageHash \<mapsto> h)\<rparr>)) s = (Inr (), s')"
proof -
  have "storageKey (sg\<lparr>om_Annotations := a\<rparr>) = storageKey sg" for a by (simp add: storageKey_def)
  with assms show ?thesis by (simp add: reconcileOne_def updateHashAnnotation_def)
qed

end
