(* ===== verification/Gateway_Workload.thy ===== *)
theory Gateway_Workload
  imports Frontend_Workload Storage_Workload
begin

text \<open>
  \<^verbatim>\<open>pkg/controllers/resources/gateway\<close> and \<^verbatim>\<open>pkg/controllers/gateway_controller.go\<close>: the gateway is
  told where to query and where to write, which tenants it admits and who may log in.  Encoders,
  \<^verbatim>\<open>bcrypt\<close>, the random numbers and \<^verbatim>\<open>time.ParseDuration\<close> (floating point) are parameters.

  \<^verbatim>\<open>webConfigSecret\<close> appends the built-in user to the gateway in memory, and is called twice in a
  reconciliation: it returns the changed gateway, and \<open>Gateway_Reconcile\<close> passes it on.
\<close>

text \<open>The \<^verbatim>\<open>config\<close> struct: user and password, token, and whether certificates are not verified.\<close>

record gw_config =
  gcf_BasicAuth :: "(string \<times> string) option"
  gcf_BearerToken :: string
  gcf_TLSConfig :: "bool option"

definition emptyConfig :: gw_config where
  "emptyConfig = \<lparr>gcf_BasicAuth = None, gcf_BearerToken = [], gcf_TLSConfig = None\<rparr>"

record gw_remote_write =
  gr_Name :: string
  gr_URL :: url
  gr_Headers :: labels_map
  gr_RemoteTimeout :: int
  gr_BasicAuth :: "(string \<times> string) option"
  gr_BearerToken :: string
  gr_InsecureSkipVerify :: bool

record gateway_lib =
  gl_jsonAdmission :: "string list \<Rightarrow> string res"
  gl_yamlWeb :: "web_file \<Rightarrow> string res"
  gl_yamlConfig :: "gw_config \<Rightarrow> string res"
  gl_yamlRemoteWrites :: "gw_remote_write list \<Rightarrow> string res"
  gl_parseDuration :: "string \<Rightarrow> int res"
  gl_intn :: "nat \<Rightarrow> nat"
  gl_bcrypt :: "string \<Rightarrow> string res"

section \<open>gateway.go\<close>

definition gatewayPort :: int where
  "gatewayPort = 9090"

definition Gateway_New :: "'s client \<Rightarrow> gateway \<Rightarrow> ('s, service) act" where
  "Gateway_New cl gw = SetService cl gw"

definition Gateway_labels :: "gateway \<Rightarrow> labels_map" where
  "Gateway_labels gw = BaseLabels(LabelNameAppName \<mapsto> AppNameGateway, LabelNameAppManagedBy \<mapsto> om_Name gw)"

definition Gateway_name :: "gateway \<Rightarrow> string list \<Rightarrow> string" where
  "Gateway_name gw nameSuffix = QualifiedName AppNameGateway (om_Name gw) nameSuffix"

definition Gateway_meta :: "service \<Rightarrow> gateway \<Rightarrow> string \<Rightarrow> 'b object_meta_scheme \<Rightarrow> 'b object_meta_scheme" where
  "Gateway_meta svc gw name ob = ob\<lparr>om_Name := name, om_Namespace := om_Namespace svc, om_Labels := Gateway_labels gw\<rparr>"

definition Gateway_HttpAddr :: "service \<Rightarrow> gateway \<Rightarrow> string" where
  "Gateway_HttpAddr svc gw =
     ''http://'' @ Gateway_name gw [ServiceNameSuffix] @ ''.'' @ om_Namespace svc @ ''.svc:'' @ itoa gatewayPort"

definition Gateway_HttpsAddr :: "service \<Rightarrow> gateway \<Rightarrow> string" where
  "Gateway_HttpsAddr svc gw =
     ''https://'' @ Gateway_name gw [ServiceNameSuffix] @ ''.'' @ om_Namespace svc @ ''.svc:'' @ itoa gatewayPort"

section \<open>configmap.go\<close>

definition tenantsAdmissionConfigFile :: string where
  "tenantsAdmissionConfigFile = ''tenants-admission.yaml''"

definition admittedTenants :: "gateway \<Rightarrow> tenant list \<Rightarrow> string list" where
  "admittedTenants gw items = map (\<lambda>t. ts_Tenant (tn_Spec t))
     (filter (\<lambda>t. om_DeletionTimestamp t = None \<and>
        (case om_Labels t ServiceLabelKey of None \<Rightarrow> False | Some v \<Rightarrow> mget (om_Labels gw) ServiceLabelKey = v)) items)"

definition tenantsAdmissionConfigMap :: "gateway_lib \<Rightarrow> wlib \<Rightarrow> 's client \<Rightarrow> service \<Rightarrow> gateway \<Rightarrow> 's resource" where
  "tenantsAdmissionConfigMap gl w cl svc gw =
     (let cm = Gateway_meta svc gw (Gateway_name gw [''tenants-admission-config'']) zeroConfigMap in
      if \<not> gw_EnabledTenantsAdmission (gw_Spec gw) then ret (OConfigMap cm, OperationDelete)
      else bindE (kList (tenants cl) \<lparr>lo_Namespace = [], lo_Labels = Map.empty\<rparr>) (\<lambda>items.
        bindE (liftE (gl_jsonAdmission gl (admittedTenants gw items))) (\<lambda>acBytes.
        bindE (liftE (ownedBy w gw (cm\<lparr>cm_Data := [tenantsAdmissionConfigFile \<mapsto> acBytes]\<rparr>))) (\<lambda>cm1.
          ret (OConfigMap cm1, OperationCreateOrUpdate)))))"

section \<open>secret.go\<close>

definition defaultLetters :: string where
  "defaultLetters = ''abcdefghijklmnopqrstuvwxyzABCDEFGHIJKLMNOPQRSTUVWXYZ0123456789''"

text \<open>\<open>intn\<close> is the sequence of numbers that \<^verbatim>\<open>rand.Intn(62)\<close> returns; \<open>k\<close> were drawn before.\<close>

definition randomString :: "(nat \<Rightarrow> nat) \<Rightarrow> nat \<Rightarrow> nat \<Rightarrow> string" where
  "randomString intn k n = map (\<lambda>i. defaultLetters ! intn (k + i)) [0..<n]"

definition builtInUser :: "gateway \<Rightarrow> string" where
  "builtInUser gw = Gateway_name gw [''built-in-user'']"

text \<open>An error of \<^verbatim>\<open>bcrypt\<close> is dropped.\<close>

definition generateBuiltInBasicAuthUserSecret ::
  "gateway_lib \<Rightarrow> wlib \<Rightarrow> 's client \<Rightarrow> service \<Rightarrow> gateway \<Rightarrow> ('s, unit) act" where
  "generateBuiltInBasicAuthUserSecret gl w cl svc gw =
     (let user = randomString (gl_intn gl) 0 16; clearTextPassword = randomString (gl_intn gl) 16 32 in
      case gl_bcrypt gl clearTextPassword of
        Inl _ \<Rightarrow> ret ()
      | Inr password \<Rightarrow>
          bindE (liftE (ownedBy w gw ((Gateway_meta svc gw (builtInUser gw) zeroSecret)\<lparr>
            sec_StringData := [''username'' \<mapsto> user, ''password'' \<mapsto> password, ''cpassword'' \<mapsto> clearTextPassword]\<rparr>))) (\<lambda>sec.
          bindE (kCreate (secrets cl) sec) (\<lambda>_. ret ())))"

definition builtInAuth :: "gateway \<Rightarrow> basic_auth" where
  "builtInAuth gw = \<lparr>ba_Username = \<lparr>sks_Name = builtInUser gw, sks_Key = ''username''\<rparr>,
     ba_Password = \<lparr>sks_Name = builtInUser gw, sks_Key = ''password''\<rparr>\<rparr>"

definition ensureBuiltInUser :: "gateway_lib \<Rightarrow> wlib \<Rightarrow> 's client \<Rightarrow> service \<Rightarrow> gateway \<Rightarrow> ('s, unit) act" where
  "ensureBuiltInUser gl w cl svc gw =
     handleE (kGet (secrets cl) \<lparr>nn_Namespace = om_Namespace gw, nn_Name = builtInUser gw\<rparr>) (\<lambda>r. case r of
         Inr _ \<Rightarrow> ret ()
       | Inl e \<Rightarrow> if e = ApiNotFound then generateBuiltInBasicAuthUserSecret gl w cl svc gw else failE e)"

definition withBuiltInUser :: "gateway \<Rightarrow> web_config \<Rightarrow> web_config" where
  "withBuiltInUser gw wc = (if wc_BasicAuthUsers wc = [] then wc
     else wc\<lparr>wc_BasicAuthUsers := wc_BasicAuthUsers wc @ [builtInAuth gw]\<rparr>)"

definition setWebConfig :: "web_config \<Rightarrow> gateway \<Rightarrow> gateway" where
  "setWebConfig wc gw = gw\<lparr>gw_Spec := (gw_Spec gw)\<lparr>gw_WebConfig := Some wc\<rparr>\<rparr>"

definition webConfigOf :: "gateway_lib \<Rightarrow> wlib \<Rightarrow> 's client \<Rightarrow> secret \<Rightarrow> gateway \<Rightarrow> web_config \<Rightarrow> ('s, secret) act" where
  "webConfigOf gl w cl secret0 gw wc =
     bindE (CreateWebConfig (gl_yamlWeb gl) cl (om_Namespace gw) wc) (\<lambda>body.
       liftE (ownedBy w gw (secret0\<lparr>sec_Data := [WhizardWebConfigFile \<mapsto> body]\<rparr>)))"

definition Gateway_webConfigSecret ::
  "gateway_lib \<Rightarrow> wlib \<Rightarrow> 's client \<Rightarrow> service \<Rightarrow> gateway \<Rightarrow> ('s, (kobject \<times> operation) \<times> gateway) act" where
  "Gateway_webConfigSecret gl w cl svc gw =
     (let secret0 = Gateway_meta svc gw (Gateway_name gw [''web-config'']) zeroSecret in
      case gw_WebConfig (gw_Spec gw) of
        None \<Rightarrow> ret ((OSecret secret0, OperationDelete), gw)
      | Some wc \<Rightarrow>
          bindE (if wc_BasicAuthUsers wc = [] then ret () else ensureBuiltInUser gl w cl svc gw) (\<lambda>_.
          let wc1 = withBuiltInUser gw wc; gw1 = setWebConfig wc1 gw in
          bindE (webConfigOf gl w cl secret0 gw1 wc1) (\<lambda>sec.
            ret ((OSecret sec, OperationCreateOrUpdate), gw1))))"

section \<open>The addresses of the other components\<close>

definition Frontend_addr :: "service \<Rightarrow> query_frontend \<Rightarrow> string" where
  "Frontend_addr svc qf = (if servesTLS (qf_WebConfig (qf_Spec qf)) then Frontend_HttpsAddr svc qf else Frontend_HttpAddr svc qf)"

definition sameService :: "gateway \<Rightarrow> list_options" where
  "sameService gw = \<lparr>lo_Namespace = [], lo_Labels = ManagedLabelBySameService gw\<rparr>"

definition Gateway_queryfrontendAddress :: "'s client \<Rightarrow> service \<Rightarrow> gateway \<Rightarrow> ('s, string) act" where
  "Gateway_queryfrontendAddress cl svc gw =
     bindE (kList (queryFrontends cl) (sameService gw)) (\<lambda>items. case items of
         [] \<Rightarrow> ret []
       | [q] \<Rightarrow> bindE (Frontend_New cl q) (\<lambda>svc'. ret (Frontend_addr svc' q))
       | _ \<Rightarrow> failE (GoErr (ofService ''more than one query frontend defined'' svc)))"

definition Gateway_queryAddress :: "'s client \<Rightarrow> service \<Rightarrow> gateway \<Rightarrow> ('s, string) act" where
  "Gateway_queryAddress cl svc gw =
     bindE (kList (queries cl) (sameService gw)) (\<lambda>items. case items of
         [] \<Rightarrow> ret []
       | [q] \<Rightarrow> bindE (Query_New cl q) (\<lambda>svc'. ret (Query_addr svc' q))
       | _ \<Rightarrow> failE (GoErr (ofService ''more than one query defined'' svc)))"

definition Gateway_remoteWriteAddress :: "'s client \<Rightarrow> service \<Rightarrow> gateway \<Rightarrow> ('s, string) act" where
  "Gateway_remoteWriteAddress cl svc gw =
     bindE (kList (routers cl) (sameService gw)) (\<lambda>items. case items of
         [] \<Rightarrow> failE (GoErr (ofService ''no router defined'' svc))
       | [r] \<Rightarrow> bindE (Router_New cl r) (\<lambda>svc'. ret (RemoteWriteAddr svc' r))
       | _ \<Rightarrow> failE (GoErr (ofService ''more than one router defined'' svc)))"

section \<open>deployment.go\<close>

definition WhizardConfigMountPath :: string where
  "WhizardConfigMountPath = ''/etc/whizard/config/''"

definition gatewayBaseDeployment :: "service \<Rightarrow> gateway \<Rightarrow> deployment" where
  "gatewayBaseDeployment svc gw = (Gateway_meta svc gw (Gateway_name gw []) zeroDeployment)\<lparr>
     dep_Replicas := cs_Replicas (gw_Spec gw), dep_Selector := Gateway_labels gw, dep_TemplateLabels := Gateway_labels gw,
     dep_TemplateSpec := zeroPodSpec\<lparr>ps_NodeSelector := cs_NodeSelector (gw_Spec gw), ps_Tolerations := cs_Tolerations (gw_Spec gw),
       ps_Affinity := cs_Affinity (gw_Spec gw), ps_SecurityContext := cs_SecurityContext (gw_Spec gw),
       ps_ImagePullSecrets := cs_ImagePullSecrets (gw_Spec gw)\<rparr>\<rparr>"

definition gatewayHeadArgs :: "service \<Rightarrow> gateway \<Rightarrow> string list" where
  "gatewayHeadArgs svc gw =
     (let sp = gw_Spec gw in
      optArg ''--log.level='' (cs_LogLevel sp) @ optArg ''--log.format='' (cs_LogFormat sp) @
      optArg ''--tenant.header='' (sv_TenantHeader (sv_Spec svc)) @ optArg ''--tenant.label-name='' (sv_TenantLabelName (sv_Spec svc)) @
      (if gw_DebugMode sp then [''--debug.enable-ui''] else []) @
      (if gw_EnabledTenantsAdmission sp
       then [''--tenant.admission-control-config-file='' @ WhizardConfigMountPath @ tenantsAdmissionConfigFile] else []) @
      (if gw_WebConfig sp = None then [] else [''--http.config='' @ WhizardWebConfigMountPath @ WhizardWebConfigFile]))"

definition admissionVolumes :: "gateway \<Rightarrow> volume list" where
  "admissionVolumes gw = (if gw_EnabledTenantsAdmission (gw_Spec gw)
     then [\<lparr>vol_Name = ''tenants-admission-config'', vol_Source = VolConfigMap (Gateway_name gw [''tenants-admission-config''])\<rparr>] else [])"

definition admissionMounts :: "gateway \<Rightarrow> volume_mount list" where
  "admissionMounts gw = (if gw_EnabledTenantsAdmission (gw_Spec gw)
     then [\<lparr>vm_Name = ''tenants-admission-config'', vm_ReadOnly = True, vm_MountPath = WhizardConfigMountPath, vm_SubPath = []\<rparr>] else [])"

text \<open>The block for the web configuration: the probes are those of no TLS, as the container has none.\<close>

definition gatewayWebConfig ::
  "ext \<Rightarrow> gateway_lib \<Rightarrow> wlib \<Rightarrow> 's client \<Rightarrow> service \<Rightarrow> gateway \<Rightarrow>
   ('s, labels_map \<times> volume list \<times> volume_mount list \<times> gateway) act" where
  "gatewayWebConfig x gl w cl svc gw = (case gw_WebConfig (gw_Spec gw) of
       None \<Rightarrow> ret (Map.empty, [], [], gw)
     | Some wc \<Rightarrow> bindE (Gateway_webConfigSecret gl w cl svc gw) (\<lambda>((ob, _), gw1). case ob of
         OSecret sec \<Rightarrow>
           (case CreateWebConfigVolumeMount (Gateway_name gw [''web-config'']) wc of (vs, ms) \<Rightarrow>
            ret ([LabelNameConfigHash \<mapsto> x_md5Hex x (mget (sec_Data sec) WhizardWebConfigFile)], vs, ms, gw1))
       | _ \<Rightarrow> failE Panic))"

definition zeroBasicAuth :: basic_auth where
  "zeroBasicAuth = \<lparr>ba_Username = \<lparr>sks_Name = [], sks_Key = []\<rparr>, ba_Password = \<lparr>sks_Name = [], sks_Key = []\<rparr>\<rparr>"

definition basicAuthOf :: "'s client \<Rightarrow> service \<Rightarrow> basic_auth \<Rightarrow> ('s, (string \<times> string) option) act" where
  "basicAuthOf cl svc ba =
     (if ba = zeroBasicAuth then ret None
      else bindE (kGet (secrets cl) \<lparr>nn_Namespace = om_Namespace svc, nn_Name = sks_Name (ba_Username ba)\<rparr>) (\<lambda>us.
        bindE (kGet (secrets cl) \<lparr>nn_Namespace = om_Namespace svc, nn_Name = sks_Name (ba_Password ba)\<rparr>) (\<lambda>ps.
          ret (Some (mget (sec_Data us) (sks_Key (ba_Username ba)), mget (sec_Data ps) (sks_Key (ba_Password ba)))))))"

text \<open>\<^verbatim>\<open>buff, _ := yaml.Marshal(cfg)\<close>: on an error the text is empty.\<close>

definition configText :: "gateway_lib \<Rightarrow> gw_config \<Rightarrow> string" where
  "configText gl cfg = (case gl_yamlConfig gl cfg of Inl _ \<Rightarrow> [] | Inr buff \<Rightarrow> buff)"

definition skipVerify :: gw_config where
  "skipVerify = emptyConfig\<lparr>gcf_TLSConfig := Some True\<rparr>"

definition tlsArg :: "gateway_lib \<Rightarrow> string \<Rightarrow> url \<Rightarrow> string list" where
  "tlsArg gl prefix u = (if u_Scheme u = ''https'' then [prefix @ configText gl skipVerify] else [])"

definition parseOr :: "string \<Rightarrow> string \<Rightarrow> url res" where
  "parseOr addr msg = (case urlParse addr of Inl _ \<Rightarrow> Inl (GoErr msg) | Inr u \<Rightarrow> Inr u)"

text \<open>The address the gateway prefers: the query frontend, and the query component without one.\<close>

definition preferredAddr :: "service \<Rightarrow> string \<Rightarrow> string \<Rightarrow> (string \<times> url) res" where
  "preferredAddr svc frontendAddr queryAddr =
     (let addr = (if frontendAddr = [] then queryAddr else frontendAddr) in
      if addr = [] then Inl (GoErr (ofService ''no query frontend and query exist'' svc))
      else bindR (parseOr addr (''invalid query address: '' @ addr)) (\<lambda>u. Inr (addr, u)))"

definition remoteQueryArgs :: "gateway_lib \<Rightarrow> 's client \<Rightarrow> service \<Rightarrow> remote_query_spec \<Rightarrow> ('s, string list) act" where
  "remoteQueryArgs gl cl svc rq =
     bindE (liftE (parseOr (rq_URL rq) (''invalid remoteQuery Url: '' @ rq_URL rq))) (\<lambda>u.
     bindE (basicAuthOf cl svc (hcc_BasicAuth rq)) (\<lambda>auth.
     let cfg = \<lparr>gcf_BasicAuth = auth, gcf_BearerToken = hcc_BearerToken rq,
                gcf_TLSConfig = (if u_Scheme u = ''https'' then Some True else None)\<rparr>
     in ret ([''--query.address='' @ rq_URL rq] @ (if cfg \<noteq> emptyConfig then [''--query.config='' @ configText gl cfg] else []))))"

definition queryArgsOf :: "gateway_lib \<Rightarrow> 's client \<Rightarrow> service \<Rightarrow> string \<Rightarrow> string \<Rightarrow> ('s, string list) act" where
  "queryArgsOf gl cl svc frontendAddr queryAddr = (case sv_RemoteQuery (sv_Spec svc) of
       Some rq \<Rightarrow>
         if rq_URL rq \<noteq> [] then
           bindE (remoteQueryArgs gl cl svc rq) (\<lambda>args.
           bindE (liftE (preferredAddr svc frontendAddr queryAddr)) (\<lambda>(addr, u).
             ret (args @ [''--rules-query.address='' @ queryAddr] @ tlsArg gl ''--rules-query.config='' u)))
         else bindE (liftE (preferredAddr svc frontendAddr queryAddr)) (\<lambda>(addr, u).
           ret ([''--query.address='' @ addr] @ tlsArg gl ''--query.config='' u))
     | None \<Rightarrow> bindE (liftE (preferredAddr svc frontendAddr queryAddr)) (\<lambda>(addr, u).
         ret ([''--query.address='' @ addr] @ tlsArg gl ''--query.config='' u)))"

definition writeArgs :: "gateway_lib \<Rightarrow> string \<Rightarrow> string \<Rightarrow> string list res" where
  "writeArgs gl routerAddr queryAddr =
     bindR (parseOr routerAddr (''invalid router address: '' @ queryAddr)) (\<lambda>u.
       Inr ([''--remote-write.address='' @ routerAddr] @ tlsArg gl ''--remote-write.config='' u))"

definition addRemoteWrite ::
  "gateway_lib \<Rightarrow> 's client \<Rightarrow> service \<Rightarrow> gw_remote_write list \<Rightarrow> remote_write_spec \<Rightarrow> ('s, gw_remote_write list) act" where
  "addRemoteWrite gl cl svc acc rw =
     bindE (liftE (parseOr (rw_URL rw) (''invalid remote write url: '' @ rw_URL rw))) (\<lambda>u.
     bindE (if rw_RemoteTimeout rw = [] then ret 0
            else liftE (case gl_parseDuration gl (rw_RemoteTimeout rw) of
                          Inl _ \<Rightarrow> Inl (GoErr (''invalid remoteTimeout: '' @ rw_RemoteTimeout rw))
                        | Inr d \<Rightarrow> Inr d)) (\<lambda>timeout.
     bindE (basicAuthOf cl svc (hcc_BasicAuth rw)) (\<lambda>auth.
       ret (acc @ [\<lparr>gr_Name = rw_Name rw, gr_URL = u, gr_Headers = rw_Headers rw, gr_RemoteTimeout = timeout, gr_BasicAuth = auth,
         gr_BearerToken = hcc_BearerToken rw, gr_InsecureSkipVerify = (u_Scheme u = ''https'')\<rparr>]))))"

definition remoteWritesArg :: "gateway_lib \<Rightarrow> 's client \<Rightarrow> service \<Rightarrow> ('s, string list) act" where
  "remoteWritesArg gl cl svc =
     bindE (foldE (addRemoteWrite gl cl svc) [] (sv_RemoteWrites (sv_Spec svc))) (\<lambda>rws.
     bindE (liftE (gl_yamlRemoteWrites gl rws)) (\<lambda>buff. ret [''--external-remote-writes.config='' @ buff]))"

definition gatewayArgs :: "gateway_lib \<Rightarrow> 's client \<Rightarrow> service \<Rightarrow> gateway \<Rightarrow> ('s, string list) act" where
  "gatewayArgs gl cl svc gw =
     bindE (Gateway_queryfrontendAddress cl svc gw) (\<lambda>frontendAddr.
     bindE (Gateway_queryAddress cl svc gw) (\<lambda>queryAddr.
     bindE (queryArgsOf gl cl svc frontendAddr queryAddr) (\<lambda>qargs.
     bindE (Gateway_remoteWriteAddress cl svc gw) (\<lambda>routerAddr.
     bindE (liftE (writeArgs gl routerAddr queryAddr)) (\<lambda>wargs.
     bindE (remoteWritesArg gl cl svc) (\<lambda>rargs.
       ret (gatewayHeadArgs svc gw @ qargs @ wargs @ rargs)))))))"

definition gatewayContainer :: "gateway \<Rightarrow> container" where
  "gatewayContainer gw = zeroContainer\<lparr>ct_Name := ''gateway'', ct_Image := cs_Image (gw_Spec gw), ct_Resources := cs_Resources (gw_Spec gw),
     ct_Ports := [tcpPort ''http'' gatewayPort]\<rparr>"

definition Gateway_deployment ::
  "ext \<Rightarrow> gateway_lib \<Rightarrow> wlib \<Rightarrow> 's client \<Rightarrow> service \<Rightarrow> gateway \<Rightarrow> ('s, (kobject \<times> operation) \<times> gateway) act" where
  "Gateway_deployment x gl w cl svc gw =
     bindE (gatewayWebConfig x gl w cl svc gw) (\<lambda>(annotations, vs, ms, gw1).
     bindE (gatewayArgs gl cl svc gw1) (\<lambda>args.
     let ct = (gatewayContainer gw1)\<lparr>ct_Args := args, ct_VolumeMounts := admissionMounts gw1 @ ms\<rparr>; d = gatewayBaseDeployment svc gw1 in
     bindE (liftE (patchContainers w (gw_Spec gw1) [ct])) (\<lambda>cs.
     bindE (liftE (ownedBy w gw1 (d\<lparr>dep_TemplateAnnotations := annotations,
         dep_TemplateSpec := (dep_TemplateSpec d)\<lparr>ps_Containers := cs, ps_Volumes := admissionVolumes gw1 @ vs\<rparr>\<rparr>))) (\<lambda>d1.
       ret ((ODeployment d1, OperationCreateOrUpdate), gw1)))))"

section \<open>service.go, gateway\_controller.go\<close>

definition Gateway_service :: "wlib \<Rightarrow> 's client \<Rightarrow> service \<Rightarrow> gateway \<Rightarrow> 's resource" where
  "Gateway_service w cl svc gw =
     bindE (getOr (kubeServices cl) (Gateway_meta svc gw (Gateway_name gw [ServiceNameSuffix]) zeroKubeService)) (\<lambda>s1.
     bindE (liftE (ownedBy w gw (nodePortService gatewayPort (gw_NodePort (gw_Spec gw)) (s1\<lparr>ks_Selector := Gateway_labels gw\<rparr>)))) (\<lambda>s2.
       ret (OService s2, OperationCreateOrUpdate)))"

definition Gateway_Reconcile :: "ext \<Rightarrow> gateway_lib \<Rightarrow> wlib \<Rightarrow> 's client \<Rightarrow> service \<Rightarrow> gateway \<Rightarrow> ('s, unit) act" where
  "Gateway_Reconcile x gl w cl svc gw =
     bindE (Gateway_deployment x gl w cl svc gw) (\<lambda>(r, gw1).
     bindE (reconcileOne cl (ret r)) (\<lambda>_.
     ReconcileResources cl [Gateway_service w cl svc gw1, tenantsAdmissionConfigMap gl w cl svc gw1,
       bindE (Gateway_webConfigSecret gl w cl svc gw1) (\<lambda>(r2, _). ret r2)]))"

definition applyConfigurationFromGatewayTemplateSpec :: "merge_lib \<Rightarrow> gateway \<Rightarrow> gateway_spec \<Rightarrow> gateway res" where
  "applyConfigurationFromGatewayTemplateSpec mg gw tmpl =
     bindR (mg_gateway mg (gw_Spec gw) tmpl) (\<lambda>sp. Inr (gw\<lparr>gw_Spec := sp\<rparr>))"

definition GatewayReconciler_Reconcile ::
  "ext \<Rightarrow> gateway_lib \<Rightarrow> wlib \<Rightarrow> merge_lib \<Rightarrow> 's client \<Rightarrow> nsname \<Rightarrow> ('s, ctrl_result) act" where
  "GatewayReconciler_Reconcile x gl w mg cl req =
     fetchThen (gateways cl) req (\<lambda>inst.
       if mget (om_Labels inst) ServiceLabelKey = [] then ret noResult
       else bindE (fetchService cl inst) (\<lambda>service.
         bindE (liftE (applyConfigurationFromGatewayTemplateSpec mg inst
                         (sv_GatewayTemplateSpec (sv_Spec (ApplyDefaults w service))))) (\<lambda>gw.
         bindE (Gateway_New cl gw) (\<lambda>svc.
         bindE (Gateway_Reconcile x gl w cl svc gw) (\<lambda>_. ret noResult)))))"

definition GatewayReconciler_mapFuncBySelectorFunc ::
  "'s client \<Rightarrow> ('b object_meta_scheme \<Rightarrow> labels_map) \<Rightarrow> 'b object_meta_scheme \<Rightarrow> ('s, nsname list) act" where
  "GatewayReconciler_mapFuncBySelectorFunc cl fn ob = mapFuncBySelectorFunc (gateways cl) fn ob"

section \<open>The users of the web configuration\<close>

lemma foldE_append: "foldE f b (xs @ ys) = bindE (foldE f b xs) (\<lambda>b'. foldE f b' ys)"
  by (induction xs arbitrary: b) (simp_all add: bindE_assoc)

lemma createBasicAuthUsers_state:
  assumes reads: "\<And>k. kGet (secrets cl) k s = (get k, s)"
  shows "snd (createBasicAuthUsers cl ns xs s) = s"
  by (induction xs rule: rev_induct)
    (auto simp: createBasicAuthUsers_def foldE_append bindE_app reads split: prod.splits sum.splits)

lemma createBasicAuthUsers_repeat:
  assumes reads: "\<And>k. kGet (secrets cl) k s = (get k, s)"
    and once: "createBasicAuthUsers cl ns (us @ [b]) s = (Inr m, s')"
  shows "createBasicAuthUsers cl ns (us @ [b, b]) s = (Inr m, s)"
proof -
  have twice: "createBasicAuthUsers cl ns (us @ [b, b]) =
      bindE (createBasicAuthUsers cl ns (us @ [b])) (\<lambda>users.
       bindE (kGet (secrets cl) \<lparr>nn_Namespace = ns, nn_Name = sks_Name (ba_Username b)\<rparr>) (\<lambda>userSecret.
       bindE (kGet (secrets cl) \<lparr>nn_Namespace = ns, nn_Name = sks_Name (ba_Password b)\<rparr>) (\<lambda>passSecret.
         ret (users(mget (sec_Data userSecret) (sks_Key (ba_Username b)) \<mapsto>
                    mget (sec_Data passSecret) (sks_Key (ba_Password b)))))))"
    by (simp add: createBasicAuthUsers_def foldE_append bindE_assoc)
  obtain m0 where m0: "createBasicAuthUsers cl ns us s = (Inr m0, s)"
    using once createBasicAuthUsers_state [OF reads, of ns us]
    by (cases "createBasicAuthUsers cl ns us s") (auto simp: createBasicAuthUsers_def foldE_append bindE_app split: sum.splits prod.splits)
  obtain u p where up: "get \<lparr>nn_Namespace = ns, nn_Name = sks_Name (ba_Username b)\<rparr> = Inr u"
      "get \<lparr>nn_Namespace = ns, nn_Name = sks_Name (ba_Password b)\<rparr> = Inr p"
    and m: "m = m0(mget (sec_Data u) (sks_Key (ba_Username b)) \<mapsto> mget (sec_Data p) (sks_Key (ba_Password b)))" "s' = s"
    using once m0 unfolding createBasicAuthUsers_def
    by (auto simp: foldE_append bindE_app reads split: sum.splits prod.splits)
  show ?thesis using once unfolding twice m by (simp add: bindE_app reads up)
qed

definition webSecret0 :: "service \<Rightarrow> gateway \<Rightarrow> secret" where
  "webSecret0 svc gw = Gateway_meta svc gw (Gateway_name gw [''web-config'']) zeroSecret"

lemma setWebConfig_simps [simp]:
  "om_Namespace (setWebConfig wc gw) = om_Namespace gw" "om_Name (setWebConfig wc gw) = om_Name gw"
  "gw_WebConfig (gw_Spec (setWebConfig wc gw)) = Some wc" "object_meta.truncate (setWebConfig wc gw) = object_meta.truncate gw"
  "builtInUser (setWebConfig wc gw) = builtInUser gw" "webSecret0 svc (setWebConfig wc gw) = webSecret0 svc gw"
  "withBuiltInUser (setWebConfig wc gw) = withBuiltInUser gw"
  by (simp_all add: setWebConfig_def builtInUser_def Gateway_name_def webSecret0_def Gateway_meta_def Gateway_labels_def
      object_meta.truncate_def withBuiltInUser_def builtInAuth_def fun_eq_iff)

lemma webConfigOf_setWebConfig [simp]: "webConfigOf gl w cl sec0 (setWebConfig wc gw) = webConfigOf gl w cl sec0 gw"
  by (simp add: webConfigOf_def ownedBy_def fun_eq_iff)

lemma Gateway_webConfigSecret_alt:
  assumes "gw_WebConfig (gw_Spec gw) = Some wc"
  shows "Gateway_webConfigSecret gl w cl svc gw =
    bindE (if wc_BasicAuthUsers wc = [] then ret () else ensureBuiltInUser gl w cl svc gw) (\<lambda>_.
    bindE (webConfigOf gl w cl (webSecret0 svc gw) gw (withBuiltInUser gw wc)) (\<lambda>sec.
      ret ((OSecret sec, OperationCreateOrUpdate), setWebConfig (withBuiltInUser gw wc) gw)))"
  by (simp add: Gateway_webConfigSecret_def assms Let_def webSecret0_def)

lemma ensureBuiltInUser_stored:
  assumes "\<And>k. kGet (secrets cl) k s = (get k, s)"
    and "get \<lparr>nn_Namespace = om_Namespace gw, nn_Name = builtInUser gw\<rparr> = Inr stored"
  shows "ensureBuiltInUser gl w cl svc gw s = (Inr (), s)"
  using assms by (simp add: ensureBuiltInUser_def handleE_case)

lemma CreateWebConfig_repeat:
  assumes reads: "\<And>k. kGet (secrets cl) k s = (get k, s)"
    and once: "CreateWebConfig y cl ns (withBuiltInUser gw wc) s = (Inr body, s')"
  shows "CreateWebConfig y cl ns (withBuiltInUser gw (withBuiltInUser gw wc)) s = (Inr body, s) \<and> s' = s"
proof (cases "wc_BasicAuthUsers wc = []")
  case True
  then have "createBasicAuthUsers cl ns (wc_BasicAuthUsers wc) s = (Inr Map.empty, s)" by (simp add: createBasicAuthUsers_def)
  with once True show ?thesis by (simp add: withBuiltInUser_def CreateWebConfig_def Let_def bindE_app split: sum.splits)
next
  case False
  let ?u = "wc_BasicAuthUsers wc" and ?b = "builtInAuth gw"
  obtain m s2 where m: "createBasicAuthUsers cl ns (?u @ [?b]) s = (Inr m, s2)"
    using once False by (auto simp: withBuiltInUser_def CreateWebConfig_def Let_def bindE_app split: sum.splits prod.splits)
  have "s2 = s" using createBasicAuthUsers_state [OF reads, of ns "?u @ [?b]"] m by simp
  with createBasicAuthUsers_repeat [OF reads m] m once False show ?thesis
    by (auto simp: withBuiltInUser_def CreateWebConfig_def Let_def bindE_app split: sum.splits prod.splits)
qed

lemma webConfigOf_repeat:
  assumes reads: "\<And>k. kGet (secrets cl) k s = (get k, s)"
    and once: "webConfigOf gl w cl sec0 g (withBuiltInUser gw wc) s = (Inr sec, s')"
  shows "webConfigOf gl w cl sec0 g (withBuiltInUser gw (withBuiltInUser gw wc)) s = (Inr sec, s) \<and> s' = s"
proof -
  obtain body where body: "CreateWebConfig (gl_yamlWeb gl) cl (om_Namespace g) (withBuiltInUser gw wc) s = (Inr body, s')"
    and "ownedBy w g (sec0\<lparr>sec_Data := [WhizardWebConfigFile \<mapsto> body]\<rparr>) = Inr sec"
    using once by (auto simp: webConfigOf_def bindE_app split: sum.splits prod.splits)
  with CreateWebConfig_repeat [OF reads body] show ?thesis by (simp add: webConfigOf_def bindE_app)
qed

lemma webConfigOf_name: "webConfigOf gl w cl sec0 g wc s = (Inr sec, s') \<Longrightarrow> om_Name sec = om_Name sec0"
  by (auto simp: webConfigOf_def bindE_app ownedBy_def bindR_def split: sum.splits prod.splits)

text \<open>
  C20: the pods of the gateway are restarted for the web configuration they get.  The generated secret is
  computed twice in a reconciliation, the second time with the built-in user in the list of users
  already; with the built-in user stored and no other writer the second result is the first one, so
  the hash on the pods is the hash of the file that is stored.
\<close>

theorem gateway_hash_matches_secret:
  assumes reads: "\<And>k. kGet (secrets cl) k s = (get k, s)"
    and user: "get \<lparr>nn_Namespace = om_Namespace gw, nn_Name = builtInUser gw\<rparr> = Inr stored"
    and web: "gw_WebConfig (gw_Spec gw) = Some wc"
    and run: "gatewayWebConfig x gl w cl svc gw s = (Inr (annotations, vs, ms, gw1), s1)"
  shows "\<exists>sec gw2. Gateway_webConfigSecret gl w cl svc gw1 s1 = (Inr ((OSecret sec, OperationCreateOrUpdate), gw2), s) \<and>
    annotations = [LabelNameConfigHash \<mapsto> x_md5Hex x (mget (sec_Data sec) WhizardWebConfigFile)] \<and>
    om_Name sec = Gateway_name gw [''web-config'']"
proof -
  let ?wc1 = "withBuiltInUser gw wc"
  have ens: "(if wc_BasicAuthUsers c = [] then ret () else ensureBuiltInUser gl w cl svc g) s = (Inr (), s)"
    if "om_Namespace g = om_Namespace gw" "builtInUser g = builtInUser gw" for c g
    using ensureBuiltInUser_stored [OF reads, of g] user that by simp
  obtain r t where rt: "webConfigOf gl w cl (webSecret0 svc gw) gw ?wc1 s = (r, t)" by fastforce
  obtain sec where sec: "webConfigOf gl w cl (webSecret0 svc gw) gw ?wc1 s = (Inr sec, s1)"
    and ann: "annotations = [LabelNameConfigHash \<mapsto> x_md5Hex x (mget (sec_Data sec) WhizardWebConfigFile)]"
    and gw1: "gw1 = setWebConfig ?wc1 gw"
    using run rt unfolding gatewayWebConfig_def web option.case Gateway_webConfigSecret_alt [OF web]
    by (cases r; cases "CreateWebConfigVolumeMount (Gateway_name gw [''web-config'']) wc") (simp_all add: bindE_app ens)
  from webConfigOf_repeat [OF reads sec] have again:
    "webConfigOf gl w cl (webSecret0 svc gw) gw (withBuiltInUser gw ?wc1) s = (Inr sec, s)" "s1 = s" by simp_all
  have "Gateway_webConfigSecret gl w cl svc gw1 s1 =
      (Inr ((OSecret sec, OperationCreateOrUpdate), setWebConfig (withBuiltInUser gw ?wc1) gw1), s)"
    unfolding gw1 by (simp add: Gateway_webConfigSecret_alt [of _ ?wc1] bindE_app again ens)
  with ann webConfigOf_name [OF sec] show ?thesis by (auto simp: webSecret0_def Gateway_meta_def)
qed

section \<open>Where the gateway queries and writes\<close>

lemma plainHost_apps: "plainHost AppNameQuery" "plainHost AppNameQueryFrontend" "plainHost AppNameRouter" "plainHost AppNameGateway"
  by (simp_all add: AppNameQuery_def AppNameQueryFrontend_def AppNameRouter_def AppNameGateway_def plainHost_def isAlnum_def)

lemma Frontend_addr_parsed:
  assumes "plainHost (om_Name qf)" and "plainHost (om_Namespace svc)"
  shows "\<exists>u. urlParse (Frontend_addr svc qf) = Inr u \<and>
    u_Scheme u = (if servesTLS (qf_WebConfig (qf_Spec qf)) then ''https'' else ''http'')"
proof -
  have "plainHost (Frontend_name qf [ServiceNameSuffix])"
    using plainHost_QualifiedName [OF plainHost_apps(2)] assms(1) unfolding Frontend_name_def by blast
  from urlParse_service [OF _ this assms(2), of "''http''" HTTPPort] urlParse_service [OF _ this assms(2), of "''https''" HTTPPort]
  show ?thesis by (simp add: Frontend_addr_def Frontend_HttpAddr_def Frontend_HttpsAddr_def HTTPPort_def)
qed

lemma RemoteWriteAddr_parsed:
  assumes "plainHost (om_Name ro)" and "plainHost (om_Namespace svc)"
  shows "\<exists>u. urlParse (RemoteWriteAddr svc ro) = Inr u \<and> u_Scheme u = ''http''"
proof -
  have "plainHost (Router_name ro [ServiceNameSuffix])"
    using plainHost_QualifiedName [OF plainHost_apps(3)] assms(1) unfolding Router_name_def by blast
  from urlParse_service [OF _ this assms(2), of "''http''" RemoteWritePort]
  show ?thesis by (simp add: RemoteWriteAddr_def Router_addr_def RemoteWritePort_def)
qed

lemma addr_nonempty: "Frontend_addr svc qf \<noteq> []" "Query_addr svc q \<noteq> []"
  by (simp_all add: Frontend_addr_def Frontend_HttpAddr_def Frontend_HttpsAddr_def Query_addr_def Query_HttpAddr_def Query_HttpsAddr_def)

lemma gatewayArgs_wired:
  assumes lists: "kList (queryFrontends cl) (sameService gw) s = (Inr qfs, s)" "kList (queries cl) (sameService gw) s = (Inr [q], s)"
      "kList (routers cl) (sameService gw) s = (Inr [ro], s)" "qfs = [] \<or> qfs = [qf]"
    and new: "Frontend_New cl qf s = (Inr svc, s)" "Query_New cl q s = (Inr svc, s)" "Router_New cl ro s = (Inr svc, s)"
    and plain: "plainHost (om_Name qf)" "plainHost (om_Name q)" "plainHost (om_Name ro)" "plainHost (om_Namespace svc)"
    and noRemote: "sv_RemoteQuery (sv_Spec svc) = None" and rws: "remoteWritesArg gl cl svc s = (Inr rargs, s')"
  shows "gatewayArgs gl cl svc gw s = (Inr (gatewayHeadArgs svc gw @
    [''--query.address='' @ (if qfs = [] then Query_addr svc q else Frontend_addr svc qf)] @
    (if servesTLS (if qfs = [] then qu_WebConfig (qu_Spec q) else qf_WebConfig (qf_Spec qf))
     then [''--query.config='' @ configText gl skipVerify] else []) @
    [''--remote-write.address='' @ RemoteWriteAddr svc ro] @ rargs), s')"
proof -
  obtain u where u: "urlParse (RemoteWriteAddr svc ro) = Inr u" "u_Scheme u = ''http''"
    using RemoteWriteAddr_parsed [OF plain(3,4)] by blast
  obtain v where v: "urlParse (Query_addr svc q) = Inr v" "u_Scheme v = (if servesTLS (qu_WebConfig (qu_Spec q)) then ''https'' else ''http'')"
    using Query_addr_parsed [OF plain(2,4)] by blast
  obtain f where f: "urlParse (Frontend_addr svc qf) = Inr f" "u_Scheme f = (if servesTLS (qf_WebConfig (qf_Spec qf)) then ''https'' else ''http'')"
    using Frontend_addr_parsed [OF plain(1,4)] by blast
  define fa where "fa = (if qfs = [] then [] else Frontend_addr svc qf)"
  have wr: "writeArgs gl (RemoteWriteAddr svc ro) a = Inr [''--remote-write.address='' @ RemoteWriteAddr svc ro]" for a
    by (simp add: writeArgs_def parseOr_def u tlsArg_def)
  have addrs: "Gateway_queryAddress cl svc gw s = (Inr (Query_addr svc q), s)"
    "Gateway_remoteWriteAddress cl svc gw s = (Inr (RemoteWriteAddr svc ro), s)"
    "Gateway_queryfrontendAddress cl svc gw s = (Inr fa, s)"
    using lists(4) by (auto simp: fa_def Gateway_queryAddress_def Gateway_remoteWriteAddress_def Gateway_queryfrontendAddress_def
        bindE_app lists(1-3) new)
  have query: "queryArgsOf gl cl svc fa (Query_addr svc q) s =
      (Inr ([''--query.address='' @ (if qfs = [] then Query_addr svc q else Frontend_addr svc qf)] @
        (if servesTLS (if qfs = [] then qu_WebConfig (qu_Spec q) else qf_WebConfig (qf_Spec qf))
         then [''--query.config='' @ configText gl skipVerify] else [])), s)"
    using v f addr_nonempty by (simp add: fa_def queryArgsOf_def noRemote preferredAddr_def parseOr_def tlsArg_def bindE_app Let_def)
  show ?thesis unfolding gatewayArgs_def bindE_app addrs query prod.case sum.case liftE_app wr rws by simp
qed

text \<open>
  The gateway is wired to the components of its service.  With one query component, one query frontend
  or none, one router and no remote query, it queries the frontend, or the query component where
  there is no frontend, skips the verification of certificates exactly where that component serves
  TLS, and writes to the router.
\<close>

theorem gateway_wired:
  assumes lists: "kList (queryFrontends cl) (sameService gw) s = (Inr qfs, s)" "kList (queries cl) (sameService gw) s = (Inr [q], s)"
      "kList (routers cl) (sameService gw) s = (Inr [ro], s)" "qfs = [] \<or> qfs = [qf]"
    and new: "Frontend_New cl qf s = (Inr svc, s)" "Query_New cl q s = (Inr svc, s)" "Router_New cl ro s = (Inr svc, s)"
    and plain: "plainHost (om_Name qf)" "plainHost (om_Name q)" "plainHost (om_Name ro)" "plainHost (om_Namespace svc)"
    and noRemote: "sv_RemoteQuery (sv_Spec svc) = None" and rws: "remoteWritesArg gl cl svc s = (Inr rargs, s')"
  shows "gatewayArgs gl cl svc gw s = (Inr (gatewayHeadArgs svc gw @
    [''--query.address='' @ (if qfs = [] then Query_addr svc q else Frontend_addr svc qf)] @
    (if servesTLS (if qfs = [] then qu_WebConfig (qu_Spec q) else qf_WebConfig (qf_Spec qf))
     then [''--query.config='' @ configText gl skipVerify] else []) @
    [''--remote-write.address='' @ RemoteWriteAddr svc ro] @ rargs), s')"
  by (rule gatewayArgs_wired [OF assms])

text \<open>
  Rules behind TLS are out of reach.  With a remote query the rules are asked of the query component, but
  whether certificates are verified there is decided by the scheme of the query frontend: with a
  frontend without TLS in front of a query component with TLS the gateway gets the https address of
  the query component and no TLS configuration for it.
\<close>

theorem gateway_rules_tls_mismatch:
  assumes "sv_RemoteQuery (sv_Spec svc) = Some rq" and "rq_URL rq \<noteq> []"
    and args: "remoteQueryArgs gl cl svc rq s = (Inr args, s')"
    and plain: "plainHost (om_Name qf)" "plainHost (om_Namespace svc)"
    and "\<not> servesTLS (qf_WebConfig (qf_Spec qf))" and "servesTLS (qu_WebConfig (qu_Spec q))"
  shows "queryArgsOf gl cl svc (Frontend_addr svc qf) (Query_addr svc q) s =
    (Inr (args @ [''--rules-query.address='' @ Query_HttpsAddr svc q]), s')"
proof -
  obtain f where "urlParse (Frontend_addr svc qf) = Inr f" "u_Scheme f = ''http''"
    using Frontend_addr_parsed [OF plain] assms(6) by auto
  with assms addr_nonempty show ?thesis
    by (simp add: queryArgsOf_def bindE_app preferredAddr_def parseOr_def tlsArg_def Query_addr_def Let_def)
qed

section \<open>Examples\<close>

text \<open>Components of the example service, and a client that knows them.\<close>

definition exMeta :: "string \<Rightarrow> object_meta" where
  "exMeta n = zeroMeta\<lparr>om_Name := n, om_Namespace := ''ns'', om_Labels := [ServiceLabelKey \<mapsto> ''ns.svc'']\<rparr>"

definition exTLS :: "web_config option" where
  "exTLS = Some \<lparr>wc_HTTPServerTLSConfig = Some \<lparr>hst_KeySecret = \<lparr>sks_Name = [], sks_Key = []\<rparr>, hst_CertSecret = \<lparr>sks_Name = [], sks_Key = []\<rparr>,
     hst_ClientCASecret = \<lparr>sks_Name = [], sks_Key = []\<rparr>\<rparr>, wc_HTTPServerConfig = None, wc_BasicAuthUsers = []\<rparr>"

definition exQuery :: query where
  "exQuery = object_meta.extend (exMeta ''q'') \<lparr>qu_Spec = zeroQuerySpec\<lparr>qu_WebConfig := exTLS\<rparr>\<rparr>"

definition exFrontend :: query_frontend where
  "exFrontend = object_meta.extend (exMeta ''f'') \<lparr>qf_Spec = zeroQueryFrontendSpec\<rparr>"

definition exRouter :: router where
  "exRouter = object_meta.extend (exMeta ''r'') \<lparr>ro_Spec = zeroRouterSpec\<rparr>"

definition exGateway :: gateway where
  "exGateway = object_meta.extend (exMeta ''g'') \<lparr>gw_Spec = zeroGatewaySpec\<rparr>"

definition exGatewayClient :: "cluster client" where
  "exGatewayClient = memClient\<lparr>queries := nullKind\<lparr>kList := \<lambda>_. ret [exQuery]\<rparr>, routers := nullKind\<lparr>kList := \<lambda>_. ret [exRouter]\<rparr>\<rparr>"

definition exGatewayLib :: gateway_lib where
  "exGatewayLib = \<lparr>gl_jsonAdmission = (\<lambda>ts. Inr (joinStr '','' ts)), gl_yamlWeb = (\<lambda>f. Inr (mget (wf_Users f) ''u'')),
     gl_yamlConfig = (\<lambda>_. Inr ''tls''), gl_yamlRemoteWrites = (\<lambda>_. Inr ''[]''), gl_parseDuration = (\<lambda>_. Inr 0),
     gl_intn = (\<lambda>_. 0), gl_bcrypt = (\<lambda>p. Inr p)\<rparr>"

lemmas ex_gateway_defs = exMeta_def zeroMeta_def exQuery_def exFrontend_def exRouter_def exGateway_def object_meta.extend_def

lemma exService_set:
  "om_Labels ob = [ServiceLabelKey \<mapsto> ''ns.svc''] \<Longrightarrow>
   SetService exGatewayClient ob (exCluster [] [] []) = (Inr (withServiceDefaults exService), exCluster [] [] [])"
  by (simp add: SetService_def exGatewayClient_def memClient_def memKind_def exCluster_def mget_def bindE_app idx_def
      objectKey_def exService_def)

lemma exGateway_lists:
  "kList (queryFrontends exGatewayClient) (sameService exGateway) c = (Inr [], c)"
  "kList (queries exGatewayClient) (sameService exGateway) c = (Inr [exQuery], c)"
  "kList (routers exGatewayClient) (sameService exGateway) c = (Inr [exRouter], c)"
  by (simp_all add: exGatewayClient_def memClient_def nullKind_def)

lemma exGateway_new:
  "Frontend_New exGatewayClient exFrontend (exCluster [] [] []) = (Inr (withServiceDefaults exService), exCluster [] [] [])"
  "Query_New exGatewayClient exQuery (exCluster [] [] []) = (Inr (withServiceDefaults exService), exCluster [] [] [])"
  "Router_New exGatewayClient exRouter (exCluster [] [] []) = (Inr (withServiceDefaults exService), exCluster [] [] [])"
  unfolding Frontend_New_def Query_New_def Router_New_def by (rule exService_set, simp add: ex_gateway_defs)+

lemma exGateway_plain:
  "plainHost (om_Name exFrontend)" "plainHost (om_Name exQuery)" "plainHost (om_Name exRouter)"
  "plainHost (om_Namespace (withServiceDefaults exService))"
  by (simp_all add: ex_gateway_defs plainHost_def isAlnum_def withServiceDefaults_def Let_def exService_def)

lemma exGateway_spec:
  "sv_RemoteQuery (sv_Spec (withServiceDefaults exService)) = None" "sv_RemoteWrites (sv_Spec (withServiceDefaults exService)) = []"
  "configText exGatewayLib skipVerify = ''tls''"
  "remoteWritesArg exGatewayLib exGatewayClient (withServiceDefaults exService) c = (Inr [''--external-remote-writes.config='' @ ''[]''], c)"
  by (simp_all add: withServiceDefaults_def Let_def exService_def zero_defs configText_def exGatewayLib_def remoteWritesArg_def)

theorem gateway_wired_witness:
  "gatewayArgs exGatewayLib exGatewayClient (withServiceDefaults exService) exGateway (exCluster [] [] []) =
     (Inr (gatewayHeadArgs (withServiceDefaults exService) exGateway @
        [''--query.address=https://query-q-operated.ns.svc:10902'', ''--query.config=tls'',
         ''--remote-write.address=http://router-r-operated.ns.svc:19291'', ''--external-remote-writes.config=[]'']), exCluster [] [] [])"
proof -
  let ?svc = "withServiceDefaults exService" and ?c = "exCluster [] [] []"
  have tls: "servesTLS (qu_WebConfig (qu_Spec exQuery))" by (simp add: ex_gateway_defs servesTLS_def exTLS_def)
  have ns: "om_Namespace ?svc = ''ns''" by (simp add: withServiceDefaults_def Let_def exService_def)
  have itoa: "itoa HTTPPort = ''10902''" "itoa RemoteWritePort = ''19291''" by (simp_all add: HTTPPort_def RemoteWritePort_def itoa_def itoaNat.simps digitChar_def char_of_def bit_0)
  have names: "Query_name exQuery [ServiceNameSuffix] = ''query-q-operated''" "Router_name exRouter [ServiceNameSuffix] = ''router-r-operated''"
    by (simp_all add: Query_name_def Router_name_def QualifiedName_def AppNameQuery_def AppNameRouter_def ServiceNameSuffix_def ex_gateway_defs)
  have addr: "Query_addr ?svc exQuery = ''https://query-q-operated.ns.svc:10902''"
    "RemoteWriteAddr ?svc exRouter = ''http://router-r-operated.ns.svc:19291''"
    by (simp_all add: Query_addr_def tls Query_HttpsAddr_def RemoteWriteAddr_def Router_addr_def ns names itoa)
  show ?thesis
    using gateway_wired [OF exGateway_lists _ exGateway_new exGateway_plain exGateway_spec(1,4)] by (simp add: addr tls exGateway_spec(3))
qed

theorem gateway_rules_tls_mismatch_witness:
  "let svc = exService\<lparr>sv_Spec := (sv_Spec exService)\<lparr>sv_RemoteQuery := Some \<lparr>hcc_BasicAuth = zeroBasicAuth, hcc_BearerToken = [],
        rq_Name = [], rq_URL = ''http://h:1''\<rparr>\<rparr>\<rparr>
   in queryArgsOf exGatewayLib memClient svc (Frontend_addr svc exFrontend) (Query_addr svc exQuery) (exCluster [] [] []) =
     (Inr [''--query.address=http://h:1'', ''--rules-query.address='' @ Query_HttpsAddr svc exQuery], exCluster [] [] [])"
proof -
  let ?rq = "\<lparr>hcc_BasicAuth = zeroBasicAuth, hcc_BearerToken = [], rq_Name = [], rq_URL = ''http://h:1''\<rparr>"
  let ?svc = "exService\<lparr>sv_Spec := (sv_Spec exService)\<lparr>sv_RemoteQuery := Some ?rq\<rparr>\<rparr>"
  have "urlParse (''http'' @ ''://'' @ ''h'' @ '':'' @ ''1'' @ []) = Inr (emptyUrl\<lparr>u_Scheme := ''http'', u_Host := ''h'' @ '':'' @ ''1'', u_Path := []\<rparr>)"
    by (rule urlParse_addr) (simp_all add: plainHost_def isAlnum_def isDigit_def)
  then have args: "remoteQueryArgs exGatewayLib memClient ?svc ?rq (exCluster [] [] []) = (Inr [''--query.address=http://h:1''], exCluster [] [] [])"
    by (simp add: remoteQueryArgs_def parseOr_def basicAuthOf_def emptyConfig_def bindE_app)
  have plain: "plainHost (om_Name exFrontend)" "plainHost (om_Namespace ?svc)"
    by (simp_all add: ex_gateway_defs plainHost_def isAlnum_def exService_def)
  have tls: "\<not> servesTLS (qf_WebConfig (qf_Spec exFrontend))" "servesTLS (qu_WebConfig (qu_Spec exQuery))"
    by (simp_all add: ex_gateway_defs servesTLS_def exTLS_def zero_defs)
  from gateway_rules_tls_mismatch [of ?svc ?rq, OF _ _ args plain tls] show ?thesis unfolding Let_def by simp
qed

definition exUserSecret :: secret where
  "exUserSecret = zeroSecret\<lparr>sec_Data := [''username'' \<mapsto> ''u'', ''password'' \<mapsto> ''p'']\<rparr>"

theorem gateway_hash_matches_secret_witness:
  "let cl = memClient\<lparr>secrets := nullKind\<lparr>kGet := \<lambda>_. ret exUserSecret\<rparr>\<rparr>; gw = setWebConfig \<lparr>wc_HTTPServerTLSConfig = None,
         wc_HTTPServerConfig = None, wc_BasicAuthUsers = [builtInAuth exGateway]\<rparr> exGateway; c = exCluster [] [] []
   in \<exists>annotations vs ms gw1 sec gw2. gatewayWebConfig exExt exGatewayLib exWlib cl exService gw c = (Inr (annotations, vs, ms, gw1), c) \<and>
        Gateway_webConfigSecret exGatewayLib exWlib cl exService gw1 c = (Inr ((OSecret sec, OperationCreateOrUpdate), gw2), c) \<and>
        annotations = [LabelNameConfigHash \<mapsto> x_md5Hex exExt (mget (sec_Data sec) WhizardWebConfigFile)]"
proof -
  let ?cl = "memClient\<lparr>secrets := nullKind\<lparr>kGet := \<lambda>_. ret exUserSecret\<rparr>\<rparr>" and ?c = "exCluster [] [] []"
  let ?wc = "\<lparr>wc_HTTPServerTLSConfig = None, wc_HTTPServerConfig = None, wc_BasicAuthUsers = [builtInAuth exGateway]\<rparr>"
  let ?gw = "setWebConfig ?wc exGateway"
  have reads: "kGet (secrets ?cl) k ?c = (Inr exUserSecret, ?c)" for k by simp
  have web: "gw_WebConfig (gw_Spec ?gw) = Some ?wc" by simp
  have "\<exists>annotations vs ms gw1. gatewayWebConfig exExt exGatewayLib exWlib ?cl exService ?gw ?c = (Inr (annotations, vs, ms, gw1), ?c)"
    by (simp add: gatewayWebConfig_def Gateway_webConfigSecret_alt [OF web] ensureBuiltInUser_stored [OF reads] bindE_app
        withBuiltInUser_def webConfigOf_def CreateWebConfig_def createBasicAuthUsers_def reads exGatewayLib_def ownedBy_def exWlib_def
        CreateWebConfigVolumeMount_def)
  then obtain annotations vs ms gw1 where run:
    "gatewayWebConfig exExt exGatewayLib exWlib ?cl exService ?gw ?c = (Inr (annotations, vs, ms, gw1), ?c)" by blast
  from gateway_hash_matches_secret [OF reads _ web run] run show ?thesis unfolding Let_def by blast
qed

end
