(* ===== verification/Ruler_Workload.thy ===== *)
theory Ruler_Workload
  imports Gateway_Workload Gateway_Handler
begin

text \<open>
  \<^verbatim>\<open>pkg/controllers/resources/ruler/statefulset.go\<close> and \<^verbatim>\<open>pkg/controllers/ruler_controller.go\<close>: one
  stateful set per shard of a ruler, which mounts the rule files of the shard, queries and writes
  through the gateway of the service and reloads when its files change.  Encoders, the namer of
  volumes and the config reloader of the Prometheus operator and the order in which Go ranges over a
  map are parameters.  In \<^verbatim>\<open>statefulSet\<close> the variables for user and password are shadowed, so that
  the branch that would patch the password is never taken; it is left out.
\<close>

record query_http_config =
  qh_Scheme :: string
  qh_StaticAddresses :: "string list"
  qh_PathPrefix :: string
  qh_InsecureSkipVerify :: bool
  qh_BasicAuth :: "string \<times> string"

text \<open>The configuration of the write proxy, the fields that are set.\<close>

record write_proxy_config =
  wp_Listen :: string
  wp_ListenMetricsAddress :: string
  wp_LogLevel :: string
  wp_Timeout :: int
  wp_Concurrency :: int
  wp_MaxConnsPerHost :: int
  wp_Target :: string
  wp_TenantLabel :: string
  wp_TenantLabelRemove :: bool
  wp_TenantHeader :: string
  wp_TenantDefault :: string
  wp_InsecureSkipVerify :: bool
  wp_EgressAuth :: "string \<times> string"

record ruler_wlib =
  rwl_dnsLabel :: "string \<Rightarrow> string res"
  rwl_rangeLabels :: "labels_map \<Rightarrow> (string \<times> string) list"
  rwl_yamlQuery :: "query_http_config list \<Rightarrow> string res"
  rwl_yamlRemoteWrite :: "url \<Rightarrow> string res"
  rwl_yamlProxy :: "write_proxy_config \<Rightarrow> string res"
  rwl_reloader :: "string \<Rightarrow> string \<Rightarrow> string list \<Rightarrow> volume_mount list \<Rightarrow> container"

section \<open>Constants and small functions\<close>

definition Ruler_configDir :: string where
  "Ruler_configDir = ''/etc/whizard''"
definition rulesDir :: string where
  "rulesDir = Ruler_configDir @ ''/rules''"
definition Ruler_storageDir :: string where
  "Ruler_storageDir = ''/whizard''"

definition Ruler_repeatableArgs :: "string list" where
  "Ruler_repeatableArgs = [''--query'', ''--query.sd-files'', ''--rule-file'', ''--alertmanagers.url'', ''--alert.label-drop'']"

definition Ruler_unsupportedArgs :: "string list" where
  "Ruler_unsupportedArgs = [''--receive.local-endpoint'', ''--http-address'', ''--grpc-address'']"

definition Ruler_New :: "'s client \<Rightarrow> ruler \<Rightarrow> ('s, service) act" where
  "Ruler_New cl ru = SetService cl ru"

text \<open>\<^verbatim>\<open>mountSecret\<close>: the volume, its mount and the path of the file.\<close>

definition mountSecret :: "secret_key_selector \<Rightarrow> string \<Rightarrow> volume \<times> volume_mount \<times> string" where
  "mountSecret sel volumeName =
     (let mountpath = Ruler_configDir @ ''/'' @ volumeName in
      (\<lparr>vol_Name = volumeName, vol_Source = VolSecret (sks_Name sel) [(sks_Key sel, sks_Key sel)] None\<rparr>,
       \<lparr>vm_Name = volumeName, vm_ReadOnly = False, vm_MountPath = mountpath, vm_SubPath = []\<rparr>,
       mountpath @ ''/'' @ sks_Key sel))"

definition getBuiltInUser :: "'s client \<Rightarrow> gateway \<Rightarrow> ('s, string \<times> string) act" where
  "getBuiltInUser cl gw =
     bindE (Gateway_New cl gw) (\<lambda>_.
     bindE (GetValueFromSecret cl (Some \<lparr>sks_Name = QualifiedName AppNameGateway (om_Name gw) [''built-in-user''],
              sks_Key = ''username''\<rparr>) (om_Namespace gw)) (\<lambda>username.
     bindE (GetValueFromSecret cl (Some \<lparr>sks_Name = QualifiedName AppNameGateway (om_Name gw) [''built-in-user''],
              sks_Key = ''cpassword''\<rparr>) (om_Namespace gw)) (\<lambda>password. ret (username, password))))"

definition hasUsers :: "gateway \<Rightarrow> bool" where
  "hasUsers gw = (case gw_WebConfig (gw_Spec gw) of None \<Rightarrow> False | Some wc \<Rightarrow> wc_BasicAuthUsers wc \<noteq> [])"

definition Gateway_addr :: "service \<Rightarrow> gateway \<Rightarrow> string" where
  "Gateway_addr svc gw = (if servesTLS (gw_WebConfig (gw_Spec gw)) then Gateway_HttpsAddr svc gw else Gateway_HttpAddr svc gw)"

section \<open>The arguments\<close>

definition rulerHeadArgs :: "ruler_wlib \<Rightarrow> ruler \<Rightarrow> string list" where
  "rulerHeadArgs rw ru =
     (let sp = ru_Spec ru; quoted = (\<lambda>v. [CHR 0x22] @ v @ [CHR 0x22]) in
      [''rule''] @
      (if ru_AlertmanagersConfig sp \<noteq> None then [''--alertmanagers.config=$(ALERTMANAGERS_CONFIG)'']
       else map (\<lambda>u. ''--alertmanagers.url='' @ u) (ru_AlertmanagersURL sp)) @
      optArg ''--log.level='' (cs_LogLevel sp) @ optArg ''--log.format='' (cs_LogFormat sp) @
      [''--label='' @ RulerReplicaLabelName @ ''='' @ quoted ''$(POD_NAME)''] @
      map (\<lambda>(k, v). ''--label='' @ k @ ''='' @ quoted v) (rwl_rangeLabels rw (ru_Labels sp)) @
      [''--data-dir='' @ Ruler_storageDir, ''--rule-file='' @ rulesDir @ ''/*/*.yaml'',
       ''--alert.label-drop='' @ RulerReplicaLabelName] @
      map (\<lambda>l. ''--alert.label-drop='' @ l) (ru_AlertDropLabels sp) @
      optArg ''--eval-interval='' (ru_EvaluationInterval sp))"

definition rulerEnv :: "ruler \<Rightarrow> env_var list" where
  "rulerEnv ru = [\<lparr>ev_Name = ''POD_NAME'', ev_Value = [], ev_ValueFrom = Some (EnvFieldRef ''metadata.name'')\<rparr>] @
     (case ru_AlertmanagersConfig (ru_Spec ru) of
        None \<Rightarrow> []
      | Some c \<Rightarrow> [\<lparr>ev_Name = ''ALERTMANAGERS_CONFIG'', ev_Value = [], ev_ValueFrom = Some (EnvSecretKeyRef c)\<rparr>])"

definition rulerGateway :: "'s client \<Rightarrow> ruler \<Rightarrow> ('s, gateway \<times> string) act" where
  "rulerGateway cl ru =
     bindE (kList (gateways cl) \<lparr>lo_Namespace = [], lo_Labels = ManagedLabelBySameService ru\<rparr>) (\<lambda>items. case items of
         [gw] \<Rightarrow> bindE (Gateway_New cl gw) (\<lambda>svc. ret (gw, Gateway_addr svc gw))
       | _ \<Rightarrow> failE (GoErr ''the number of gateway is not 1''))"

text \<open>A part of the pod: arguments, volumes, mounts and further containers.\<close>

record pod_part =
  pp_Args :: "string list"
  pp_Volumes :: "volume list"
  pp_Mounts :: "volume_mount list"
  pp_Containers :: "container list"

definition secretPart :: "string \<Rightarrow> string \<Rightarrow> secret_key_selector \<Rightarrow> pod_part" where
  "secretPart prefix volumeName sel = (case mountSecret sel volumeName of (v, m, path) \<Rightarrow>
     \<lparr>pp_Args = [prefix @ path], pp_Volumes = [v], pp_Mounts = [m], pp_Containers = []\<rparr>)"

definition queryConfigOf :: "ruler \<Rightarrow> gateway \<Rightarrow> url \<Rightarrow> string \<times> string \<Rightarrow> query_http_config" where
  "queryConfigOf ru gw u auth = \<lparr>qh_Scheme = u_Scheme u, qh_StaticAddresses = [u_Host u], qh_PathPrefix = ru_Tenant (ru_Spec ru),
     qh_InsecureSkipVerify = servesTLS (gw_WebConfig (gw_Spec gw)), qh_BasicAuth = auth\<rparr>"

definition rulerQueryPart :: "ruler_wlib \<Rightarrow> 's client \<Rightarrow> ruler \<Rightarrow> gateway \<Rightarrow> string \<Rightarrow> ('s, pod_part) act" where
  "rulerQueryPart rw cl ru gw gatewayEndpoint = (case ru_QueryConfig (ru_Spec ru) of
       Some sel \<Rightarrow> ret (secretPart ''--query.config.file='' ''query-config'' sel)
     | None \<Rightarrow>
         bindE (liftE (urlParse gatewayEndpoint)) (\<lambda>u.
         bindE (if hasUsers gw then getBuiltInUser cl gw else ret ([], [])) (\<lambda>auth.
           ret \<lparr>pp_Args = [''--query.config='' @ (case rwl_yamlQuery rw [queryConfigOf ru gw u auth] of Inl _ \<Rightarrow> [] | Inr buff \<Rightarrow> buff)],
                pp_Volumes = [], pp_Mounts = [], pp_Containers = []\<rparr>)))"

definition writeProxyConfig :: "service \<Rightarrow> gateway \<Rightarrow> string \<Rightarrow> string \<times> string \<Rightarrow> write_proxy_config" where
  "writeProxyConfig svc gw target auth = \<lparr>wp_Listen = ''127.0.0.1:8081'', wp_ListenMetricsAddress = ''0.0.0.0:8082'', wp_LogLevel = ''warn'',
     wp_Timeout = 10 * 10 ^ 9, wp_Concurrency = 512, wp_MaxConnsPerHost = 64, wp_Target = target,
     wp_TenantLabel = sv_TenantLabelName (sv_Spec svc), wp_TenantLabelRemove = True, wp_TenantHeader = sv_TenantHeader (sv_Spec svc),
     wp_TenantDefault = sv_DefaultTenantId (sv_Spec svc), wp_InsecureSkipVerify = servesTLS (gw_WebConfig (gw_Spec gw)), wp_EgressAuth = auth\<rparr>"

definition addWriteProxyContainer ::
  "ruler_wlib \<Rightarrow> 's client \<Rightarrow> service \<Rightarrow> ruler \<Rightarrow> gateway \<Rightarrow> string \<Rightarrow> ('s, container) act" where
  "addWriteProxyContainer rw cl svc ru gw gatewayEndpoint =
     bindE (liftE (urlParse (gatewayEndpoint @ ''/api/v1/receive''))) (\<lambda>u.
     bindE (if hasUsers gw then getBuiltInUser cl gw else ret ([], [])) (\<lambda>auth.
     bindE (liftE (rwl_yamlProxy rw (writeProxyConfig svc gw (urlString u) auth))) (\<lambda>cfgContent.
       ret (zeroContainer\<lparr>ct_Name := ''write-proxy'', ct_Image := sc_Image (ru_RulerWriteProxy (ru_Spec ru)),
         ct_Args := [''--config-content='' @ cfgContent], ct_Resources := sc_Resources (ru_RulerWriteProxy (ru_Spec ru))\<rparr>))))"

definition rulerWritePart ::
  "ruler_wlib \<Rightarrow> 's client \<Rightarrow> service \<Rightarrow> ruler \<Rightarrow> gateway \<Rightarrow> string \<Rightarrow> ('s, pod_part) act" where
  "rulerWritePart rw cl svc ru gw gatewayEndpoint = (case ru_RemoteWriteConfig (ru_Spec ru) of
       Some sel \<Rightarrow> ret (secretPart ''--remote-write.config-file='' ''remote-write-config'' sel)
     | None \<Rightarrow>
         bindE (liftE (urlParse ''http://127.0.0.1:8081/push'')) (\<lambda>u.
         bindE (liftE (rwl_yamlRemoteWrite rw u)) (\<lambda>buff.
         bindE (addWriteProxyContainer rw cl svc ru gw gatewayEndpoint) (\<lambda>proxy.
           ret \<lparr>pp_Args = [''--remote-write.config='' @ buff], pp_Volumes = [], pp_Mounts = [], pp_Containers = [proxy]\<rparr>))))"

definition rulerArgs :: "ruler_wlib \<Rightarrow> ruler \<Rightarrow> string list \<Rightarrow> string list" where
  "rulerArgs rw ru extra = sortArgs (mergeFlags Ruler_unsupportedArgs Ruler_repeatableArgs (rulerHeadArgs rw ru @ extra) (cs_Flags (ru_Spec ru)))"

section \<open>The stateful sets\<close>

definition ruleVolumes :: "ruler_wlib \<Rightarrow> string list \<Rightarrow> (volume \<times> volume_mount) list res" where
  "ruleVolumes rw names =
     foldR (\<lambda>acc cmName. bindR (rwl_dnsLabel rw cmName) (\<lambda>name.
       Inr (acc @ [(\<lparr>vol_Name = name, vol_Source = VolConfigMap cmName\<rparr>,
         \<lparr>vm_Name = name, vm_ReadOnly = False, vm_MountPath = joinPath [rulesDir, cmName], vm_SubPath = []\<rparr>)]))) [] names"

definition rulerBaseSts :: "ruler \<Rightarrow> nat \<Rightarrow> stateful_set" where
  "rulerBaseSts ru shardSn =
     (let ls = (Ruler_labels ru)(LabelNameRulerShardSn \<mapsto> itoaNat shardSn) in
      (Ruler_meta ru (Ruler_name ru [itoaNat shardSn]) zeroStatefulSet)\<lparr>sts_Spec := zeroStatefulSetSpec\<lparr>
        ss_Replicas := cs_Replicas (ru_Spec ru), ss_Selector := ls,
        ss_ServiceName := Ruler_name ru [itoaNat shardSn, ServiceNameSuffix], ss_TemplateLabels := ls,
        ss_TemplateSpec := zeroPodSpec\<lparr>ps_NodeSelector := cs_NodeSelector (ru_Spec ru), ps_Tolerations := cs_Tolerations (ru_Spec ru),
          ps_Affinity := cs_Affinity (ru_Spec ru), ps_SecurityContext := cs_SecurityContext (ru_Spec ru),
          ps_ImagePullSecrets := cs_ImagePullSecrets (ru_Spec ru)\<rparr>\<rparr>\<rparr>)"

definition rulerContainer :: "ruler \<Rightarrow> container" where
  "rulerContainer ru = zeroContainer\<lparr>ct_Name := ''rule'', ct_Image := cs_Image (ru_Spec ru), ct_Resources := cs_Resources (ru_Spec ru),
     ct_Ports := [tcpPort GRPCPortName GRPCPort, tcpPort HTTPPortName HTTPPort],
     ct_LivenessProbe := Some DefaultLivenessProbe, ct_ReadinessProbe := Some DefaultReadinessProbe, ct_Env := rulerEnv ru\<rparr>"

definition reloadContainer :: "ruler_wlib \<Rightarrow> ruler \<Rightarrow> volume_mount list \<Rightarrow> container" where
  "reloadContainer rw ru mounts =
     (rwl_reloader rw (cs_LogFormat (ru_Spec ru)) (cs_LogLevel (ru_Spec ru)) (map vm_MountPath mounts) mounts)\<lparr>
       ct_Image := sc_Image (ru_PrometheusConfigReloader (ru_Spec ru)), ct_Resources := sc_Resources (ru_PrometheusConfigReloader (ru_Spec ru))\<rparr>"

definition Ruler_statefulSet ::
  "'s rule_lib \<Rightarrow> ruler_wlib \<Rightarrow> wlib \<Rightarrow> 's client \<Rightarrow> service \<Rightarrow> ruler \<Rightarrow> string list list \<Rightarrow> nat \<Rightarrow> 's resource" where
  "Ruler_statefulSet lib rw w cl svc ru cmNames shardSn =
     bindE (liftE (idx cmNames shardSn)) (\<lambda>names.
     bindE (liftE (ruleVolumes rw (rl_range lib names))) (\<lambda>rvs.
     let sts0 = updPodSpec (\<lambda>p. p\<lparr>ps_Volumes := map fst rvs\<rparr>) (rulerBaseSts ru shardSn);
         ct0 = (rulerContainer ru)\<lparr>ct_VolumeMounts := map snd rvs\<rparr>
     in case AddTSDBVolume sts0 ct0 (ru_DataVolume (ru_Spec ru)) of (sts1, ct1) \<Rightarrow>
     bindE (rulerGateway cl ru) (\<lambda>(gw, gatewayEndpoint).
     bindE (rulerQueryPart rw cl ru gw gatewayEndpoint) (\<lambda>q.
     bindE (rulerWritePart rw cl svc ru gw gatewayEndpoint) (\<lambda>wr.
     let ct2 = ct1\<lparr>ct_VolumeMounts := ct_VolumeMounts ct1 @ pp_Mounts q @ pp_Mounts wr, ct_Args := rulerArgs rw ru (pp_Args q @ pp_Args wr)\<rparr>
     in bindE (liftE (patchContainers w (ru_Spec ru) (pp_Containers wr @ [ct2, reloadContainer rw ru (map snd rvs)]))) (\<lambda>cs.
        bindE (liftE (ownedBy w ru (updPodSpec (\<lambda>p. p\<lparr>ps_Volumes := ps_Volumes p @ pp_Volumes q @ pp_Volumes wr, ps_Containers := cs\<rparr>) sts1))) (\<lambda>sts2.
          ret (OStatefulSet sts2, OperationCreateOrUpdate))))))))"

definition ownsRulerStatefulSet :: "ruler \<Rightarrow> string \<Rightarrow> bool" where
  "ownsRulerStatefulSet ru name =
     (let namePrefix = Ruler_name ru [] @ ''-'' in hasPrefix name namePrefix \<and> isSequenceNumber (trimPrefix name namePrefix))"

definition Ruler_statefulSets ::
  "'s rule_lib \<Rightarrow> ruler_wlib \<Rightarrow> wlib \<Rightarrow> 's client \<Rightarrow> service \<Rightarrow> ruler \<Rightarrow> string list list \<Rightarrow> ('s, 's resource list) act" where
  "Ruler_statefulSets lib rw w cl svc ru cmNames =
     bindE (liftE (shardLoop ru)) (\<lambda>n.
       let targetNames = map (\<lambda>sn. Ruler_name ru [itoaNat sn]) [0..<n] in
       handleE (kList (statefulSets cl) \<lparr>lo_Namespace = om_Namespace ru, lo_Labels = Map.empty\<rparr>) (\<lambda>r. case r of
           Inl e \<Rightarrow> ret (errResourcesFunc e)
         | Inr items \<Rightarrow> ret (map (Ruler_statefulSet lib rw w cl svc ru cmNames) [0..<n] @
             map (\<lambda>sts. ret (OStatefulSet sts, OperationDelete))
               (filter (\<lambda>sts. ownsRulerStatefulSet ru (om_Name sts) \<and> om_Name sts \<notin> set targetNames) items))))"

definition Ruler_Reconcile :: "'s rule_lib \<Rightarrow> ruler_wlib \<Rightarrow> wlib \<Rightarrow> 's client \<Rightarrow> service \<Rightarrow> ruler \<Rightarrow> ('s, unit) act" where
  "Ruler_Reconcile lib rw w cl svc ru =
     bindE (ruleConfigMaps lib cl ru) (\<lambda>(cms, names).
     bindE (Ruler_statefulSets lib rw w cl svc ru names) (\<lambda>sts.
     bindE (Ruler_services w cl ru) (\<lambda>svcs. ReconcileResources cl (cms @ sts @ svcs))))"

section \<open>ruler\_controller.go\<close>

definition applyConfigurationFromRulerTemplateSpec :: "merge_lib \<Rightarrow> ruler \<Rightarrow> ruler_template_spec \<Rightarrow> ruler res" where
  "applyConfigurationFromRulerTemplateSpec mg ru tmpl =
     bindR (mg_ruler mg (ru_Spec ru) (ruler_spec.truncate tmpl)) (\<lambda>sp. Inr (ru\<lparr>ru_Spec := sp\<rparr>))"

definition RulerReconciler_Reconcile ::
  "'s rule_lib \<Rightarrow> ruler_wlib \<Rightarrow> wlib \<Rightarrow> merge_lib \<Rightarrow> 's client \<Rightarrow> nsname \<Rightarrow> ('s, ctrl_result) act" where
  "RulerReconciler_Reconcile lib rw w mg cl req =
     fetchThen (rulers cl) req (\<lambda>inst.
       if mget (om_Labels inst) ServiceLabelKey = [] then ret noResult
       else bindE (fetchService cl inst) (\<lambda>service.
         bindE (liftE (applyConfigurationFromRulerTemplateSpec mg inst
                         (sv_RulerTemplateSpec (sv_Spec (ApplyDefaults w service))))) (\<lambda>ru.
         bindE (Ruler_New cl ru) (\<lambda>svc.
         bindE (Ruler_Reconcile lib rw w cl svc ru) (\<lambda>_. ret noResult)))))"

definition RulerReconciler_mapFuncBySelectorFunc ::
  "'s client \<Rightarrow> ('b object_meta_scheme \<Rightarrow> labels_map) \<Rightarrow> 'b object_meta_scheme \<Rightarrow> ('s, nsname list) act" where
  "RulerReconciler_mapFuncBySelectorFunc cl fn ob = mapFuncBySelectorFunc (rulers cl) fn ob"

definition mapToRulerFunc :: "'s client \<Rightarrow> 'b object_meta_scheme \<Rightarrow> ('s, nsname list) act" where
  "mapToRulerFunc cl ob = mapFuncBySelectorFunc (rulers cl) ManagedLabelByService ob"

text \<open>
  One ruler in the handler for rules: a ruler of the namespace of the rule is always asked, another one
  where its merged selector matches the labels of the namespace; a ruler that cannot be completed is
  left out.  The last result says whether to ask it.
\<close>

definition rulerWants :: "'s rule_lib \<Rightarrow> wlib \<Rightarrow> merge_lib \<Rightarrow> 's client \<Rightarrow> object_meta \<Rightarrow> ruler \<Rightarrow> ('s, bool) act" where
  "rulerWants lib w mg cl ns item =
     (if om_Namespace item = om_Name ns then ret True
      else
        (let merged = (case ServiceNamespacedName item of
               None \<Rightarrow> ret item
             | Some nn \<Rightarrow> bindE (kGet (services cl) nn) (\<lambda>service.
                 liftE (applyConfigurationFromRulerTemplateSpec mg item (sv_RulerTemplateSpec (sv_Spec (ApplyDefaults w service))))))
         in handleE merged (\<lambda>r. case r of
              Inl _ \<Rightarrow> ret False
            | Inr ru \<Rightarrow> (case rl_asSelector lib (ru_RuleNamespaceSelector (ru_Spec ru)) of
                Inl _ \<Rightarrow> ret False
              | Inr sel \<Rightarrow> ret (sel (om_Labels ns))))))"

definition mapRuleToRulerFunc :: "'s rule_lib \<Rightarrow> wlib \<Rightarrow> merge_lib \<Rightarrow> 's client \<Rightarrow> 'b object_meta_scheme \<Rightarrow> ('s, nsname list) act" where
  "mapRuleToRulerFunc lib w mg cl ob =
     handleE (kGet (namespaces cl) \<lparr>nn_Namespace = [], nn_Name = om_Namespace ob\<rparr>) (\<lambda>r. case r of
         Inl _ \<Rightarrow> ret []
       | Inr ns \<Rightarrow>
           bindE (listOrEmpty (kList (rulers cl) \<lparr>lo_Namespace = [], lo_Labels = Map.empty\<rparr>)) (\<lambda>items.
             foldE (\<lambda>reqs item. bindE (rulerWants lib w mg cl ns item) (\<lambda>b.
               ret (if b then reqs @ [objectKey item] else reqs))) [] items))"

section \<open>Scaling\<close>

lemma ownsRulerStatefulSet_iff: "ownsRulerStatefulSet ru name \<longleftrightarrow> (\<exists>n. name = Ruler_name ru [itoaNat n])"
proof -
  have "name = Ruler_name ru [itoaNat n] \<longleftrightarrow> name = (Ruler_name ru [] @ ''-'') @ itoaNat n" for n
    by (simp add: Ruler_name_def QualifiedName_def)
  then show ?thesis
    unfolding ownsRulerStatefulSet_def Let_def hasPrefix_iff
    by (metis isSequenceNumber_iff trimPrefix_append)
qed

lemma Ruler_name_shard_inj:
  "Ruler_name ru [itoaNat m] = Ruler_name ru' [itoaNat n] \<longleftrightarrow> om_Name ru = om_Name ru' \<and> m = n"
proof
  assume "Ruler_name ru [itoaNat m] = Ruler_name ru' [itoaNat n]"
  then have "(AppNameRuler @ ''-'' @ om_Name ru) @ CHR ''-'' # itoaNat m = (AppNameRuler @ ''-'' @ om_Name ru') @ CHR ''-'' # itoaNat n"
    by (simp add: Ruler_name_def QualifiedName_def)
  from last_sep_unique [OF this no_dash_itoaNat no_dash_itoaNat] show "om_Name ru = om_Name ru' \<and> m = n" by simp
qed (simp add: Ruler_name_def)

text \<open>
  C23: scaling a ruler.  A ruler with n shards writes the stateful sets 0 to n - 1 and deletes, of all
  stateful sets of its namespace, exactly those named after it with a number from n on.  A stateful
  set that another ruler writes is never taken for one of this ruler, whatever the two are called.
\<close>

theorem ruler_sets_scaled:
  assumes shards: "ru_Shards (ru_Spec ru) = Some k"
    and list: "kList (statefulSets cl) \<lparr>lo_Namespace = om_Namespace ru, lo_Labels = Map.empty\<rparr> s = (Inr items, s')"
  shows "Ruler_statefulSets lib rw w cl svc ru names s =
      (Inr (map (Ruler_statefulSet lib rw w cl svc ru names) [0..<nat k] @
        map (\<lambda>sts. ret (OStatefulSet sts, OperationDelete))
          (filter (\<lambda>sts. \<exists>n \<ge> nat k. om_Name sts = Ruler_name ru [itoaNat n]) items)), s') \<and>
    (ownsRulerStatefulSet ru (Ruler_name ru' [itoaNat m]) \<longleftrightarrow> om_Name ru' = om_Name ru)"
proof -
  have "ownsRulerStatefulSet ru name \<and> name \<notin> set (map (\<lambda>sn. Ruler_name ru [itoaNat sn]) [0..<nat k]) \<longleftrightarrow>
      (\<exists>n \<ge> nat k. name = Ruler_name ru [itoaNat n])" for name
    by (force simp: ownsRulerStatefulSet_iff Ruler_name_shard_inj)
  then show ?thesis
    by (auto simp: Ruler_statefulSets_def shardLoop_def shards bindE_app Let_def handleE_def list
        ownsRulerStatefulSet_iff Ruler_name_shard_inj simp del: set_map)
qed

section \<open>Arguments and addresses\<close>

interpretation ruf: flag_set Ruler_unsupportedArgs Ruler_repeatableArgs
  by unfold_locales (simp add: Ruler_unsupportedArgs_def Ruler_repeatableArgs_def)

text \<open>
  A label flag costs the replica label.  \<^verbatim>\<open>--label\<close> is an argument of Thanos that may be
  repeated, and the ruler uses it for the replica label by which the replicas are told apart, but it
  is missing from the list of repeatable arguments: a ruler without labels of its own whose user
  gives such flags runs with the last of them alone.
\<close>

theorem ruler_label_flag_drops_replica:
  assumes "rwl_rangeLabels rw (ru_Labels (ru_Spec ru)) = []" and "argsNamed ''--label'' extra = []"
    and "argsNamed ''--label'' (cs_Flags (ru_Spec ru)) \<noteq> []"
  shows "argsNamed ''--label'' (rulerHeadArgs rw ru) = [''--label='' @ RulerReplicaLabelName @ ''='' @ [CHR 0x22] @ ''$(POD_NAME)'' @ [CHR 0x22]] \<and>
    argsNamed ''--label'' (rulerArgs rw ru extra) = [last (argsNamed ''--label'' (cs_Flags (ru_Spec ru)))]"
proof -
  have none: "argsNamed ''--label'' (map f xs) = []" if "\<And>x. GetArgName (f x) \<noteq> ''--label''" for f :: "string \<Rightarrow> string" and xs
    using that by (auto simp: argsNamed_def)
  have opt: "argsNamed ''--label'' (optArg p v) = []" if "CHR ''='' \<in> set p" "GetArgName p \<noteq> ''--label''" for p v
    using that by (auto simp: optArg_def GetArgName_append)
  have head: "argsNamed ''--label'' (rulerHeadArgs rw ru) = [''--label='' @ RulerReplicaLabelName @ ''='' @ [CHR 0x22] @ ''$(POD_NAME)'' @ [CHR 0x22]]"
    using assms(1) opt [of "''--log.level=''"] opt [of "''--log.format=''"] opt [of "''--eval-interval=''"]
    by (simp add: rulerHeadArgs_def Let_def none GetArgName_def2)
  then have "argsNamed ''--label'' (rulerArgs rw ru extra) = [last (argsNamed ''--label'' (cs_Flags (ru_Spec ru)))]"
    using assms ruf.sorted_merge_single [of "''--label''" "rulerHeadArgs rw ru @ extra" "cs_Flags (ru_Spec ru)"]
    by (simp add: rulerArgs_def Ruler_unsupportedArgs_def Ruler_repeatableArgs_def)
  with head show ?thesis ..
qed

text \<open>The address of the gateway, taken apart and put together.\<close>

definition gatewayHost :: "service \<Rightarrow> gateway \<Rightarrow> string" where
  "gatewayHost svc gw = Gateway_name gw [ServiceNameSuffix] @ ''.'' @ om_Namespace svc @ ''.svc''"

definition gatewayScheme :: "gateway \<Rightarrow> string" where
  "gatewayScheme gw = (if servesTLS (gw_WebConfig (gw_Spec gw)) then ''https'' else ''http'')"

lemma Gateway_addr_alt: "Gateway_addr svc gw = gatewayScheme gw @ ''://'' @ gatewayHost svc gw @ '':'' @ itoa gatewayPort"
  by (simp add: Gateway_addr_def Gateway_HttpAddr_def Gateway_HttpsAddr_def gatewayScheme_def gatewayHost_def)

lemma gatewayHost_plain:
  "plainHost (om_Name gw) \<Longrightarrow> plainHost (om_Namespace svc) \<Longrightarrow> plainHost (gatewayHost svc gw)"
  using plainHost_QualifiedName [OF plainHost_apps(4)] by (simp add: gatewayHost_def Gateway_name_def plainHost_def isAlnum_def)

lemma gatewayPort_digits: "list_all isDigit (itoa gatewayPort)"
  by (rule itoa_digits) (simp add: gatewayPort_def)

lemma Gateway_addr_parsed:
  assumes "plainHost (om_Name gw)" and "plainHost (om_Namespace svc)"
    and path: "path = [] \<or> hasPrefix path ''/''" "list_all (\<lambda>c. isAlnum c \<or> c \<in> set ''/-.'') path"
  shows "urlParse (Gateway_addr svc gw @ path) =
    Inr (emptyUrl\<lparr>u_Scheme := gatewayScheme gw, u_Host := gatewayHost svc gw @ '':'' @ itoa gatewayPort, u_Path := path\<rparr>)"
  using urlParse_addr [OF _ gatewayHost_plain [OF assms(1,2)] gatewayPort_digits path, of "gatewayScheme gw"]
  by (simp add: Gateway_addr_alt gatewayScheme_def)

definition writeProxyUrl :: url where
  "writeProxyUrl = emptyUrl\<lparr>u_Scheme := ''http'', u_Host := ''127.0.0.1:8081'', u_Path := ''/push''\<rparr>"

lemma writeProxyUrl_parsed: "urlParse ''http://127.0.0.1:8081/push'' = Inr writeProxyUrl"
  using urlParse_addr [of "''http''" "''127.0.0.1''" "''8081''" "''/push''"]
  by (simp add: writeProxyUrl_def plainHost_def isAlnum_def isDigit_def hasPrefix_def)

text \<open>
  C28: a ruler reaches its service through the gateway.  With one gateway that has no users, a ruler without a query
  or remote-write configuration of its own, and names as Kubernetes allows them, the rules are evaluated by queries
  to the address of the gateway under the path of the tenant.  The results are written to the address the proxy
  beside the ruler listens on, and the proxy, configured with the label, the header and the default tenant
  of the service, writes them to the path of the gateway's route for writes without a tenant.  Both the queries
  and the proxy accept any certificate exactly where the gateway serves TLS.
\<close>

theorem ruler_reaches_gateway:
  assumes list: "kList (gateways cl) \<lparr>lo_Namespace = [], lo_Labels = ManagedLabelBySameService ru\<rparr> s = (Inr [gw], s)"
    and new: "Gateway_New cl gw s = (Inr svc, s)"
    and plain: "plainHost (om_Name gw)" "plainHost (om_Namespace svc)"
    and users: "\<not> hasUsers gw" and own: "ru_QueryConfig (ru_Spec ru) = None" "ru_RemoteWriteConfig (ru_Spec ru) = None"
    and yaml: "\<And>c. rwl_yamlProxy rw c = Inr (proxyText c)" "\<And>c. rwl_yamlQuery rw c = Inr (queryText c)"
      "\<And>u. rwl_yamlRemoteWrite rw u = Inr (writeText u)"
  shows "\<exists>gw' addr proxy. rulerGateway cl ru s = (Inr (gw', addr), s) \<and>
    rulerQueryPart rw cl ru gw' addr s = (Inr \<lparr>pp_Args = [''--query.config='' @ queryText
        [\<lparr>qh_Scheme = gatewayScheme gw, qh_StaticAddresses = [gatewayHost svc gw @ '':'' @ itoa gatewayPort],
          qh_PathPrefix = ru_Tenant (ru_Spec ru), qh_InsecureSkipVerify = servesTLS (gw_WebConfig (gw_Spec gw)), qh_BasicAuth = ([], [])\<rparr>]],
      pp_Volumes = [], pp_Mounts = [], pp_Containers = []\<rparr>, s) \<and>
    rulerWritePart rw cl svc ru gw' addr s = (Inr \<lparr>pp_Args = [''--remote-write.config='' @ writeText
        (emptyUrl\<lparr>u_Scheme := ''http'', u_Host := ''127.0.0.1:8081'', u_Path := ''/push''\<rparr>)],
      pp_Volumes = [], pp_Mounts = [], pp_Containers = [proxy]\<rparr>, s) \<and>
    ct_Image proxy = sc_Image (ru_RulerWriteProxy (ru_Spec ru)) \<and>
    ct_Args proxy = [''--config-content='' @ proxyText
      \<lparr>wp_Listen = ''127.0.0.1:8081'', wp_ListenMetricsAddress = ''0.0.0.0:8082'', wp_LogLevel = ''warn'',
       wp_Timeout = 10 * secondNs, wp_Concurrency = 512, wp_MaxConnsPerHost = 64,
       wp_Target = gatewayScheme gw @ ''://'' @ gatewayHost svc gw @ '':'' @ itoa gatewayPort @ apiGlobalPrefix @ ''/receive'',
       wp_TenantLabel = sv_TenantLabelName (sv_Spec svc), wp_TenantLabelRemove = True, wp_TenantHeader = sv_TenantHeader (sv_Spec svc),
       wp_TenantDefault = sv_DefaultTenantId (sv_Spec svc), wp_InsecureSkipVerify = servesTLS (gw_WebConfig (gw_Spec gw)),
       wp_EgressAuth = ([], [])\<rparr>]"
proof -
  let ?path = "apiGlobalPrefix @ ''/receive''"
  let ?target = "gatewayScheme gw @ ''://'' @ gatewayHost svc gw @ '':'' @ itoa gatewayPort @ ?path"
  have path: "?path = [] \<or> hasPrefix ?path ''/''" "list_all (\<lambda>c. isAlnum c \<or> c \<in> set ''/-.'') ?path"
    by (simp_all add: apiGlobalPrefix_def isAlnum_def hasPrefix_def)
  have "gatewayScheme gw \<noteq> []" "gatewayHost svc gw \<noteq> []" by (simp_all add: gatewayScheme_def gatewayHost_def)
  note str = urlString_addr [OF this(1) gatewayHost_plain [OF plain] this(2) gatewayPort_digits path]
  have parse: "urlParse (Gateway_addr svc gw) = Inr (emptyUrl\<lparr>u_Scheme := gatewayScheme gw, u_Host := gatewayHost svc gw @ '':'' @ itoa gatewayPort, u_Path := []\<rparr>)"
    using Gateway_addr_parsed [OF plain, of "[]"] by simp
  have recv: "''/api/v1/receive'' = ?path" by (simp add: apiGlobalPrefix_def)
  define proxy where "proxy = zeroContainer\<lparr>ct_Name := ''write-proxy'', ct_Image := sc_Image (ru_RulerWriteProxy (ru_Spec ru)),
         ct_Args := [''--config-content='' @ proxyText (writeProxyConfig svc gw ?target ([], []))],
         ct_Resources := sc_Resources (ru_RulerWriteProxy (ru_Spec ru))\<rparr>"
  have "addWriteProxyContainer rw cl svc ru gw (Gateway_addr svc gw) s = (Inr proxy, s)"
    unfolding addWriteProxyContainer_def recv bindE_app liftE_app Gateway_addr_parsed [OF plain path] proxy_def
    using users str by (simp add: yaml)
  then have "rulerWritePart rw cl svc ru gw (Gateway_addr svc gw) s =
      (Inr \<lparr>pp_Args = [''--remote-write.config='' @ writeText writeProxyUrl], pp_Volumes = [], pp_Mounts = [], pp_Containers = [proxy]\<rparr>, s)"
    by (simp add: rulerWritePart_def own bindE_app writeProxyUrl_parsed yaml)
  moreover have "rulerGateway cl ru s = (Inr (gw, Gateway_addr svc gw), s)" by (simp add: rulerGateway_def bindE_app list new)
  moreover have "rulerQueryPart rw cl ru gw (Gateway_addr svc gw) s = (Inr \<lparr>pp_Args = [''--query.config='' @ queryText
        [\<lparr>qh_Scheme = gatewayScheme gw, qh_StaticAddresses = [gatewayHost svc gw @ '':'' @ itoa gatewayPort],
          qh_PathPrefix = ru_Tenant (ru_Spec ru), qh_InsecureSkipVerify = servesTLS (gw_WebConfig (gw_Spec gw)), qh_BasicAuth = ([], [])\<rparr>]],
      pp_Volumes = [], pp_Mounts = [], pp_Containers = []\<rparr>, s)"
    using users own by (simp add: rulerQueryPart_def bindE_app parse queryConfigOf_def emptyUrl_def yaml)
  ultimately show ?thesis
    by (intro exI [of _ gw] exI [of _ "Gateway_addr svc gw"] exI [of _ proxy])
      (simp add: proxy_def writeProxyConfig_def writeProxyUrl_def secondNs_def)
qed

section \<open>Examples\<close>

definition exRuler :: ruler where
  "exRuler = zeroRuler\<lparr>om_Name := ''r'', om_Namespace := ''ns'',
     ru_Spec := zeroRulerSpec\<lparr>ru_Shards := Some 1, ru_Tenant := ''t'', cs_Flags := [''--label=a=1'']\<rparr>\<rparr>"

definition exRulerLib :: ruler_wlib where
  "exRulerLib = \<lparr>rwl_dnsLabel = (\<lambda>n. Inr n), rwl_rangeLabels = (\<lambda>_. []), rwl_yamlQuery = (\<lambda>cs. Inr (concat (map qh_Scheme cs))),
     rwl_yamlRemoteWrite = (\<lambda>u. Inr (urlString u)), rwl_yamlProxy = (\<lambda>c. Inr (wp_Target c)), rwl_reloader = (\<lambda>_ _ _ _. zeroContainer)\<rparr>"

definition exSet :: "string \<Rightarrow> stateful_set" where
  "exSet n = zeroStatefulSet\<lparr>om_Name := n\<rparr>"

definition exRulerClient :: "cluster client" where
  "exRulerClient = memClient\<lparr>statefulSets := nullKind\<lparr>kList := \<lambda>_. ret [exSet ''ruler-r-0'', exSet ''ruler-r-1'', exSet ''ruler-r-x-1'']\<rparr>,
     gateways := nullKind\<lparr>kList := \<lambda>_. ret [exGateway]\<rparr>\<rparr>"

lemma shard_names:
  "Ruler_name exRuler [itoaNat n] = ''ruler-r-0'' \<longleftrightarrow> n = 0" "Ruler_name exRuler [itoaNat n] = ''ruler-r-1'' \<longleftrightarrow> n = 1"
  "Ruler_name exRuler [itoaNat n] \<noteq> ''ruler-r-x-1''"
proof -
  have i: "itoaNat 0 = ''0''" "itoaNat 1 = ''1''" by (simp_all add: itoaNat.simps digitChar_def char_of_def bit_0)
  have name: "Ruler_name exRuler [x] = ''ruler-r-'' @ x" for x by (simp add: Ruler_name_def QualifiedName_def AppNameRuler_def exRuler_def)
  show "Ruler_name exRuler [itoaNat n] = ''ruler-r-0'' \<longleftrightarrow> n = 0" "Ruler_name exRuler [itoaNat n] = ''ruler-r-1'' \<longleftrightarrow> n = 1"
    using itoaNat_eq_iff [of n 0] itoaNat_eq_iff [of n 1] unfolding i name by simp_all
  show "Ruler_name exRuler [itoaNat n] \<noteq> ''ruler-r-x-1''" using no_dash_itoaNat [of n] by (auto simp: name)
qed

theorem ruler_sets_scaled_witness:
  "Ruler_statefulSets exRuleLib exRulerLib exWlib exRulerClient exService exRuler [[]] (exCluster [] [] []) =
     (Inr [Ruler_statefulSet exRuleLib exRulerLib exWlib exRulerClient exService exRuler [[]] 0,
           ret (OStatefulSet (exSet ''ruler-r-1''), OperationDelete)], exCluster [] [] [])"
proof -
  have shards: "ru_Shards (ru_Spec exRuler) = Some 1" by (simp add: exRuler_def)
  have list: "kList (statefulSets exRulerClient) q (exCluster [] [] []) =
      (Inr [exSet ''ruler-r-0'', exSet ''ruler-r-1'', exSet ''ruler-r-x-1''], exCluster [] [] [])" for q
    by (simp add: exRulerClient_def memClient_def nullKind_def)
  have "(\<exists>n \<ge> nat 1. om_Name (exSet ''ruler-r-0'') = Ruler_name exRuler [itoaNat n]) = False"
    "(\<exists>n \<ge> nat 1. om_Name (exSet ''ruler-r-1'') = Ruler_name exRuler [itoaNat n]) = True"
    "(\<exists>n \<ge> nat 1. om_Name (exSet ''ruler-r-x-1'') = Ruler_name exRuler [itoaNat n]) = False"
    using shard_names by (auto simp: exSet_def eq_commute [of "CHR ''r'' # _"])
  with ruler_sets_scaled [OF shards list, of exRuleLib exRulerLib exWlib exService "[[]]"] show ?thesis by simp
qed

theorem ruler_label_flag_drops_replica_witness:
  "argsNamed ''--label'' (rulerArgs exRulerLib exRuler []) = [''--label=a=1'']"
  using ruler_label_flag_drops_replica [of exRulerLib exRuler "[]"]
  by (simp add: exRulerLib_def exRuler_def zeroRuler_def argsNamed_def GetArgName_def2)

theorem ruler_reaches_gateway_witness:
  "\<exists>gw addr proxy. rulerGateway exRulerClient exRuler (exCluster [] [] []) = (Inr (gw, addr), exCluster [] [] []) \<and>
     rulerWritePart exRulerLib exRulerClient (withServiceDefaults exService) exRuler gw addr (exCluster [] [] []) =
       (Inr \<lparr>pp_Args = [''--remote-write.config=http://127.0.0.1:8081/push''], pp_Volumes = [], pp_Mounts = [], pp_Containers = [proxy]\<rparr>,
        exCluster [] [] []) \<and>
     ct_Args proxy = [''--config-content=http://gateway-g-operated.ns.svc:9090/api/v1/receive'']"
proof -
  let ?svc = "withServiceDefaults exService" and ?c = "exCluster [] [] []"
  have ns: "om_Namespace ?svc = ''ns''" by (simp add: withServiceDefaults_def Let_def exService_def)
  have name: "Gateway_name exGateway [ServiceNameSuffix] = ''gateway-g-operated''"
    by (simp add: Gateway_name_def QualifiedName_def AppNameGateway_def ServiceNameSuffix_def ex_gateway_defs)
  have port: "itoa gatewayPort = ''9090''" by (simp add: gatewayPort_def itoa_def itoaNat.simps digitChar_def char_of_def bit_0)
  have list: "kList (gateways exRulerClient) q ?c = (Inr [exGateway], ?c)" for q
    by (simp add: exRulerClient_def memClient_def nullKind_def)
  have new: "Gateway_New exRulerClient exGateway ?c = (Inr ?svc, ?c)"
    unfolding Gateway_New_def
    by (simp add: SetService_def exRulerClient_def memClient_def memKind_def exCluster_def mget_def bindE_app idx_def
      objectKey_def exService_def ex_gateway_defs)
  have plain: "plainHost (om_Name exGateway)" "plainHost (om_Namespace ?svc)"
    unfolding ns by (simp_all add: ex_gateway_defs plainHost_def isAlnum_def)
  have web: "\<not> hasUsers exGateway" "ru_QueryConfig (ru_Spec exRuler) = None" "ru_RemoteWriteConfig (ru_Spec exRuler) = None"
    "gatewayScheme exGateway = ''http''"
    by (simp_all add: hasUsers_def gatewayScheme_def servesTLS_def ex_gateway_defs exRuler_def zero_defs)
  have push: "urlString (emptyUrl\<lparr>u_Scheme := ''http'', u_Host := ''127.0.0.1:8081'', u_Path := ''/push''\<rparr>) = ''http://127.0.0.1:8081/push''"
    using urlString_addr [of "''http''" "''127.0.0.1''" "''8081''" "''/push''"] by (simp add: plainHost_def isAlnum_def isDigit_def hasPrefix_def)
  have yaml: "rwl_yamlProxy exRulerLib c = Inr (wp_Target c)" "rwl_yamlQuery exRulerLib qs = Inr (concat (map qh_Scheme qs))"
    "rwl_yamlRemoteWrite exRulerLib u = Inr (urlString u)" for c qs u by (simp_all add: exRulerLib_def)
  show ?thesis
    using ruler_reaches_gateway [OF list new plain web(1-3) yaml]
    by (simp add: push web port gatewayHost_def name ns apiGlobalPrefix_def) blast
qed

end
