(* ===== verification/Agent_Proxy.thy ===== *)
theory Agent_Proxy
  imports Gateway_Handler
begin

text \<open>
  \<^verbatim>\<open>pkg/monitoring-agent-proxy/server.go\<close>: the proxy that runs beside the agent of a tenant.  It
  takes requests without a tenant, puts the tenant in front of their path and passes them on to the
  gateway, which takes it off again.  The reverse proxy is a parameter; its target, the transport and
  the listener are set up by the command line and not modelled.
\<close>

section \<open>The routes\<close>

definition Agent_query :: string where
  "Agent_query = ''/api/v1/query''"
definition Agent_queryRange :: string where
  "Agent_queryRange = ''/api/v1/query_range''"
definition Agent_series :: string where
  "Agent_series = ''/api/v1/series''"
definition Agent_labels :: string where
  "Agent_labels = ''/api/v1/labels''"
definition Agent_labelValues :: string where
  "Agent_labelValues = ''/api/v1/label/*path''"
definition Agent_receive :: string where
  "Agent_receive = ''/api/v1/receive''"
definition Agent_otlp :: string where
  "Agent_otlp = ''/api/v1/otlp''"
definition Agent_write :: string where
  "Agent_write = ''/api/v1/write''"
definition Agent_rules :: string where
  "Agent_rules = ''/api/v1/rules''"

text \<open>The options the handlers read.\<close>

record agent_options =
  ao_Tenant :: string
  ao_GatewayProxy :: reverse_proxy

definition Agent_wrap :: "agent_options \<Rightarrow> handler" where
  "Agent_wrap opt = (\<lambda>req.
     let req1 = (if rq_Path req = Agent_write then req\<lparr>rq_Path := Agent_receive\<rparr> else req);
         req2 = (if ao_Tenant opt \<noteq> [] then req1\<lparr>rq_Path := ''/'' @ ao_Tenant opt @ rq_Path req1\<rparr> else req1)
     in [Forward (ao_GatewayProxy opt) req2])"

definition NewServer :: "agent_options \<Rightarrow> route list" where
  "NewServer opt =
     [pathRoute Agent_query [''GET''] (Agent_wrap opt), pathRoute Agent_query [''POST''] (Agent_wrap opt),
      pathRoute Agent_queryRange [''GET''] (Agent_wrap opt), pathRoute Agent_queryRange [''POST''] (Agent_wrap opt),
      pathRoute Agent_series [''GET''] (Agent_wrap opt), pathRoute Agent_labels [''GET''] (Agent_wrap opt),
      pathRoute Agent_labelValues [''GET''] (Agent_wrap opt), pathRoute Agent_rules [''GET''] (Agent_wrap opt),
      pathRoute Agent_receive [''POST''] (Agent_wrap opt), pathRoute Agent_otlp [''POST''] (Agent_wrap opt),
      pathRoute Agent_write [''POST''] (Agent_wrap opt)]"

section \<open>Through the gateway\<close>

text \<open>The path the gateway sees in the end: remote writes of Prometheus are renamed.\<close>

definition servedPath :: "string \<Rightarrow> string" where
  "servedPath p = (if p = Agent_write then Agent_receive else p)"

lemma Agent_wrap_forwards:
  "ao_Tenant opt = tenant \<Longrightarrow> tenant \<noteq> [] \<Longrightarrow>
   Agent_wrap opt req = [Forward (ao_GatewayProxy opt) (req\<lparr>rq_Path := ''/'' @ tenant @ servedPath (rq_Path req)\<rparr>)]"
  by (simp add: Agent_wrap_def servedPath_def)

text \<open>
  Every route of the agent proxy is a route of the gateway under the tenant, with its method: the tables
  of templates and methods are compared by evaluation.
\<close>

definition routeTable :: "route list \<Rightarrow> (string \<times> string list) list" where
  "routeTable rts = map (\<lambda>rt. (rt_Template rt, rt_Methods rt)) rts"

definition tenantRoutes :: "options \<Rightarrow> ('x, 'm) promql \<Rightarrow> admission_map \<Rightarrow> route list" where
  "tenantRoutes opts pq adm = addTenantQueryHandler opts pq adm @ addTenantRemoteWriteHandler opts adm @ addTenantOTLPHandler opts adm"

definition agentTable :: "(string \<times> string list) list" where
  "agentTable = [(Agent_query, [''GET'']), (Agent_query, [''POST'']), (Agent_queryRange, [''GET'']), (Agent_queryRange, [''POST'']),
     (Agent_series, [''GET'']), (Agent_labels, [''GET'']), (Agent_labelValues, [''GET'']), (Agent_rules, [''GET'']),
     (Agent_receive, [''POST'']), (Agent_otlp, [''POST'']), (Agent_write, [''POST''])]"

definition gatewayTable :: "(string \<times> string list) list" where
  "gatewayTable = map (\<lambda>(p, ms). (apiTenantPrefix @ p, ms))
     [(''/query'', [''GET'', ''POST'']), (''/query_range'', [''GET'', ''POST'']), (''/series'', [''GET'']), (''/labels'', [''GET'']),
      (''/label/*path'', [''GET'']), (''/rules'', [''GET'']), (''/receive'', [''POST'']), (''/otlp'', [''POST''])]"

lemma route_tables: "routeTable (NewServer opt) = agentTable" "routeTable (tenantRoutes opts pq adm) = gatewayTable"
  by (simp_all add: routeTable_def NewServer_def agentTable_def tenantRoutes_def addTenantQueryHandler_def
      addTenantRemoteWriteHandler_def addTenantOTLPHandler_def gatewayTable_def pathRoute_def)

lemma tables_match:
  "list_all (\<lambda>(p, ms). list_ex (\<lambda>(tpl, ms'). tpl = ''/{tenant_id}'' @ servedPath p \<and> list_all (\<lambda>m. m \<in> set ms') ms) gatewayTable) agentTable"
  by code_simp

lemma NewServer_wrapped: "art \<in> set (NewServer opt) \<Longrightarrow> rt_Handler art = Agent_wrap opt"
  unfolding NewServer_def pathRoute_def by (simp only: set_simps insert_iff empty_iff) (elim disjE; simp)

lemma tenantRoutes_wrapped: "rt \<in> set (tenantRoutes opts pq adm) \<Longrightarrow> \<exists>f. rt_Handler rt = wrap opts adm f"
  unfolding tenantRoutes_def addTenantQueryHandler_def addTenantRemoteWriteHandler_def addTenantOTLPHandler_def pathRoute_def
  by (simp only: set_append set_simps Un_iff insert_iff empty_iff) (elim disjE; simp; blast)

lemma agent_route_known:
  assumes "art \<in> set (NewServer opt)"
  shows "\<exists>rt \<in> set (NewHandler opts pq adm). \<exists>f. rt_Handler rt = wrap opts adm f \<and>
    rt_Template rt = ''/{tenant_id}'' @ servedPath (rt_Template art) \<and> set (rt_Methods art) \<subseteq> set (rt_Methods rt)"
proof -
  have "(rt_Template art, rt_Methods art) \<in> set agentTable"
    using assms unfolding route_tables(1) [of opt, symmetric] routeTable_def by force
  with tables_match obtain tpl ms where t: "(tpl, ms) \<in> set gatewayTable" "tpl = ''/{tenant_id}'' @ servedPath (rt_Template art)"
    "set (rt_Methods art) \<subseteq> set ms"
    by (auto simp: list_all_iff list_ex_iff subset_iff)
  then obtain rt where rt: "rt \<in> set (tenantRoutes opts pq adm)" "rt_Template rt = tpl" "rt_Methods rt = ms"
    unfolding route_tables(2) [of opts pq adm, symmetric] routeTable_def by force
  then have "rt \<in> set (NewHandler opts pq adm)" by (auto simp: tenantRoutes_def NewHandler_def)
  with tenantRoutes_wrapped [OF rt(1)] rt t show ?thesis by blast
qed

lemma servedPath_api:
  assumes "art \<in> set (NewServer opt)"
  shows "\<exists>rest. servedPath (rt_Template art) = ''/'' @ rest"
proof -
  have "(rt_Template art, rt_Methods art) \<in> set agentTable"
    using assms unfolding route_tables(1) [of opt, symmetric] routeTable_def by force
  moreover have "list_all (\<lambda>(p, _). hasPrefix (servedPath p) ''/'') agentTable" by code_simp
  ultimately show ?thesis by (force simp: list_all_iff hasPrefix_iff)
qed

text \<open>
  C24: the agent proxy and the gateway fit together.  A request of a tenant's agent for one of the fixed
  paths of the proxy is passed on under the path of the tenant, for which the gateway has a route with
  the method of the request; where no client certificates are required the gateway serves it, if the
  tenant is admitted, under the path the agent asked for (writes of Prometheus under the path of
  remote writes), as a request of this tenant.
\<close>

theorem agent_request_roundtrip:
  assumes tenant: "ao_Tenant opt = tenant" "tenant \<noteq> []" "CHR ''/'' \<notin> set tenant" and "\<not> op_CertAuthenticator opts"
    and art: "art \<in> set (NewServer opt)" "rq_Method req \<in> set (rt_Methods art)" "rq_Path req = rt_Template art" "rt_Template art \<noteq> Agent_labelValues"
  shows "\<exists>r rt f. rt_Handler art req = [Forward (ao_GatewayProxy opt) r] \<and>
    rq_Path r = ''/'' @ tenant @ servedPath (rq_Path req) \<and>
    rt \<in> set (NewHandler opts pq adm) \<and> rt_Template rt = ''/{tenant_id}'' @ servedPath (rq_Path req) \<and>
    rq_Method r \<in> set (rt_Methods rt) \<and>
    rt_Handler rt (r\<lparr>rq_TenantVar := tenant\<rparr>) =
      (if op_EnabledTenantsAdmission opts \<and> adm tenant = None
       then [HttpError 403 (''tenant '' @ tenant @ '' is not allowed to access'')]
       else f (req\<lparr>rq_Path := servedPath (rq_Path req), rq_TenantVar := tenant, rq_Info := Some tenant\<rparr>)) \<and>
    rt_Handler rt = wrap opts adm f"
proof -
  let ?r = "req\<lparr>rq_Path := ''/'' @ tenant @ servedPath (rq_Path req)\<rparr>"
  have upd: "req\<lparr>rq_TenantVar := tenant, rq_Path := p, rq_Info := i\<rparr> = req\<lparr>rq_Path := p, rq_TenantVar := tenant, rq_Info := i\<rparr>" for p i
    by simp
  have "rt_Handler art = Agent_wrap opt" using NewServer_wrapped [OF art(1)] .
  then have fwd: "rt_Handler art req = [Forward (ao_GatewayProxy opt) ?r]"
    using Agent_wrap_forwards [OF tenant(1,2)] by simp
  obtain rt f where rt: "rt \<in> set (NewHandler opts pq adm)" "rt_Handler rt = wrap opts adm f"
    "rt_Template rt = ''/{tenant_id}'' @ servedPath (rq_Path req)" "set (rt_Methods art) \<subseteq> set (rt_Methods rt)"
    using agent_route_known [OF art(1), of opts pq adm] art(3) by auto
  obtain rest where rest: "servedPath (rq_Path req) = ''/'' @ rest" using servedPath_api [OF art(1)] art(3) by auto
  have "rt_Handler rt (?r\<lparr>rq_TenantVar := tenant\<rparr>) =
      (if op_EnabledTenantsAdmission opts \<and> adm tenant = None
       then [HttpError 403 (''tenant '' @ tenant @ '' is not allowed to access'')]
       else f (req\<lparr>rq_Path := servedPath (rq_Path req), rq_TenantVar := tenant, rq_Info := Some tenant\<rparr>))"
    using wrap_serves [OF tenant(3,2), of "?r\<lparr>rq_TenantVar := tenant\<rparr>" rest opts adm f] assms(4) rest rt(2)
    by (simp add: upd)
  moreover have "rq_Method ?r \<in> set (rt_Methods rt)" using art(2) rt(4) by auto
  ultimately show ?thesis using fwd rt by (intro exI [of _ ?r] exI [of _ rt] exI [of _ f]) simp
qed

theorem agent_request_roundtrip_witness:
  "\<exists>r rt. Agent_wrap \<lparr>ao_Tenant = ''t1'', ao_GatewayProxy = ''g''\<rparr> (exRequest\<lparr>rq_Path := Agent_write\<rparr>) = [Forward ''g'' r] \<and>
     rq_Path r = ''/t1/api/v1/receive'' \<and> rt \<in> set (NewHandler exOptions exPromql exAdmission) \<and>
     rt_Template rt = ''/{tenant_id}/api/v1/receive'' \<and> ''POST'' \<in> set (rt_Methods rt)"
proof -
  let ?opt = "\<lparr>ao_Tenant = ''t1'', ao_GatewayProxy = ''g''\<rparr>" and ?req = "exRequest\<lparr>rq_Path := Agent_write\<rparr>"
  let ?art = "pathRoute Agent_write [''POST''] (Agent_wrap ?opt)"
  have art: "?art \<in> set (NewServer ?opt)" "rq_Method ?req \<in> set (rt_Methods ?art)" "rq_Path ?req = rt_Template ?art"
    "rt_Template ?art \<noteq> Agent_labelValues"
    by (simp_all add: NewServer_def pathRoute_def exRequest_def Agent_write_def Agent_labelValues_def)
  have cert: "\<not> op_CertAuthenticator exOptions" by (simp add: exOptions_def)
  have path: "servedPath (rq_Path ?req) = ''/api/v1/receive''" by (simp add: servedPath_def Agent_receive_def)
  have handler: "rt_Handler ?art = Agent_wrap ?opt" "rq_Method ?req = ''POST''" by (simp_all add: pathRoute_def exRequest_def)
  obtain r rt where "rt_Handler ?art ?req = [Forward (ao_GatewayProxy ?opt) r]" "rq_Path r = ''/'' @ ''t1'' @ servedPath (rq_Path ?req)"
    "rt \<in> set (NewHandler exOptions exPromql exAdmission)" "rt_Template rt = ''/{tenant_id}'' @ servedPath (rq_Path ?req)"
    "rq_Method r \<in> set (rt_Methods rt)"
    using agent_request_roundtrip [OF _ _ _ cert art, of "''t1''" exPromql exAdmission] by auto
  moreover from this have "r = ?req\<lparr>rq_Path := ''/'' @ ''t1'' @ servedPath (rq_Path ?req)\<rparr>"
    unfolding handler by (simp add: Agent_wrap_forwards [of ?opt "''t1''"])
  ultimately show ?thesis unfolding handler path using handler(2) by auto
qed

end
