(* ===== verification/Envoy_Config.thy ===== *)
theory Envoy_Config
  imports Ruler_Workload
begin

text \<open>
  The envoy side car (\<^verbatim>\<open>pkg/util/envoy_config.go\<close> and the functions \<^verbatim>\<open>envoyConfigMap\<close> of the query, query
  frontend, router and ruler reconcilers) and the query proxy of the ruler (\<^verbatim>\<open>remoteWriteAddress\<close>,
  \<^verbatim>\<open>queryAddress\<close> and \<^verbatim>\<open>addQueryProxyContainer\<close> of \<^verbatim>\<open>ruler/statefulset.go\<close>).  The code that calls them is
  commented out at present.
\<close>

section \<open>The static configuration\<close>

text \<open>
  A field of the data, a map of strings: a key that is missing prints as \<^verbatim>\<open><no value>\<close> and counts as
  false, as the empty string does.
\<close>

definition dataField :: "labels_map \<Rightarrow> string \<Rightarrow> string" where
  "dataField data k = (case data k of None \<Rightarrow> ''<no value>'' | Some v \<Rightarrow> v)"

definition dataTrue :: "labels_map \<Rightarrow> string \<Rightarrow> bool" where
  "dataTrue data k \<longleftrightarrow> data k \<noteq> None \<and> data k \<noteq> Some []"

definition selfListener :: "labels_map \<Rightarrow> string list" where
  \<open>selfListener data =
     [''    - name: self_listener'',
      ''      address:'',
      ''        socket_address:'',
      ''          address: 0.0.0.0'',
      ''          port_value: '' @ dataField data ''ServiceMappingPort'',
      ''      filter_chains:'',
      ''        - filters:'',
      ''            - name: envoy.filters.network.http_connection_manager'',
      ''              typed_config:'',
      ''                '' @ [CHR 0x27] @ ''@type'' @ [CHR 0x27] @ '': type.googleapis.com/envoy.extensions.filters.network.http_connection_manager.v3.HttpConnectionManager'',
      ''                scheme_header_transformation:'',
      ''                  scheme_to_overwrite: https'',
      ''                stat_prefix: ingress_http'',
      ''                codec_type: auto'',
      ''                route_config:'',
      ''                  virtual_hosts:'',
      ''                    - name: default'',
      ''                      domains:'',
      ''                        - '' @ [CHR 0x27] @ ''*'' @ [CHR 0x27],
      ''                      routes:'',
      ''                        - match:'',
      ''                            prefix: /'',
      ''                          route:'',
      ''                            cluster: local_serivce'',
      ''                http_filters:'',
      ''                  - name: envoy.filters.http.router'',
      ''          transport_socket:'',
      ''            name: envoy.transport_sockets.tls'',
      ''            typed_config:'',
      ''              '' @ [CHR 0x27] @ ''@type'' @ [CHR 0x27] @ '': type.googleapis.com/envoy.extensions.transport_sockets.tls.v3.DownstreamTlsContext'',
      ''              common_tls_context:'',
      ''                tls_certificates:'',
      ''                  - certificate_chain:'',
      ''                      filename: '' @ dataField data ''ServiceTLSCertFile'',
      ''                    private_key:'',
      ''                      filename: '' @ dataField data ''ServiceTLSKeyFile'']\<close>

definition proxyListener :: "labels_map \<Rightarrow> string list" where
  \<open>proxyListener data =
     [''    - name: proxy_listener'',
      ''      address:'',
      ''        socket_address:'',
      ''          address: 0.0.0.0'',
      ''          port_value: '' @ dataField data ''ProxyLocalListenPort'',
      ''      filter_chains:'',
      ''        - filters:'',
      ''            - name: envoy.filters.network.http_connection_manager'',
      ''              typed_config:'',
      ''                '' @ [CHR 0x27] @ ''@type'' @ [CHR 0x27] @ '': type.googleapis.com/envoy.extensions.filters.network.http_connection_manager.v3.HttpConnectionManager'',
      ''                scheme_header_transformation:'',
      ''                  scheme_to_overwrite: https'',
      ''                stat_prefix: ingress_http'',
      ''                codec_type: auto'',
      ''                route_config:'',
      ''                  virtual_hosts:'',
      ''                    - name: default'',
      ''                      domains:'',
      ''                        - '' @ [CHR 0x27] @ ''*'' @ [CHR 0x27],
      ''                      routes:'',
      ''                        - match:'',
      ''                            prefix: /'',
      ''                          route:'',
      ''                            cluster: upstrean_serivce'',
      ''                http_filters:'',
      ''                  - name: envoy.filters.http.router'']\<close>

definition localCluster :: "labels_map \<Rightarrow> string list" where
  \<open>localCluster data =
     [''  - name: local_serivce'',
      ''    type: STATIC'',
      ''    lb_policy: ROUND_ROBIN'',
      ''    load_assignment:'',
      ''      cluster_name: local_serivce'',
      ''      endpoints:'',
      ''        - lb_endpoints:'',
      ''            - endpoint:'',
      ''                address:'',
      ''                  socket_address:'',
      ''                    address: 127.0.0.1'',
      ''                    port_value: '' @ dataField data ''ServiceListenPort'']\<close>

definition upstreamCluster :: "labels_map \<Rightarrow> string list" where
  \<open>upstreamCluster data =
     [''  - name: upstrean_serivce'',
      ''    type: STRICT_DNS'',
      ''    lb_policy: ROUND_ROBIN'',
      ''    load_assignment:'',
      ''      cluster_name: upstrean_serivce'',
      ''      endpoints:'',
      ''        - lb_endpoints:'',
      ''            - endpoint:'',
      ''                address:'',
      ''                  socket_address:'',
      ''                    address: '' @ dataField data ''ProxyServiceAddress'',
      ''                    port_value: '' @ dataField data ''ProxyServicePort'',
      ''    transport_socket:'',
      ''      name: envoy.transport_sockets.tls'',
      ''      typed_config:'',
      ''        '' @ [CHR 0x27] @ ''@type'' @ [CHR 0x27] @ '': type.googleapis.com/envoy.extensions.transport_sockets.tls.v3.UpstreamTlsContext'',
      ''        common_tls_context:'',
      ''          validation_context:'',
      ''            trust_chain_verification: ACCEPT_UNTRUSTED'',
      ''        sni: '' @ dataField data ''ProxyServiceAddress'']\<close>

text \<open>The mark \<^verbatim>\<open>{{-\<close> takes the white space in front of it away, so each block brings its line breaks.\<close>

definition staticLines :: "labels_map \<Rightarrow> string list" where
  "staticLines data =
     [[], ''static_resources:'', ''  listeners:''] @
     (if dataTrue data ''LocalServiceEnabled'' then selfListener data else []) @
     (if dataTrue data ''ProxyServiceEnabled'' then proxyListener data else []) @
     [''  clusters:''] @
     (if dataTrue data ''LocalServiceEnabled'' then localCluster data else []) @
     (if dataTrue data ''ProxyServiceEnabled'' then upstreamCluster data else [])"

definition EnvoyStaticConfigTemplate :: "labels_map \<Rightarrow> string" where
  "EnvoyStaticConfigTemplate data = textLines (staticLines data)"

section \<open>envoyConfigMap\<close>

text \<open>
  The object that is handed to \<^verbatim>\<open>controllerutil.CreateOrPatch\<close>, a parameter here, with the function that sets
  its data.
\<close>

definition configmapDataMutate :: "labels_map \<Rightarrow> config_map \<Rightarrow> config_map" where
  "configmapDataMutate data cm = cm\<lparr>cm_Data := data\<rparr>"

definition envoyConfigMapFor ::
  "(config_map \<Rightarrow> (config_map \<Rightarrow> config_map) \<Rightarrow> ('s, unit) act) \<Rightarrow> wlib \<Rightarrow> 'a object_meta_scheme \<Rightarrow> config_map \<Rightarrow> labels_map \<Rightarrow> ('s, unit) act" where
  "envoyConfigMapFor createOrPatch w owner cm data =
     (let rendered = [envoyConfigFile \<mapsto> EnvoyStaticConfigTemplate data] in
      bindE (liftE (ownedBy w owner (cm\<lparr>cm_Data := rendered\<rparr>))) (\<lambda>owned.
        createOrPatch owned (configmapDataMutate rendered)))"

definition Query_envoyConfigMap where
  "Query_envoyConfigMap createOrPatch w svc q =
     envoyConfigMapFor createOrPatch w q (Query_meta svc (Query_name q [''envoy-config'']) zeroConfigMap)"

definition Frontend_envoyConfigMap where
  "Frontend_envoyConfigMap createOrPatch w svc qf =
     envoyConfigMapFor createOrPatch w qf (Frontend_meta svc (Frontend_name qf [''envoy-config'']) zeroConfigMap)"

definition Router_envoyConfigMap where
  "Router_envoyConfigMap createOrPatch w svc ro =
     envoyConfigMapFor createOrPatch w ro (Router_meta svc (Router_name ro [''envoy-config'']) zeroConfigMap)"

definition Ruler_envoyConfigMap where
  "Ruler_envoyConfigMap createOrPatch w ru =
     envoyConfigMapFor createOrPatch w ru (Ruler_meta ru (Ruler_name ru [''envoy-config'']) zeroConfigMap)"

section \<open>The query proxy of the ruler\<close>

definition rulerSameService :: "ruler \<Rightarrow> list_options" where
  "rulerSameService ru = \<lparr>lo_Namespace = [], lo_Labels = ManagedLabelBySameService ru\<rparr>"

definition Ruler_remoteWriteAddress :: "'s client \<Rightarrow> service \<Rightarrow> ruler \<Rightarrow> ('s, string) act" where
  "Ruler_remoteWriteAddress cl svc ru =
     bindE (kList (routers cl) (rulerSameService ru)) (\<lambda>items. case items of
         [] \<Rightarrow> failE (GoErr (ofService ''no router defined'' svc))
       | [ro] \<Rightarrow> bindE (Router_New cl ro) (\<lambda>svc'.
           ret (if servesTLS (ro_WebConfig (ro_Spec ro)) then RemoteWriteHTTPSAddr svc' ro else RemoteWriteAddr svc' ro))
       | _ \<Rightarrow> failE (GoErr (ofService ''more than one router defined'' svc)))"

definition Ruler_queryAddress :: "'s client \<Rightarrow> service \<Rightarrow> ruler \<Rightarrow> ('s, string) act" where
  "Ruler_queryAddress cl svc ru =
     bindE (kList (queryFrontends cl) (rulerSameService ru)) (\<lambda>frontends. case frontends of
         [q] \<Rightarrow> bindE (Frontend_New cl q) (\<lambda>svc'. ret (Frontend_addr svc' q))
       | _ # _ # _ \<Rightarrow> failE (GoErr (ofService ''more than one query frontend defined'' svc))
       | [] \<Rightarrow> bindE (kList (queries cl) (rulerSameService ru)) (\<lambda>items. case items of
             [q] \<Rightarrow> bindE (Query_New cl q) (\<lambda>svc'. ret (Query_addr svc' q))
           | _ # _ # _ \<Rightarrow> failE (GoErr (ofService ''more than one query defined'' svc))
           | [] \<Rightarrow> failE (GoErr (ofService ''no query frontend or query exist'' svc))))"

text \<open>
  The configuration of the proxy.  \<^verbatim>\<open>!reflect.DeepEqual(cfg, config{})\<close> compares it with the zero value of
  another type and is always true, so the flag is always there.
\<close>

definition queryProxyConfig :: "'s client \<Rightarrow> service \<Rightarrow> string \<Rightarrow> ('s, gw_config) act" where
  "queryProxyConfig cl svc queryAddr =
     (let tls = (case urlParse queryAddr of Inl _ \<Rightarrow> None | Inr u \<Rightarrow> if u_Scheme u = ''https'' then Some True else None) in
      case sv_RemoteQuery (sv_Spec svc) of
        None \<Rightarrow> ret (emptyConfig\<lparr>gcf_TLSConfig := tls\<rparr>)
      | Some rq \<Rightarrow> bindE (basicAuthOf cl svc (hcc_BasicAuth rq)) (\<lambda>auth.
          ret \<lparr>gcf_BasicAuth = auth, gcf_BearerToken = hcc_BearerToken rq, gcf_TLSConfig = tls\<rparr>))"

definition addQueryProxyContainer ::
  "gateway_lib \<Rightarrow> 's client \<Rightarrow> service \<Rightarrow> ruler \<Rightarrow> service_spec \<Rightarrow> string \<Rightarrow> string \<Rightarrow> ('s, container) act" where
  "addQueryProxyContainer gl cl svc ru sp queryAddr remoteWriteAddr =
     bindE (queryProxyConfig cl svc queryAddr) (\<lambda>cfg.
     bindE (liftE (parseOr remoteWriteAddr (''invalid router address: '' @ remoteWriteAddr))) (\<lambda>u.
       ret (zeroContainer\<lparr>ct_Name := ''query-proxy'', ct_Image := sc_Image (ru_RulerQueryProxy (ru_Spec ru)),
         ct_Resources := sc_Resources (ru_RulerQueryProxy (ru_Spec ru)),
         ct_Args := [''--http-address=127.0.0.1:9080'', ''--tenant.label-name='' @ sv_TenantLabelName sp,
             ''--tenant.header='' @ sv_TenantHeader sp, ''--query.config='' @ configText gl cfg,
             ''--query.address='' @ queryAddr, ''--remote-write.address='' @ remoteWriteAddr] @
           tlsArg gl ''--remote-write.config='' u\<rparr>)))"

section \<open>Properties\<close>

text \<open>A listener is configured together with the cluster it routes to, and each with the data it needs only.\<close>

lemma listener_has_cluster:
  "''                            cluster: local_serivce'' \<in> set (staticLines data) \<longleftrightarrow> ''  - name: local_serivce'' \<in> set (staticLines data)"
  "''                            cluster: upstrean_serivce'' \<in> set (staticLines data) \<longleftrightarrow> ''  - name: upstrean_serivce'' \<in> set (staticLines data)"
  by (simp_all add: staticLines_def selfListener_def proxyListener_def localCluster_def upstreamCluster_def)

text \<open>
  The switches are strings: a service is switched off by leaving its key out or empty, and
  switched on by any other text, \<^verbatim>\<open>false\<close> included.
\<close>

lemma switch_false_is_on: "dataTrue (data(k \<mapsto> ''false'')) k"
  by (simp add: dataTrue_def)

text \<open>
  All four config maps carry the rendered text under the name that the side car reads, and keep it
  when the stored object replaces the one that was built.
\<close>

lemma envoyConfigMap_data:
  assumes "ownedBy w owner (cm\<lparr>cm_Data := [envoyConfigFile \<mapsto> EnvoyStaticConfigTemplate data]\<rparr>) = Inr owned"
  shows "envoyConfigMapFor patch w owner cm data = patch owned (configmapDataMutate [envoyConfigFile \<mapsto> EnvoyStaticConfigTemplate data])"
    and "cm_Data owned = [envoyConfigFile \<mapsto> EnvoyStaticConfigTemplate data]"
    and "cm_Data (configmapDataMutate [envoyConfigFile \<mapsto> EnvoyStaticConfigTemplate data] stored) envoyConfigFile = Some (EnvoyStaticConfigTemplate data)"
  using assms
  by (auto simp: envoyConfigMapFor_def Let_def bindE_def fun_eq_iff ownedBy_def bindR_Inr_iff configmapDataMutate_def)

text \<open>
  The proxy gets a query configuration whatever the addresses are, also an empty one.
\<close>

lemma queryProxy_always_configured:
  assumes "addQueryProxyContainer gl cl svc ru sp queryAddr remoteWriteAddr s = (Inr ct, s')"
  shows "\<exists>cfg. ''--query.config='' @ configText gl cfg \<in> set (ct_Args ct)"
  using assms by (auto simp: addQueryProxyContainer_def bindE_def split: prod.splits sum.splits)

text \<open>With an address that needs TLS, the proxy accepts the certificate of the router unseen.\<close>

lemma queryProxy_router_tls:
  assumes "addQueryProxyContainer gl cl svc ru sp queryAddr remoteWriteAddr s = (Inr ct, s')" and "urlParse remoteWriteAddr = Inr u"
  shows "''--remote-write.config='' @ configText gl skipVerify \<in> set (ct_Args ct) \<or> u_Scheme u \<noteq> ''https''"
  using assms by (auto simp: addQueryProxyContainer_def bindE_def tlsArg_def parseOr_def split: prod.splits sum.splits)

end
