(* ===== verification/Gateway_Shutdown.thy ===== *)
theory Gateway_Shutdown
  imports Gateway_Watcher
begin

text \<open>
  How the gateway process ends.  The actors of \<^verbatim>\<open>runGateway\<close> run in a group: when the first of them
  returns, or a signal arrives, all are interrupted (\<open>pl_Canceled\<close>), and the process ends when all have
  returned.  The state machine of \<open>Gateway_Watcher\<close> is extended with the consumer of the
  channel \<^verbatim>\<open>updates\<close> (the last actor of \<^verbatim>\<open>runGateway\<close>), and with \<^verbatim>\<open>Stop\<close>, which closes the channel of the
  watcher.
\<close>

section \<open>The group\<close>

record group =
  gr_Pipe :: pipeline
  gr_ConsumerDone :: bool

text \<open>The consumer has returned, or is about to return because a configuration was refused.\<close>

definition consumerGone :: "group \<Rightarrow> bool" where
  "consumerGone s \<longleftrightarrow> gr_ConsumerDone s \<or> isl (pl_Admission (gr_Pipe s))"

text \<open>
  A step of the watcher or the forwarder, or of the consumer while it runs (only the consumer adds to
  \<open>pl_Applied\<close>); the consumer returns when it is interrupted, when the channel is closed and
  empty, and with the error of \<^verbatim>\<open>SetAdmissionControlHandler\<close>.
\<close>

inductive gstep :: "watch_env \<Rightarrow> options \<Rightarrow> group \<Rightarrow> group \<Rightarrow> bool" for env opts where
  pipe: "pstep env opts (gr_Pipe s) p \<Longrightarrow> gr_ConsumerDone s \<longrightarrow> pl_Applied p = pl_Applied (gr_Pipe s) \<Longrightarrow>
     gstep env opts s (s\<lparr>gr_Pipe := p\<rparr>)"
| consumer_canceled: "pl_Canceled (gr_Pipe s) \<Longrightarrow> gstep env opts s (s\<lparr>gr_ConsumerDone := True\<rparr>)"
| consumer_closed: "pl_ForwarderDone (gr_Pipe s) \<Longrightarrow> pl_Updates (gr_Pipe s) = None \<Longrightarrow>
     gstep env opts s (s\<lparr>gr_ConsumerDone := True\<rparr>)"
| consumer_fails: "isl (pl_Admission (gr_Pipe s)) \<Longrightarrow> gstep env opts s (s\<lparr>gr_ConsumerDone := True\<rparr>)"

definition initGroup :: "string res \<Rightarrow> group" where
  "initGroup fl = \<lparr>gr_Pipe = initPipeline fl, gr_ConsumerDone = False\<rparr>"

definition allDone :: "group \<Rightarrow> bool" where
  "allDone s \<longleftrightarrow> pl_ForwarderDone (gr_Pipe s) \<and> gr_ConsumerDone s"

text \<open>
  \<^verbatim>\<open>updates <- cfg\<close> in \<^verbatim>\<open>ConfigFromWatcher\<close> waits for room in the channel and for nothing else: with the
  channel full and nobody left to read from it, the forwarder waits for ever.
\<close>

definition hung :: "group \<Rightarrow> bool" where
  "hung s \<longleftrightarrow> consumerGone s \<and> pl_Held (gr_Pipe s) \<noteq> None \<and> pl_Updates (gr_Pipe s) \<noteq> None"

section \<open>The forwarder holds nothing once it has returned\<close>

lemma pstep_returned:
  "pstep env opts p q \<Longrightarrow> (pl_ForwarderDone p \<longrightarrow> pl_Held p = None) \<Longrightarrow> pl_ForwarderDone q \<longrightarrow> pl_Held q = None"
  by (induction rule: pstep.induct) (auto simp: watcherTurn_def split: prod.splits)

lemma gstep_returned:
  assumes "(gstep env opts)\<^sup>*\<^sup>* (initGroup fl) s"
  shows "pl_ForwarderDone (gr_Pipe s) \<longrightarrow> pl_Held (gr_Pipe s) = None"
  using assms
proof (induction rule: rtranclp_induct)
  case base
  show ?case by (simp add: initGroup_def initPipeline_def)
next
  case (step s t)
  from step.hyps(2) step.IH show ?case by cases (auto dest: pstep_returned)
qed

section \<open>A hung group never ends\<close>

lemma pstep_hung:
  assumes "pstep env opts p q" and "pl_Held p \<noteq> None" and "pl_Updates p \<noteq> None"
    and "isl (pl_Admission p) \<or> pl_Applied q = pl_Applied p"
  shows "pl_Held q \<noteq> None \<and> pl_Updates q \<noteq> None \<and> pl_Admission q = pl_Admission p"
  using assms by (induction rule: pstep.induct) (auto simp: watcherTurn_def split: prod.splits)

lemma hung_step: "gstep env opts s t \<Longrightarrow> hung s \<Longrightarrow> hung t"
  by (induction rule: gstep.induct) (auto simp: hung_def consumerGone_def dest: pstep_hung)

lemma hung_forever: "(gstep env opts)\<^sup>*\<^sup>* s t \<Longrightarrow> hung s \<Longrightarrow> hung t"
  by (induction rule: rtranclp_induct) (auto intro: hung_step)

section \<open>Any other group can end\<close>

lemma finish:
  assumes "pl_Canceled (gr_Pipe s)" and "pl_Held (gr_Pipe s) = None"
  shows "\<exists>t. (gstep env opts)\<^sup>*\<^sup>* s t \<and> allDone t"
proof -
  let ?p = "(gr_Pipe s)\<lparr>pl_ForwarderDone := True\<rparr>"
  have "gstep env opts s (s\<lparr>gr_Pipe := ?p\<rparr>)"
    using assms by (intro gstep.pipe pstep.forwarder_returns) auto
  moreover have "gstep env opts (s\<lparr>gr_Pipe := ?p\<rparr>) (s\<lparr>gr_Pipe := ?p\<rparr>\<lparr>gr_ConsumerDone := True\<rparr>)"
    using assms by (intro gstep.consumer_canceled) simp
  ultimately have "(gstep env opts)\<^sup>*\<^sup>* s (s\<lparr>gr_Pipe := ?p\<rparr>\<lparr>gr_ConsumerDone := True\<rparr>)"
    by (meson converse_rtranclp_into_rtranclp rtranclp.rtrancl_refl)
  then show ?thesis by (fastforce simp: allDone_def)
qed

lemma finish_held:
  assumes "pl_Canceled (gr_Pipe s)" and "pl_Updates (gr_Pipe s) = None"
  shows "\<exists>t. (gstep env opts)\<^sup>*\<^sup>* s t \<and> allDone t"
proof (cases "pl_Held (gr_Pipe s)")
  case (Some c)
  let ?s = "s\<lparr>gr_Pipe := (gr_Pipe s)\<lparr>pl_Held := None, pl_Updates := Some c\<rparr>\<rparr>"
  have "gstep env opts s ?s" using Some assms by (intro gstep.pipe pstep.forward) auto
  moreover obtain t where "(gstep env opts)\<^sup>*\<^sup>* ?s t" "allDone t" using finish [of ?s env opts] assms by auto
  ultimately show ?thesis by (meson converse_rtranclp_into_rtranclp)
qed (use finish assms in blast)

lemma finish_full:
  assumes "pl_Canceled (gr_Pipe s)" and "pl_Updates (gr_Pipe s) = Some c" and "\<not> consumerGone s"
  shows "\<exists>t. (gstep env opts)\<^sup>*\<^sup>* s t \<and> allDone t"
proof -
  obtain m where m: "pl_Admission (gr_Pipe s) = Inr m"
    using assms(3) by (cases "pl_Admission (gr_Pipe s)") (auto simp: consumerGone_def)
  let ?s = "s\<lparr>gr_Pipe := (gr_Pipe s)\<lparr>pl_Updates := None, pl_Admission := SetAdmissionControlHandler opts c m,
    pl_Applied := pl_Applied (gr_Pipe s) @ [c]\<rparr>\<rparr>"
  have "gstep env opts s ?s"
    using assms m by (intro gstep.pipe pstep.consume) (auto simp: consumerGone_def)
  moreover obtain t where "(gstep env opts)\<^sup>*\<^sup>* ?s t" "allDone t" using finish_held [of ?s env opts] assms by auto
  ultimately show ?thesis by (meson converse_rtranclp_into_rtranclp)
qed

section \<open>Properties\<close>

text \<open>
  C13: the gateway can end after an interruption unless it hangs: in every state that the group
  reaches, once it has been interrupted, all actors can return exactly when it is not the case that
  the consumer is gone while one configuration fills the channel and the forwarder holds another.
\<close>

theorem shutdown_exact:
  assumes "(gstep env opts)\<^sup>*\<^sup>* (initGroup fl) s" and "pl_Canceled (gr_Pipe s)"
  shows "(\<exists>t. (gstep env opts)\<^sup>*\<^sup>* s t \<and> allDone t) \<longleftrightarrow> \<not> hung s"
proof
  assume "\<exists>t. (gstep env opts)\<^sup>*\<^sup>* s t \<and> allDone t"
  then obtain t where t: "(gstep env opts)\<^sup>*\<^sup>* s t" "allDone t" by blast
  have "pl_ForwarderDone (gr_Pipe t) \<longrightarrow> pl_Held (gr_Pipe t) = None"
    using gstep_returned [OF rtranclp_trans [OF assms(1) t(1)]] .
  with t(2) have "\<not> hung t" by (simp add: hung_def allDone_def)
  with hung_forever [OF t(1)] show "\<not> hung s" by blast
next
  assume "\<not> hung s"
  then consider "pl_Held (gr_Pipe s) = None" | "pl_Updates (gr_Pipe s) = None"
    | c where "pl_Updates (gr_Pipe s) = Some c" "\<not> consumerGone s"
    by (auto simp: hung_def)
  then show "\<exists>t. (gstep env opts)\<^sup>*\<^sup>* s t \<and> allDone t"
    by cases (use assms(2) finish finish_held finish_full in blast)+
qed

text \<open>Two configurations one after the other fill the channel and the hands of the forwarder.\<close>

lemma pipe_steps:
  "(pstep env opts)\<^sup>*\<^sup>* (gr_Pipe s) p \<Longrightarrow> \<not> gr_ConsumerDone s \<Longrightarrow> (gstep env opts)\<^sup>*\<^sup>* s (s\<lparr>gr_Pipe := p\<rparr>)"
proof (induction rule: rtranclp_induct)
  case (step p q)
  then have "gstep env opts (s\<lparr>gr_Pipe := p\<rparr>) (s\<lparr>gr_Pipe := p\<rparr>\<lparr>gr_Pipe := q\<rparr>)"
    by (intro gstep.pipe) simp_all
  with step show ?case by simp
qed simp

lemma two_updates:
  assumes "loadConfig env f1 = Inr (c1, h1)" and "loadConfig env f2 = Inr (c2, h2)" and "h1 \<noteq> 0" and "h1 \<noteq> h2"
  shows "\<exists>p. (pstep env opts)\<^sup>*\<^sup>* (initPipeline f1) p \<and> pl_Canceled p \<and> pl_Updates p = Some c1 \<and> pl_Held p = Some c2"
proof -
  obtain w1 where w1: "refresh env 0 f1 initWatcher = (w1, Some c1)" "cw_lastLoadedConfigHash w1 = h1" "cw_refreshCounter w1 = 1"
    using assms by (simp add: refresh_def initWatcher_def)
  obtain w2 where w2: "refresh env 0 f2 w1 = (w2, Some c2)"
    using assms w1 by (simp add: refresh_def)
  let ?p1 = "watcherTurn env (refresh env 0 f1 initWatcher) (initPipeline f1)"
  let ?p2 = "?p1\<lparr>pl_Offer := None, pl_Held := Some c1\<rparr>"
  let ?p3 = "?p2\<lparr>pl_Held := None, pl_Updates := Some c1\<rparr>"
  let ?p4 = "?p3\<lparr>pl_File := f2\<rparr>"
  let ?p5 = "watcherTurn env (runBranch env 0 f2 Tick w1) ?p4"
  let ?p6 = "?p5\<lparr>pl_Offer := None, pl_Held := Some c2\<rparr>"
  note [simp] = watcherTurn_def w1 w2 initPipeline_def
  have "pstep env opts (initPipeline f1) ?p1"
    using pstep.first_refresh [of "initPipeline f1" env opts 0] by (simp add: initWatcher_def)
  moreover have "pstep env opts ?p1 ?p2" by (rule pstep.receive) simp_all
  moreover have "pstep env opts ?p2 ?p3" by (rule pstep.forward) simp_all
  moreover have "pstep env opts ?p3 ?p4" by (rule pstep.file_changes)
  moreover have "pstep env opts ?p4 ?p5"
    using pstep.turn [of ?p4 env opts 0 Tick] by simp
  moreover have "pstep env opts ?p5 ?p6" by (rule pstep.receive) simp_all
  moreover have "pstep env opts ?p6 (?p6\<lparr>pl_Canceled := True\<rparr>)" by (rule pstep.cancel)
  ultimately have "(pstep env opts)\<^sup>*\<^sup>* (initPipeline f1) (?p6\<lparr>pl_Canceled := True\<rparr>)"
    by (meson converse_rtranclp_into_rtranclp rtranclp.rtrancl_refl)
  moreover have "pl_Canceled (?p6\<lparr>pl_Canceled := True\<rparr>) \<and> pl_Updates (?p6\<lparr>pl_Canceled := True\<rparr>) = Some c1 \<and>
      pl_Held (?p6\<lparr>pl_Canceled := True\<rparr>) = Some c2"
    by simp
  ultimately show ?thesis by blast
qed

text \<open>
  C37: the process can hang.  Whenever the configuration file can have two different contents,
  there is a run that ends in a state where the process has been interrupted and never
  terminates: the consumer leaves while two configurations are on their way.
\<close>

theorem shutdown_can_hang:
  assumes "loadConfig env f1 = Inr (c1, h1)" and "loadConfig env f2 = Inr (c2, h2)" and "h1 \<noteq> 0" and "h1 \<noteq> h2"
  shows "\<exists>s. (gstep env opts)\<^sup>*\<^sup>* (initGroup f1) s \<and> pl_Canceled (gr_Pipe s) \<and> \<not> (\<exists>t. (gstep env opts)\<^sup>*\<^sup>* s t \<and> allDone t)"
proof -
  obtain p where p: "(pstep env opts)\<^sup>*\<^sup>* (initPipeline f1) p" "pl_Canceled p" "pl_Updates p = Some c1" "pl_Held p = Some c2"
    using two_updates [OF assms] by blast
  let ?s = "(initGroup f1)\<lparr>gr_Pipe := p\<rparr>\<lparr>gr_ConsumerDone := True\<rparr>"
  have "(gstep env opts)\<^sup>*\<^sup>* (initGroup f1) ((initGroup f1)\<lparr>gr_Pipe := p\<rparr>)"
    using pipe_steps [of env opts "initGroup f1" p] p(1) by (simp add: initGroup_def)
  moreover have "gstep env opts ((initGroup f1)\<lparr>gr_Pipe := p\<rparr>) ?s"
    using p(2) by (intro gstep.consumer_canceled) simp
  ultimately have run: "(gstep env opts)\<^sup>*\<^sup>* (initGroup f1) ?s" by simp
  have "hung ?s" using p by (simp add: hung_def consumerGone_def)
  moreover have "\<not> hung t" if "(gstep env opts)\<^sup>*\<^sup>* ?s t" "allDone t" for t
    using gstep_returned [OF rtranclp_trans [OF run that(1)]] that(2) by (simp add: hung_def allDone_def)
  ultimately have "\<not> (\<exists>t. (gstep env opts)\<^sup>*\<^sup>* ?s t \<and> allDone t)"
    using hung_forever by blast
  with run p(2) show ?thesis by (intro exI [of _ ?s]) simp
qed

theorem shutdown_can_hang_witness:
  "\<exists>s. (gstep exEnv exOptions)\<^sup>*\<^sup>* (initGroup (Inr ''t1'')) s \<and> pl_Canceled (gr_Pipe s) \<and>
     \<not> (\<exists>t. (gstep exEnv exOptions)\<^sup>*\<^sup>* s t \<and> allDone t)"
proof (rule shutdown_can_hang [OF exEnv_load])
  have "ParseConfig exEnv ''t2'' = Inr [''t2'']" by (simp add: ParseConfig_def exEnv_def)
  then show "loadConfig exEnv (Inr ''t2'') = Inr ([''t2''], 2)" by (simp add: loadConfig_def exEnv_hash)
qed simp_all

theorem shutdown_exact_witness:
  "let s = (initGroup (Inr ''t1''))\<lparr>gr_Pipe := (initPipeline (Inr ''t1''))\<lparr>pl_Canceled := True\<rparr>\<rparr>
   in \<exists>t. (gstep exEnv exOptions)\<^sup>*\<^sup>* s t \<and> allDone t"
proof -
  let ?s = "(initGroup (Inr ''t1''))\<lparr>gr_Pipe := (initPipeline (Inr ''t1''))\<lparr>pl_Canceled := True\<rparr>\<rparr>"
  have "gstep exEnv exOptions (initGroup (Inr ''t1'')) ?s"
    by (rule gstep.pipe) (simp_all add: initGroup_def pstep.cancel)
  then have "(\<exists>t. (gstep exEnv exOptions)\<^sup>*\<^sup>* ?s t \<and> allDone t) \<longleftrightarrow> \<not> hung ?s"
    by (intro shutdown_exact [where fl = "Inr ''t1''"]) simp_all
  then show ?thesis by (simp add: hung_def initPipeline_def)
qed

end
