(* ===== verification/Controller_Manager.thy ===== *)
theory Controller_Manager
  imports Tenant_Controller Ingester_Controller Compactor_Workload Store_Workload Router_Workload
    Query_Workload Frontend_Workload Storage_Workload Gateway_Workload Ruler_Workload
begin

text \<open>
  \<^verbatim>\<open>cmd/controller-manager/app/controllers.go\<close> and the functions \<^verbatim>\<open>SetupWithManager\<close> of
  \<^verbatim>\<open>pkg/controllers\<close>: which objects each controller is responsible for, on which other objects it
  listens, and through which function an event there becomes requests.  What the builder of the
  controller runtime makes of such a declaration is in \<open>requestsOf\<close>, after its documentation: the
  object itself for its own kind, the controlling owner for a kind it owns, the given function on the
  old and on the new object for a kind it watches.
\<close>

section \<open>Objects and events\<close>

datatype kind = KGateway | KQueryFrontend | KQuery | KRouter | KStore | KCompactor | KIngester | KRuler | KTenant
  | KStorage | KService | KStatefulSet | KDeployment | KKubeService | KConfigMap | KSecret | KPrometheusRule

datatype wobject =
    WGateway gateway | WQueryFrontend query_frontend | WQuery query | WRouter router | WStore store
  | WCompactor compactor | WIngester ingester | WRuler ruler | WTenant tenant | WStorage storage | WService service
  | WStatefulSet stateful_set | WDeployment deployment | WKubeService kube_service | WConfigMap config_map
  | WSecret secret | WPrometheusRule prom_rule

primrec kindOf :: "wobject \<Rightarrow> kind" where
  "kindOf (WGateway _) = KGateway"
| "kindOf (WQueryFrontend _) = KQueryFrontend"
| "kindOf (WQuery _) = KQuery"
| "kindOf (WRouter _) = KRouter"
| "kindOf (WStore _) = KStore"
| "kindOf (WCompactor _) = KCompactor"
| "kindOf (WIngester _) = KIngester"
| "kindOf (WRuler _) = KRuler"
| "kindOf (WTenant _) = KTenant"
| "kindOf (WStorage _) = KStorage"
| "kindOf (WService _) = KService"
| "kindOf (WStatefulSet _) = KStatefulSet"
| "kindOf (WDeployment _) = KDeployment"
| "kindOf (WKubeService _) = KKubeService"
| "kindOf (WConfigMap _) = KConfigMap"
| "kindOf (WSecret _) = KSecret"
| "kindOf (WPrometheusRule _) = KPrometheusRule"

primrec wmeta :: "wobject \<Rightarrow> object_meta" where
  "wmeta (WGateway ob) = object_meta.truncate ob"
| "wmeta (WQueryFrontend ob) = object_meta.truncate ob"
| "wmeta (WQuery ob) = object_meta.truncate ob"
| "wmeta (WRouter ob) = object_meta.truncate ob"
| "wmeta (WStore ob) = object_meta.truncate ob"
| "wmeta (WCompactor ob) = object_meta.truncate ob"
| "wmeta (WIngester ob) = object_meta.truncate ob"
| "wmeta (WRuler ob) = object_meta.truncate ob"
| "wmeta (WTenant ob) = object_meta.truncate ob"
| "wmeta (WStorage ob) = object_meta.truncate ob"
| "wmeta (WService ob) = object_meta.truncate ob"
| "wmeta (WStatefulSet ob) = object_meta.truncate ob"
| "wmeta (WDeployment ob) = object_meta.truncate ob"
| "wmeta (WKubeService ob) = object_meta.truncate ob"
| "wmeta (WConfigMap ob) = object_meta.truncate ob"
| "wmeta (WSecret ob) = object_meta.truncate ob"
| "wmeta (WPrometheusRule ob) = object_meta.truncate ob"

datatype event_kind = OnCreate | OnUpdate | OnDelete

text \<open>An event carries the object, and for an update the object as it was before.\<close>

record kube_event =
  ev_Kind :: event_kind
  ev_Old :: "wobject option"
  ev_Object :: wobject

section \<open>Declaring a controller\<close>

record 's watch =
  wt_Kind :: kind
  wt_Map :: "wobject \<Rightarrow> ('s, nsname list) act"
  wt_Updates :: bool

record 's controller =
  ct_For :: kind
  ct_Watches :: "'s watch list"
  ct_Owned :: "kind list"

text \<open>\<^verbatim>\<open>Watches(&Kind{}, handler.EnqueueRequestsFromMapFunc(fn))\<close>, and with a predicate for updates.\<close>

definition Watches :: "kind \<Rightarrow> (wobject \<Rightarrow> ('s, nsname list) act) \<Rightarrow> 's watch" where
  "Watches k fn = \<lparr>wt_Kind = k, wt_Map = fn, wt_Updates = True\<rparr>"

definition noUpdates :: "'s watch \<Rightarrow> 's watch" where
  "noUpdates w = w\<lparr>wt_Updates := False\<rparr>"

definition GatewayReconciler_SetupWithManager :: "'s client \<Rightarrow> 's controller" where
  "GatewayReconciler_SetupWithManager cl =
     (let byService = (\<lambda>ob. GatewayReconciler_mapFuncBySelectorFunc cl ManagedLabelByService (wmeta ob));
          bySame = (\<lambda>ob. GatewayReconciler_mapFuncBySelectorFunc cl ManagedLabelBySameService (wmeta ob)) in
      \<lparr>ct_For = KGateway,
       ct_Watches = [Watches KService byService, Watches KQuery bySame, Watches KQueryFrontend bySame,
         Watches KRouter bySame, noUpdates (Watches KTenant bySame)],
       ct_Owned = [KDeployment, KKubeService, KConfigMap]\<rparr>)"

definition QueryFrontendReconciler_SetupWithManager :: "'s client \<Rightarrow> 's controller" where
  "QueryFrontendReconciler_SetupWithManager cl =
     (let byService = (\<lambda>ob. QueryFrontendReconciler_mapFuncBySelectorFunc cl ManagedLabelByService (wmeta ob));
          bySame = (\<lambda>ob. QueryFrontendReconciler_mapFuncBySelectorFunc cl ManagedLabelBySameService (wmeta ob)) in
      \<lparr>ct_For = KQueryFrontend,
       ct_Watches = [Watches KService byService, Watches KQuery bySame, Watches KTenant bySame],
       ct_Owned = [KDeployment, KKubeService, KConfigMap]\<rparr>)"

definition QueryReconciler_SetupWithManager :: "'s client \<Rightarrow> 's controller" where
  "QueryReconciler_SetupWithManager cl =
     (let byService = (\<lambda>ob. QueryReconciler_mapFuncBySelectorFunc cl ManagedLabelByService (wmeta ob));
          bySame = (\<lambda>ob. QueryReconciler_mapFuncBySelectorFunc cl ManagedLabelBySameService (wmeta ob)) in
      \<lparr>ct_For = KQuery,
       ct_Watches = [Watches KService byService, Watches KIngester bySame, Watches KStore bySame, Watches KRuler bySame],
       ct_Owned = [KDeployment, KKubeService, KConfigMap]\<rparr>)"

definition RouterReconciler_SetupWithManager :: "'s client \<Rightarrow> 's controller" where
  "RouterReconciler_SetupWithManager cl =
     (let byService = (\<lambda>ob. RouterReconciler_mapFuncBySelectorFunc cl ManagedLabelByService (wmeta ob));
          bySame = (\<lambda>ob. RouterReconciler_mapFuncBySelectorFunc cl ManagedLabelBySameService (wmeta ob)) in
      \<lparr>ct_For = KRouter,
       ct_Watches = [Watches KService byService, Watches KIngester bySame],
       ct_Owned = [KDeployment, KKubeService, KConfigMap]\<rparr>)"

definition StoreReconciler_SetupWithManager :: "'s client \<Rightarrow> 's controller" where
  "StoreReconciler_SetupWithManager cl =
     \<lparr>ct_For = KStore,
      ct_Watches = [Watches KService (\<lambda>ob. StoreReconciler_mapFuncBySelectorFunc cl ManagedLabelByService (wmeta ob)),
        Watches KStorage (\<lambda>ob. StoreReconciler_mapFuncBySelectorFunc cl ManagedLabelByStorage (wmeta ob))],
      ct_Owned = [KStatefulSet, KKubeService]\<rparr>"

definition CompactorReconciler_SetupWithManager :: "'s client \<Rightarrow> 's controller" where
  "CompactorReconciler_SetupWithManager cl =
     \<lparr>ct_For = KCompactor,
      ct_Watches = [Watches KService (\<lambda>ob. CompactorReconciler_mapFuncBySelectorFunc cl ManagedLabelByService (wmeta ob)),
        Watches KStorage (\<lambda>ob. CompactorReconciler_mapFuncBySelectorFunc cl ManagedLabelByStorage (wmeta ob))],
      ct_Owned = [KStatefulSet, KKubeService]\<rparr>"

definition IngesterReconciler_SetupWithManager :: "'s client \<Rightarrow> 's controller" where
  "IngesterReconciler_SetupWithManager cl =
     \<lparr>ct_For = KIngester,
      ct_Watches = [Watches KService (\<lambda>ob. IngesterReconciler_mapFuncBySelectorFunc cl ManagedLabelByService (wmeta ob)),
        Watches KStorage (\<lambda>ob. IngesterReconciler_mapFuncBySelectorFunc cl ManagedLabelByStorage (wmeta ob))],
      ct_Owned = [KStatefulSet, KKubeService]\<rparr>"

definition RulerReconciler_SetupWithManager :: "'s rule_lib \<Rightarrow> wlib \<Rightarrow> merge_lib \<Rightarrow> 's client \<Rightarrow> 's controller" where
  "RulerReconciler_SetupWithManager lib w mg cl =
     (let bySame = (\<lambda>ob. RulerReconciler_mapFuncBySelectorFunc cl ManagedLabelBySameService (wmeta ob)) in
      \<lparr>ct_For = KRuler,
       ct_Watches = [Watches KPrometheusRule (\<lambda>ob. mapRuleToRulerFunc lib w mg cl (wmeta ob)),
         Watches KService (\<lambda>ob. mapToRulerFunc cl (wmeta ob)),
         Watches KQuery bySame, Watches KQueryFrontend bySame, Watches KRouter bySame],
       ct_Owned = [KStatefulSet, KKubeService, KConfigMap]\<rparr>)"

text \<open>The type switch of \<^verbatim>\<open>mapToTenantbyObjectSpecFunc\<close>: objects of other kinds give no request.\<close>

definition tenantRequestsBySpec :: "'s client \<Rightarrow> wobject \<Rightarrow> ('s, nsname list) act" where
  "tenantRequestsBySpec cl ob = (case ob of
       WCompactor c \<Rightarrow> mapToTenantbyObjectSpecFunc cl (OnCompactor c)
     | WIngester i \<Rightarrow> mapToTenantbyObjectSpecFunc cl (OnIngester i)
     | WRuler r \<Rightarrow> mapToTenantbyObjectSpecFunc cl (OnRuler r)
     | _ \<Rightarrow> ret [])"

definition tenantRequestsByService :: "'s client \<Rightarrow> wobject \<Rightarrow> ('s, nsname list) act" where
  "tenantRequestsByService cl ob = (case ob of WService sv \<Rightarrow> mapToTenantByService cl sv | _ \<Rightarrow> failE Panic)"

definition TenantReconciler_SetupWithManager :: "'s client \<Rightarrow> 's controller" where
  "TenantReconciler_SetupWithManager cl =
     \<lparr>ct_For = KTenant,
      ct_Watches = [Watches KIngester (tenantRequestsBySpec cl), Watches KCompactor (tenantRequestsBySpec cl),
        Watches KStore (\<lambda>_. mapToTenantByStore cl), Watches KService (tenantRequestsByService cl),
        Watches KRuler (tenantRequestsBySpec cl)],
      ct_Owned = [KRuler]\<rparr>"

definition StorageReconciler_SetupWithManager :: "'s client \<Rightarrow> 's controller" where
  "StorageReconciler_SetupWithManager cl =
     \<lparr>ct_For = KStorage,
      ct_Watches = [Watches KSecret (\<lambda>ob. mapToStoragebySecretRefFunc cl (wmeta ob))],
      ct_Owned = [KDeployment, KKubeService, KSecret]\<rparr>"

text \<open>\<^verbatim>\<open>addControllers\<close>: the first controller that cannot be registered ends the start of the process.\<close>

definition addControllers ::
  "('s controller \<Rightarrow> ('m, unit) act) \<Rightarrow> 's rule_lib \<Rightarrow> wlib \<Rightarrow> merge_lib \<Rightarrow> 's client \<Rightarrow> ('m, unit) act" where
  "addControllers register lib w mg cl = forE
     [GatewayReconciler_SetupWithManager cl, QueryFrontendReconciler_SetupWithManager cl, QueryReconciler_SetupWithManager cl,
      RouterReconciler_SetupWithManager cl, StoreReconciler_SetupWithManager cl, CompactorReconciler_SetupWithManager cl,
      IngesterReconciler_SetupWithManager cl, RulerReconciler_SetupWithManager lib w mg cl,
      TenantReconciler_SetupWithManager cl, StorageReconciler_SetupWithManager cl] register"

section \<open>From events to requests\<close>

primrec kindName :: "kind \<Rightarrow> string" where
  "kindName KGateway = ''Gateway''"
| "kindName KQueryFrontend = ''QueryFrontend''"
| "kindName KQuery = ''Query''"
| "kindName KRouter = ''Router''"
| "kindName KStore = ''Store''"
| "kindName KCompactor = ''Compactor''"
| "kindName KIngester = ''Ingester''"
| "kindName KRuler = ''Ruler''"
| "kindName KTenant = ''Tenant''"
| "kindName KStorage = ''Storage''"
| "kindName KService = ''Service''"
| "kindName KStatefulSet = ''StatefulSet''"
| "kindName KDeployment = ''Deployment''"
| "kindName KKubeService = ''Service''"
| "kindName KConfigMap = ''ConfigMap''"
| "kindName KSecret = ''Secret''"
| "kindName KPrometheusRule = ''PrometheusRule''"

text \<open>Tenants are the only cluster-wide objects among those the controllers are responsible for.\<close>

definition ownerRequests :: "kind \<Rightarrow> object_meta \<Rightarrow> nsname list" where
  "ownerRequests k ob = map (\<lambda>r. \<lparr>nn_Namespace = (if k = KTenant then [] else om_Namespace ob), nn_Name = or_Name r\<rparr>)
     (filter (\<lambda>r. or_Controller r = Some True \<and> or_Kind r = kindName k \<and> or_APIVersion r = ''monitoring.whizard.io/v1alpha1'')
        (om_OwnerReferences ob))"

definition eventObjects :: "kube_event \<Rightarrow> wobject list" where
  "eventObjects ev = (case ev_Old ev of None \<Rightarrow> [] | Some ob \<Rightarrow> [ob]) @ [ev_Object ev]"

definition watchRequests :: "'s watch \<Rightarrow> kube_event \<Rightarrow> ('s, nsname list) act" where
  "watchRequests w ev =
     (if wt_Kind w = kindOf (ev_Object ev) \<and> (ev_Kind ev = OnUpdate \<longrightarrow> wt_Updates w)
      then foldE (\<lambda>reqs ob. bindE (wt_Map w ob) (\<lambda>rs. ret (reqs @ rs))) [] (eventObjects ev)
      else ret [])"

definition requestsOf :: "'s controller \<Rightarrow> kube_event \<Rightarrow> ('s, nsname list) act" where
  "requestsOf c ev =
     bindE (foldE (\<lambda>reqs w. bindE (watchRequests w ev) (\<lambda>rs. ret (reqs @ rs))) [] (ct_Watches c)) (\<lambda>reqs.
       ret ((if kindOf (ev_Object ev) = ct_For c then [objectKey (wmeta (ev_Object ev))] else []) @ reqs @
         (if kindOf (ev_Object ev) \<in> set (ct_Owned c)
          then concat (map (\<lambda>ob. ownerRequests (ct_For c) (wmeta ob)) (eventObjects ev)) else [])))"

text \<open>A controller notices an event for an object when the event asks it to reconcile the object.\<close>

definition notices :: "'s controller \<Rightarrow> kube_event \<Rightarrow> 's \<Rightarrow> nsname \<Rightarrow> bool" where
  "notices c ev s key \<longleftrightarrow> (case requestsOf c ev s of (Inr reqs, _) \<Rightarrow> key \<in> set reqs | _ \<Rightarrow> False)"

text \<open>What is listed of a kind, and the event of a change from one stored object to another.\<close>

definition listsAs :: "('s, 'a object_meta_scheme) kind_client \<Rightarrow> 'a object_meta_scheme list \<Rightarrow> 's \<Rightarrow> bool" where
  "listsAs k xs s \<longleftrightarrow> (\<forall>opts. kList k opts s = (Inr (filter (matchesOpts opts) xs), s))"

fun changeEvent :: "wobject option \<Rightarrow> wobject option \<Rightarrow> kube_event option" where
  "changeEvent None None = None"
| "changeEvent None (Some ob) = Some \<lparr>ev_Kind = OnCreate, ev_Old = None, ev_Object = ob\<rparr>"
| "changeEvent (Some old) (Some ob) = Some \<lparr>ev_Kind = OnUpdate, ev_Old = Some old, ev_Object = ob\<rparr>"
| "changeEvent (Some old) None = Some \<lparr>ev_Kind = OnDelete, ev_Old = None, ev_Object = old\<rparr>"

fun storedOpt :: "(nsname \<times> 'o) option \<Rightarrow> 'o kstore" where
  "storedOpt None = []"
| "storedOpt (Some p) = [p]"

text \<open>The objects of a kind change one at a time, each change with its event.\<close>

inductive changed :: "('o \<Rightarrow> wobject) \<Rightarrow> kube_event set \<Rightarrow> 'o kstore \<Rightarrow> 'o kstore \<Rightarrow> bool" for w evs xs where
  same: "changed w evs xs xs"
| step: "changed w evs xs (pre @ storedOpt old @ post) \<Longrightarrow>
    changeEvent (map_option (w \<circ> snd) old) (map_option (w \<circ> snd) new) = Some ev \<Longrightarrow> ev \<in> evs \<Longrightarrow>
    changed w evs xs (pre @ storedOpt new @ post)"

section \<open>Watches by label\<close>

lemma foldE_collect:
  assumes "\<And>x. x \<in> set xs \<Longrightarrow> f x s = (Inr (g x), s)"
  shows "foldE (\<lambda>acc x. bindE (f x) (\<lambda>rs. ret (acc @ rs))) acc xs s = (Inr (acc @ concat (map g xs)), s)"
  using assms by (induction xs arbitrary: acc) (simp_all add: bindE_app)

lemma mapFunc_listsAs:
  fixes k :: "('s, 'a object_meta_scheme) kind_client"
  assumes "listsAs k xs s"
  shows "mapFuncBySelectorFunc k fn ob s = (Inr (map objectKey (filter (\<lambda>i. fn ob \<subseteq>\<^sub>m om_Labels i) xs)), s)"
proof -
  have "matchesOpts \<lparr>lo_Namespace = [], lo_Labels = fn ob\<rparr> = (\<lambda>i :: 'a object_meta_scheme. fn ob \<subseteq>\<^sub>m om_Labels i)"
    by (rule ext) (simp add: matchesOpts_def)
  then show ?thesis
    using assms by (simp add: mapFuncBySelectorFunc_def bindE_app listOrEmpty_def handleE_case listsAs_def)
qed

lemma kindOk_listsAs: "kindOk k V sel upd keep \<Longrightarrow> listsAs k (map snd (sel (V s))) s"
  by (simp add: listsAs_def kindOk_list)

lemma watchRequests_other: "wt_Kind w \<noteq> kindOf (ev_Object ev) \<Longrightarrow> watchRequests w ev = ret []"
  by (simp add: watchRequests_def)

lemma foldE_watches:
  "foldE (\<lambda>reqs w. bindE (watchRequests w ev) (\<lambda>rs. ret (reqs @ rs))) acc ws =
   foldE (\<lambda>reqs w. bindE (watchRequests w ev) (\<lambda>rs. ret (reqs @ rs))) acc (filter (\<lambda>w. wt_Kind w = kindOf (ev_Object ev)) ws)"
  by (induction ws arbitrary: acc) (auto simp: watchRequests_other bindE_def fun_eq_iff split: prod.split sum.split)

text \<open>
  The interface between a controller and the runtime, for one watch: events on objects of the kind
  \<open>knd\<close> go through the selector \<open>fn\<close> and no other watch of the controller.
\<close>

locale selector_watch =
  fixes c :: "'s controller" and k :: "('s, 'a object_meta_scheme) kind_client"
    and knd :: kind and fn :: "object_meta \<Rightarrow> labels_map"
  assumes watch: "filter (\<lambda>w. wt_Kind w = knd) (ct_Watches c) = [Watches knd (\<lambda>ob. mapFuncBySelectorFunc k fn (wmeta ob))]"
begin

lemma requests:
  assumes "listsAs k xs s" and "kindOf (ev_Object ev) = knd"
  shows "\<exists>reqs. requestsOf c ev s = (Inr reqs, s) \<and>
    (\<Union>ob \<in> set (eventObjects ev). objectKey ` {i \<in> set xs. fn (wmeta ob) \<subseteq>\<^sub>m om_Labels i}) \<subseteq> set reqs"
proof -
  let ?w = "Watches knd (\<lambda>ob. mapFuncBySelectorFunc k fn (wmeta ob))"
  let ?reqs = "\<lambda>ob. map objectKey (filter (\<lambda>i. fn (wmeta ob) \<subseteq>\<^sub>m om_Labels i) xs)"
  have map: "wt_Map ?w ob s = (Inr (?reqs ob), s)" for ob
    using mapFunc_listsAs [OF assms(1)] by (simp add: Watches_def)
  have "foldE (\<lambda>acc ob. bindE (wt_Map ?w ob) (\<lambda>rs. ret (acc @ rs))) [] (eventObjects ev) s =
      (Inr ([] @ concat (map ?reqs (eventObjects ev))), s)"
    by (rule foldE_collect) (rule map)
  then have "watchRequests ?w ev s = (Inr (concat (map ?reqs (eventObjects ev))), s)"
    unfolding watchRequests_def by (simp add: assms(2) Watches_def)
  then show ?thesis
    unfolding requestsOf_def by (subst foldE_watches) (simp add: assms(2) watch bindE_app; blast)
qed

lemma noticed:
  assumes "listsAs k xs s" and "kindOf (ev_Object ev) = knd" and "ob \<in> set (eventObjects ev)"
    and "i \<in> set xs" and "fn (wmeta ob) \<subseteq>\<^sub>m om_Labels i"
  shows "notices c ev s (objectKey i)"
proof -
  obtain reqs where "requestsOf c ev s = (Inr reqs, s)"
    "(\<Union>ob \<in> set (eventObjects ev). objectKey ` {i \<in> set xs. fn (wmeta ob) \<subseteq>\<^sub>m om_Labels i}) \<subseteq> set reqs"
    using requests [OF assms(1,2)] by blast
  with assms(3-5) show ?thesis by (auto simp: notices_def)
qed

end

lemmas setup_defs = Let_def Watches_def noUpdates_def
  GatewayReconciler_SetupWithManager_def QueryFrontendReconciler_SetupWithManager_def
  QueryReconciler_SetupWithManager_def RouterReconciler_SetupWithManager_def StoreReconciler_SetupWithManager_def
  CompactorReconciler_SetupWithManager_def IngesterReconciler_SetupWithManager_def RulerReconciler_SetupWithManager_def
  TenantReconciler_SetupWithManager_def StorageReconciler_SetupWithManager_def
  GatewayReconciler_mapFuncBySelectorFunc_def QueryFrontendReconciler_mapFuncBySelectorFunc_def
  QueryReconciler_mapFuncBySelectorFunc_def RouterReconciler_mapFuncBySelectorFunc_def StoreReconciler_mapFuncBySelectorFunc_def
  CompactorReconciler_mapFuncBySelectorFunc_def IngesterReconciler_mapFuncBySelectorFunc_def
  RulerReconciler_mapFuncBySelectorFunc_def mapToRulerFunc_def

interpretation gatewayOnService: selector_watch "GatewayReconciler_SetupWithManager cl" "gateways cl" KService ManagedLabelByService for cl
  by unfold_locales (simp add: setup_defs)

interpretation frontendOnService: selector_watch "QueryFrontendReconciler_SetupWithManager cl" "queryFrontends cl" KService ManagedLabelByService for cl
  by unfold_locales (simp add: setup_defs)

interpretation queryOnService: selector_watch "QueryReconciler_SetupWithManager cl" "queries cl" KService ManagedLabelByService for cl
  by unfold_locales (simp add: setup_defs)

interpretation routerOnService: selector_watch "RouterReconciler_SetupWithManager cl" "routers cl" KService ManagedLabelByService for cl
  by unfold_locales (simp add: setup_defs)

interpretation storeOnService: selector_watch "StoreReconciler_SetupWithManager cl" "stores cl" KService ManagedLabelByService for cl
  by unfold_locales (simp add: setup_defs)

interpretation compactorOnService: selector_watch "CompactorReconciler_SetupWithManager cl" "compactors cl" KService ManagedLabelByService for cl
  by unfold_locales (simp add: setup_defs)

interpretation ingesterOnService: selector_watch "IngesterReconciler_SetupWithManager cl" "ingesters cl" KService ManagedLabelByService for cl
  by unfold_locales (simp add: setup_defs)

interpretation rulerOnService: selector_watch "RulerReconciler_SetupWithManager lib w mg cl" "rulers cl" KService ManagedLabelByService for lib w mg cl
  by unfold_locales (simp add: setup_defs)

interpretation queryOnIngester: selector_watch "QueryReconciler_SetupWithManager cl" "queries cl" KIngester ManagedLabelBySameService for cl
  by unfold_locales (simp add: setup_defs)

interpretation queryOnStore: selector_watch "QueryReconciler_SetupWithManager cl" "queries cl" KStore ManagedLabelBySameService for cl
  by unfold_locales (simp add: setup_defs)

interpretation queryOnRuler: selector_watch "QueryReconciler_SetupWithManager cl" "queries cl" KRuler ManagedLabelBySameService for cl
  by unfold_locales (simp add: setup_defs)

interpretation routerOnIngester: selector_watch "RouterReconciler_SetupWithManager cl" "routers cl" KIngester ManagedLabelBySameService for cl
  by unfold_locales (simp add: setup_defs)

section \<open>No change goes unnoticed\<close>

text \<open>
  C18: a change of a service reaches every component of it: an event on the service asks the eight
  component controllers to reconcile each of their objects that carries the label of the service.
\<close>

theorem service_change_noticed:
  assumes ev: "svc \<in> set (eventObjects ev)" "kindOf (ev_Object ev) = KService"
    and lists: "listsAs (gateways cl) gws s" "listsAs (queryFrontends cl) qfs s" "listsAs (queries cl) qus s"
      "listsAs (routers cl) ros s" "listsAs (stores cl) sts s" "listsAs (compactors cl) cos s"
      "listsAs (ingesters cl) igs s" "listsAs (rulers cl) rus s"
  defines "mine \<equiv> \<lambda>ls :: labels_map. ManagedLabelByService (wmeta svc) \<subseteq>\<^sub>m ls"
  shows "(\<forall>ob \<in> set gws. mine (om_Labels ob) \<longrightarrow> notices (GatewayReconciler_SetupWithManager cl) ev s (objectKey ob)) \<and>
    (\<forall>ob \<in> set qfs. mine (om_Labels ob) \<longrightarrow> notices (QueryFrontendReconciler_SetupWithManager cl) ev s (objectKey ob)) \<and>
    (\<forall>ob \<in> set qus. mine (om_Labels ob) \<longrightarrow> notices (QueryReconciler_SetupWithManager cl) ev s (objectKey ob)) \<and>
    (\<forall>ob \<in> set ros. mine (om_Labels ob) \<longrightarrow> notices (RouterReconciler_SetupWithManager cl) ev s (objectKey ob)) \<and>
    (\<forall>ob \<in> set sts. mine (om_Labels ob) \<longrightarrow> notices (StoreReconciler_SetupWithManager cl) ev s (objectKey ob)) \<and>
    (\<forall>ob \<in> set cos. mine (om_Labels ob) \<longrightarrow> notices (CompactorReconciler_SetupWithManager cl) ev s (objectKey ob)) \<and>
    (\<forall>ob \<in> set igs. mine (om_Labels ob) \<longrightarrow> notices (IngesterReconciler_SetupWithManager cl) ev s (objectKey ob)) \<and>
    (\<forall>ob \<in> set rus. mine (om_Labels ob) \<longrightarrow> notices (RulerReconciler_SetupWithManager lib w mg cl) ev s (objectKey ob))"
  unfolding mine_def
  using gatewayOnService.noticed [OF lists(1) ev(2,1)] frontendOnService.noticed [OF lists(2) ev(2,1)]
    queryOnService.noticed [OF lists(3) ev(2,1)] routerOnService.noticed [OF lists(4) ev(2,1)]
    storeOnService.noticed [OF lists(5) ev(2,1)] compactorOnService.noticed [OF lists(6) ev(2,1)]
    ingesterOnService.noticed [OF lists(7) ev(2,1)] rulerOnService.noticed [OF lists(8) ev(2,1)]
  by (intro conjI ballI impI)

lemma changeEvent_objects:
  assumes "changeEvent old new = Some ev" and "old = Some ob \<or> new = Some ob"
  shows "ob \<in> set (eventObjects ev)"
  using assms by (induction old new rule: changeEvent.induct) (auto simp: eventObjects_def)

lemma changeEvent_kind:
  assumes "changeEvent (map_option f old) (map_option f new) = Some ev" and "\<And>p. kindOf (f p) = knd"
  shows "kindOf (ev_Object ev) = knd"
  using assms by (cases old; cases new) auto

text \<open>Changes whose events concern only objects that do not satisfy \<open>P\<close> leave the ones that do as they are.\<close>

lemma changed_filter:
  assumes "changed w evs xs ys" and kind: "\<And>ob. kindOf (w ob) = knd"
    and quiet: "\<And>ev ob. ev \<in> evs \<Longrightarrow> kindOf (ev_Object ev) = knd \<Longrightarrow> w ob \<in> set (eventObjects ev) \<Longrightarrow> \<not> P ob"
  shows "filter P (map snd ys) = filter P (map snd xs)"
  using assms(1)
proof (induction rule: changed.induct)
  case (step pre old post new ev)
  have "kindOf (ev_Object ev) = knd" by (rule changeEvent_kind [OF step(2)]) (simp add: kind)
  then have "\<not> P (snd p)" if "old = Some p \<or> new = Some p" for p
    by (rule quiet [OF step(3)], intro changeEvent_objects [OF step(2)]) (use that in \<open>elim disjE; simp\<close>)
  then have "filter P (map snd (storedOpt q)) = []" if "q = old \<or> q = new" for q
    using that by (cases q) auto
  with step.IH show ?case by simp
qed simp

text \<open>An object and the components of its service have the same service label.\<close>

lemma sameService:
  assumes "ManagedLabelByService sv \<subseteq>\<^sub>m om_Labels ob" and "ManagedLabelByService sv \<subseteq>\<^sub>m om_Labels i"
  shows "ManagedLabelBySameService ob \<subseteq>\<^sub>m om_Labels i"
proof -
  have "om_Labels ob ServiceLabelKey = Some (om_Namespace sv @ ''.'' @ om_Name sv)"
    using assms(1) by (auto simp: ManagedLabelByService_def map_le_def)
  then have "ManagedLabelBySameService ob = ManagedLabelByService sv"
    by (simp add: ManagedLabelBySameService_def ManagedLabelByService_def mget_def)
  with assms(2) show ?thesis by simp
qed

lemma foldE_reads:
  assumes "\<And>b x. x \<in> set xs \<Longrightarrow> f b x s = (r b x, s)" and "\<And>b x. x \<in> set xs \<Longrightarrow> f b x t = (r b x, t)"
  shows "\<exists>z. foldE f b xs s = (z, s) \<and> foldE f b xs t = (z, t)"
  using assms by (induction xs arbitrary: b) (auto simp: bindE_app split: sum.split)

lemma hashringsOf_listed:
  assumes ok: "clientOk cl V" and sv: "map_of (c_services (V s)) (objectKey sv) = Some sv"
      "map_of (c_services (V t)) (objectKey sv) = Some sv"
    and plain: "CHR ''.'' \<notin> set (om_Namespace sv)" "CHR ''.'' \<notin> set (om_Name sv)"
    and same: "filter (\<lambda>ob. ManagedLabelByService sv \<subseteq>\<^sub>m om_Labels ob) (map snd (c_ingesters (V t))) =
      filter (\<lambda>ob. ManagedLabelByService sv \<subseteq>\<^sub>m om_Labels ob) (map snd (c_ingesters (V s)))"
  shows "fst (hashringsOf cl (withServiceDefaults sv) t) = fst (hashringsOf cl (withServiceDefaults sv) s)"
proof -
  let ?svc = "withServiceDefaults sv" and ?opts = "\<lparr>lo_Namespace = [], lo_Labels = ManagedLabelByService (withServiceDefaults sv)\<rparr>"
  let ?igs = "filter (\<lambda>ob. ManagedLabelByService sv \<subseteq>\<^sub>m om_Labels ob) (map snd (c_ingesters (V s)))"
  have m: "matchesOpts ?opts = (\<lambda>ob. ManagedLabelByService sv \<subseteq>\<^sub>m om_Labels ob)"
    by (intro ext) (simp add: matchesOpts_def ManagedLabelByService_def withServiceDefaults_def Let_def)
  have lists: "kList (ingesters cl) ?opts s = (Inr ?igs, s)" "kList (ingesters cl) ?opts t = (Inr ?igs, t)"
    unfolding kindOk_list [OF clientOk_kinds(2) [OF ok]] m same by simp_all
  have New: "Ingester_New cl ig u = (Inr ?svc, u)" if "ig \<in> set ?igs" "map_of (c_services (V u)) (objectKey sv) = Some sv" for ig u
    unfolding Ingester_New_def using that(1) by (intro SetService_of_selected [OF ok that(2) plain]) simp
  let ?r = "\<lambda>acc item. fst (addIngester cl acc item s)"
  have reads: "addIngester cl acc item u = (?r acc item, u)"
    if "item \<in> set ?igs" "map_of (c_services (V u)) (objectKey sv) = Some sv" for acc item u
    using New [OF that] New [OF that(1) sv(1)]
    by (auto simp: addIngester_def bindE_app split: prod.splits sum.splits)
  obtain z where "foldE (addIngester cl) ([], []) ?igs s = (z, s)" "foldE (addIngester cl) ([], []) ?igs t = (z, t)"
    using foldE_reads [of ?igs "addIngester cl" s ?r t] reads sv by blast
  then show ?thesis by (cases z) (simp_all add: hashringsOf_def bindE_app lists split: prod.split)
qed

text \<open>
  C5: no change that alters what the query component asks, or where the router sends series, goes
  unnoticed.  However the ingesters, stores and rulers of the cluster change, one object after the
  other: if the endpoints of the query component come out different, then one of the events of these
  changes asks to reconcile the query, and if the hashrings come out different, one asks to reconcile
  the router.
\<close>

theorem configuration_change_noticed:
  assumes ok: "clientOk cl V" and sv: "map_of (c_services (V s)) (objectKey sv) = Some sv"
      "map_of (c_services (V t)) (objectKey sv) = Some sv"
    and plain: "CHR ''.'' \<notin> set (om_Namespace sv)" "CHR ''.'' \<notin> set (om_Name sv)"
    and changed: "changed WIngester evs (c_ingesters (V s)) (c_ingesters (V t))"
      "changed WStore evs (c_stores (V s)) (c_stores (V t))" "changed WRuler evs (c_rulers (V s)) (c_rulers (V t))"
    and mine: "ManagedLabelByService sv \<subseteq>\<^sub>m om_Labels q" "ManagedLabelByService sv \<subseteq>\<^sub>m om_Labels ro"
    and listed: "\<And>ev. ev \<in> evs \<Longrightarrow> listsAs (queries cl) (qs ev) (at ev) \<and> q \<in> set (qs ev)"
      "\<And>ev. ev \<in> evs \<Longrightarrow> listsAs (routers cl) (ros ev) (at ev) \<and> ro \<in> set (ros ev)"
  shows "(fst (queryEndpoints cl (withServiceDefaults sv) t) \<noteq> fst (queryEndpoints cl (withServiceDefaults sv) s) \<longrightarrow>
      (\<exists>ev \<in> evs. notices (QueryReconciler_SetupWithManager cl) ev (at ev) (objectKey q))) \<and>
    (fst (hashringsOf cl (withServiceDefaults sv) t) \<noteq> fst (hashringsOf cl (withServiceDefaults sv) s) \<longrightarrow>
      (\<exists>ev \<in> evs. notices (RouterReconciler_SetupWithManager cl) ev (at ev) (objectKey ro)))"
proof (intro conjI impI; rule ccontr)
  assume differ: "fst (queryEndpoints cl (withServiceDefaults sv) t) \<noteq> fst (queryEndpoints cl (withServiceDefaults sv) s)"
    and quiet: "\<not> (\<exists>ev \<in> evs. notices (QueryReconciler_SetupWithManager cl) ev (at ev) (objectKey q))"
  have other: "\<not> ManagedLabelByService sv \<subseteq>\<^sub>m om_Labels (wmeta ob)"
    if "ev \<in> evs" "kindOf (ev_Object ev) \<in> {KIngester, KStore, KRuler}" "ob \<in> set (eventObjects ev)" for ev ob
    using quiet that listed(1) [OF that(1)] sameService [OF _ mine(1), of "wmeta ob"]
      queryOnIngester.noticed [of cl "qs ev" "at ev" ev ob q] queryOnStore.noticed [of cl "qs ev" "at ev" ev ob q]
      queryOnRuler.noticed [of cl "qs ev" "at ev" ev ob q] by blast
  have i: "filter (\<lambda>ob. ManagedLabelByService sv \<subseteq>\<^sub>m om_Labels ob) (map snd (c_ingesters (V t))) =
      filter (\<lambda>ob. ManagedLabelByService sv \<subseteq>\<^sub>m om_Labels ob) (map snd (c_ingesters (V s)))"
    by (rule changed_filter [OF changed(1) kindOf.simps(7)]) (use other [of _ "WIngester _"] in \<open>simp add: object_meta.truncate_def\<close>)
  have st: "filter (\<lambda>ob. ManagedLabelByService sv \<subseteq>\<^sub>m om_Labels ob) (map snd (c_stores (V t))) =
      filter (\<lambda>ob. ManagedLabelByService sv \<subseteq>\<^sub>m om_Labels ob) (map snd (c_stores (V s)))"
    by (rule changed_filter [OF changed(2) kindOf.simps(5)]) (use other [of _ "WStore _"] in \<open>simp add: object_meta.truncate_def\<close>)
  have ru: "filter (\<lambda>ob. ManagedLabelByService sv \<subseteq>\<^sub>m om_Labels ob) (map snd (c_rulers (V t))) =
      filter (\<lambda>ob. ManagedLabelByService sv \<subseteq>\<^sub>m om_Labels ob) (map snd (c_rulers (V s)))"
    by (rule changed_filter [OF changed(3) kindOf.simps(8)]) (use other [of _ "WRuler _"] in \<open>simp add: object_meta.truncate_def\<close>)
  show False
    using differ unfolding queryEndpoints_listed [OF ok sv(1) plain] queryEndpoints_listed [OF ok sv(2) plain] i st ru by simp
next
  assume differ: "fst (hashringsOf cl (withServiceDefaults sv) t) \<noteq> fst (hashringsOf cl (withServiceDefaults sv) s)"
    and quiet: "\<not> (\<exists>ev \<in> evs. notices (RouterReconciler_SetupWithManager cl) ev (at ev) (objectKey ro))"
  have other: "\<not> ManagedLabelByService sv \<subseteq>\<^sub>m om_Labels (wmeta ob)"
    if "ev \<in> evs" "kindOf (ev_Object ev) = KIngester" "ob \<in> set (eventObjects ev)" for ev ob
    using quiet that listed(2) [OF that(1)] sameService [OF _ mine(2), of "wmeta ob"]
      routerOnIngester.noticed [of cl "ros ev" "at ev" ev ob ro] by blast
  have "filter (\<lambda>ob. ManagedLabelByService sv \<subseteq>\<^sub>m om_Labels ob) (map snd (c_ingesters (V t))) =
      filter (\<lambda>ob. ManagedLabelByService sv \<subseteq>\<^sub>m om_Labels ob) (map snd (c_ingesters (V s)))"
    by (rule changed_filter [OF changed(1) kindOf.simps(7)]) (use other [of _ "WIngester _"] in \<open>simp add: object_meta.truncate_def\<close>)
  from hashringsOf_listed [OF ok sv plain this] show False using differ by simp
qed

section \<open>Changes that go unnoticed\<close>

lemma requestsOf_unwatched:
  assumes "\<forall>w \<in> set (ct_Watches c). wt_Kind w = kindOf (ev_Object ev) \<longrightarrow> ev_Kind ev = OnUpdate \<and> \<not> wt_Updates w"
    and "kindOf (ev_Object ev) \<noteq> ct_For c" and "kindOf (ev_Object ev) \<notin> set (ct_Owned c)"
  shows "requestsOf c ev = ret []"
proof -
  have "foldE (\<lambda>reqs w. bindE (watchRequests w ev) (\<lambda>rs. ret (reqs @ rs))) [] ws = ret []"
    if "set ws \<subseteq> set (ct_Watches c)" for ws
    using that assms(1) by (induction ws) (auto simp: watchRequests_def)
  then show ?thesis using assms(2,3) by (simp add: requestsOf_def)
qed

text \<open>
  C39: two controllers do not hear of changes their output depends on.  The gateway controller drops the
  updates of tenants: the event by which a stored tenant gets the service label of a gateway causes no
  request, although the tenant is to be admitted from then on.  The ruler controller does not watch
  gateways: an event on a gateway causes no request, although the address the rulers are configured
  with changes when the gateway starts or stops to serve TLS.
\<close>

theorem updates_unnoticed:
  assumes label: "om_Labels gw ServiceLabelKey = Some l" and old: "om_Labels t ServiceLabelKey = None"
    and live: "om_DeletionTimestamp t = None"
    and tls: "servesTLS (gw_WebConfig (gw_Spec gw')) \<noteq> servesTLS (gw_WebConfig (gw_Spec gw))"
  defines "t' \<equiv> t\<lparr>om_Labels := (om_Labels t)(ServiceLabelKey \<mapsto> l)\<rparr>"
  shows "requestsOf (GatewayReconciler_SetupWithManager cl)
      \<lparr>ev_Kind = OnUpdate, ev_Old = Some (WTenant t), ev_Object = WTenant t'\<rparr> s = (Inr [], s) \<and>
    admittedTenants gw [t'] = [ts_Tenant (tn_Spec t)] \<and> admittedTenants gw [t] = [] \<and>
    requestsOf (RulerReconciler_SetupWithManager lib w mg cl)
      \<lparr>ev_Kind = OnUpdate, ev_Old = Some (WGateway gw), ev_Object = WGateway gw'\<rparr> s = (Inr [], s) \<and>
    Gateway_addr svc gw' \<noteq> Gateway_addr svc gw"
proof (intro conjI)
  show "requestsOf (GatewayReconciler_SetupWithManager cl)
      \<lparr>ev_Kind = OnUpdate, ev_Old = Some (WTenant t), ev_Object = WTenant t'\<rparr> s = (Inr [], s)"
    by (subst requestsOf_unwatched) (simp_all add: setup_defs)
  show "requestsOf (RulerReconciler_SetupWithManager lib w mg cl)
      \<lparr>ev_Kind = OnUpdate, ev_Old = Some (WGateway gw), ev_Object = WGateway gw'\<rparr> s = (Inr [], s)"
    by (subst requestsOf_unwatched) (simp_all add: setup_defs)
  show "admittedTenants gw [t'] = [ts_Tenant (tn_Spec t)]" "admittedTenants gw [t] = []"
    using label old live by (simp_all add: admittedTenants_def t'_def mget_def)
  show "Gateway_addr svc gw' \<noteq> Gateway_addr svc gw"
    using tls by (auto simp: Gateway_addr_alt gatewayScheme_def)
qed

text \<open>
  C40: an event on a store asks for one tenant only, the first that is listed, as the stores of all tenants
  are reconciled together.  Where that tenant has no service label the controller returns before it
  looks at the stores: a store that was deleted is not created again, whatever the other tenants need.
\<close>

theorem store_event_lost:
  assumes ok: "clientOk cl V" and ts: "c_tenants (V s) = (tenantRequest t, t) # ts"
    and label: "serviceLabel t = []" and ev: "kindOf (ev_Object ev) = KStore" "ev_Kind ev = OnDelete" "ev_Old ev = None"
  shows "\<exists>reqs. requestsOf (TenantReconciler_SetupWithManager cl) ev s = (Inr reqs, s) \<and>
    (\<forall>req \<in> set reqs. TenantReconciler_Reconcile x y cl req s = (Inr (), s))"
proof -
  have all: "matchesOpts \<lparr>lo_Namespace = [], lo_Labels = Map.empty\<rparr> ob" for ob :: tenant by (simp add: matchesOpts_def)
  have store: "mapToTenantByStore cl s = (Inr [tenantRequest t], s)"
    by (simp add: mapToTenantByStore_def listOrEmpty_def bindE_app handleE_case
        kindOk_list [OF clientOk_kinds(1) [OF ok]] ts all)
  have "watchRequests (Watches KStore (\<lambda>_. mapToTenantByStore cl)) ev s = (Inr [tenantRequest t], s)"
    using ev store by (simp add: watchRequests_def Watches_def eventObjects_def bindE_app)
  then have "requestsOf (TenantReconciler_SetupWithManager cl) ev s = (Inr [tenantRequest t], s)"
    unfolding requestsOf_def
    by (subst foldE_watches) (simp add: TenantReconciler_SetupWithManager_def ev(1) bindE_app Watches_def)
  moreover have "TenantReconciler_Reconcile x y cl (tenantRequest t) s = (Inr (), s)"
    by (rule unlabelled_tenant_untouched [OF ok _ label]) (simp add: ts)
  ultimately show ?thesis by simp
qed

section \<open>Examples\<close>

definition exWatchClient :: "cluster client" where
  "exWatchClient = memClient\<lparr>queries := nullKind\<lparr>kList := \<lambda>opts. ret (filter (matchesOpts opts) [exQuery])\<rparr>,
     routers := nullKind\<lparr>kList := \<lambda>opts. ret (filter (matchesOpts opts) [exRouter])\<rparr>\<rparr>"

lemma exWatchClient_ok: "clientOk exWatchClient (\<lambda>c. c)"
  using memClient_ok by (simp add: clientOk_def exWatchClient_def)

lemma exWatchClient_lists:
  "listsAs (queries exWatchClient) [exQuery] s" "listsAs (routers exWatchClient) [exRouter] s"
  "listsAs (gateways exWatchClient) [] s" "listsAs (queryFrontends exWatchClient) [] s"
  by (simp_all add: listsAs_def exWatchClient_def memClient_def nullKind_def)

lemma nullKind_lists: "listsAs nullKind [] s"
  by (simp add: listsAs_def nullKind_def)

lemma ex_mine: "ManagedLabelByService exService \<subseteq>\<^sub>m om_Labels exQuery" "ManagedLabelByService exService \<subseteq>\<^sub>m om_Labels exRouter"
  by (simp_all add: ex_gateway_defs ManagedLabelByService_def exService_def)

theorem service_change_noticed_witness:
  "notices (QueryReconciler_SetupWithManager exWatchClient)
     \<lparr>ev_Kind = OnUpdate, ev_Old = Some (WService exService), ev_Object = WService exService\<rparr> (exCluster [] [] []) (objectKey exQuery)"
proof -
  let ?ev = "\<lparr>ev_Kind = OnUpdate, ev_Old = Some (WService exService), ev_Object = WService exService\<rparr>" and ?c = "exCluster [] [] []"
  have ev: "WService exService \<in> set (eventObjects ?ev)" "kindOf (ev_Object ?ev) = KService" by (simp_all add: eventObjects_def)
  have lists: "listsAs (stores exWatchClient) [] ?c" "listsAs (compactors exWatchClient) [] ?c" "listsAs (ingesters exWatchClient) [] ?c"
    "listsAs (rulers exWatchClient) [] ?c"
    using kindOk_listsAs [OF clientOk_kinds(5) [OF exWatchClient_ok], of ?c] kindOk_listsAs [OF clientOk_kinds(3) [OF exWatchClient_ok], of ?c]
      kindOk_listsAs [OF clientOk_kinds(2) [OF exWatchClient_ok], of ?c] kindOk_listsAs [OF clientOk_kinds(4) [OF exWatchClient_ok], of ?c]
    by (simp_all add: exCluster_def)
  have "ManagedLabelByService (wmeta (WService exService)) \<subseteq>\<^sub>m om_Labels exQuery"
    using ex_mine(1) by (simp add: ManagedLabelByService_def object_meta.truncate_def)
  then show ?thesis
    using service_change_noticed [OF ev exWatchClient_lists(3,4,1,2) lists] by simp
qed

theorem configuration_change_noticed_witness:
  "let c = exCluster [] [] []; c' = exCluster [] [exIngester] []; ev = \<lparr>ev_Kind = OnCreate, ev_Old = None, ev_Object = WIngester exIngester\<rparr>
   in fst (queryEndpoints exWatchClient (withServiceDefaults exService) c') \<noteq> fst (queryEndpoints exWatchClient (withServiceDefaults exService) c) \<and>
     notices (QueryReconciler_SetupWithManager exWatchClient) ev c' (objectKey exQuery)"
proof -
  let ?c = "exCluster [] [] []" and ?c' = "exCluster [] [exIngester] []"
  let ?ev = "\<lparr>ev_Kind = OnCreate, ev_Old = None, ev_Object = WIngester exIngester\<rparr>"
  have sv: "map_of (c_services ?c) (objectKey exService) = Some exService" "map_of (c_services ?c') (objectKey exService) = Some exService"
    by (simp_all add: exCluster_def)
  have plain: "CHR ''.'' \<notin> set (om_Namespace exService)" "CHR ''.'' \<notin> set (om_Name exService)" by (simp_all add: exService_def)
  have "changed WIngester {?ev} (c_ingesters ?c) ([] @ storedOpt (Some (objectKey exIngester, exIngester)) @ [])"
    by (rule changed.step [OF _ _ singletonI, where old = None]) (simp_all add: changed.same exCluster_def)
  then have ch: "changed WIngester {?ev} (c_ingesters ?c) (c_ingesters ?c')" by (simp add: exCluster_def)
  have same: "changed WStore {?ev} (c_stores ?c) (c_stores ?c')" "changed WRuler {?ev} (c_rulers ?c) (c_rulers ?c')"
    by (simp_all add: changed.same exCluster_def)
  have "Ingester_Endpoints exIngester \<noteq> []"
    by (simp add: Ingester_Endpoints_def exIngester_def zero_defs)
  then have differ: "fst (queryEndpoints exWatchClient (withServiceDefaults exService) ?c') \<noteq> fst (queryEndpoints exWatchClient (withServiceDefaults exService) ?c)"
    unfolding queryEndpoints_listed [OF exWatchClient_ok sv(1) plain] queryEndpoints_listed [OF exWatchClient_ok sv(2) plain]
    by (simp add: exCluster_def) (simp add: exIngester_def)
  have "(fst (queryEndpoints exWatchClient (withServiceDefaults exService) ?c') \<noteq> fst (queryEndpoints exWatchClient (withServiceDefaults exService) ?c) \<longrightarrow>
      (\<exists>ev \<in> {?ev}. notices (QueryReconciler_SetupWithManager exWatchClient) ev ?c' (objectKey exQuery))) \<and>
    (fst (hashringsOf exWatchClient (withServiceDefaults exService) ?c') \<noteq> fst (hashringsOf exWatchClient (withServiceDefaults exService) ?c) \<longrightarrow>
      (\<exists>ev \<in> {?ev}. notices (RouterReconciler_SetupWithManager exWatchClient) ev ?c' (objectKey exRouter)))"
    by (rule configuration_change_noticed [OF exWatchClient_ok sv plain ch same ex_mine, where at = "\<lambda>_. ?c'" and qs = "\<lambda>_. [exQuery]" and ros = "\<lambda>_. [exRouter]"])
      (simp_all add: exWatchClient_lists)
  with differ show ?thesis unfolding Let_def by simp
qed

definition exPlainTenant :: tenant where
  "exPlainTenant = zeroTenant\<lparr>om_Name := ''t'', tn_Spec := \<lparr>ts_Tenant = ''t''\<rparr>\<rparr>"

theorem updates_unnoticed_witness:
  "let t' = exPlainTenant\<lparr>om_Labels := (om_Labels exPlainTenant)(ServiceLabelKey \<mapsto> ''ns.svc'')\<rparr>;
       gw' = exGateway\<lparr>gw_Spec := (gw_Spec exGateway)\<lparr>gw_WebConfig := exTLS\<rparr>\<rparr>; c = exCluster [t'] [] []
   in requestsOf (GatewayReconciler_SetupWithManager memClient)
       \<lparr>ev_Kind = OnUpdate, ev_Old = Some (WTenant exPlainTenant), ev_Object = WTenant t'\<rparr> c = (Inr [], c) \<and>
     admittedTenants exGateway [t'] = [''t''] \<and> Gateway_addr exService gw' \<noteq> Gateway_addr exService exGateway"
proof -
  let ?gw' = "exGateway\<lparr>gw_Spec := (gw_Spec exGateway)\<lparr>gw_WebConfig := exTLS\<rparr>\<rparr>"
  have "om_Labels exGateway ServiceLabelKey = Some ''ns.svc''" "om_Labels exPlainTenant ServiceLabelKey = None"
    "om_DeletionTimestamp exPlainTenant = None"
    "servesTLS (gw_WebConfig (gw_Spec ?gw')) \<noteq> servesTLS (gw_WebConfig (gw_Spec exGateway))"
    by (simp_all add: ex_gateway_defs exPlainTenant_def zero_defs servesTLS_def exTLS_def)
  note all = updates_unnoticed [OF this, of memClient _ undefined undefined undefined exService]
  have "ts_Tenant (tn_Spec exPlainTenant) = ''t''" by (simp add: exPlainTenant_def)
  with all show ?thesis unfolding Let_def by (metis (no_types))
qed

theorem store_event_lost_witness:
  "let c = exCluster [exPlainTenant, exTenant ''u'' Map.empty] [] []; ev = \<lparr>ev_Kind = OnDelete, ev_Old = None, ev_Object = WStore zeroStore\<rparr>
   in \<exists>reqs. requestsOf (TenantReconciler_SetupWithManager memClient) ev c = (Inr reqs, c) \<and>
     (\<forall>req \<in> set reqs. TenantReconciler_Reconcile exExt exYaml memClient req c = (Inr (), c))"
  unfolding Let_def
  by (rule store_event_lost [OF memClient_ok, where t = exPlainTenant and ts = "[(objectKey (exTenant ''u'' Map.empty), exTenant ''u'' Map.empty)]"])
    (simp_all add: exCluster_def exPlainTenant_def zero_defs tenantRequest_def objectKey_def mget_def)

end
