(* ===== verification/Action_Logic.thy ===== *)
theory Action_Logic
  imports Util_Lib
begin

text \<open>
  A logic for invariants of actions.  \<open>keeps I R m\<close>: started in a state with \<open>I\<close>, the action \<open>m\<close> ends in a
  state with \<open>I\<close>, whether it succeeds or fails, and what it returns satisfies \<open>R\<close>.  Nothing is said of the
  API client beyond the contract \<open>safeKind\<close>, which leaves it free to fail, to answer from a cache that is out
  of date, and to let other writers in before, during and after a call, as long as what they write
  respects the same rules.  So an invariant proved in this logic holds under every interleaving of
  the calls of the controllers.
\<close>

named_theorems keeps_rules \<open>syntax-directed rules of the logic\<close>

definition keeps :: "('s \<Rightarrow> bool) \<Rightarrow> ('a \<Rightarrow> bool) \<Rightarrow> ('s, 'a) act \<Rightarrow> bool" where
  "keeps I R m \<longleftrightarrow> (\<forall>s. I s \<longrightarrow> I (snd (m s)) \<and> (\<forall>x. fst (m s) = Inr x \<longrightarrow> R x))"

abbreviation preserves :: "('s \<Rightarrow> bool) \<Rightarrow> ('s, 'a) act \<Rightarrow> bool" where
  "preserves I m \<equiv> keeps I (\<lambda>_. True) m"

section \<open>Rules\<close>

lemma keepsI: "(\<And>s. I s \<Longrightarrow> I (snd (m s)) \<and> (\<forall>x. fst (m s) = Inr x \<longrightarrow> R x)) \<Longrightarrow> keeps I R m"
  by (simp add: keeps_def)

lemma keepsD: "keeps I R m \<Longrightarrow> I s \<Longrightarrow> I (snd (m s))" "keeps I R m \<Longrightarrow> I s \<Longrightarrow> m s = (Inr x, s') \<Longrightarrow> R x"
  by (auto simp: keeps_def)

lemma keeps_weaken: "keeps I Q m \<Longrightarrow> (\<And>x. Q x \<Longrightarrow> R x) \<Longrightarrow> keeps I R m"
  by (auto simp: keeps_def)

lemma keeps_preserves: "keeps I Q m \<Longrightarrow> preserves I m"
  by (auto simp: keeps_def)

lemma keeps_ret: "R x \<Longrightarrow> keeps I R (ret x)"
  by (simp add: keeps_def)

lemma keeps_liftE: "(\<And>x. r = Inr x \<Longrightarrow> R x) \<Longrightarrow> keeps I R (liftE r)"
  by (simp add: keeps_def)

lemma keeps_failE [keeps_rules]: "keeps I R (failE e)"
  by (simp add: keeps_def)

lemma keeps_bindE:
  assumes "keeps I Q m" and "\<And>x. Q x \<Longrightarrow> keeps I R (f x)"
  shows "keeps I R (bindE m f)"
proof (rule keepsI)
  fix s
  assume s: "I s"
  show "I (snd (bindE m f s)) \<and> (\<forall>x. fst (bindE m f s) = Inr x \<longrightarrow> R x)"
  proof (cases "m s")
    case (Pair r u)
    have u: "I u" using keepsD(1) [OF assms(1) s] Pair by simp
    show ?thesis
    proof (cases r)
      case (Inr x)
      then have "Q x" using keepsD(2) [OF assms(1) s] Pair by simp
      with assms(2) u Pair Inr show ?thesis by (simp add: keeps_def)
    qed (use Pair u in simp)
  qed
qed

lemma keeps_handleE:
  assumes "keeps I Q m" and "\<And>x. Q x \<Longrightarrow> keeps I R (f (Inr x))" and "\<And>e. keeps I R (f (Inl e))"
  shows "keeps I R (handleE m f)"
proof (rule keepsI)
  fix s
  assume s: "I s"
  obtain r u where m: "m s = (r, u)" by (cases "m s")
  have u: "I u" using keepsD(1) [OF assms(1) s] m by simp
  have "keeps I R (f r)" using assms(2,3) keepsD(2) [OF assms(1) s] m by (cases r) auto
  with m u show "I (snd (handleE m f s)) \<and> (\<forall>x. fst (handleE m f s) = Inr x \<longrightarrow> R x)" by (simp add: keeps_def)
qed

lemma keeps_forE:
  assumes "\<And>x. x \<in> set xs \<Longrightarrow> preserves I (f x)"
  shows "preserves I (forE xs f)"
  using assms by (induction xs) (auto intro: keeps_ret keeps_bindE)

lemma keeps_foldE:
  assumes "\<And>b x. Q b \<Longrightarrow> x \<in> set xs \<Longrightarrow> keeps I Q (f b x)" and "Q b"
  shows "keeps I Q (foldE f b xs)"
  using assms by (induction xs arbitrary: b) (auto intro: keeps_ret intro!: keeps_bindE)

text \<open>The rules that say nothing of the results can be applied blindly.\<close>

lemma preserves_ret [keeps_rules]: "preserves I (ret x)"
  by (rule keeps_ret) simp

lemma preserves_liftE [keeps_rules]: "preserves I (liftE r)"
  by (rule keeps_liftE) simp

lemma preserves_bindE [keeps_rules]: "preserves I m \<Longrightarrow> (\<And>x. preserves I (f x)) \<Longrightarrow> preserves I (bindE m f)"
  by (rule keeps_bindE)

lemma preserves_handleE [keeps_rules]: "preserves I m \<Longrightarrow> (\<And>r. preserves I (f r)) \<Longrightarrow> preserves I (handleE m f)"
  by (rule keeps_handleE)

lemma preserves_forE [keeps_rules]: "(\<And>x. preserves I (f x)) \<Longrightarrow> preserves I (forE xs f)"
  by (rule keeps_forE)

lemma preserves_foldE [keeps_rules]: "(\<And>b x. preserves I (f b x)) \<Longrightarrow> preserves I (foldE f b xs)"
  by (rule keeps_foldE) simp_all

lemma keeps_seq:
  "preserves I m \<Longrightarrow> (\<And>x. keeps I R (f x)) \<Longrightarrow> keeps I R (bindE m f)"
  "preserves I m \<Longrightarrow> (\<And>r. keeps I R (g r)) \<Longrightarrow> keeps I R (handleE m g)"
  by (auto intro: keeps_bindE keeps_handleE)

lemma keeps_Let [keeps_rules]: "keeps I R (f x) \<Longrightarrow> keeps I R (Let x f)"
  by (simp add: Let_def)

lemma keeps_if [keeps_rules]: "(c \<Longrightarrow> keeps I R a) \<Longrightarrow> (\<not> c \<Longrightarrow> keeps I R b) \<Longrightarrow> keeps I R (if c then a else b)"
  by simp

lemma keeps_option [keeps_rules]:
  "(z = None \<Longrightarrow> keeps I R a) \<Longrightarrow> (\<And>y. z = Some y \<Longrightarrow> keeps I R (f y)) \<Longrightarrow> keeps I R (case z of None \<Rightarrow> a | Some y \<Rightarrow> f y)"
  by (cases z) simp_all

lemma keeps_sum [keeps_rules]:
  "(\<And>e. z = Inl e \<Longrightarrow> keeps I R (a e)) \<Longrightarrow> (\<And>y. z = Inr y \<Longrightarrow> keeps I R (f y)) \<Longrightarrow> keeps I R (case z of Inl e \<Rightarrow> a e | Inr y \<Rightarrow> f y)"
  by (cases z) simp_all

lemma keeps_prod [keeps_rules]: "(\<And>a b. z = (a, b) \<Longrightarrow> keeps I R (f a b)) \<Longrightarrow> keeps I R (case z of (a, b) \<Rightarrow> f a b)"
  by (cases z) simp

lemma keeps_prod_app [keeps_rules]:
  "(\<And>a b. z = (a, b) \<Longrightarrow> keeps I R (f a b c)) \<Longrightarrow> keeps I R ((case z of (a, b) \<Rightarrow> f a b) c)"
  by (cases z) simp

lemma keeps_list [keeps_rules]:
  "(z = [] \<Longrightarrow> keeps I R a) \<Longrightarrow> (\<And>y ys. z = y # ys \<Longrightarrow> keeps I R (f y ys)) \<Longrightarrow> keeps I R (case z of [] \<Rightarrow> a | y # ys \<Rightarrow> f y ys)"
  by (cases z) simp_all

lemma keeps_gerror [keeps_rules]:
  "keeps I R a \<Longrightarrow> keeps I R b \<Longrightarrow> keeps I R c \<Longrightarrow> keeps I R d \<Longrightarrow> (\<And>x. keeps I R (e x)) \<Longrightarrow> (\<And>x. keeps I R (f x)) \<Longrightarrow>
   (\<And>x y. keeps I R (g x y)) \<Longrightarrow> keeps I R h \<Longrightarrow>
   keeps I R (case z of ApiNotFound \<Rightarrow> a | ApiCRNotFound \<Rightarrow> b | ApiConflict \<Rightarrow> c | ApiAlreadyExists \<Rightarrow> d | ApiInvalid x \<Rightarrow> e x
     | GoErr x \<Rightarrow> f x | Wrapped x y \<Rightarrow> g x y | Panic \<Rightarrow> h)"
  by (cases z) simp_all

text \<open>Lists of actions.\<close>

lemma actions_safe:
  "list_all P []" "P a \<Longrightarrow> list_all P as \<Longrightarrow> list_all P (a # as)"
  "list_all P as \<Longrightarrow> list_all P bs \<Longrightarrow> list_all P (as @ bs)"
  "(\<And>x. P (f x)) \<Longrightarrow> list_all P (map f xs)" "(\<And>x. list_all P (g x)) \<Longrightarrow> list_all P (concat (map g xs))"
  "list_all P as \<Longrightarrow> list_all P bs \<Longrightarrow> list_all P (if c then as else bs)"
  "list_all P as \<Longrightarrow> (\<And>y. list_all P (h y)) \<Longrightarrow> list_all P (case z of None \<Rightarrow> as | Some y \<Rightarrow> h y)"
  by (auto simp: list_all_iff split: option.split)

section \<open>The contract of the API server\<close>

text \<open>
  A kind whose stored objects satisfy \<open>Q\<close>: reads return such objects, and a write of such an object
  leaves only such objects; the status is written without the rest of the object, so nothing is asked of
  it.  A retried function preserves what one run of it preserves.
\<close>

definition safeKind :: "('s, 'o) kind_client \<Rightarrow> ('s \<Rightarrow> bool) \<Rightarrow> ('o \<Rightarrow> bool) \<Rightarrow> bool" where
  "safeKind k I Q \<longleftrightarrow>
     (\<forall>key. keeps I Q (kGet k key)) \<and> (\<forall>opts. keeps I (list_all Q) (kList k opts)) \<and>
     (\<forall>ob. Q ob \<longrightarrow> keeps I Q (kCreate k ob)) \<and> (\<forall>ob. Q ob \<longrightarrow> keeps I Q (kUpdate k ob)) \<and>
     (\<forall>ob. keeps I Q (kStatusUpdate k ob)) \<and> (\<forall>ob. preserves I (kDelete k ob)) \<and>
     (\<forall>f d s. (\<forall>d s. Q d \<longrightarrow> I s \<longrightarrow> (case f d s of (_, d', s') \<Rightarrow> Q d' \<and> I s')) \<longrightarrow> Q d \<longrightarrow> I s \<longrightarrow> I (snd (snd (kRetry k f d s))))"

abbreviation anyObject :: "'o \<Rightarrow> bool" where
  "anyObject \<equiv> \<lambda>_. True"

lemma safeKind_calls:
  assumes "safeKind k I Q"
  shows "keeps I Q (kGet k key)" and "keeps I (list_all Q) (kList k opts)" and "Q ob \<Longrightarrow> keeps I Q (kCreate k ob)"
    and "Q ob \<Longrightarrow> keeps I Q (kUpdate k ob)" and "keeps I Q (kStatusUpdate k ob)" and "preserves I (kDelete k ob)"
  using assms by (simp_all add: safeKind_def)

lemma safeKind_preserves:
  assumes "safeKind k I Q"
  shows "preserves I (kGet k key)" and "preserves I (kList k opts)" and "Q ob \<Longrightarrow> preserves I (kCreate k ob)"
    and "Q ob \<Longrightarrow> preserves I (kUpdate k ob)" and "preserves I (kStatusUpdate k ob)" and "preserves I (kDelete k ob)"
  using safeKind_calls [OF assms] by (blast intro: keeps_preserves)+

lemma plainKind:
  assumes "safeKind k I anyObject"
  shows "preserves I (kGet k key)" and "preserves I (kList k opts)" and "preserves I (kCreate k ob)"
    and "preserves I (kUpdate k ob)" and "preserves I (kStatusUpdate k ob)" and "preserves I (kDelete k ob)"
  using safeKind_preserves [OF assms] by simp_all

lemma safeKind_retry:
  assumes "safeKind k I Q" and "\<And>d s. Q d \<Longrightarrow> I s \<Longrightarrow> (case f d s of (_, d', s') \<Rightarrow> Q d' \<and> I s')" and "Q d"
  shows "preserves I (\<lambda>s. case kRetry k f d s of (None, _, s') \<Rightarrow> (Inr (), s') | (Some e, _, s') \<Rightarrow> (Inl e, s'))"
proof (rule keepsI)
  fix s
  assume "I s"
  then have "I (snd (snd (kRetry k f d s)))" using assms unfolding safeKind_def by blast
  then show "I (snd (case kRetry k f d s of (None, _, s') \<Rightarrow> (Inr (), s') | (Some e, _, s') \<Rightarrow> (Inl e, s'))) \<and>
      (\<forall>x. fst (case kRetry k f d s of (None, _, s') \<Rightarrow> (Inr (), s') | (Some e, _, s') \<Rightarrow> (Inl e, s')) = Inr x \<longrightarrow> True)"
    by (auto split: prod.split option.split)
qed

text \<open>A turn of create-or-update, as an action that always succeeds.\<close>

lemma upsert_preserves:
  assumes k: "safeKind k I Q" and merge: "\<And>d c. Q d \<Longrightarrow> Q c \<Longrightarrow> Q (merge d c)" and d: "Q d"
  shows "preserves I (upsert k merge skip d)"
  unfolding upsert_def
proof (rule safeKind_retry [OF k _ d])
  fix d s
  assume d: "Q d" and s: "I s"
  note get = keepsD [OF safeKind_calls(1) [OF k] s]
  show "case upsertOnce k merge skip d s of (_, d', s') \<Rightarrow> Q d' \<and> I s'"
  proof (cases "kGet k (objectKey d) s")
    case (Pair r u)
    have u: "I u" using get(1) [of "objectKey d"] Pair by simp
    show ?thesis
    proof (cases r)
      case (Inl e)
      note create = keepsD [OF safeKind_calls(3) [OF k d] u]
      show ?thesis
        using Pair Inl u d create by (cases "kCreate k d u"; cases "fst (kCreate k d u)") (auto simp: upsertOnce_def)
    next
      case (Inr c)
      then have "Q (merge d c)" using merge [OF d] get(2) Pair by blast
      note update = this keepsD [OF safeKind_calls(4) [OF k this] u]
      show ?thesis
        using Pair Inr u update by (cases "kUpdate k (merge d c) u"; cases "fst (kUpdate k (merge d c) u)") (auto simp: upsertOnce_def Let_def)
    qed
  qed
qed

end
