(* ===== verification/Workload_Safety.thy ===== *)
theory Workload_Safety
  imports Action_Logic Tenant_Controller Ingester_Controller Compactor_Workload Store_Workload Router_Workload
    Query_Workload Frontend_Workload Storage_Workload Gateway_Workload Ruler_Workload
begin

text \<open>
  What the controllers may do to the objects the tenant controller shares out.  \<open>serves\<close> is the contract
  of an API server whose ingesters, compactors and services satisfy given rules at all times, and whose
  other objects are not constrained.  Every controller of \<^verbatim>\<open>pkg/controllers\<close> is shown to preserve such
  a state: those that only read these objects here, the tenant controller in \<open>Controller_System\<close>.
\<close>

section \<open>The contract\<close>

definition ingesterOk :: "int \<Rightarrow> ingester \<Rightarrow> bool" where
  "ingesterOk n ig \<longleftrightarrow> distinct (ig_Tenants (ig_Spec ig)) \<and> int (length (ig_Tenants (ig_Spec ig))) \<le> n"

definition compactorOk :: "int \<Rightarrow> compactor \<Rightarrow> bool" where
  "compactorOk m cp \<longleftrightarrow> int (length (cp_Tenants (cp_Spec cp))) \<le> m"

text \<open>No service asks for more tenants per ingester and per compactor than that.\<close>

definition serviceOk :: "int \<Rightarrow> int \<Rightarrow> service \<Rightarrow> bool" where
  "serviceOk n m sv \<longleftrightarrow>
     igt_DefaultTenantsPerIngester (sv_IngesterTemplateSpec (sv_Spec sv)) \<le> n \<and>
     cpt_DefaultTenantsPerCompactor (sv_CompactorTemplateSpec (sv_Spec sv)) \<le> m \<and>
     cp_Tenants (sv_CompactorTemplateSpec (sv_Spec sv)) = []"

definition serves :: "'s client \<Rightarrow> ('s \<Rightarrow> bool) \<Rightarrow> int \<Rightarrow> int \<Rightarrow> bool" where
  "serves cl I n m \<longleftrightarrow> 1 \<le> n \<and> 1 \<le> m \<and>
     safeKind (ingesters cl) I (ingesterOk n) \<and> safeKind (compactors cl) I (compactorOk m) \<and>
     safeKind (services cl) I (serviceOk n m) \<and>
     safeKind (tenants cl) I anyObject \<and>
     safeKind (rulers cl) I anyObject \<and>
     safeKind (stores cl) I anyObject \<and>
     safeKind (storages cl) I anyObject \<and>
     safeKind (gateways cl) I anyObject \<and>
     safeKind (routers cl) I anyObject \<and>
     safeKind (queries cl) I anyObject \<and>
     safeKind (queryFrontends cl) I anyObject \<and>
     safeKind (statefulSets cl) I anyObject \<and>
     safeKind (deployments cl) I anyObject \<and>
     safeKind (kubeServices cl) I anyObject \<and>
     safeKind (configMaps cl) I anyObject \<and>
     safeKind (secrets cl) I anyObject \<and>
     safeKind (serviceAccounts cl) I anyObject \<and>
     safeKind (pvcs cl) I anyObject \<and>
     safeKind (namespaces cl) I anyObject \<and>
     safeKind (promRules cl) I anyObject"

text \<open>The lists of namespaces and rules, which the ruler reads through a cache of its own, change nothing.\<close>

definition rulesSafe :: "('s \<Rightarrow> bool) \<Rightarrow> 's rule_lib \<Rightarrow> bool" where
  "rulesSafe I lib \<longleftrightarrow> (\<forall>sel. preserves I (rl_listNamespaces lib sel)) \<and> (\<forall>sel ns. preserves I (rl_listRules lib sel ns))"

locale served =
  fixes cl :: "'s client" and I :: "'s \<Rightarrow> bool" and n m :: int
  assumes serves: "serves cl I n m"
begin

lemma kinds:
  shows "safeKind (ingesters cl) I (ingesterOk n)"
    and "safeKind (compactors cl) I (compactorOk m)"
    and "safeKind (services cl) I (serviceOk n m)"
    and "safeKind (tenants cl) I anyObject"
    and "safeKind (rulers cl) I anyObject"
    and "safeKind (stores cl) I anyObject"
    and "safeKind (storages cl) I anyObject"
    and "safeKind (gateways cl) I anyObject"
    and "safeKind (routers cl) I anyObject"
    and "safeKind (queries cl) I anyObject"
    and "safeKind (queryFrontends cl) I anyObject"
    and "safeKind (statefulSets cl) I anyObject"
    and "safeKind (deployments cl) I anyObject"
    and "safeKind (kubeServices cl) I anyObject"
    and "safeKind (configMaps cl) I anyObject"
    and "safeKind (secrets cl) I anyObject"
    and "safeKind (serviceAccounts cl) I anyObject"
    and "safeKind (pvcs cl) I anyObject"
    and "safeKind (namespaces cl) I anyObject"
    and "safeKind (promRules cl) I anyObject"
  using serves by (simp_all add: serves_def)

lemmas reads [keeps_rules] = safeKind_preserves(1,2,5,6) [OF kinds(1)] safeKind_preserves(1,2,5,6) [OF kinds(2)] safeKind_preserves(1,2,5,6) [OF kinds(3)]
lemmas calls [keeps_rules] =
  plainKind [OF kinds(4)]
  plainKind [OF kinds(5)]
  plainKind [OF kinds(6)]
  plainKind [OF kinds(7)]
  plainKind [OF kinds(8)]
  plainKind [OF kinds(9)]
  plainKind [OF kinds(10)]
  plainKind [OF kinds(11)]
  plainKind [OF kinds(12)]
  plainKind [OF kinds(13)]
  plainKind [OF kinds(14)]
  plainKind [OF kinds(15)]
  plainKind [OF kinds(16)]
  plainKind [OF kinds(17)]
  plainKind [OF kinds(18)]
  plainKind [OF kinds(19)]
  plainKind [OF kinds(20)]

text \<open>Create-or-update preserves the state at every kind, for objects that keep its rule.\<close>

lemma upserts [keeps_rules]:
  "safeKind k I anyObject \<Longrightarrow> preserves I (CreateOrUpdate k ob)"
  "safeKind k I anyObject \<Longrightarrow> preserves I (CreateIfNotExists k ob)"
  "preserves I (CreateOrUpdateStatefulSet cl sts)" "preserves I (CreateOrUpdateDeployment cl d)"
  "preserves I (CreateOrUpdateService cl ks)"
  unfolding CreateOrUpdate_def CreateIfNotExists_def CreateOrUpdateStatefulSet_def CreateOrUpdateDeployment_def
    CreateOrUpdateService_def
  by (rule upsert_preserves, assumption?, (rule kinds)?, rule TrueI, rule TrueI)+

lemma CreateOrUpdateServiceAccount_safe [keeps_rules]: "preserves I (CreateOrUpdateServiceAccount cl sa)"
  unfolding CreateOrUpdateServiceAccount_def
proof (rule safeKind_retry [OF kinds(17)])
  fix d :: service_account and s
  assume s: "I s"
  note sa = plainKind [OF kinds(17), THEN keepsD(1)]
  obtain r u where get: "kGet (serviceAccounts cl) (objectKey d) s = (r, u)" by fastforce
  then have "I u" using sa(1) [OF s, of "objectKey d"] by simp
  then show "case serviceAccountOnce cl d s of (_, d', s') \<Rightarrow> True \<and> I s'"
    using get sa(3) [of u] sa(4) [of u]
    by (auto simp: serviceAccountOnce_def Let_def split: sum.split prod.split) (metis snd_conv)+
qed simp

text \<open>Base_Reconciler\<close>

lemma ignoringNotFound_safe [keeps_rules]: "preserves I a \<Longrightarrow> preserves I (ignoringNotFound a)"
  unfolding ignoringNotFound_def by (rule keeps_rules | assumption)+

lemma pvcs_safe [keeps_rules]: "preserves I (deleteOnePVC cl ns name)" "preserves I (DeletePVC cl ob)"
  unfolding DeletePVC_def deleteOnePVC_def by (rule keeps_rules)+

lemma SetService_safe [keeps_rules]: "preserves I (SetService cl ob)" "preserves I (GetTenantHash x cl selector)"
  unfolding SetService_def GetTenantHash_def by (rule keeps_rules)+

lemma keeps_operation [keeps_rules]:
  "keeps I R a \<Longrightarrow> keeps I R b \<Longrightarrow> keeps I R c \<Longrightarrow>
   keeps I R (case z of OperationCreateOrUpdate \<Rightarrow> a | OperationDelete \<Rightarrow> b | OperationNone \<Rightarrow> c)"
  by (cases z) simp_all

lemma keeps_kobject [keeps_rules]:
  "(\<And>x. keeps I R (a x)) \<Longrightarrow> (\<And>x. keeps I R (b x)) \<Longrightarrow> (\<And>x. keeps I R (c x)) \<Longrightarrow> (\<And>x. keeps I R (d x)) \<Longrightarrow>
   (\<And>x. keeps I R (e x)) \<Longrightarrow> (\<And>x. keeps I R (f x)) \<Longrightarrow> (\<And>x. keeps I R (g x)) \<Longrightarrow> keeps I R h \<Longrightarrow>
   keeps I R (case z of ODeployment x \<Rightarrow> a x | OService x \<Rightarrow> b x | OServiceAccount x \<Rightarrow> c x | OStatefulSet x \<Rightarrow> d x
     | OConfigMap x \<Rightarrow> e x | OSecret x \<Rightarrow> f x | OStorage x \<Rightarrow> g x | ONil \<Rightarrow> h)"
  by (cases z) simp_all

lemma objects_safe [keeps_rules]: "preserves I (deleteObject cl ob)" "preserves I (applyObject cl ob)"
  unfolding deleteObject_def applyObject_def applyStatefulSet_def by (rule keeps_rules kinds)+

lemma reconcileOne_safe [keeps_rules]: "preserves I r \<Longrightarrow> preserves I (reconcileOne cl r)"
  unfolding reconcileOne_def by (rule keeps_rules | assumption)+

text \<open>A list of resources is applied safely when each of them is computed safely.\<close>

lemma resources_safe [keeps_rules]:
  "preserves I (ReconcileResources cl [])"
  "preserves I r \<Longrightarrow> preserves I (ReconcileResources cl rs) \<Longrightarrow> preserves I (ReconcileResources cl (r # rs))"
  "preserves I (ReconcileResources cl rs) \<Longrightarrow> preserves I (ReconcileResources cl rs') \<Longrightarrow>
   preserves I (ReconcileResources cl (rs @ rs'))"
  unfolding ReconcileResources_def by (auto simp: forE_append intro!: preserves_ret preserves_bindE reconcileOne_safe)

lemma resources_all: "list_all (preserves I) rs \<Longrightarrow> preserves I (ReconcileResources cl rs)"
  by (induction rs) (simp_all add: resources_safe)

section \<open>Storage_Config\<close>

lemma storage_config_parts [keeps_rules]:
  "preserves I (getValueFromSecret cl ref namespace)"
  "preserves I (GetValueFromSecret cl ref namespace)"
  "preserves I (getStorageObject cl namespaceName)"
  "preserves I (GetStorageConfig y cl namespaceName)"
  "preserves I (GetStorageHash x y cl namespaceName)"
  "preserves I (VolumesAndVolumeMountsForStorage cl namespaceName)"
  unfolding getValueFromSecret_def GetValueFromSecret_def getStorageObject_def GetStorageConfig_def
    GetStorageHash_def VolumesAndVolumeMountsForStorage_def
  by (rule keeps_rules kinds)+

section \<open>Workload_Common\<close>

lemma getOr_safe [keeps_rules]: "safeKind k I anyObject \<Longrightarrow> preserves I (getOr k ob)"
  unfolding getOr_def by (rule keeps_rules plainKind | assumption)+

section \<open>Controller_Common\<close>

lemma controller_common_parts [keeps_rules]:
  "preserves I (fetchService cl ob)"
  unfolding fetchService_def
  by (rule keeps_rules kinds)+

lemma fetchThen_safe [keeps_rules]:
  "safeKind k I Q \<Longrightarrow> (\<And>ob. Q ob \<Longrightarrow> preserves I (f ob)) \<Longrightarrow> preserves I (fetchThen k req f)"
  unfolding fetchThen_def
  by (rule keeps_handleE [OF safeKind_calls(1)], assumption) (simp_all only: sum.case, (rule keeps_rules)+)

section \<open>Web_Config\<close>

lemma web_config_parts [keeps_rules]:
  "preserves I (createBasicAuthUsers cl namespace basicAuths)"
  "preserves I (CreateWebConfig yamlWeb cl namespace webConfig)"
  "preserves I (webConfigSecret yamlWeb w cl owner wc secret0)"
  unfolding createBasicAuthUsers_def CreateWebConfig_def webConfigSecret_def
  by (rule keeps_rules kinds)+

lemma withWebConfig_safe [keeps_rules]:
  "preserves I sec \<Longrightarrow> preserves I (withWebConfig x sec secretName webConfig d ct)"
  unfolding withWebConfig_def by (rule keeps_rules kinds | assumption)+

section \<open>Ingester_Workload\<close>

lemma ingester_workload_parts [keeps_rules]:
  "preserves I (ingesterStorageArgs x y w cl ig)"
  "preserves I (Ingester_statefulSet x y w cl svc ig)"
  "preserves I (Ingester_service w ig)"
  "preserves I (Ingester_New cl ig)"
  unfolding ingesterStorageArgs_def Ingester_statefulSet_def Ingester_service_def Ingester_New_def
  by (rule keeps_rules kinds)+

lemma Ingester_Reconcile_safe [keeps_rules]: "preserves I (Ingester_Reconcile x y w cl svc ig)"
  unfolding Ingester_Reconcile_def by (rule keeps_rules kinds)+

section \<open>Ingester_Controller\<close>

lemma ingesterAct_safe [keeps_rules]: "preserves I (ingesterAct x y w cl ig)"
  unfolding ingesterAct_def
  by (cases "ingesterDecision x ig") (simp only: ingester_decision.case; (rule keeps_rules kinds)+)+

lemma IngesterReconciler_safe: "preserves I (IngesterReconciler_Reconcile x y w mg cl req)"
  unfolding IngesterReconciler_Reconcile_def by (rule keeps_rules kinds)+

section \<open>Compactor_Workload\<close>

lemma compactor_workload_parts [keeps_rules]:
  "preserves I (Compactor_createRelabelConfig w cl cp)"
  "preserves I (Compactor_megerArgs y w cl cp)"
  "preserves I (Compactor_statefulSet x y w cl cp)"
  "preserves I (Compactor_New cl cp)"
  unfolding Compactor_createRelabelConfig_def Compactor_megerArgs_def Compactor_statefulSet_def
    Compactor_New_def
  by (rule keeps_rules kinds)+

lemma Compactor_Reconcile_safe [keeps_rules]: "preserves I (Compactor_Reconcile x y w cl cp)"
  unfolding Compactor_Reconcile_def by (rule keeps_rules kinds)+

section \<open>Store_Workload\<close>

lemma store_workload_parts [keeps_rules]:
  "preserves I (liveTenantIds cl st storage)"
  "preserves I (Store_createRelabelConfig w cl st)"
  "preserves I (Store_megerArgs y w cl st timeRange)"
  "preserves I (Store_statefulSet x y w cl st name sn timeRange)"
  "preserves I (Store_service w cl st name sn)"
  unfolding liveTenantIds_def Store_createRelabelConfig_def Store_megerArgs_def Store_statefulSet_def
    Store_service_def
  by (rule keeps_rules kinds)+

lemma store_lists:
  "keeps I (list_all (preserves I)) (Store_statefulSets x y w cl st)"
  "keeps I (list_all (preserves I)) (Store_services w cl st)"
  unfolding Store_statefulSets_def Store_services_def errResourcesFunc_def
  by (rule keeps_seq keeps_rules keeps_ret actions_safe)+

lemma Store_Reconcile_safe [keeps_rules]: "preserves I (Store_Reconcile x y w cl st)"
  unfolding Store_Reconcile_def
  by (rule keeps_bindE [OF store_lists(1)], rule keeps_bindE [OF store_lists(2)]) (simp add: resources_safe resources_all)

lemma StoreReconciler_Reconcile_safe [keeps_rules]: "preserves I (StoreReconciler_Reconcile x y w mg cl req)"
  unfolding StoreReconciler_Reconcile_def by (rule keeps_rules kinds)+

section \<open>Router_Workload\<close>

lemma router_workload_parts [keeps_rules]:
  "preserves I (Router_New cl ro)"
  "preserves I (addIngester cl acc item)"
  "preserves I (hashringsOf cl svc)"
  "preserves I (hashringsConfigMap rl w cl svc ro)"
  "preserves I (Router_webConfigSecret rl w cl svc ro)"
  "preserves I (Router_deployment x rl w cl svc ro)"
  "preserves I (Router_service w svc ro)"
  unfolding Router_New_def addIngester_def hashringsOf_def hashringsConfigMap_def Router_webConfigSecret_def
    Router_deployment_def Router_service_def
  by (rule keeps_rules kinds)+

lemma Router_Reconcile_safe [keeps_rules]: "preserves I (Router_Reconcile x rl w cl svc ro)"
  unfolding Router_Reconcile_def by (rule keeps_rules kinds)+

lemma RouterReconciler_Reconcile_safe [keeps_rules]: "preserves I (RouterReconciler_Reconcile x rl w mg cl req)"
  unfolding RouterReconciler_Reconcile_def by (rule keeps_rules kinds)+

section \<open>Query_Workload\<close>

lemma query_workload_parts [keeps_rules]:
  "preserves I (Query_New cl q)"
  "preserves I (proxyConfigMap w svc q)"
  "preserves I (storesConfigMap ql w svc q)"
  "preserves I (Query_webConfigSecret ql w cl svc q)"
  "preserves I (queryEndpoints cl svc)"
  "preserves I (Query_deployment x ql w cl svc q)"
  "preserves I (Query_service w svc q)"
  unfolding Query_New_def proxyConfigMap_def storesConfigMap_def Query_webConfigSecret_def queryEndpoints_def
    Query_deployment_def Query_service_def
  by (rule keeps_rules kinds)+

lemma Query_Reconcile_safe [keeps_rules]: "preserves I (Query_Reconcile x ql w cl svc q)"
  unfolding Query_Reconcile_def by (rule keeps_rules kinds)+

lemma QueryReconciler_Reconcile_safe [keeps_rules]: "preserves I (QueryReconciler_Reconcile x ql w mg cl req)"
  unfolding QueryReconciler_Reconcile_def by (rule keeps_rules kinds)+

section \<open>Frontend_Workload\<close>

lemma frontend_workload_parts [keeps_rules]:
  "preserves I (Frontend_New cl qf)"
  "preserves I (cacheConfigConfigMap fl w svc qf)"
  "preserves I (Frontend_webConfigSecret fl w cl svc qf)"
  "preserves I (Frontend_queryAddress cl svc qf)"
  "preserves I (Frontend_deployment x fl w cl svc qf)"
  "preserves I (Frontend_service w svc qf)"
  unfolding Frontend_New_def cacheConfigConfigMap_def Frontend_webConfigSecret_def Frontend_queryAddress_def
    Frontend_deployment_def Frontend_service_def
  by (rule keeps_rules kinds)+

lemma Frontend_Reconcile_safe [keeps_rules]: "preserves I (Frontend_Reconcile x fl w cl svc qf)"
  unfolding Frontend_Reconcile_def by (rule keeps_rules kinds)+

lemma QueryFrontendReconciler_Reconcile_safe [keeps_rules]: "preserves I (QueryFrontendReconciler_Reconcile x fl w mg cl req)"
  unfolding QueryFrontendReconciler_Reconcile_def by (rule keeps_rules kinds)+

section \<open>Storage_Workload\<close>

lemma storage_workload_parts [keeps_rules]:
  "preserves I (updateHashAnnotation x y cl sg)"
  "preserves I (Storage_deployment y w cl sg)"
  "preserves I (Storage_service w cl sg)"
  unfolding updateHashAnnotation_def Storage_deployment_def Storage_service_def
  by (rule keeps_rules kinds)+

lemma Storage_Reconcile_safe [keeps_rules]: "preserves I (Storage_Reconcile x y w cl sg)"
  unfolding Storage_Reconcile_def by (rule keeps_rules kinds)+

lemma StorageReconciler_Reconcile_safe [keeps_rules]: "preserves I (StorageReconciler_Reconcile x y w cl req)"
  unfolding StorageReconciler_Reconcile_def by (rule keeps_rules kinds)+

section \<open>Gateway_Workload\<close>

lemma gateway_workload_parts [keeps_rules]:
  "preserves I (Gateway_New cl gw)"
  "preserves I (tenantsAdmissionConfigMap gl w cl svc gw)"
  "preserves I (generateBuiltInBasicAuthUserSecret gl w cl svc gw)"
  "preserves I (ensureBuiltInUser gl w cl svc gw)"
  "preserves I (webConfigOf gl w cl secret0 gw wc)"
  "preserves I (Gateway_webConfigSecret gl w cl svc gw)"
  "preserves I (Gateway_queryfrontendAddress cl svc gw)"
  "preserves I (Gateway_queryAddress cl svc gw)"
  "preserves I (Gateway_remoteWriteAddress cl svc gw)"
  "preserves I (gatewayWebConfig x gl w cl svc gw)"
  "preserves I (basicAuthOf cl svc ba)"
  "preserves I (remoteQueryArgs gl cl svc rq)"
  "preserves I (queryArgsOf gl cl svc frontendAddr queryAddr)"
  "preserves I (addRemoteWrite gl cl svc acc rw)"
  "preserves I (remoteWritesArg gl cl svc)"
  "preserves I (gatewayArgs gl cl svc gw)"
  "preserves I (Gateway_deployment x gl w cl svc gw)"
  "preserves I (Gateway_service w cl svc gw)"
  unfolding Gateway_New_def tenantsAdmissionConfigMap_def generateBuiltInBasicAuthUserSecret_def
    ensureBuiltInUser_def webConfigOf_def Gateway_webConfigSecret_def Gateway_queryfrontendAddress_def
    Gateway_queryAddress_def Gateway_remoteWriteAddress_def gatewayWebConfig_def basicAuthOf_def
    remoteQueryArgs_def queryArgsOf_def addRemoteWrite_def remoteWritesArg_def gatewayArgs_def
    Gateway_deployment_def Gateway_service_def
  by (rule keeps_rules kinds)+

lemma Gateway_Reconcile_safe [keeps_rules]: "preserves I (Gateway_Reconcile x gl w cl svc gw)"
  unfolding Gateway_Reconcile_def by (rule keeps_rules kinds)+

lemma GatewayReconciler_Reconcile_safe [keeps_rules]: "preserves I (GatewayReconciler_Reconcile x gl w mg cl req)"
  unfolding GatewayReconciler_Reconcile_def by (rule keeps_rules kinds)+

section \<open>Ruler\<close>

lemma ruler_workload_parts [keeps_rules]:
  "preserves I (Ruler_New cl ru)"
  "preserves I (getBuiltInUser cl gw)"
  "preserves I (rulerGateway cl ru)"
  "preserves I (rulerQueryPart rw cl ru gw gatewayEndpoint)"
  "preserves I (addWriteProxyContainer rw cl svc ru gw gatewayEndpoint)"
  "preserves I (rulerWritePart rw cl svc ru gw gatewayEndpoint)"
  "preserves I (Ruler_service w ru shardSn)"
  "preserves I (Ruler_statefulSet lib rw w cl svc ru cmNames shardSn)"
  unfolding Ruler_New_def getBuiltInUser_def rulerGateway_def rulerQueryPart_def addWriteProxyContainer_def
    rulerWritePart_def Ruler_service_def Ruler_statefulSet_def
  by (rule keeps_rules kinds)+

lemma rules_safe [keeps_rules]:
  assumes "rulesSafe I lib"
  shows "preserves I (selectPrometheusRules lib ru)"
  using assms unfolding selectPrometheusRules_def selectNamespaces_def rulesSafe_def
  by (auto intro!: keeps_rules)

lemma ruleResources_safe: "list_all (preserves I) (ruleResources lib ru targets items)"
  unfolding ruleResources_def Let_def by (rule actions_safe preserves_ret)+

lemma ruler_lists:
  "keeps I (list_all (preserves I)) (Ruler_statefulSets lib rw w cl svc ru cmNames)"
  "keeps I (list_all (preserves I)) (Ruler_services w cl ru)"
  "rulesSafe I lib \<Longrightarrow> keeps I (\<lambda>(rs, _). list_all (preserves I) rs) (ruleConfigMaps lib cl ru)"
  unfolding Ruler_statefulSets_def Ruler_services_def ruleConfigMaps_def errResourcesFunc_def
  by (rule keeps_seq keeps_rules keeps_ret actions_safe ruleResources_safe | assumption | simp only: prod.case)+

lemma Ruler_Reconcile_safe [keeps_rules]:
  assumes "rulesSafe I lib"
  shows "preserves I (Ruler_Reconcile lib rw w cl svc ru)"
  unfolding Ruler_Reconcile_def
  by (rule keeps_bindE [OF ruler_lists(3) [OF assms]], rule keeps_prod, rule keeps_bindE [OF ruler_lists(1)],
      rule keeps_bindE [OF ruler_lists(2)]) (simp add: resources_safe resources_all)

lemma RulerReconciler_Reconcile_safe [keeps_rules]:
  "rulesSafe I lib \<Longrightarrow> preserves I (RulerReconciler_Reconcile lib rw w mg cl req)"
  unfolding RulerReconciler_Reconcile_def by (rule keeps_rules kinds | assumption)+

end

end
