(* ===== verification/Controller_System.thy ===== *)
theory Controller_System
  imports Workload_Safety
begin

text \<open>
  The ten controllers together.  The tenant controller is the one that writes the lists of tenants of
  ingesters and compactors; it keeps the capacity of both, whatever the answers of the API server are and
  whoever else writes, as long as the objects it reads keep the rules.  With the other controllers
  (\<open>Workload_Safety\<close>) this gives an invariant of the whole system: of every sequence of reconciliations
  and of changes by users, in any order and with any failures.
\<close>

section \<open>Tenants of an ingester\<close>

lemma ingesterOk_simps [simp]:
  "ingesterOk n (mergeMetadata ig c) = ingesterOk n ig" "ingesterOk n (ig\<lparr>om_Annotations := a\<rparr>) = ingesterOk n ig"
  by (simp_all add: ingesterOk_def)

lemma ingesterOk_remove:
  "ingesterOk n ig \<Longrightarrow> ingesterOk n (ig\<lparr>ig_Spec := (ig_Spec ig)\<lparr>ig_Tenants := removeString (ig_Tenants (ig_Spec ig)) t\<rparr>\<rparr>)"
  by (auto simp: ingesterOk_def removeString_filter intro: order_trans [OF of_nat_mono [OF length_filter_le]])

lemma ingesterOk_add:
  assumes "ingesterOk n ig" and "tenantId t \<notin> set (ig_Tenants (ig_Spec ig))" and "int (length (ig_Tenants (ig_Spec ig))) < n"
  shows "ingesterOk n (addTenantToIngesterInstance t ig)"
  using assms by (auto simp: ingesterOk_def addTenantToIngesterInstance_def Let_def)

lemma ingesterOk_new: "1 \<le> n \<Longrightarrow> ingesterOk n (createIngesterInstance svc name t excl)"
  by (simp add: ingesterOk_def createIngesterInstance_def Let_def)

text \<open>The service the tenant controller works with, when it has one.\<close>

abbreviation maybeService :: "int \<Rightarrow> int \<Rightarrow> service option \<Rightarrow> bool" where
  "maybeService n m svc \<equiv> (\<forall>sv. svc = Some sv \<longrightarrow> serviceOk n m sv)"

lemma pickIngester_ok:
  assumes pick: "pickIngester svc t mp i k = Inr ig" and pos: "1 \<le> n" and svc: "maybeService n m svc"
    and mp: "\<And>ig. ig \<in> snd ` set mp \<Longrightarrow> ingesterOk n ig \<and> tenantId t \<notin> set (ig_Tenants (ig_Spec ig))"
  shows "ingesterOk n ig"
  using pick
proof (induction k arbitrary: i)
  case 0
  then show ?case using pos by (auto simp: ingesterOk_def zero_defs)
next
  case (Suc k)
  then obtain name where name: "createIngesterInstanceName svc t [itoaNat i] = Inr name"
    by (cases "createIngesterInstanceName svc t [itoaNat i]") auto
  show ?case
  proof (cases "map_of mp name")
    case None
    with Suc.prems name show ?thesis by (auto simp: ingesterOk_new pos)
  next
    case (Some found)
    then have found: "ingesterOk n found" "tenantId t \<notin> set (ig_Tenants (ig_Spec found))"
      using mp map_of_SomeD [OF Some] by force+
    show ?thesis
      using Suc name Some found svc
      by (auto simp: serviceSpec_def serviceOk_def intro!: ingesterOk_add split: option.splits if_splits)
  qed
qed

lemma values_alistUpdate: "snd ` set (alistUpdate k v xs) \<subseteq> insert v (snd ` set xs)"
  by (induction k v xs rule: alistUpdate.induct) auto

lemma values_alistDelete: "snd ` set (alistDelete k xs) \<subseteq> snd ` set xs"
  by (auto simp: alistDelete_def)

lemma ingesterMapping_values: "ig \<in> snd ` set (ingesterMapping items) \<Longrightarrow> ig \<in> set items"
proof (induction items rule: rev_induct)
  case Nil
  then show ?case by (simp add: ingesterMapping_def)
next
  case (snoc a items)
  then show ?case
    using values_alistUpdate [of "om_Name a" a "ingesterMapping items"] by (auto simp: ingesterMapping_snoc)
qed

section \<open>Tenants of a compactor\<close>

lemma compactorOk_simps [simp]:
  "compactorOk m (mergeMetadata cp c) = compactorOk m cp" "compactorOk m (cp\<lparr>om_Finalizers := f\<rparr>) = compactorOk m cp"
  by (simp_all add: compactorOk_def)

lemma compactorOk_remove:
  "compactorOk m cp \<Longrightarrow> compactorOk m (cp\<lparr>cp_Spec := (cp_Spec cp)\<lparr>cp_Tenants := removeString (compactorTenants cp) t\<rparr>\<rparr>)"
  by (auto simp: compactorOk_def removeString_filter intro: order_trans [OF of_nat_mono [OF length_filter_le]])

lemma compactorWithRoom_ok:
  assumes "compactorWithRoom svc t items = Inr (Some cp)" and "maybeService n m svc"
  shows "compactorOk m cp"
  using assms(1)
  by (induction items) (use assms(2) in \<open>auto simp: serviceSpec_def serviceOk_def compactorOk_def split: option.splits if_splits\<close>)

lemma compactorOk_new:
  "1 \<le> m \<Longrightarrow> createCompactorInstance svc t = Inr cp \<Longrightarrow> compactorOk m cp"
  "1 \<le> m \<Longrightarrow> compactorOk m (createExclusiveCompactorInstance svc t)"
  by (auto simp: compactorOk_def createCompactorInstance_def createExclusiveCompactorInstance_def Let_def bindR_Inr_iff
      split: sum.splits)

section \<open>The tenant controller\<close>

text \<open>\<^verbatim>\<open>mergo.Merge\<close> fills an empty list from the template and leaves any other list as it is.\<close>

definition mergeTenants :: "merge_lib \<Rightarrow> bool" where
  "mergeTenants mg \<longleftrightarrow> (\<forall>a b c. mg_compactor mg a b = Inr c \<longrightarrow>
     cp_Tenants c = (if cp_Tenants a = [] then cp_Tenants b else cp_Tenants a))"

context served
begin

lemma positive: "1 \<le> n" "1 \<le> m"
  using serves by (simp_all add: serves_def)

lemma writes:
  "ingesterOk n ig \<Longrightarrow> preserves I (CreateOrUpdate (ingesters cl) ig)"
  "compactorOk m cp \<Longrightarrow> preserves I (CreateOrUpdate (compactors cl) cp)"
  "compactorOk m cp \<Longrightarrow> preserves I (kUpdate (compactors cl) cp)"
  unfolding CreateOrUpdate_def
  by (rule upsert_preserves [OF kinds(1)], simp_all) (rule upsert_preserves [OF kinds(2)] safeKind_preserves(4) [OF kinds(2)], simp_all)+

lemma needReset_safe [keeps_rules]: "preserves I (needResetIngester cl svc t)" "preserves I (needResetCompactor cl svc t)"
  unfolding needResetIngester_def needResetCompactor_def by (rule keeps_rules)+

lemma emptied: "ingesterOk n ig \<Longrightarrow> keeps I (ingesterOk n) (if c then liftE (markDeleting x svc ig) else ret ig)"
  by (rule keeps_if; rule keeps_liftE keeps_ret) (auto simp: markDeleting_def bindR_Inr_iff)

lemma removeIngester_safe [keeps_rules]: "preserves I (removeTenantFromIngesterbyName x cl svc t ns name)"
  unfolding removeTenantFromIngesterbyName_def Let_def
  by (rule keeps_handleE [OF safeKind_calls(1) [OF kinds(1)]]; simp only: sum.case;
      (rule keeps_bindE [OF emptied [OF ingesterOk_remove]] writes keeps_rules | assumption)+)

lemma ingesterRelease_safe [keeps_rules]: "preserves I (ingesterRelease x cl svc t)"
  unfolding ingesterRelease_def dropTenantStatus_def by (rule keeps_rules)+

lemma bindTenantTo_safe: "ingesterOk n ig \<Longrightarrow> preserves I (bindTenantTo cl t ig)"
  unfolding bindTenantTo_def by (rule keeps_rules writes | assumption)+

lemma ingesterAllocate_safe:
  assumes range: "rangeOrder (x_rangeIngesters x)" and svc: "maybeService n m svc"
  shows "preserves I (ingesterAllocate x cl svc t)"
  unfolding ingesterAllocate_def Let_def
proof (rule keeps_bindE [OF safeKind_calls(2) [OF kinds(1)]])
  fix items
  assume items: "list_all (ingesterOk n) items"
  let ?mp = "ingesterMapping items"
  let ?found = "find (\<lambda>p. containsString (ig_Tenants (ig_Spec (snd p))) (tenantId t)) (x_rangeIngesters x ?mp)"
  have pick: "keeps I (ingesterOk n) (liftE (pickIngester svc t ?mp 0 (length ?mp + 1)))" if none: "?found = None"
  proof (rule keeps_liftE, rule pickIngester_ok [OF _ positive(1) svc])
    fix ig
    assume "ig \<in> snd ` set ?mp"
    then show "ingesterOk n ig \<and> tenantId t \<notin> set (ig_Tenants (ig_Spec ig))"
      using none items ingesterMapping_values [of ig items] rangeOrder_set [OF range, of ?mp]
      by (auto simp: find_None_iff list_all_iff)
  qed
  show "preserves I (case ?found of None \<Rightarrow> bindE (liftE (pickIngester svc t ?mp 0 (length ?mp + 1))) (bindTenantTo cl t)
      | Some (_, ig) \<Rightarrow> kStatusUpdate (tenants cl) (setStatusIngester (Some (refTo ig)) t))"
    by (rule keeps_option) (rule keeps_bindE [OF pick] bindTenantTo_safe keeps_rules | assumption)+
qed

lemma ingester_safe [keeps_rules]:
  assumes "rangeOrder (x_rangeIngesters x)" and "maybeService n m svc"
  shows "preserves I (Tenant_ingester x cl svc t)"
  unfolding Tenant_ingester_def ingesterBind_def
  by (rule keeps_rules bindTenantTo_safe ingesterOk_new positive ingesterAllocate_safe assms)+

lemma removeCompactor_safe [keeps_rules]: "preserves I (removeTenantFromCompactorByName cl t ns name)"
  unfolding removeTenantFromCompactorByName_def Let_def
  by (rule keeps_handleE [OF safeKind_calls(1) [OF kinds(2)]]; simp only: sum.case;
      (rule writes keeps_rules | assumption | simp add: compactorOk_remove)+)

lemma compactorAllocate_safe:
  assumes svc: "maybeService n m svc"
  shows "preserves I (compactorAllocate cl svc t)"
proof -
  have room: "keeps I (\<lambda>room. \<forall>cp. room = Some cp \<longrightarrow> compactorOk m cp) (liftE (compactorWithRoom svc t items))" for items
    by (rule keeps_liftE) (auto intro: compactorWithRoom_ok [OF _ svc])
  have new: "keeps I (compactorOk m) (case room of Some cp \<Rightarrow> ret cp | None \<Rightarrow> liftE (createCompactorInstance svc t))"
    if "\<forall>cp. room = Some cp \<longrightarrow> compactorOk m cp" for room
    using that by (cases room) (auto intro!: keeps_ret keeps_liftE intro: compactorOk_new(1) positive simp del: liftE_def)
  show ?thesis
    unfolding compactorAllocate_def Let_def
    by (rule keeps_bindE [OF room] keeps_bindE [OF new] writes keeps_rules | assumption)+
qed

lemma compactor_safe [keeps_rules]:
  assumes "maybeService n m svc"
  shows "preserves I (Tenant_compactor cl svc t)"
  unfolding Tenant_compactor_def compactorBind_def compactorRelease_def
  by (rule writes compactorOk_new positive compactorAllocate_safe assms keeps_rules)+

lemma ruler_safe [keeps_rules]: "preserves I (Tenant_ruler x cl svc t)"
  unfolding Tenant_ruler_def by (rule keeps_rules kinds)+

lemma collectStores_safe [keeps_rules]: "preserves I (collectStores cl items current)"
  by (induction items arbitrary: current) (auto simp: Let_def intro!: keeps_rules)

lemma store_parts [keeps_rules]: "preserves I (refreshStore x y cl e)" "preserves I (createStore x y cl e)" "preserves I (deleteElem cl e)"
  unfolding refreshStore_def createStore_def deleteElem_def by (rule keeps_rules)+

lemma matchStores_safe [keeps_rules]: "preserves I (matchStores x y cl ks maps)"
proof (induction ks arbitrary: maps)
  case Nil
  show ?case by (cases maps) (simp only: matchStores.simps preserves_ret)
next
  case (Cons k ks)
  show ?case by (cases maps) (simp only: matchStores.simps, (rule keeps_rules Cons)+)
qed

lemma store_safe [keeps_rules]: "preserves I (Tenant_store x y cl svc)"
  unfolding Tenant_store_def sortTenantsByStorageAndService_def by (rule keeps_rules)+

lemma Tenant_New_gives: "keeps I (serviceOk n m) (Tenant_New cl t)"
  unfolding Tenant_New_def SetService_def Let_def
  by (rule keeps_if keeps_failE keeps_seq keeps_rules keeps_bindE [OF safeKind_calls(1) [OF kinds(3)]] keeps_ret
      | simp add: serviceOk_def withServiceDefaults_def Let_def)+

theorem TenantReconciler_safe:
  assumes "rangeOrder (x_rangeIngesters x)"
  shows "preserves I (TenantReconciler_Reconcile x y cl req)"
  unfolding TenantReconciler_Reconcile_def Tenant_Reconcile_def
  by (rule keeps_bindE [OF Tenant_New_gives] keeps_rules assms | simp)+

lemma fetchService_gives: "keeps I (serviceOk n m) (fetchService cl ob)"
  unfolding fetchService_def by (rule keeps_option keeps_failE safeKind_calls(1) [OF kinds(3)])+

lemma template_tenants:
  "cp_Tenants (compactor_spec.truncate (sv_CompactorTemplateSpec (sv_Spec (ApplyDefaults w sv)))) =
   cp_Tenants (sv_CompactorTemplateSpec (sv_Spec sv))"
  by (simp add: ApplyDefaults_def Let_def fillCommon_def compactor_spec.defs)

lemma merged:
  assumes "mergeTenants mg" and "compactorOk m inst" and "serviceOk n m sv"
    and "applyConfigurationFromCompactorTemplateSpec mg inst (sv_CompactorTemplateSpec (sv_Spec (ApplyDefaults w sv))) = Inr cp"
  shows "compactorOk m cp"
  using assms by (auto simp: mergeTenants_def compactorOk_def serviceOk_def applyConfigurationFromCompactorTemplateSpec_def
      bindR_Inr_iff template_tenants)

theorem CompactorReconciler_safe:
  assumes "mergeTenants mg"
  shows "preserves I (CompactorReconciler_Reconcile x y w mg cl req)"
  unfolding CompactorReconciler_Reconcile_def
  by (rule keeps_bindE [OF fetchService_gives] keeps_bindE [OF keeps_liftE [OF merged [OF assms]]] writes keeps_rules kinds
    | simp)+

end

section \<open>The system\<close>

text \<open>
  What the controllers are built with, the clock and the order of map iteration apart, which differ from one
  reconciliation to the next.
\<close>

record 's libs =
  lb_yaml :: yaml_lib
  lb_w :: wlib
  lb_merge :: merge_lib
  lb_router :: router_lib
  lb_query :: query_lib
  lb_frontend :: frontend_lib
  lb_gateway :: gateway_lib
  lb_rules :: "'s rule_lib"
  lb_ruler :: ruler_wlib

datatype turn = TenantTurn nsname | IngesterTurn nsname | CompactorTurn nsname | StoreTurn nsname | RouterTurn nsname
  | QueryTurn nsname | FrontendTurn nsname | GatewayTurn nsname | RulerTurn nsname | StorageTurn nsname

abbreviation ignoring :: "('s, 'a) act \<Rightarrow> ('s, unit) act" where
  "ignoring m \<equiv> bindE m (\<lambda>_. ret ())"

definition takeTurn :: "'s libs \<Rightarrow> 's client \<Rightarrow> ext \<Rightarrow> turn \<Rightarrow> ('s, unit) act" where
  "takeTurn lb cl x u = (case u of
       TenantTurn req \<Rightarrow> TenantReconciler_Reconcile x (lb_yaml lb) cl req
     | IngesterTurn req \<Rightarrow> ignoring (IngesterReconciler_Reconcile x (lb_yaml lb) (lb_w lb) (lb_merge lb) cl req)
     | CompactorTurn req \<Rightarrow> ignoring (CompactorReconciler_Reconcile x (lb_yaml lb) (lb_w lb) (lb_merge lb) cl req)
     | StoreTurn req \<Rightarrow> ignoring (StoreReconciler_Reconcile x (lb_yaml lb) (lb_w lb) (lb_merge lb) cl req)
     | RouterTurn req \<Rightarrow> ignoring (RouterReconciler_Reconcile x (lb_router lb) (lb_w lb) (lb_merge lb) cl req)
     | QueryTurn req \<Rightarrow> ignoring (QueryReconciler_Reconcile x (lb_query lb) (lb_w lb) (lb_merge lb) cl req)
     | FrontendTurn req \<Rightarrow> ignoring (QueryFrontendReconciler_Reconcile x (lb_frontend lb) (lb_w lb) (lb_merge lb) cl req)
     | GatewayTurn req \<Rightarrow> ignoring (GatewayReconciler_Reconcile x (lb_gateway lb) (lb_w lb) (lb_merge lb) cl req)
     | RulerTurn req \<Rightarrow> ignoring (RulerReconciler_Reconcile (lb_rules lb) (lb_ruler lb) (lb_w lb) (lb_merge lb) cl req)
     | StorageTurn req \<Rightarrow> ignoring (StorageReconciler_Reconcile x (lb_yaml lb) (lb_w lb) cl req))"

definition libsOk :: "('s \<Rightarrow> bool) \<Rightarrow> 's libs \<Rightarrow> bool" where
  "libsOk I lb \<longleftrightarrow> mergeTenants (lb_merge lb) \<and> rulesSafe I (lb_rules lb)"

text \<open>
  A run: any controller reconciles any request, succeeding or failing, and between two reconciliations users
  change the objects as \<open>user\<close> allows them to.
\<close>

inductive run :: "'s libs \<Rightarrow> 's client \<Rightarrow> ('s \<Rightarrow> 's \<Rightarrow> bool) \<Rightarrow> 's \<Rightarrow> 's \<Rightarrow> bool" for lb cl user where
  start: "run lb cl user s s"
| controller: "run lb cl user s a \<Longrightarrow> rangeOrder (x_rangeIngesters x) \<Longrightarrow> takeTurn lb cl x u a = (r, b) \<Longrightarrow> run lb cl user s b"
| user: "run lb cl user s a \<Longrightarrow> user a b \<Longrightarrow> run lb cl user s b"

context served
begin

lemma takeTurn_safe:
  assumes "rangeOrder (x_rangeIngesters x)" and "libsOk I lb"
  shows "preserves I (takeTurn lb cl x u)"
  using assms unfolding takeTurn_def libsOk_def
  by (cases u) (simp_all only: turn.case, (rule TenantReconciler_safe IngesterReconciler_safe CompactorReconciler_safe keeps_rules
    | simp)+)

lemma run_keeps:
  assumes "run lb cl user s s'" and "libsOk I lb" and "\<And>a b. I a \<Longrightarrow> user a b \<Longrightarrow> I b" and "I s"
  shows "I s'"
  using assms(1,4)
proof (induction rule: run.induct)
  case (controller s a x u r b)
  then show ?case using keepsD(1) [OF takeTurn_safe] by (metis snd_conv assms(2))
qed (use assms in blast)+

end

section \<open>The concrete client\<close>

lemma memKind_safe:
  fixes sel :: "cluster \<Rightarrow> 'a object_meta_scheme kstore"
  assumes sel: "\<And>c f. sel (upd f c) = f (sel c)" and I: "\<And>c ob. I c \<Longrightarrow> ob \<in> snd ` set (sel c) \<Longrightarrow> Q ob"
    and upd: "\<And>c f. I c \<Longrightarrow> (\<And>ob. ob \<in> snd ` set (f (sel c)) \<Longrightarrow> Q ob) \<Longrightarrow> I (upd f c)"
    and Q: "\<And>old ob. Q (keep old ob) = Q ob" "\<And>ob v. Q (ob\<lparr>om_ResourceVersion := v\<rparr>) = Q ob" "\<And>ob v. Q (ob\<lparr>om_UID := v\<rparr>) = Q ob"
      "\<And>ob v. Q (ob\<lparr>om_Name := v\<rparr>) = Q ob" "\<And>ob v. Q (ob\<lparr>om_DeletionTimestamp := v\<rparr>) = Q ob"
  shows "safeKind (memKind sel upd keep) I Q"
proof -
  have member: "Q ob" if "I c" "(key, ob) \<in> set (sel c)" for c key ob
    using I [OF that(1)] that(2) by force
  have stored: "Q ob" if "I c" "map_of (sel c) key = Some ob" for c key ob
    using member [OF that(1) map_of_SomeD [OF that(2)]] .
  have put: "I (upd (alistUpdate key ob) c)" if "I c" "Q ob" for c key ob
  proof (rule upd [OF that(1)])
    fix ob'
    assume "ob' \<in> snd ` set (alistUpdate key ob (sel c))"
    then show "Q ob'" using values_alistUpdate [of key ob "sel c"] that I by blast
  qed
  have del: "I (upd (alistDelete key) c)" if "I c" for c key
  proof (rule upd [OF that])
    fix ob
    assume "ob \<in> snd ` set (alistDelete key (sel c))"
    then show "Q ob" using values_alistDelete [of key "sel c"] that I by blast
  qed
  have putOb: "I (upd (putObject ob) c)" if "I c" "Q ob" for c ob
    using put [OF that] del [OF that(1)] unfolding putObject_def [abs_def] by (cases "om_DeletionTimestamp ob = None \<or> om_Finalizers ob \<noteq> []") auto
  note [simp] = memKind_def Let_def asStored_def Q list_all_iff put putOb del
  have retry: "I (snd (snd (f d s)))" if "\<forall>d. Q d \<longrightarrow> (\<forall>s. I s \<longrightarrow> (case f d s of (_, d', s') \<Rightarrow> Q d' \<and> I s'))" "Q d" "I s" for f d s
    using that by (metis (no_types, lifting) case_prod_unfold)
  show ?thesis
    unfolding safeKind_def keeps_def
    by (intro conjI allI impI)
      (auto intro: stored split: option.splits if_splits, erule (1) member, simp add: stored, simp add: stored, (erule retry, assumption+))
qed

definition clusterOk :: "int \<Rightarrow> int \<Rightarrow> cluster \<Rightarrow> bool" where
  "clusterOk n m c \<longleftrightarrow> list_all (ingesterOk n) (map snd (c_ingesters c)) \<and> list_all (compactorOk m) (map snd (c_compactors c)) \<and>
     list_all (serviceOk n m) (map snd (c_services c))"

lemma nullKind_safe: "safeKind nullKind I anyObject"
  unfolding safeKind_def keeps_def nullKind_def by (auto simp: case_prod_unfold)

lemma memClient_serves:
  assumes "1 \<le> n" "1 \<le> m"
  shows "serves memClient (clusterOk n m) n m"
proof -
  have ig: "safeKind (memKind c_ingesters c_ingesters_update keepIngester) (clusterOk n m) (ingesterOk n)"
    by (rule memKind_safe) (auto simp: clusterOk_def list_all_iff ingesterOk_def)
  have cp: "safeKind (memKind c_compactors c_compactors_update keepNone) (clusterOk n m) (compactorOk m)"
    by (rule memKind_safe) (auto simp: clusterOk_def list_all_iff compactorOk_def keepNone_def)
  have sv: "safeKind (memKind c_services c_services_update keepNone) (clusterOk n m) (serviceOk n m)"
    by (rule memKind_safe) (auto simp: clusterOk_def list_all_iff serviceOk_def keepNone_def)
  have others: "safeKind (memKind c_tenants c_tenants_update keepTenant) (clusterOk n m) anyObject"
    "safeKind (memKind c_rulers c_rulers_update keepNone) (clusterOk n m) anyObject"
    "safeKind (memKind c_stores c_stores_update keepNone) (clusterOk n m) anyObject"
    "safeKind (memKind c_storages c_storages_update keepNone) (clusterOk n m) anyObject"
    by (rule memKind_safe; simp add: clusterOk_def)+
  show ?thesis
    using assms by (simp add: serves_def memClient_def ig cp sv others nullKind_safe)
qed

interpretation mem: served memClient "clusterOk (max 1 n) (max 1 m)" "max 1 n" "max 1 m" for n m
  by unfold_locales (simp add: memClient_serves)

section \<open>Properties\<close>

text \<open>
  C4: an ingester never lists a tenant twice and never holds more tenants than any service allows, and a
  compactor never holds more tenants than any service allows.
  This holds in every state that the ten controllers and the users reach together: any
  controller may reconcile any request at any time, a reconciliation may fail at any call, the
  reads may be out of date, and others may write between two calls, as long as users do not
  break the rule themselves.
\<close>

theorem capacity_invariant:
  assumes "serves cl I n m" and "libsOk I lb" and "\<And>a b. I a \<Longrightarrow> user a b \<Longrightarrow> I b"
    and "I s" and "run lb cl user s s'"
  shows "(\<forall>opts igs s'' ig. kList (ingesters cl) opts s' = (Inr igs, s'') \<longrightarrow> ig \<in> set igs \<longrightarrow>
      distinct (ingesterTenants ig) \<and> int (length (ingesterTenants ig)) \<le> n) \<and>
    (\<forall>opts cps s'' cp. kList (compactors cl) opts s' = (Inr cps, s'') \<longrightarrow> cp \<in> set cps \<longrightarrow>
      int (length (compactorTenants cp)) \<le> m)"
proof -
  have "served cl I n m" using assms(1) by (rule served.intro)
  note served = served.run_keeps [OF this assms(5,2,3,4)] served.kinds(1,2) [OF this]
  have "list_all (ingesterOk n) igs" if "kList (ingesters cl) opts s' = (Inr igs, s'')" for opts igs s''
    using keepsD(2) [OF safeKind_calls(2) [OF served(2)] served(1) that] .
  moreover have "list_all (compactorOk m) cps" if "kList (compactors cl) opts s' = (Inr cps, s'')" for opts cps s''
    using keepsD(2) [OF safeKind_calls(2) [OF served(3)] served(1) that] .
  ultimately show ?thesis by (auto simp: list_all_iff ingesterOk_def compactorOk_def)
qed

definition exLibs :: "cluster libs" where
  "exLibs = \<lparr>lb_yaml = exYaml, lb_w = exWlib, 
     lb_merge = exMerge\<lparr>mg_compactor := \<lambda>a b. Inr (if cp_Tenants a = [] then a\<lparr>cp_Tenants := cp_Tenants b\<rparr> else a)\<rparr>,
     lb_router = \<lparr>ro_jsonHashrings = (\<lambda>_. Inr []), ro_yamlWeb = (\<lambda>_. Inr [])\<rparr>,
     lb_query = \<lparr>ql_yamlTargets = (\<lambda>_. Inr []), ql_yamlWeb = (\<lambda>_. Inr [])\<rparr>,
     lb_frontend = \<lparr>fl_yamlCache = (\<lambda>_ _. Inr []), fl_yamlTripper = (\<lambda>_. Inr []), fl_yamlWeb = (\<lambda>_. Inr [])\<rparr>,
     lb_gateway = exGatewayLib, lb_rules = exRuleLib, lb_ruler = exRulerLib\<rparr>"

theorem capacity_invariant_witness:
  "let t = exTenant ''t1'' Map.empty; s = exCluster [t] [] [];
       s' = snd (takeTurn exLibs memClient exExt (TenantTurn (objectKey t)) s)
   in list_all (\<lambda>ig. distinct (ingesterTenants ig) \<and> int (length (ingesterTenants ig)) \<le> 3) (map snd (c_ingesters s')) \<and>
     list_all (\<lambda>cp. int (length (compactorTenants cp)) \<le> 10) (map snd (c_compactors s'))"
proof -
  let ?t = "exTenant ''t1'' Map.empty"
  let ?s = "exCluster [?t] [] []"
  let ?r = "takeTurn exLibs memClient exExt (TenantTurn (objectKey ?t)) ?s"
  have run: "run exLibs memClient (\<lambda>_ _. False) ?s (snd ?r)"
    by (rule run.controller [OF run.start _ prod.collapse [symmetric]]) (simp add: exExt_def rangeOrder_id)
  have libs: "libsOk (clusterOk 3 10) exLibs"
    by (simp add: libsOk_def exLibs_def mergeTenants_def exMerge_def rulesSafe_def exRuleLib_def keeps_def)
  have start: "clusterOk 3 10 ?s"
    by (simp add: clusterOk_def exCluster_def serviceOk_def exService_def zero_defs)
  have list: "kList (ingesters memClient) \<lparr>lo_Namespace = [], lo_Labels = Map.empty\<rparr> (snd ?r) =
      (Inr (map snd (c_ingesters (snd ?r))), snd ?r)"
    by (simp add: memClient_def memKind_def matchesOpts_def)
  have list2: "kList (compactors memClient) \<lparr>lo_Namespace = [], lo_Labels = Map.empty\<rparr> (snd ?r) =
      (Inr (map snd (c_compactors (snd ?r))), snd ?r)"
    by (simp add: memClient_def memKind_def matchesOpts_def)
  have serves: "serves memClient (clusterOk 3 10) 3 10" by (rule memClient_serves) simp_all
  have idle: "clusterOk 3 10 b" if "clusterOk 3 10 a" "False" for a b using that by simp
  note inv = capacity_invariant [OF serves libs idle start run]
  show ?thesis
    unfolding Let_def list_all_iff
    using conjunct1 [OF inv, rule_format, OF _ _ list] conjunct2 [OF inv, rule_format, OF _ _ list2] list list2 by blast
qed

text \<open>
  C38: create-or-update reads the version of the stored object again before it writes, so a
  write that was computed from a stale copy is never refused.  A tenant that another
  reconciliation has added to the ingester meanwhile is dropped from it without an error.
\<close>

theorem stale_binding_lost:
  assumes ok: "clientOk cl V" and wf: "storeWf (c_ingesters (V s))" and named: "om_Name stale \<noteq> []" and alive: "om_DeletionTimestamp stale = None"
    and stored: "map_of (c_ingesters (V s)) (objectKey stale) = Some current"
    and added: "other \<in> set (ingesterTenants current)" and unseen: "other \<notin> set (ingesterTenants stale)"
    and cur: "map_of (c_tenants (V s)) (objectKey t) = Some t"
  shows "\<exists>t' s' ig. bindTenantTo cl t stale s = (Inr t', s') \<and>
     map_of (c_ingesters (V s')) (objectKey stale) = Some ig \<and> other \<notin> set (ingesterTenants ig)"
proof -
  obtain ig s1 where run: "CreateOrUpdate (ingesters cl) stale s = (Inr (), s1)"
    and V: "V s1 = c_ingesters_update (alistUpdate (objectKey stale) ig) (V s)" and spec: "ig_Spec ig = ig_Spec stale"
    by (rule saveIngester [OF ok wf named alive])
  obtain t' s' where status: "kStatusUpdate (tenants cl) (setStatusIngester (Some (refTo stale)) t) s1 = (Inr t', s')"
    and same: "c_ingesters (V s') = c_ingesters (V s1)"
    by (rule writeStatusIngester [OF ok, of s1 t "Some (refTo stale)"]) (simp_all add: V cur)
  show ?thesis
    using run status unseen by (auto simp: bindTenantTo_def bindE_app same V spec)
qed

theorem stale_binding_lost_witness:
  "let now = exIngester\<lparr>ig_Spec := (ig_Spec exIngester)\<lparr>ig_Tenants := [''a'', ''t2'']\<rparr>\<rparr>; t = exTenant ''t3'' Map.empty;
       d = addTenantToIngesterInstance t exIngester; s = exCluster [t] [now] []
   in \<exists>t' s' ig. bindTenantTo memClient t d s = (Inr t', s') \<and>
        map_of (c_ingesters s') (objectKey d) = Some ig \<and> ''t2'' \<notin> set (ingesterTenants ig)"
  unfolding Let_def
  by (rule stale_binding_lost [OF memClient_ok, where current = "exIngester\<lparr>ig_Spec := (ig_Spec exIngester)\<lparr>ig_Tenants := [''a'', ''t2'']\<rparr>\<rparr>"])
    (simp_all add: addTenantToIngesterInstance_def exIngester_def exCluster_def exTenant_def zero_defs storeWf_def objectKey_def)

text \<open>
  The ingester controller deletes by name: an ingester that was given a tenant after the
  controller read it is deleted with its tenant.
\<close>

theorem stale_delete:
  assumes ok: "clientOk cl V" and old: "ingesterDecision x ig = DeleteIngester"
    and stored: "map_of (c_ingesters (V s)) (objectKey ig) = Some current" and plain: "om_Finalizers current = []"
  shows "\<exists>s'. ingesterAct x y w cl ig s = (Inr noResult, s') \<and> map_of (c_ingesters (V s')) (objectKey ig) = None"
proof -
  obtain s' where "kDelete (ingesters cl) ig s = (Inr (), s')" "V s' = c_ingesters_update (alistDelete (objectKey ig)) (V s)"
    using kindOk_delete [OF clientOk_kinds(2) [OF ok] stored] plain by auto
  then show ?thesis using old by (simp add: ingesterAct_def bindE_app)
qed

end
