(* ===== verification/Command_Line.thy ===== *)
theory Command_Line
  imports Workload_Common "HOL-Library.Sublist"
begin

text \<open>
  Command lines of the programs under \<^verbatim>\<open>cmd\<close>.  The flag libraries (\<^verbatim>\<open>kingpin\<close>, \<^verbatim>\<open>pflag\<close>) are
  parameters: a parser turns arguments into the values given to flags.  The hypothesis \<open>parserOk\<close> says
  what their documentation promises for arguments of the form \<^verbatim>\<open>--name=value\<close>, and \<^verbatim>\<open>--name\<close> for a
  boolean flag, of known names that do not repeat; \<open>parserOkFor\<close> promises it only of arguments whose values the
  parser accepts.  The values are checked and converted (durations, booleans, enumerations) by the
  definitions below, and a value that does not convert is an error of the command.
\<close>

type_synonym flags = "string \<rightharpoonup> string"

definition flagString :: "flags \<Rightarrow> string \<Rightarrow> string \<Rightarrow> string" where
  "flagString p name dflt = (case p name of None \<Rightarrow> dflt | Some v \<Rightarrow> v)"

definition flagBool :: "flags \<Rightarrow> string \<Rightarrow> bool \<Rightarrow> bool" where
  "flagBool p name dflt = (case p name of None \<Rightarrow> dflt | Some v \<Rightarrow> v = ''true'')"

text \<open>\<^verbatim>\<open>strconv.ParseBool\<close>, which \<^verbatim>\<open>pflag\<close> applies to boolean flags.\<close>

definition parseBool :: "string \<Rightarrow> bool res" where
  "parseBool v =
     (if v \<in> set [''1'', ''t'', ''T'', ''TRUE'', ''true'', ''True''] then Inr True
      else if v \<in> set [''0'', ''f'', ''F'', ''FALSE'', ''false'', ''False''] then Inr False
      else Inl (GoErr (''parsing '' @ v @ '': invalid syntax'')))"

definition flagParsedBool :: "flags \<Rightarrow> string \<Rightarrow> bool \<Rightarrow> bool res" where
  "flagParsedBool p name dflt = (case p name of None \<Rightarrow> Inr dflt | Some v \<Rightarrow> parseBool v)"

text \<open>Durations and integers are parsed when the flag is read; the default is parsed the same way.\<close>

definition flagParsed :: "(string \<Rightarrow> 'a res) \<Rightarrow> flags \<Rightarrow> string \<Rightarrow> string \<Rightarrow> 'a res" where
  "flagParsed parse p name dflt = parse (flagString p name dflt)"

text \<open>\<^verbatim>\<open>Enum\<close> of \<^verbatim>\<open>kingpin\<close>: the value of the flag is one of those listed, or the command line is refused.\<close>

definition flagEnum :: "string list \<Rightarrow> flags \<Rightarrow> string \<Rightarrow> string \<Rightarrow> string res" where
  "flagEnum options p name dflt =
     (let v = flagString p name dflt in
      if v \<in> set options then Inr v else Inl (GoErr (''enum value must be one of the options, got '' @ v)))"

text \<open>\<^verbatim>\<open>extflag.PathOrContent\<close>: one flag for a file and one for its content.\<close>

record path_or_content =
  pc_Path :: string
  pc_Content :: string

definition registerPathOrContent :: "flags \<Rightarrow> string \<Rightarrow> path_or_content" where
  "registerPathOrContent p name = \<lparr>pc_Path = flagString p (name @ ''-file'') [], pc_Content = flagString p name []\<rparr>"

section \<open>What a parser makes of generated arguments\<close>

definition flagName :: "string \<Rightarrow> string" where
  "flagName arg = takeWhile (\<lambda>c. c \<noteq> CHR ''='') (drop 2 arg)"

definition flagValue :: "string \<Rightarrow> string" where
  "flagValue arg = (if CHR ''='' \<in> set arg then drop 1 (dropWhile (\<lambda>c. c \<noteq> CHR ''='') arg) else ''true'')"

definition plainArg :: "string list \<Rightarrow> string list \<Rightarrow> string \<Rightarrow> bool" where
  "plainArg known bools arg \<longleftrightarrow> hasPrefix arg ''--'' \<and>
     (if CHR ''='' \<in> set arg then flagName arg \<in> set known else flagName arg \<in> set bools)"

definition flagsOf :: "string list \<Rightarrow> flags" where
  "flagsOf args = map_of (map (\<lambda>a. (flagName a, flagValue a)) args)"

definition parserOk :: "(string list \<Rightarrow> flags res) \<Rightarrow> string list \<Rightarrow> string list \<Rightarrow> bool" where
  "parserOk parse known bools \<longleftrightarrow>
     (\<forall>args. list_all (plainArg known bools) args \<longrightarrow> distinct (map flagName args) \<longrightarrow> parse args = Inr (flagsOf args))"

text \<open>The same for a parser that may refuse values of flags: \<open>valid n v\<close> says which it accepts.\<close>

definition parserOkFor ::
  "(string \<Rightarrow> string \<Rightarrow> bool) \<Rightarrow> (string list \<Rightarrow> flags res) \<Rightarrow> string list \<Rightarrow> string list \<Rightarrow> bool" where
  "parserOkFor valid parse known bools \<longleftrightarrow>
     (\<forall>args. list_all (plainArg known bools) args \<longrightarrow> distinct (map flagName args) \<longrightarrow>
        list_all (\<lambda>a. valid (flagName a) (flagValue a)) args \<longrightarrow> parse args = Inr (flagsOf args))"

lemma parserOk_for: "parserOk parse known bools \<Longrightarrow> parserOkFor valid parse known bools"
  by (simp add: parserOk_def parserOkFor_def)

lemma parserOk_flagsOf: "parserOk (\<lambda>args. Inr (flagsOf args)) known bools"
  by (simp add: parserOk_def)

lemma flagsOf_append: "flagsOf (xs @ ys) = flagsOf ys ++ flagsOf xs"
  by (simp add: flagsOf_def)

lemma flagsOf_Nil [simp]: "flagsOf [] = Map.empty"
  by (simp add: flagsOf_def)

lemma flagsOf_Cons: "flagsOf (a # as) = (flagsOf as)(flagName a \<mapsto> flagValue a)"
  by (simp add: flagsOf_def)

lemma flagsOf_optArg: "flagsOf (optArg p v) = (if v = [] then Map.empty else [flagName (p @ v) \<mapsto> flagValue (p @ v)])"
  by (simp add: optArg_def flagsOf_def)

lemma flags_at:
  "flagsOf (xs @ ys) n = (case flagsOf xs n of None \<Rightarrow> flagsOf ys n | Some v \<Rightarrow> Some v)"
  "flagsOf [a] n = (if n = flagName a then Some (flagValue a) else None)"
  "flagsOf (optArg p v) n = (if v = [] then None else if n = flagName (p @ v) then Some (flagValue (p @ v)) else None)"
  "flagsOf (if b then ys else zs) n = (if b then flagsOf ys n else flagsOf zs n)"
  by (simp_all add: flagsOf_append flagsOf_Cons flagsOf_optArg map_add_def split: option.split)

text \<open>An argument that is put together from a literal ending in \<^verbatim>\<open>=\<close> and a value.\<close>

lemma flag_literal:
  assumes "CHR ''='' \<notin> set n"
  shows "flagName (''--'' @ n @ ''='' @ v) = n" and "flagValue (''--'' @ n @ ''='' @ v) = v"
proof -
  have "takeWhile (\<lambda>c. c \<noteq> CHR ''='') (n @ CHR ''='' # v) = n" "dropWhile (\<lambda>c. c \<noteq> CHR ''='') (n @ CHR ''='' # v) = CHR ''='' # v"
    using assms by (auto simp: takeWhile_append dropWhile_append takeWhile_eq_all_conv dropWhile_eq_Nil_conv)
  then show "flagName (''--'' @ n @ ''='' @ v) = n" "flagValue (''--'' @ n @ ''='' @ v) = v"
    by (simp_all add: flagName_def flagValue_def)
qed

text \<open>Optional arguments in a fixed order do not repeat a name.\<close>

lemma subseq_distinct: "subseq xs ys \<Longrightarrow> distinct ys \<Longrightarrow> distinct xs"
  by (induction rule: list_emb.induct) (auto dest: list_emb_set)

lemma flagNames_optArg: "subseq (map flagName (optArg p v)) [flagName (p @ v)]"
  by (simp add: optArg_def)

lemma flagNames_if: "subseq (map flagName (if b then [a] else [])) [flagName a]"
  by simp

end
