(* ===== verification/Gateway_Process.thy ===== *)
theory Gateway_Process
  imports Command_Line Gateway_Watcher Gateway_Workload
begin

text \<open>
  \<^verbatim>\<open>cmd/monitoring-gateway/gateway.go\<close>, \<^verbatim>\<open>main.go\<close> and \<^verbatim>\<open>pkg/monitoring-gateway/config.go\<close>: how the gateway
  process is configured from its command line and put together.  The flag parser, the readers of
  files, the YAML decoders and the HTTP transports of the Prometheus library are the parameters
  \<open>gateway_plib\<close>; the handlers the process serves are those of \<open>Gateway_Handler\<close>, the loop that follows
  the tenants file that of \<open>Gateway_Watcher\<close>.  The last part connects the process with the deployment
  the gateway controller writes.
\<close>

section \<open>config.go\<close>

record http_flags =
  hf_BindAddr :: string
  hf_GracePeriod :: int
  hf_TLSConfig :: string

definition RegisterHTTPFlags :: "(string \<Rightarrow> int res) \<Rightarrow> flags \<Rightarrow> http_flags res" where
  "RegisterHTTPFlags modelDuration p =
     bindR (flagParsed modelDuration p ''http-grace-period'' ''2m'') (\<lambda>grace.
       Inr \<lparr>hf_BindAddr = flagString p ''http-address'' ''0.0.0.0:9090'', hf_GracePeriod = grace,
            hf_TLSConfig = flagString p ''http.config'' []\<rparr>)"

record downstream =
  ds_URL :: string
  ds_Tripper :: path_or_content

definition QueryConfig_RegisterFlag :: "flags \<Rightarrow> downstream" where
  "QueryConfig_RegisterFlag p = \<lparr>ds_URL = flagString p ''query.address'' [], ds_Tripper = registerPathOrContent p ''query.config''\<rparr>"

definition RulesQueryConfig_RegisterFlag :: "flags \<Rightarrow> downstream" where
  "RulesQueryConfig_RegisterFlag p =
     \<lparr>ds_URL = flagString p ''rules-query.address'' [], ds_Tripper = registerPathOrContent p ''rules-query.config''\<rparr>"

definition RemoteWriteConfig_RegisterFlag :: "flags \<Rightarrow> downstream" where
  "RemoteWriteConfig_RegisterFlag p =
     \<lparr>ds_URL = flagString p ''remote-write.address'' [], ds_Tripper = registerPathOrContent p ''remote-write.config''\<rparr>"

text \<open>
  \<^verbatim>\<open>DownstreamTripperConfig\<close>: durations in nanoseconds, and the client configuration of the Prometheus
  library (\<open>'h\<close>) in line.
\<close>

record 'h tripper_config =
  tc_IdleConnTimeout :: int
  tc_ResponseHeaderTimeout :: int
  tc_TLSHandshakeTimeout :: int
  tc_ExpectContinueTimeout :: int
  tc_MaxIdleConns :: "int option"
  tc_MaxIdleConnsPerHost :: "int option"
  tc_MaxConnsPerHost :: "int option"
  tc_HTTPClientConfig :: 'h

record http_transport =
  ht_DialTimeout :: int
  ht_DialKeepAlive :: int
  ht_ForceAttemptHTTP2 :: bool
  ht_MaxIdleConns :: int
  ht_MaxIdleConnsPerHost :: int
  ht_MaxConnsPerHost :: int
  ht_IdleConnTimeout :: int
  ht_ResponseHeaderTimeout :: int
  ht_TLSHandshakeTimeout :: int
  ht_ExpectContinueTimeout :: int

datatype 'rt round_tripper = PlainTransport http_transport | LibraryTransport 'rt

definition downstreamTripper :: http_transport where
  "downstreamTripper = \<lparr>ht_DialTimeout = 30 * secondNs, ht_DialKeepAlive = 30 * secondNs, ht_ForceAttemptHTTP2 = True,
     ht_MaxIdleConns = 100, ht_MaxIdleConnsPerHost = 0, ht_MaxConnsPerHost = 0, ht_IdleConnTimeout = 90 * secondNs,
     ht_ResponseHeaderTimeout = 0, ht_TLSHandshakeTimeout = 10 * secondNs, ht_ExpectContinueTimeout = 1 * secondNs\<rparr>"

definition positiveOr :: "int \<Rightarrow> int \<Rightarrow> int" where
  "positiveOr v dflt = (if 0 < v then v else dflt)"

definition applyTripper :: "'h tripper_config \<Rightarrow> http_transport \<Rightarrow> http_transport" where
  "applyTripper tc t = t\<lparr>
     ht_IdleConnTimeout := positiveOr (tc_IdleConnTimeout tc) (ht_IdleConnTimeout t),
     ht_ResponseHeaderTimeout := positiveOr (tc_ResponseHeaderTimeout tc) (ht_ResponseHeaderTimeout t),
     ht_TLSHandshakeTimeout := positiveOr (tc_TLSHandshakeTimeout tc) (ht_TLSHandshakeTimeout t),
     ht_ExpectContinueTimeout := positiveOr (tc_ExpectContinueTimeout tc) (ht_ExpectContinueTimeout t),
     ht_MaxIdleConns := (case tc_MaxIdleConns tc of None \<Rightarrow> ht_MaxIdleConns t | Some n \<Rightarrow> n),
     ht_MaxIdleConnsPerHost := (case tc_MaxIdleConnsPerHost tc of None \<Rightarrow> ht_MaxIdleConnsPerHost t | Some n \<Rightarrow> n),
     ht_MaxConnsPerHost := (case tc_MaxConnsPerHost tc of None \<Rightarrow> ht_MaxConnsPerHost t | Some n \<Rightarrow> n)\<rparr>"

record ('h, 'tls, 'rt) gateway_plib =
  gpl_parse :: "string list \<Rightarrow> flags res"
  gpl_modelDuration :: "string \<Rightarrow> int res"
  gpl_content :: "path_or_content \<Rightarrow> string res"
  gpl_yamlTripper :: "string \<Rightarrow> 'h tripper_config res"
  gpl_emptyHTTPClientConfig :: 'h
  gpl_newRoundTripper :: "'h \<Rightarrow> string \<Rightarrow> 'rt res"
  gpl_readFile :: "string \<Rightarrow> string res"
  gpl_yamlRemoteWrites :: "string \<Rightarrow> 'tls ext_rw_config list res"
  gpl_newClient :: "'tls client_config \<Rightarrow> transport res"
  gpl_newWatcher :: "unit res"
  gpl_addPath :: "string \<Rightarrow> unit res"
  gpl_env :: watch_env

definition ParseTransportConfiguration :: "('h, 'tls, 'rt) gateway_plib \<Rightarrow> string \<Rightarrow> 'rt round_tripper res" where
  "ParseTransportConfiguration lib yaml =
     (if yaml = [] then Inr (PlainTransport downstreamTripper)
      else (case gpl_yamlTripper lib yaml of
              Inl err \<Rightarrow> Inl (Wrapped ''parsing downstream tripper config YAML file'' err)
            | Inr tripperConfig \<Rightarrow>
                if tc_HTTPClientConfig tripperConfig \<noteq> gpl_emptyHTTPClientConfig lib
                then bindR (gpl_newRoundTripper lib (tc_HTTPClientConfig tripperConfig) []) (\<lambda>rt. Inr (LibraryTransport rt))
                else Inr (PlainTransport (applyTripper tripperConfig downstreamTripper))))"

section \<open>The command line of the gateway\<close>

record gateway_config =
  gwc_HTTP :: http_flags
  gwc_debugEnabledUI :: bool
  gwc_tenantHeader :: string
  gwc_tenantLabelName :: string
  gwc_tenantsFilePath :: string
  gwc_tenantsFileContent :: string
  gwc_refreshInterval :: int
  gwc_ExternalRemoteWrites :: path_or_content
  gwc_queryConfig :: downstream
  gwc_rulesQueryConfig :: downstream
  gwc_remoteWriteConfig :: downstream

definition gatewayConfig_registerFlag :: "(string \<Rightarrow> int res) \<Rightarrow> flags \<Rightarrow> gateway_config res" where
  "gatewayConfig_registerFlag modelDuration p =
     bindR (RegisterHTTPFlags modelDuration p) (\<lambda>http.
     bindR (flagParsed modelDuration p ''tenant.admission-control-config-file-refresh-interval'' ''1m'') (\<lambda>interval.
       Inr \<lparr>gwc_HTTP = http, gwc_debugEnabledUI = flagBool p ''debug.enable-ui'' False,
            gwc_tenantHeader = flagString p ''tenant.header'' ''WHIZARD-TENANT'',
            gwc_tenantLabelName = flagString p ''tenant.label-name'' ''tenant_id'',
            gwc_tenantsFilePath = flagString p ''tenant.admission-control-config-file'' [],
            gwc_tenantsFileContent = flagString p ''tenant.admission-control-config'' [],
            gwc_refreshInterval = interval,
            gwc_ExternalRemoteWrites = registerPathOrContent p ''external-remote-writes.config'',
            gwc_queryConfig = QueryConfig_RegisterFlag p, gwc_rulesQueryConfig = RulesQueryConfig_RegisterFlag p,
            gwc_remoteWriteConfig = RemoteWriteConfig_RegisterFlag p\<rparr>))"

text \<open>The flags the commands of \<^verbatim>\<open>main.go\<close> and \<open>gatewayConfig_registerFlag\<close> declare.\<close>

definition gatewayFlags :: "string list" where
  "gatewayFlags = [''log.level'', ''log.format'', ''debug.name'', ''http-address'', ''http-grace-period'', ''http.config'', ''tenant.header'',
     ''tenant.label-name'', ''tenant.admission-control-config-file'', ''tenant.admission-control-config'',
     ''tenant.admission-control-config-file-refresh-interval'', ''external-remote-writes.config'',
     ''external-remote-writes.config-file'', ''query.address'', ''query.config'', ''query.config-file'', ''rules-query.address'',
     ''rules-query.config'', ''rules-query.config-file'', ''remote-write.address'', ''remote-write.config'', ''remote-write.config-file'']"

definition gatewayBoolFlags :: "string list" where
  "gatewayBoolFlags = [''debug.enable-ui'']"

section \<open>runGateway\<close>

text \<open>\<^verbatim>\<open>NewSingleHostReverseProxy\<close> in \<^verbatim>\<open>handler.go\<close>: a reverse proxy is known by its target.\<close>

definition NewSingleHostReverseProxy :: "url \<Rightarrow> 'rt round_tripper \<Rightarrow> reverse_proxy \<times> 'rt round_tripper" where
  "NewSingleHostReverseProxy target transport = (urlString target, transport)"

definition downstreamProxy ::
  "('h, 'tls, 'rt) gateway_plib \<Rightarrow> string \<Rightarrow> downstream \<Rightarrow> (reverse_proxy \<times> 'rt round_tripper) option res" where
  "downstreamProxy lib msg ds =
     (if ds_URL ds = [] then Inr None
      else (case urlParse (ds_URL ds) of
              Inl err \<Rightarrow> Inl (Wrapped msg err)
            | Inr downstreamURL \<Rightarrow>
                bindR (gpl_content lib (ds_Tripper ds)) (\<lambda>yaml.
                bindR (ParseTransportConfiguration lib yaml) (\<lambda>tripper.
                  Inr (Some (NewSingleHostReverseProxy downstreamURL tripper))))))"

text \<open>Where the configurations of admission control come from, and the group of actors of the process.\<close>

datatype admission_source = FromWatcher string int | FromContent "string list"

datatype actor = ServeActor http_flags | SourceActor admission_source | ConsumerActor | InterruptActor | ReloadActor

record 'rt gateway_process =
  gwp_Options :: options
  gwp_Transports :: "'rt round_tripper option list"
  gwp_Actors :: "actor list"

definition admissionSource :: "('h, 'tls, 'rt) gateway_plib \<Rightarrow> gateway_config \<Rightarrow> admission_source res" where
  "admissionSource lib conf =
     (if gwc_tenantsFilePath conf \<noteq> [] then
        (case NewConfigWatcher (gwc_tenantsFilePath conf) (gpl_newWatcher lib) (gpl_addPath lib (gwc_tenantsFilePath conf)) of
           Inl err \<Rightarrow> Inl (Wrapped ''failed to initialize config watcher'' err)
         | Inr cw \<Rightarrow>
             (case ValidateConfig (gpl_env lib) (gpl_readFile lib (gwc_tenantsFilePath conf)) of
                Inl err \<Rightarrow> Inl (Wrapped ''failed to validate configuration file'' err)
              | Inr _ \<Rightarrow> Inr (FromWatcher (gwc_tenantsFilePath conf) (gwc_refreshInterval conf))))
      else if gwc_tenantsFileContent conf \<noteq> [] then
        (case ParseConfig (gpl_env lib) (gwc_tenantsFileContent conf) of
           Inl err \<Rightarrow> Inl (Wrapped ''failed to validate configuration content'' err)
         | Inr cf \<Rightarrow> Inr (FromContent cf))
      else Inr (FromContent []))"

definition externalClients :: "('h, 'tls, 'rt) gateway_plib \<Rightarrow> path_or_content \<Rightarrow> rw_client list res" where
  "externalClients lib pc =
     bindR (gpl_content lib pc) (\<lambda>content.
     bindR (LoadExternalRemoteWriteConfig (gpl_readFile lib) (gpl_yamlRemoteWrites lib) [] content) (\<lambda>rwsCfg.
       NewExternalRemoteWriteClients (gpl_newClient lib) rwsCfg))"

definition runGateway :: "('h, 'tls, 'rt) gateway_plib \<Rightarrow> gateway_config \<Rightarrow> 'rt gateway_process res" where
  "runGateway lib conf =
     bindR (downstreamProxy lib ''setup query downstream service'' (gwc_queryConfig conf)) (\<lambda>query.
     bindR (downstreamProxy lib ''setup rules query downstream service'' (gwc_rulesQueryConfig conf)) (\<lambda>rules.
     bindR (downstreamProxy lib ''setup remote write downstream service'' (gwc_remoteWriteConfig conf)) (\<lambda>write.
     bindR (externalClients lib (gwc_ExternalRemoteWrites conf)) (\<lambda>clients.
     let opts = \<lparr>op_TenantHeader = gwc_tenantHeader conf, op_TenantLabelName = gwc_tenantLabelName conf,
                 op_QueryProxy = map_option fst query, op_RulesQueryProxy = map_option fst rules,
                 op_RemoteWriteProxy = map_option fst write, op_ExternalRWClients = clients, op_CertAuthenticator = False,
                 op_EnabledTenantsAdmission = (gwc_tenantsFileContent conf \<noteq> [] \<or> gwc_tenantsFilePath conf \<noteq> []),
                 op_EnabledQueryUI = gwc_debugEnabledUI conf\<rparr>
     in bindR (admissionSource lib conf) (\<lambda>src.
          Inr \<lparr>gwp_Options = opts, gwp_Transports = [map_option snd query, map_option snd rules, map_option snd write],
               gwp_Actors = [ServeActor (gwc_HTTP conf), SourceActor src, ConsumerActor]\<rparr>)))))"

text \<open>The flags that \<^verbatim>\<open>main\<close> declares for every command: the level and the format of the log, both enumerations.\<close>

definition logLevels :: "string list" where
  "logLevels = [''error'', ''warn'', ''info'', ''debug'']"

definition logFormats :: "string list" where
  "logFormats = [''logfmt'', ''json'']"

definition mainLogFlags :: "flags \<Rightarrow> (string \<times> string) res" where
  "mainLogFlags p =
     bindR (flagEnum logLevels p ''log.level'' ''info'') (\<lambda>logLevel.
     bindR (flagEnum logFormats p ''log.format'' ''logfmt'') (\<lambda>logFormat. Inr (logLevel, logFormat)))"

text \<open>The gateway command: parse the command line, read the flags, set the process up.\<close>

definition gatewayCommand :: "('h, 'tls, 'rt) gateway_plib \<Rightarrow> string list \<Rightarrow> 'rt gateway_process res" where
  "gatewayCommand lib args =
     bindR (gpl_parse lib args) (\<lambda>p. bindR (mainLogFlags p) (\<lambda>_.
     bindR (gatewayConfig_registerFlag (gpl_modelDuration lib) p) (runGateway lib)))"

section \<open>main.go\<close>

text \<open>
  \<^verbatim>\<open>main\<close> adds the actors for signals to those of the command and runs them until the first returns; a
  command that cannot be set up ends the process.
\<close>

definition mainActors :: "actor list res \<Rightarrow> actor list res" where
  "mainActors setup = bindR setup (\<lambda>actors. Inr (actors @ [InterruptActor, ReloadActor]))"

datatype signal_event = SigTerm | SigHup | Canceled

text \<open>\<^verbatim>\<open>interrupt\<close> returns at the first signal, or with an error when it is cancelled.\<close>

fun interrupt :: "signal_event list \<Rightarrow> unit res option" where
  "interrupt [] = None"
| "interrupt (SigTerm # evs) = Some (Inr ())"
| "interrupt (Canceled # evs) = Some (Inl (GoErr ''canceled''))"
| "interrupt (SigHup # evs) = interrupt evs"

text \<open>
  \<^verbatim>\<open>reload\<close> hands signals on through a channel of capacity one, without waiting: a signal that finds the
  channel full is dropped.  The result is the state of the channel and the number of signals handed on.
\<close>

fun reload :: "signal_event list \<Rightarrow> bool \<Rightarrow> nat \<Rightarrow> bool \<times> nat" where
  "reload [] full n = (full, n)"
| "reload (SigHup # evs) full n = (if full then reload evs full n else reload evs True (n + 1))"
| "reload (Canceled # evs) full n = (full, n)"
| "reload (SigTerm # evs) full n = reload evs full n"

text \<open>No command of the program takes signals out of the channel, so at most one is ever handed on.\<close>

lemma reload_once: "snd (reload evs full n) \<le> n + (if full then 0 else 1)"
  by (induction evs full n rule: reload.induct) (auto split: if_splits)

section \<open>From the deployment to the process\<close>

definition gatewayArgNames :: "string list" where
  "gatewayArgNames = [''log.level''] @ [''log.format''] @ [''tenant.header''] @ [''tenant.label-name''] @ [''debug.enable-ui''] @
     [''tenant.admission-control-config-file''] @ [''http.config''] @ [''query.address''] @ [''query.config''] @
     [''remote-write.address''] @ [''external-remote-writes.config'']"

text \<open>The arguments of a gateway without a remote query, as \<open>gatewayArgs_wired\<close> gives them.\<close>

definition wiredArgs :: "service \<Rightarrow> gateway \<Rightarrow> string \<Rightarrow> string \<Rightarrow> string \<Rightarrow> string \<Rightarrow> string list" where
  "wiredArgs svc gw addr tlsText waddr rws = gatewayHeadArgs svc gw @ [''--query.address='' @ addr] @
     optArg ''--query.config='' tlsText @ [''--remote-write.address='' @ waddr] @ [''--external-remote-writes.config='' @ rws]"

lemma wiredArgs_names: "subseq (map flagName (wiredArgs svc gw addr tlsText waddr rws)) gatewayArgNames"
  unfolding wiredArgs_def gatewayHeadArgs_def Let_def gatewayArgNames_def map_append append_assoc
  by (intro list_emb_append_mono) (simp_all add: optArg_def flagName_def)

lemma wiredArgs_plain: "list_all (plainArg gatewayFlags gatewayBoolFlags) (wiredArgs svc gw addr tlsText waddr rws)"
  unfolding wiredArgs_def gatewayHeadArgs_def Let_def list_all_append
  by (intro conjI) (simp_all add: optArg_def plainArg_def hasPrefix_def flagName_def gatewayFlags_def gatewayBoolFlags_def)

text \<open>The values of the flags that \<^verbatim>\<open>kingpin\<close> accepts: those of the enumerations, and durations.\<close>

definition gatewayValue :: "(string \<Rightarrow> int res) \<Rightarrow> string \<Rightarrow> string \<Rightarrow> bool" where
  "gatewayValue modelDuration name v \<longleftrightarrow> (name = ''log.level'' \<longrightarrow> v \<in> set logLevels) \<and> (name = ''log.format'' \<longrightarrow> v \<in> set logFormats) \<and>
     (name \<in> {''http-grace-period'', ''tenant.admission-control-config-file-refresh-interval''} \<longrightarrow> \<not> isl (modelDuration v))"

lemma wiredArgs_values:
  assumes "cs_LogLevel (gw_Spec gw) \<in> set ([] # logLevels)" and "cs_LogFormat (gw_Spec gw) \<in> set ([] # logFormats)"
  shows "list_all (\<lambda>a. gatewayValue dur (flagName a) (flagValue a)) (wiredArgs svc gw addr tlsText waddr rws)"
  using assms unfolding wiredArgs_def gatewayHeadArgs_def Let_def list_all_append
  by (intro conjI) (auto simp: optArg_def gatewayValue_def flagName_def flagValue_def)

lemma wiredArgs_parse:
  assumes "parserOkFor (gatewayValue dur) parse gatewayFlags gatewayBoolFlags"
    and "cs_LogLevel (gw_Spec gw) \<in> set ([] # logLevels)" and "cs_LogFormat (gw_Spec gw) \<in> set ([] # logFormats)"
  shows "parse (wiredArgs svc gw addr tlsText waddr rws) = Inr (flagsOf (wiredArgs svc gw addr tlsText waddr rws))"
proof -
  have "distinct gatewayArgNames" by (simp add: gatewayArgNames_def)
  with wiredArgs_names have "distinct (map flagName (wiredArgs svc gw addr tlsText waddr rws))" by (rule subseq_distinct)
  with assms(1) wiredArgs_plain wiredArgs_values [OF assms(2,3)] show ?thesis unfolding parserOkFor_def by blast
qed

definition orDefault :: "string \<Rightarrow> string \<Rightarrow> string" where
  "orDefault v dflt = (if v = [] then dflt else v)"

definition nonempty :: "string \<Rightarrow> string option" where
  "nonempty v = (if v = [] then None else Some v)"

lemma wiredArgs_lookup:
  "flagsOf (wiredArgs svc gw addr tlsText waddr rws) ''log.level'' = nonempty (cs_LogLevel (gw_Spec gw))"
  "flagsOf (wiredArgs svc gw addr tlsText waddr rws) ''log.format'' = nonempty (cs_LogFormat (gw_Spec gw))"
  "flagsOf (wiredArgs svc gw addr tlsText waddr rws) ''http-address'' = (None)"
  "flagsOf (wiredArgs svc gw addr tlsText waddr rws) ''http-grace-period'' = (None)"
  "flagsOf (wiredArgs svc gw addr tlsText waddr rws) ''http.config'' = (if gw_WebConfig (gw_Spec gw) = None then None else Some (WhizardWebConfigMountPath @ WhizardWebConfigFile))"
  "flagsOf (wiredArgs svc gw addr tlsText waddr rws) ''debug.enable-ui'' = (if gw_DebugMode (gw_Spec gw) then Some ''true'' else None)"
  "flagsOf (wiredArgs svc gw addr tlsText waddr rws) ''tenant.header'' = (nonempty (sv_TenantHeader (sv_Spec svc)))"
  "flagsOf (wiredArgs svc gw addr tlsText waddr rws) ''tenant.label-name'' = (nonempty (sv_TenantLabelName (sv_Spec svc)))"
  "flagsOf (wiredArgs svc gw addr tlsText waddr rws) ''tenant.admission-control-config-file'' = (if gw_EnabledTenantsAdmission (gw_Spec gw) then Some (WhizardConfigMountPath @ tenantsAdmissionConfigFile) else None)"
  "flagsOf (wiredArgs svc gw addr tlsText waddr rws) ''tenant.admission-control-config'' = (None)"
  "flagsOf (wiredArgs svc gw addr tlsText waddr rws) ''tenant.admission-control-config-file-refresh-interval'' = (None)"
  "flagsOf (wiredArgs svc gw addr tlsText waddr rws) ''external-remote-writes.config-file'' = (None)"
  "flagsOf (wiredArgs svc gw addr tlsText waddr rws) ''external-remote-writes.config'' = (Some rws)"
  "flagsOf (wiredArgs svc gw addr tlsText waddr rws) ''query.address'' = (Some addr)"
  "flagsOf (wiredArgs svc gw addr tlsText waddr rws) ''query.config'' = (nonempty tlsText)"
  "flagsOf (wiredArgs svc gw addr tlsText waddr rws) ''query.config-file'' = (None)"
  "flagsOf (wiredArgs svc gw addr tlsText waddr rws) ''rules-query.address'' = (None)"
  "flagsOf (wiredArgs svc gw addr tlsText waddr rws) ''rules-query.config'' = (None)"
  "flagsOf (wiredArgs svc gw addr tlsText waddr rws) ''rules-query.config-file'' = (None)"
  "flagsOf (wiredArgs svc gw addr tlsText waddr rws) ''remote-write.address'' = (Some waddr)"
  "flagsOf (wiredArgs svc gw addr tlsText waddr rws) ''remote-write.config'' = (None)"
  "flagsOf (wiredArgs svc gw addr tlsText waddr rws) ''remote-write.config-file'' = (None)"
  unfolding wiredArgs_def gatewayHeadArgs_def Let_def flags_at
  by (simp_all add: flagName_def flagValue_def nonempty_def)

lemma wiredArgs_flags:
  "gatewayConfig_registerFlag dur (flagsOf (wiredArgs svc gw addr tlsText waddr rws)) =
     bindR (dur ''2m'') (\<lambda>grace. bindR (dur ''1m'') (\<lambda>interval. Inr
       \<lparr>gwc_HTTP = \<lparr>hf_BindAddr = ''0.0.0.0:9090'', hf_GracePeriod = grace,
          hf_TLSConfig = (if gw_WebConfig (gw_Spec gw) = None then [] else WhizardWebConfigMountPath @ WhizardWebConfigFile)\<rparr>,
        gwc_debugEnabledUI = gw_DebugMode (gw_Spec gw),
        gwc_tenantHeader = orDefault (sv_TenantHeader (sv_Spec svc)) ''WHIZARD-TENANT'',
        gwc_tenantLabelName = orDefault (sv_TenantLabelName (sv_Spec svc)) ''tenant_id'',
        gwc_tenantsFilePath = (if gw_EnabledTenantsAdmission (gw_Spec gw) then WhizardConfigMountPath @ tenantsAdmissionConfigFile else []),
        gwc_tenantsFileContent = [], gwc_refreshInterval = interval,
        gwc_ExternalRemoteWrites = \<lparr>pc_Path = [], pc_Content = rws\<rparr>,
        gwc_queryConfig = \<lparr>ds_URL = addr, ds_Tripper = \<lparr>pc_Path = [], pc_Content = tlsText\<rparr>\<rparr>,
        gwc_rulesQueryConfig = \<lparr>ds_URL = [], ds_Tripper = \<lparr>pc_Path = [], pc_Content = []\<rparr>\<rparr>,
        gwc_remoteWriteConfig = \<lparr>ds_URL = waddr, ds_Tripper = \<lparr>pc_Path = [], pc_Content = []\<rparr>\<rparr>\<rparr>))"
  unfolding gatewayConfig_registerFlag_def RegisterHTTPFlags_def QueryConfig_RegisterFlag_def RulesQueryConfig_RegisterFlag_def
    RemoteWriteConfig_RegisterFlag_def registerPathOrContent_def flagParsed_def flagString_def flagBool_def orDefault_def
  by (cases "dur ''2m''"; cases "dur ''1m''") (simp_all add: wiredArgs_lookup nonempty_def)

text \<open>The log settings of the spec are given as they are; the process refuses any that are not listed.\<close>

lemma wiredArgs_log:
  "mainLogFlags (flagsOf (wiredArgs svc gw addr tlsText waddr rws)) =
     (let level = orDefault (cs_LogLevel (gw_Spec gw)) ''info''; format = orDefault (cs_LogFormat (gw_Spec gw)) ''logfmt'' in
      if level \<notin> set logLevels then Inl (GoErr (''enum value must be one of the options, got '' @ level))
      else if format \<notin> set logFormats then Inl (GoErr (''enum value must be one of the options, got '' @ format))
      else Inr (level, format))"
  by (simp add: mainLogFlags_def flagEnum_def flagString_def wiredArgs_lookup nonempty_def orDefault_def Let_def)

lemma wiredArgs_log_refused:
  assumes "\<And>p. gpl_parse lib (wiredArgs svc gw addr tlsText waddr rws) = Inr p \<Longrightarrow> p = flagsOf (wiredArgs svc gw addr tlsText waddr rws)"
    and "cs_LogLevel (gw_Spec gw) \<notin> set ([] # logLevels) \<or> cs_LogFormat (gw_Spec gw) \<notin> set ([] # logFormats)"
  shows "\<exists>e. gatewayCommand lib (wiredArgs svc gw addr tlsText waddr rws) = Inl e"
  using assms by (cases "gpl_parse lib (wiredArgs svc gw addr tlsText waddr rws)") (auto simp: gatewayCommand_def wiredArgs_log orDefault_def Let_def)

lemma bindR_const: "\<exists>v. r = Inr v \<Longrightarrow> bindR r (\<lambda>_. k) = k"
  by auto

lemma downstreamProxy_plain:
  assumes "urlParse (ds_URL ds) = Inr u" and "ds_URL ds \<noteq> []" and "gpl_content lib (ds_Tripper ds) = Inr yaml"
    and "ParseTransportConfiguration lib yaml = Inr rt"
  shows "downstreamProxy lib msg ds = Inr (Some (urlString u, rt))"
  using assms by (simp add: downstreamProxy_def NewSingleHostReverseProxy_def)

text \<open>
  C7: the process does what the deployment asks for.  Started with the arguments the gateway controller
  writes (for a service with one query component, at most one query frontend, one router and no remote
  query, and a gateway whose log level and format are unset or among those \<^verbatim>\<open>main.go\<close> lists, as the validation of
  the resource demands), the gateway queries the frontend, or the query component where there is none, writes to the
  router, uses the header and the label of the service or their defaults, and forwards to the
  external targets; admission control is on exactly when the spec asks for it, and then
  follows the file that the config map of the controller is mounted as.
\<close>

theorem gateway_process_configured:
  assumes lists: "kList (queryFrontends cl) (sameService gw) s = (Inr qfs, s)" "kList (queries cl) (sameService gw) s = (Inr [q], s)"
      "kList (routers cl) (sameService gw) s = (Inr [ro], s)" "qfs = [] \<or> qfs = [qf]"
    and new: "Frontend_New cl qf s = (Inr svc, s)" "Query_New cl q s = (Inr svc, s)" "Router_New cl ro s = (Inr svc, s)"
    and plain: "plainHost (om_Name qf)" "plainHost (om_Name q)" "plainHost (om_Name ro)" "plainHost (om_Namespace svc)"
    and noRemote: "sv_RemoteQuery (sv_Spec svc) = None"
    and logs: "cs_LogLevel (gw_Spec gw) \<in> set ([] # logLevels)" "cs_LogFormat (gw_Spec gw) \<in> set ([] # logFormats)"
    and rws: "remoteWritesArg gl cl svc s = (Inr [''--external-remote-writes.config='' @ rws], s')"
    and parser: "parserOkFor (gatewayValue (gpl_modelDuration lib)) (gpl_parse lib) gatewayFlags gatewayBoolFlags"
    and dur: "gpl_modelDuration lib ''2m'' = Inr grace" "gpl_modelDuration lib ''1m'' = Inr interval"
    and content: "\<And>c. c \<in> {[], configText gl skipVerify, rws} \<Longrightarrow> gpl_content lib \<lparr>pc_Path = [], pc_Content = c\<rparr> = Inr c"
    and tripper: "configText gl skipVerify \<noteq> []" "ParseTransportConfiguration lib (configText gl skipVerify) = Inr rt"
    and clients: "LoadExternalRemoteWriteConfig (gpl_readFile lib) (gpl_yamlRemoteWrites lib) [] rws = Inr cfgs"
      "NewExternalRemoteWriteClients (gpl_newClient lib) cfgs = Inr cs"
    and watch: "gpl_newWatcher lib = Inr ()" "gpl_addPath lib (WhizardConfigMountPath @ tenantsAdmissionConfigFile) = Inr ()"
      "ValidateConfig (gpl_env lib) (gpl_readFile lib (WhizardConfigMountPath @ tenantsAdmissionConfigFile)) = Inr ()"
  shows "\<exists>args qu wu p. gatewayArgs gl cl svc gw s = (Inr args, s') \<and> gatewayCommand lib args = Inr p \<and>
    urlParse (if qfs = [] then Query_addr svc q else Frontend_addr svc qf) = Inr qu \<and> urlParse (RemoteWriteAddr svc ro) = Inr wu \<and>
    gwp_Options p = \<lparr>op_TenantHeader = orDefault (sv_TenantHeader (sv_Spec svc)) ''WHIZARD-TENANT'',
      op_TenantLabelName = orDefault (sv_TenantLabelName (sv_Spec svc)) ''tenant_id'',
      op_QueryProxy = Some (urlString qu), op_RulesQueryProxy = None, op_RemoteWriteProxy = Some (urlString wu),
      op_ExternalRWClients = cs, op_CertAuthenticator = False,
      op_EnabledTenantsAdmission = gw_EnabledTenantsAdmission (gw_Spec gw), op_EnabledQueryUI = gw_DebugMode (gw_Spec gw)\<rparr> \<and>
    SourceActor (if gw_EnabledTenantsAdmission (gw_Spec gw)
      then FromWatcher (WhizardConfigMountPath @ tenantsAdmissionConfigFile) interval else FromContent []) \<in> set (gwp_Actors p)"
proof -
  let ?addr = "if qfs = [] then Query_addr svc q else Frontend_addr svc qf"
  let ?tls = "servesTLS (if qfs = [] then qu_WebConfig (qu_Spec q) else qf_WebConfig (qf_Spec qf))"
  define tlsText where "tlsText = (if ?tls then configText gl skipVerify else [])"
  let ?args = "wiredArgs svc gw ?addr tlsText (RemoteWriteAddr svc ro) rws"
  have args: "gatewayArgs gl cl svc gw s = (Inr ?args, s')"
    using gatewayArgs_wired [OF lists new plain noRemote rws] tripper(1) by (simp add: wiredArgs_def optArg_def tlsText_def)
  obtain qu where qu: "urlParse ?addr = Inr qu"
    using Query_addr_parsed [OF plain(2,4)] Frontend_addr_parsed [OF plain(1,4)] by (cases "qfs = []") auto
  obtain wu where wu: "urlParse (RemoteWriteAddr svc ro) = Inr wu" using RemoteWriteAddr_parsed [OF plain(3,4)] by blast
  have nonempty: "?addr \<noteq> []" "RemoteWriteAddr svc ro \<noteq> []" using addr_nonempty by (auto simp: RemoteWriteAddr_def Router_addr_def)
  have ok: "gpl_content lib \<lparr>pc_Path = [], pc_Content = c\<rparr> = Inr c" if "c \<in> {[], tlsText, rws}" for c
    using that content by (auto simp: tlsText_def split: if_splits)
  obtain rt1 where rt1: "ParseTransportConfiguration lib tlsText = Inr rt1"
    using tripper(2) by (cases ?tls) (auto simp: tlsText_def ParseTransportConfiguration_def [of lib "[]"])
  have none: "ParseTransportConfiguration lib [] = Inr (PlainTransport downstreamTripper)" by (simp add: ParseTransportConfiguration_def)
  have down: "downstreamProxy lib m \<lparr>ds_URL = ?addr, ds_Tripper = \<lparr>pc_Path = [], pc_Content = tlsText\<rparr>\<rparr> = Inr (Some (urlString qu, rt1))" for m
    using qu nonempty(1) ok [of tlsText] rt1 by (intro downstreamProxy_plain) simp_all
  have downw: "downstreamProxy lib m \<lparr>ds_URL = RemoteWriteAddr svc ro, ds_Tripper = \<lparr>pc_Path = [], pc_Content = []\<rparr>\<rparr> =
       Inr (Some (urlString wu, PlainTransport downstreamTripper))" for m
    using wu nonempty(2) ok [of "[]"] none by (intro downstreamProxy_plain) simp_all
  have down0: "downstreamProxy lib m \<lparr>ds_URL = [], ds_Tripper = t\<rparr> = Inr None" for m t
    by (simp add: downstreamProxy_def)
  have ext: "externalClients lib \<lparr>pc_Path = [], pc_Content = rws\<rparr> = Inr cs"
    using ok [of rws] clients by (simp add: externalClients_def)
  have mount: "WhizardConfigMountPath @ tenantsAdmissionConfigFile \<noteq> []" by (simp add: WhizardConfigMountPath_def)
  have log: "\<exists>v. mainLogFlags (flagsOf ?args) = Inr v"
    using logs by (auto simp: wiredArgs_log orDefault_def Let_def logLevels_def logFormats_def)
  have run: "\<exists>p. gatewayCommand lib ?args = Inr p \<and>
    gwp_Options p = \<lparr>op_TenantHeader = orDefault (sv_TenantHeader (sv_Spec svc)) ''WHIZARD-TENANT'',
      op_TenantLabelName = orDefault (sv_TenantLabelName (sv_Spec svc)) ''tenant_id'',
      op_QueryProxy = Some (urlString qu), op_RulesQueryProxy = None, op_RemoteWriteProxy = Some (urlString wu),
      op_ExternalRWClients = cs, op_CertAuthenticator = False,
      op_EnabledTenantsAdmission = gw_EnabledTenantsAdmission (gw_Spec gw), op_EnabledQueryUI = gw_DebugMode (gw_Spec gw)\<rparr> \<and>
    SourceActor (if gw_EnabledTenantsAdmission (gw_Spec gw)
      then FromWatcher (WhizardConfigMountPath @ tenantsAdmissionConfigFile) interval else FromContent []) \<in> set (gwp_Actors p)"
    unfolding gatewayCommand_def wiredArgs_parse [OF parser logs] bindR_simps bindR_const [OF log] wiredArgs_flags dur runGateway_def
      gateway_config.select_convs down downw down0 ext
    using mount by (cases "gw_EnabledTenantsAdmission (gw_Spec gw)") (simp_all add: admissionSource_def NewConfigWatcher_def watch Let_def)
  show ?thesis using args qu wu run by blast
qed

text \<open>
  A gateway that is given a tenants file starts only with a valid one, and then enforces admission.  No
  gateway checks client certificates: the command never sets the authenticator.
\<close>

lemma gateway_started:
  assumes "gatewayCommand lib args = Inr p" and "gpl_parse lib args = Inr fl"
    and "path = flagString fl ''tenant.admission-control-config-file'' []"
  shows "\<not> op_CertAuthenticator (gwp_Options p)"
    and "path \<noteq> [] \<Longrightarrow> op_EnabledTenantsAdmission (gwp_Options p) \<and>
      (\<exists>cfg. loadConfig (gpl_env lib) (gpl_readFile lib path) = Inr cfg) \<and> (\<exists>interval. SourceActor (FromWatcher path interval) \<in> set (gwp_Actors p))"
proof -
  obtain conf where conf: "gatewayConfig_registerFlag (gpl_modelDuration lib) fl = Inr conf" "runGateway lib conf = Inr p"
    using assms(1,2) by (auto simp: gatewayCommand_def bindR_Inr_iff)
  then have path: "gwc_tenantsFilePath conf = path"
    by (auto simp: gatewayConfig_registerFlag_def bindR_Inr_iff assms(3))
  from conf(2) obtain src where src: "admissionSource lib conf = Inr src" "SourceActor src \<in> set (gwp_Actors p)"
    "\<not> op_CertAuthenticator (gwp_Options p)" "op_EnabledTenantsAdmission (gwp_Options p) \<longleftrightarrow> gwc_tenantsFileContent conf \<noteq> [] \<or> path \<noteq> []"
    by (auto simp: runGateway_def bindR_Inr_iff Let_def path)
  then show "\<not> op_CertAuthenticator (gwp_Options p)" by simp
  show "op_EnabledTenantsAdmission (gwp_Options p) \<and>
      (\<exists>cfg. loadConfig (gpl_env lib) (gpl_readFile lib path) = Inr cfg) \<and> (\<exists>interval. SourceActor (FromWatcher path interval) \<in> set (gwp_Actors p))"
    if "path \<noteq> []"
    using that src by (auto simp: admissionSource_def path ValidateConfig_def bindR_Inr_iff split: sum.splits)
qed

definition exPlib :: "(unit, unit, unit) gateway_plib" where
  "exPlib = \<lparr>gpl_parse = (\<lambda>args. Inr (flagsOf args)), gpl_modelDuration = (\<lambda>d. Inr (if d = ''1m'' then 60 * secondNs else 120 * secondNs)),
     gpl_content = (\<lambda>pc. Inr (pc_Content pc)), gpl_yamlTripper = (\<lambda>_. Inr \<lparr>tc_IdleConnTimeout = 0, tc_ResponseHeaderTimeout = 0,
       tc_TLSHandshakeTimeout = 0, tc_ExpectContinueTimeout = 0, tc_MaxIdleConns = None, tc_MaxIdleConnsPerHost = None,
       tc_MaxConnsPerHost = None, tc_HTTPClientConfig = ()\<rparr>),
     gpl_emptyHTTPClientConfig = (), gpl_newRoundTripper = (\<lambda>_ _. Inr ()), gpl_readFile = (\<lambda>_. Inr ''t1''),
     gpl_yamlRemoteWrites = (\<lambda>_. Inr []), gpl_newClient = (\<lambda>_. Inl Panic), gpl_newWatcher = Inr (), gpl_addPath = (\<lambda>_. Inr ()), gpl_env = exEnv\<rparr>"

theorem gateway_process_configured_witness:
  "\<exists>args p. gatewayArgs exGatewayLib exGatewayClient (withServiceDefaults exService) exGateway (exCluster [] [] []) = (Inr args, exCluster [] [] []) \<and>
     gatewayCommand exPlib args = Inr p \<and> op_TenantLabelName (gwp_Options p) = ''tenant_id'' \<and>
     SourceActor (FromContent []) \<in> set (gwp_Actors p)"
proof -
  let ?svc = "withServiceDefaults exService" and ?c = "exCluster [] [] []"
  have parser: "parserOkFor (gatewayValue (gpl_modelDuration exPlib)) (gpl_parse exPlib) gatewayFlags gatewayBoolFlags"
    by (simp add: exPlib_def parserOk_for parserOk_flagsOf)
  have dur: "gpl_modelDuration exPlib ''2m'' = Inr (120 * secondNs)" "gpl_modelDuration exPlib ''1m'' = Inr (60 * secondNs)"
    by (simp_all add: exPlib_def)
  have content: "gpl_content exPlib \<lparr>pc_Path = [], pc_Content = x\<rparr> = Inr x" for x by (simp add: exPlib_def)
  have tripper: "configText exGatewayLib skipVerify \<noteq> []"
    "ParseTransportConfiguration exPlib (configText exGatewayLib skipVerify) = Inr (PlainTransport downstreamTripper)"
    by (simp_all add: exGateway_spec(3) ParseTransportConfiguration_def exPlib_def applyTripper_def positiveOr_def downstreamTripper_def)
  have clients: "LoadExternalRemoteWriteConfig (gpl_readFile exPlib) (gpl_yamlRemoteWrites exPlib) [] ''[]'' = Inr []"
    "NewExternalRemoteWriteClients (gpl_newClient exPlib) [] = Inr []"
    by (simp_all add: exPlib_def LoadExternalRemoteWriteConfig_def)
  have watch: "gpl_newWatcher exPlib = Inr ()" "gpl_addPath exPlib f = Inr ()" "ValidateConfig (gpl_env exPlib) (gpl_readFile exPlib f) = Inr ()" for f
    using exEnv_load by (simp_all add: exPlib_def ValidateConfig_def)
  have logs: "cs_LogLevel (gw_Spec exGateway) \<in> set ([] # logLevels)" "cs_LogFormat (gw_Spec exGateway) \<in> set ([] # logFormats)"
    by (simp_all add: ex_gateway_defs zero_defs)
  have off: "\<not> gw_EnabledTenantsAdmission (gw_Spec exGateway)" "orDefault (sv_TenantLabelName (sv_Spec ?svc)) ''tenant_id'' = ''tenant_id''"
    by (simp_all add: ex_gateway_defs zero_defs orDefault_def withServiceDefaults_def Let_def exService_def DefaultTenantLabelName_def)
  show ?thesis
    using gateway_process_configured [OF exGateway_lists disjI1 [OF refl] exGateway_new exGateway_plain exGateway_spec(1) logs exGateway_spec(4) parser dur
        content tripper clients watch] off
    by (auto; metis options.select_convs)
qed

end
