(* ===== verification/Api_Scheme.thy ===== *)
theory Api_Scheme
  imports Prelude
begin

text \<open>
  \<^verbatim>\<open>pkg/api/monitoring/v1alpha1/groupversion_info.go\<close>, the functions \<^verbatim>\<open>init\<close> of the files with the custom
  resources, and \<^verbatim>\<open>pkg/apis\<close>: which types the programs make known to their scheme, through which the
  client and the controllers translate between objects and kinds.  The scheme itself belongs to the
  library; it is reached through an action that adds the types of a group version.
\<close>

section \<open>Actions whose error is wrapped or dropped\<close>

definition wrapE :: "string \<Rightarrow> ('m, 'a) act \<Rightarrow> ('m, 'a) act" where
  "wrapE msg m = handleE m (\<lambda>r. case r of Inl err \<Rightarrow> failE (Wrapped msg err) | Inr x \<Rightarrow> ret x)"

text \<open>\<^verbatim>\<open>_ = f()\<close>\<close>

definition ignoreE :: "('m, 'a) act \<Rightarrow> ('m, unit) act" where
  "ignoreE m = handleE m (\<lambda>_. ret ())"

lemma wrapE_ret [simp]: "wrapE msg (ret x) = ret x"
  by (rule ext) (simp add: wrapE_def)

lemma wrapE_Inr: "m s = (Inr x, s') \<Longrightarrow> wrapE msg m s = (Inr x, s')"
  by (simp add: wrapE_def handleE_def ret_def)

lemma wrapE_Inl: "m s = (Inl e, s') \<Longrightarrow> wrapE msg m s = (Inl (Wrapped msg e), s')"
  by (simp add: wrapE_def handleE_def failE_def)

lemma ignoreE_eq: "ignoreE m s = (Inr (), snd (m s))"
  by (simp add: ignoreE_def handleE_def ret_def split: prod.split)

section \<open>The types of the group\<close>

record group_version =
  gv_Group :: string
  gv_Version :: string

definition GroupVersion :: group_version where
  "GroupVersion = \<lparr>gv_Group = ''monitoring.whizard.io'', gv_Version = ''v1alpha1''\<rparr>"

text \<open>The calls of \<^verbatim>\<open>SchemeBuilder.Register\<close>, each with the names of the types of its objects.\<close>

definition components_init :: "string list list" where
  "components_init = [[''Compactor'', ''CompactorList''], [''Gateway'', ''GatewayList''], [''Ingester'', ''IngesterList''],
     [''Query'', ''QueryList''], [''QueryFrontend'', ''QueryFrontendList''], [''Router'', ''RouterList''],
     [''Ruler'', ''RulerList''], [''Store'', ''StoreList'']]"

definition service_init :: "string list list" where
  "service_init = [[''Service'', ''ServiceList'']]"

definition storage_init :: "string list list" where
  "storage_init = [[''Storage'', ''StorageList'']]"

definition tenant_init :: "string list list" where
  "tenant_init = [[''Tenant'', ''TenantList'']]"

text \<open>
  What the builder has collected when the package is initialised: the files in the order of their
  names, as the compiler is given them.
\<close>

record scheme_builder =
  sb_GroupVersion :: group_version
  sb_Registered :: "string list list"

definition SchemeBuilder :: scheme_builder where
  "SchemeBuilder = \<lparr>sb_GroupVersion = GroupVersion,
     sb_Registered = components_init @ service_init @ storage_init @ tenant_init\<rparr>"

section \<open>pkg/apis\<close>

type_synonym 'm add_types = "group_version \<Rightarrow> string list \<Rightarrow> ('m, unit) act"

definition Builder_AddToScheme :: "'m add_types \<Rightarrow> scheme_builder \<Rightarrow> ('m, unit) act" where
  "Builder_AddToScheme addTypes sb = forE (sb_Registered sb) (addTypes (sb_GroupVersion sb))"

definition AddToSchemes :: "scheme_builder list" where
  "AddToSchemes = [SchemeBuilder]"

definition AddToScheme :: "'m add_types \<Rightarrow> ('m, unit) act" where
  "AddToScheme addTypes = forE AddToSchemes (Builder_AddToScheme addTypes)"

section \<open>What the scheme then knows\<close>

text \<open>\<open>K\<close> gives the kinds that the scheme knows in a state; adding types adds their kinds.\<close>

definition addsTypes :: "('m \<Rightarrow> (group_version \<times> string) set) \<Rightarrow> 'm add_types \<Rightarrow> bool" where
  "addsTypes K addTypes \<longleftrightarrow> (\<forall>gv ts m. \<exists>m'. addTypes gv ts m = (Inr (), m') \<and> K m' = K m \<union> Pair gv ` set ts)"

lemma addsTypes_forE:
  assumes "addsTypes K addTypes"
  shows "\<exists>m'. forE tss (addTypes gv) m = (Inr (), m') \<and> K m' = K m \<union> Pair gv ` (\<Union>ts \<in> set tss. set ts)"
proof (induction tss arbitrary: m)
  case Nil
  then show ?case by (simp add: ret_def)
next
  case (Cons ts tss)
  obtain m1 where m1: "addTypes gv ts m = (Inr (), m1)" "K m1 = K m \<union> Pair gv ` set ts"
    using assms unfolding addsTypes_def by blast
  with Cons.IH [of m1] show ?case by (auto simp: image_Un)
qed

definition whizardKinds :: "string list" where
  "whizardKinds = [''Compactor'', ''Gateway'', ''Ingester'', ''Query'', ''QueryFrontend'', ''Router'', ''Ruler'', ''Store'',
     ''Service'', ''Storage'', ''Tenant'']"

text \<open>Every custom resource and the list of its objects.\<close>

lemma AddToScheme_adds:
  assumes "addsTypes K addTypes"
  shows "\<exists>m'. AddToScheme addTypes m = (Inr (), m') \<and>
    K m' = K m \<union> Pair GroupVersion ` (set whizardKinds \<union> (\<lambda>k. k @ ''List'') ` set whizardKinds)"
proof -
  have "(\<Union>ts \<in> set (sb_Registered SchemeBuilder). set ts) = set whizardKinds \<union> (\<lambda>k. k @ ''List'') ` set whizardKinds"
    by code_simp
  moreover have "sb_GroupVersion SchemeBuilder = GroupVersion" by (simp add: SchemeBuilder_def)
  ultimately show ?thesis
    using addsTypes_forE [OF assms, of "sb_Registered SchemeBuilder" GroupVersion m]
    by (auto simp: AddToScheme_def AddToSchemes_def Builder_AddToScheme_def bindE_app)
qed

end
