(* ===== verification/Agent_Process.thy ===== *)
theory Agent_Process
  imports Gateway_Process Agent_Proxy Block_Manager Storage_Workload Api_Scheme
begin

text \<open>
  The other programs: \<^verbatim>\<open>cmd/monitoring-gateway/agent-proxy.go\<close> and
  \<^verbatim>\<open>cmd/monitoring-agent-proxy/monitoring-agent-proxy.go\<close>, which run the agent proxy, and
  \<^verbatim>\<open>cmd/monitoring-block-manager/block-manager.go\<close>, which runs the block manager.  As for the gateway, the
  flag libraries, the YAML decoders and the transports are parameters.
\<close>

section \<open>agent-proxy.go: the configuration\<close>

record agent_gateway_cfg =
  agc_clientConfigPath :: path_or_content
  agc_address :: string
  agc_clientTlsKey :: string
  agc_clientTlsCert :: string
  agc_serverTlsClientCa :: string
  agc_serverName :: string
  agc_insecureSkipVerify :: bool
  agc_maxIdleConnsPerHost :: int
  agc_maxConnsPerHost :: int

record agent_proxy_config =
  apc_HTTP :: http_flags
  apc_serverTlsKey :: string
  apc_serverTlsCert :: string
  apc_serverTlsClientCa :: string
  apc_gatewayConfig :: agent_gateway_cfg
  apc_tenant :: string

text \<open>\<open>agl_atoi\<close> reads the integers of flags, \<open>agl_modelDuration\<close> the durations.\<close>

definition agentProxyConfig_registerFlag :: "(string \<Rightarrow> int res) \<Rightarrow> (string \<Rightarrow> int res) \<Rightarrow> flags \<Rightarrow> agent_proxy_config res" where
  "agentProxyConfig_registerFlag modelDuration atoi p =
     bindR (RegisterHTTPFlags modelDuration p) (\<lambda>http.
     bindR (flagParsed atoi p ''maxIdleConnsPerHost'' ''100'') (\<lambda>maxIdle.
     bindR (flagParsed atoi p ''maxConnsPerHost'' ''0'') (\<lambda>maxConns.
       Inr \<lparr>apc_HTTP = http, apc_serverTlsKey = flagString p ''server-tls-key'' [],
            apc_serverTlsCert = flagString p ''server-tls-cert'' [], apc_serverTlsClientCa = flagString p ''server-tls-client-ca'' [],
            apc_gatewayConfig = \<lparr>agc_clientConfigPath = registerPathOrContent p ''gateway.config'',
              agc_address = flagString p ''gateway.address'' [], agc_clientTlsKey = flagString p ''gateway.client-tls-key'' [],
              agc_clientTlsCert = flagString p ''gateway.client-tls-cert'' [],
              agc_serverTlsClientCa = flagString p ''gateway.server-tls-client-ca'' [],
              agc_serverName = flagString p ''gateway.server-name'' [],
              agc_insecureSkipVerify = flagBool p ''gateway.insecure-skip-verify'' False,
              agc_maxIdleConnsPerHost = maxIdle, agc_maxConnsPerHost = maxConns\<rparr>,
            apc_tenant = flagString p ''tenant'' []\<rparr>)))"

section \<open>The client of the gateway\<close>

record tls_files =
  tf_CAFile :: string
  tf_CertFile :: string
  tf_KeyFile :: string
  tf_ServerName :: string
  tf_InsecureSkipVerify :: bool

text \<open>\<^verbatim>\<open>clientconfig.HTTPClientConfig\<close>, with the further settings of its transport (\<open>'tr\<close>) as they are.\<close>

record 'tr thanos_client_config =
  tcc_BasicAuth :: "string \<times> string \<times> string"
  tcc_BearerToken :: string
  tcc_BearerTokenFile :: string
  tcc_ProxyURL :: string
  tcc_TLSConfig :: tls_files
  tcc_MaxIdleConnsPerHost :: int
  tcc_MaxConnsPerHost :: int
  tcc_Transport :: 'tr

record 'u prom_client_config =
  pcc_BasicAuth :: "(string \<times> string \<times> string) option"
  pcc_BearerToken :: string
  pcc_BearerTokenFile :: string
  pcc_ProxyURL :: "'u option"
  pcc_TLSConfig :: tls_files

record ('tr, 'u, 'rt) agent_plib =
  agl_modelDuration :: "string \<Rightarrow> int res"
  agl_atoi :: "string \<Rightarrow> int res"
  agl_content :: "path_or_content \<Rightarrow> string res"
  agl_default :: "'tr thanos_client_config"
  agl_yamlClient :: "string \<Rightarrow> 'tr thanos_client_config res"
  agl_yamlURL :: "string \<Rightarrow> 'u res"
  agl_validate :: "'u prom_client_config \<Rightarrow> unit res"
  agl_newRoundTripper :: "'u prom_client_config \<Rightarrow> 'tr thanos_client_config \<Rightarrow> string \<Rightarrow> 'rt res"

definition newRoundTripperFromConfig ::
  "('tr, 'u, 'rt) agent_plib \<Rightarrow> 'tr thanos_client_config \<Rightarrow> string \<Rightarrow> 'rt res" where
  "newRoundTripperFromConfig lib cfg name =
     bindR (if tcc_ProxyURL cfg \<noteq> [] then bindR (agl_yamlURL lib (tcc_ProxyURL cfg)) (\<lambda>u. Inr (Some u)) else Inr None) (\<lambda>proxy.
     let httpClientConfig = \<lparr>pcc_BasicAuth = (if tcc_BasicAuth cfg = ([], [], []) then None else Some (tcc_BasicAuth cfg)),
           pcc_BearerToken = tcc_BearerToken cfg, pcc_BearerTokenFile = tcc_BearerTokenFile cfg,
           pcc_ProxyURL = proxy, pcc_TLSConfig = tcc_TLSConfig cfg\<rparr>
     in bindR (agl_validate lib httpClientConfig) (\<lambda>_. agl_newRoundTripper lib httpClientConfig cfg name))"

text \<open>With a configuration in YAML the flags for the client are not looked at.\<close>

definition gatewayClientCfg :: "('tr, 'u, 'rt) agent_plib \<Rightarrow> string \<Rightarrow> agent_gateway_cfg \<Rightarrow> 'tr thanos_client_config res" where
  "gatewayClientCfg lib yaml gcfg =
     (if yaml \<noteq> [] then
        (case agl_yamlClient lib yaml of
           Inl err \<Rightarrow> Inl (Wrapped ''parsing gateway config YAML file failed'' err)
         | Inr cfg \<Rightarrow> Inr cfg)
      else Inr ((agl_default lib)\<lparr>
        tcc_TLSConfig := \<lparr>tf_CAFile = agc_serverTlsClientCa gcfg, tf_CertFile = agc_clientTlsCert gcfg, tf_KeyFile = agc_clientTlsKey gcfg,
          tf_ServerName = agc_serverName gcfg, tf_InsecureSkipVerify = agc_insecureSkipVerify gcfg\<rparr>,
        tcc_MaxIdleConnsPerHost := agc_maxIdleConnsPerHost gcfg, tcc_MaxConnsPerHost := agc_maxConnsPerHost gcfg\<rparr>))"

section \<open>Running the agent proxy\<close>

record 'rt agent_process =
  agp_Options :: agent_options
  agp_Transport :: 'rt
  agp_HTTP :: http_flags

definition runAgentProxy :: "('tr, 'u, 'rt) agent_plib \<Rightarrow> string \<Rightarrow> agent_proxy_config \<Rightarrow> 'rt agent_process res" where
  "runAgentProxy lib yaml conf =
     bindR (gatewayClientCfg lib yaml (apc_gatewayConfig conf)) (\<lambda>cfg.
     bindR (newRoundTripperFromConfig lib cfg ''agent-proxy'') (\<lambda>roundTripper.
       (case urlParse (agc_address (apc_gatewayConfig conf)) of
          Inl err \<Rightarrow> Inl (Wrapped ''setup query downstream service'' err)
        | Inr rawUrl \<Rightarrow> Inr \<lparr>agp_Options = \<lparr>ao_Tenant = apc_tenant conf, ao_GatewayProxy = urlString rawUrl\<rparr>,
            agp_Transport = roundTripper, agp_HTTP = apc_HTTP conf\<rparr>)))"

text \<open>
  The set-up of the command.  A missing tenant is reported by \<^verbatim>\<open>errors.Wrap(err, \<dots>)\<close> of an error that is
  nil, which is nil: the set-up returns no error, and no actor was added (\<open>None\<close>).
\<close>

definition registerAgentProxy :: "('tr, 'u, 'rt) agent_plib \<Rightarrow> agent_proxy_config \<Rightarrow> 'rt agent_process option res" where
  "registerAgentProxy lib conf =
     bindR (agl_content lib (agc_clientConfigPath (apc_gatewayConfig conf))) (\<lambda>yaml.
       if agc_address (apc_gatewayConfig conf) = [] then Inl (GoErr ''no --gateway.address parameter was given'')
       else if apc_tenant conf = [] then Inr None
       else bindR (runAgentProxy lib yaml conf) (\<lambda>p. Inr (Some p)))"

definition agentActors :: "'rt agent_process option \<Rightarrow> actor list" where
  "agentActors p = (case p of None \<Rightarrow> [] | Some ap \<Rightarrow> [ServeActor (agp_HTTP ap)])"

definition agentMain :: "('tr, 'u, 'rt) agent_plib \<Rightarrow> agent_proxy_config \<Rightarrow> actor list res" where
  "agentMain lib conf = mainActors (bindR (registerAgentProxy lib conf) (\<lambda>p. Inr (agentActors p)))"

section \<open>monitoring-agent-proxy.go\<close>

text \<open>The stand-alone program: its flags, and what it serves.\<close>

record agent_cli =
  cli_HttpAddress :: string
  cli_ServerTlsKey :: string
  cli_ServerTlsCert :: string
  cli_ServerTlsClientCa :: string
  cli_Address :: string
  cli_ClientTlsKey :: string
  cli_ClientTlsCert :: string
  cli_GatewayServerTlsClientCa :: string
  cli_ServerName :: string
  cli_InsecureSkipVerify :: bool
  cli_Tenant :: string
  cli_MaxIdleConnsPerHost :: int
  cli_MaxConnsPerHost :: int

definition agentCliDefaults :: agent_cli where
  "agentCliDefaults = \<lparr>cli_HttpAddress = ''0.0.0.0:9090'', cli_ServerTlsKey = [], cli_ServerTlsCert = [], cli_ServerTlsClientCa = [],
     cli_Address = [], cli_ClientTlsKey = [], cli_ClientTlsCert = [], cli_GatewayServerTlsClientCa = [], cli_ServerName = [],
     cli_InsecureSkipVerify = True, cli_Tenant = [], cli_MaxIdleConnsPerHost = 100, cli_MaxConnsPerHost = 0\<rparr>"

datatype 'stls listener = ListenAndServeTLS string 'stls | ListenAndServe string

definition Server_Run :: "string \<Rightarrow> 'stls option \<Rightarrow> 'stls listener" where
  "Server_Run addr tlsConfig = (case tlsConfig of None \<Rightarrow> ListenAndServe addr | Some t \<Rightarrow> ListenAndServeTLS addr t)"

record ('ctls, 'stls) agent_server =
  as_Options :: agent_options
  as_ClientTLS :: 'ctls
  as_MaxIdleConnsPerHost :: int
  as_MaxConnsPerHost :: int
  as_Listener :: "'stls listener"

text \<open>\<^verbatim>\<open>thanos_tls.NewClientConfig\<close> and \<^verbatim>\<open>NewServerConfig\<close> are the parameters \<open>newClient\<close> and \<open>newServer\<close>; the latter gives no configuration without key and certificate.\<close>

definition monitoringAgentProxy_main ::
  "(string \<Rightarrow> string \<Rightarrow> string \<Rightarrow> string \<Rightarrow> bool \<Rightarrow> 'ctls res) \<Rightarrow> (string \<Rightarrow> string \<Rightarrow> string \<Rightarrow> string \<Rightarrow> 'stls option res) \<Rightarrow>
   agent_cli \<Rightarrow> ('ctls, 'stls) agent_server res" where
  "monitoringAgentProxy_main newClient newServer cli =
     bindR (urlParse (cli_Address cli)) (\<lambda>rawUrl.
     bindR (newClient (cli_ClientTlsCert cli) (cli_ClientTlsKey cli) (cli_GatewayServerTlsClientCa cli) (cli_ServerName cli)
              (cli_InsecureSkipVerify cli)) (\<lambda>clientTLS.
     bindR (newServer (cli_ServerTlsCert cli) (cli_ServerTlsKey cli) (cli_ServerTlsClientCa cli) ''1.1'') (\<lambda>serverTLS.
       Inr \<lparr>as_Options = \<lparr>ao_Tenant = cli_Tenant cli, ao_GatewayProxy = urlString rawUrl\<rparr>, as_ClientTLS = clientTLS,
            as_MaxIdleConnsPerHost = cli_MaxIdleConnsPerHost cli, as_MaxConnsPerHost = cli_MaxConnsPerHost cli,
            as_Listener = Server_Run (cli_HttpAddress cli) serverTLS\<rparr>)))"

section \<open>The block manager\<close>

record block_manager_flags =
  bmf_Conf :: block_manager_conf
  bmf_Interval :: int

definition flagDuration :: "(string \<Rightarrow> int res) \<Rightarrow> flags \<Rightarrow> string \<Rightarrow> int \<Rightarrow> int res" where
  "flagDuration parse p name dflt = (case p name of None \<Rightarrow> Inr dflt | Some v \<Rightarrow> parse v)"

definition blockManager_AddFlags :: "(string \<Rightarrow> int res) \<Rightarrow> flags \<Rightarrow> block_manager_flags res" where
  "blockManager_AddFlags parseDuration p =
     bindR (flagDuration parseDuration p ''gc.interval'' (600 * secondNs)) (\<lambda>interval.
     bindR (flagDuration parseDuration p ''gc.cleanup-timeout'' (3600 * secondNs)) (\<lambda>timeout.
       Inr \<lparr>bmf_Conf = \<lparr>bc_tenantLabelName = flagString p ''tenant.label-name'' ''tenant_id'',
              bc_defaultTenantId = flagString p ''tenant.default-id'' ''default-tenant'',
              bc_storageConfig = flagString p ''objstore.config'' [], bc_storageConfigFile = flagString p ''objstore.config-file'' [],
              bc_gcCleanupTimeout = timeout\<rparr>, bmf_Interval = interval\<rparr>))"

definition blockManagerFlags :: "string list" where
  "blockManagerFlags = [''tenant.label-name'', ''tenant.default-id'', ''objstore.config'', ''objstore.config-file'', ''gc.interval'', ''gc.cleanup-timeout'']"

text \<open>
  \<^verbatim>\<open>Run\<close> waits for the cache and enters the loop, which runs until the context is done, here after \<open>n\<close>
  turns; \<open>synced\<close> says whether the cache could be filled.
\<close>

definition BlockManager_Run ::
  "bool \<Rightarrow> block_manager_conf \<Rightarrow> 's block_env \<Rightarrow> 's client \<Rightarrow> nat \<Rightarrow> ('s, unit) act" where
  "BlockManager_Run synced b e cl n = (if \<not> synced then failE (GoErr ''sync cache failed'') else gc b e cl n)"

text \<open>
  \<^verbatim>\<open>NewBlockManager\<close>: the configuration of the cluster, a scheme with the custom resources, the cache, the mapper
  of kinds and the client, all from the library; an error ends the process with the status 1, as do the
  other errors of the program.
\<close>

record 's kube_setup =
  ku_getConfig :: "('s, unit) act"
  ku_addTypes :: "'s add_types"
  ku_newCache :: "('s, unit) act"
  ku_httpClientFor :: "('s, unit) act"
  ku_newRESTMapper :: "('s, unit) act"
  ku_newClient :: "('s, 's client) act"

definition NewBlockManager :: "'s kube_setup \<Rightarrow> block_manager_flags \<Rightarrow> ('s, block_manager_conf \<times> 's client) act" where
  "NewBlockManager ku bf =
     bindE (wrapE ''Failed to get kubeconfig'' (ku_getConfig ku)) (\<lambda>_.
     bindE (ignoreE (Builder_AddToScheme (ku_addTypes ku) SchemeBuilder)) (\<lambda>_.
     bindE (wrapE ''Failed to create informer cache'' (ku_newCache ku)) (\<lambda>_.
     bindE (wrapE ''Failed to create rest mapper'' (bindE (ku_httpClientFor ku) (\<lambda>_. ku_newRESTMapper ku))) (\<lambda>_.
     bindE (wrapE ''Failed to create kubernetes client'' (ku_newClient ku)) (\<lambda>c.
     ret (bmf_Conf bf, c))))))"

definition blockManager_run ::
  "'s kube_setup \<Rightarrow> bool \<Rightarrow> block_manager_flags \<Rightarrow> 's block_env \<Rightarrow> nat \<Rightarrow> ('s, unit) act" where
  "blockManager_run ku synced bf e n =
     (if bc_storageConfig (bmf_Conf bf) = [] \<and> bc_storageConfigFile (bmf_Conf bf) = []
      then failE (GoErr ''storage config or storage config file must be specified'')
      else bindE (NewBlockManager ku bf) (\<lambda>(b, cl). BlockManager_Run synced b e cl n))"

text \<open>The command and the status of the process; \<open>parse\<close> is the command line library.\<close>

definition blockManager_NewCommand ::
  "(string list \<Rightarrow> flags res) \<Rightarrow> (string \<Rightarrow> int res) \<Rightarrow> 's kube_setup \<Rightarrow> bool \<Rightarrow> 's block_env \<Rightarrow> nat \<Rightarrow> string list \<Rightarrow> ('s, unit) act" where
  "blockManager_NewCommand parse parseDuration ku synced e n args =
     bindE (liftE (bindR (parse args) (blockManager_AddFlags parseDuration))) (\<lambda>bf. blockManager_run ku synced bf e n)"

definition blockManager_main ::
  "(string list \<Rightarrow> flags res) \<Rightarrow> (string \<Rightarrow> int res) \<Rightarrow> 's kube_setup \<Rightarrow> bool \<Rightarrow> 's block_env \<Rightarrow> nat \<Rightarrow> string list \<Rightarrow> ('s, nat) act" where
  "blockManager_main parse parseDuration ku synced e n args =
     handleE (blockManager_NewCommand parse parseDuration ku synced e n args) (\<lambda>r. case r of Inl _ \<Rightarrow> ret 1 | Inr _ \<Rightarrow> ret 0)"

section \<open>Properties\<close>

text \<open>
  An agent proxy without a tenant starts and serves nothing.  The command refuses to start without the
  address of the gateway; without a tenant it returns no error, and the process waits for
  signals with no server running.
\<close>

theorem agent_without_tenant_idles:
  assumes "agl_content lib (agc_clientConfigPath (apc_gatewayConfig conf)) = Inr yaml"
    and "agc_address (apc_gatewayConfig conf) \<noteq> []" and "apc_tenant conf = []"
  shows "agentMain lib conf = Inr [InterruptActor, ReloadActor] \<and>
    (\<exists>e. agentMain lib (conf\<lparr>apc_gatewayConfig := (apc_gatewayConfig conf)\<lparr>agc_address := []\<rparr>\<rparr>) = Inl e)"
  using assms by (simp add: agentMain_def mainActors_def registerAgentProxy_def agentActors_def)

text \<open>The flags for the certificate of the server are read and not used.\<close>

lemma agent_server_tls_ignored:
  "registerAgentProxy lib (conf\<lparr>apc_serverTlsKey := k, apc_serverTlsCert := c, apc_serverTlsClientCa := ca\<rparr>) = registerAgentProxy lib conf"
  by (simp add: registerAgentProxy_def runAgentProxy_def cong: if_cong sum.case_cong)

text \<open>With a tenant, an address that can be parsed and a usable client configuration, the proxy serves.\<close>

lemma agent_serves:
  assumes "agl_content lib (agc_clientConfigPath (apc_gatewayConfig conf)) = Inr yaml"
    and "apc_tenant conf \<noteq> []" and "agc_address (apc_gatewayConfig conf) \<noteq> []"
    and "urlParse (agc_address (apc_gatewayConfig conf)) = Inr u"
    and "gatewayClientCfg lib yaml (apc_gatewayConfig conf) = Inr cfg" and "newRoundTripperFromConfig lib cfg ''agent-proxy'' = Inr rt"
  shows "registerAgentProxy lib conf = Inr (Some \<lparr>agp_Options = \<lparr>ao_Tenant = apc_tenant conf, ao_GatewayProxy = urlString u\<rparr>,
      agp_Transport = rt, agp_HTTP = apc_HTTP conf\<rparr>)"
    and "agentMain lib conf = Inr [ServeActor (apc_HTTP conf), InterruptActor, ReloadActor]"
  using assms by (simp_all add: registerAgentProxy_def runAgentProxy_def agentMain_def mainActors_def agentActors_def)

definition durationOr :: "int option \<Rightarrow> int \<Rightarrow> int" where
  "durationOr d dflt = (case d of None \<Rightarrow> dflt | Some n \<Rightarrow> if n = 0 then dflt else n)"

definition gcArgNames :: "string list" where
  "gcArgNames = [''objstore.config''] @ [''gc.interval''] @ [''gc.cleanup-timeout''] @ [''tenant.default-id''] @ [''tenant.label-name'']"

lemma durationArg_cases:
  "durationArg w p d = (case d of None \<Rightarrow> [] | Some n \<Rightarrow> if n = 0 then [] else [p @ w_durationString w n])"
  by (simp add: durationArg_def split: option.split)

lemma gcArgs_parse:
  assumes "parserOk parse blockManagerFlags bools"
  shows "parse (gcArgs w gcf sc) = Inr (flagsOf (gcArgs w gcf sc))"
proof -
  have "subseq (map flagName (gcArgs w gcf sc)) gcArgNames"
    unfolding gcArgs_def gcArgNames_def map_append append_assoc
    by (intro list_emb_append_mono) (simp_all add: optArg_def durationArg_cases flagName_def split: option.split)
  moreover have "distinct gcArgNames" by (simp add: gcArgNames_def)
  ultimately have "distinct (map flagName (gcArgs w gcf sc))" by (rule subseq_distinct)
  moreover have "list_all (plainArg blockManagerFlags bools) (gcArgs w gcf sc)"
    unfolding gcArgs_def list_all_append
    by (intro conjI) (simp_all add: optArg_def durationArg_cases plainArg_def hasPrefix_def flagName_def blockManagerFlags_def split: option.split)
  ultimately show ?thesis using assms by (simp add: parserOk_def)
qed

text \<open>The set-up of the client succeeds and leaves the cluster alone.\<close>

definition setupOk :: "'s kube_setup \<Rightarrow> 's client \<Rightarrow> bool" where
  "setupOk ku cl \<longleftrightarrow> ku_getConfig ku = ret () \<and> (\<forall>gv ts. ku_addTypes ku gv ts = ret ()) \<and> ku_newCache ku = ret () \<and>
     ku_httpClientFor ku = ret () \<and> ku_newRESTMapper ku = ret () \<and> ku_newClient ku = ret cl"

lemma NewBlockManager_ok:
  assumes "setupOk ku cl"
  shows "NewBlockManager ku bf = ret (bmf_Conf bf, cl)"
proof -
  have "ignoreE (Builder_AddToScheme (ku_addTypes ku) SchemeBuilder) = ret ()"
  proof -
    have "forE tss (ku_addTypes ku gv) = ret ()" for tss gv
      using assms by (induction tss) (simp_all add: setupOk_def)
    then show ?thesis by (intro ext) (simp add: ignoreE_def Builder_AddToScheme_def)
  qed
  then show ?thesis using assms by (intro ext) (simp add: NewBlockManager_def setupOk_def)
qed

text \<open>
  C26: the block manager does what the storage asks for.  Started with the arguments the storage controller
  writes into the container for garbage collection, it has the label and the default tenant of the
  spec, its intervals where they are not zero and the defaults of the program otherwise, and the
  configuration of the storage, so that it does not refuse to run: the process collects garbage until it is
  told to stop, and ends with the status 0.
\<close>

theorem block_manager_configured:
  assumes parser: "parserOk parse blockManagerFlags bools" and sc: "sc \<noteq> []"
    and dur: "\<And>n. dur (w_durationString w n) = Inr n" and ku: "setupOk ku cl"
  shows "\<exists>p bf. parse (gcArgs w gcf sc) = Inr p \<and> blockManager_AddFlags dur p = Inr bf \<and>
    bmf_Conf bf = \<lparr>bc_tenantLabelName = orDefault (gc_TenantLabelName gcf) ''tenant_id'',
      bc_defaultTenantId = orDefault (gc_DefaultTenantId gcf) ''default-tenant'', bc_storageConfig = sc, bc_storageConfigFile = [],
      bc_gcCleanupTimeout = durationOr (gc_CleanupTimeout gcf) (3600 * secondNs)\<rparr> \<and>
    bmf_Interval bf = durationOr (gc_GCInterval gcf) (600 * secondNs) \<and>
    blockManager_main parse dur ku True e n (gcArgs w gcf sc) s = (Inr 0, snd (gc (bmf_Conf bf) e cl n s))"
proof -
  let ?F = "flagsOf (gcArgs w gcf sc)"
  have F: "?F ''objstore.config'' = Some sc" "?F ''objstore.config-file'' = None"
    "?F ''tenant.label-name'' = nonempty (gc_TenantLabelName gcf)" "?F ''tenant.default-id'' = nonempty (gc_DefaultTenantId gcf)"
    "?F ''gc.interval'' = (case gc_GCInterval gcf of None \<Rightarrow> None | Some n \<Rightarrow> if n = 0 then None else Some (w_durationString w n))"
    "?F ''gc.cleanup-timeout'' = (case gc_CleanupTimeout gcf of None \<Rightarrow> None | Some n \<Rightarrow> if n = 0 then None else Some (w_durationString w n))"
    unfolding gcArgs_def flags_at durationArg_cases
    by (cases "gc_GCInterval gcf"; cases "gc_CleanupTimeout gcf"; simp add: flags_at flagName_def flagValue_def nonempty_def)+
  have flags: "blockManager_AddFlags dur ?F = Inr \<lparr>bmf_Conf = \<lparr>bc_tenantLabelName = orDefault (gc_TenantLabelName gcf) ''tenant_id'',
      bc_defaultTenantId = orDefault (gc_DefaultTenantId gcf) ''default-tenant'', bc_storageConfig = sc, bc_storageConfigFile = [],
      bc_gcCleanupTimeout = durationOr (gc_CleanupTimeout gcf) (3600 * secondNs)\<rparr>, bmf_Interval = durationOr (gc_GCInterval gcf) (600 * secondNs)\<rparr>"
    unfolding blockManager_AddFlags_def flagDuration_def flagString_def F
    by (simp add: nonempty_def orDefault_def durationOr_def dur split: option.split)
  let ?bf = "\<lparr>bmf_Conf = \<lparr>bc_tenantLabelName = orDefault (gc_TenantLabelName gcf) ''tenant_id'',
      bc_defaultTenantId = orDefault (gc_DefaultTenantId gcf) ''default-tenant'', bc_storageConfig = sc, bc_storageConfigFile = [],
      bc_gcCleanupTimeout = durationOr (gc_CleanupTimeout gcf) (3600 * secondNs)\<rparr>, bmf_Interval = durationOr (gc_GCInterval gcf) (600 * secondNs)\<rparr>"
  have "blockManager_run ku True ?bf e n = gc (bmf_Conf ?bf) e cl n"
    using sc by (simp add: blockManager_run_def NewBlockManager_ok [OF ku] BlockManager_Run_def)
  moreover obtain s' where "gc (bmf_Conf ?bf) e cl n s = (Inr (), s')"
    using gc_returns [of "bmf_Conf ?bf" e cl n s] by (elim exE)
  ultimately have "blockManager_main parse dur ku True e n (gcArgs w gcf sc) s = (Inr 0, snd (gc (bmf_Conf ?bf) e cl n s))"
    by (simp add: blockManager_main_def blockManager_NewCommand_def gcArgs_parse [OF parser] flags liftE_def handleE_def bindE_def ret_def)
  then show ?thesis using gcArgs_parse [OF parser] flags by (intro exI [of _ ?F] exI [of _ ?bf]) simp
qed

section \<open>Examples\<close>

definition exAgentLib :: "(unit, unit, unit) agent_plib" where
  "exAgentLib = \<lparr>agl_modelDuration = (\<lambda>_. Inr (120 * secondNs)), agl_atoi = (\<lambda>d. Inr (if d = ''100'' then 100 else 0)),
     agl_content = (\<lambda>pc. Inr (pc_Content pc)),
     agl_default = \<lparr>tcc_BasicAuth = ([], [], []), tcc_BearerToken = [], tcc_BearerTokenFile = [], tcc_ProxyURL = [],
       tcc_TLSConfig = \<lparr>tf_CAFile = [], tf_CertFile = [], tf_KeyFile = [], tf_ServerName = [], tf_InsecureSkipVerify = False\<rparr>,
       tcc_MaxIdleConnsPerHost = 2, tcc_MaxConnsPerHost = 0, tcc_Transport = ()\<rparr>,
     agl_yamlClient = (\<lambda>_. Inl Panic), agl_yamlURL = (\<lambda>_. Inr ()), agl_validate = (\<lambda>_. Inr ()), agl_newRoundTripper = (\<lambda>_ _ _. Inr ())\<rparr>"

theorem agent_without_tenant_idles_witness:
  "\<exists>conf. agentProxyConfig_registerFlag (agl_modelDuration exAgentLib) (agl_atoi exAgentLib) [''gateway.address'' \<mapsto> ''http://g:9090''] = Inr conf \<and>
     agentMain exAgentLib conf = Inr [InterruptActor, ReloadActor]"
proof -
  let ?p = "[''gateway.address'' \<mapsto> ''http://g:9090'']"
  obtain conf where conf: "agentProxyConfig_registerFlag (agl_modelDuration exAgentLib) (agl_atoi exAgentLib) ?p = Inr conf"
    "agc_address (apc_gatewayConfig conf) \<noteq> []" "apc_tenant conf = []"
    by (simp add: agentProxyConfig_registerFlag_def RegisterHTTPFlags_def flagParsed_def flagString_def exAgentLib_def)
  have "agl_content exAgentLib pc = Inr (pc_Content pc)" for pc by (simp add: exAgentLib_def)
  from agent_without_tenant_idles [OF this conf(2,3)] conf(1) show ?thesis by blast
qed

text \<open>Durations written in unary, so that they can be read back.\<close>

definition exDurations :: wlib where
  "exDurations = exWlib\<lparr>w_durationString := \<lambda>n. (if n < 0 then ''-'' else []) @ replicate (nat \<bar>n\<bar>) CHR ''n''\<rparr>"

definition exParseDuration :: "string \<Rightarrow> int res" where
  "exParseDuration v = Inr (if hasPrefix v ''-'' then - (int (length v) - 1) else int (length v))"

definition exGC :: block_gc where
  "exGC = \<lparr>gc_Enable = Some True, gc_Resources = zeroResources, gc_Image = [], gc_ImagePullPolicy = [], gc_GCInterval = Some 5,
     gc_CleanupTimeout = None, gc_DefaultTenantId = [], gc_TenantLabelName = ''t''\<rparr>"

definition exKubeSetup :: "cluster kube_setup" where
  "exKubeSetup = \<lparr>ku_getConfig = ret (), ku_addTypes = (\<lambda>_ _. ret ()), ku_newCache = ret (), ku_httpClientFor = ret (),
     ku_newRESTMapper = ret (), ku_newClient = ret memClient\<rparr>"

theorem block_manager_configured_witness:
  "\<exists>bf. blockManager_AddFlags exParseDuration (flagsOf (gcArgs exDurations exGC ''cfg'')) = Inr bf \<and>
     bmf_Interval bf = 5 \<and> bc_tenantLabelName (bmf_Conf bf) = ''t'' \<and> bc_gcCleanupTimeout (bmf_Conf bf) = 3600 * secondNs"
proof -
  have dur: "exParseDuration (w_durationString exDurations n) = Inr n" for n
    by (cases "n < 0"; cases "nat n") (auto simp: exParseDuration_def exDurations_def hasPrefix_def)
  have "bc_tenantLabelName (bmf_Conf bf) = ''t'' \<and> bmf_Interval bf = 5 \<and> bc_gcCleanupTimeout (bmf_Conf bf) = 3600 * secondNs"
    if "bmf_Conf bf = \<lparr>bc_tenantLabelName = orDefault (gc_TenantLabelName exGC) ''tenant_id'',
      bc_defaultTenantId = orDefault (gc_DefaultTenantId exGC) ''default-tenant'', bc_storageConfig = ''cfg'', bc_storageConfigFile = [],
      bc_gcCleanupTimeout = durationOr (gc_CleanupTimeout exGC) (3600 * secondNs)\<rparr>"
      "bmf_Interval bf = durationOr (gc_GCInterval exGC) (600 * secondNs)" for bf
    using that by (simp add: exGC_def orDefault_def durationOr_def)
  moreover have "setupOk exKubeSetup memClient" by (simp add: setupOk_def exKubeSetup_def)
  ultimately show ?thesis
    using block_manager_configured [OF parserOk_flagsOf _ dur, of "''cfg''" exKubeSetup memClient exGC] by fastforce
qed

end
