(* ===== verification/Manager_Process.thy ===== *)
theory Manager_Process
  imports Controller_Manager Command_Line Api_Scheme
begin

text \<open>
  \<^verbatim>\<open>cmd/controller-manager/app/server.go\<close> and \<^verbatim>\<open>options/options.go\<close>: the command and the flags of the controller
  manager and the order in which it sets itself up; and \<^verbatim>\<open>pkg/controllers/config/config.go\<close>, the loader of a configuration
  file.  The manager of the controller runtime, its certificate watcher and \<^verbatim>\<open>viper\<close> are parameters.
\<close>

section \<open>options.go\<close>

record manager_options =
  mo_MetricsAddr :: string
  mo_SecureMetrics :: bool
  mo_MetricsCertPath :: string
  mo_MetricsCertName :: string
  mo_MetricsCertKey :: string
  mo_EnableHTTP2 :: bool
  mo_EnableLeaderElection :: bool
  mo_ProbeAddr :: string

definition NewControllerManagerOptions :: manager_options where
  "NewControllerManagerOptions = \<lparr>mo_MetricsAddr = ''0'', mo_SecureMetrics = True, mo_MetricsCertPath = [], mo_MetricsCertName = ''tls.crt'',
     mo_MetricsCertKey = ''tls.key'', mo_EnableHTTP2 = False, mo_EnableLeaderElection = False, mo_ProbeAddr = '':8081''\<rparr>"

definition ControllerManagerOptions_Flags :: "flags \<Rightarrow> manager_options \<Rightarrow> manager_options res" where
  "ControllerManagerOptions_Flags p s =
     bindR (flagParsedBool p ''metrics-secure'' (mo_SecureMetrics s)) (\<lambda>secure.
     bindR (flagParsedBool p ''enable-http2'' (mo_EnableHTTP2 s)) (\<lambda>http2.
     bindR (flagParsedBool p ''leader-elect'' (mo_EnableLeaderElection s)) (\<lambda>leader.
       Inr \<lparr>mo_MetricsAddr = flagString p ''metrics-bind-address'' (mo_MetricsAddr s), mo_SecureMetrics = secure,
            mo_MetricsCertPath = flagString p ''metrics-cert-path'' (mo_MetricsCertPath s),
            mo_MetricsCertName = flagString p ''metrics-cert-name'' (mo_MetricsCertName s),
            mo_MetricsCertKey = flagString p ''metrics-cert-key'' (mo_MetricsCertKey s), mo_EnableHTTP2 = http2,
            mo_EnableLeaderElection = leader, mo_ProbeAddr = flagString p ''health-probe-bind-address'' (mo_ProbeAddr s)\<rparr>)))"

definition ControllerManagerOptions_Validate :: "manager_options \<Rightarrow> gerror list" where
  "ControllerManagerOptions_Validate s = []"

section \<open>server.go\<close>

text \<open>What the manager is created with; \<open>ms_HTTP1Only\<close> and \<open>ms_CertWatcher\<close> stand for the two TLS options.\<close>

record mgr_settings =
  ms_BindAddress :: string
  ms_SecureServing :: bool
  ms_HTTP1Only :: bool
  ms_CertWatcher :: bool
  ms_FilterProvider :: bool
  ms_HealthProbeBindAddress :: string
  ms_LeaderElection :: bool
  ms_LeaderElectionID :: string

text \<open>
  The manager of the controller runtime.  \<open>ml_addMetaTypes\<close> is \<^verbatim>\<open>metav1.AddToGroupVersion\<close>, which returns no
  error; the other ways to extend the scheme do, and the code drops it.
\<close>

record ('m, 's) manager_lib =
  ml_newCertWatcher :: "string \<Rightarrow> string \<Rightarrow> ('m, unit) act"
  ml_newManager :: "mgr_settings \<Rightarrow> ('m, unit) act"
  ml_addTypes :: "'m add_types"
  ml_addApiextensions :: "('m, unit) act"
  ml_addPrometheus :: "('m, unit) act"
  ml_addMetaTypes :: "('m, unit) act"
  ml_addCertWatcher :: "('m, unit) act"
  ml_register :: "'s controller \<Rightarrow> ('m, unit) act"
  ml_addHealthzCheck :: "('m, unit) act"
  ml_addReadyzCheck :: "('m, unit) act"
  ml_start :: "('m, unit) act"

definition managerSettings :: "manager_options \<Rightarrow> mgr_settings" where
  "managerSettings s = \<lparr>ms_BindAddress = mo_MetricsAddr s, ms_SecureServing = mo_SecureMetrics s, ms_HTTP1Only = (\<not> mo_EnableHTTP2 s),
     ms_CertWatcher = (mo_MetricsCertPath s \<noteq> []), ms_FilterProvider = mo_SecureMetrics s,
     ms_HealthProbeBindAddress = mo_ProbeAddr s, ms_LeaderElection = mo_EnableLeaderElection s,
     ms_LeaderElectionID = ''whizard-controller-manager-leader-election''\<rparr>"

definition Run :: "('m, 's) manager_lib \<Rightarrow> 's rule_lib \<Rightarrow> wlib \<Rightarrow> merge_lib \<Rightarrow> 's client \<Rightarrow> manager_options \<Rightarrow> ('m, unit) act" where
  "Run ml lib w mg cl s =
     bindE (if mo_MetricsCertPath s \<noteq> []
            then wrapE ''unable to initialize metrics certificate watcher''
                   (ml_newCertWatcher ml (joinPath [mo_MetricsCertPath s, mo_MetricsCertName s]) (joinPath [mo_MetricsCertPath s, mo_MetricsCertKey s]))
            else ret ()) (\<lambda>_.
     bindE (wrapE ''unable to set up overall controller manager'' (ml_newManager ml (managerSettings s))) (\<lambda>_.
     bindE (ignoreE (AddToScheme (ml_addTypes ml))) (\<lambda>_.
     bindE (ignoreE (ml_addApiextensions ml)) (\<lambda>_.
     bindE (ignoreE (ml_addPrometheus ml)) (\<lambda>_.
     bindE (ml_addMetaTypes ml) (\<lambda>_.
     bindE (if mo_MetricsCertPath s \<noteq> []
            then wrapE ''unable to add metrics certificate watcher to manager'' (ml_addCertWatcher ml) else ret ()) (\<lambda>_.
     bindE (wrapE ''unable to register controllers to the manager'' (addControllers (ml_register ml) lib w mg cl)) (\<lambda>_.
     bindE (wrapE ''unable to set up health check'' (ml_addHealthzCheck ml)) (\<lambda>_.
     bindE (wrapE ''unable to set up ready check'' (ml_addReadyzCheck ml)) (\<lambda>_.
     wrapE ''unable to run the manager'' (ml_start ml)))))))))))"

text \<open>
  The command: what the command line library makes of the arguments, and how the process ends.
  \<^verbatim>\<open>klog.Fatal\<close> ends it with the status 255.
\<close>

datatype manager_command = RunManager flags | PrintVersion | PrintHelp

definition NewControllerManagerCommand ::
  "('m, 's) manager_lib \<Rightarrow> 's rule_lib \<Rightarrow> wlib \<Rightarrow> merge_lib \<Rightarrow> 's client \<Rightarrow> manager_command \<Rightarrow> ('m, nat) act" where
  "NewControllerManagerCommand ml lib w mg cl cmd = (case cmd of
       PrintVersion \<Rightarrow> ret 0
     | PrintHelp \<Rightarrow> ret 0
     | RunManager p \<Rightarrow>
         bindE (liftE (ControllerManagerOptions_Flags p NewControllerManagerOptions)) (\<lambda>s.
           if ControllerManagerOptions_Validate s \<noteq> [] then ret 255
           else handleE (Run ml lib w mg cl s) (\<lambda>r. case r of Inl _ \<Rightarrow> ret 255 | Inr _ \<Rightarrow> ret 0)))"

definition controllerManager_main ::
  "(string list \<Rightarrow> manager_command res) \<Rightarrow> ('m, 's) manager_lib \<Rightarrow> 's rule_lib \<Rightarrow> wlib \<Rightarrow> merge_lib \<Rightarrow> 's client \<Rightarrow>
   string list \<Rightarrow> ('m, nat) act" where
  "controllerManager_main parse ml lib w mg cl args =
     handleE (bindE (liftE (parse args)) (NewControllerManagerCommand ml lib w mg cl)) (\<lambda>r. case r of Inl _ \<Rightarrow> ret 1 | Inr code \<Rightarrow> ret code)"

section \<open>config.go\<close>

text \<open>
  The decode hooks: data that is a string, a value of another type whose kind is string, or something
  else; and what the hooks make of it.  An assertion on the wrong type panics.
\<close>

datatype ('q, 't) hook_data = HString string | HNamedString string | HOther raw | HQuantity 'q | HTime 't | HDuration int

datatype hook_target = TQuantity | TTime | TDuration | TOtherType

definition stringHook :: "hook_target \<Rightarrow> (string \<Rightarrow> ('q, 't) hook_data res) \<Rightarrow> hook_target \<Rightarrow> ('q, 't) hook_data \<Rightarrow> ('q, 't) hook_data res" where
  "stringHook target conv t d = (case d of
       HString v \<Rightarrow> if t \<noteq> target then Inr d else conv v
     | HNamedString v \<Rightarrow> if t \<noteq> target then Inr d else Inl Panic
     | _ \<Rightarrow> Inr d)"

definition StringToResourceQuantityHookFunc :: "(string \<Rightarrow> 'q res) \<Rightarrow> hook_target \<Rightarrow> ('q, 't) hook_data \<Rightarrow> ('q, 't) hook_data res" where
  "StringToResourceQuantityHookFunc parseQuantity = stringHook TQuantity (\<lambda>v. bindR (parseQuantity v) (\<lambda>q. Inr (HQuantity q)))"

definition StringToMetav1TimeHookFunc :: "'t \<Rightarrow> (string \<Rightarrow> 't res) \<Rightarrow> hook_target \<Rightarrow> ('q, 't) hook_data \<Rightarrow> ('q, 't) hook_data res" where
  "StringToMetav1TimeHookFunc zeroTime unmarshal =
     stringHook TTime (\<lambda>v. Inr (HTime (case unmarshal v of Inl _ \<Rightarrow> zeroTime | Inr t \<Rightarrow> t)))"

definition StringToMetav1DurationHookFunc :: "(string \<Rightarrow> int res) \<Rightarrow> hook_target \<Rightarrow> ('q, 't) hook_data \<Rightarrow> ('q, 't) hook_data res" where
  "StringToMetav1DurationHookFunc parseDuration = stringHook TDuration (\<lambda>v. bindR (parseDuration v) (\<lambda>d. Inr (HDuration d)))"

text \<open>
  \<^verbatim>\<open>loadFromDisk\<close>: the file is read and decoded once; \<open>readErr\<close> is the error of reading it, with the
  information whether it only means that there is none, \<open>decodeErr\<close> that of decoding it.
\<close>

record load_state =
  ls_Loaded :: bool

definition loadFromDisk :: "(gerror \<times> bool) option \<Rightarrow> gerror option \<Rightarrow> (load_state, gerror option) act" where
  "loadFromDisk readErr decodeErr = (\<lambda>st.
     if ls_Loaded st then (Inr None, st)
     else (let err = (case readErr of
                        None \<Rightarrow> None
                      | Some (e, notFound) \<Rightarrow> if notFound then Some e else Some (Wrapped ''error parsing configuration file'' e));
               err = decodeErr
           in (Inr err, st\<lparr>ls_Loaded := True\<rparr>)))"

definition TryLoadFromDisk :: "(gerror \<times> bool) option \<Rightarrow> gerror option \<Rightarrow> (load_state, gerror option) act" where
  "TryLoadFromDisk readErr decodeErr = loadFromDisk readErr decodeErr"

text \<open>The settings of \<^verbatim>\<open>viper\<close> that \<^verbatim>\<open>defaultConfig\<close> makes, in their order.\<close>

datatype viper_setting = SetConfigName string | AddConfigPath string | SetEnvPrefix string | AutomaticEnv | EnvKeyReplacer string string

definition defaultConfigurationName :: string where
  "defaultConfigurationName = ''whizard''"
definition defaultConfigurationPath :: string where
  "defaultConfigurationPath = ''/etc/whizard''"

text \<open>
  The state of the watch: whether it has been started, how many handlers were installed, and the
  configurations that handlers offer on the channel, which nobody has taken yet.  The configuration has
  no fields.
\<close>

record watch_state = load_state +
  wst_Watching :: bool
  wst_Handlers :: nat
  wst_Offered :: nat

definition defaultConfig :: "viper_setting list \<times> watch_state" where
  "defaultConfig =
     ([SetConfigName defaultConfigurationName, AddConfigPath defaultConfigurationPath, AddConfigPath ''.'', SetEnvPrefix ''whizard'',
       AutomaticEnv, EnvKeyReplacer ''.'' ''_''],
      \<lparr>ls_Loaded = False, wst_Watching = False, wst_Handlers = 0, wst_Offered = 0\<rparr>)"

definition watchConfig :: "watch_state \<Rightarrow> watch_state" where
  "watchConfig st = (if wst_Watching st then st else st\<lparr>wst_Watching := True, wst_Handlers := wst_Handlers st + 1\<rparr>)"

definition WatchConfigChange :: "watch_state \<Rightarrow> watch_state" where
  "WatchConfigChange st = watchConfig st"

text \<open>A change of the file, with the error of decoding it; without one each handler offers the configuration.\<close>

definition configChanged :: "gerror option \<Rightarrow> watch_state \<Rightarrow> watch_state" where
  "configChanged decodeErr st = (case decodeErr of
       Some _ \<Rightarrow> st
     | None \<Rightarrow> st\<lparr>wst_Offered := wst_Offered st + wst_Handlers st\<rparr>)"

text \<open>
  \<^verbatim>\<open>ToMap\<close> over the fields of a structure, as reflection shows them: the JSON tag and whether the field
  is nil.  \<^verbatim>\<open>Config\<close> has none.
\<close>

fun toMapFields :: "(string \<times> bool) list \<Rightarrow> (string \<rightharpoonup> bool) \<Rightarrow> string \<rightharpoonup> bool" where
  "toMapFields [] result = result"
| "toMapFields ((tag, isNil) # fs) result =
     (let name = splitOn CHR '','' tag ! 0 in
      if hasPrefix name ''-'' then toMapFields fs result else toMapFields fs (result(name \<mapsto> \<not> isNil)))"

definition configFields :: "(string \<times> bool) list" where
  "configFields = []"

definition ToMap :: "unit option \<Rightarrow> string \<rightharpoonup> bool" where
  "ToMap conf = (case conf of None \<Rightarrow> Map.empty | Some _ \<Rightarrow> toMapFields configFields Map.empty)"

section \<open>Properties\<close>

text \<open>A manager whose completed calls can be observed in a log.\<close>

datatype mgr_call = CertWatcher | NewManager mgr_settings | AddCertWatcher | Registered kind | Healthz | Readyz | Started

definition traced :: "('m \<Rightarrow> mgr_call list) \<Rightarrow> ('m, unit) act \<Rightarrow> mgr_call \<Rightarrow> bool" where
  "traced L m call \<longleftrightarrow> (\<forall>s. L (snd (m s)) = L s @ (case fst (m s) of Inl _ \<Rightarrow> [] | Inr _ \<Rightarrow> [call]))"

definition tracedLib :: "('m \<Rightarrow> mgr_call list) \<Rightarrow> ('m, 's) manager_lib \<Rightarrow> bool" where
  "tracedLib L ml \<longleftrightarrow> (\<forall>a b. traced L (ml_newCertWatcher ml a b) CertWatcher) \<and> (\<forall>ms. traced L (ml_newManager ml ms) (NewManager ms)) \<and>
     (\<forall>gv ts s. L (snd (ml_addTypes ml gv ts s)) = L s) \<and> (\<forall>s. L (snd (ml_addApiextensions ml s)) = L s) \<and>
     (\<forall>s. L (snd (ml_addPrometheus ml s)) = L s) \<and> (\<forall>s. \<exists>s'. ml_addMetaTypes ml s = (Inr (), s') \<and> L s' = L s) \<and>
     traced L (ml_addCertWatcher ml) AddCertWatcher \<and> (\<forall>c. traced L (ml_register ml c) (Registered (ct_For c))) \<and>
     traced L (ml_addHealthzCheck ml) Healthz \<and> traced L (ml_addReadyzCheck ml) Readyz \<and> traced L (ml_start ml) Started"

text \<open>
  An action completes calls in the order of a list: those up to some point, and all of them exactly
  when it succeeds.
\<close>

definition completes :: "('m \<Rightarrow> mgr_call list) \<Rightarrow> ('m, unit) act \<Rightarrow> mgr_call list \<Rightarrow> bool" where
  "completes L m calls \<longleftrightarrow> (\<forall>s. \<exists>k \<le> length calls. L (snd (m s)) = L s @ take k calls \<and> ((\<exists>e. fst (m s) = Inl e) \<longleftrightarrow> k < length calls))"

lemma completes_traced: "traced L m call \<Longrightarrow> completes L m [call]"
  unfolding completes_def traced_def
proof (intro allI)
  fix s
  assume "\<forall>s. L (snd (m s)) = L s @ (case fst (m s) of Inl _ \<Rightarrow> [] | Inr _ \<Rightarrow> [call])"
  then have t: "L (snd (m s)) = L s @ (case fst (m s) of Inl _ \<Rightarrow> [] | Inr _ \<Rightarrow> [call])" by blast
  show "\<exists>k \<le> length [call]. L (snd (m s)) = L s @ take k [call] \<and> ((\<exists>e. fst (m s) = Inl e) \<longleftrightarrow> k < length [call])"
    by (cases "fst (m s)") (use t in \<open>auto intro: exI [of _ 0] exI [of _ 1]\<close>)
qed

lemma completes_ret: "completes L (ret ()) []"
  by (simp add: completes_def)

lemma completes_wrapE: "completes L m calls \<Longrightarrow> completes L (wrapE msg m) calls"
  unfolding completes_def
proof (intro allI)
  fix s
  assume "\<forall>s. \<exists>k \<le> length calls. L (snd (m s)) = L s @ take k calls \<and> ((\<exists>e. fst (m s) = Inl e) \<longleftrightarrow> k < length calls)"
  then obtain k where "k \<le> length calls" "L (snd (m s)) = L s @ take k calls" "(\<exists>e. fst (m s) = Inl e) \<longleftrightarrow> k < length calls" by blast
  then show "\<exists>k \<le> length calls. L (snd (wrapE msg m s)) = L s @ take k calls \<and> ((\<exists>e. fst (wrapE msg m s) = Inl e) \<longleftrightarrow> k < length calls)"
    by (intro exI [of _ k]) (cases "m s"; cases "fst (m s)"; simp add: wrapE_def handleE_def)
qed

lemma completes_bindE:
  assumes m: "completes L m as" and f: "completes L (f ()) bs"
  shows "completes L (bindE m f) (as @ bs)"
  unfolding completes_def
proof (intro allI)
  fix s
  from m obtain k where k: "k \<le> length as" "L (snd (m s)) = L s @ take k as" "(\<exists>e. fst (m s) = Inl e) \<longleftrightarrow> k < length as"
    unfolding completes_def by blast
  show "\<exists>k \<le> length (as @ bs). L (snd (bindE m f s)) = L s @ take k (as @ bs) \<and> ((\<exists>e. fst (bindE m f s) = Inl e) \<longleftrightarrow> k < length (as @ bs))"
  proof (cases "fst (m s)")
    case (Inl e)
    then have run: "bindE m f s = (Inl e, snd (m s))" by (cases "m s") simp
    have "k < length as" using k(3) Inl by simp
    with k show ?thesis unfolding run by (intro exI [of _ k]) simp
  next
    case (Inr u)
    then have run: "bindE m f s = f () (snd (m s))" by (cases "m s") simp
    have all: "k = length as" using k(1,3) Inr by auto
    from f obtain j where "j \<le> length bs" "L (snd (f () (snd (m s)))) = L (snd (m s)) @ take j bs"
      "(\<exists>e. fst (f () (snd (m s))) = Inl e) \<longleftrightarrow> j < length bs"
      unfolding completes_def by blast
    with k(2) all show ?thesis unfolding run by (intro exI [of _ "length as + j"]) simp
  qed
qed

lemma completes_forE:
  assumes "\<And>x. x \<in> set xs \<Longrightarrow> completes L (f x) [g x]"
  shows "completes L (forE xs f) (map g xs)"
  using assms
proof (induction xs)
  case (Cons x xs)
  have "completes L (bindE (f x) (\<lambda>_. forE xs f)) ([g x] @ map g xs)" by (rule completes_bindE) (use Cons in auto)
  then show ?case by simp
qed (simp add: completes_ret)

text \<open>Extending the scheme is not logged; what it answers does not matter.\<close>

lemma completes_ignoreE: "(\<And>s. L (snd (m s)) = L s) \<Longrightarrow> completes L (ignoreE m) []"
  by (simp add: completes_def ignoreE_eq)

lemma forE_silent:
  assumes "\<And>x s. x \<in> set xs \<Longrightarrow> L (snd (f x s)) = L s"
  shows "L (snd (forE xs f s)) = L s"
  using assms
proof (induction xs arbitrary: s)
  case (Cons x xs)
  have "L (snd (f x s)) = L s" by (rule Cons.prems) simp
  moreover have "L (snd (forE xs f u)) = L u" for u by (rule Cons.IH) (simp add: Cons.prems)
  ultimately show ?case by (cases "f x s"; cases "fst (f x s)") (simp_all add: bindE_app)
qed (simp add: ret_def)

lemma AddToScheme_silent:
  assumes "\<And>gv ts s. L (snd (addTypes gv ts s)) = L s"
  shows "L (snd (AddToScheme addTypes s)) = L s"
  unfolding AddToScheme_def Builder_AddToScheme_def by (intro forE_silent assms)

definition setupCalls :: "manager_options \<Rightarrow> mgr_call list" where
  "setupCalls s = (if mo_MetricsCertPath s \<noteq> [] then [CertWatcher] else []) @ [NewManager (managerSettings s)] @
     (if mo_MetricsCertPath s \<noteq> [] then [AddCertWatcher] else []) @
     map Registered [KGateway, KQueryFrontend, KQuery, KRouter, KStore, KCompactor, KIngester, KRuler, KTenant, KStorage] @
     [Healthz] @ [Readyz] @ [Started]"

text \<open>
  C22: the manager starts complete or not at all.  Whatever the controller runtime answers, the set-up
  makes its calls in one order: the certificate watcher where one is configured, the manager, which
  speaks HTTP/1.1 only unless HTTP/2 is enabled, the ten controllers, the two checks, the start; it
  stops at the first call that fails, and succeeds exactly when all have been made.
\<close>

theorem manager_starts_complete:
  assumes "tracedLib L ml"
  shows "\<exists>k \<le> length (setupCalls s). L (snd (Run ml lib w mg cl s st)) = L st @ take k (setupCalls s) \<and>
    ((\<exists>e. fst (Run ml lib w mg cl s st) = Inl e) \<longleftrightarrow> k < length (setupCalls s))"
proof -
  note t = assms [unfolded tracedLib_def]
  let ?kinds = "[KGateway, KQueryFrontend, KQuery, KRouter, KStore, KCompactor, KIngester, KRuler, KTenant, KStorage]"
  have cert: "completes L (if b then wrapE msg (ml_newCertWatcher ml x y) else ret ()) (if b then [CertWatcher] else [])" for b msg x y
    using t by (simp add: completes_wrapE completes_traced completes_ret)
  have add: "completes L (if b then wrapE msg (ml_addCertWatcher ml) else ret ()) (if b then [AddCertWatcher] else [])" for b msg
    using t by (simp add: completes_wrapE completes_traced completes_ret)
  have "completes L (addControllers (ml_register ml) lib w mg cl) (map (\<lambda>c. Registered (ct_For c))
      [GatewayReconciler_SetupWithManager cl, QueryFrontendReconciler_SetupWithManager cl, QueryReconciler_SetupWithManager cl,
       RouterReconciler_SetupWithManager cl, StoreReconciler_SetupWithManager cl, CompactorReconciler_SetupWithManager cl,
       IngesterReconciler_SetupWithManager cl, RulerReconciler_SetupWithManager lib w mg cl,
       TenantReconciler_SetupWithManager cl, StorageReconciler_SetupWithManager cl])"
    unfolding addControllers_def by (rule completes_forE) (use t in \<open>simp add: completes_traced\<close>)
  then have ctrl: "completes L (addControllers (ml_register ml) lib w mg cl) (map Registered ?kinds)"
    by (simp add: setup_defs)
  have meta: "completes L (ml_addMetaTypes ml) []" unfolding completes_def
  proof
    fix u
    obtain u' where "ml_addMetaTypes ml u = (Inr (), u')" "L u' = L u" using t by blast
    then show "\<exists>k \<le> length []. L (snd (ml_addMetaTypes ml u)) = L u @ take k [] \<and> ((\<exists>e. fst (ml_addMetaTypes ml u) = Inl e) \<longleftrightarrow> k < length [])"
      by simp
  qed
  have calls: "setupCalls s = (if mo_MetricsCertPath s \<noteq> [] then [CertWatcher] else []) @ [NewManager (managerSettings s)] @ [] @ [] @ [] @ [] @
      (if mo_MetricsCertPath s \<noteq> [] then [AddCertWatcher] else []) @ map Registered ?kinds @ [Healthz] @ [Readyz] @ [Started]"
    by (simp add: setupCalls_def)
  have "completes L (Run ml lib w mg cl s) (setupCalls s)"
    unfolding Run_def calls
    by (intro completes_bindE cert add completes_wrapE ctrl completes_traced completes_ignoreE AddToScheme_silent meta)
      (use t in simp_all)
  then show ?thesis unfolding completes_def by blast
qed

text \<open>A manager that records its calls; it refuses to register the controller of a given kind.\<close>

definition exManager :: "kind option \<Rightarrow> (mgr_call list, cluster) manager_lib" where
  "exManager bad = \<lparr>ml_newCertWatcher = (\<lambda>_ _ l. (Inr (), l @ [CertWatcher])), ml_newManager = (\<lambda>ms l. (Inr (), l @ [NewManager ms])),
     ml_addTypes = (\<lambda>_ _. ret ()), ml_addApiextensions = ret (), ml_addPrometheus = ret (), ml_addMetaTypes = ret (),
     ml_addCertWatcher = (\<lambda>l. (Inr (), l @ [AddCertWatcher])),
     ml_register = (\<lambda>c l. if Some (ct_For c) = bad then (Inl (GoErr ''refused''), l) else (Inr (), l @ [Registered (ct_For c)])),
     ml_addHealthzCheck = (\<lambda>l. (Inr (), l @ [Healthz])), ml_addReadyzCheck = (\<lambda>l. (Inr (), l @ [Readyz])), ml_start = (\<lambda>l. (Inr (), l @ [Started]))\<rparr>"

lemma exManager_traced: "tracedLib (\<lambda>l. l) (exManager bad)"
  by (simp add: tracedLib_def traced_def exManager_def)

theorem manager_starts_complete_witness:
  "\<exists>k. snd (Run (exManager (Some KQuery)) exRuleLib exWlib exMerge memClient NewControllerManagerOptions []) =
     take k (setupCalls NewControllerManagerOptions) \<and>
     ((\<exists>e. fst (Run (exManager (Some KQuery)) exRuleLib exWlib exMerge memClient NewControllerManagerOptions []) = Inl e) \<longleftrightarrow>
      k < length (setupCalls NewControllerManagerOptions))"
  using manager_starts_complete [OF exManager_traced, of NewControllerManagerOptions "Some KQuery" exRuleLib exWlib exMerge memClient "[]"] by auto

text \<open>
  The kinds of the objects the controllers deal with.  The controller runtime refuses a controller that names
  a kind its scheme does not know.
\<close>

definition groupOf :: "kind \<Rightarrow> group_version" where
  "groupOf k = (case k of
       KStatefulSet \<Rightarrow> \<lparr>gv_Group = ''apps'', gv_Version = ''v1''\<rparr>
     | KDeployment \<Rightarrow> \<lparr>gv_Group = ''apps'', gv_Version = ''v1''\<rparr>
     | KKubeService \<Rightarrow> \<lparr>gv_Group = [], gv_Version = ''v1''\<rparr>
     | KConfigMap \<Rightarrow> \<lparr>gv_Group = [], gv_Version = ''v1''\<rparr>
     | KSecret \<Rightarrow> \<lparr>gv_Group = [], gv_Version = ''v1''\<rparr>
     | KPrometheusRule \<Rightarrow> \<lparr>gv_Group = ''monitoring.coreos.com'', gv_Version = ''v1''\<rparr>
     | _ \<Rightarrow> GroupVersion)"

definition gvkOf :: "kind \<Rightarrow> group_version \<times> string" where
  "gvkOf k = (groupOf k, kindName k)"

definition kindsUsed :: "'s controller \<Rightarrow> kind set" where
  "kindsUsed c = insert (ct_For c) (wt_Kind ` set (ct_Watches c) \<union> set (ct_Owned c))"

definition builtin :: "(group_version \<times> string) set" where
  "builtin = gvkOf ` {KStatefulSet, KDeployment, KKubeService, KConfigMap, KSecret}"

definition customTypes :: "(group_version \<times> string) set" where
  "customTypes = Pair GroupVersion ` set whizardKinds"

text \<open>
  What is documented of the scheme: that of a new manager knows the kinds of Kubernetes itself, adding
  types makes them known, and nothing that is known is forgotten.  Nothing is assumed of the success of any
  other call: certificates may be missing, and the runtime may refuse to create or to start a manager, to register a
  controller or to add a check, for whatever reason.
\<close>

definition schemeOk :: "('m \<Rightarrow> (group_version \<times> string) set) \<Rightarrow> ('m, 's) manager_lib \<Rightarrow> bool" where
  "schemeOk K ml \<longleftrightarrow> (\<forall>ms m m'. ml_newManager ml ms m = (Inr (), m') \<longrightarrow> builtin \<subseteq> K m') \<and> addsTypes K (ml_addTypes ml) \<and>
     (\<forall>m. insert (gvkOf KPrometheusRule) (K m) \<subseteq> K (snd (ml_addPrometheus ml m))) \<and>
     (\<forall>m. K m \<subseteq> K (snd (ml_addApiextensions ml m))) \<and> (\<forall>m. K m \<subseteq> K (snd (ml_addMetaTypes ml m))) \<and>
     (\<forall>m. K m \<subseteq> K (snd (ml_addCertWatcher ml m))) \<and> (\<forall>c m. K m \<subseteq> K (snd (ml_register ml c m)))"

text \<open>The same runtime, with the refusal of controllers that name unknown kinds put in front of the registration.\<close>

definition refusesUnknown :: "('m \<Rightarrow> (group_version \<times> string) set) \<Rightarrow> ('m, 's) manager_lib \<Rightarrow> ('m, 's) manager_lib" where
  "refusesUnknown K ml = ml\<lparr>ml_register := \<lambda>c m. if gvkOf ` kindsUsed c \<subseteq> K m then ml_register ml c m
     else (Inl (GoErr ''no kind is registered for the type''), m)\<rparr>"

text \<open>The kinds that Kubernetes, the group of Whizard and the operator of Prometheus bring are all there are.\<close>

lemma known_kinds: "range gvkOf = builtin \<union> {gvkOf KPrometheusRule} \<union> customTypes"
proof -
  have kinds: "(UNIV :: kind set) = {KStatefulSet, KDeployment, KKubeService, KConfigMap, KSecret} \<union> {KPrometheusRule} \<union>
      {KCompactor, KGateway, KIngester, KQuery, KQueryFrontend, KRouter, KRuler, KStore, KService, KStorage, KTenant}"
    (is "_ = ?k8s \<union> ?prom \<union> ?whz")
    using kind.nchotomy by auto
  have "gvkOf ` ?whz = customTypes" by (simp add: gvkOf_def groupOf_def whizardKinds_def customTypes_def)
  then show ?thesis unfolding kinds image_Un builtin_def by simp
qed

lemma schemeOkD:
  assumes "schemeOk K ml"
  shows "ml_newManager ml ms m = (Inr (), m') \<Longrightarrow> builtin \<subseteq> K m'" "addsTypes K (ml_addTypes ml)"
    "insert (gvkOf KPrometheusRule) (K m) \<subseteq> K (snd (ml_addPrometheus ml m))" "K m \<subseteq> K (snd (ml_addApiextensions ml m))"
    "K m \<subseteq> K (snd (ml_addMetaTypes ml m))" "K m \<subseteq> K (snd (ml_addCertWatcher ml m))" "K m \<subseteq> K (snd (ml_register ml c m))"
  using assms by (simp_all add: schemeOk_def)

lemma whizard_types_known:
  assumes "schemeOk K ml" and "builtin \<subseteq> K m"
  shows "builtin \<union> customTypes \<subseteq> K (snd (AddToScheme (ml_addTypes ml) m))"
proof -
  obtain m' where "AddToScheme (ml_addTypes ml) m = (Inr (), m')"
    "K m' = K m \<union> Pair GroupVersion ` (set whizardKinds \<union> (\<lambda>k. k @ ''List'') ` set whizardKinds)"
    using AddToScheme_adds [OF schemeOkD(2) [OF assms(1)]] by blast
  moreover have "customTypes \<subseteq> Pair GroupVersion ` (set whizardKinds \<union> (\<lambda>k. k @ ''List'') ` set whizardKinds)"
    unfolding customTypes_def by (rule image_mono) (rule Un_upper1)
  ultimately show ?thesis using assms(2) by (metis Un_mono snd_conv)
qed

text \<open>What holds after an action that may fail, and when two continuations cannot be told apart.\<close>

definition after :: "('m, 'a) act \<Rightarrow> 'm \<Rightarrow> ('m \<Rightarrow> bool) \<Rightarrow> bool" where
  "after a m P \<longleftrightarrow> (\<forall>x m'. a m = (Inr x, m') \<longrightarrow> P m')"

lemma after_any: "after a m (\<lambda>_. True)"
  by (simp add: after_def)

lemma after_snd: "P (snd (a m)) \<Longrightarrow> after a m P"
  by (auto simp: after_def)

lemma after_ret: "P m \<Longrightarrow> after (ret x) m P"
  by (simp add: after_def ret_def)

lemma after_wrapE: "after a m P \<Longrightarrow> after (wrapE msg a) m P"
  by (auto simp: after_def wrapE_def handleE_def failE_def ret_def split: prod.splits sum.splits)

lemma after_ignoreE: "P (snd (a m)) \<Longrightarrow> after (ignoreE a) m P"
  by (simp add: after_def ignoreE_eq)

lemma bindE_agree: "after a m P \<Longrightarrow> (\<And>x m'. P m' \<Longrightarrow> f x m' = g x m') \<Longrightarrow> bindE a f m = bindE a g m"
  by (auto simp: after_def bindE_def split: prod.splits sum.splits)

lemma forE_agree:
  assumes "P m" and "\<And>x m. P m \<Longrightarrow> f x m = g x m" and "\<And>x m. P m \<Longrightarrow> after (g x) m P"
  shows "forE xs f m = forE xs g m"
  using assms(1)
proof (induction xs arbitrary: m)
  case (Cons x xs)
  have "bindE (g x) (\<lambda>_. forE xs f) m = bindE (g x) (\<lambda>_. forE xs g) m"
    using assms(3) [OF Cons.prems] Cons.IH by (rule bindE_agree)
  then show ?case using assms(2) [OF Cons.prems] by (simp add: bindE_app)
qed simp

text \<open>
  C21: no controller is ever refused because of its kinds.  Whichever calls of the controller runtime succeed or
  fail, setting the manager up goes exactly as it would with a runtime that did not look at the kinds: when a
  controller is registered, the scheme knows every kind that it is responsible for, watches or owns, the
  eleven custom resources registered by the package of the API types among them, although the errors of
  extending the scheme are dropped.
\<close>

theorem registrations_known:
  assumes "schemeOk K ml"
  shows "Run (refusesUnknown K ml) lib w mg cl s m = Run ml lib w mg cl s m"
proof -
  note rt = schemeOkD [OF assms]
  let ?all = "\<lambda>u. range gvkOf \<subseteq> K u" and ?reg = "ml_register (refusesUnknown K ml)"
  have same: "ml_newCertWatcher (refusesUnknown K ml) = ml_newCertWatcher ml" "ml_newManager (refusesUnknown K ml) = ml_newManager ml"
    "ml_addTypes (refusesUnknown K ml) = ml_addTypes ml" "ml_addApiextensions (refusesUnknown K ml) = ml_addApiextensions ml"
    "ml_addPrometheus (refusesUnknown K ml) = ml_addPrometheus ml" "ml_addMetaTypes (refusesUnknown K ml) = ml_addMetaTypes ml"
    "ml_addCertWatcher (refusesUnknown K ml) = ml_addCertWatcher ml" "ml_addHealthzCheck (refusesUnknown K ml) = ml_addHealthzCheck ml"
    "ml_addReadyzCheck (refusesUnknown K ml) = ml_addReadyzCheck ml" "ml_start (refusesUnknown K ml) = ml_start ml"
    by (simp_all add: refusesUnknown_def)
  have mgr: "after (wrapE msg (ml_newManager ml ms)) u (\<lambda>v. builtin \<subseteq> K v)" for msg ms u
    by (rule after_wrapE) (simp add: after_def rt(1))
  have types: "after (ignoreE (AddToScheme (ml_addTypes ml))) u (\<lambda>v. builtin \<union> customTypes \<subseteq> K v)" if "builtin \<subseteq> K u" for u
    by (rule after_ignoreE) (rule whizard_types_known [OF assms that])
  have ext: "after (ignoreE (ml_addApiextensions ml)) u (\<lambda>v. builtin \<union> customTypes \<subseteq> K v)" if "builtin \<union> customTypes \<subseteq> K u" for u
    by (rule after_ignoreE) (rule order_trans [OF that rt(4)])
  have prom: "after (ignoreE (ml_addPrometheus ml)) u ?all" if "builtin \<union> customTypes \<subseteq> K u" for u
    by (rule after_ignoreE) (use rt(3) [of u] that in \<open>unfold known_kinds, blast\<close>)
  have meta: "after (ml_addMetaTypes ml) u ?all" if "?all u" for u
    by (rule after_snd) (rule order_trans [OF that rt(5)])
  have watch: "after (ml_addCertWatcher ml) u ?all" if "?all u" for u
    by (rule after_snd) (rule order_trans [OF that rt(6)])
  have add: "after (if b then wrapE msg (ml_addCertWatcher ml) else ret ()) u ?all" if "?all u" for b msg u
    using after_wrapE [OF watch [OF that]] after_ret [where P = ?all and x = "()", OF that] by simp
  have reg: "?reg c u = ml_register ml c u" if "?all u" for c u
    using that by (auto simp: refusesUnknown_def)
  have "addControllers ?reg lib w mg cl u = addControllers (ml_register ml) lib w mg cl u" if "?all u" for u
    unfolding addControllers_def
    by (rule forE_agree [where P = ?all, OF that reg]) (assumption, rule after_snd, erule order_trans, rule rt(7))
  then have ctrl: "bindE (wrapE msg (addControllers ?reg lib w mg cl)) f u = bindE (wrapE msg (addControllers (ml_register ml) lib w mg cl)) f u"
    if "?all u" for msg f u using that by (simp add: bindE_app wrapE_def handleE_case)
  show ?thesis
    unfolding Run_def same
    by (rule bindE_agree [OF after_any] bindE_agree [OF mgr] bindE_agree [OF types] bindE_agree [OF ext] bindE_agree [OF prom]
        bindE_agree [OF meta] bindE_agree [OF add] ctrl | assumption)+
qed

text \<open>A runtime whose state is its scheme, with a set-up that fails at the last moment.\<close>

definition exRuntime :: "((group_version \<times> string) set, cluster) manager_lib" where
  "exRuntime = \<lparr>ml_newCertWatcher = (\<lambda>_ _. ret ()), ml_newManager = (\<lambda>_ _. (Inr (), builtin)),
     ml_addTypes = (\<lambda>gv ts K. (Inr (), K \<union> Pair gv ` set ts)), ml_addApiextensions = failE (GoErr ''conflict''),
     ml_addPrometheus = (\<lambda>K. (Inr (), insert (gvkOf KPrometheusRule) K)), ml_addMetaTypes = ret (), ml_addCertWatcher = ret (),
     ml_register = (\<lambda>_. ret ()), ml_addHealthzCheck = ret (), ml_addReadyzCheck = ret (), ml_start = failE (GoErr ''leader election lost'')\<rparr>"

theorem registrations_known_witness:
  "schemeOk (\<lambda>K. K) exRuntime \<and>
   (\<exists>K. Run (refusesUnknown (\<lambda>K. K) exRuntime) exRuleLib exWlib exMerge memClient NewControllerManagerOptions {} =
      (Inl (Wrapped ''unable to run the manager'' (GoErr ''leader election lost'')), K))"
proof -
  have ok: "schemeOk (\<lambda>K. K) exRuntime"
    by (auto simp: schemeOk_def exRuntime_def addsTypes_def ret_def failE_def)
  have none: "mo_MetricsCertPath NewControllerManagerOptions = []" by (simp add: NewControllerManagerOptions_def)
  have "addControllers (ml_register exRuntime) exRuleLib exWlib exMerge memClient = ret ()"
    by (simp add: addControllers_def exRuntime_def)
  then have "\<exists>K. Run exRuntime exRuleLib exWlib exMerge memClient NewControllerManagerOptions {} =
      (Inl (Wrapped ''unable to run the manager'' (GoErr ''leader election lost'')), K)"
    unfolding Run_def none
    by (simp add: bindE_app ignoreE_eq wrapE_def handleE_case exRuntime_def ret_def failE_def)
  with registrations_known [OF ok] ok show ?thesis by metis
qed

text \<open>
  A failure to extend the scheme is dropped where it happens, but it does not go unnoticed: without the
  custom resources the first controller is refused.
\<close>

lemma unknown_kinds_refused:
  assumes "\<And>c m. \<not> gvkOf ` kindsUsed c \<subseteq> K m \<Longrightarrow> \<exists>e m'. ml_register ml c m = (Inl e, m')" and "gvkOf KGateway \<notin> K m"
  shows "\<exists>e m'. wrapE msg (addControllers (ml_register ml) lib w mg cl) m = (Inl (Wrapped msg e), m')"
proof -
  have "\<not> gvkOf ` kindsUsed (GatewayReconciler_SetupWithManager cl) \<subseteq> K m"
    using assms(2) by (simp add: kindsUsed_def setup_defs)
  then obtain e m' where "ml_register ml (GatewayReconciler_SetupWithManager cl) m = (Inl e, m')" using assms(1) by blast
  then show ?thesis by (simp add: addControllers_def wrapE_Inl)
qed

text \<open>
  The status of the process: 1 when the command line is refused, 255 when the manager fails, 0 otherwise.
\<close>

lemma manager_status:
  "parse args = Inl e \<Longrightarrow> controllerManager_main parse ml lib w mg cl args m = (Inr 1, m)"
  "parse args = Inr (RunManager p) \<Longrightarrow> ControllerManagerOptions_Flags p NewControllerManagerOptions = Inl e \<Longrightarrow>
     controllerManager_main parse ml lib w mg cl args m = (Inr 1, m)"
  "parse args = Inr (RunManager p) \<Longrightarrow> ControllerManagerOptions_Flags p NewControllerManagerOptions = Inr s \<Longrightarrow>
     Run ml lib w mg cl s m = (r, m') \<Longrightarrow>
     controllerManager_main parse ml lib w mg cl args m = (Inr (case r of Inl _ \<Rightarrow> 255 | Inr _ \<Rightarrow> 0), m')"
  by (simp_all add: controllerManager_main_def NewControllerManagerCommand_def ControllerManagerOptions_Validate_def
      handleE_def bindE_def liftE_def ret_def split: sum.split)

text \<open>
  A configuration file that cannot be read is not reported: the error is overwritten by that of
  decoding, and a second call reports none at all.
\<close>

lemma load_error_lost:
  assumes "\<not> ls_Loaded st"
  shows "fst (loadFromDisk (Some (e, False)) None st) = Inr None"
    and "fst (loadFromDisk r d (snd (loadFromDisk r d st))) = Inr None"
  using assms by (simp_all add: loadFromDisk_def)

text \<open>
  However often the watch is asked for, a change is offered once; nothing is offered for a file that
  cannot be decoded or before the watch.
\<close>

lemma watch_once:
  "watchConfig (watchConfig st) = watchConfig st"
  "wst_Handlers st = 0 \<Longrightarrow> \<not> wst_Watching st \<Longrightarrow>
     wst_Offered (configChanged None ((watchConfig ^^ Suc n) st)) = wst_Offered st + 1"
proof -
  show same: "watchConfig (watchConfig st) = watchConfig st" for st by (simp add: watchConfig_def)
  have "(watchConfig ^^ Suc n) st = watchConfig st" by (induction n) (simp_all add: same)
  then show "wst_Handlers st = 0 \<Longrightarrow> \<not> wst_Watching st \<Longrightarrow>
     wst_Offered (configChanged None ((watchConfig ^^ Suc n) st)) = wst_Offered st + 1"
    by (simp add: configChanged_def watchConfig_def)
qed

text \<open>The map hides what is tagged with a minus sign and names the other fields.\<close>

lemma toMapFields_dom:
  "dom (toMapFields fs result) = dom result \<union> {name \<in> (\<lambda>f. splitOn CHR '','' (fst f) ! 0) ` set fs. \<not> hasPrefix name ''-''}"
proof (induction fs arbitrary: result)
  case (Cons f fs)
  obtain tag isNil where "f = (tag, isNil)" by (cases f)
  then show ?case
    unfolding \<open>f = _\<close> toMapFields.simps Let_def
    by (cases "hasPrefix (splitOn CHR '','' tag ! 0) ''-''"; simp add: Cons.IH del: fun_upd_apply; blast)
qed simp

text \<open>The three hooks do not get in each other's way: each leaves what is not its own as it is.\<close>

lemma hooks_apart:
  "t \<noteq> TQuantity \<Longrightarrow> StringToResourceQuantityHookFunc pq t d = Inr d" "t \<noteq> TTime \<Longrightarrow> StringToMetav1TimeHookFunc z um t d = Inr d"
  "t \<noteq> TDuration \<Longrightarrow> StringToMetav1DurationHookFunc pd t d = Inr d"
  by (simp_all add: StringToResourceQuantityHookFunc_def StringToMetav1TimeHookFunc_def StringToMetav1DurationHookFunc_def stringHook_def
      split: hook_data.split)

end
