(* ===== verification/Spec2Isabelle.thy ===== *)
theory Spec2Isabelle
  imports Tenant_Lifecycle Gateway_Watcher Ingester_Controller Compactor_Workload Store_Workload
    Router_Workload Block_Manager Query_Workload Frontend_Workload Storage_Workload Gateway_Workload Ruler_Workload Agent_Proxy
    Envoy_Config Gateway_Shutdown Controller_Manager Controller_System Gateway_Process Agent_Process Manager_Process
begin

text \<open>
  \<^bold>\<open>A verification library for Whizard\<close>

  Whizard (\<^verbatim>\<open>src/\<close>) is a Kubernetes operator that runs Thanos for many tenants.  Custom
  resources describe services, tenants, storages and the components that serve them; the
  controllers of \<^verbatim>\<open>pkg/controllers\<close> watch these resources and bring the cluster into line, and
  the monitoring gateway of \<^verbatim>\<open>pkg/monitoring-gateway\<close> is the HTTP front through which tenants
  query and write.  The parts interact through the API server (shared state: every controller reads
  and writes custom resources there) and through the tenants file that the gateway watches.

  \<^bold>\<open>Layout.\<close>
  \<^item> \<^verbatim>\<open>Prelude\<close>: errors as values, actions (state passing with errors, the shape of every
    reconciler), the part of the Go string library the sources use, association lists for Go maps
    that are iterated over, with the order of iteration as a parameter.
  \<^item> \<^verbatim>\<open>Kube_Types\<close>, \<^verbatim>\<open>Api_Types\<close>: the Kubernetes objects the code builds, and the custom
    resources of \<^verbatim>\<open>pkg/api/monitoring/v1alpha1\<close> field by field.  Numbers keep Go's range where
    it matters (counters are mathematical integers otherwise).
  \<^item> \<^verbatim>\<open>Kube_Client\<close>: the API client as an interface.  The reconcilers take a record of client
    operations; \<open>clientOk cl V\<close> says through a view \<open>V\<close> of the state what a quiescent API server
    promises (a get returns what was stored, an update of a current object is stored, a delete
    removes or waits for finalizers, generated names are fresh).  An in-memory client satisfies it,
    which is what the witnesses run.
  \<^item> \<^verbatim>\<open>Util_Lib\<close>: \<^verbatim>\<open>pkg/util\<close> (create-or-update with metadata merging and retry, labels,
    relabel configuration, errors, claims).
  \<^item> \<^verbatim>\<open>Base_Reconciler\<close>, \<^verbatim>\<open>Storage_Config\<close>: \<^verbatim>\<open>pkg/controllers/resources/base.go\<close>
    (the service of a component, applying resources, storage configuration with its YAML tree,
    volumes).
  \<^item> \<^verbatim>\<open>Tenant_Binding\<close>: what the three bindings of a tenant share, as the locales
    \<open>tenant_binding\<close> (when is a recorded binding to be reset) and \<open>saved_kind\<close> (what a save of an
    object does), interpreted for ingesters, compactors and rulers.
  \<^item> \<^verbatim>\<open>Tenant_Ingester\<close>, \<^verbatim>\<open>Tenant_Compactor\<close>, \<^verbatim>\<open>Tenant_Ruler\<close>, \<^verbatim>\<open>Tenant_Store\<close>,
    \<^verbatim>\<open>Tenant_Controller\<close>: the files of \<^verbatim>\<open>pkg/controllers/resources/tenant\<close> and
    \<^verbatim>\<open>tenant_controller.go\<close>, one whole handler each, with its state changes in the order of the code.
    \<^verbatim>\<open>Tenant_Lifecycle\<close> runs the four halves one after the other and the controller again and
    again, in a small logic of actions that succeed (\<open>reaches\<close>).
  \<^item> \<^verbatim>\<open>Http_Url\<close>, \<^verbatim>\<open>Gateway_Remote\<close>, \<^verbatim>\<open>Gateway_Handler\<close>, \<^verbatim>\<open>Gateway_Watcher\<close>: the
    gateway.  A handler maps a request to the list of what it does (errors written, requests handed
    to a proxy, external sends, panics); the locale \<open>confined_handler\<close> carries what a handler
    promises through the wrapper and is interpreted for the four handlers; the configuration
    watcher, its forwarder and the consumer are a step relation with an invariant over all
    interleavings.
  \<^item> \<^verbatim>\<open>Agent_Proxy\<close>: \<^verbatim>\<open>pkg/monitoring-agent-proxy\<close>, the proxy in front of the gateway that adds
    the tenant to a request, and the way of a request through both.
  \<^item> \<^verbatim>\<open>Workload_Common\<close>: what the workloads share: ports, probes, the merging of user flags into
    the arguments of a container (the locale \<open>flag_set\<close>, interpreted for ingester, compactor, store,
    router, query, query frontend and ruler), containers that are updated in place, patched containers.  \<^verbatim>\<open>Service_Defaults\<close> is
    \<^verbatim>\<open>service.go\<close>, \<^verbatim>\<open>Web_Config\<close> is \<^verbatim>\<open>web_config.go\<close>, \<^verbatim>\<open>Controller_Common\<close> the
    beginning of every controller and its event handlers.  \<^verbatim>\<open>Cleanup_Script\<close> is the bash script of the init container
    of an ingester, with the word splitting and the pathname expansion of its unquoted expansions.
  \<^item> \<^verbatim>\<open>Ingester_Workload\<close> and \<^verbatim>\<open>Ingester_Controller\<close>, \<^verbatim>\<open>Compactor_Workload\<close>,
    \<^verbatim>\<open>Store_Workload\<close>, \<^verbatim>\<open>Router_Workload\<close>: the packages of \<^verbatim>\<open>pkg/controllers/resources\<close> of
    these names, each with its controller.  A resource is an action that computes an object and what
    to do with it.
  \<^item> \<^verbatim>\<open>Net_Url\<close>: what the workloads use of \<^verbatim>\<open>net/url\<close>, \<^verbatim>\<open>net\<close>, \<^verbatim>\<open>path\<close> and
    \<^verbatim>\<open>strconv\<close>: parsing and printing of URLs, host and port, clean paths, 32-bit numbers.
  \<^item> \<^verbatim>\<open>Query_Workload\<close>, \<^verbatim>\<open>Frontend_Workload\<close>, \<^verbatim>\<open>Gateway_Workload\<close>, \<^verbatim>\<open>Storage_Workload\<close>:
    the packages \<^verbatim>\<open>query\<close> (with the text of the proxy configuration, its listen ports on 32-bit
    words), \<^verbatim>\<open>queryfrontend\<close>, \<^verbatim>\<open>gateway\<close> (the custom resource, which generating the web
    configuration changes in memory, is passed on explicitly) and \<^verbatim>\<open>storage\<close> (containers of a stored deployment updated in place), with
    their controllers.
  \<^item> \<^verbatim>\<open>Ruler_Rules\<close>: \<^verbatim>\<open>ruler/configmap.go\<close>, \<^verbatim>\<open>ruler.go\<close> and \<^verbatim>\<open>service.go\<close>; the
    hash is computed on 64-bit words.  \<^verbatim>\<open>Ruler_Workload\<close>: \<^verbatim>\<open>ruler/statefulset.go\<close> and
    \<^verbatim>\<open>ruler_controller.go\<close>.
  \<^item> \<^verbatim>\<open>Block_Manager\<close>: \<^verbatim>\<open>pkg/block/block-manager.go\<close>, over an environment of HTTP requests and
    commands.

  \<^item> \<^verbatim>\<open>Envoy_Config\<close>: \<^verbatim>\<open>pkg/util/envoy_config.go\<close>, the functions \<^verbatim>\<open>envoyConfigMap\<close> and the query
    proxy of the ruler, which the repository keeps and does not call at present.
  \<^item> \<^verbatim>\<open>Controller_Manager\<close>: the methods \<^verbatim>\<open>SetupWithManager\<close> as data (what a controller watches and how an event
    becomes requests), \<^verbatim>\<open>addControllers\<close>, and what the controller runtime does with them; the locale
    \<open>selector_watch\<close> carries what a watch by labels promises and is interpreted for twelve watches.
  \<^item> \<^verbatim>\<open>Api_Scheme\<close>: the types that \<^verbatim>\<open>pkg/api/monitoring/v1alpha1\<close> and \<^verbatim>\<open>pkg/apis\<close> make known to the scheme of a
    program.
  \<^item> \<^verbatim>\<open>Command_Line\<close>: the command line libraries as a parser of flags with the contracts \<open>parserOk\<close> and, where it may
    refuse values, \<open>parserOkFor\<close>.
    \<^verbatim>\<open>Gateway_Process\<close>, \<^verbatim>\<open>Agent_Process\<close>, \<^verbatim>\<open>Manager_Process\<close>: the programs of \<^verbatim>\<open>cmd/\<close> (flags,
    set-up, actors, error paths) with \<^verbatim>\<open>pkg/monitoring-gateway/config.go\<close> and
    \<^verbatim>\<open>pkg/controllers/config/config.go\<close>.
  \<^item> \<^verbatim>\<open>Gateway_Shutdown\<close>: the end of the gateway process, an extension of the step relation of the watcher
    by the consumer and the group of actors.
  \<^item> \<^verbatim>\<open>Action_Logic\<close>: a logic for invariants of actions (\<open>keeps I R m\<close>), with a contract of the API
    server, \<open>safeKind\<close>, that allows failures, stale reads and other writers.  \<^verbatim>\<open>Workload_Safety\<close> proves in it, in the
    locale \<open>served\<close>, that the component controllers leave the tenant lists of ingesters and compactors
    alone; \<^verbatim>\<open>Controller_System\<close> does the tenant and compactor controllers, and puts the ten controllers
    together as the relation \<open>run\<close>; the locale is interpreted on the in-memory client.

  \<^bold>\<open>What is shown.\<close>  The binding handlers reach a bound tenant in a bounded number of
  reconciliations, keep capacities, change nothing else and release what they bound; together they
  bind a new tenant completely by the fourth reconciliation and keep it bound (\<open>new_tenant_settles\<close>), and a
  tenant that is deleted leaves in one (\<open>deleted_tenant_leaves\<close>); stores are
  exactly those the tenants need, each by the service and the storage it names itself, where no tenant relies on the
  default of a service with another storage than that of the tenant reconciled (\<open>ownStorages\<close>); events are mapped to exactly the tenants concerned; a saved object
  has the desired content and keeps foreign metadata.  At the gateway, every request forwarded from
  a tenant route is confined to the tenant of the path, and admission control follows the tenants
  file in every interleaving, without interrupting a tenant that is kept, and without getting
  stuck before the process is interrupted.  The ingester controller keeps the tenants of an ingester in its status, so that the clean-up
  of its data spares every tenant it serves whose name bash leaves alone, and recycles an idle ingester at the deadline; the router
  finds for every bound tenant an ingester that has it; the rules of a ruler are partitioned over its
  shards and packed within the size limit, and rulers do not touch each other's config maps or
  stateful sets; the endpoints of a store are its services; the block manager marks exactly the blocks of
  tenants it does not know.  The components are wired to each other: the query component asks all
  ingesters, stores and rulers of its service, the gateway the query frontend or query component, the
  ruler the gateway, each with the scheme the other side serves; stores behind a proxy get listeners of
  their own; the pods of the gateway carry the hash of the web configuration they are given.  Two
  properties compose parts: what the tenant controller binds the router finds
  (\<open>bound_tenant_routed\<close>), and the tenants of the cluster are those the running gateway admits
  (\<open>cluster_tenants_admitted\<close>); a third one follows a request from the agent proxy through the
  gateway (\<open>agent_request_roundtrip\<close>).  The processes are covered from the
  command line on: the arguments that the gateway controller puts into the deployment configure the process it
  starts (\<open>gateway_process_configured\<close>), likewise for the block manager (\<open>block_manager_configured\<close>); the manager
  starts all ten controllers or none (\<open>manager_starts_complete\<close>), and none of them is refused for a kind that its scheme
  does not know (\<open>registrations_known\<close>).  Whenever the endpoints of a query component or the
  hashrings of a router would change, some controller is asked to reconcile
  (\<open>configuration_change_noticed\<close>).  In every interleaving of the ten controllers, with any failures and stale
  reads, ingesters and compactors keep their capacity (\<open>capacity_invariant\<close>).
  Where the code does not do what it means to, the theorem states what it does
  (\<open>unauthorized_still_served\<close>, \<open>post_body_drained\<close>, \<open>Tenant_compactor_name_mismatch\<close>,
  \<open>Tenant_store_foreign_default\<close>, \<open>pattern_tenant_removed\<close>, \<open>unlabelled_tenant_untouched\<close>, \<open>compactor_deletion_stuck\<close>,
  \<open>partition_names\<close>, \<open>ruleFile_clash\<close>, \<open>query_misses_template_shards\<close>,
  \<open>gateway_rules_tls_mismatch\<close>, \<open>gc_image_kept\<close>, \<open>ruler_label_flag_drops_replica\<close>,
  \<open>updates_unnoticed\<close>, \<open>store_event_lost\<close>, \<open>shutdown_can_hang\<close>, \<open>stale_binding_lost\<close>, \<open>agent_without_tenant_idles\<close>).

  \<^bold>\<open>Parameters.\<close>  Code outside the repository is an argument: the API client, durations, the
  clock, MD5, DNS label mangling and the iteration order of Go maps (record \<open>ext\<close>), YAML, PromQL
  (record \<open>promql\<close>), owner references, raw containers and duration strings (record \<open>wlib\<close>), the merging
  of templates (\<open>merge_lib\<close>), selectors and rule validation (\<open>rule_lib\<close>),
  the encoders, random numbers and \<^verbatim>\<open>bcrypt\<close> of the later workloads (\<open>query_lib\<close>, \<open>frontend_lib\<close>,
  \<open>gateway_lib\<close>, \<open>ruler_wlib\<close>), the HTTP transport, the router's choice of a route, the file system and the
  JSON decoder (record \<open>watch_env\<close>), the command line parsers, HTTP client configuration and TLS set-up of the
  processes (\<open>gateway_plib\<close>, \<open>agent_plib\<close>), the manager of the controller runtime with its scheme (\<open>manager_lib\<close>),
  what the block manager builds its client from (\<open>kube_setup\<close>), and the commands of the clean-up script and its
  pathname expansion (\<open>shell\<close>).  The choice of a hashring by the Thanos receiver (\<open>hashringFor\<close>, the first one that
  lists the tenant or lists none) is vocabulary of a specification and models no code of the repository.

  \<^bold>\<open>Bounds.\<close>  All functions are total.  Retries on conflict have the library's default number of
  attempts; a quiescent server never needs them.  Loops over finite lists are structural; the endless
  loop of the block manager is run for the number of times its timer fires before the context is
  done, which is any number in the theorems.

  \<^bold>\<open>Not modelled.\<close>  Generated code (deep copies).  Logging and metrics registration, which only call libraries.  Code that is commented
  out (\<^verbatim>\<open>store/hpa.go\<close> and a part of \<^verbatim>\<open>ruler/statefulset.go\<close>), constants that nothing uses, and the
  end-to-end test helpers.  Metrics and log lines of modelled code are dropped.  What the reverse proxy of the
  standard library does to a request after it was handed over (it takes off hop-by-hop headers).  Of the actors of the
  gateway process the shutdown covers the forwarder and the consumer; the HTTP server and the signal actors end by
  themselves when they are interrupted.
\<close>

section \<open>Across components\<close>

text \<open>
  C1: what the tenant controller binds the router finds.  Once the status of a tenant names an
  ingester that fits it, the hashrings that the router controller generates for the service of the
  tenant send the series of the tenant to the pods of an ingester that lists the tenant, and never to
  the ring of the soft tenants.
\<close>

theorem bound_tenant_routed:
  assumes ok: "clientOk cl V" and sv: "map_of (c_services (V s)) (objectKey sv) = Some sv"
    and plain: "CHR ''.'' \<notin> set (om_Namespace sv)" "CHR ''.'' \<notin> set (om_Name sv)"
    and bound: "ingesterBound (Some sv') t (V s)" and label: "serviceLabel t = om_Namespace sv @ ''.'' @ om_Name sv"
    and hs: "hashringsOf cl (withServiceDefaults sv) s = (Inr hs, s')"
  shows "\<exists>h ig addrs. hashringFor hs (tenantId t) = Some h \<and> ig \<in> snd ` set (c_ingesters (V s)) \<and>
    tenantId t \<in> set (ig_Tenants (ig_Spec ig)) \<and> Ingester_Address (withServiceDefaults sv) ig = Inr addrs \<and>
    hr_Endpoints h = map endpointOf addrs"
proof -
  obtain ref ig where "map_of (c_ingesters (V s)) (refKey ref) = Some ig" "boundTo ingesterTenants (Some sv') t ig"
    using bound unfolding ingesterBound_def by blast
  then have "ig \<in> snd ` set (c_ingesters (V s))" "tenantId t \<in> set (ig_Tenants (ig_Spec ig))"
    "ManagedLabelByService sv \<subseteq>\<^sub>m om_Labels ig"
    using label by (force simp: boundTo_def ManagedLabelByService_def map_le_def dest: map_of_SomeD)+
  then show ?thesis using hashrings_route [OF ok sv plain hs, of "tenantId t"] by (auto split: if_splits)
qed

text \<open>A tenant of the example service that is bound, and its ingester.\<close>

definition exBoundTenant :: tenant where
  "exBoundTenant = setStatusIngester (Some \<lparr>oref_Namespace = ''ns'', oref_Name = ''i''\<rparr>) (exTenant ''a'' Map.empty)"

definition exBoundIngester :: ingester where
  "exBoundIngester = exIngester\<lparr>om_Labels := [ServiceLabelKey \<mapsto> ''ns.svc'', StorageLabelKey \<mapsto> ''ns.s3'']\<rparr>"

theorem bound_tenant_routed_witness:
  "\<exists>hs h ig addrs. hashringsOf memClient (withServiceDefaults exService) (exCluster [exBoundTenant] [exBoundIngester] []) =
       (Inr hs, exCluster [exBoundTenant] [exBoundIngester] []) \<and>
     hashringFor hs ''a'' = Some h \<and> ig \<in> {exBoundIngester} \<and>
     Ingester_Address (withServiceDefaults exService) ig = Inr addrs \<and> hr_Endpoints h = map endpointOf addrs"
proof -
  let ?c = "exCluster [exBoundTenant] [exBoundIngester] []" and ?svc = "withServiceDefaults exService"
  have sv: "map_of (c_services ?c) (objectKey exService) = Some exService" by (simp add: exCluster_def)
  have plain: "CHR ''.'' \<notin> set (om_Namespace exService)" "CHR ''.'' \<notin> set (om_Name exService)"
    by (simp_all add: exService_def)
  have sel: "ManagedLabelByService exService \<subseteq>\<^sub>m om_Labels exBoundIngester"
    by (simp add: exBoundIngester_def ManagedLabelByService_def exService_def map_le_def key_simps)
  have New: "Ingester_New memClient exBoundIngester ?c = (Inr ?svc, ?c)"
    unfolding Ingester_New_def by (rule SetService_of_selected [OF memClient_ok sv plain sel])
  have tenants: "ig_Tenants (ig_Spec exBoundIngester) = [''a'']" by (simp add: exBoundIngester_def exIngester_def)
  have addr: "Ingester_Address ?svc exBoundIngester = Inr [podAddr exBoundIngester 0]"
    by (simp add: Ingester_Address_def ingesterReplicas_def exBoundIngester_def exIngester_def)
  have same: "ManagedLabelByService ?svc = ManagedLabelByService exService"
    by (simp add: ManagedLabelByService_def withServiceDefaults_def Let_def)
  have list: "kList (ingesters memClient) \<lparr>lo_Namespace = [], lo_Labels = ManagedLabelByService ?svc\<rparr> ?c =
      (Inr [exBoundIngester], ?c)"
    using sel by (simp add: memClient_def memKind_def exCluster_def matchesOpts_def same)
  obtain hs where hs: "hashringsOf memClient ?svc ?c = (Inr hs, ?c)"
    by (simp add: hashringsOf_def list addIngester_def bindE_app New tenants addr)
  have id: "tenantId exBoundTenant = ''a''" by (simp add: exBoundTenant_def exTenant_def)
  have bound: "ingesterBound (Some exService) exBoundTenant ?c"
  proof -
    have "map_of (c_tenants ?c) (objectKey exBoundTenant) = Some exBoundTenant" by simp
    moreover have "statusIngester exBoundTenant = Some (refTo exBoundIngester)"
      by (simp add: exBoundTenant_def setStatusIngester_def refTo_def exBoundIngester_def exIngester_def)
    moreover have "map_of (c_ingesters ?c) (refKey (refTo exBoundIngester)) = Some exBoundIngester"
      by (simp add: exCluster_def refKey_def refTo_def objectKey_def)
    moreover have "boundTo ingesterTenants (Some exService) exBoundTenant exBoundIngester"
      by (simp add: boundTo_def id tenants labelTrue_def)
        (simp add: exBoundTenant_def exBoundIngester_def setStatusIngester_def exTenant_def exService_def mget_def
          key_simps GetStorage_def DefaultStorage_def)
    ultimately show ?thesis unfolding ingesterBound_def by blast
  qed
  have label: "serviceLabel exBoundTenant = om_Namespace exService @ ''.'' @ om_Name exService"
    by (simp add: exBoundTenant_def exTenant_def exService_def mget_def key_simps)
  have igs: "snd ` set (c_ingesters ?c) = {exBoundIngester}" by (simp add: exCluster_def)
  show ?thesis
    using bound_tenant_routed [OF memClient_ok sv plain bound label hs] hs unfolding igs id by blast
qed

lemma admittedTenants_iff:
  "t \<in> set (admittedTenants gw items) \<longleftrightarrow> (\<exists>tn \<in> set items. tenantId tn = t \<and> om_DeletionTimestamp tn = None \<and>
     om_Labels tn ServiceLabelKey = Some (mget (om_Labels gw) ServiceLabelKey))"
proof -
  have "(case om_Labels tn ServiceLabelKey of None \<Rightarrow> False | Some v \<Rightarrow> mget (om_Labels gw) ServiceLabelKey = v) \<longleftrightarrow>
      om_Labels tn ServiceLabelKey = Some (mget (om_Labels gw) ServiceLabelKey)" for tn :: tenant
    by (cases "om_Labels tn ServiceLabelKey") auto
  then show ?thesis by (auto simp: admittedTenants_def)
qed

text \<open>
  C2: the tenants of the cluster are the tenants the gateway admits.  Take the config map that the gateway
  controller generates for admission control, and any state of the running gateway that has loaded
  this file and has no update on its way: a tenant is admitted exactly when the cluster has a tenant of
  this id which is labelled with the service of the gateway and is not being deleted.  That the
  encoder of one program and the decoder of the other agree is a hypothesis, as is that the hash
  tells the contents of the file apart.
\<close>

theorem cluster_tenants_admitted:
  assumes ok: "clientOk cl V" and on: "gw_EnabledTenantsAdmission (gw_Spec gw)" "op_EnabledTenantsAdmission opts"
    and map: "tenantsAdmissionConfigMap gl w cl svc gw s = (Inr (OConfigMap cm, OperationCreateOrUpdate), s')"
    and fileIs: "pl_File p = Inr (mget (cm_Data cm) tenantsAdmissionConfigFile)" "mget (cm_Data cm) tenantsAdmissionConfigFile \<noteq> []"
    and json: "\<And>ts b. gl_jsonAdmission gl ts = Inr b \<Longrightarrow> ParseConfig env b = Inr ts"
    and run: "preach env opts fl p" "\<not> pl_Canceled p" "inFlight p = []"
    and seen: "cw_lastLoadedConfigHash (pl_Watcher p) = hashAsMetricValue env (mget (cm_Data cm) tenantsAdmissionConfigFile)"
      "cw_lastLoadedConfigHash (pl_Watcher p) \<noteq> 0"
    and hash: "\<And>y. hashAsMetricValue env y = hashAsMetricValue env (mget (cm_Data cm) tenantsAdmissionConfigFile) \<Longrightarrow>
      ParseConfig env y = ParseConfig env (mget (cm_Data cm) tenantsAdmissionConfigFile)"
    and ids: "\<forall>c \<in> set (pl_Applied p). configKey \<notin> set c"
  shows "\<exists>m. pl_Admission p = Inr m \<and> (\<forall>t. t \<noteq> configKey \<longrightarrow>
    (m t \<noteq> None \<longleftrightarrow> (\<exists>tn \<in> snd ` set (c_tenants (V s)). tenantId tn = t \<and> om_DeletionTimestamp tn = None \<and>
       om_Labels tn ServiceLabelKey = Some (mget (om_Labels gw) ServiceLabelKey))))"
proof -
  let ?f = "mget (cm_Data cm) tenantsAdmissionConfigFile" and ?ts = "admittedTenants gw (map snd (c_tenants (V s)))"
  have "gl_jsonAdmission gl ?ts = Inr ?f"
    using map on(1) kindOk_list [OF clientOk_kinds(1) [OF ok], of "\<lparr>lo_Namespace = [], lo_Labels = Map.empty\<rparr>" s]
    by (auto simp: tenantsAdmissionConfigMap_def Let_def bindE_app ownedBy_def bindR_def matchesOpts_def mget_def split: sum.splits)
  then have load: "loadConfig env (Inr ?f) = Inr (?ts, hashAsMetricValue env ?f)"
    using json fileIs(2) by (simp add: loadConfig_def)
  obtain m where "pl_Admission p = Inr m" "\<forall>t. t \<noteq> configKey \<longrightarrow> (m t \<noteq> None \<longleftrightarrow> t \<in> set ?ts)"
    using quiescent_follows_file [OF run on(2) fileIs(1) load seen(1) _ hash ids] seen by auto
  then show ?thesis unfolding admittedTenants_iff set_map by blast
qed

text \<open>The gateway of the example service with admission control, and an encoder for lists of one tenant.\<close>

definition exAdmissionGateway :: gateway where
  "exAdmissionGateway = exGateway\<lparr>gw_Spec := zeroGatewaySpec\<lparr>gw_EnabledTenantsAdmission := True\<rparr>\<rparr>"

definition exAdmissionLib :: gateway_lib where
  "exAdmissionLib = exGatewayLib\<lparr>gl_jsonAdmission := \<lambda>ts. case ts of [t] \<Rightarrow> Inr t | _ \<Rightarrow> Inl (GoErr ''json'')\<rparr>"

theorem cluster_tenants_admitted_witness:
  "let s = exCluster [exTenant ''t1'' Map.empty] [] [] in
   \<exists>cm p m. tenantsAdmissionConfigMap exAdmissionLib exWlib memClient exService exAdmissionGateway s =
       (Inr (OConfigMap cm, OperationCreateOrUpdate), s) \<and>
     preach exEnv exOptions (Inr (mget (cm_Data cm) tenantsAdmissionConfigFile)) p \<and>
     pl_Admission p = Inr m \<and> m ''t1'' \<noteq> None \<and> m ''t2'' = None"
proof -
  let ?t = "exTenant ''t1'' Map.empty"
  let ?s = "exCluster [?t] [] []"
  have label: "om_Labels ?t ServiceLabelKey = Some ''ns.svc''" "om_DeletionTimestamp ?t = None" "tenantId ?t = ''t1''"
    "mget (om_Labels exAdmissionGateway) ServiceLabelKey = ''ns.svc''"
    by (simp_all add: exTenant_def zeroTenant_def exAdmissionGateway_def ex_gateway_defs mget_def)
  then have adm: "admittedTenants exAdmissionGateway [?t] = [''t1'']" by (simp add: admittedTenants_def)
  have on: "gw_EnabledTenantsAdmission (gw_Spec exAdmissionGateway)" "op_EnabledTenantsAdmission exOptions"
    by (simp_all add: exAdmissionGateway_def exOptions_def)
  have all: "kList (tenants memClient) \<lparr>lo_Namespace = [], lo_Labels = Map.empty\<rparr> ?s = (Inr [?t], ?s)"
    by (simp add: memClient_def memKind_def exCluster_def matchesOpts_def)
  obtain cm where cm: "tenantsAdmissionConfigMap exAdmissionLib exWlib memClient exService exAdmissionGateway ?s =
      (Inr (OConfigMap cm, OperationCreateOrUpdate), ?s)" "cm_Data cm = [tenantsAdmissionConfigFile \<mapsto> ''t1'']"
    by (simp add: tenantsAdmissionConfigMap_def Let_def on(1) bindE_app all adm exAdmissionLib_def ownedBy_def exWlib_def)
  have data: "mget (cm_Data cm) tenantsAdmissionConfigFile = ''t1''" by (simp add: cm(2) mget_def)
  have json: "gl_jsonAdmission exAdmissionLib ts = Inr b \<Longrightarrow> ParseConfig exEnv b = Inr ts" for ts b
    by (auto simp: exAdmissionLib_def ParseConfig_def exEnv_def split: list.splits)
  obtain p where p: "preach exEnv exOptions (Inr ''t1'') p" "\<not> pl_Canceled p" "inFlight p = []"
    "pl_File p = Inr ''t1''" "cw_lastLoadedConfigHash (pl_Watcher p) = 1" "pl_Applied p = [[''t1'']]"
    using preach_first [OF exEnv_load, of exOptions] by auto
  have "\<exists>m. pl_Admission p = Inr m \<and> (\<forall>t. t \<noteq> configKey \<longrightarrow>
    (m t \<noteq> None \<longleftrightarrow> (\<exists>tn \<in> snd ` set (c_tenants ?s). tenantId tn = t \<and> om_DeletionTimestamp tn = None \<and>
       om_Labels tn ServiceLabelKey = Some (mget (om_Labels exAdmissionGateway) ServiceLabelKey))))"
    by (rule cluster_tenants_admitted [OF memClient_ok on cm(1) _ _ json p(1-3)])
      (simp_all add: data p exEnv_hash configKey_def split: if_splits)
  moreover have "snd ` set (c_tenants ?s) = {?t}" by (simp add: exCluster_def)
  ultimately obtain m where m: "pl_Admission p = Inr m" "\<forall>t. t \<noteq> configKey \<longrightarrow> (m t \<noteq> None \<longleftrightarrow> ''t1'' = t)"
    using label by auto
  have "m ''t1'' \<noteq> None" "m ''t2'' = None"
    using m(2) [rule_format, of "''t1''"] m(2) [rule_format, of "''t2''"] by (simp_all add: configKey_def)
  with cm(1) p(1) m(1) show ?thesis unfolding Let_def by (metis data)
qed

end
